(* ===== verification/Prelude.thy ===== *)
theory Prelude
  imports Complex_Main
begin

text \<open>
  Shared vocabulary of the development: Python strings, errors, clamping and rounding, and
  the generic list lemmas the components use.

  A Python \<open>str\<close> is an Isabelle \<open>string\<close> whose characters are the code points 0 to 255; the
  white space and the case mapping are the ones Python uses on these code points. Times in
  seconds and other floats that the code only adds, subtracts and compares are reals;
  Python integers are \<open>int\<close>.
\<close>

named_theorems op_defs "definitions of the operations of a component"
named_theorems inv_rules "preservation of a component's invariant by its operations"

section \<open>Errors\<close>

datatype py_error =
    ValueError string
  | RuntimeError string
  | TypeError string
  | KeyError string
  | OverflowError string
  | AttributeError string
  | AssertionError string

type_synonym 'a result = "py_error + 'a"

section \<open>Strings\<close>

definition py_space :: "char \<Rightarrow> bool" where
  "py_space c \<longleftrightarrow> c \<in> {CHR 0x09, CHR 0x0A, CHR 0x0B, CHR 0x0C, CHR 0x0D, CHR 0x1C, CHR 0x1D,
     CHR 0x1E, CHR 0x1F, CHR 0x20, CHR 0x85, CHR 0xA0}"

definition py_lower_char :: "char \<Rightarrow> char" where
  "py_lower_char c =
     (let n = of_char c :: nat
      in if 65 \<le> n \<and> n \<le> 90 \<or> 192 \<le> n \<and> n \<le> 222 \<and> n \<noteq> 215 then char_of (n + 32) else c)"

definition py_lower :: "string \<Rightarrow> string" where
  "py_lower s = map py_lower_char s"

definition py_strip :: "string \<Rightarrow> string" where
  "py_strip s = rev (dropWhile py_space (rev (dropWhile py_space s)))"

definition py_replace_char :: "char \<Rightarrow> char \<Rightarrow> string \<Rightarrow> string" where
  "py_replace_char a b s = map (\<lambda>c. if c = a then b else c) s"

definition py_startswith :: "string \<Rightarrow> string \<Rightarrow> bool" where
  "py_startswith s p \<longleftrightarrow> take (length p) s = p"

definition py_remove_prefix :: "string \<Rightarrow> string \<Rightarrow> string" where
  "py_remove_prefix p s = (if py_startswith s p then drop (length p) s else s)"

text \<open>\<open>value.strip().lower()\<close>\<close>

definition norm_text :: "string \<Rightarrow> string" where
  "norm_text s = py_lower (py_strip s)"

lemma py_lower_char_idem [simp]: "py_lower_char (py_lower_char c) = py_lower_char c"
proof -
  have b: "of_char c < (256::nat)" by simp
  show ?thesis
    using b by (auto simp: py_lower_char_def Let_def)
qed

lemma py_lower_idem [simp]: "py_lower (py_lower s) = py_lower s"
  by (simp add: py_lower_def)

lemma py_space_code:
  "py_space c \<longleftrightarrow> (let n = of_char c :: nat in 9 \<le> n \<and> n \<le> 13 \<or> 28 \<le> n \<and> n \<le> 32 \<or> n = 133 \<or> n = 160)"
proof -
  have "c = char_of (of_char c :: nat)" by simp
  moreover have "of_char c < (256::nat)" by simp
  moreover have "\<And>n::nat. n < 256 \<Longrightarrow> py_space (char_of n) \<longleftrightarrow>
      9 \<le> n \<and> n \<le> 13 \<or> 28 \<le> n \<and> n \<le> 32 \<or> n = 133 \<or> n = 160"
    by (auto simp: py_space_def char_of_eq_iff take_bit_eq_mod)
  ultimately show ?thesis unfolding Let_def by metis
qed

lemma py_space_lower_char [simp]: "py_space (py_lower_char c) = py_space c"
proof -
  have b: "of_char c < (256::nat)" by simp
  then show ?thesis by (auto simp: py_space_code py_lower_char_def Let_def)
qed

lemma dropWhile_idem [simp]: "dropWhile P (dropWhile P xs) = dropWhile P xs"
  by (induction xs) auto

lemma py_strip_Nil [simp]: "py_strip [] = []"
  by (simp add: py_strip_def)

lemma py_strip_idem [simp]: "py_strip (py_strip s) = py_strip s"
proof -
  define t where "t = dropWhile py_space s"
  define u where "u = rev (dropWhile py_space (rev t))"
  have tu: "t = u @ rev (takeWhile py_space (rev t))"
    unfolding u_def by (metis rev_append rev_rev_ident takeWhile_dropWhile_id)
  have "dropWhile py_space u = u"
  proof (cases u)
    case Nil
    then show ?thesis by simp
  next
    case (Cons c cs)
    with tu have "hd t = c" and "t \<noteq> []" by (metis append_Cons list.sel(1), metis append_Cons list.distinct(1))
    then have "\<not> py_space c" unfolding t_def using hd_dropWhile by metis
    with Cons show ?thesis by simp
  qed
  moreover have "py_strip s = u" by (simp add: py_strip_def u_def t_def)
  moreover have "rev (dropWhile py_space (rev u)) = u" by (simp add: u_def)
  ultimately show ?thesis by (simp add: py_strip_def)
qed

lemma py_strip_lower: "py_strip (py_lower s) = py_lower (py_strip s)"
proof -
  have *: "py_space \<circ> py_lower_char = py_space" by (simp add: fun_eq_iff)
  show ?thesis by (simp add: py_strip_def py_lower_def dropWhile_map rev_map *)
qed

lemma norm_text_idem [simp]: "norm_text (norm_text s) = norm_text s"
  by (simp add: norm_text_def py_strip_lower)

lemma norm_text_Nil [simp]: "norm_text [] = []"
  by (simp add: norm_text_def py_lower_def)

lemma py_strip_norm_text [simp]: "py_strip (norm_text s) = norm_text s"
  by (simp add: norm_text_def py_strip_lower)

lemma norm_text_strip [simp]: "norm_text (py_strip s) = norm_text s"
  by (simp add: norm_text_def)

section \<open>Numbers\<close>

text \<open>\<open>max(lo, min(hi, x))\<close>, the clamp idiom of the code.\<close>

definition clamp :: "int \<Rightarrow> int \<Rightarrow> int \<Rightarrow> int" where
  "clamp lo hi x = max lo (min hi x)"

text \<open>
  \<open>round(n / d)\<close> for \<open>0 < d\<close>: Python rounds halves to even. The quotient is taken exactly.
\<close>

definition round_half_even :: "int \<Rightarrow> int \<Rightarrow> int" where
  "round_half_even n d =
     (let q = n div d; r = n mod d
      in if 2 * r < d then q else if d < 2 * r then q + 1 else if even q then q else q + 1)"

lemma clamp_bounds: "lo \<le> hi \<Longrightarrow> lo \<le> clamp lo hi x \<and> clamp lo hi x \<le> hi"
  by (auto simp: clamp_def)

lemma clamp_id [simp]: "lo \<le> x \<Longrightarrow> x \<le> hi \<Longrightarrow> clamp lo hi x = x"
  by (auto simp: clamp_def)

lemma round_half_even_bounds:
  assumes "0 < d"
  shows "2 * n - d \<le> 2 * (d * round_half_even n d)" "2 * (d * round_half_even n d) \<le> 2 * n + d"
proof -
  define q r where "q = n div d" and "r = n mod d"
  have n: "n = d * q + r" and m: "0 \<le> r" "r < d" using assms by (simp_all add: q_def r_def)
  have "round_half_even n d = q \<and> 2 * r \<le> d \<or> round_half_even n d = q + 1 \<and> d \<le> 2 * r"
    by (simp add: round_half_even_def Let_def q_def r_def)
  then have "d * round_half_even n d = d * q \<and> 2 * r \<le> d \<or>
      d * round_half_even n d = d * q + d \<and> d \<le> 2 * r"
    by (auto simp: distrib_left)
  with m n show "2 * n - d \<le> 2 * (d * round_half_even n d)"
    and "2 * (d * round_half_even n d) \<le> 2 * n + d" by linarith+
qed

text \<open>A value within half a unit of an integer is rounded to it.\<close>

lemma round_half_even_unique:
  assumes "0 < d" "2 * (d * k) - d < 2 * n" "2 * n < 2 * (d * k) + d"
  shows "round_half_even n d = k"
proof -
  let ?r = "round_half_even n d"
  from round_half_even_bounds [OF assms(1), of n] assms
  have "2 * (d * ?r) < 2 * (d * k) + 2 * d" and "2 * (d * k) < 2 * (d * ?r) + 2 * d" by linarith+
  then have "d * ?r < d * (k + 1)" and "d * k < d * (?r + 1)" by (simp_all add: distrib_left)
  with assms(1) have "?r < k + 1" and "k < ?r + 1" using mult_less_cancel_left_pos by blast+
  then show ?thesis by simp
qed

lemma round_half_even_mono:
  assumes "0 < d" "n \<le> m"
  shows "round_half_even n d \<le> round_half_even m d"
proof (cases "n div d = m div d")
  case True
  moreover have "n mod d \<le> m mod d" using assms True
    by (metis add_le_cancel_left mult_div_mod_eq)
  ultimately show ?thesis by (auto simp: round_half_even_def Let_def)
next
  case False
  with assms have "n div d + 1 \<le> m div d" using zdiv_mono1 [of n m d] by simp
  then show ?thesis by (auto simp: round_half_even_def Let_def)
qed

end
