(* ===== verification/Replay_Window.thy ===== *)
theory Replay_Window
  imports Prelude
begin

text \<open>
  The interface of a bounded replay memory: a queue of the most recent keys and the set of the
  keys it holds. Two components of the program keep one (the task tombstones of the command
  arbitrator and the observation window of the scene gate); they evict in a different order,
  and both promise the laws stated here. The client's guarantee is \<open>replay_window.remembered\<close>:
  a key that was stored is still known as long as fewer than \<open>limit\<close> keys were stored after it.
\<close>

type_synonym 'k window = "'k list \<times> 'k set"

definition window_ok :: "nat \<Rightarrow> 'k window \<Rightarrow> bool" where
  "window_ok limit w \<longleftrightarrow> snd w = set (fst w) \<and> distinct (fst w) \<and> length (fst w) \<le> limit"

lemma window_ok_empty [simp]: "window_ok limit ([], {})"
  by (simp add: window_ok_def)

locale replay_window =
  fixes push :: "nat \<Rightarrow> 'k \<Rightarrow> 'k window \<Rightarrow> 'k window"
  assumes push_known: "k \<in> snd w \<Longrightarrow> push limit k w = w"
    and push_members: "0 < limit \<Longrightarrow> window_ok limit w \<Longrightarrow> snd (push limit k w) = set (fst (push limit k w))"
    and push_queue: "0 < limit \<Longrightarrow> window_ok limit w \<Longrightarrow> k \<notin> snd w \<Longrightarrow>
      rev (fst (push limit k w)) = take limit (k # rev (fst w))"
begin

lemma push_ok:
  assumes "0 < limit" "window_ok limit w"
  shows "window_ok limit (push limit k w)"
proof (cases "k \<in> snd w")
  case True
  with assms show ?thesis by (simp add: push_known)
next
  case False
  let ?q = "fst (push limit k w)"
  have q: "rev ?q = take limit (k # rev (fst w))" by (rule push_queue [OF assms False])
  have "distinct (k # rev (fst w))" using assms(2) False by (simp add: window_ok_def)
  then have "distinct (rev ?q)" unfolding q by (rule distinct_take)
  moreover have "length (rev ?q) \<le> limit" unfolding q by simp
  ultimately show ?thesis using push_members [OF assms] by (simp add: window_ok_def)
qed

lemma fold_push_ok: "0 < limit \<Longrightarrow> window_ok limit w \<Longrightarrow> window_ok limit (fold (push limit) ks w)"
  by (induction ks arbitrary: w) (simp_all add: push_ok)

lemma push_remembers:
  assumes "0 < limit" "window_ok limit w"
  shows "k \<in> snd (push limit k w)"
proof (cases "k \<in> snd w")
  case True
  then show ?thesis by (simp add: push_known)
next
  case False
  have "k \<in> set (rev (fst (push limit k w)))"
    unfolding push_queue [OF assms False] using assms(1) by (cases limit) simp_all
  with push_members [OF assms] show ?thesis by simp
qed

text \<open>One more key moves a remembered key at most one place towards eviction.\<close>

lemma push_recent:
  assumes "0 < limit" "window_ok limit w" "k \<in> set (take n (rev (fst w)))" "n < limit"
  shows "k \<in> set (take (Suc n) (rev (fst (push limit k' w))))"
proof (cases "k' \<in> snd w")
  case True
  have "set (take n (rev (fst w))) \<subseteq> set (take (Suc n) (rev (fst w)))"
    by (rule set_take_subset_set_take) simp
  with True assms(3) show ?thesis by (auto simp: push_known)
next
  case False
  have "take (Suc n) (rev (fst (push limit k' w))) = k' # take n (rev (fst w))"
    unfolding push_queue [OF assms(1,2) False] using assms(4) by (simp add: min_def)
  with assms(3) show ?thesis by simp
qed

lemma fold_recent:
  assumes "0 < limit"
  shows "window_ok limit w \<Longrightarrow> k \<in> set (take n (rev (fst w))) \<Longrightarrow> n + length ks \<le> limit \<Longrightarrow>
    k \<in> set (take (n + length ks) (rev (fst (fold (push limit) ks w))))"
proof (induction ks arbitrary: w n)
  case Nil
  then show ?case by simp
next
  case (Cons k' ks)
  have "k \<in> set (take (Suc n) (rev (fst (push limit k' w))))"
    by (rule push_recent [OF assms Cons.prems(1,2)]) (use Cons.prems(3) in simp)
  from Cons.IH [OF push_ok [OF assms Cons.prems(1)] this] Cons.prems(3) show ?case by simp
qed

theorem remembered:
  assumes "0 < limit" "window_ok limit w" "k \<notin> snd w" "length ks < limit"
  shows "k \<in> snd (fold (push limit) ks (push limit k w))"
proof -
  let ?w = "push limit k w"
  have "k \<in> set (take 1 (rev (fst ?w)))"
    unfolding push_queue [OF assms(1-3)] using assms(1) by (cases limit) simp_all
  from fold_recent [OF assms(1) push_ok [OF assms(1,2)] this, of ks] assms(4)
  have "k \<in> set (take (1 + length ks) (rev (fst (fold (push limit) ks ?w))))" by linarith
  then have "k \<in> set (rev (fst (fold (push limit) ks ?w)))" by (rule in_set_takeD)
  moreover have "window_ok limit (fold (push limit) ks ?w)"
    by (rule fold_push_ok [OF assms(1) push_ok [OF assms(1,2)]])
  ultimately show ?thesis by (simp add: window_ok_def)
qed

end

end
