(* ===== verification/Arbitrator.thy ===== *)
theory Arbitrator
  imports Replay_Window
begin

text \<open>
  The execution arbiter of \<open>execution_manager/arbitrator.py\<close>: the record \<open>command_arbitrator\<close>
  holds the attributes of \<open>CommandArbitrator\<close>, one definition per method threads it, and the
  public methods return their \<open>ArbitrationResult\<close> together with the new state. The lease
  factories are outside the class: a call that may mint a lease takes the string the factory
  returns as the argument \<open>fresh\<close>.

  The invariant \<open>arb_ok\<close> says that at most one of task and teleop holds control, that a
  motion burst never overlaps a task, that an emergency stop leaves no control behind, and
  that the task tombstones form a proper replay window.
\<close>

section \<open>State\<close>

datatype arb_mode = Mode_idle | Mode_estop | Mode_task_active | Mode_teleop_active | Mode_motion_active

datatype source = Src_teleop | Src_motion | Src_task

type_synonym task_identity = "string \<times> string \<times> string"

record arbitration_result =
  ar_accepted :: bool
  ar_mode :: arb_mode
  ar_reason :: string
  ar_active_source :: "source option"

record command_arbitrator =
  teleop_timeout_sec :: real
  motion_timeout_sec :: real
  task_timeout_sec :: real
  task_tombstone_limit :: nat
  arb_mode :: arb_mode
  arb_active_source :: "source option"
  estop_active :: bool
  estop_reason :: string
  teleop_holder_id :: string
  teleop_lease_id :: string
  last_teleop_control_time :: "real option"
  arb_task_id :: string
  arb_task_trace_id :: string
  arb_task_session_id :: string
  arb_task_lease_id :: string
  last_task_control_time :: "real option"
  task_terminal_identities :: "task_identity list"
  task_terminal_identity_set :: "task_identity set"
  last_motion_time :: "real option"
  last_teleop_control_action :: string
  last_teleop_control_accepted :: bool
  last_teleop_control_reason :: string
  teleop_control_accepted_count :: nat
  teleop_control_rejected_count :: nat
  last_task_control_action :: string
  last_task_control_task_id :: string
  last_task_control_trace_id :: string
  last_task_control_session_id :: string
  last_task_control_accepted :: bool
  last_task_control_reason :: string
  task_control_accepted_count :: nat
  task_control_rejected_count :: nat
  last_task_command_requester_id :: string
  last_task_command_accepted :: bool
  last_task_command_reason :: string
  accepted_counts :: "source \<Rightarrow> nat"
  rejected_counts :: "source \<Rightarrow> nat"
  last_rejection_reason :: string

text \<open>\<open>__init__\<close>: negative time-outs are raised to 0 and the tombstone limit to 1.\<close>

definition arb_init :: "real \<Rightarrow> real \<Rightarrow> real \<Rightarrow> int \<Rightarrow> command_arbitrator" where
  "arb_init teleop_timeout motion_timeout task_timeout tombstone_limit =
     \<lparr>teleop_timeout_sec = max teleop_timeout 0,
      motion_timeout_sec = max motion_timeout 0,
      task_timeout_sec = max task_timeout 0,
      task_tombstone_limit = nat (max tombstone_limit 1),
      arb_mode = Mode_idle, arb_active_source = None,
      estop_active = False, estop_reason = '''',
      teleop_holder_id = '''', teleop_lease_id = '''', last_teleop_control_time = None,
      arb_task_id = '''', arb_task_trace_id = '''', arb_task_session_id = '''',
      arb_task_lease_id = '''', last_task_control_time = None,
      task_terminal_identities = [], task_terminal_identity_set = {},
      last_motion_time = None,
      last_teleop_control_action = '''', last_teleop_control_accepted = False,
      last_teleop_control_reason = '''',
      teleop_control_accepted_count = 0, teleop_control_rejected_count = 0,
      last_task_control_action = '''', last_task_control_task_id = '''',
      last_task_control_trace_id = '''', last_task_control_session_id = '''',
      last_task_control_accepted = False, last_task_control_reason = '''',
      task_control_accepted_count = 0, task_control_rejected_count = 0,
      last_task_command_requester_id = '''', last_task_command_accepted = False,
      last_task_command_reason = '''',
      accepted_counts = (\<lambda>_. 0), rejected_counts = (\<lambda>_. 0),
      last_rejection_reason = ''''\<rparr>"

section \<open>Queries\<close>

text \<open>\<open>last is not None and now - last <= timeout\<close>, the test of every lease.\<close>

definition within_timeout :: "real option \<Rightarrow> real \<Rightarrow> real \<Rightarrow> bool" where
  "within_timeout since timeout now =
     (case since of None \<Rightarrow> False | Some t \<Rightarrow> now - t \<le> timeout)"

definition is_source_active :: "source \<Rightarrow> real \<Rightarrow> command_arbitrator \<Rightarrow> bool" where
  "is_source_active src now st =
     (if src = Src_teleop
      then within_timeout (last_teleop_control_time st) (teleop_timeout_sec st) now
      else within_timeout (last_motion_time st) (motion_timeout_sec st) now)"

definition is_teleop_control_active :: "real \<Rightarrow> command_arbitrator \<Rightarrow> bool" where
  "is_teleop_control_active now st = is_source_active Src_teleop now st"

definition is_task_control_active :: "real \<Rightarrow> command_arbitrator \<Rightarrow> bool" where
  "is_task_control_active now st =
     within_timeout (last_task_control_time st) (task_timeout_sec st) now"

definition is_holder :: "string \<Rightarrow> command_arbitrator \<Rightarrow> bool" where
  "is_holder requester st \<longleftrightarrow> py_strip requester = teleop_holder_id st"

definition is_lease_holder :: "string \<Rightarrow> command_arbitrator \<Rightarrow> bool" where
  "is_lease_holder lease st \<longleftrightarrow> py_strip lease = teleop_lease_id st"

definition is_task_lease_holder :: "string \<Rightarrow> command_arbitrator \<Rightarrow> bool" where
  "is_task_lease_holder lease st \<longleftrightarrow> py_strip lease = arb_task_lease_id st"

definition remaining_sec :: "real option \<Rightarrow> real \<Rightarrow> real \<Rightarrow> real" where
  "remaining_sec since timeout now =
     (case since of None \<Rightarrow> 0 | Some t \<Rightarrow> max 0 (timeout - (now - t)))"

definition teleop_control_remaining_sec :: "real \<Rightarrow> command_arbitrator \<Rightarrow> real" where
  "teleop_control_remaining_sec now st =
     remaining_sec (last_teleop_control_time st) (teleop_timeout_sec st) now"

definition task_control_remaining_sec :: "real \<Rightarrow> command_arbitrator \<Rightarrow> real" where
  "task_control_remaining_sec now st =
     remaining_sec (last_task_control_time st) (task_timeout_sec st) now"

text \<open>The empty string is the absence of a reason, as in the code.\<close>

definition task_command_rejection_reason ::
    "real \<Rightarrow> string \<Rightarrow> string \<Rightarrow> command_arbitrator \<Rightarrow> string" where
  "task_command_rejection_reason now requester lease st =
     (if \<not> is_task_control_active now st then ''task_control_not_granted''
      else if requester = '''' then ''task_requester_id_required''
      else if requester \<noteq> arb_task_id st then ''task_control_not_holder''
      else if lease = '''' then ''task_lease_required''
      else if \<not> is_task_lease_holder lease st then ''task_lease_mismatch''
      else '''')"

definition task_identity_mismatch_reason ::
    "string \<Rightarrow> string \<Rightarrow> string \<Rightarrow> command_arbitrator \<Rightarrow> string" where
  "task_identity_mismatch_reason tid trace session st =
     (if tid \<noteq> arb_task_id st then ''task_control_held_by_other_task''
      else if trace \<noteq> arb_task_trace_id st then ''task_control_trace_mismatch''
      else if session \<noteq> arb_task_session_id st then ''task_control_session_mismatch''
      else '''')"

definition task_status :: "real \<Rightarrow> command_arbitrator \<Rightarrow> string" where
  "task_status now st =
     (if estop_active st then ''blocked''
      else if is_task_control_active now st then ''active''
      else if last_task_control_accepted st \<and> last_task_control_action st = ''finish'' then ''finished''
      else if last_task_control_accepted st \<and> last_task_control_action st = ''cancel'' then ''cancelled''
      else if last_task_control_action st = ''timeout'' then ''expired''
      else if last_task_control_action st = ''estop'' then ''blocked''
      else if last_task_control_reason st \<noteq> '''' \<and> \<not> last_task_control_accepted st then ''rejected''
      else ''idle'')"

definition recoverable_task_reasons :: "string set" where
  "recoverable_task_reasons =
     {''estop'', ''task_active'', ''task_control_not_granted'', ''task_control_held_by_other_task'',
      ''task_control_trace_mismatch'', ''task_control_session_mismatch'', ''task_id_required'',
      ''task_trace_id_required'', ''task_session_id_required'', ''task_lease_required'',
      ''task_lease_mismatch'', ''task_lease_expired'', ''task_control_replay'', ''task_stop_pending''}"

definition task_recoverable :: "command_arbitrator \<Rightarrow> bool" where
  "task_recoverable st =
     (if estop_active st then estop_reason st = ''estop''
      else if last_task_control_accepted st then False
      else last_task_control_reason st \<in> recoverable_task_reasons)"

definition validate_source :: "string \<Rightarrow> source result" where
  "validate_source s =
     (if s = ''teleop'' then Inr Src_teleop
      else if s = ''motion'' then Inr Src_motion
      else if s = ''task'' then Inr Src_task
      else Inl (ValueError (''unsupported source: '' @ s)))"

section \<open>Expiry and mode\<close>

definition clear_task_control :: "command_arbitrator \<Rightarrow> command_arbitrator" where
  "clear_task_control st = st\<lparr>arb_task_lease_id := '''', last_task_control_time := None\<rparr>"

definition clear_teleop_control :: "command_arbitrator \<Rightarrow> command_arbitrator" where
  "clear_teleop_control st =
     st\<lparr>last_teleop_control_time := None, teleop_holder_id := '''', teleop_lease_id := ''''\<rparr>"

text \<open>The tombstone update of \<open>_remember_task_identity\<close>: evict the oldest, then append.\<close>

fun tombstone_push :: "nat \<Rightarrow> 'k \<Rightarrow> 'k window \<Rightarrow> 'k window" where
  "tombstone_push limit k (queue, members) =
     (if k \<in> members then (queue, members)
      else let (queue', members') =
             (if limit \<le> length queue then (tl queue, members - {hd queue}) else (queue, members))
           in (queue' @ [k], insert k members'))"

definition arb_identity :: "command_arbitrator \<Rightarrow> task_identity" where
  "arb_identity st = (arb_task_id st, arb_task_trace_id st, arb_task_session_id st)"

definition full_identity :: "task_identity \<Rightarrow> bool" where
  "full_identity ident = (case ident of (a, b, c) \<Rightarrow> a \<noteq> '''' \<and> b \<noteq> '''' \<and> c \<noteq> '''')"

definition arb_window :: "command_arbitrator \<Rightarrow> task_identity window" where
  "arb_window st = (task_terminal_identities st, task_terminal_identity_set st)"

definition remember_task_identity :: "command_arbitrator \<Rightarrow> command_arbitrator" where
  "remember_task_identity st =
     (if \<not> full_identity (arb_identity st) \<or> arb_identity st \<in> task_terminal_identity_set st then st
      else let w = tombstone_push (task_tombstone_limit st) (arb_identity st) (arb_window st)
           in st\<lparr>task_terminal_identities := fst w, task_terminal_identity_set := snd w\<rparr>)"

definition clear_expired_task_control :: "real \<Rightarrow> command_arbitrator \<Rightarrow> command_arbitrator" where
  "clear_expired_task_control now st =
     (case last_task_control_time st of
        None \<Rightarrow> st
      | Some t \<Rightarrow>
          if now - t \<le> task_timeout_sec st then st
          else (clear_task_control (remember_task_identity st))
            \<lparr>last_task_control_action := ''timeout'',
             last_task_control_task_id := arb_task_id st,
             last_task_control_trace_id := arb_task_trace_id st,
             last_task_control_session_id := arb_task_session_id st,
             last_task_control_accepted := False,
             last_task_control_reason := ''task_lease_expired''\<rparr>)"

definition clear_expired_teleop_control :: "real \<Rightarrow> command_arbitrator \<Rightarrow> command_arbitrator" where
  "clear_expired_teleop_control now st =
     (case last_teleop_control_time st of
        None \<Rightarrow> st
      | Some t \<Rightarrow>
          if now - t \<le> teleop_timeout_sec st then st
          else st\<lparr>last_teleop_control_time := None, teleop_holder_id := '''', teleop_lease_id := ''''\<rparr>)"

definition select_mode :: "real \<Rightarrow> command_arbitrator \<Rightarrow> arb_mode \<times> source option" where
  "select_mode now st =
     (if estop_active st then (Mode_estop, None)
      else if is_task_control_active now st then (Mode_task_active, Some Src_task)
      else if is_teleop_control_active now st then (Mode_teleop_active, Some Src_teleop)
      else if is_source_active Src_motion now st then (Mode_motion_active, Some Src_motion)
      else (Mode_idle, None))"

definition refresh_mode :: "real \<Rightarrow> command_arbitrator \<Rightarrow> command_arbitrator" where
  "refresh_mode now st =
     (let st1 = clear_expired_teleop_control now (clear_expired_task_control now st);
          (m, src) = select_mode now st1
      in st1\<lparr>arb_mode := m, arb_active_source := src\<rparr>)"

section \<open>Results\<close>

definition result_of :: "bool \<Rightarrow> string \<Rightarrow> command_arbitrator \<Rightarrow> arbitration_result" where
  "result_of acc reason st =
     \<lparr>ar_accepted = acc, ar_mode = arb_mode st, ar_reason = reason,
      ar_active_source = arb_active_source st\<rparr>"

definition arb_reject :: "source \<Rightarrow> string \<Rightarrow> string \<Rightarrow> command_arbitrator \<Rightarrow>
    arbitration_result \<times> command_arbitrator" where
  "arb_reject src reason requester st =
     (let st1 = st\<lparr>rejected_counts := (rejected_counts st)(src := Suc (rejected_counts st src)),
                   last_rejection_reason := reason\<rparr>;
          st2 = (if src = Src_task
                 then st1\<lparr>last_task_command_requester_id := py_strip requester,
                          last_task_command_accepted := False,
                          last_task_command_reason := reason\<rparr>
                 else st1)
      in (result_of False reason st2, st2))"

definition accept_task_control :: "string \<Rightarrow> string \<Rightarrow> real \<Rightarrow> command_arbitrator \<Rightarrow>
    arbitration_result \<times> command_arbitrator" where
  "accept_task_control action tid now st =
     (let st1 = refresh_mode now
            (st\<lparr>task_control_accepted_count := Suc (task_control_accepted_count st),
                last_task_control_action := action,
                last_task_control_task_id := tid,
                last_task_control_accepted := True,
                last_task_control_reason := ''accepted''\<rparr>)
      in (result_of True ''accepted'' st1, st1))"

definition reject_task_control_with :: "string \<Rightarrow> string \<Rightarrow> string \<Rightarrow> command_arbitrator \<Rightarrow>
    arbitration_result \<times> command_arbitrator" where
  "reject_task_control_with action tid reason st =
     (let st1 = st\<lparr>task_control_rejected_count := Suc (task_control_rejected_count st),
                   last_task_control_action := action,
                   last_task_control_task_id := tid,
                   last_task_control_accepted := False,
                   last_task_control_reason := reason,
                   last_rejection_reason := reason\<rparr>
      in (result_of False reason st1, st1))"

definition accept_teleop_control :: "string \<Rightarrow> real \<Rightarrow> string \<Rightarrow> string \<Rightarrow> command_arbitrator \<Rightarrow>
    arbitration_result \<times> command_arbitrator" where
  "accept_teleop_control action now holder lease st =
     (let st1 = refresh_mode now
            (st\<lparr>teleop_control_accepted_count := Suc (teleop_control_accepted_count st),
                last_teleop_control_action := action,
                last_teleop_control_accepted := True,
                last_teleop_control_reason := ''accepted'',
                teleop_holder_id := holder,
                teleop_lease_id := lease\<rparr>)
      in (result_of True ''accepted'' st1, st1))"

definition reject_teleop_control :: "string \<Rightarrow> string \<Rightarrow> command_arbitrator \<Rightarrow>
    arbitration_result \<times> command_arbitrator" where
  "reject_teleop_control action reason st =
     arb_reject Src_teleop reason ''''
       (st\<lparr>teleop_control_rejected_count := Suc (teleop_control_rejected_count st),
           last_teleop_control_action := action,
           last_teleop_control_accepted := False,
           last_teleop_control_reason := reason\<rparr>)"

section \<open>Operations\<close>

text \<open>
  The reason for which \<open>receive_command\<close> turns a command away, tests in the order of the
  code; the empty string when it does not. It reads the refreshed state.
\<close>

definition command_rejection :: "source \<Rightarrow> real \<Rightarrow> string \<Rightarrow> string \<Rightarrow> command_arbitrator \<Rightarrow> string" where
  "command_rejection src now requester lease st =
     (if estop_active st then ''estop''
      else if src = Src_task \<and> task_command_rejection_reason now requester lease st \<noteq> ''''
        then task_command_rejection_reason now requester lease st
      else if src = Src_teleop \<and> is_task_control_active now st then ''task_active''
      else if src = Src_teleop \<and> \<not> is_teleop_control_active now st then ''teleop_control_not_granted''
      else if src = Src_teleop \<and> requester = '''' then ''teleop_requester_id_required''
      else if src = Src_teleop \<and> \<not> is_holder requester st then ''teleop_control_not_holder''
      else if src = Src_teleop \<and> teleop_lease_id st \<noteq> '''' \<and> lease = ''''
        then ''teleop_control_lease_required''
      else if src = Src_teleop \<and> \<not> is_lease_holder lease st then ''teleop_control_lease_mismatch''
      else if src = Src_motion \<and> is_task_control_active now st then ''task_active''
      else if src = Src_motion \<and> is_source_active Src_teleop now st then ''teleop_active''
      else '''')"

definition accept_command :: "source \<Rightarrow> real \<Rightarrow> string \<Rightarrow> command_arbitrator \<Rightarrow>
    arbitration_result \<times> command_arbitrator" where
  "accept_command src now requester st =
     (let st1 = (if src = Src_motion then st\<lparr>last_motion_time := Some now\<rparr> else st);
          st2 = (if src = Src_task
                 then st1\<lparr>last_task_command_requester_id := requester,
                          last_task_command_accepted := True,
                          last_task_command_reason := ''accepted''\<rparr>
                 else st1);
          st3 = refresh_mode now
                  (st2\<lparr>accepted_counts := (accepted_counts st2)(src := Suc (accepted_counts st2 src))\<rparr>)
      in (result_of True ''accepted'' st3, st3))"

definition receive_command_from :: "source \<Rightarrow> real \<Rightarrow> string \<Rightarrow> string \<Rightarrow> command_arbitrator \<Rightarrow>
    arbitration_result \<times> command_arbitrator" where
  "receive_command_from src now requester_id lease_id st =
     (let st1 = refresh_mode now st;
          requester = py_strip requester_id;
          lease = py_strip lease_id;
          why = command_rejection src now requester lease st1
      in if why \<noteq> '''' then arb_reject src why requester st1
         else accept_command src now requester st1)"

definition receive_command :: "string \<Rightarrow> real \<Rightarrow> string \<Rightarrow> string \<Rightarrow> command_arbitrator \<Rightarrow>
    (arbitration_result \<times> command_arbitrator) result" where
  "receive_command source_name now requester_id lease_id st =
     (case validate_source source_name of
        Inl e \<Rightarrow> Inl e
      | Inr src \<Rightarrow> Inr (receive_command_from src now requester_id lease_id st))"

definition TASK_CONTROL_ACTIONS :: "string set" where
  "TASK_CONTROL_ACTIONS = {''start'', ''keepalive'', ''finish'', ''cancel''}"

definition TELEOP_CONTROL_ACTIONS :: "string set" where
  "TELEOP_CONTROL_ACTIONS = {''claim'', ''keepalive'', ''release''}"

text \<open>The lease test shared by a repeated start and by keepalive, finish and cancel.\<close>

definition task_lease_rejection :: "string \<Rightarrow> string \<Rightarrow> string \<Rightarrow> string \<Rightarrow> command_arbitrator \<Rightarrow> string" where
  "task_lease_rejection tid trace session lease st =
     (let mismatch = task_identity_mismatch_reason tid trace session st
      in if mismatch \<noteq> '''' then mismatch
         else if lease = '''' then ''task_lease_required''
         else if \<not> is_task_lease_holder lease st then ''task_lease_mismatch''
         else '''')"

definition task_control_rejection ::
    "string \<Rightarrow> real \<Rightarrow> string \<Rightarrow> string \<Rightarrow> string \<Rightarrow> string \<Rightarrow> command_arbitrator \<Rightarrow> string" where
  "task_control_rejection action now tid trace session lease st =
     (if action \<notin> TASK_CONTROL_ACTIONS then ''unsupported_task_control_action''
      else if tid = '''' then ''task_id_required''
      else if trace = '''' then ''task_trace_id_required''
      else if session = '''' then ''task_session_id_required''
      else if estop_active st then ''estop''
      else if action = ''start'' then
        (if is_task_control_active now st then task_lease_rejection tid trace session lease st
         else if (tid, trace, session) \<in> task_terminal_identity_set st then ''task_control_replay''
         else '''')
      else if \<not> is_task_control_active now st then ''task_control_not_granted''
      else task_lease_rejection tid trace session lease st)"

definition start_task :: "string \<Rightarrow> string \<Rightarrow> string \<Rightarrow> string \<Rightarrow> command_arbitrator \<Rightarrow>
    command_arbitrator" where
  "start_task tid trace session fresh st =
     (clear_teleop_control
        (st\<lparr>arb_task_id := tid, arb_task_trace_id := trace, arb_task_session_id := session,
            arb_task_lease_id := fresh\<rparr>))\<lparr>last_motion_time := None\<rparr>"

definition apply_task_control ::
    "string \<Rightarrow> real \<Rightarrow> string \<Rightarrow> string \<Rightarrow> string \<Rightarrow> string \<Rightarrow> command_arbitrator \<Rightarrow> command_arbitrator" where
  "apply_task_control action now tid trace session fresh st =
     (if action = ''start'' then
        (if is_task_control_active now st then st else start_task tid trace session fresh st)
          \<lparr>last_task_control_time := Some now\<rparr>
      else if action = ''keepalive'' then st\<lparr>last_task_control_time := Some now\<rparr>
      else clear_task_control (remember_task_identity st))"

definition receive_task_control ::
    "string \<Rightarrow> real \<Rightarrow> string \<Rightarrow> string \<Rightarrow> string \<Rightarrow> string \<Rightarrow> string \<Rightarrow> command_arbitrator \<Rightarrow>
     arbitration_result \<times> command_arbitrator" where
  "receive_task_control action_text now task_text trace_text session_text lease_text fresh st =
     (let action = norm_text action_text; tid = py_strip task_text; trace = py_strip trace_text;
          session = py_strip session_text; lease = py_strip lease_text;
          st1 = (refresh_mode now st)
                  \<lparr>last_task_control_action := action, last_task_control_task_id := tid,
                   last_task_control_trace_id := trace, last_task_control_session_id := session\<rparr>;
          why = task_control_rejection action now tid trace session lease st1
      in if why \<noteq> '''' then reject_task_control_with action tid why st1
         else accept_task_control action tid now
                (apply_task_control action now tid trace session fresh st1))"

definition reject_command :: "string \<Rightarrow> real \<Rightarrow> string \<Rightarrow> string \<Rightarrow> command_arbitrator \<Rightarrow>
    (arbitration_result \<times> command_arbitrator) result" where
  "reject_command source_name now requester_id reason st =
     (case validate_source source_name of
        Inl e \<Rightarrow> Inl e
      | Inr src \<Rightarrow> Inr (arb_reject src (py_strip reason) (py_strip requester_id) (refresh_mode now st)))"

definition reject_task_control ::
    "string \<Rightarrow> real \<Rightarrow> string \<Rightarrow> string \<Rightarrow> string \<Rightarrow> string \<Rightarrow> command_arbitrator \<Rightarrow>
     arbitration_result \<times> command_arbitrator" where
  "reject_task_control action_text now task_text trace_text session_text reason st =
     (let action = norm_text action_text; tid = py_strip task_text;
          st1 = (refresh_mode now st)
                  \<lparr>last_task_control_action := action, last_task_control_task_id := tid,
                   last_task_control_trace_id := py_strip trace_text,
                   last_task_control_session_id := py_strip session_text\<rparr>
      in reject_task_control_with action tid (py_strip reason) st1)"

definition task_operation_rejection ::
    "real \<Rightarrow> string \<Rightarrow> string \<Rightarrow> string \<Rightarrow> string \<Rightarrow> command_arbitrator \<Rightarrow> string" where
  "task_operation_rejection now tid trace session lease st =
     (if estop_active st then ''estop''
      else if \<not> is_task_control_active now st then ''task_control_not_granted''
      else if tid = '''' then ''task_id_required''
      else if trace = '''' then ''task_trace_id_required''
      else if session = '''' then ''task_session_id_required''
      else let mismatch = task_identity_mismatch_reason tid trace session st;
               reason = (if mismatch = '''' \<and> lease = '''' then ''task_lease_required'' else mismatch)
           in if reason = '''' \<and> \<not> is_task_lease_holder lease st then ''task_lease_mismatch'' else reason)"

definition validate_task_operation ::
    "real \<Rightarrow> string \<Rightarrow> string \<Rightarrow> string \<Rightarrow> string \<Rightarrow> command_arbitrator \<Rightarrow>
     arbitration_result \<times> command_arbitrator" where
  "validate_task_operation now task_text trace_text session_text lease_text st =
     (let st1 = refresh_mode now st;
          reason = task_operation_rejection now (py_strip task_text) (py_strip trace_text)
                     (py_strip session_text) (py_strip lease_text) st1
      in (result_of (reason = '''') (if reason = '''' then ''accepted'' else reason) st1, st1))"

definition claim_lease_id :: "real \<Rightarrow> string \<Rightarrow> string \<Rightarrow> command_arbitrator \<Rightarrow> string" where
  "claim_lease_id now requester fresh st =
     (if is_teleop_control_active now st \<and> is_holder requester st \<and> teleop_lease_id st \<noteq> ''''
      then teleop_lease_id st else fresh)"

definition claim_teleop :: "real \<Rightarrow> string \<Rightarrow> string \<Rightarrow> command_arbitrator \<Rightarrow> command_arbitrator" where
  "claim_teleop now requester fresh st =
     (let st2 = st\<lparr>teleop_holder_id := requester\<rparr>
      in st2\<lparr>teleop_lease_id := claim_lease_id now requester fresh st2,
             last_teleop_control_time := Some now\<rparr>)"

definition teleop_control_rejection ::
    "string \<Rightarrow> real \<Rightarrow> string \<Rightarrow> string \<Rightarrow> command_arbitrator \<Rightarrow> string" where
  "teleop_control_rejection action now requester lease st =
     (if action \<notin> TELEOP_CONTROL_ACTIONS then ''unsupported_teleop_control_action''
      else if action = ''claim'' then
        (if estop_active st then ''estop''
         else if is_task_control_active now st then ''task_active''
         else if is_teleop_control_active now st \<and> \<not> is_holder requester st
           then ''teleop_control_held_by_other''
         else '''')
      else if \<not> is_teleop_control_active now st then ''teleop_control_not_granted''
      else if \<not> is_holder requester st then ''teleop_control_not_holder''
      else if lease \<noteq> '''' \<and> \<not> is_lease_holder lease st then ''teleop_control_lease_mismatch''
      else '''')"

definition accepted_teleop_control ::
    "string \<Rightarrow> real \<Rightarrow> string \<Rightarrow> string \<Rightarrow> command_arbitrator \<Rightarrow>
     arbitration_result \<times> command_arbitrator" where
  "accepted_teleop_control action now requester fresh st =
     (if action = ''claim'' then
        (let st2 = claim_teleop now requester fresh st
         in accept_teleop_control action now requester (teleop_lease_id st2) st2)
      else if action = ''keepalive'' then
        accept_teleop_control action now requester (teleop_lease_id st)
          (st\<lparr>last_teleop_control_time := Some now\<rparr>)
      else accept_teleop_control action now '''' ''''
             (st\<lparr>teleop_holder_id := '''', teleop_lease_id := '''',
                 last_teleop_control_time := None\<rparr>))"

definition receive_teleop_control ::
    "string \<Rightarrow> real \<Rightarrow> string \<Rightarrow> string \<Rightarrow> string \<Rightarrow> command_arbitrator \<Rightarrow>
     arbitration_result \<times> command_arbitrator" where
  "receive_teleop_control action_text now requester_text lease_text fresh st =
     (let action = norm_text action_text; requester = py_strip requester_text;
          lease = py_strip lease_text;
          st1 = refresh_mode now (st\<lparr>last_teleop_control_action := action\<rparr>);
          why = teleop_control_rejection action now requester lease st1
      in if why \<noteq> '''' then reject_teleop_control action why st1
         else accepted_teleop_control action now requester fresh st1)"

section \<open>Emergency stop and snapshots\<close>

text \<open>
  The computed entries of the snapshot dictionary, and in \<open>snap_arbitrator\<close> the refreshed
  state from which the other entries (time-outs, last actions, counters) are copied.
\<close>

record arb_snapshot =
  snap_mode :: arb_mode
  snap_active_source :: "source option"
  snap_estop_active :: bool
  snap_estop_reason :: string
  snap_teleop_active :: bool
  snap_motion_active :: bool
  snap_task_active :: bool
  snap_teleop_remaining :: real
  snap_task_remaining :: real
  snap_task_status :: string
  snap_task_state_reason :: string
  snap_task_recoverable :: bool
  snap_arbitrator :: command_arbitrator

definition arb_snapshot_of :: "real \<Rightarrow> command_arbitrator \<Rightarrow> arb_snapshot \<times> command_arbitrator" where
  "arb_snapshot_of now st =
     (let s = refresh_mode now st in
       (\<lparr>snap_mode = arb_mode s, snap_active_source = arb_active_source s,
         snap_estop_active = estop_active s, snap_estop_reason = estop_reason s,
         snap_teleop_active = is_source_active Src_teleop now s,
         snap_motion_active = is_source_active Src_motion now s,
         snap_task_active = is_task_control_active now s,
         snap_teleop_remaining = teleop_control_remaining_sec now s,
         snap_task_remaining = task_control_remaining_sec now s,
         snap_task_status = task_status now s,
         snap_task_state_reason =
           (if estop_active s then estop_reason s else last_task_control_reason s),
         snap_task_recoverable = task_recoverable s,
         snap_arbitrator = s\<rparr>, s))"

definition estop_terminates_task :: "command_arbitrator \<Rightarrow> command_arbitrator" where
  "estop_terminates_task st =
     (remember_task_identity st)
       \<lparr>last_task_control_action := ''estop'',
        last_task_control_task_id := arb_task_id st,
        last_task_control_trace_id := arb_task_trace_id st,
        last_task_control_session_id := arb_task_session_id st,
        last_task_control_accepted := False,
        last_task_control_reason := ''estop''\<rparr>"

definition apply_estop :: "bool \<Rightarrow> real \<Rightarrow> string \<Rightarrow> command_arbitrator \<Rightarrow> command_arbitrator" where
  "apply_estop active now reason st =
     (let st1 = clear_expired_task_control now st;
          task_was_active = is_task_control_active now st1;
          st2 = st1\<lparr>estop_active := active\<rparr>
      in if active then
           let st3 = st2\<lparr>estop_reason := (if py_strip reason = '''' then ''estop'' else py_strip reason)\<rparr>;
               st4 = (if task_was_active then estop_terminates_task st3 else st3)
           in refresh_mode now ((clear_teleop_control (clear_task_control st4))\<lparr>last_motion_time := None\<rparr>)
         else refresh_mode now st2)"

definition set_estop :: "bool \<Rightarrow> real \<Rightarrow> string \<Rightarrow> command_arbitrator \<Rightarrow>
    arb_snapshot \<times> command_arbitrator" where
  "set_estop active now reason st = arb_snapshot_of now (apply_estop active now reason st)"

definition arb_tick :: "real \<Rightarrow> command_arbitrator \<Rightarrow> arb_snapshot \<times> command_arbitrator" where
  "arb_tick now st = arb_snapshot_of now (refresh_mode now st)"

section \<open>Facts about expiry\<close>

lemma validate_source_simps [simp]:
  "validate_source ''teleop'' = Inr Src_teleop"
  "validate_source ''motion'' = Inr Src_motion"
  "validate_source ''task'' = Inr Src_task"
  by (simp_all add: validate_source_def)

interpretation tombstones: replay_window tombstone_push
proof unfold_locales
  fix limit :: nat and k :: 'k and w :: "'k window"
  show "k \<in> snd w \<Longrightarrow> tombstone_push limit k w = w" by (cases w) simp
  assume l: "0 < limit" and ok: "window_ok limit w"
  obtain q m where w: "w = (q, m)" by (cases w)
  with ok have m: "m = set q" "distinct q" "length q \<le> limit" by (simp_all add: window_ok_def)
  show "snd (tombstone_push limit k w) = set (fst (tombstone_push limit k w))"
  proof (cases "limit \<le> length q")
    case True
    with l obtain x xs where "q = x # xs" by (cases q) auto
    with m w True show ?thesis by auto
  next
    case False
    with m w show ?thesis by auto
  qed
  show "rev (fst (tombstone_push limit k w)) = take limit (k # rev (fst w))" if "k \<notin> snd w"
  proof (cases "limit \<le> length q")
    case True
    with l obtain x xs where q: "q = x # xs" by (cases q) auto
    with True m have "limit = Suc (length xs)" by simp
    with q m w that True show ?thesis by simp
  next
    case False
    with m w that show ?thesis by simp
  qed
qed

definition task_expired :: "real \<Rightarrow> command_arbitrator \<Rightarrow> bool" where
  "task_expired now st \<longleftrightarrow> last_task_control_time st \<noteq> None \<and> \<not> is_task_control_active now st"

definition teleop_expired :: "real \<Rightarrow> command_arbitrator \<Rightarrow> bool" where
  "teleop_expired now st \<longleftrightarrow> last_teleop_control_time st \<noteq> None \<and> \<not> is_teleop_control_active now st"

definition remembered_window :: "command_arbitrator \<Rightarrow> task_identity window" where
  "remembered_window st =
     (if full_identity (arb_identity st)
      then tombstone_push (task_tombstone_limit st) (arb_identity st) (arb_window st)
      else arb_window st)"

text \<open>
  The composite updates as single record updates: with these equations the simplifier reads
  every field of an updated state.
\<close>

lemma remember_task_identity_eq:
  "remember_task_identity st =
     st\<lparr>task_terminal_identities := fst (remembered_window st),
        task_terminal_identity_set := snd (remembered_window st)\<rparr>"
  by (cases "arb_identity st \<in> task_terminal_identity_set st")
    (simp_all add: remember_task_identity_def remembered_window_def arb_window_def Let_def)

lemma clear_expired_task_control_eq:
  "clear_expired_task_control now st =
     (if task_expired now st
      then st\<lparr>task_terminal_identities := fst (remembered_window st),
              task_terminal_identity_set := snd (remembered_window st),
              arb_task_lease_id := '''', last_task_control_time := None,
              last_task_control_action := ''timeout'',
              last_task_control_task_id := arb_task_id st,
              last_task_control_trace_id := arb_task_trace_id st,
              last_task_control_session_id := arb_task_session_id st,
              last_task_control_accepted := False,
              last_task_control_reason := ''task_lease_expired''\<rparr>
      else st)"
  by (auto simp: clear_expired_task_control_def task_expired_def is_task_control_active_def
      within_timeout_def clear_task_control_def remember_task_identity_eq split: option.splits)

lemma clear_expired_teleop_control_eq:
  "clear_expired_teleop_control now st = (if teleop_expired now st then clear_teleop_control st else st)"
  by (auto simp: clear_expired_teleop_control_def teleop_expired_def is_teleop_control_active_def
      is_source_active_def within_timeout_def clear_teleop_control_def split: option.splits)

lemmas activity_defs = is_teleop_control_active_def is_source_active_def is_task_control_active_def
  within_timeout_def

lemma refresh_mode_frame [simp]:
  "teleop_timeout_sec (refresh_mode now st) = teleop_timeout_sec st"
  "motion_timeout_sec (refresh_mode now st) = motion_timeout_sec st"
  "task_timeout_sec (refresh_mode now st) = task_timeout_sec st"
  "task_tombstone_limit (refresh_mode now st) = task_tombstone_limit st"
  "estop_active (refresh_mode now st) = estop_active st"
  "estop_reason (refresh_mode now st) = estop_reason st"
  "arb_task_id (refresh_mode now st) = arb_task_id st"
  "arb_task_trace_id (refresh_mode now st) = arb_task_trace_id st"
  "arb_task_session_id (refresh_mode now st) = arb_task_session_id st"
  "last_motion_time (refresh_mode now st) = last_motion_time st"
  "accepted_counts (refresh_mode now st) = accepted_counts st"
  "rejected_counts (refresh_mode now st) = rejected_counts st"
  "task_control_accepted_count (refresh_mode now st) = task_control_accepted_count st"
  "task_control_rejected_count (refresh_mode now st) = task_control_rejected_count st"
  "teleop_control_accepted_count (refresh_mode now st) = teleop_control_accepted_count st"
  "teleop_control_rejected_count (refresh_mode now st) = teleop_control_rejected_count st"
  by (simp_all add: refresh_mode_def Let_def split_def clear_expired_task_control_eq
      clear_expired_teleop_control_eq clear_teleop_control_def)

lemma refresh_mode_control [simp]:
  "last_task_control_time (refresh_mode now st) =
     (if task_expired now st then None else last_task_control_time st)"
  "arb_task_lease_id (refresh_mode now st) = (if task_expired now st then '''' else arb_task_lease_id st)"
  "last_teleop_control_time (refresh_mode now st) =
     (if teleop_expired now st then None else last_teleop_control_time st)"
  "teleop_holder_id (refresh_mode now st) = (if teleop_expired now st then '''' else teleop_holder_id st)"
  "teleop_lease_id (refresh_mode now st) = (if teleop_expired now st then '''' else teleop_lease_id st)"
  by (auto simp: refresh_mode_def Let_def split_def clear_expired_task_control_eq
      clear_expired_teleop_control_eq clear_teleop_control_def teleop_expired_def task_expired_def
      activity_defs)

lemma refresh_mode_window [simp]:
  "arb_window (refresh_mode now st) = (if task_expired now st then remembered_window st else arb_window st)"
  "task_terminal_identities (refresh_mode now st) =
     fst (if task_expired now st then remembered_window st else arb_window st)"
  "task_terminal_identity_set (refresh_mode now st) =
     snd (if task_expired now st then remembered_window st else arb_window st)"
  by (auto simp: refresh_mode_def Let_def split_def clear_expired_task_control_eq
      clear_expired_teleop_control_eq clear_teleop_control_def arb_window_def)

lemma refresh_mode_identity [simp]: "arb_identity (refresh_mode now st) = arb_identity st"
  by (simp add: arb_identity_def)

lemma refresh_mode_active [simp]:
  "is_task_control_active now (refresh_mode now st) = is_task_control_active now st"
  "is_teleop_control_active now (refresh_mode now st) = is_teleop_control_active now st"
  "is_source_active src now (refresh_mode now st) = is_source_active src now st"
  by (auto simp: is_task_control_active_def is_teleop_control_active_def is_source_active_def
      within_timeout_def task_expired_def teleop_expired_def)

lemma refresh_mode_not_expired [simp]:
  "\<not> task_expired now (refresh_mode now st)" "\<not> teleop_expired now (refresh_mode now st)"
  by (auto simp: task_expired_def teleop_expired_def)

lemma refresh_mode_selects:
  "arb_mode (refresh_mode now st) = fst (select_mode now st)"
  "arb_active_source (refresh_mode now st) = snd (select_mode now st)"
  by (auto simp: refresh_mode_def Let_def split_def select_mode_def clear_expired_task_control_eq
      clear_expired_teleop_control_eq clear_teleop_control_def task_expired_def teleop_expired_def
      activity_defs)

text \<open>Expiry is idempotent, and a refreshed state is its own refresh.\<close>

lemma refresh_mode_idem: "refresh_mode now (refresh_mode now st) = refresh_mode now st"
proof -
  let ?s = "refresh_mode now st"
  have "clear_expired_teleop_control now (clear_expired_task_control now ?s) = ?s"
    by (simp add: clear_expired_task_control_eq clear_expired_teleop_control_eq)
  moreover have "select_mode now ?s = (arb_mode ?s, arb_active_source ?s)"
    by (simp add: refresh_mode_selects select_mode_def)
  ultimately show ?thesis by (simp add: refresh_mode_def [of now ?s] Let_def split_def)
qed

section \<open>The invariant\<close>

definition arb_ok :: "command_arbitrator \<Rightarrow> bool" where
  "arb_ok st \<longleftrightarrow>
     0 < task_tombstone_limit st \<and>
     0 \<le> teleop_timeout_sec st \<and> 0 \<le> motion_timeout_sec st \<and> 0 \<le> task_timeout_sec st \<and>
     window_ok (task_tombstone_limit st) (arb_window st) \<and>
     (estop_active st \<longrightarrow> last_task_control_time st = None \<and> last_teleop_control_time st = None
        \<and> last_motion_time st = None) \<and>
     (last_task_control_time st \<noteq> None \<longrightarrow> last_teleop_control_time st = None
        \<and> last_motion_time st = None \<and> full_identity (arb_identity st)
        \<and> arb_identity st \<notin> task_terminal_identity_set st) \<and>
     (last_task_control_time st = None \<longrightarrow> arb_task_lease_id st = '''') \<and>
     (last_teleop_control_time st = None \<longrightarrow> teleop_holder_id st = '''' \<and> teleop_lease_id st = '''')"

lemma arb_okD:
  assumes "arb_ok st"
  shows "0 < task_tombstone_limit st" "0 \<le> teleop_timeout_sec st" "0 \<le> motion_timeout_sec st"
    "0 \<le> task_timeout_sec st" "window_ok (task_tombstone_limit st) (arb_window st)"
  using assms by (simp_all add: arb_ok_def)

lemma arb_init_ok [inv_rules]: "arb_ok (arb_init a b c n)"
  by (simp add: arb_ok_def arb_init_def arb_window_def)

lemma window_ok_remembered: "arb_ok st \<Longrightarrow> window_ok (task_tombstone_limit st) (remembered_window st)"
  by (simp add: arb_ok_def remembered_window_def tombstones.push_ok)

lemma arb_window_parts [simp]:
  "fst (arb_window st) = task_terminal_identities st"
  "snd (arb_window st) = task_terminal_identity_set st"
  by (simp_all add: arb_window_def)

lemma refresh_mode_ok [inv_rules]: "arb_ok st \<Longrightarrow> arb_ok (refresh_mode now st)"
  using window_ok_remembered [of st]
  by (auto simp: arb_ok_def task_expired_def teleop_expired_def)

text \<open>The invariant reads only the fields that carry control, not the bookkeeping.\<close>

lemma arb_ok_bookkeeping [simp]:
  "arb_ok (st\<lparr>rejected_counts := a\<rparr>) = arb_ok st"
  "arb_ok (st\<lparr>accepted_counts := a\<rparr>) = arb_ok st"
  "arb_ok (st\<lparr>last_rejection_reason := s\<rparr>) = arb_ok st"
  "arb_ok (st\<lparr>last_task_command_requester_id := s\<rparr>) = arb_ok st"
  "arb_ok (st\<lparr>last_task_command_accepted := b\<rparr>) = arb_ok st"
  "arb_ok (st\<lparr>last_task_command_reason := s\<rparr>) = arb_ok st"
  "arb_ok (st\<lparr>task_control_accepted_count := n\<rparr>) = arb_ok st"
  "arb_ok (st\<lparr>task_control_rejected_count := n\<rparr>) = arb_ok st"
  "arb_ok (st\<lparr>last_task_control_action := s\<rparr>) = arb_ok st"
  "arb_ok (st\<lparr>last_task_control_task_id := s\<rparr>) = arb_ok st"
  "arb_ok (st\<lparr>last_task_control_trace_id := s\<rparr>) = arb_ok st"
  "arb_ok (st\<lparr>last_task_control_session_id := s\<rparr>) = arb_ok st"
  "arb_ok (st\<lparr>last_task_control_accepted := b\<rparr>) = arb_ok st"
  "arb_ok (st\<lparr>last_task_control_reason := s\<rparr>) = arb_ok st"
  "arb_ok (st\<lparr>teleop_control_accepted_count := n\<rparr>) = arb_ok st"
  "arb_ok (st\<lparr>teleop_control_rejected_count := n\<rparr>) = arb_ok st"
  "arb_ok (st\<lparr>last_teleop_control_action := s\<rparr>) = arb_ok st"
  "arb_ok (st\<lparr>last_teleop_control_accepted := b\<rparr>) = arb_ok st"
  "arb_ok (st\<lparr>last_teleop_control_reason := s\<rparr>) = arb_ok st"
  by (simp_all add: arb_ok_def arb_window_def arb_identity_def)

lemma arb_reject_ok [inv_rules]: "arb_ok st \<Longrightarrow> arb_ok (snd (arb_reject src why r st))"
  by (simp add: arb_reject_def Let_def)

lemma reject_task_control_with_ok [inv_rules]:
  "arb_ok st \<Longrightarrow> arb_ok (snd (reject_task_control_with a t r st))"
  by (simp add: reject_task_control_with_def Let_def)

lemma accept_task_control_ok [inv_rules]: "arb_ok st \<Longrightarrow> arb_ok (snd (accept_task_control a t now st))"
  by (simp add: accept_task_control_def Let_def refresh_mode_ok)

lemma reject_teleop_control_ok [inv_rules]: "arb_ok st \<Longrightarrow> arb_ok (snd (reject_teleop_control a r st))"
  by (simp add: reject_teleop_control_def arb_reject_ok)

lemma accept_teleop_control_ok [inv_rules]:
  "arb_ok (st\<lparr>teleop_holder_id := h, teleop_lease_id := l\<rparr>) \<Longrightarrow>
    arb_ok (snd (accept_teleop_control a now h l st))"
  unfolding accept_teleop_control_def Let_def snd_conv
  by (rule refresh_mode_ok) (simp add: arb_ok_def arb_window_def arb_identity_def)

text \<open>A lease that passed its test at \<open>now\<close> is recorded, so its owner is excluded from the rest.\<close>

lemma task_active_time: "is_task_control_active now st \<Longrightarrow> last_task_control_time st \<noteq> None"
  by (auto simp: is_task_control_active_def within_timeout_def split: option.splits)

lemma teleop_active_time: "is_teleop_control_active now st \<Longrightarrow> last_teleop_control_time st \<noteq> None"
  by (auto simp: activity_defs split: option.splits)

lemma task_inactive_refreshed:
  "\<not> is_task_control_active now st \<Longrightarrow> last_task_control_time (refresh_mode now st) = None"
  by (simp add: task_expired_def)

lemma command_rejection_motion:
  "command_rejection Src_motion now r l st = '''' \<Longrightarrow>
    \<not> estop_active st \<and> \<not> is_task_control_active now st \<and> \<not> is_source_active Src_teleop now st"
  by (simp add: command_rejection_def split: if_splits)

lemma accept_command_ok:
  assumes "arb_ok st" "src = Src_motion \<Longrightarrow> \<not> estop_active st \<and> last_task_control_time st = None"
  shows "arb_ok (snd (accept_command src now r st))"
  unfolding accept_command_def Let_def snd_conv
  by (rule refresh_mode_ok, use assms in \<open>cases src\<close>)
    (simp_all add: arb_ok_def arb_window_def arb_identity_def)

lemma receive_command_from_ok [inv_rules]:
  assumes "arb_ok st"
  shows "arb_ok (snd (receive_command_from src now r l st))"
proof -
  let ?s = "refresh_mode now st"
  have ok: "arb_ok ?s" by (rule refresh_mode_ok [OF assms])
  have "arb_ok (snd (accept_command src now (py_strip r) ?s))"
    if "command_rejection src now (py_strip r) (py_strip l) ?s = ''''"
  proof (rule accept_command_ok [OF ok])
    assume "src = Src_motion"
    with that show "\<not> estop_active ?s \<and> last_task_control_time ?s = None"
      using command_rejection_motion [of now "py_strip r" "py_strip l" ?s]
      by (simp add: task_expired_def)
  qed
  with ok show ?thesis by (simp add: receive_command_from_def Let_def arb_reject_ok)
qed

lemma task_control_acceptD:
  assumes "task_control_rejection action now tid trace session lease st = ''''"
  shows "action \<in> TASK_CONTROL_ACTIONS" "full_identity (tid, trace, session)" "\<not> estop_active st"
    "action = ''start'' \<Longrightarrow> \<not> is_task_control_active now st \<Longrightarrow>
       (tid, trace, session) \<notin> task_terminal_identity_set st"
    "action \<noteq> ''start'' \<Longrightarrow> is_task_control_active now st"
    "is_task_control_active now st \<Longrightarrow> task_lease_rejection tid trace session lease st = ''''"
  using assms by (auto simp: task_control_rejection_def full_identity_def split: if_splits)

lemma task_lease_acceptD:
  assumes "task_lease_rejection tid trace session lease st = ''''"
  shows "(tid, trace, session) = arb_identity st" "py_strip lease = arb_task_lease_id st" "lease \<noteq> ''''"
  using assms
  by (auto simp: task_lease_rejection_def task_identity_mismatch_reason_def arb_identity_def
      is_task_lease_holder_def Let_def split: if_splits)

lemma apply_task_control_ok:
  assumes ok: "arb_ok st" and acc: "task_control_rejection action now tid trace session lease st = ''''"
    and fresh: "\<not> is_task_control_active now st \<Longrightarrow> last_task_control_time st = None"
  shows "arb_ok (apply_task_control action now tid trace session fresh st)"
proof -
  note d = task_control_acceptD [OF acc]
  consider "action = ''start''" "is_task_control_active now st"
    | "action = ''start''" "\<not> is_task_control_active now st" | "action = ''keepalive''"
    | "action \<noteq> ''start''" "action \<noteq> ''keepalive''" by blast
  then show ?thesis
  proof cases
    case 1
    with ok task_active_time [OF 1(2)] show ?thesis
      by (simp add: apply_task_control_def) (auto simp: arb_ok_def arb_window_def arb_identity_def)
  next
    case 2
    with ok d(2-4) show ?thesis
      by (simp add: apply_task_control_def start_task_def clear_teleop_control_def)
        (simp add: arb_ok_def arb_window_def arb_identity_def)
  next
    case 3
    with ok d(5) task_active_time [of now st] show ?thesis
      by (simp add: apply_task_control_def) (auto simp: arb_ok_def arb_window_def arb_identity_def)
  next
    case 4
    with ok d(5) task_active_time [of now st] window_ok_remembered [OF ok] show ?thesis
      by (simp add: apply_task_control_def clear_task_control_def remember_task_identity_eq)
        (simp add: arb_ok_def arb_window_def arb_identity_def)
  qed
qed

lemma receive_task_control_ok [inv_rules]:
  assumes "arb_ok st"
  shows "arb_ok (snd (receive_task_control a now t tr s l fresh st))"
proof -
  let ?s = "(refresh_mode now st)\<lparr>last_task_control_action := norm_text a,
     last_task_control_task_id := py_strip t, last_task_control_trace_id := py_strip tr,
     last_task_control_session_id := py_strip s\<rparr>"
  have ok: "arb_ok ?s" using refresh_mode_ok [OF assms, of now] by simp
  have act: "is_task_control_active now ?s = is_task_control_active now (refresh_mode now st)"
    by (simp only: is_task_control_active_def) simp
  have gone: "last_task_control_time ?s = None" if "\<not> is_task_control_active now ?s"
    using that unfolding act by (simp add: task_expired_def)
  show ?thesis
    using ok apply_task_control_ok [OF ok _ gone]
    by (simp add: receive_task_control_def Let_def reject_task_control_with_ok accept_task_control_ok)
qed

lemma reject_task_control_ok [inv_rules]:
  "arb_ok st \<Longrightarrow> arb_ok (snd (reject_task_control a now t tr s r st))"
  by (simp add: reject_task_control_def Let_def reject_task_control_with_ok refresh_mode_ok)

lemma validate_task_operation_ok [inv_rules]:
  "arb_ok st \<Longrightarrow> arb_ok (snd (validate_task_operation now t tr s l st))"
  by (simp add: validate_task_operation_def Let_def refresh_mode_ok)

lemma teleop_control_acceptD:
  assumes "teleop_control_rejection action now requester lease st = ''''"
  shows "action \<in> TELEOP_CONTROL_ACTIONS"
    "action = ''claim'' \<Longrightarrow> \<not> estop_active st \<and> \<not> is_task_control_active now st"
    "action \<noteq> ''claim'' \<Longrightarrow> is_teleop_control_active now st"
    "is_teleop_control_active now st \<Longrightarrow> is_holder requester st"
  using assms by (auto simp: teleop_control_rejection_def split: if_splits)

lemma receive_teleop_control_ok [inv_rules]:
  assumes "arb_ok st"
  shows "arb_ok (snd (receive_teleop_control a now r l fresh st))"
proof -
  let ?a = "norm_text a" and ?r = "py_strip r"
  let ?s = "refresh_mode now (st\<lparr>last_teleop_control_action := ?a\<rparr>)"
  have ok: "arb_ok ?s" by (rule refresh_mode_ok) (simp add: assms)
  have gone: "last_task_control_time ?s = None" if "\<not> is_task_control_active now ?s"
    using that by (simp add: task_expired_def)
  show ?thesis
  proof (cases "teleop_control_rejection ?a now ?r (py_strip l) ?s = ''''")
    case False
    with ok show ?thesis by (simp add: receive_teleop_control_def accepted_teleop_control_def Let_def reject_teleop_control_ok)
  next
    case True
    note d = teleop_control_acceptD [OF True]
    consider (claim) "?a = ''claim''" | (keep) "?a = ''keepalive''" | (rel) "?a = ''release''"
      using d(1) by (auto simp: TELEOP_CONTROL_ACTIONS_def)
    then show ?thesis
    proof cases
      case claim
      have "arb_ok ((claim_teleop now ?r fresh ?s)\<lparr>teleop_holder_id := ?r,
          teleop_lease_id := teleop_lease_id (claim_teleop now ?r fresh ?s)\<rparr>)"
        using ok d(2) [OF claim] gone
        by (simp add: claim_teleop_def Let_def) (simp add: arb_ok_def arb_window_def arb_identity_def)
      from accept_teleop_control_ok [OF this] True claim show ?thesis
        by (simp add: receive_teleop_control_def accepted_teleop_control_def Let_def)
    next
      case keep
      have "teleop_holder_id ?s = ?r" using d(3,4) keep by (simp add: is_holder_def)
      with ok d(3) keep teleop_active_time [of now ?s]
      have "arb_ok (?s\<lparr>last_teleop_control_time := Some now, teleop_holder_id := ?r,
          teleop_lease_id := teleop_lease_id ?s\<rparr>)"
        by (simp add: arb_ok_def arb_window_def arb_identity_def split: if_splits)
      from accept_teleop_control_ok [OF this] True keep show ?thesis
        by (simp add: receive_teleop_control_def accepted_teleop_control_def Let_def)
    next
      case rel
      have "arb_ok (?s\<lparr>teleop_holder_id := '''', teleop_lease_id := '''',
          last_teleop_control_time := None, teleop_holder_id := '''', teleop_lease_id := ''''\<rparr>)"
        using ok by (simp add: arb_ok_def arb_window_def arb_identity_def)
      from accept_teleop_control_ok [OF this] True rel show ?thesis
        by (simp add: receive_teleop_control_def accepted_teleop_control_def Let_def)
    qed
  qed
qed

lemma apply_estop_ok [inv_rules]:
  assumes "arb_ok st"
  shows "arb_ok (apply_estop active now reason st)"
proof (cases active)
  case False
  have "arb_ok ((clear_expired_task_control now st)\<lparr>estop_active := False\<rparr>)"
    using assms window_ok_remembered [OF assms]
    by (simp add: clear_expired_task_control_eq) (simp add: arb_ok_def arb_window_def arb_identity_def)
  with False show ?thesis by (simp add: apply_estop_def Let_def refresh_mode_ok)
next
  case True
  let ?c = "clear_expired_task_control now st"
  have ok: "arb_ok ?c" using assms window_ok_remembered [OF assms]
    by (simp add: clear_expired_task_control_eq) (simp add: arb_ok_def arb_window_def arb_identity_def)
  have w: "remembered_window (?c\<lparr>estop_active := b, estop_reason := s\<rparr>) = remembered_window ?c" for b s
    by (simp add: remembered_window_def arb_window_def arb_identity_def)
  from True show ?thesis
    unfolding apply_estop_def Let_def if_P [OF True]
    by (intro refresh_mode_ok) (use ok window_ok_remembered [OF ok] in \<open>simp add: arb_ok_def
        clear_teleop_control_def clear_task_control_def estop_terminates_task_def
        remember_task_identity_eq w, simp add: arb_window_def\<close>)
qed

lemma set_estop_ok [inv_rules]: "arb_ok st \<Longrightarrow> arb_ok (snd (set_estop active now reason st))"
  by (simp add: set_estop_def arb_snapshot_of_def Let_def refresh_mode_ok apply_estop_ok)

lemma arb_snapshot_ok [inv_rules]: "arb_ok st \<Longrightarrow> arb_ok (snd (arb_snapshot_of now st))"
  by (simp add: arb_snapshot_of_def Let_def refresh_mode_ok)

lemma arb_tick_ok [inv_rules]: "arb_ok st \<Longrightarrow> arb_ok (snd (arb_tick now st))"
  by (simp add: arb_tick_def arb_snapshot_ok refresh_mode_ok)

section \<open>Runs\<close>

text \<open>One call of a public method, with its arguments and, where it may mint a lease, the fresh lease.\<close>

datatype arb_op =
    Op_command string real string string
  | Op_reject_command string real string string
  | Op_task_control string real string string string string string
  | Op_reject_task_control string real string string string string
  | Op_teleop_control string real string string string
  | Op_validate real string string string string
  | Op_estop bool real string
  | Op_snapshot real
  | Op_tick real

text \<open>A command with an unknown source raises and leaves the object as it was.\<close>

fun arb_step :: "arb_op \<Rightarrow> command_arbitrator \<Rightarrow> command_arbitrator" where
  "arb_step (Op_command s now r l) st =
     (case receive_command s now r l st of Inl e \<Rightarrow> st | Inr (_, st') \<Rightarrow> st')"
| "arb_step (Op_reject_command s now r why) st =
     (case reject_command s now r why st of Inl e \<Rightarrow> st | Inr (_, st') \<Rightarrow> st')"
| "arb_step (Op_task_control a now t tr s l fresh) st = snd (receive_task_control a now t tr s l fresh st)"
| "arb_step (Op_reject_task_control a now t tr s why) st = snd (reject_task_control a now t tr s why st)"
| "arb_step (Op_teleop_control a now r l fresh) st = snd (receive_teleop_control a now r l fresh st)"
| "arb_step (Op_validate now t tr s l) st = snd (validate_task_operation now t tr s l st)"
| "arb_step (Op_estop active now reason) st = snd (set_estop active now reason st)"
| "arb_step (Op_snapshot now) st = snd (arb_snapshot_of now st)"
| "arb_step (Op_tick now) st = snd (arb_tick now st)"

definition arb_run :: "arb_op list \<Rightarrow> command_arbitrator \<Rightarrow> command_arbitrator" where
  "arb_run ops st = fold arb_step ops st"

lemma arb_run_simps [simp]:
  "arb_run [] st = st" "arb_run (op # ops) st = arb_run ops (arb_step op st)"
  by (simp_all add: arb_run_def)

lemma receive_command_Inr:
  "receive_command s now r l st = Inr x \<longleftrightarrow>
     (\<exists>src. validate_source s = Inr src \<and> x = receive_command_from src now r l st)"
  by (auto simp: receive_command_def split: sum.splits)

lemma reject_command_Inr:
  "reject_command s now r why st = Inr x \<longleftrightarrow>
     (\<exists>src. validate_source s = Inr src \<and>
        x = arb_reject src (py_strip why) (py_strip r) (refresh_mode now st))"
  by (auto simp: reject_command_def split: sum.splits)

lemma arb_step_command:
  "arb_step (Op_command s now r l) st =
     (case validate_source s of Inl e \<Rightarrow> st | Inr src \<Rightarrow> snd (receive_command_from src now r l st))"
  "arb_step (Op_reject_command s now r why) st =
     (case validate_source s of Inl e \<Rightarrow> st
      | Inr src \<Rightarrow> snd (arb_reject src (py_strip why) (py_strip r) (refresh_mode now st)))"
  by (auto simp: receive_command_def reject_command_def split: sum.splits prod.splits)

lemma arb_step_ok: "arb_ok st \<Longrightarrow> arb_ok (arb_step op st)"
  by (cases op) (auto simp del: arb_step.simps(1,2) simp: arb_step_command intro: inv_rules split: sum.splits)

lemma arb_run_preserves_ok: "arb_ok st \<Longrightarrow> arb_ok (arb_run ops st)"
  by (induction ops arbitrary: st) (simp_all add: arb_step_ok)

section \<open>Abstract specification: who owns the robot\<close>

datatype owner =
    Owner_none
  | Owner_motion
  | Owner_estop
  | Owner_task task_identity string
  | Owner_teleop string string

definition owner_at :: "real \<Rightarrow> command_arbitrator \<Rightarrow> owner" where
  "owner_at now st =
     (if estop_active st then Owner_estop
      else if is_task_control_active now st then Owner_task (arb_identity st) (arb_task_lease_id st)
      else if is_teleop_control_active now st then Owner_teleop (teleop_holder_id st) (teleop_lease_id st)
      else if is_source_active Src_motion now st then Owner_motion
      else Owner_none)"

text \<open>Which command an owner admits: its own, and motion commands only when nobody holds control.\<close>

fun may_command :: "owner \<Rightarrow> source \<Rightarrow> string \<Rightarrow> string \<Rightarrow> bool" where
  "may_command (Owner_task ident lease') Src_task requester lease \<longleftrightarrow>
     requester = fst ident \<and> requester \<noteq> '''' \<and> lease = lease' \<and> lease \<noteq> ''''"
| "may_command (Owner_teleop holder lease') Src_teleop requester lease \<longleftrightarrow>
     requester = holder \<and> requester \<noteq> '''' \<and> lease = lease'"
| "may_command Owner_none Src_motion _ _ \<longleftrightarrow> True"
| "may_command Owner_motion Src_motion _ _ \<longleftrightarrow> True"
| "may_command _ _ _ _ \<longleftrightarrow> False"

definition owner_after_command :: "source \<Rightarrow> owner \<Rightarrow> owner" where
  "owner_after_command src ow = (if src = Src_motion then Owner_motion else ow)"

definition spec_task_control ::
    "string \<Rightarrow> task_identity \<Rightarrow> string \<Rightarrow> string \<Rightarrow> bool \<Rightarrow> owner \<Rightarrow> owner option" where
  "spec_task_control action ident lease fresh replayed ow =
     (if action \<notin> TASK_CONTROL_ACTIONS \<or> \<not> full_identity ident then None
      else case ow of
        Owner_estop \<Rightarrow> None
      | Owner_task ident' lease' \<Rightarrow>
          if ident = ident' \<and> lease = lease' \<and> lease \<noteq> ''''
          then Some (if action \<in> {''start'', ''keepalive''} then ow else Owner_none) else None
      | _ \<Rightarrow> if action = ''start'' \<and> \<not> replayed then Some (Owner_task ident fresh) else None)"

definition spec_teleop_control ::
    "string \<Rightarrow> string \<Rightarrow> string \<Rightarrow> string \<Rightarrow> bool \<Rightarrow> owner \<Rightarrow> owner option" where
  "spec_teleop_control action requester lease fresh motion_live ow =
     (if action = ''claim'' then
        (case ow of
           Owner_estop \<Rightarrow> None
         | Owner_task _ _ \<Rightarrow> None
         | Owner_teleop holder lease' \<Rightarrow>
             if requester = holder
             then Some (Owner_teleop holder (if lease' = '''' then fresh else lease')) else None
         | _ \<Rightarrow> Some (Owner_teleop requester fresh))
      else if action \<in> {''keepalive'', ''release''} then
        (case ow of
           Owner_teleop holder lease' \<Rightarrow>
             if requester = holder \<and> (lease = '''' \<or> lease = lease')
             then Some (if action = ''keepalive'' then ow
                        else if motion_live then Owner_motion else Owner_none)
             else None
         | _ \<Rightarrow> None)
      else None)"

lemma owner_at_refresh [simp]: "owner_at now (refresh_mode now st) = owner_at now st"
  by (auto simp: owner_at_def task_expired_def teleop_expired_def)

lemmas owner_simps = owner_at_def is_teleop_control_active_def is_source_active_def
  is_task_control_active_def arb_identity_def

lemma owner_at_reject [simp]: "owner_at now (snd (arb_reject src why r st)) = owner_at now st"
  by (simp add: arb_reject_def Let_def owner_simps)

lemma owner_at_reject_task [simp]:
  "owner_at now (snd (reject_task_control_with a t r st)) = owner_at now st"
  by (simp add: reject_task_control_with_def Let_def owner_simps)

lemma owner_at_reject_teleop [simp]:
  "owner_at now (snd (reject_teleop_control a r st)) = owner_at now st"
  by (simp add: reject_teleop_control_def) (simp add: owner_simps)

lemma reject_results [simp]:
  "\<not> ar_accepted (fst (arb_reject src why r st))"
  "\<not> ar_accepted (fst (reject_task_control_with a t why st))"
  "\<not> ar_accepted (fst (reject_teleop_control a why st))"
  "ar_reason (fst (arb_reject src why r st)) = why"
  "ar_reason (fst (reject_task_control_with a t why st)) = why"
  "ar_reason (fst (reject_teleop_control a why st)) = why"
  by (simp_all add: arb_reject_def reject_task_control_with_def reject_teleop_control_def Let_def
      result_of_def)

lemma accept_results [simp]:
  "ar_accepted (fst (accept_command src now r st))"
  "ar_accepted (fst (accept_task_control a t now st))"
  "ar_accepted (fst (accept_teleop_control a now h l st))"
  by (simp_all add: accept_command_def accept_task_control_def accept_teleop_control_def Let_def
      result_of_def)

lemma command_rejection_owner:
  "command_rejection src now (py_strip r) (py_strip l) st = '''' \<longleftrightarrow>
     may_command (owner_at now st) src (py_strip r) (py_strip l)"
  by (cases src)
    (auto simp: command_rejection_def task_command_rejection_reason_def owner_at_def arb_identity_def
      is_holder_def is_lease_holder_def is_task_lease_holder_def is_teleop_control_active_def)

lemma owner_after_accept:
  assumes "arb_ok st" "may_command (owner_at now st) src r l"
  shows "owner_at now (snd (accept_command src now r st)) = owner_after_command src (owner_at now st)"
proof -
  have "0 \<le> motion_timeout_sec st" using assms(1) by (simp add: arb_ok_def)
  with assms(2) show ?thesis
    unfolding accept_command_def Let_def snd_conv owner_at_refresh
    by (cases src) (auto simp: owner_after_command_def owner_simps within_timeout_def split: if_splits)
qed

lemma receive_command_owner:
  assumes "arb_ok st"
  shows "(ar_accepted (fst (receive_command_from src now r l st)) \<longleftrightarrow>
           may_command (owner_at now st) src (py_strip r) (py_strip l))
    \<and> owner_at now (snd (receive_command_from src now r l st)) =
           (if may_command (owner_at now st) src (py_strip r) (py_strip l)
            then owner_after_command src (owner_at now st) else owner_at now st)"
proof (intro conjI)
  let ?s = "refresh_mode now st"
  have eq: "command_rejection src now (py_strip r) (py_strip l) ?s = '''' \<longleftrightarrow>
      may_command (owner_at now st) src (py_strip r) (py_strip l)"
    using command_rejection_owner [where st = ?s] by simp
  show "ar_accepted (fst (receive_command_from src now r l st)) \<longleftrightarrow>
      may_command (owner_at now st) src (py_strip r) (py_strip l)"
    using eq by (simp add: receive_command_from_def Let_def)
  show "owner_at now (snd (receive_command_from src now r l st)) =
      (if may_command (owner_at now st) src (py_strip r) (py_strip l)
       then owner_after_command src (owner_at now st) else owner_at now st)"
    using eq owner_after_accept [OF refresh_mode_ok [OF assms], where src = src and now = now
        and r = "py_strip r" and l = "py_strip l"]
    by (simp add: receive_command_from_def Let_def)
qed

lemma task_rejection_owner:
  assumes "\<not> is_task_control_active now st \<Longrightarrow> last_task_control_time st = None"
  shows "task_control_rejection action now tid trace session (py_strip l) st = '''' \<longleftrightarrow>
     spec_task_control action (tid, trace, session) (py_strip l) fresh
       ((tid, trace, session) \<in> task_terminal_identity_set st) (owner_at now st) \<noteq> None"
  by (auto simp: task_control_rejection_def spec_task_control_def full_identity_def owner_at_def
      task_lease_rejection_def task_identity_mismatch_reason_def is_task_lease_holder_def Let_def
      arb_identity_def TASK_CONTROL_ACTIONS_def)

lemma owner_after_task_control:
  assumes ok: "arb_ok st"
    and acc: "task_control_rejection action now tid trace session (py_strip l) st = ''''"
    and gone: "\<not> is_task_control_active now st \<Longrightarrow> last_task_control_time st = None"
  shows "spec_task_control action (tid, trace, session) (py_strip l) fresh
       ((tid, trace, session) \<in> task_terminal_identity_set st) (owner_at now st)
     = Some (owner_at now (apply_task_control action now tid trace session fresh st))"
proof -
  note d = task_control_acceptD [OF acc]
  have t0: "0 \<le> task_timeout_sec st" by (rule arb_okD(4) [OF ok])
  show ?thesis
  proof (cases "is_task_control_active now st")
    case True
    note e = task_lease_acceptD [OF d(6) [OF True]]
    from ok task_active_time [OF True] have none: "last_teleop_control_time st = None" "last_motion_time st = None"
      by (auto simp: arb_ok_def)
    from True d(1-3) e t0 none show ?thesis
      by (auto simp: spec_task_control_def owner_simps apply_task_control_def TASK_CONTROL_ACTIONS_def
          clear_task_control_def remember_task_identity_eq within_timeout_def)
  next
    case False
    with d(5) have a: "action = ''start''" by blast
    with False d t0 show ?thesis
      by (auto simp: spec_task_control_def owner_simps apply_task_control_def start_task_def
          TASK_CONTROL_ACTIONS_def clear_teleop_control_def within_timeout_def split: owner.splits)
  qed
qed

text \<open>The specification applied to a request as the arbiter receives it.\<close>

definition task_control_target ::
    "string \<Rightarrow> real \<Rightarrow> string \<Rightarrow> string \<Rightarrow> string \<Rightarrow> string \<Rightarrow> string \<Rightarrow> command_arbitrator \<Rightarrow> owner option" where
  "task_control_target a now t tr s l fresh st =
     (let ident = (py_strip t, py_strip tr, py_strip s)
      in spec_task_control (norm_text a) ident (py_strip l) fresh
           (ident \<in> task_terminal_identity_set (refresh_mode now st)) (owner_at now st))"

lemma receive_task_control_owner:
  assumes "arb_ok st"
  shows "(ar_accepted (fst (receive_task_control a now t tr s l fresh st)) \<longleftrightarrow>
            task_control_target a now t tr s l fresh st \<noteq> None)
    \<and> owner_at now (snd (receive_task_control a now t tr s l fresh st)) =
        (case task_control_target a now t tr s l fresh st of None \<Rightarrow> owner_at now st | Some ow \<Rightarrow> ow)"
proof -
  let ?s = "(refresh_mode now st)\<lparr>last_task_control_action := norm_text a,
     last_task_control_task_id := py_strip t, last_task_control_trace_id := py_strip tr,
     last_task_control_session_id := py_strip s\<rparr>"
  have ok: "arb_ok ?s" using refresh_mode_ok [OF assms(1), of now] by simp
  have own: "owner_at now ?s = owner_at now st"
  proof -
    have "owner_at now ?s = owner_at now (refresh_mode now st)" by (simp only: owner_simps) simp
    then show ?thesis by simp
  qed
  have act: "is_task_control_active now ?s = is_task_control_active now (refresh_mode now st)"
    by (simp only: is_task_control_active_def) simp
  have gone: "last_task_control_time ?s = None" if "\<not> is_task_control_active now ?s"
    using that unfolding act by (simp add: task_expired_def)
  have win: "task_terminal_identity_set ?s = task_terminal_identity_set (refresh_mode now st)"
    by simp
  let ?i = "(py_strip t, py_strip tr, py_strip s)"
  have sp: "task_control_target a now t tr s l fresh st = spec_task_control (norm_text a) ?i (py_strip l) fresh
       (?i \<in> task_terminal_identity_set ?s) (owner_at now ?s)"
    unfolding task_control_target_def Let_def own win ..
  note rej = task_rejection_owner [OF gone, where action = "norm_text a" and tid = "py_strip t"
      and trace = "py_strip tr" and session = "py_strip s" and fresh = fresh and l = l]
  show ?thesis
  proof (cases "task_control_rejection (norm_text a) now (py_strip t) (py_strip tr) (py_strip s)
      (py_strip l) ?s = ''''")
    case True
    have "owner_at now (snd (accept_task_control x y now z)) = owner_at now z" for x y z
      unfolding accept_task_control_def Let_def snd_conv owner_at_refresh by (simp add: owner_simps)
    with owner_after_task_control [OF ok True gone, of fresh] True show ?thesis
      unfolding sp by (simp add: receive_task_control_def Let_def)
  next
    case False
    with rej have "task_control_target a now t tr s l fresh st = None" unfolding sp by blast
    with False own show ?thesis by (simp add: receive_task_control_def Let_def)
  qed
qed

lemma teleop_rejection_owner:
  "teleop_control_rejection action now (py_strip r) (py_strip l) st = '''' \<longleftrightarrow>
     spec_teleop_control action (py_strip r) (py_strip l) fresh m (owner_at now st) \<noteq> None
     \<or> action \<in> {''keepalive'', ''release''} \<and> is_task_control_active now st
       \<and> is_teleop_control_active now st \<and> is_holder r st
       \<and> (py_strip l = '''' \<or> is_lease_holder l st)
     \<or> action \<in> {''keepalive'', ''release''} \<and> estop_active st
       \<and> is_teleop_control_active now st \<and> is_holder r st
       \<and> (py_strip l = '''' \<or> is_lease_holder l st)"
  by (auto simp: teleop_control_rejection_def spec_teleop_control_def owner_at_def
      TELEOP_CONTROL_ACTIONS_def is_holder_def is_lease_holder_def)

definition teleop_control_target ::
    "string \<Rightarrow> real \<Rightarrow> string \<Rightarrow> string \<Rightarrow> string \<Rightarrow> command_arbitrator \<Rightarrow> owner option" where
  "teleop_control_target a now r l fresh st =
     spec_teleop_control (norm_text a) (py_strip r) (py_strip l) fresh
       (is_source_active Src_motion now st) (owner_at now st)"

lemma teleop_excludes_others:
  "arb_ok st \<Longrightarrow> is_teleop_control_active now st \<Longrightarrow> \<not> estop_active st \<and> \<not> is_task_control_active now st"
  using teleop_active_time [of now st] task_active_time [of now st] by (auto simp: arb_ok_def)

lemma owner_after_teleop_control:
  assumes ok: "arb_ok st" and acc: "teleop_control_rejection action now (py_strip r) (py_strip l) st = ''''"
  shows "spec_teleop_control action (py_strip r) (py_strip l) fresh (is_source_active Src_motion now st)
       (owner_at now st) =
     Some (owner_at now
       (if action = ''claim'' then claim_teleop now (py_strip r) fresh st
        else if action = ''keepalive'' then st\<lparr>last_teleop_control_time := Some now\<rparr>
        else st\<lparr>teleop_holder_id := '''', teleop_lease_id := '''', last_teleop_control_time := None\<rparr>))"
proof -
  note d = teleop_control_acceptD [OF acc]
  have t0: "0 \<le> teleop_timeout_sec st" by (rule arb_okD(2) [OF ok])
  have l: "py_strip l = '''' \<or> py_strip l = teleop_lease_id st" if "action \<noteq> ''claim''"
    using acc that by (auto simp: teleop_control_rejection_def is_lease_holder_def split: if_splits)
  consider (claim) "action = ''claim''" | (keep) "action = ''keepalive''" | (rel) "action = ''release''"
    using d(1) by (auto simp: TELEOP_CONTROL_ACTIONS_def)
  then show ?thesis
  proof cases
    case claim
    with d(2,4) t0 show ?thesis
      by (auto simp: spec_teleop_control_def claim_teleop_def claim_lease_id_def Let_def is_holder_def
          owner_simps within_timeout_def split: option.splits)
  next
    case keep
    with d(3,4) l t0 teleop_excludes_others [OF ok, of now] show ?thesis
      by (auto simp: spec_teleop_control_def is_holder_def owner_simps within_timeout_def)
  next
    case rel
    with d(3,4) l teleop_excludes_others [OF ok, of now] show ?thesis
      by (auto simp: spec_teleop_control_def is_holder_def owner_simps within_timeout_def)
  qed
qed

lemma owner_keepalive:
  "teleop_holder_id s = h \<Longrightarrow>
    owner_at now (s\<lparr>last_teleop_control_time := t, teleop_holder_id := h, teleop_lease_id := teleop_lease_id s\<rparr>)
      = owner_at now (s\<lparr>last_teleop_control_time := t\<rparr>)"
  by (simp add: owner_simps)

lemma receive_teleop_control_owner:
  assumes "arb_ok st"
  shows "(ar_accepted (fst (receive_teleop_control a now r l fresh st)) \<longleftrightarrow>
            teleop_control_target a now r l fresh st \<noteq> None)
    \<and> owner_at now (snd (receive_teleop_control a now r l fresh st)) =
        (case teleop_control_target a now r l fresh st of None \<Rightarrow> owner_at now st | Some ow \<Rightarrow> ow)"
proof -
  let ?a = "norm_text a" and ?r = "py_strip r" and ?l = "py_strip l"
  let ?b = "st\<lparr>last_teleop_control_action := ?a\<rparr>"
  let ?s = "refresh_mode now ?b"
  have ok: "arb_ok ?s" by (rule refresh_mode_ok) (simp add: assms)
  have own: "owner_at now ?s = owner_at now st" unfolding owner_at_refresh by (simp add: owner_simps)
  have mot: "is_source_active Src_motion now ?s = is_source_active Src_motion now st"
    unfolding refresh_mode_active by (simp add: is_source_active_def)
  have tgt: "teleop_control_target a now r l fresh st = spec_teleop_control ?a ?r ?l fresh
      (is_source_active Src_motion now ?s) (owner_at now ?s)"
    unfolding teleop_control_target_def own mot ..
  have acc: "owner_at now (snd (accept_teleop_control x now h y z)) =
      owner_at now (z\<lparr>teleop_holder_id := h, teleop_lease_id := y\<rparr>)" for x h y z
    unfolding accept_teleop_control_def Let_def snd_conv owner_at_refresh by (simp add: owner_simps)
  show ?thesis
  proof (cases "teleop_control_rejection ?a now ?r ?l ?s = ''''")
    case False
    with teleop_rejection_owner [of ?a now r l ?s fresh "is_source_active Src_motion now ?s"]
    have "teleop_control_target a now r l fresh st = None" unfolding tgt by blast
    with False own show ?thesis by (simp add: receive_teleop_control_def accepted_teleop_control_def Let_def)
  next
    case True
    note d = teleop_control_acceptD [OF True]
    have h: "teleop_holder_id ?s = ?r" if "?a \<noteq> ''claim''"
      using d(3) [OF that] d(4) by (simp add: is_holder_def)
    have c: "teleop_holder_id (claim_teleop now ?r fresh ?s) = ?r" by (simp add: claim_teleop_def Let_def)
    have id: "z\<lparr>teleop_holder_id := teleop_holder_id z\<rparr> = z" for z :: command_arbitrator by simp
    let ?res = "receive_teleop_control a now r l fresh st"
    let ?z = "(if ?a = ''claim'' then claim_teleop now ?r fresh ?s
        else if ?a = ''keepalive'' then ?s\<lparr>last_teleop_control_time := Some now\<rparr>
        else ?s\<lparr>teleop_holder_id := '''', teleop_lease_id := '''', last_teleop_control_time := None\<rparr>)"
    have "owner_at now (snd ?res) = owner_at now ?z"
    proof (cases "?a = ''claim''")
      case True
      with \<open>teleop_control_rejection ?a now ?r ?l ?s = ''''\<close> id [of "claim_teleop now ?r fresh ?s", unfolded c]
      show ?thesis by (simp add: receive_teleop_control_def accepted_teleop_control_def Let_def acc)
    next
      case False
      with \<open>teleop_control_rejection ?a now ?r ?l ?s = ''''\<close> h [OF False]
      have hs: "teleop_holder_id s = ?r" if "s = ?s" for s using that h [OF False] by simp
      have res: "snd ?res = (if ?a = ''keepalive''
          then snd (accept_teleop_control ?a now ?r (teleop_lease_id s) (s\<lparr>last_teleop_control_time := Some now\<rparr>))
          else snd (accept_teleop_control ?a now '''' ''''
            (s\<lparr>teleop_holder_id := '''', teleop_lease_id := '''', last_teleop_control_time := None\<rparr>)))"
        if "s = ?s" for s
        using that False \<open>teleop_control_rejection ?a now ?r ?l ?s = ''''\<close>
        by (simp add: receive_teleop_control_def accepted_teleop_control_def Let_def del: refresh_mode_control)
      have "owner_at now (snd ?res) = owner_at now (if ?a = ''keepalive''
          then s\<lparr>last_teleop_control_time := Some now\<rparr>
          else s\<lparr>teleop_holder_id := '''', teleop_lease_id := '''', last_teleop_control_time := None\<rparr>)"
        if "s = ?s" for s
        unfolding res [OF that] using owner_keepalive [OF hs [OF that]] by (simp add: acc) (simp add: owner_simps)
      from this [OF refl] False show ?thesis by (simp del: refresh_mode_control)
    qed
    moreover have "ar_accepted (fst ?res)"
      using True by (simp add: receive_teleop_control_def accepted_teleop_control_def Let_def)
    ultimately show ?thesis
      using owner_after_teleop_control [OF ok True, of fresh] unfolding tgt by simp
  qed
qed

section \<open>Properties of runs\<close>

text \<open>
  C8: A command is accepted exactly when the present owner of the robot admits it - a task
  command from the task holder under its lease, a teleop command from the named teleop holder
  under its lease, a motion command when neither holds control and no emergency stop is active -
  and an accepted command changes the owner only by starting a motion burst.
\<close>

theorem command_refines_owner:
  assumes "arb_ok st"
  shows "(ar_accepted (fst (receive_command_from src now r l st)) \<longleftrightarrow>
           may_command (owner_at now st) src (py_strip r) (py_strip l))
    \<and> owner_at now (snd (receive_command_from src now r l st)) =
           (if may_command (owner_at now st) src (py_strip r) (py_strip l)
            then owner_after_command src (owner_at now st) else owner_at now st)"
  by (rule receive_command_owner [OF assms])

text \<open>
  C9: A task-control request is accepted exactly when the abstract specification of the task
  lease admits it, and then moves ownership as specified: start takes the robot over from anyone
  but another task or an emergency stop, keepalive keeps it, finish and cancel free it; every
  other request leaves the owner alone.
\<close>

theorem task_control_refines_owner:
  assumes "arb_ok st"
  shows "(ar_accepted (fst (receive_task_control a now t tr s l fresh st)) \<longleftrightarrow>
            task_control_target a now t tr s l fresh st \<noteq> None)
    \<and> owner_at now (snd (receive_task_control a now t tr s l fresh st)) =
        (case task_control_target a now t tr s l fresh st of None \<Rightarrow> owner_at now st | Some ow \<Rightarrow> ow)"
  by (rule receive_task_control_owner [OF assms])

text \<open>
  A teleop-control request is accepted exactly when the abstract specification of the teleop
  lease admits it and moves ownership as specified: a claim is granted unless a task, an emergency
  stop or another holder stands in the way, a repeated claim keeps the lease, keepalive keeps
  ownership, and release returns it to a live motion burst or to nobody.
\<close>

theorem teleop_control_refines_owner:
  assumes "arb_ok st"
  shows "(ar_accepted (fst (receive_teleop_control a now r l fresh st)) \<longleftrightarrow>
            teleop_control_target a now r l fresh st \<noteq> None)
    \<and> owner_at now (snd (receive_teleop_control a now r l fresh st)) =
        (case teleop_control_target a now r l fresh st of None \<Rightarrow> owner_at now st | Some ow \<Rightarrow> ow)"
  by (rule receive_teleop_control_owner [OF assms])

text \<open>
  C10: From a freshly constructed arbiter, whatever the sequence of calls, the invariant holds:
  task and teleop never hold control together, a task excludes a motion burst and carries a
  complete identity that is not tombstoned, an emergency stop leaves no control, released control
  leaves no lease behind, and the tombstones are a duplicate-free queue within its limit.
\<close>

theorem arbitrator_run_invariant:
  "arb_ok (arb_run ops (arb_init teleop_timeout motion_timeout task_timeout tombstone_limit))"
  by (rule arb_run_preserves_ok [OF arb_init_ok])

lemma estop_frame [simp]:
  "estop_active (snd (arb_reject src why r st)) = estop_active st"
  "estop_active (snd (reject_task_control_with a t w st)) = estop_active st"
  "estop_active (snd (reject_teleop_control a w st)) = estop_active st"
  "estop_active (snd (accept_command src now r st)) = estop_active st"
  "estop_active (snd (accept_task_control a t now st)) = estop_active st"
  "estop_active (snd (accept_teleop_control a now h l st)) = estop_active st"
  "estop_active (apply_task_control a now t tr s fresh st) = estop_active st"
  "estop_active (claim_teleop now r fresh st) = estop_active st"
  by (simp_all add: arb_reject_def reject_task_control_with_def reject_teleop_control_def
      accept_command_def accept_task_control_def accept_teleop_control_def apply_task_control_def
      start_task_def clear_teleop_control_def clear_task_control_def remember_task_identity_eq
      claim_teleop_def Let_def)

lemma estop_frame_ops [simp]:
  "estop_active (snd (receive_command_from src now r l st)) = estop_active st"
  "estop_active (snd (receive_task_control a now t tr s l fresh st)) = estop_active st"
  "estop_active (snd (reject_task_control a now t tr s w st)) = estop_active st"
  "estop_active (snd (receive_teleop_control a now r l fresh st)) = estop_active st"
  "estop_active (snd (validate_task_operation now t tr s l st)) = estop_active st"
  "estop_active (snd (arb_snapshot_of now st)) = estop_active st"
  "estop_active (snd (arb_tick now st)) = estop_active st"
  "estop_active (snd (set_estop active now why st)) = active"
  by (simp_all add: receive_command_from_def receive_task_control_def reject_task_control_def
      receive_teleop_control_def accepted_teleop_control_def validate_task_operation_def arb_snapshot_of_def arb_tick_def
      set_estop_def apply_estop_def clear_teleop_control_def clear_task_control_def
      estop_terminates_task_def remember_task_identity_eq Let_def)

fun releases_estop :: "arb_op \<Rightarrow> bool" where
  "releases_estop (Op_estop active _ _) = (\<not> active)"
| "releases_estop _ = False"

lemma arb_step_keeps_estop:
  "estop_active st \<Longrightarrow> \<not> releases_estop op \<Longrightarrow> estop_active (arb_step op st)"
  by (cases op) (auto simp del: arb_step.simps(1,2) simp: arb_step_command split: sum.splits)

lemma arb_run_keeps_estop:
  "estop_active st \<Longrightarrow> list_all (\<lambda>op. \<not> releases_estop op) ops \<Longrightarrow> estop_active (arb_run ops st)"
  by (induction ops arbitrary: st) (simp_all add: arb_step_keeps_estop)

lemma owner_estop_iff: "owner_at now st = Owner_estop \<longleftrightarrow> estop_active st"
  by (simp add: owner_at_def)

text \<open>
  Once an emergency stop is set, then after any sequence of calls that does not release it no
  command of any source is accepted (the reason is estop), no task control and no teleop control
  is granted, and the stop is still in force.
\<close>

theorem estop_blocks_until_release:
  assumes "arb_ok st" "list_all (\<lambda>op. \<not> releases_estop op) ops"
  shows "let st' = arb_run ops (arb_step (Op_estop True now0 why) st)
    in estop_active st'
     \<and> ar_reason (fst (receive_command_from src now r l st')) = ''estop''
     \<and> \<not> ar_accepted (fst (receive_command_from src now r l st'))
     \<and> \<not> ar_accepted (fst (receive_task_control a now t tr s l fresh st'))
     \<and> \<not> ar_accepted (fst (receive_teleop_control a now r l fresh st'))"
proof -
  let ?st = "arb_run ops (arb_step (Op_estop True now0 why) st)"
  have e: "estop_active ?st" by (rule arb_run_keeps_estop [OF _ assms(2)]) simp
  have ok: "arb_ok ?st" by (rule arb_run_preserves_ok [OF arb_step_ok [OF assms(1)]])
  have own: "owner_at now ?st = Owner_estop" using e by (simp add: owner_estop_iff)
  have "ar_reason (fst (receive_command_from src now r l ?st)) = ''estop''"
    using e by (simp add: receive_command_from_def command_rejection_def Let_def)
  moreover have "\<not> ar_accepted (fst (receive_command_from src now r l ?st))"
    using receive_command_owner [OF ok, of src now r l] own by simp
  moreover have "\<not> ar_accepted (fst (receive_task_control a now t tr s l fresh ?st))"
    using receive_task_control_owner [OF ok, of a now t tr s l fresh] own
    by (simp add: task_control_target_def spec_task_control_def Let_def)
  moreover have "\<not> ar_accepted (fst (receive_teleop_control a now r l fresh ?st))"
    using receive_teleop_control_owner [OF ok, of a now r l fresh] own
    by (simp add: teleop_control_target_def spec_teleop_control_def)
  ultimately show ?thesis using e by (simp add: Let_def)
qed

section \<open>Tombstones over runs\<close>

text \<open>Every call keeps the tombstone window or pushes one identity into it.\<close>

definition window_step :: "command_arbitrator \<Rightarrow> command_arbitrator \<Rightarrow> bool" where
  "window_step st st' \<longleftrightarrow> task_tombstone_limit st' = task_tombstone_limit st \<and>
     (arb_window st' = arb_window st \<or>
      (\<exists>k. arb_window st' = tombstone_push (task_tombstone_limit st) k (arb_window st)))"

definition window_same :: "command_arbitrator \<Rightarrow> command_arbitrator \<Rightarrow> bool" where
  "window_same st st' \<longleftrightarrow> task_tombstone_limit st' = task_tombstone_limit st \<and> arb_window st' = arb_window st"

lemma window_same_refl [simp]: "window_same st st"
  by (simp add: window_same_def)

lemma window_step_same: "window_step a b \<Longrightarrow> window_same b c \<Longrightarrow> window_step a c"
  by (auto simp: window_step_def window_same_def)

lemma window_same_step: "window_same a b \<Longrightarrow> window_step b c \<Longrightarrow> window_step a c"
  by (auto simp: window_step_def window_same_def)

lemma window_same_imp_step: "window_same a b \<Longrightarrow> window_step a b"
  by (auto simp: window_step_def window_same_def)

lemma remembered_window_cases:
  obtains "remembered_window st = arb_window st"
  | k where "remembered_window st = tombstone_push (task_tombstone_limit st) k (arb_window st)"
  unfolding remembered_window_def by metis

lemma window_step_refresh: "window_step st (refresh_mode now st)"
  unfolding window_step_def
  by (metis remembered_window_cases refresh_mode_window(1) refresh_mode_frame(4))

lemma window_same_refresh: "\<not> task_expired now st \<Longrightarrow> window_same st (refresh_mode now st)"
  by (simp add: window_same_def)

lemma window_step_remember: "window_step st (clear_task_control (remember_task_identity st))"
proof -
  have "arb_window (clear_task_control (remember_task_identity st)) = remembered_window st"
    by (simp add: clear_task_control_def remember_task_identity_eq arb_window_def)
  moreover have "task_tombstone_limit (clear_task_control (remember_task_identity st)) = task_tombstone_limit st"
    by (simp add: clear_task_control_def remember_task_identity_eq)
  ultimately show ?thesis
    by (metis remembered_window_cases window_step_def)
qed

lemma window_same_reject [simp]:
  "window_same st (snd (arb_reject src why r st))"
  "window_same st (snd (reject_task_control_with a t why st))"
  "window_same st (snd (reject_teleop_control a why st))"
  by (simp_all add: window_same_def arb_window_def arb_reject_def reject_task_control_with_def
      reject_teleop_control_def Let_def)

lemma window_same_accept:
  "\<not> task_expired now st \<Longrightarrow> window_same st (snd (accept_command src now r st))"
  "\<not> task_expired now st \<Longrightarrow> window_same st (snd (accept_task_control a t now st))"
  "\<not> task_expired now st \<Longrightarrow> window_same st (snd (accept_teleop_control a now h l st))"
  by (simp_all add: window_same_def accept_command_def accept_task_control_def
      accept_teleop_control_def Let_def)
    (auto simp: task_expired_def is_task_control_active_def arb_window_def)

lemma task_expired_update [simp]:
  "task_expired now (st\<lparr>last_teleop_control_time := x\<rparr>) = task_expired now st"
  "task_expired now (st\<lparr>teleop_holder_id := s\<rparr>) = task_expired now st"
  "task_expired now (st\<lparr>teleop_lease_id := s\<rparr>) = task_expired now st"
  "task_expired now (st\<lparr>last_task_control_session_id := s\<rparr>) = task_expired now st"
  "task_expired now (st\<lparr>last_task_control_trace_id := s\<rparr>) = task_expired now st"
  "task_expired now (st\<lparr>last_task_control_task_id := s\<rparr>) = task_expired now st"
  "task_expired now (st\<lparr>last_task_control_action := s\<rparr>) = task_expired now st"
  by (simp_all add: task_expired_def is_task_control_active_def)

lemma not_expired_just_now: "0 \<le> task_timeout_sec st \<Longrightarrow> \<not> task_expired now (st\<lparr>last_task_control_time := Some now\<rparr>)"
  by (simp add: task_expired_def is_task_control_active_def within_timeout_def)

lemma not_expired_cleared: "\<not> task_expired now (clear_task_control st)"
  by (simp add: task_expired_def clear_task_control_def)

lemma window_step_apply_task_control:
  "window_step st (apply_task_control a now t tr s fresh st)"
  by (auto simp: apply_task_control_def start_task_def clear_teleop_control_def arb_window_def
      window_same_def intro: window_same_imp_step window_step_remember)

lemma not_expired_apply_task_control:
  "0 \<le> task_timeout_sec st \<Longrightarrow> \<not> task_expired now (apply_task_control a now t tr s fresh st)"
  by (simp add: apply_task_control_def not_expired_just_now not_expired_cleared start_task_def
      clear_teleop_control_def)

lemma window_step_receive_command: "window_step st (snd (receive_command_from src now r l st))"
  using window_step_refresh [of st now] window_same_accept(1) [of now "refresh_mode now st"]
  by (auto simp: receive_command_from_def Let_def intro: window_step_same)

lemma window_step_receive_task_control:
  assumes "arb_ok st"
  shows "window_step st (snd (receive_task_control a now t tr s l fresh st))"
proof -
  let ?s = "(refresh_mode now st)\<lparr>last_task_control_action := norm_text a,
     last_task_control_task_id := py_strip t, last_task_control_trace_id := py_strip tr,
     last_task_control_session_id := py_strip s\<rparr>"
  have same: "window_same (refresh_mode now st) ?s" by (simp add: window_same_def arb_window_def)
  have st: "window_step st ?s" by (rule window_step_same [OF window_step_refresh same])
  show ?thesis
  proof (cases "task_control_rejection (norm_text a) now (py_strip t) (py_strip tr) (py_strip s)
      (py_strip l) ?s = ''''")
    case False
    with window_step_same [OF st window_same_reject(2)] show ?thesis
      by (simp add: receive_task_control_def Let_def)
  next
    case True
    let ?z = "apply_task_control (norm_text a) now (py_strip t) (py_strip tr) (py_strip s) fresh ?s"
    have t0: "0 \<le> task_timeout_sec ?s" using arb_okD(4) [OF assms] by simp
    have fin: "window_step ?s (snd (accept_task_control (norm_text a) (py_strip t) now ?z))"
      by (rule window_step_same [OF window_step_apply_task_control
            window_same_accept(2) [OF not_expired_apply_task_control [OF t0]]])
    have "window_step st (snd (accept_task_control (norm_text a) (py_strip t) now ?z))"
    proof (cases "is_task_control_active now st")
      case True
      then have "window_same st ?s"
        by (simp add: window_same_def arb_window_def task_expired_def)
      from window_same_step [OF this fin] show ?thesis .
    next
      case False
      have inact: "\<not> is_task_control_active now ?s"
        using False unfolding is_task_control_active_def by (simp add: task_expired_def within_timeout_def)
      with task_control_acceptD(5) [OF True] have "norm_text a = ''start''" by blast
      then have "window_same ?s ?z"
        using inact by (simp add: apply_task_control_def start_task_def clear_teleop_control_def
            window_same_def arb_window_def)
      from window_step_same [OF window_step_same [OF st this]
          window_same_accept(2) [OF not_expired_apply_task_control [OF t0]]]
      show ?thesis .
    qed
    with True show ?thesis by (simp add: receive_task_control_def Let_def)
  qed
qed

lemma window_same_claim: "window_same s (claim_teleop now x fresh s)"
  by (simp add: claim_teleop_def Let_def window_same_def arb_window_def)

lemma not_expired_claim: "task_expired now (claim_teleop now x fresh s) = task_expired now s"
  by (simp add: claim_teleop_def Let_def)

lemma window_same_accepted_teleop:
  assumes "\<not> task_expired now s"
  shows "window_same s (snd (accepted_teleop_control a now h fresh s))"
proof -
  have step: "window_same s (snd (accept_teleop_control b now k y z))"
    if "window_same s z" "\<not> task_expired now z" for b k y z
    using window_same_accept(3) [OF that(2), of b k y] that(1) by (simp add: window_same_def)
  show ?thesis
    unfolding accepted_teleop_control_def Let_def
    by (cases "a = ''claim''"; cases "a = ''keepalive''")
      (simp_all only: if_True if_False, auto intro!: step window_same_claim
        simp: not_expired_claim assms window_same_def [of _ "_\<lparr>last_teleop_control_time := _\<rparr>"] arb_window_def)
qed

lemma window_step_receive_teleop: "window_step st (snd (receive_teleop_control a now r l fresh st))"
proof -
  let ?b = "st\<lparr>last_teleop_control_action := norm_text a\<rparr>"
  let ?s = "refresh_mode now ?b"
  have "window_same st ?b" by (simp add: window_same_def arb_window_def)
  then have st: "window_step st ?s" by (rule window_same_step [OF _ window_step_refresh])
  have "window_step st (snd (reject_teleop_control x why ?s))" for x why
    by (rule window_step_same [OF st window_same_reject(3)])
  moreover have "window_step st (snd (accepted_teleop_control x now h fresh ?s))" for x h
    by (rule window_step_same [OF st window_same_accepted_teleop]) simp
  ultimately show ?thesis by (simp only: receive_teleop_control_def Let_def split: if_splits) simp
qed

lemma window_step_clear_expired: "window_step st (clear_expired_task_control now st)"
proof -
  have "arb_window (clear_expired_task_control now st) =
      (if task_expired now st then remembered_window st else arb_window st)"
    by (simp add: clear_expired_task_control_eq arb_window_def)
  moreover have "task_tombstone_limit (clear_expired_task_control now st) = task_tombstone_limit st"
    by (simp add: clear_expired_task_control_eq)
  ultimately show ?thesis unfolding window_step_def by (metis remembered_window_cases)
qed

lemma window_step_apply_estop: "window_step st (apply_estop active now why st)"
proof -
  define c where "c = clear_expired_task_control now st"
  have c: "window_step st c" unfolding c_def by (rule window_step_clear_expired)
  have fresh: "\<not> task_expired now c"
    by (simp add: c_def clear_expired_task_control_eq) (simp add: task_expired_def)
  have fin: "window_same x (refresh_mode now ((clear_teleop_control (clear_task_control x))\<lparr>last_motion_time := None\<rparr>))" for x
    by (simp add: window_same_def clear_teleop_control_def clear_task_control_def)
      (simp add: task_expired_def arb_window_def)
  consider (rel) "\<not> active" | (idle) active "\<not> is_task_control_active now c"
    | (busy) active "is_task_control_active now c" by blast
  then show ?thesis
  proof cases
    case rel
    from fresh have "window_same c (refresh_mode now (c\<lparr>estop_active := False\<rparr>))"
      by (auto simp: window_same_def task_expired_def is_task_control_active_def arb_window_def)
    with c rel show ?thesis by (simp add: apply_estop_def c_def [symmetric] Let_def window_step_same)
  next
    case idle
    let ?x = "c\<lparr>estop_active := True, estop_reason := (if py_strip why = '''' then ''estop'' else py_strip why)\<rparr>"
    have "window_same c ?x" by (simp add: window_same_def arb_window_def)
    from window_step_same [OF window_step_same [OF c this] fin] idle show ?thesis
      by (simp add: apply_estop_def c_def [symmetric] Let_def)
  next
    case busy
    let ?x = "c\<lparr>estop_active := True, estop_reason := (if py_strip why = '''' then ''estop'' else py_strip why)\<rparr>"
    have "\<not> task_expired now st"
      using busy(2) unfolding c_def by (auto simp: clear_expired_task_control_eq is_task_control_active_def within_timeout_def split: if_splits)
    then have "c = st" by (simp add: c_def clear_expired_task_control_eq)
    then have same: "window_same st ?x" by (simp add: window_same_def arb_window_def)
    have "window_step ?x (estop_terminates_task ?x)"
      using window_step_remember [of ?x]
      by (simp add: window_step_def estop_terminates_task_def clear_task_control_def arb_window_def)
    from window_step_same [OF window_same_step [OF same this] fin] busy show ?thesis
      by (simp add: apply_estop_def c_def [symmetric] Let_def)
  qed
qed

lemma window_step_bookkeeping:
  assumes "window_step st s" "arb_window s' = arb_window s"
    "task_tombstone_limit s' = task_tombstone_limit s"
  shows "window_step st s'"
  using window_step_same [OF assms(1), of s'] assms(2,3) by (simp add: window_same_def)

lemma window_step_reject_task_control:
  "window_step st (snd (reject_task_control a now t tr s why st))"
  by (rule window_step_bookkeeping [OF window_step_refresh [of st now]])
    (simp_all add: reject_task_control_def reject_task_control_with_def Let_def arb_window_def)

lemma window_step_snapshot: "window_step st (snd (arb_snapshot_of now st))"
  by (simp add: arb_snapshot_of_def Let_def window_step_refresh)

lemma window_step_tick: "window_step st (snd (arb_tick now st))"
  by (simp add: arb_tick_def arb_snapshot_of_def Let_def refresh_mode_idem window_step_refresh)

lemma window_same_snapshot_estop:
  "window_same (apply_estop active now why st) (snd (set_estop active now why st))"
proof -
  have "refresh_mode now (apply_estop active now why st) = apply_estop active now why st"
    by (auto simp: apply_estop_def Let_def refresh_mode_idem)
  then show ?thesis by (simp add: set_estop_def arb_snapshot_of_def Let_def)
qed

lemma window_step_set_estop: "window_step st (snd (set_estop active now why st))"
  by (rule window_step_same [OF window_step_apply_estop window_same_snapshot_estop])

lemma arb_step_window:
  assumes "arb_ok st"
  shows "window_step st (arb_step op st)"
proof (cases op)
  case (Op_command s now r l)
  then show ?thesis
    by (auto simp: receive_command_def window_step_receive_command window_same_imp_step
        split: sum.splits prod.splits) (metis snd_conv window_step_receive_command)
next
  case (Op_reject_command s now r why)
  then show ?thesis
    by (auto simp: reject_command_def window_same_imp_step split: sum.splits prod.splits)
      (metis snd_conv window_same_reject(1) window_step_refresh window_step_same)
next
  case Op_task_control
  then show ?thesis by (simp add: window_step_receive_task_control [OF assms])
next
  case Op_validate
  then show ?thesis by (simp add: validate_task_operation_def Let_def window_step_refresh)
qed (simp_all add: window_step_reject_task_control window_step_receive_teleop
    window_step_set_estop window_step_snapshot window_step_tick)

text \<open>A run pushes at most one identity per call.\<close>

lemma arb_run_window:
  assumes "arb_ok st"
  shows "\<exists>ks. length ks \<le> length ops \<and> task_tombstone_limit (arb_run ops st) = task_tombstone_limit st \<and>
    arb_window (arb_run ops st) = fold (tombstone_push (task_tombstone_limit st)) ks (arb_window st)"
  using assms
proof (induction ops arbitrary: st)
  case Nil
  then show ?case by simp
next
  case (Cons op ops)
  let ?s = "arb_step op st"
  from Cons.IH [OF arb_step_ok [OF Cons.prems, of op]] obtain ks where ks: "length ks \<le> length ops"
    "task_tombstone_limit (arb_run ops ?s) = task_tombstone_limit ?s"
    "arb_window (arb_run ops ?s) = fold (tombstone_push (task_tombstone_limit ?s)) ks (arb_window ?s)"
    by blast
  have "window_step st ?s" by (rule arb_step_window [OF Cons.prems])
  then consider "task_tombstone_limit ?s = task_tombstone_limit st" "arb_window ?s = arb_window st"
    | k where "task_tombstone_limit ?s = task_tombstone_limit st"
      "arb_window ?s = tombstone_push (task_tombstone_limit st) k (arb_window st)"
    unfolding window_step_def by blast
  then show ?case
  proof cases
    case 1
    with ks show ?thesis by (intro exI [of _ ks]) simp
  next
    case 2
    with ks show ?thesis by (intro exI [of _ "k # ks"]) simp
  qed
qed

lemma finish_pushes:
  assumes ok: "arb_ok st" and a: "norm_text a \<in> {''finish'', ''cancel''}"
    and acc: "ar_accepted (fst (receive_task_control a now t tr s l fresh st))"
  shows "(py_strip t, py_strip tr, py_strip s) \<notin> task_terminal_identity_set st"
    "arb_window (snd (receive_task_control a now t tr s l fresh st)) =
       tombstone_push (task_tombstone_limit st) (py_strip t, py_strip tr, py_strip s) (arb_window st)"
proof -
  let ?i = "(py_strip t, py_strip tr, py_strip s)"
  let ?s = "(refresh_mode now st)\<lparr>last_task_control_action := norm_text a,
     last_task_control_task_id := py_strip t, last_task_control_trace_id := py_strip tr,
     last_task_control_session_id := py_strip s\<rparr>"
  have na: "norm_text a \<noteq> ''start''" "norm_text a \<noteq> ''keepalive''" using a by auto
  have rej: "task_control_rejection (norm_text a) now (py_strip t) (py_strip tr) (py_strip s)
      (py_strip l) ?s = ''''"
    using acc by (simp add: receive_task_control_def Let_def split: if_splits)
  note d = task_control_acceptD [OF rej]
  have act: "is_task_control_active now ?s" by (rule d(5) [OF na(1)])
  have act': "is_task_control_active now st"
    using act unfolding is_task_control_active_def by (auto simp: within_timeout_def split: if_splits)
  then have fresh: "\<not> task_expired now st" by (simp add: task_expired_def)
  have id: "?i = arb_identity ?s" by (rule task_lease_acceptD(1) [OF d(6) [OF act]])
  have id': "arb_identity ?s = arb_identity st" by (simp add: arb_identity_def)
  show "?i \<notin> task_terminal_identity_set st"
    using ok task_active_time [OF act'] unfolding id id' by (simp add: arb_ok_def)
  have t0: "0 \<le> task_timeout_sec ?s" using arb_okD(4) [OF ok] by simp
  let ?z = "apply_task_control (norm_text a) now (py_strip t) (py_strip tr) (py_strip s) fresh ?s"
  have "arb_window (snd (receive_task_control a now t tr s l fresh st)) = arb_window ?z"
    using window_same_accept(2) [OF not_expired_apply_task_control [OF t0], where a = "norm_text a" and t = "py_strip t"] rej
    by (simp add: receive_task_control_def Let_def window_same_def)
  also have "\<dots> = remembered_window ?s"
    using na by (simp add: apply_task_control_def clear_task_control_def remember_task_identity_eq arb_window_def)
  also have "\<dots> = tombstone_push (task_tombstone_limit st) ?i (arb_window st)"
    using d(2) fresh unfolding remembered_window_def id [symmetric] by (simp add: arb_window_def)
  finally show "arb_window (snd (receive_task_control a now t tr s l fresh st)) =
       tombstone_push (task_tombstone_limit st) ?i (arb_window st)" .
qed

lemma tombstoned_not_granted:
  assumes ok: "arb_ok st" and dead: "(py_strip t, py_strip tr, py_strip s) \<in> task_terminal_identity_set (refresh_mode now st)"
  shows "\<not> ar_accepted (fst (receive_task_control a now t tr s l fresh st))"
proof -
  have "arb_identity st \<noteq> (py_strip t, py_strip tr, py_strip s)" if "is_task_control_active now st"
    using ok dead task_active_time [OF that] that by (auto simp: arb_ok_def task_expired_def)
  then have "spec_task_control x (py_strip t, py_strip tr, py_strip s) l' f True (owner_at now st) = None" for x l' f
    by (simp add: spec_task_control_def owner_at_def) metis
  then have "task_control_target a now t tr s l fresh st = None"
    unfolding task_control_target_def Let_def using dead by simp
  with receive_task_control_owner [OF ok, of a now t tr s l fresh] show ?thesis by blast
qed

text \<open>
  C11: A task that was finished or cancelled cannot come back: as long as the calls made since
  then are fewer than the tombstone limit less one, no task control (start, keepalive, finish or
  cancel) with its (task, trace, session) identity is accepted, whatever lease it carries and
  whoever owns the robot by then.
\<close>

theorem terminated_task_cannot_restart:
  assumes "arb_ok st" "norm_text a \<in> {''finish'', ''cancel''}"
    "ar_accepted (fst (receive_task_control a now t tr s l fresh st))"
    "Suc (length ops) < task_tombstone_limit st"
  shows "\<not> ar_accepted (fst (receive_task_control a' now' t tr s l' fresh'
    (arb_run ops (snd (receive_task_control a now t tr s l fresh st)))))"
proof -
  let ?i = "(py_strip t, py_strip tr, py_strip s)"
  let ?f = "snd (receive_task_control a now t tr s l fresh st)"
  let ?n = "task_tombstone_limit st"
  note fin = finish_pushes [OF assms(1-3)]
  have okf: "arb_ok ?f" by (rule receive_task_control_ok [OF assms(1)])
  have nf: "task_tombstone_limit ?f = ?n"
    using window_step_receive_task_control [OF assms(1)] by (simp add: window_step_def)
  \<comment> \<open>the start call itself first refreshes the mode, which is one more snapshot of the run\<close>
  let ?g = "arb_run (ops @ [Op_tick now']) ?f"
  obtain ks where ks: "length ks \<le> length (ops @ [Op_tick now'])"
    "arb_window ?g = fold (tombstone_push ?n) ks (arb_window ?f)"
    using arb_run_window [OF okf, of "ops @ [Op_tick now']"] unfolding nf by blast
  have "?i \<in> snd (fold (tombstone_push ?n) ks (tombstone_push ?n ?i (arb_window st)))"
    by (rule tombstones.remembered) (use assms(4) ks(1) fin(1) arb_okD [OF assms(1)] in simp_all)
  then have "?i \<in> task_terminal_identity_set ?g"
    using ks(2) fin(2) by (metis arb_window_parts(2))
  moreover have "?g = refresh_mode now' (arb_run ops ?f)"
    by (simp add: arb_run_def arb_tick_def arb_snapshot_of_def Let_def refresh_mode_idem)
  ultimately show ?thesis
    using tombstoned_not_granted [OF arb_run_preserves_ok [OF okf]] by simp
qed

section \<open>Leases over time\<close>

text \<open>
  A task lease that is not kept alive runs out by itself: the first tick after the timeout frees
  the robot, reports the task as expired and recoverable, rejects its further commands and every
  attempt to use the old identity again.
\<close>

lemma tick_expires:
  assumes "arb_ok st" "last_task_control_time st = Some t0" "task_timeout_sec st < now - t0"
  shows "task_expired now st" "full_identity (arb_identity st)" "\<not> estop_active st"
    "last_teleop_control_time st = None" "last_motion_time st = None" "0 < task_tombstone_limit st"
  using assms by (auto simp: arb_ok_def task_expired_def is_task_control_active_def within_timeout_def)

lemma refresh_expired_report:
  assumes "task_expired now st"
  shows "last_task_control_action (refresh_mode now st) = ''timeout''"
    "last_task_control_accepted (refresh_mode now st) = False"
    "last_task_control_reason (refresh_mode now st) = ''task_lease_expired''"
  using assms by (simp_all add: refresh_mode_def Let_def split_def clear_expired_task_control_eq
      clear_expired_teleop_control_eq clear_teleop_control_def)

text \<open>
  A task lease that is not kept alive expires: a tick later than the timeout leaves the robot
  with nobody, reports the task as expired, recoverable and idle, remembers its identity, and from
  then on the old holder's commands are turned away as not granted.
\<close>

theorem task_lease_expires:
  assumes "arb_ok st" "last_task_control_time st = Some t0" "task_timeout_sec st < now - t0"
  shows "snap_task_status (fst (arb_tick now st)) = ''expired''
    \<and> snap_task_recoverable (fst (arb_tick now st))
    \<and> snap_mode (fst (arb_tick now st)) = Mode_idle
    \<and> owner_at now (snd (arb_tick now st)) = Owner_none
    \<and> arb_identity st \<in> task_terminal_identity_set (snd (arb_tick now st))
    \<and> ar_reason (fst (receive_command_from Src_task now r l (snd (arb_tick now st)))) = ''task_control_not_granted''"
proof -
  note e = tick_expires [OF assms]
  let ?s = "refresh_mode now st"
  have tick: "arb_tick now st = arb_snapshot_of now st"
    by (simp add: arb_tick_def arb_snapshot_of_def refresh_mode_idem)
  have s: "snd (arb_tick now st) = ?s" unfolding tick by (simp add: arb_snapshot_of_def Let_def)
  have gone: "\<not> is_task_control_active now ?s" "\<not> is_task_control_active now st"
    using e(1) by (simp_all add: task_expired_def)
  have others: "\<not> is_teleop_control_active now st" "\<not> is_source_active Src_motion now st"
    using e(4,5) by (simp_all add: is_teleop_control_active_def is_source_active_def within_timeout_def)
  have "task_status now ?s = ''expired''"
    using gone e(3) refresh_expired_report [OF e(1)] by (simp add: task_status_def)
  moreover have "task_recoverable ?s"
    using e(3) refresh_expired_report [OF e(1)] by (simp add: task_recoverable_def recoverable_task_reasons_def)
  moreover have "arb_mode ?s = Mode_idle"
    using gone others e(3) by (simp add: refresh_mode_selects select_mode_def)
  moreover have "owner_at now ?s = Owner_none"
    using gone others e(3) by (simp add: owner_at_def)
  moreover have "arb_identity st \<in> task_terminal_identity_set ?s"
    using e(1,2) tombstones.push_remembers [OF e(6) arb_okD(5) [OF assms(1)]]
    by (simp add: remembered_window_def)
  moreover have "ar_reason (fst (receive_command_from Src_task now r l ?s)) = ''task_control_not_granted''"
    using gone e(3) by (simp add: receive_command_from_def Let_def refresh_mode_idem
        command_rejection_def task_command_rejection_reason_def)
  ultimately show ?thesis unfolding s tick by (simp add: arb_snapshot_of_def Let_def)
qed

lemma claim_sets_time:
  assumes "norm_text a = ''claim''" "0 \<le> teleop_timeout_sec st"
    "ar_accepted (fst (receive_teleop_control a now r l fresh st))"
  shows "last_teleop_control_time (snd (receive_teleop_control a now r l fresh st)) = Some now"
    "teleop_timeout_sec (snd (receive_teleop_control a now r l fresh st)) = teleop_timeout_sec st"
    "teleop_holder_id (snd (receive_teleop_control a now r l fresh st)) = py_strip r"
  using assms
  by (auto simp: receive_teleop_control_def Let_def accepted_teleop_control_def claim_teleop_def
      accept_teleop_control_def teleop_expired_def is_teleop_control_active_def
      is_source_active_def within_timeout_def split: if_splits)

lemma claim_holds:
  assumes "arb_ok st" "norm_text a = ''claim''"
    "ar_accepted (fst (receive_teleop_control a now r l fresh st))"
    "now' - now \<le> teleop_timeout_sec st"
  shows "\<exists>lease. owner_at now' (snd (receive_teleop_control a now r l fresh st)) = Owner_teleop (py_strip r) lease"
proof -
  let ?z = "snd (receive_teleop_control a now r l fresh st)"
  note z = claim_sets_time [OF assms(2) arb_okD(2) [OF assms(1)] assms(3)]
  have "arb_ok ?z" by (rule receive_teleop_control_ok [OF assms(1)])
  moreover have act: "is_teleop_control_active now' ?z"
    using z(1,2) assms(4) by (simp add: is_teleop_control_active_def is_source_active_def within_timeout_def)
  ultimately have "\<not> estop_active ?z \<and> \<not> is_task_control_active now' ?z"
    by (rule teleop_excludes_others)
  with act z(3) show ?thesis by (auto simp: owner_at_def)
qed

text \<open>
  A teleop claim that was granted keeps everybody else out for the whole teleop timeout:
  until then the robot is owned by that holder, no other requester's teleop command or claim is
  accepted, and no motion command is.
\<close>

theorem teleop_claim_is_exclusive:
  assumes "arb_ok st" "norm_text a = ''claim''"
    "ar_accepted (fst (receive_teleop_control a now r l fresh st))"
    "now' - now \<le> teleop_timeout_sec st" "py_strip r' \<noteq> py_strip r"
  shows "let st' = snd (receive_teleop_control a now r l fresh st)
    in \<not> ar_accepted (fst (receive_command_from Src_teleop now' r' l' st'))
     \<and> \<not> ar_accepted (fst (receive_teleop_control a' now' r' l' fresh' st'))
     \<and> \<not> ar_accepted (fst (receive_command_from Src_motion now' m l' st'))"
proof -
  let ?z = "snd (receive_teleop_control a now r l fresh st)"
  have ok: "arb_ok ?z" by (rule receive_teleop_control_ok [OF assms(1)])
  obtain lease where own: "owner_at now' ?z = Owner_teleop (py_strip r) lease"
    using claim_holds [OF assms(1-4)] by blast
  have "teleop_control_target a' now' r' l' fresh' ?z = None"
    using own assms(5) by (simp add: teleop_control_target_def spec_teleop_control_def)
  then show ?thesis
    using receive_command_owner [OF ok] receive_teleop_control_owner [OF ok] own assms(5)
    by (auto simp: Let_def)
qed

text \<open>
  A claim that carries no requester id is granted like any other, and then nobody can drive
  the robot by teleop or motion until it times out: every teleop command is rejected, the
  claimant's own included, and so are motion commands and the claims of requesters with a name.
\<close>

theorem anonymous_claim_locks_out:
  assumes "arb_ok st" "owner_at now st = Owner_none" "py_strip r = ''''"
    "now' - now \<le> teleop_timeout_sec st"
  shows "let st' = snd (receive_teleop_control ''claim'' now r l fresh st)
    in ar_accepted (fst (receive_teleop_control ''claim'' now r l fresh st))
     \<and> \<not> ar_accepted (fst (receive_command_from Src_teleop now' r' l' st'))
     \<and> \<not> ar_accepted (fst (receive_command_from Src_motion now' r' l' st'))
     \<and> (py_strip r' \<noteq> '''' \<longrightarrow> \<not> ar_accepted (fst (receive_teleop_control ''claim'' now' r' l' fresh' st')))"
proof -
  let ?z = "snd (receive_teleop_control ''claim'' now r l fresh st)"
  have n: "norm_text ''claim'' = ''claim''" by code_simp
  have acc: "ar_accepted (fst (receive_teleop_control ''claim'' now r l fresh st))"
    using receive_teleop_control_owner [OF assms(1), of "''claim''" now r l fresh] assms(2)
    by (simp add: teleop_control_target_def spec_teleop_control_def n)
  have ok: "arb_ok ?z" by (rule receive_teleop_control_ok [OF assms(1)])
  obtain lease where own: "owner_at now' ?z = Owner_teleop '''' lease"
    using claim_holds [OF assms(1) n acc assms(4)] assms(3) by auto
  have "teleop_control_target ''claim'' now' r' l' fresh' ?z = None" if "py_strip r' \<noteq> ''''"
    using own that by (simp add: teleop_control_target_def spec_teleop_control_def n)
  then show ?thesis
    using receive_command_owner [OF ok] receive_teleop_control_owner [OF ok] own acc
    by (auto simp: Let_def)
qed

section \<open>Concrete runs\<close>

definition demo_idle :: command_arbitrator where
  "demo_idle = arb_init 1 1 5 4"

definition demo_started :: command_arbitrator where
  "demo_started = snd (receive_task_control '' Start '' 0 ''t'' ''tr'' ''s'' '''' ''L'' demo_idle)"

lemma demo_ok: "arb_ok demo_idle" "arb_ok demo_started"
  by (simp_all add: demo_idle_def demo_started_def arb_init_ok receive_task_control_ok)

theorem command_refines_owner_witness:
  "ar_accepted (fst (receive_command_from Src_task 1 ''t'' ''L'' demo_started))
   \<and> \<not> ar_accepted (fst (receive_command_from Src_motion 1 ''m'' '''' demo_started))"
proof -
  have own: "owner_at 1 demo_started = Owner_task (''t'', ''tr'', ''s'') ''L''" by code_simp
  have strip: "py_strip ''t'' = ''t''" "py_strip ''L'' = ''L''" by code_simp+
  show ?thesis
    using command_refines_owner [OF demo_ok(2), of Src_task 1 "''t''" "''L''"]
      command_refines_owner [OF demo_ok(2), of Src_motion 1 "''m''" "''''"]
    unfolding own strip by simp
qed

theorem task_control_refines_owner_witness:
  "owner_at 2 (snd (receive_task_control ''keepalive'' 2 ''t'' ''tr'' ''s'' ''L'' '''' demo_started))
     = Owner_task (''t'', ''tr'', ''s'') ''L''
   \<and> \<not> ar_accepted (fst (receive_task_control ''start'' 2 ''u'' ''tr'' ''s'' '''' ''M'' demo_started))"
proof -
  have "task_control_target ''keepalive'' 2 ''t'' ''tr'' ''s'' ''L'' '''' demo_started
      = Some (Owner_task (''t'', ''tr'', ''s'') ''L'')"
    "task_control_target ''start'' 2 ''u'' ''tr'' ''s'' '''' ''M'' demo_started = None" by code_simp+
  then show ?thesis
    using task_control_refines_owner [OF demo_ok(2), of "''keepalive''" 2 "''t''" "''tr''" "''s''" "''L''" "''''"]
      task_control_refines_owner [OF demo_ok(2), of "''start''" 2 "''u''" "''tr''" "''s''" "''''" "''M''"]
    by simp
qed

theorem teleop_control_refines_owner_witness:
  "owner_at 0 (snd (receive_teleop_control ''claim'' 0 ''pad'' '''' ''K'' demo_idle)) = Owner_teleop ''pad'' ''K''
   \<and> \<not> ar_accepted (fst (receive_teleop_control ''claim'' 0 ''pad'' '''' ''K'' demo_started))"
proof -
  have "teleop_control_target ''claim'' 0 ''pad'' '''' ''K'' demo_idle = Some (Owner_teleop ''pad'' ''K'')"
    "teleop_control_target ''claim'' 0 ''pad'' '''' ''K'' demo_started = None" by code_simp+
  then show ?thesis
    using teleop_control_refines_owner [OF demo_ok(1), of "''claim''" 0 "''pad''" "''''" "''K''"]
      teleop_control_refines_owner [OF demo_ok(2), of "''claim''" 0 "''pad''" "''''" "''K''"]
    by simp
qed

theorem estop_blocks_until_release_witness:
  "\<not> ar_accepted (fst (receive_command_from Src_motion 9 ''m'' ''''
     (arb_run [Op_tick 3, Op_estop True 4 ''again'', Op_snapshot 8]
       (arb_step (Op_estop True 1 ''button'') demo_started))))"
proof -
  have "list_all (\<lambda>op. \<not> releases_estop op) [Op_tick 3, Op_estop True 4 ''again'', Op_snapshot 8]" by simp
  from estop_blocks_until_release [OF demo_ok(2) this] show ?thesis unfolding Let_def by blast
qed

theorem terminated_task_cannot_restart_witness:
  "\<not> ar_accepted (fst (receive_task_control ''start'' 3 ''t'' ''tr'' ''s'' '''' ''M''
     (arb_run [Op_tick 2] (snd (receive_task_control ''finish'' 1 ''t'' ''tr'' ''s'' ''L'' '''' demo_started)))))"
proof -
  have a: "norm_text ''finish'' \<in> {''finish'', ''cancel''}"
    "ar_accepted (fst (receive_task_control ''finish'' 1 ''t'' ''tr'' ''s'' ''L'' '''' demo_started))"
    "Suc (length [Op_tick 2]) < task_tombstone_limit demo_started" by code_simp+
  show ?thesis by (rule terminated_task_cannot_restart [OF demo_ok(2) a])
qed

theorem task_lease_expires_witness:
  "snap_task_status (fst (arb_tick 6 demo_started)) = ''expired''"
proof -
  have a: "last_task_control_time demo_started = Some 0" "task_timeout_sec demo_started < 6 - 0" by code_simp+
  show ?thesis using task_lease_expires [OF demo_ok(2) a] by blast
qed

theorem teleop_claim_is_exclusive_witness:
  "\<not> ar_accepted (fst (receive_teleop_control ''claim'' 1 ''other'' '''' ''M''
     (snd (receive_teleop_control ''claim'' 0 ''pad'' '''' ''K'' demo_idle))))"
proof -
  have a: "norm_text ''claim'' = ''claim''"
    "ar_accepted (fst (receive_teleop_control ''claim'' 0 ''pad'' '''' ''K'' demo_idle))"
    "1 - 0 \<le> teleop_timeout_sec demo_idle" "py_strip ''other'' \<noteq> py_strip ''pad''" by code_simp+
  show ?thesis using teleop_claim_is_exclusive [OF demo_ok(1) a] unfolding Let_def by blast
qed

theorem anonymous_claim_locks_out_witness:
  "ar_accepted (fst (receive_teleop_control ''claim'' 0 '''' '''' ''K'' demo_idle))
   \<and> \<not> ar_accepted (fst (receive_command_from Src_teleop 1 '''' ''K''
       (snd (receive_teleop_control ''claim'' 0 '''' '''' ''K'' demo_idle))))"
proof -
  have a: "owner_at 0 demo_idle = Owner_none" "py_strip '''' = ''''"
    "1 - 0 \<le> teleop_timeout_sec demo_idle" by code_simp+
  show ?thesis using anonymous_claim_locks_out [OF demo_ok(1) a] unfolding Let_def by blast
qed


end
