(* ===== verification/Safety_Latch.thy ===== *)
theory Safety_Latch
  imports Prelude
begin

text \<open>
  The driver safety latch of \<open>servo_hardware/safety_latch.py\<close>: protocol commands are normalized
  and sorted into stops, motions and others; the latch remembers whether a stop is in force, the
  time fence below which commands are stale, and the stamp of the last authoritative safety state.
  The lock of the code makes every method atomic, so a method is one function on the state.

  The interface \<open>safety_gate\<close> is what the drivers rely on; its lemmas are proved once over runs
  of events, and the latch is its first interpretation.
\<close>

section \<open>Command names\<close>

definition stop_commands :: "string list" where
  "stop_commands = [''move_stop'', ''motion_stop'', ''stop_motion'']"

definition motion_commands :: "string list" where
  "motion_commands = [''move'', ''send_position'', ''move_command'', ''move_time_write'',
     ''move_time_wait_write'', ''move_start'', ''motion_continue'', ''continue_motion'']"

definition normalize_protocol_command :: "string \<Rightarrow> string" where
  "normalize_protocol_command command =
     (let s = py_lower (py_strip command);
          u = py_replace_char CHR '' '' CHR ''_'' (py_replace_char CHR ''-'' CHR ''_'' s);
          e = py_remove_prefix ''encode_'' u
      in py_remove_prefix ''servo_'' e)"

definition is_stop_command :: "string \<Rightarrow> bool" where
  "is_stop_command command \<longleftrightarrow> normalize_protocol_command command \<in> set stop_commands"

definition is_motion_command :: "string \<Rightarrow> bool" where
  "is_motion_command command \<longleftrightarrow> normalize_protocol_command command \<in> set motion_commands"

text \<open>A ROS time value, or something without integer \<open>sec\<close> and \<open>nanosec\<close> fields.\<close>

datatype ros_stamp = No_stamp | Ros_time int int | Malformed_stamp

fun ros_time_to_ns :: "ros_stamp \<Rightarrow> int" where
  "ros_time_to_ns No_stamp = 0"
| "ros_time_to_ns (Ros_time sec nanosec) = sec * 1000000000 + nanosec"
| "ros_time_to_ns Malformed_stamp = 0"

section \<open>The latch\<close>

record safety_latch =
  latch_latched :: bool
  latch_fence_ns :: int
  latch_authority_ns :: int

definition latch_init :: safety_latch where
  "latch_init = \<lparr>latch_latched = False, latch_fence_ns = 0, latch_authority_ns = 0\<rparr>"

definition latch_activate :: "int \<Rightarrow> safety_latch \<Rightarrow> safety_latch" where
  "latch_activate now l = l\<lparr>latch_latched := True, latch_fence_ns := max (latch_fence_ns l) now\<rparr>"

definition observe_authority :: "bool \<Rightarrow> int \<Rightarrow> int \<Rightarrow> safety_latch \<Rightarrow> bool \<times> safety_latch" where
  "observe_authority active stamp now l =
     (if active then
        (True, l\<lparr>latch_authority_ns := max (latch_authority_ns l) stamp, latch_latched := True,
                 latch_fence_ns := max (latch_fence_ns l) (if 0 < stamp then stamp else now)\<rparr>)
      else if stamp \<le> latch_authority_ns l then (False, l)
      else let l1 = l\<lparr>latch_authority_ns := stamp\<rparr>
           in if stamp \<le> latch_fence_ns l1 then (False, l1)
              else (latch_latched l1, l1\<lparr>latch_latched := False\<rparr>))"

definition latch_admit :: "int \<Rightarrow> bool \<Rightarrow> int \<Rightarrow> safety_latch \<Rightarrow> bool \<times> safety_latch" where
  "latch_admit stamp is_stop now l =
     (if is_stop then (True, latch_activate now l)
      else if latch_latched l then (False, l)
      else if latch_fence_ns l = 0 then (True, l)
      else (latch_fence_ns l < stamp, l))"

definition admit_protocol_command :: "string \<Rightarrow> int \<Rightarrow> int \<Rightarrow> safety_latch \<Rightarrow> bool \<times> safety_latch" where
  "admit_protocol_command command now stamp l =
     (if is_stop_command command then latch_admit 0 True now l
      else if \<not> is_motion_command command then (True, l)
      else latch_admit stamp False 0 l)"

section \<open>The interface of a safety gate\<close>

text \<open>What reaches a gate: a protocol command, or an authoritative safety state.\<close>

datatype gate_event =
    Ev_command string int int   \<comment> \<open>command, receive time, stamp\<close>
  | Ev_authority bool int int   \<comment> \<open>active, stamp, receive time\<close>

text \<open>The fence an event asks for; \<open>None\<close> when it is no stop.\<close>

fun stop_fence :: "gate_event \<Rightarrow> int option" where
  "stop_fence (Ev_command c now stamp) = (if is_stop_command c then Some now else None)"
| "stop_fence (Ev_authority active stamp now) =
     (if active then Some (if 0 < stamp then stamp else now) else None)"

fun motion_stamp :: "gate_event \<Rightarrow> int option" where
  "motion_stamp (Ev_command c now stamp) = (if is_motion_command c then Some stamp else None)"
| "motion_stamp _ = None"

fun release_stamp :: "gate_event \<Rightarrow> int option" where
  "release_stamp (Ev_authority active stamp now) = (if active then None else Some stamp)"
| "release_stamp _ = None"

locale safety_gate =
  fixes step :: "gate_event \<Rightarrow> 'g \<Rightarrow> bool \<times> 'g"
    and latched :: "'g \<Rightarrow> bool" and fence :: "'g \<Rightarrow> int"
  assumes stop_law: "stop_fence e = Some t \<Longrightarrow>
      fst (step e g) \<and> latched (snd (step e g)) \<and> fence (snd (step e g)) = max (fence g) t"
    and other_law: "stop_fence e = None \<Longrightarrow> fence (snd (step e g)) = fence g"
    and motion_law: "motion_stamp e = Some t \<Longrightarrow>
      latched (snd (step e g)) = latched g \<and> (fst (step e g) \<longleftrightarrow> \<not> latched g \<and> (fence g = 0 \<or> fence g < t))"
    and unlatch_law: "latched g \<Longrightarrow> \<not> latched (snd (step e g)) \<Longrightarrow>
      \<exists>t. release_stamp e = Some t \<and> fence g < t"
begin

definition run :: "gate_event list \<Rightarrow> 'g \<Rightarrow> 'g" where
  "run es g = fold (\<lambda>e g. snd (step e g)) es g"

lemma run_simps [simp]:
  "run [] g = g" "run (e # es) g = run es (snd (step e g))" "run (es @ fs) g = run fs (run es g)"
  by (simp_all add: run_def)

lemma fence_step: "fence g \<le> fence (snd (step e g))"
  by (cases "stop_fence e") (use stop_law [of e _ g] other_law [of e g] in auto)

lemma fence_run: "fence g \<le> fence (run es g)"
proof (induction es arbitrary: g)
  case (Cons e es)
  from order_trans [OF fence_step [of g e] Cons.IH] show ?case by simp
qed simp

lemma fence_covers: "e \<in> set es \<Longrightarrow> stop_fence e = Some t \<Longrightarrow> t \<le> fence (run es g)"
proof (induction es arbitrary: g)
  case (Cons e' es)
  show ?case
  proof (cases "e = e'")
    case True
    have "t \<le> fence (snd (step e g))" using stop_law [OF Cons.prems(2)] by simp
    also have "\<dots> \<le> fence (run es (snd (step e g)))" by (rule fence_run)
    finally show ?thesis using True by simp
  next
    case False
    with Cons.IH [OF _ Cons.prems(2)] Cons.prems(1) show ?thesis by simp
  qed
qed simp

lemma stale_motion_rejected:
  assumes "e \<in> set es" "stop_fence e = Some t" "0 < t" "motion_stamp m = Some s" "s \<le> t"
  shows "\<not> fst (step m (run es g))"
  using fence_covers [OF assms(1,2), of g] motion_law [OF assms(4)] assms(3,5) by fastforce

lemma stays_latched:
  "latched g \<Longrightarrow> list_all (\<lambda>e. release_stamp e = None) es \<Longrightarrow> latched (run es g)"
proof (induction es arbitrary: g)
  case (Cons e es)
  have "latched (snd (step e g))" using unlatch_law [OF Cons.prems(1), of e] Cons.prems(2) by auto
  with Cons show ?case by simp
qed simp

text \<open>An open gate that has seen a stop was opened by a release newer than every stop.\<close>

lemma open_needs_release:
  assumes "\<not> latched (run es g)" "e \<in> set es" "stop_fence e \<noteq> None"
  shows "\<exists>r \<in> set es. \<exists>t. release_stamp r = Some t \<and> fence (run es g) < t"
  using assms
proof (induction es rule: rev_induct)
  case (snoc x es)
  let ?g = "run es g"
  show ?case
  proof (cases "stop_fence x")
    case (Some t)
    with stop_law [OF Some, of ?g] snoc.prems(1) show ?thesis by simp
  next
    case None
    have f: "fence (snd (step x ?g)) = fence ?g" by (rule other_law [OF None])
    show ?thesis
    proof (cases "latched ?g")
      case True
      from unlatch_law [OF True, of x] snoc.prems(1) f show ?thesis by auto
    next
      case False
      from snoc.prems(2,3) None have "e \<in> set es" by auto
      from snoc.IH [OF False this snoc.prems(3)] f show ?thesis by auto
    qed
  qed
qed simp

end

section \<open>The latch is a safety gate\<close>

fun latch_step :: "gate_event \<Rightarrow> safety_latch \<Rightarrow> bool \<times> safety_latch" where
  "latch_step (Ev_command c now stamp) l = admit_protocol_command c now stamp l"
| "latch_step (Ev_authority active stamp now) l = observe_authority active stamp now l"

lemma motion_not_stop: "is_motion_command c \<Longrightarrow> \<not> is_stop_command c"
  by (auto simp: is_motion_command_def is_stop_command_def motion_commands_def stop_commands_def)

lemmas latch_defs = latch_activate_def observe_authority_def latch_admit_def
  admit_protocol_command_def Let_def

interpretation latch: safety_gate latch_step latch_latched latch_fence_ns
proof unfold_locales
  fix e t g
  show "stop_fence e = Some t \<Longrightarrow> fst (latch_step e g) \<and> latch_latched (snd (latch_step e g)) \<and>
      latch_fence_ns (snd (latch_step e g)) = max (latch_fence_ns g) t"
    by (cases e) (auto simp: latch_defs split: if_splits)
  show "stop_fence e = None \<Longrightarrow> latch_fence_ns (snd (latch_step e g)) = latch_fence_ns g"
    by (cases e) (auto simp: latch_defs split: if_splits)
  show "motion_stamp e = Some t \<Longrightarrow> latch_latched (snd (latch_step e g)) = latch_latched g \<and>
      (fst (latch_step e g) \<longleftrightarrow> \<not> latch_latched g \<and> (latch_fence_ns g = 0 \<or> latch_fence_ns g < t))"
    by (cases e) (auto simp: latch_defs motion_not_stop split: if_splits)
  show "latch_latched g \<Longrightarrow> \<not> latch_latched (snd (latch_step e g)) \<Longrightarrow>
      \<exists>t. release_stamp e = Some t \<and> latch_fence_ns g < t"
    by (cases e) (auto simp: latch_defs split: if_splits)
qed

definition latch_run :: "gate_event list \<Rightarrow> safety_latch \<Rightarrow> safety_latch" where
  "latch_run es l = fold (\<lambda>e l. snd (latch_step e l)) es l"

lemma latch_run_run: "latch_run = latch.run"
  by (intro ext) (simp add: latch_run_def latch.run_def)

text \<open>
  Once a stop with a positive time has reached the driver, then whatever follows - releases,
  further stops, other commands - a motion command stamped no later than that stop is never
  admitted again: a command delayed in the middleware cannot restart the machine after a release.
\<close>

theorem delayed_motion_never_admitted:
  assumes "e \<in> set es" "stop_fence e = Some t" "0 < t" "is_motion_command c" "stamp \<le> t"
  shows "\<not> fst (admit_protocol_command c now stamp (latch_run es l))"
  using latch.stale_motion_rejected [of e es t "Ev_command c now stamp" stamp l] assms
  by (simp add: latch_run_run)

theorem delayed_motion_never_admitted_witness:
  "\<not> fst (admit_protocol_command ''Servo-Move'' 95 50
      (latch_run [Ev_authority True 50 51, Ev_authority False 90 91] latch_init))"
proof -
  have "is_motion_command ''Servo-Move''" by code_simp
  from delayed_motion_never_admitted [OF _ _ _ this, of "Ev_authority True 50 51"
      "[Ev_authority True 50 51, Ev_authority False 90 91]" 50 50]
  show ?thesis by simp
qed

text \<open>
  C7: The safety states of the execution manager may arrive in any order, late or repeated: a
  driver that has seen an active state or a stop admits motion again only if one of the messages
  it received is a release whose stamp is newer than every active state and every stop, so a
  reordering can only leave it stopped.
\<close>

theorem reordered_authority_fails_safe:
  assumes "\<not> latch_latched (latch_run es l)" "e \<in> set es" "stop_fence e \<noteq> None"
  shows "\<exists>r \<in> set es. \<exists>t. release_stamp r = Some t \<and>
    (\<forall>e' \<in> set es. \<forall>t'. stop_fence e' = Some t' \<longrightarrow> t' < t)"
proof -
  from latch.open_needs_release [OF assms [unfolded latch_run_run]]
  obtain r t where r: "r \<in> set es" "release_stamp r = Some t" "latch_fence_ns (latch.run es l) < t"
    by blast
  moreover have "t' < t" if "e' \<in> set es" "stop_fence e' = Some t'" for e' t'
    using latch.fence_covers [OF that, of l] r(3) by simp
  ultimately show ?thesis by blast
qed

theorem reordered_authority_fails_safe_witness:
  "\<exists>r \<in> set [Ev_authority True 5 6, Ev_authority False 9 10]. \<exists>t. release_stamp r = Some t \<and>
    (\<forall>e' \<in> set [Ev_authority True 5 6, Ev_authority False 9 10]. \<forall>t'. stop_fence e' = Some t' \<longrightarrow> t' < t)"
proof -
  have "\<not> latch_latched (latch_run [Ev_authority True 5 6, Ev_authority False 9 10] latch_init)" by code_simp
  from reordered_authority_fails_safe [OF this, of "Ev_authority True 5 6"] show ?thesis by simp
qed

lemma release_opens:
  assumes "latch_authority_ns l < t" "latch_fence_ns l < t"
  shows "observe_authority False t now l = (latch_latched l, l\<lparr>latch_authority_ns := t, latch_latched := False\<rparr>)"
  using assms by (simp add: observe_authority_def)

text \<open>
  A release newer than the fence and than the last authoritative state reopens the driver,
  and then the motion commands stamped after the fence are admitted.
\<close>

theorem fresh_release_readmits:
  assumes "latch_authority_ns l < t" "latch_fence_ns l < t" "is_motion_command c" "latch_fence_ns l < stamp"
  shows "let l' = snd (observe_authority False t now l)
    in \<not> latch_latched l' \<and> fst (admit_protocol_command c now' stamp l')
       \<and> fst (observe_authority False t now l) = latch_latched l"
  using assms motion_not_stop [OF assms(3)]
  by (simp add: release_opens admit_protocol_command_def latch_admit_def)

theorem fresh_release_readmits_witness:
  "fst (admit_protocol_command ''move'' 30 25
     (snd (observe_authority False 20 21 (latch_activate 10 latch_init))))"
proof -
  have a: "latch_authority_ns (latch_activate 10 latch_init) < 20"
    "latch_fence_ns (latch_activate 10 latch_init) < 20" "is_motion_command ''move''"
    "latch_fence_ns (latch_activate 10 latch_init) < 25" by code_simp+
  show ?thesis using fresh_release_readmits [OF a] by (simp add: Let_def)
qed

end
