(* ===== verification/Servo_Protocol.thy ===== *)
theory Servo_Protocol
  imports Prelude "HOL-Library.Word"
begin

text \<open>
  The interface \<open>BusServoProtocol\<close> of \<open>servo_hardware/protocols/base.py\<close>: what a bus driver relies on when
  it speaks to servos without knowing their protocol. The laws speak of the position reply a servo
  sends; the client lemma says that on a bus shared by several servos, whose replies may all stand
  in one buffer, the driver reads the position of the servo it asked.
\<close>

type_synonym bytes = "8 word list"

locale servo_protocol =
  fixes encode_move :: "int \<Rightarrow> int \<Rightarrow> int \<Rightarrow> bytes result"
    and encode_read :: "int \<Rightarrow> bytes result"
    and decode_pos :: "bytes \<Rightarrow> int option \<Rightarrow> int option"
    and reply :: "int \<Rightarrow> int \<Rightarrow> bytes"
    and id_ok :: "int \<Rightarrow> bool" and pos_ok :: "int \<Rightarrow> bool"
  assumes encode_move_total: "\<exists>pkt. encode_move sid pos time = Inr pkt \<and> pkt \<noteq> []"
    and encode_read_total: "\<exists>pkt. encode_read sid = Inr pkt \<and> pkt \<noteq> []"
    and decode_nothing: "decode_pos [] e = None"
    and decode_mono: "decode_pos a e = Some v \<Longrightarrow> decode_pos (a @ b) e = Some v"
    and decode_reply: "id_ok sid \<Longrightarrow> pos_ok pos \<Longrightarrow>
      decode_pos (reply sid pos @ rest) e = (if e = None \<or> e = Some sid then Some pos else decode_pos rest e)"
begin

definition bus_buffer :: "(int \<times> int) list \<Rightarrow> bytes" where
  "bus_buffer rs = concat (map (\<lambda>(sid, pos). reply sid pos) rs)"

lemma bus_position:
  "list_all (\<lambda>(sid, pos). id_ok sid \<and> pos_ok pos) rs \<Longrightarrow> decode_pos (bus_buffer rs) (Some sid) = map_of rs sid"
  by (induction rs) (auto simp: bus_buffer_def decode_nothing decode_reply)

lemma bus_position_any:
  "list_all (\<lambda>(sid, pos). id_ok sid \<and> pos_ok pos) rs \<Longrightarrow>
    decode_pos (bus_buffer rs) None = (case rs of [] \<Rightarrow> None | (_, pos) # _ \<Rightarrow> Some pos)"
  by (cases rs) (auto simp: bus_buffer_def decode_nothing decode_reply)

end

end
