(* ===== verification/Servo_Messages.thy ===== *)
theory Servo_Messages
  imports Safety_Latch Servo_Protocol
begin

text \<open>
  The messages of \<open>servo_msgs\<close> that the servo drivers and the router exchange. Free-text messages
  and the response time stamps are left out; \<open>result_json\<close> is kept as the value it prints.
\<close>

record servo_command =
  sc_servo_type :: string
  sc_servo_id :: int
  sc_position :: int
  sc_speed :: int
  sc_stamp :: ros_stamp

record servo_state =
  ss_servo_type :: string
  ss_servo_id :: int
  ss_position :: int
  ss_load :: int
  ss_temperature :: int
  ss_error_code :: int

record execute_request =
  xq_servo_id :: int
  xq_protocol :: string
  xq_command :: string
  xq_params :: "int list"
  xq_stamp :: ros_stamp

text \<open>What a reply decodes to: an integer, a tuple of integers, a text, a tuple of floats.\<close>

datatype decoded = D_int int | D_ints "int list" | D_text string | D_reals "real list"

record execute_response =
  xr_success :: bool
  xr_protocol :: string
  xr_error_code :: int
  xr_value :: int
  xr_values :: "int list"
  xr_raw :: bytes
  xr_result :: "decoded option"

record read_response =
  rr_success :: bool
  rr_position :: int
  rr_protocol :: string
  rr_error_code :: int

text \<open>The answer of a \<open>SetDriverSafety\<close> service: success and reason.\<close>

type_synonym safety_response = "bool \<times> string"

definition is_bus_command :: "servo_command \<Rightarrow> bool" where
  "is_bus_command msg \<longleftrightarrow> norm_text (sc_servo_type msg) \<in>
     {'''', ''bus'', ''bus_servo'', ''bus_zl'', ''bus_lx'', ''zl'', ''lx''}"

definition execute_error :: "string \<Rightarrow> int \<Rightarrow> execute_response" where
  "execute_error protocol code =
     \<lparr>xr_success = False, xr_protocol = protocol, xr_error_code = max 1 (min 255 code),
      xr_value = 0, xr_values = [], xr_raw = [], xr_result = None\<rparr>"

lemma execute_error_fields [simp]:
  "xr_success (execute_error p c) = False" "xr_error_code (execute_error p c) = max 1 (min 255 c)"
  by (simp_all add: execute_error_def)

end
