(* ===== verification/Decimal_Text.thy ===== *)
theory Decimal_Text
  imports Prelude
begin

text \<open>
  Decimal numbers as text: the digits Python prints and reads, zero-padded fields
  (\<open>{v:03d}\<close>), and \<open>int(text)\<close> with its white space, sign and underscores.
\<close>

section \<open>Printing and reading digits\<close>

definition digit_char :: "nat \<Rightarrow> char" where
  "digit_char n = char_of (48 + n)"

definition digit_val :: "char \<Rightarrow> nat" where
  "digit_val c = of_char c - 48"

definition is_digit :: "char \<Rightarrow> bool" where
  "is_digit c \<longleftrightarrow> (let n = of_char c :: nat in 48 \<le> n \<and> n \<le> 57)"

fun dec_string :: "nat \<Rightarrow> string" where
  "dec_string n = (if n < 10 then [digit_char n] else dec_string (n div 10) @ [digit_char (n mod 10)])"

declare dec_string.simps [simp del]

definition zero_pad :: "nat \<Rightarrow> string \<Rightarrow> string" where
  "zero_pad w s = replicate (w - length s) CHR ''0'' @ s"

definition parse_nat :: "string \<Rightarrow> nat" where
  "parse_nat s = foldl (\<lambda>n c. 10 * n + digit_val c) 0 s"

definition fmt :: "nat \<Rightarrow> int \<Rightarrow> string" where
  "fmt w v = zero_pad w (dec_string (nat v))"

section \<open>Formatting and parsing\<close>

lemma digit_char_code: "n < 10 \<Longrightarrow> of_char (digit_char n) = (48 + n :: nat)"
  by (simp add: digit_char_def of_char_of take_bit_eq_mod)

lemma digit_char_props [simp]:
  "n < 10 \<Longrightarrow> is_digit (digit_char n)" "n < 10 \<Longrightarrow> digit_val (digit_char n) = n"
  by (simp_all add: is_digit_def digit_val_def digit_char_code)

lemma is_digit_ascii: "is_digit c \<Longrightarrow> of_char c < (128 :: nat)"
  by (simp add: is_digit_def Let_def)

lemma parse_nat_append: "parse_nat (s @ [c]) = 10 * parse_nat s + digit_val c"
  by (simp add: parse_nat_def)

lemma dec_string_props:
  "parse_nat (dec_string n) = n \<and> list_all is_digit (dec_string n) \<and> dec_string n \<noteq> []"
proof (induction n rule: dec_string.induct)
  case (1 n)
  show ?case
  proof (cases "n < 10")
    case True
    then show ?thesis by (simp add: dec_string.simps [of n]) (simp add: parse_nat_def)
  next
    case False
    with 1 show ?thesis by (simp add: dec_string.simps [of n] parse_nat_append)
  qed
qed

lemma dec_string_length: "0 < w \<Longrightarrow> n < 10 ^ w \<Longrightarrow> length (dec_string n) \<le> w"
proof (induction n arbitrary: w rule: dec_string.induct)
  case (1 n)
  show ?case
  proof (cases "n < 10")
    case True
    with 1 show ?thesis by (simp add: dec_string.simps [of n])
  next
    case False
    then obtain v where w: "w = Suc v" "0 < v"
      using 1(2,3) by (cases w; cases "w - 1") auto
    with 1(3) have "n div 10 < 10 ^ v" by simp
    from 1(1) [OF False w(2) this] False show ?thesis by (simp add: dec_string.simps [of n] w(1))
  qed
qed

lemma zero_pad_props:
  assumes "list_all is_digit s" "length s \<le> w"
  shows "length (zero_pad w s) = w" "list_all is_digit (zero_pad w s)" "parse_nat (zero_pad w s) = parse_nat s"
proof -
  have z: "parse_nat (replicate k CHR ''0'' @ s) = parse_nat s" for k
    by (induction k) (simp_all add: parse_nat_def digit_val_def)
  have d: "is_digit CHR ''0''" by (simp add: is_digit_def)
  show "length (zero_pad w s) = w" "parse_nat (zero_pad w s) = parse_nat s"
    using assms(2) z by (simp_all add: zero_pad_def)
  show "list_all is_digit (zero_pad w s)" using assms(1) d by (auto simp: zero_pad_def list_all_iff)
qed

text \<open>A number that fits is printed with exactly the width asked for, and reads back.\<close>

lemma fmt_props:
  assumes "0 < w" "0 \<le> v" "v < 10 ^ w"
  shows "length (fmt w v) = w" "list_all is_digit (fmt w v)" "parse_nat (fmt w v) = nat v"
proof -
  have "nat v < 10 ^ w" using assms(2,3) by (simp add: nat_less_iff)
  from dec_string_length [OF assms(1) this] zero_pad_props [of "dec_string (nat v)" w] dec_string_props [of "nat v"]
  show "length (fmt w v) = w" "list_all is_digit (fmt w v)" "parse_nat (fmt w v) = nat v"
    by (simp_all add: fmt_def)
qed

section \<open>Integers\<close>

definition int_string :: "int \<Rightarrow> string" where
  "int_string i = (if i < 0 then CHR ''-'' # dec_string (nat (- i)) else dec_string (nat i))"

text \<open>Digits with single underscores between them.\<close>

fun digit_groups :: "string \<Rightarrow> string option" where
  "digit_groups [] = None"
| "digit_groups [c] = (if is_digit c then Some [c] else None)"
| "digit_groups (c # d # s) =
     (if \<not> is_digit c then None
      else map_option ((#) c) (digit_groups (if d = CHR ''_'' then s else d # s)))"

definition py_int :: "string \<Rightarrow> int option" where
  "py_int s =
     (case py_strip s of
        [] \<Rightarrow> None
      | c # r \<Rightarrow>
          if c = CHR ''-'' then map_option (\<lambda>ds. - int (parse_nat ds)) (digit_groups r)
          else if c = CHR ''+'' then map_option (\<lambda>ds. int (parse_nat ds)) (digit_groups r)
          else map_option (\<lambda>ds. int (parse_nat ds)) (digit_groups (c # r)))"

lemma digit_groups_digits: "list_all is_digit s \<Longrightarrow> s \<noteq> [] \<Longrightarrow> digit_groups s = Some s"
  by (induction s rule: digit_groups.induct) (auto simp: is_digit_def)

lemma digit_not_space: "is_digit c \<Longrightarrow> \<not> py_space c"
  by (auto simp: is_digit_def py_space_code Let_def)

lemma dropWhile_hd: "s \<noteq> [] \<Longrightarrow> \<not> P (hd s) \<Longrightarrow> dropWhile P s = s"
  by (cases s) auto

lemma strip_id: "s \<noteq> [] \<Longrightarrow> \<not> py_space (hd s) \<Longrightarrow> \<not> py_space (last s) \<Longrightarrow> py_strip s = s"
  by (simp add: py_strip_def dropWhile_hd hd_rev)

lemma strip_digits:
  assumes "list_all is_digit s" "s \<noteq> []"
  shows "py_strip s = s" "py_strip (CHR ''-'' # s) = CHR ''-'' # s"
proof -
  have "is_digit (hd s)" "is_digit (last s)" using assms by (auto simp: list_all_iff)
  then show "py_strip s = s" "py_strip (CHR ''-'' # s) = CHR ''-'' # s"
    using assms(2) digit_not_space by (auto intro!: strip_id simp: py_space_def)
qed

text \<open>What \<open>str\<close> prints of an integer, \<open>int\<close> reads back.\<close>

lemma py_int_string [simp]: "py_int (int_string i) = Some i"
proof -
  note p = dec_string_props
  obtain c r where d: "dec_string (nat \<bar>i\<bar>) = c # r" using p [of "nat \<bar>i\<bar>"] by (cases "dec_string (nat \<bar>i\<bar>)") auto
  have "is_digit c" using p [of "nat \<bar>i\<bar>"] d by simp
  then have c: "c \<noteq> CHR ''-''" "c \<noteq> CHR ''+''" by (auto simp: is_digit_def)
  have g: "digit_groups (c # r) = Some (c # r)" "parse_nat (c # r) = nat \<bar>i\<bar>"
    using p [of "nat \<bar>i\<bar>"] d digit_groups_digits [of "c # r"] by simp_all
  have s: "py_strip (c # r) = c # r" "py_strip (CHR ''-'' # c # r) = CHR ''-'' # c # r"
    using strip_digits [of "c # r"] p [of "nat \<bar>i\<bar>"] d by simp_all
  show ?thesis
  proof (cases "i < 0")
    case True
    with d g s show ?thesis by (simp add: int_string_def py_int_def)
  next
    case False
    with d g s c show ?thesis by (simp add: int_string_def py_int_def)
  qed
qed

end
