(* ===== verification/Execution_Adapters.thy ===== *)
theory Execution_Adapters
  imports Servo_Messages Decimal_Text
begin

text \<open>
  The adapters of \<open>execution_manager\<close> (\<open>command_adapter.py\<close>, \<open>feedback_adapter.py\<close>,
  \<open>actuator_service_adapter.py\<close>): motion commands to driver commands, driver states to actuator
  states, and the summary of a multi-actuator stop. Free-text driver messages are not modelled, so
  the reasons of a summary keep only the cases the code distinguishes.
\<close>

section \<open>Commands\<close>

record motion_command =
  mc_servo_type :: string
  mc_servo_id :: int
  mc_position :: int
  mc_value_encoding :: string
  mc_duration_ms :: int
  mc_requester_id :: string
  mc_lease_id :: string

record actuator_setpoint =
  sp_actuator_type :: string
  sp_actuator_id :: int
  sp_target_raw :: int
  sp_value_encoding :: string
  sp_duration_ms :: int

definition resolve_value_encoding :: "string \<Rightarrow> string \<Rightarrow> string" where
  "resolve_value_encoding actuator_type value_encoding =
     (if norm_text value_encoding \<noteq> '''' then norm_text value_encoding
      else if norm_text actuator_type = ''bus'' then ''bus_pulse_us''
      else if norm_text actuator_type = ''pca'' then ''pca_tick''
      else '''')"

definition resolve_duration_ms :: "int \<Rightarrow> int" where
  "resolve_duration_ms duration_ms = (if 0 < duration_ms then duration_ms else 0)"

definition motion_command_to_setpoint :: "motion_command \<Rightarrow> actuator_setpoint" where
  "motion_command_to_setpoint msg =
     \<lparr>sp_actuator_type = mc_servo_type msg, sp_actuator_id = mc_servo_id msg,
      sp_target_raw = mc_position msg,
      sp_value_encoding = resolve_value_encoding (mc_servo_type msg) (mc_value_encoding msg),
      sp_duration_ms = resolve_duration_ms (mc_duration_ms msg)\<rparr>"

text \<open>\<open>setpoint_to_servo_fields\<close> and \<open>_to_servo_command\<close>, with the stamp the node overwrites.\<close>

definition to_servo_command :: "actuator_setpoint \<Rightarrow> ros_stamp \<Rightarrow> servo_command" where
  "to_servo_command sp stamp =
     \<lparr>sc_servo_type = sp_actuator_type sp, sc_servo_id = sp_actuator_id sp,
      sc_position = sp_target_raw sp, sc_speed = sp_duration_ms sp, sc_stamp = stamp\<rparr>"

section \<open>Feedback\<close>

record actuator_feedback =
  af_actuator_type :: string
  af_actuator_id :: int
  af_position_raw :: int
  af_value_encoding :: string
  af_load :: int
  af_temperature :: int
  af_status :: string
  af_reason :: string
  af_recoverable :: bool
  af_driver_error_code :: int

definition value_encoding_for_type :: "string \<Rightarrow> string" where
  "value_encoding_for_type t =
     (if t = ''bus'' then ''bus_pulse_us'' else if t = ''pca'' then ''pca_tick'' else '''')"

definition status_from_error_code :: "int \<Rightarrow> string \<times> string \<times> bool" where
  "status_from_error_code code =
     (if code = 0 then (''ok'', '''', False)
      else (''error'',
            (if code = 1 then ''communication_error'' else if code = 2 then ''overload''
             else if code = 3 then ''overheat'' else if code = 4 then ''driver_error''
             else ''driver_error_'' @ int_string code),
            code \<in> {1, 2, 3}))"

definition servo_state_to_feedback :: "servo_state \<Rightarrow> actuator_feedback" where
  "servo_state_to_feedback msg =
     (let t = norm_text (ss_servo_type msg);
          (status, reason, recoverable) = status_from_error_code (ss_error_code msg)
      in \<lparr>af_actuator_type = t, af_actuator_id = ss_servo_id msg, af_position_raw = ss_position msg,
          af_value_encoding = value_encoding_for_type t, af_load = ss_load msg,
          af_temperature = ss_temperature msg, af_status = status, af_reason = reason,
          af_recoverable = recoverable, af_driver_error_code = ss_error_code msg\<rparr>)"

section \<open>Stopping actuators\<close>

record stop_fields =
  sf_accepted :: bool
  sf_stop_command_sent :: bool
  sf_stop_confirmed :: bool
  sf_status :: string
  sf_reasons :: "string list"
  sf_recoverable :: bool
  sf_stopped :: "int list"
  sf_unsupported :: "int list"

text \<open>One response per actuator: \<open>None\<close> when the driver did not answer, else its success.\<close>

definition stop_summary :: "int list \<Rightarrow> bool option list \<Rightarrow> stop_fields" where
  "stop_summary ids responses =
     (let pairs = zip ids responses;
          bad = filter (\<lambda>(_, r). r \<noteq> Some True) pairs;
          all_sent = (ids \<noteq> [] \<and> bad = [])
      in \<lparr>sf_accepted = (ids \<noteq> []), sf_stop_command_sent = all_sent, sf_stop_confirmed = False,
          sf_status = (if all_sent then ''stop_command_sent'' else ''stop_command_failed''),
          sf_reasons = (if all_sent then []
            else map (\<lambda>(_, r). if r = None then ''driver_service_unavailable'' else ''stop_command_failed'') bad),
          sf_recoverable = (\<not> all_sent),
          sf_stopped = map fst (filter (\<lambda>(_, r). r = Some True) pairs),
          sf_unsupported = map fst bad\<rparr>)"

definition stop_command_for_protocol :: "string \<Rightarrow> string" where
  "stop_command_for_protocol protocol =
     (if norm_text protocol = ''lx'' then ''move_stop'' else ''stop_motion'')"

text \<open>
  What the driver services do for one actuator of a stop: are both ready; the outcome of the
  position read (an exception, a timeout, or success and protocol); whether the stop operation
  is still active when the stop is sent; the outcome of the stop command.
\<close>

datatype 'a outcome = O_exception | O_timeout | O_reply 'a

record stop_observation =
  so_ready :: bool
  so_read :: "(bool \<times> string) outcome"
  so_operation_active :: bool
  so_execute :: "bool outcome"

text \<open>Response, timed out, and the stop command sent, for one actuator.\<close>

definition stop_one :: "int \<Rightarrow> stop_observation \<Rightarrow> bool option \<times> bool \<times> (int \<times> string \<times> string) list" where
  "stop_one sid ob =
     (if \<not> so_ready ob then (None, False, [])
      else case so_read ob of
             O_exception \<Rightarrow> (None, False, [])
           | O_timeout \<Rightarrow> (None, True, [])
           | O_reply (success, protocol_text) \<Rightarrow>
               (let protocol = norm_text protocol_text
                in if \<not> success \<or> protocol \<notin> {''lx'', ''zl''} then (None, False, [])
                   else if \<not> so_operation_active ob then (None, False, [])
                   else let sent = [(sid, protocol, stop_command_for_protocol protocol)]
                        in case so_execute ob of
                             O_exception \<Rightarrow> (None, False, sent)
                           | O_timeout \<Rightarrow> (None, True, sent)
                           | O_reply ok \<Rightarrow> (Some ok, False, sent)))"

definition stop_driver_actuators ::
    "int list \<Rightarrow> stop_observation list \<Rightarrow> bool option list \<times> bool \<times> (int \<times> string \<times> string) list" where
  "stop_driver_actuators ids obs =
     (let rs = map (\<lambda>(sid, ob). stop_one sid ob) (zip ids obs)
      in (map fst rs, list_ex (\<lambda>r. fst (snd r)) rs, concat (map (\<lambda>r. snd (snd r)) rs)))"

section \<open>Reading a position\<close>

record read_fields =
  rf_success :: bool
  rf_position_raw :: int
  rf_status :: string
  rf_reason :: string
  rf_recoverable :: bool

definition read_response_fields :: "read_response option \<Rightarrow> read_fields" where
  "read_response_fields resp =
     (case resp of
        None \<Rightarrow> \<lparr>rf_success = False, rf_position_raw = 0, rf_status = ''error'',
                 rf_reason = ''driver_service_unavailable'', rf_recoverable = True\<rparr>
      | Some r \<Rightarrow>
          if \<not> rr_success r
          then \<lparr>rf_success = False, rf_position_raw = 0, rf_status = ''error'',
                rf_reason = ''position_read_failed'', rf_recoverable = (rr_error_code r \<noteq> 2)\<rparr>
          else \<lparr>rf_success = True, rf_position_raw = rr_position r, rf_status = ''ok'',
                rf_reason = '''', rf_recoverable = False\<rparr>)"

section \<open>Facts\<close>

text \<open>
  A stop counts as sent only when every actuator's driver accepted its stop command, and it is
  never reported as confirmed: the actuators listed as stopped are exactly those whose driver
  answered success, in order, all others being listed as unsupported.
\<close>

theorem stop_sent_means_all_accepted:
  assumes "length obs = length ids"
  shows "let (resps, timed_out, sent) = stop_driver_actuators ids obs; f = stop_summary ids resps
    in (sf_stop_command_sent f \<longleftrightarrow> ids \<noteq> [] \<and> list_all (\<lambda>r. r = Some True) resps)
     \<and> \<not> sf_stop_confirmed f
     \<and> (sf_stop_command_sent f \<longrightarrow> map fst sent = ids \<and> sf_stopped f = ids)
     \<and> set (sf_stopped f) \<union> set (sf_unsupported f) = set ids"
proof -
  have len: "length (map (\<lambda>(sid, ob). stop_one sid ob) (zip ids obs)) = length ids" using assms by simp
  obtain resps timed_out sent where s: "stop_driver_actuators ids obs = (resps, timed_out, sent)" by (metis prod_cases3)
  then have resps: "resps = map (\<lambda>(sid, ob). fst (stop_one sid ob)) (zip ids obs)"
    and sent: "sent = concat (map (\<lambda>(sid, ob). snd (snd (stop_one sid ob))) (zip ids obs))"
    by (auto simp: stop_driver_actuators_def Let_def split_def comp_def)
  have l: "length resps = length ids" using assms by (simp add: resps)
  have bad: "filter (\<lambda>(_, r). r \<noteq> Some True) (zip ids resps) = [] \<longleftrightarrow> list_all (\<lambda>r. r = Some True) resps"
    using l by (induction ids resps rule: list_induct2') auto
  have all: "filter (\<lambda>(_, r). r = Some True) (zip ids resps) = zip ids resps" if "list_all (\<lambda>r. r = Some True) resps"
    using that l by (induction ids resps rule: list_induct2') auto
  have one: "map fst (snd (snd (stop_one sid ob))) = [sid]" if "fst (stop_one sid ob) = Some True" for sid ob
    using that by (auto simp: stop_one_def Let_def split: if_splits outcome.splits prod.splits)
  have ids: "map fst (concat (map (\<lambda>(sid, ob). snd (snd (stop_one sid ob))) (zip ids obs))) = ids"
    if "list_all (\<lambda>r. r = Some True) (map (\<lambda>(sid, ob). fst (stop_one sid ob)) (zip ids obs))"
    using that assms by (induction ids obs rule: list_induct2') (auto simp: one)
  have cover: "set (map fst (filter (\<lambda>(_, r). r = Some True) (zip ids resps))) \<union>
      set (map fst (filter (\<lambda>(_, r). r \<noteq> Some True) (zip ids resps))) = set ids"
  proof -
    have "set (map fst (filter P xs)) \<union> set (map fst (filter (\<lambda>x. \<not> P x) xs)) = fst ` set xs" for P and xs :: "(int \<times> bool option) list"
      by auto
    from this [of "\<lambda>(_, r). r = Some True" "zip ids resps"] show ?thesis
      using l by (simp add: split_def) (metis map_fst_zip set_map)
  qed
  show ?thesis
    using bad all ids cover l by (auto simp: s Let_def stop_summary_def resps [symmetric] sent)
qed

theorem stop_sent_means_all_accepted_witness:
  "let (resps, timed_out, sent) = stop_driver_actuators [3, 4]
       [\<lparr>so_ready = True, so_read = O_reply (True, ''lx''), so_operation_active = True, so_execute = O_reply True\<rparr>,
        \<lparr>so_ready = True, so_read = O_timeout, so_operation_active = True, so_execute = O_timeout\<rparr>]
   in \<not> sf_stop_confirmed (stop_summary [3, 4] resps)"
  using stop_sent_means_all_accepted [of
      "[\<lparr>so_ready = True, so_read = O_reply (True, ''lx''), so_operation_active = True, so_execute = O_reply True\<rparr>,
        \<lparr>so_ready = True, so_read = O_timeout, so_operation_active = True, so_execute = O_timeout\<rparr>]" "[3, 4]"]
  by (auto simp: Let_def split_def)

end
