(* ===== verification/Execution_Manager.thy ===== *)
theory Execution_Manager
  imports Arbitrator Execution_Adapters
begin

text \<open>
  The execution manager node, \<open>execution_manager/execution_manager_node.py\<close>.

  The node runs on a multi-threaded executor: the subscriptions and the state timer share the
  default callback group, in which one callback runs at a time (an asynchronous one occupies the
  group until it returns), and the two services are in a reentrant group, so any number of them
  runs beside it. State is shared under \<open>arbitrator_lock\<close>. A callback is therefore a sequence of
  atomic sections, cut where the code gives up the lock or awaits an answer: \<open>em_job\<close> is the point
  a callback has reached, \<open>em_jobs\<close> holds the callbacks in progress, and \<open>em_step\<close> runs the next
  section of one of them. What the environment decides (clock readings, answers of the driver
  services, the interleaving) is in the event. The clock is assumed never to run backwards.

  What the node sends is recorded in \<open>em_log\<close>, the newest first. The lemmas show that every
  section preserves \<open>em_ok\<close>; the properties follow by induction over the reachable states.
\<close>

section \<open>State\<close>

text \<open>What \<open>_request_driver_safety_release\<close> was called for.\<close>

datatype release_purpose = For_finish int stop_fields | For_estop int

fun purpose_op :: "release_purpose \<Rightarrow> int" where
  "purpose_op (For_finish oid f) = oid"
| "purpose_op (For_estop oid) = oid"

text \<open>
  What follows the publication of an active safety state: stopping actuators, or the end of the
  callback, with the answer of the stop service when it is one.
\<close>

datatype em_after = After_stop int "int list" | After_end "stop_fields option"

datatype em_job =
    J_safety_stamp string em_after                \<comment> \<open>\<open>_publish_driver_safety\<close>, before the stamp\<close>
  | J_safety_emit string int em_after             \<comment> \<open>the same, stamp taken\<close>
  | J_stop int "int list" "stop_observation list"  \<comment> \<open>\<open>_stop_driver_actuators\<close>, between two actuators\<close>
  | J_stop_wait int "int list" "stop_observation list" stop_observation
  | J_finish_check int stop_fields                 \<comment> \<open>\<open>_finish_stop_operation\<close>, its first section\<close>
  | J_release_stamp release_purpose                \<comment> \<open>\<open>_request_driver_safety_release\<close>\<close>
  | J_release_send release_purpose int
  | J_release_wait release_purpose int
  | J_release_done release_purpose int             \<comment> \<open>the section after a granted release\<close>
  | J_fault int string "stop_fields option"       \<comment> \<open>\<open>_latch_stop_fault\<close>\<close>
  | J_publish_state "int option"                  \<comment> \<open>\<open>_publish_state\<close> at the end of a callback\<close>

text \<open>The stop operation a callback owns.\<close>

fun job_op :: "em_job \<Rightarrow> int option" where
  "job_op (J_safety_stamp why (After_stop oid ids)) = Some oid"
| "job_op (J_safety_emit why st (After_stop oid ids)) = Some oid"
| "job_op (J_stop oid ids obs) = Some oid"
| "job_op (J_stop_wait oid ids obs ob) = Some oid"
| "job_op (J_finish_check oid f) = Some oid"
| "job_op (J_release_stamp p) = Some (purpose_op p)"
| "job_op (J_release_send p st) = Some (purpose_op p)"
| "job_op (J_release_wait p st) = Some (purpose_op p)"
| "job_op (J_release_done p st) = Some (purpose_op p)"
| "job_op (J_fault oid why f) = Some oid"
| "job_op _ = None"

datatype em_slot = Default | Service nat

datatype em_output =
    Out_command servo_command
  | Out_safety bool string int           \<comment> \<open>\<open>DriverSafetyState\<close>: active, reason, stamp in ns\<close>
  | Out_release_request int              \<comment> \<open>\<open>SetDriverSafety\<close> with \<open>estop_active\<close> false\<close>
  | Out_stop int string string           \<comment> \<open>\<open>ExecuteBusCommand\<close>: servo, protocol, command\<close>
  | Out_actuator_state actuator_feedback
  | Out_read_response read_fields
  | Out_stop_response stop_fields
  | Out_state arb_snapshot

record exec_manager =
  em_arb :: command_arbitrator
  em_known :: "int set"
  em_next_op :: int
  em_ops :: "int set"
  em_fault :: string
  em_last_stamp :: int
  em_clock :: int
  em_jobs :: "em_slot \<Rightarrow> em_job option"
  em_log :: "em_output list"

definition now_sec :: "int \<Rightarrow> real" where
  "now_sec ns = of_int ns / 1000000000"

definition ns_to_ros_time :: "int \<Rightarrow> ros_stamp" where
  "ns_to_ros_time ns = Ros_time (ns div 1000000000) (ns mod 1000000000)"

definition em_send :: "em_output \<Rightarrow> exec_manager \<Rightarrow> exec_manager" where
  "em_send out m = m\<lparr>em_log := out # em_log m\<rparr>"

definition em_put :: "em_slot \<Rightarrow> em_job option \<Rightarrow> exec_manager \<Rightarrow> exec_manager" where
  "em_put s jo m = m\<lparr>em_jobs := (em_jobs m)(s := jo)\<rparr>"

definition em_register :: "exec_manager \<Rightarrow> int \<times> exec_manager" where
  "em_register m =
     (em_next_op m, m\<lparr>em_next_op := em_next_op m + 1, em_ops := insert (em_next_op m) (em_ops m)\<rparr>)"

text \<open>\<open>_next_driver_safety_stamp\<close>, at clock reading \<open>t\<close>.\<close>

definition next_safety_stamp :: "int \<Rightarrow> exec_manager \<Rightarrow> int \<times> exec_manager" where
  "next_safety_stamp t m =
     (let st = max t (em_last_stamp m + 1) in (st, m\<lparr>em_last_stamp := st\<rparr>))"

text \<open>\<open>__init__\<close>: the node starts by publishing that no stop is in force.\<close>

definition em_init :: "real \<Rightarrow> real \<Rightarrow> real \<Rightarrow> int \<Rightarrow> exec_manager" where
  "em_init teleop_timeout motion_timeout task_timeout t =
     (let m = \<lparr>em_arb = arb_init teleop_timeout motion_timeout task_timeout 256,
               em_known = {}, em_next_op = 1, em_ops = {}, em_fault = '''', em_last_stamp = 0,
               em_clock = t, em_jobs = (\<lambda>_. None), em_log = []\<rparr>;
          (st, m1) = next_safety_stamp t m
      in em_send (Out_safety False '''' st) m1)"

section \<open>Handlers of the default group\<close>

text \<open>
  \<open>_handle_command\<close>: the source is one of the three constants the subscriptions pass, so the
  arbiter never raises. The output is stamped with the clock reading \<open>t\<close> inside the lock; \<open>t0\<close> is
  the earlier reading at the top of the handler.
\<close>

definition em_handle_command :: "source \<Rightarrow> motion_command \<Rightarrow> int \<Rightarrow> int \<Rightarrow> exec_manager \<Rightarrow> exec_manager" where
  "em_handle_command src msg t0 t m =
     (let sp = motion_command_to_setpoint msg;
          requester = py_strip (mc_requester_id msg);
          lease = py_strip (mc_lease_id msg);
          (res, arb) =
            (if em_ops m \<noteq> {}
             then arb_reject src (py_strip ''stop_operation_pending'') (py_strip requester)
                    (refresh_mode (now_sec t0) (em_arb m))
             else receive_command_from src (now_sec t0) requester lease (em_arb m));
          m1 = m\<lparr>em_arb := arb\<rparr>;
          m2 = (if ar_accepted res
                then em_send (Out_command (to_servo_command sp (ns_to_ros_time t)))
                       (if sp_actuator_type sp = ''bus''
                        then m1\<lparr>em_known := insert (sp_actuator_id sp) (em_known m1)\<rparr> else m1)
                else m1)
      in em_put Default (Some (J_publish_state (Some t0))) m2)"

definition em_handle_teleop_control ::
    "string \<Rightarrow> string \<Rightarrow> string \<Rightarrow> string \<Rightarrow> int \<Rightarrow> exec_manager \<Rightarrow> exec_manager" where
  "em_handle_teleop_control action requester lease fresh t0 m =
     (let (res, arb) = receive_teleop_control (norm_text action) (now_sec t0) (py_strip requester)
                         (py_strip lease) fresh (em_arb m)
      in em_put Default (Some (J_publish_state (Some t0))) (m\<lparr>em_arb := arb\<rparr>))"

definition em_handle_task_control ::
    "string \<Rightarrow> string \<Rightarrow> string \<Rightarrow> string \<Rightarrow> string \<Rightarrow> string \<Rightarrow> int \<Rightarrow> exec_manager \<Rightarrow> exec_manager" where
  "em_handle_task_control action_text tid trace session lease fresh t0 m =
     (let action = norm_text action_text;
          (res, arb) =
            (if action = ''start'' \<and> em_ops m \<noteq> {}
             then reject_task_control action (now_sec t0) (py_strip tid) (py_strip trace)
                    (py_strip session) ''task_stop_pending'' (em_arb m)
             else receive_task_control action (now_sec t0) (py_strip tid) (py_strip trace)
                    (py_strip session) (py_strip lease) fresh (em_arb m))
      in em_put Default (Some (J_publish_state (Some t0))) (m\<lparr>em_arb := arb\<rparr>))"

text \<open>\<open>_handle_estop\<close> on an activation, and \<open>_handle_estop_release\<close>: their first locked sections.\<close>

definition em_handle_estop :: "int \<Rightarrow> exec_manager \<Rightarrow> exec_manager" where
  "em_handle_estop t m =
     (let (snap, arb) = set_estop True (now_sec t) ''estop'' (em_arb m);
          m1 = m\<lparr>em_arb := arb\<rparr>;
          ids = sorted_list_of_set (em_known m1);
          why = (if snap_estop_reason snap = '''' then ''estop'' else snap_estop_reason snap)
      in if ids \<noteq> []
         then let (oid, m2) = em_register m1
              in em_put Default (Some (J_safety_stamp why (After_stop oid ids))) m2
         else em_put Default (Some (J_safety_stamp why (After_end None))) m1)"

definition em_handle_estop_release :: "int \<Rightarrow> exec_manager \<Rightarrow> exec_manager" where
  "em_handle_estop_release t m =
     (let (snap, arb) = arb_snapshot_of (now_sec t) (em_arb m);
          m1 = m\<lparr>em_arb := arb\<rparr>
      in if \<not> snap_estop_active snap \<or> em_fault m1 \<noteq> '''' \<or> em_ops m1 \<noteq> {}
         then em_put Default (Some (J_publish_state None)) m1
         else let (oid, m2) = em_register m1
              in em_put Default (Some (J_release_stamp (For_estop oid))) m2)"

definition em_handle_driver_state :: "servo_state \<Rightarrow> exec_manager \<Rightarrow> exec_manager" where
  "em_handle_driver_state msg m =
     (let fb = servo_state_to_feedback msg;
          m1 = (if af_actuator_type fb = ''bus''
                then m\<lparr>em_known := insert (af_actuator_id fb) (em_known m)\<rparr> else m)
      in em_send (Out_actuator_state fb) m1)"

definition em_publish_state :: "int \<Rightarrow> exec_manager \<Rightarrow> exec_manager" where
  "em_publish_state t m =
     (let (snap, arb) = arb_snapshot_of (now_sec t) (em_arb m)
      in em_send (Out_state snap) (m\<lparr>em_arb := arb\<rparr>))"

section \<open>The services\<close>

record task_request =
  tq_actuator_type :: string
  tq_actuator_ids :: "int list"
  tq_task_id :: string
  tq_trace_id :: string
  tq_session_id :: string
  tq_lease_id :: string

definition em_validate :: "int \<Rightarrow> task_request \<Rightarrow> exec_manager \<Rightarrow> arbitration_result \<times> exec_manager" where
  "em_validate t req m =
     (let (res, arb) = validate_task_operation (now_sec t) (tq_task_id req) (tq_trace_id req)
                         (tq_session_id req) (tq_lease_id req) (em_arb m)
      in (res, m\<lparr>em_arb := arb\<rparr>))"

text \<open>
  \<open>_handle_read_actuator_position\<close>: only the validation touches the state of the node; \<open>ready\<close>
  and \<open>answer\<close> are what the driver service does, \<open>exc\<close> the text of its exception.
\<close>

definition em_handle_read ::
    "int \<Rightarrow> task_request \<Rightarrow> bool \<Rightarrow> read_response outcome \<Rightarrow> string \<Rightarrow> exec_manager \<Rightarrow> exec_manager" where
  "em_handle_read t req ready answer exc m =
     (let (validation, m1) = em_validate t req m;
          none = read_response_fields None;
          fields =
            (if \<not> ar_accepted validation then none\<lparr>rf_reason := ar_reason validation\<rparr>
             else if norm_text (tq_actuator_type req) \<noteq> ''bus''
               then none\<lparr>rf_reason := ''unsupported_actuator_type'', rf_recoverable := False\<rparr>
             else if \<not> ready then none
             else case answer of
                    O_exception \<Rightarrow> none\<lparr>rf_reason := ''driver_read_exception:'' @ exc\<rparr>
                  | O_timeout \<Rightarrow> none\<lparr>rf_reason := ''driver_read_timeout''\<rparr>
                  | O_reply r \<Rightarrow> read_response_fields (Some r))
      in em_send (Out_read_response fields) m1)"

text \<open>\<open>_handle_stop_actuators\<close> up to the first publication, with \<open>_begin_stop_operation\<close>.\<close>

definition unavailable_summary :: "int list \<Rightarrow> stop_fields" where
  "unavailable_summary ids = stop_summary ids (map (\<lambda>_. None) ids)"

definition em_handle_stop :: "em_slot \<Rightarrow> int \<Rightarrow> task_request \<Rightarrow> exec_manager \<Rightarrow> exec_manager" where
  "em_handle_stop s t req m =
     (let ids = tq_actuator_ids req
      in if norm_text (tq_actuator_type req) \<noteq> ''bus''
         then em_send (Out_stop_response ((unavailable_summary ids)
                \<lparr>sf_accepted := False, sf_reasons := [''unsupported_actuator_type''], sf_recoverable := False\<rparr>)) m
         else if ids = []
         then em_send (Out_stop_response ((stop_summary [] [])
                \<lparr>sf_reasons := [''actuator_ids_required''], sf_recoverable := False\<rparr>)) m
         else let (validation, m1) = em_validate t req m
              in if \<not> ar_accepted validation
                 then em_send (Out_stop_response ((unavailable_summary ids)
                        \<lparr>sf_accepted := False, sf_reasons := [ar_reason validation]\<rparr>)) m1
                 else let (oid, m2) = em_register m1
                      in em_put s (Some (J_safety_stamp ''stop_operation'' (After_stop oid ids))) m2)"

section \<open>Sections of the asynchronous callbacks\<close>

text \<open>The end of a callback: the default group publishes the state, a stop service answers.\<close>

definition em_end :: "em_slot \<Rightarrow> stop_fields option \<Rightarrow> exec_manager \<Rightarrow> exec_manager" where
  "em_end s f m =
     (if s = Default then em_put s (Some (J_publish_state None)) m
      else case f of None \<Rightarrow> em_put s None m
           | Some answer \<Rightarrow> em_send (Out_stop_response answer) (em_put s None m))"

text \<open>What the environment supplies to a section.\<close>

datatype em_input =
    I_go
  | I_time int                              \<comment> \<open>the clock reading\<close>
  | I_read bool "(bool \<times> string) outcome"   \<comment> \<open>services ready; the position read\<close>
  | I_execute "bool outcome"                \<comment> \<open>the stop command's answer\<close>
  | I_ready bool                            \<comment> \<open>safety service ready\<close>
  | I_reply "bool outcome"                  \<comment> \<open>the safety service's answer\<close>

text \<open>
  One actuator of \<open>_stop_driver_actuators\<close>, from the position read to the stop command: the
  operation is looked up in the same locked section that sends it.
\<close>

definition em_stop_send :: "em_slot \<Rightarrow> int \<Rightarrow> int list \<Rightarrow> stop_observation list \<Rightarrow> bool \<Rightarrow>
    (bool \<times> string) outcome \<Rightarrow> exec_manager \<Rightarrow> exec_manager" where
  "em_stop_send s oid ids obs ready read m =
     (let ob = \<lparr>so_ready = ready, so_read = read, so_operation_active = (oid \<in> em_ops m),
                so_execute = O_exception\<rparr>
      in case snd (snd (stop_one (ids ! length obs) ob)) of
           [] \<Rightarrow> em_put s (Some (J_stop oid ids (obs @ [ob]))) m
         | (sid, protocol, command) # _ \<Rightarrow>
             em_send (Out_stop sid protocol command) (em_put s (Some (J_stop_wait oid ids obs ob)) m))"

text \<open>What \<open>_handle_estop\<close> and \<open>_handle_stop_actuators\<close> do with the responses.\<close>

definition em_stop_result :: "em_slot \<Rightarrow> int \<Rightarrow> int list \<Rightarrow> stop_observation list \<Rightarrow> exec_manager \<Rightarrow> exec_manager" where
  "em_stop_result s oid ids obs m =
     (let (responses, timed_out, sent) = stop_driver_actuators ids obs;
          fields = stop_summary ids responses;
          why = (if timed_out then ''driver_stop_timeout'' else ''driver_stop_failed'')
      in if sf_stop_command_sent fields then em_put s (Some (J_finish_check oid fields)) m
         else em_put s (Some (J_fault oid why (Some (fields
                \<lparr>sf_status := ''stop_fault'', sf_reasons := [why], sf_recoverable := False\<rparr>)))) m)"

definition em_finish_check :: "em_slot \<Rightarrow> int \<Rightarrow> stop_fields \<Rightarrow> int \<Rightarrow> exec_manager \<Rightarrow> exec_manager" where
  "em_finish_check s oid f t m =
     (let (snap, arb) = arb_snapshot_of (now_sec t) (em_arb m);
          m1 = m\<lparr>em_arb := arb\<rparr>
      in if em_ops m1 - {oid} \<noteq> {} \<or> em_fault m1 \<noteq> '''' \<or> snap_estop_active snap
         then em_end s (Some f) (m1\<lparr>em_ops := em_ops m1 - {oid}\<rparr>)
         else em_put s (Some (J_release_stamp (For_finish oid f))) m1)"

fun purpose_fields :: "release_purpose \<Rightarrow> stop_fields option" where
  "purpose_fields (For_finish oid f) = Some f"
| "purpose_fields (For_estop oid) = None"

text \<open>A release that was not granted latches a stop fault.\<close>

definition em_release_failed :: "em_slot \<Rightarrow> release_purpose \<Rightarrow> string \<Rightarrow> exec_manager \<Rightarrow> exec_manager" where
  "em_release_failed s p why m = em_put s (Some (J_fault (purpose_op p) why (purpose_fields p))) m"

definition em_release_reply :: "em_slot \<Rightarrow> release_purpose \<Rightarrow> int \<Rightarrow> bool outcome \<Rightarrow> exec_manager \<Rightarrow> exec_manager" where
  "em_release_reply s p st answer m =
     (case answer of
        O_exception \<Rightarrow> em_release_failed s p ''driver_safety_release_failed'' m
      | O_timeout \<Rightarrow> em_release_failed s p ''driver_safety_release_timeout'' m
      | O_reply success \<Rightarrow>
          if success then em_put s (Some (J_release_done p st)) m
          else em_release_failed s p ''driver_safety_release_failed'' m)"

fun em_release_done :: "em_slot \<Rightarrow> release_purpose \<Rightarrow> int \<Rightarrow> int \<Rightarrow> exec_manager \<Rightarrow> exec_manager" where
  "em_release_done s (For_finish oid f) st t m =
     (let m1 = m\<lparr>em_ops := em_ops m - {oid}\<rparr>;
          (snap, arb) = arb_snapshot_of (now_sec t) (em_arb m1);
          m2 = m1\<lparr>em_arb := arb\<rparr>
      in if em_ops m2 \<noteq> {} \<or> em_fault m2 \<noteq> '''' \<or> snap_estop_active snap
         then em_end s (Some f) m2
         else em_end s (Some f) (em_send (Out_safety False '''' st) m2))"
| "em_release_done s (For_estop oid) st t m =
     (let (snap, arb) = set_estop False (now_sec t) ''estop'' (em_arb m)
      in em_end s None (em_send (Out_safety False '''' st)
           (m\<lparr>em_arb := arb, em_ops := em_ops m - {oid}\<rparr>)))"

text \<open>
  \<open>_latch_stop_fault\<close>. The snapshot that \<open>_handle_estop_release\<close> takes after it only feeds a log
  line and is left to the state publication that follows.
\<close>

definition em_latch_fault :: "em_slot \<Rightarrow> int \<Rightarrow> string \<Rightarrow> stop_fields option \<Rightarrow> int \<Rightarrow> exec_manager \<Rightarrow> exec_manager" where
  "em_latch_fault s oid why f t m =
     (if oid \<notin> em_ops m then em_end s f m
      else let (snap, arb) = set_estop True (now_sec t) why (em_arb m)
           in em_put s (Some (J_safety_stamp why (After_end f))) (m\<lparr>em_fault := why, em_arb := arb\<rparr>))"

definition em_safety_stamp :: "em_slot \<Rightarrow> string \<Rightarrow> em_after \<Rightarrow> int \<Rightarrow> exec_manager \<Rightarrow> exec_manager" where
  "em_safety_stamp s why after t m =
     (let (st, m1) = next_safety_stamp t m in em_put s (Some (J_safety_emit why st after)) m1)"

definition em_safety_emit :: "em_slot \<Rightarrow> string \<Rightarrow> int \<Rightarrow> em_after \<Rightarrow> exec_manager \<Rightarrow> exec_manager" where
  "em_safety_emit s why st after m =
     (let m1 = em_send (Out_safety True why st) m
      in case after of After_stop oid ids \<Rightarrow> em_put s (Some (J_stop oid ids [])) m1
         | After_end f \<Rightarrow> em_end s f m1)"

definition em_release_stamp :: "em_slot \<Rightarrow> release_purpose \<Rightarrow> int \<Rightarrow> exec_manager \<Rightarrow> exec_manager" where
  "em_release_stamp s p t m =
     (let (st, m1) = next_safety_stamp t m in em_put s (Some (J_release_send p st)) m1)"

definition em_release_send :: "em_slot \<Rightarrow> release_purpose \<Rightarrow> int \<Rightarrow> bool \<Rightarrow> exec_manager \<Rightarrow> exec_manager" where
  "em_release_send s p st ready m =
     (if ready then em_send (Out_release_request st) (em_put s (Some (J_release_wait p st)) m)
      else em_release_failed s p ''driver_safety_release_unavailable'' m)"

section \<open>Steps\<close>

text \<open>The next section of a callback; \<open>None\<close> when the input does not fit the point it has reached.\<close>

fun em_job_step :: "em_slot \<Rightarrow> em_job \<Rightarrow> em_input \<Rightarrow> exec_manager \<Rightarrow> exec_manager option" where
  "em_job_step s (J_safety_stamp why after) (I_time t) m = Some (em_safety_stamp s why after t m)"
| "em_job_step s (J_safety_emit why st after) I_go m = Some (em_safety_emit s why st after m)"
| "em_job_step s (J_stop oid ids obs) (I_read ready read) m =
     (if length obs < length ids then Some (em_stop_send s oid ids obs ready read m) else None)"
| "em_job_step s (J_stop_wait oid ids obs ob) (I_execute answer) m =
     Some (em_put s (Some (J_stop oid ids (obs @ [ob\<lparr>so_execute := answer\<rparr>]))) m)"
| "em_job_step s (J_stop oid ids obs) I_go m =
     (if length obs = length ids then Some (em_stop_result s oid ids obs m) else None)"
| "em_job_step s (J_finish_check oid f) (I_time t) m = Some (em_finish_check s oid f t m)"
| "em_job_step s (J_release_stamp p) (I_time t) m = Some (em_release_stamp s p t m)"
| "em_job_step s (J_release_send p st) (I_ready ready) m = Some (em_release_send s p st ready m)"
| "em_job_step s (J_release_wait p st) (I_reply answer) m = Some (em_release_reply s p st answer m)"
| "em_job_step s (J_release_done p st) (I_time t) m = Some (em_release_done s p st t m)"
| "em_job_step s (J_fault oid why f) (I_time t) m = Some (em_latch_fault s oid why f t m)"
| "em_job_step s (J_publish_state (Some t0)) I_go m = Some (em_put s None (em_publish_state t0 m))"
| "em_job_step s (J_publish_state None) (I_time t) m = Some (em_put s None (em_publish_state t m))"
| "em_job_step s _ _ m = None"

datatype em_event =
    E_command source motion_command int int
  | E_teleop_control string string string string int
  | E_task_control string string string string string string int
  | E_estop bool int
  | E_driver_state servo_state
  | E_state_timer int
  | E_read task_request bool "read_response outcome" string int
  | E_stop nat task_request int
  | E_job em_slot em_input

fun event_time :: "em_event \<Rightarrow> int option" where
  "event_time (E_command src msg t0 t) = Some t"
| "event_time (E_estop active t) = Some t"
| "event_time (E_state_timer t) = Some t"
| "event_time (E_read req ready answer exc t) = Some t"
| "event_time (E_stop n req t) = Some t"
| "event_time (E_job s (I_time t)) = Some t"
| "event_time _ = None"

fun em_handle :: "em_event \<Rightarrow> exec_manager \<Rightarrow> exec_manager option" where
  "em_handle (E_job s i) m = (case em_jobs m s of None \<Rightarrow> None | Some j \<Rightarrow> em_job_step s j i m)"
| "em_handle (E_read req ready answer exc t) m = Some (em_handle_read t req ready answer exc m)"
| "em_handle (E_stop n req t) m =
     (if em_jobs m (Service n) = None then Some (em_handle_stop (Service n) t req m) else None)"
| "em_handle (E_command src msg t0 t) m =
     (if em_jobs m Default = None then Some (em_handle_command src msg t0 t m) else None)"
| "em_handle (E_teleop_control action r l fresh t0) m =
     (if em_jobs m Default = None then Some (em_handle_teleop_control action r l fresh t0 m) else None)"
| "em_handle (E_task_control action tid tr ses l fresh t0) m =
     (if em_jobs m Default = None then Some (em_handle_task_control action tid tr ses l fresh t0 m) else None)"
| "em_handle (E_estop active t) m =
     (if em_jobs m Default = None
      then Some (if active then em_handle_estop t m else em_handle_estop_release t m) else None)"
| "em_handle (E_driver_state msg) m =
     (if em_jobs m Default = None then Some (em_handle_driver_state msg m) else None)"
| "em_handle (E_state_timer t) m =
     (if em_jobs m Default = None then Some (em_publish_state t m) else None)"

definition em_step :: "em_event \<Rightarrow> exec_manager \<Rightarrow> exec_manager option" where
  "em_step e m =
     (case event_time e of
        None \<Rightarrow> em_handle e m
      | Some t \<Rightarrow> if t < em_clock m then None else em_handle e (m\<lparr>em_clock := t\<rparr>))"

inductive em_reachable :: "exec_manager \<Rightarrow> bool" where
  start: "em_reachable (em_init teleop_timeout motion_timeout task_timeout t)"
| step: "em_reachable m \<Longrightarrow> em_step e m = Some m' \<Longrightarrow> em_reachable m'"


section \<open>The invariant\<close>

text \<open>Stamps of the commands sent, the newest first.\<close>

fun cmd_stamps :: "em_output list \<Rightarrow> int list" where
  "cmd_stamps [] = []"
| "cmd_stamps (Out_command c # rest) = ros_time_to_ns (sc_stamp c) # cmd_stamps rest"
| "cmd_stamps (_ # rest) = cmd_stamps rest"

text \<open>Every active safety state is stamped no earlier than each command sent before it.\<close>

fun covered :: "em_output list \<Rightarrow> bool" where
  "covered [] = True"
| "covered (Out_safety True why st # rest) \<longleftrightarrow> 0 < st \<and> (\<forall>c \<in> set (cmd_stamps rest). c \<le> st) \<and> covered rest"
| "covered (_ # rest) = covered rest"

fun pending_ok :: "bool \<Rightarrow> int set \<Rightarrow> string \<Rightarrow> em_slot \<Rightarrow> em_after \<Rightarrow> bool" where
  "pending_ok e ops f s (After_stop oid ids) \<longleftrightarrow> oid \<in> ops"
| "pending_ok e ops f s (After_end r) \<longleftrightarrow> s = Default \<and> e \<or> f \<noteq> ''''"

fun purpose_ok :: "bool \<Rightarrow> int set \<Rightarrow> string \<Rightarrow> em_slot \<Rightarrow> release_purpose \<Rightarrow> bool" where
  "purpose_ok e ops f s (For_finish oid r) \<longleftrightarrow> oid \<in> ops"
| "purpose_ok e ops f s (For_estop oid) \<longleftrightarrow> s = Default \<and> e \<and> ops = {oid} \<and> f = ''''"

text \<open>
  What a callback in progress relies on: \<open>e\<close>, \<open>ops\<close> and \<open>f\<close> are the emergency stop, the pending stop
  operations and the latched fault, \<open>cs\<close> the stamps of the commands sent.
\<close>

fun job_ok :: "bool \<Rightarrow> int set \<Rightarrow> string \<Rightarrow> int list \<Rightarrow> em_slot \<Rightarrow> em_job \<Rightarrow> bool" where
  "job_ok e ops f cs s (J_safety_stamp why after) \<longleftrightarrow> pending_ok e ops f s after"
| "job_ok e ops f cs s (J_safety_emit why st after) \<longleftrightarrow>
     pending_ok e ops f s after \<and> 0 < st \<and> (\<forall>c \<in> set cs. c \<le> st)"
| "job_ok e ops f cs s (J_stop oid ids obs) \<longleftrightarrow> oid \<in> ops"
| "job_ok e ops f cs s (J_stop_wait oid ids obs ob) \<longleftrightarrow> oid \<in> ops"
| "job_ok e ops f cs s (J_finish_check oid r) \<longleftrightarrow> oid \<in> ops"
| "job_ok e ops f cs s (J_release_stamp p) \<longleftrightarrow> purpose_ok e ops f s p"
| "job_ok e ops f cs s (J_release_send p st) \<longleftrightarrow> purpose_ok e ops f s p"
| "job_ok e ops f cs s (J_release_wait p st) \<longleftrightarrow> purpose_ok e ops f s p"
| "job_ok e ops f cs s (J_release_done p st) \<longleftrightarrow> purpose_ok e ops f s p"
| "job_ok e ops f cs s (J_fault oid why r) \<longleftrightarrow> oid \<in> ops \<and> why \<noteq> ''''"
| "job_ok e ops f cs s (J_publish_state w) \<longleftrightarrow> True"

fun estop_release :: "em_job \<Rightarrow> bool" where
  "estop_release (J_release_stamp (For_estop oid)) = True"
| "estop_release (J_release_send (For_estop oid) st) = True"
| "estop_release (J_release_wait (For_estop oid) st) = True"
| "estop_release (J_release_done (For_estop oid) st) = True"
| "estop_release _ = False"

text \<open>The operation owned by the callback in a slot; no two own the same.\<close>

definition owned :: "(em_slot \<Rightarrow> em_job option) \<Rightarrow> em_slot \<Rightarrow> int option" where
  "owned jobs s = Option.bind (jobs s) job_op"

definition owners_apart :: "(em_slot \<Rightarrow> em_job option) \<Rightarrow> bool" where
  "owners_apart jobs \<longleftrightarrow> (\<forall>s s' oid. owned jobs s = Some oid \<longrightarrow> owned jobs s' = Some oid \<longrightarrow> s = s')"

lemma owned_upd [simp]: "owned (jobs(s := jo)) = (owned jobs)(s := Option.bind jo job_op)"
  by (auto simp: owned_def)

lemma ownedI: "jobs s = Some j \<Longrightarrow> owned jobs s = job_op j"
  by (simp add: owned_def)

lemma owners_apart_keep:
  assumes "owners_apart jobs" "Option.bind jo job_op = None \<or> Option.bind jo job_op = owned jobs s"
  shows "owners_apart (jobs(s := jo))"
proof -
  have "owned jobs s' = Some oid" if "owned (jobs(s := jo)) s' = Some oid" for s' oid
    using that assms(2) by (auto split: if_splits)
  with assms(1) show ?thesis unfolding owners_apart_def by blast
qed

lemma owners_apart_new:
  "owners_apart jobs \<Longrightarrow> job_op j = Some oid \<Longrightarrow> (\<And>s. owned jobs s \<noteq> Some oid) \<Longrightarrow>
     owners_apart (jobs(s := Some j))"
  unfolding owners_apart_def by auto

definition state_ok :: "bool \<Rightarrow> int set \<Rightarrow> string \<Rightarrow> int list \<Rightarrow> int \<Rightarrow> int \<Rightarrow> int \<Rightarrow>
    (em_slot \<Rightarrow> em_job option) \<Rightarrow> bool" where
  "state_ok e ops f cs nx clk lst jobs \<longleftrightarrow>
     (\<forall>s j. jobs s = Some j \<longrightarrow> job_ok e ops f cs s j) \<and>
     owners_apart jobs \<and>
     (\<forall>oid \<in> ops. oid < nx) \<and> (f \<noteq> '''' \<longrightarrow> e) \<and> (\<forall>c \<in> set cs. c \<le> clk) \<and> 0 \<le> lst"

definition em_ok :: "exec_manager \<Rightarrow> bool" where
  "em_ok m \<longleftrightarrow> covered (em_log m) \<and>
     state_ok (estop_active (em_arb m)) (em_ops m) (em_fault m) (cmd_stamps (em_log m))
       (em_next_op m) (em_clock m) (em_last_stamp m) (em_jobs m)"

lemma job_ok_op: "job_ok e ops f cs s j \<Longrightarrow> job_op j = Some oid \<Longrightarrow> oid \<in> ops"
proof (cases "(e, ops, f, cs, s, j)" rule: job_ok.cases)
qed (auto elim: pending_ok.elims purpose_ok.elims)

lemma estop_release_ok:
  "job_ok e ops f cs s j \<Longrightarrow> estop_release j \<Longrightarrow>
     s = Default \<and> e \<and> f = '''' \<and> (\<exists>oid. job_op j = Some oid \<and> ops = {oid})"
  by (cases j rule: estop_release.cases) auto

text \<open>How a change elsewhere affects what a callback relies on.\<close>

lemma job_ok_frame:
  assumes "job_ok e ops f cs s j" "\<not> estop_release j"
    "\<And>oid. job_op j = Some oid \<Longrightarrow> oid \<in> ops'" "e \<longrightarrow> e'" "f \<noteq> '''' \<longrightarrow> f' \<noteq> ''''"
  shows "job_ok e' ops' f' cs s j"
proof -
  have p: "pending_ok e' ops' f' s after"
    if "pending_ok e ops f s after" "\<And>oid ids. after = After_stop oid ids \<Longrightarrow> oid \<in> ops'" for after
    using that assms(4,5) by (cases after) auto
  show ?thesis
  proof (cases j)
    case (J_safety_stamp why after)
    with assms(1,3) p [of after] show ?thesis by auto
  next
    case (J_safety_emit why st after)
    with assms(1,3) p [of after] show ?thesis by auto
  next
    case (J_release_stamp p)
    with assms(2,3) show ?thesis by (cases p) auto
  next
    case (J_release_send p st)
    with assms(2,3) show ?thesis by (cases p) auto
  next
    case (J_release_wait p st)
    with assms(2,3) show ?thesis by (cases p) auto
  next
    case (J_release_done p st)
    with assms(2,3) show ?thesis by (cases p) auto
  qed (use assms in auto)
qed

lemma job_ok_estop: "job_ok e ops f cs s j \<Longrightarrow> job_ok True ops f cs s j"
  by (cases "estop_release j") (use estop_release_ok in fastforce, rule job_ok_frame, auto dest: job_ok_op)

lemma state_okD:
  assumes "state_ok e ops f cs nx clk lst jobs"
  shows "jobs s = Some j \<Longrightarrow> job_ok e ops f cs s j"
    "jobs s = Some j \<Longrightarrow> jobs s' = Some j' \<Longrightarrow> job_op j = Some oid \<Longrightarrow> job_op j' = Some oid \<Longrightarrow> s = s'"
    "oid \<in> ops \<Longrightarrow> oid < nx" "f \<noteq> '''' \<Longrightarrow> e" "c \<in> set cs \<Longrightarrow> c \<le> clk" "0 \<le> lst"
  using assms unfolding state_ok_def owners_apart_def by (auto simp: owned_def)

text \<open>Only one callback can be releasing the emergency stop, and then no other owns an operation.\<close>

lemma others_idle:
  assumes "state_ok e ops f cs nx clk lst jobs" "jobs s = Some j" "estop_release j" "jobs s' = Some j'" "s' \<noteq> s"
  shows "job_op j' = None \<and> \<not> estop_release j'"
proof -
  from estop_release_ok [OF state_okD(1) [OF assms(1,2)] assms(3)]
  obtain oid where o: "job_op j = Some oid" "ops = {oid}" by blast
  have "job_op j' \<noteq> Some oid" using state_okD(2) [OF assms(1,2,4) o(1)] assms(5) by auto
  moreover have "job_op j' = Some oid' \<Longrightarrow> oid' = oid" for oid'
    using job_ok_op [OF state_okD(1) [OF assms(1,4)]] o(2) by blast
  ultimately have n: "job_op j' = None" by (cases "job_op j'") auto
  then show ?thesis using estop_release_ok [OF state_okD(1) [OF assms(1,4)]] by fastforce
qed
section \<open>How the sections change the invariant\<close>

lemma state_ok_clock:
  "state_ok e ops f cs nx clk lst jobs \<Longrightarrow> clk \<le> clk' \<Longrightarrow> state_ok e ops f cs nx clk' lst jobs"
  unfolding state_ok_def using order_trans by blast

lemma state_ok_stamp:
  "state_ok e ops f cs nx clk lst jobs \<Longrightarrow> state_ok e ops f cs nx clk (max t (lst + 1)) jobs"
  unfolding state_ok_def by auto

lemma state_ok_drop:
  "state_ok e ops f cs nx clk lst jobs \<Longrightarrow> state_ok e ops f cs nx clk lst (jobs(s := None))"
  unfolding state_ok_def by (auto intro: owners_apart_keep split: if_splits)

text \<open>A callback moves on, keeping the operation it owns or owning none.\<close>

lemma state_ok_put:
  assumes "state_ok e ops f cs nx clk lst jobs" "job_ok e ops f cs s j"
    "job_op j = None \<or> jobs s = Some j0 \<and> job_op j = job_op j0"
  shows "state_ok e ops f cs nx clk lst (jobs(s := Some j))"
proof -
  have "owners_apart (jobs(s := Some j))"
    by (rule owners_apart_keep) (use assms in \<open>auto simp: state_ok_def owned_def\<close>)
  with assms(1,2) show ?thesis unfolding state_ok_def by auto
qed

lemma state_ok_register:
  assumes ok: "state_ok e ops f cs nx clk lst jobs" and j: "job_ok e (insert nx ops) f cs s j" "job_op j = Some nx"
    and idle: "s = Default \<or> \<not> e"
  shows "state_ok e (insert nx ops) f cs (nx + 1) clk lst (jobs(s := Some j))"
proof -
  have new: "nx \<notin> ops" using state_okD(3) [OF ok] by blast
  have "job_ok e (insert nx ops) f cs s' j'" if "jobs s' = Some j'" "s' \<noteq> s" for s' j'
  proof (rule job_ok_frame [OF state_okD(1) [OF ok that(1)]])
    show "\<not> estop_release j'" using estop_release_ok [OF state_okD(1) [OF ok that(1)]] idle that(2) by blast
  qed (use job_ok_op [OF state_okD(1) [OF ok that(1)]] in auto)
  moreover have "owned jobs s' \<noteq> Some nx" for s'
    using job_ok_op [OF state_okD(1) [OF ok]] new by (cases "jobs s'") (auto simp: owned_def)
  then have "owners_apart (jobs(s := Some j))"
    using ok j(2) by (auto simp: state_ok_def intro: owners_apart_new)
  ultimately show ?thesis
    using ok j(1) unfolding state_ok_def by (auto split: if_splits)
qed

lemma state_ok_change:
  assumes ok: "state_ok e ops f cs nx clk lst jobs" and j0: "jobs s = Some j0" "job_op j0 = Some oid" "\<not> estop_release j0"
    and e': "e \<longrightarrow> e'" "f' \<noteq> '''' \<longrightarrow> e'" "f \<noteq> '''' \<longrightarrow> f' \<noteq> ''''"
    and ops': "ops' \<subseteq> ops" "ops - {oid} \<subseteq> ops'"
    and j: "\<And>j. jo = Some j \<Longrightarrow> job_ok e' ops' f' cs s j \<and> job_op j = None"
  shows "state_ok e' ops' f' cs nx clk lst (jobs(s := jo))"
proof -
  have "job_ok e' ops' f' cs s' j'" if s': "jobs s' = Some j'" "s' \<noteq> s" for s' j'
  proof (rule job_ok_frame [OF state_okD(1) [OF ok s'(1)]])
    show "\<not> estop_release j'" using others_idle [OF ok s'(1) _ j0(1)] s'(2) j0(2) by auto
    show "oid' \<in> ops'" if "job_op j' = Some oid'" for oid'
      using job_ok_op [OF state_okD(1) [OF ok s'(1)] that] state_okD(2) [OF ok j0(1) s'(1) j0(2)] that s'(2) ops'(2)
      by auto
  qed (use e' in auto)
  moreover have "owners_apart (jobs(s := jo))"
    by (rule owners_apart_keep) (use ok j in \<open>cases jo; auto simp: state_ok_def\<close>)+
  ultimately show ?thesis using ok e' ops' j unfolding state_ok_def by (auto split: if_splits)
qed

lemma state_ok_estop:
  "state_ok e ops f cs nx clk lst jobs \<Longrightarrow> state_ok True ops f cs nx clk lst jobs"
  unfolding state_ok_def using job_ok_estop by blast

text \<open>The emergency stop ends only with its own release, when no other callback owns an operation.\<close>

lemma state_ok_release:
  assumes ok: "state_ok e ops f cs nx clk lst jobs" and j0: "jobs Default = Some j0" "estop_release j0" "job_op j0 = Some oid"
  shows "state_ok False (ops - {oid}) f cs nx clk lst (jobs(Default := Some (J_publish_state w)))"
    "ops = {oid}" "f = ''''"
proof -
  from estop_release_ok [OF state_okD(1) [OF ok j0(1)] j0(2)] j0(3) show o: "ops = {oid}" and f: "f = ''''" by auto
  have "job_ok False (ops - {oid}) f cs s j" if "jobs s = Some j" "s \<noteq> Default" for s j
  proof (rule job_ok_frame [where e = False, OF _ _ _ _ ])
    have n: "job_op j = None" "\<not> estop_release j" using others_idle [OF ok j0(1,2) that] by auto
    show "job_ok False ops f cs s j"
      using state_okD(1) [OF ok that(1)] n(1) that(2) f by (cases j rule: job_op.cases) auto
    show "\<not> estop_release j" by (rule n(2))
    show "oid' \<in> ops - {oid}" if "job_op j = Some oid'" for oid' using n(1) that by simp
  qed auto
  moreover have "owners_apart (jobs(Default := Some (J_publish_state w)))"
    by (rule owners_apart_keep) (use ok in \<open>auto simp: state_ok_def\<close>)
  ultimately show "state_ok False (ops - {oid}) f cs nx clk lst (jobs(Default := Some (J_publish_state w)))"
    using ok f unfolding state_ok_def by (auto split: if_splits)
qed

text \<open>A command can be sent only when no callback is about to announce a stop.\<close>

lemma state_ok_command:
  assumes ok: "state_ok False {} f cs nx clk lst jobs" and c: "c \<le> clk"
  shows "state_ok False {} f (c # cs) nx clk lst jobs"
proof -
  have f: "f = ''''" using state_okD(4) [OF ok] by blast
  have "job_ok False {} f (c # cs) s j" if "jobs s = Some j" for s j
    using state_okD(1) [OF ok that] f by (cases j rule: job_op.cases) (auto elim!: purpose_ok.elims)
  with ok c show ?thesis unfolding state_ok_def by auto
qed
section \<open>Every section preserves the invariant\<close>

lemma ns_to_ros_time_inverse [simp]: "ros_time_to_ns (ns_to_ros_time t) = t"
  by (simp add: ns_to_ros_time_def)

lemma snapshot_estop [simp]: "snap_estop_active (fst (arb_snapshot_of now st)) = estop_active st"
  by (simp add: arb_snapshot_of_def Let_def)

lemma accepted_not_stopped: "ar_accepted (fst (receive_command_from src now r l st)) \<Longrightarrow> \<not> estop_active st"
  by (auto simp: receive_command_from_def Let_def command_rejection_def arb_reject_def result_of_def split: if_splits)

fun plain_output :: "em_output \<Rightarrow> bool" where
  "plain_output (Out_command c) = False"
| "plain_output (Out_safety active why st) = (\<not> active)"
| "plain_output _ = True"

lemma plain_output_log [simp]:
  "plain_output x \<Longrightarrow> cmd_stamps (x # xs) = cmd_stamps xs" "plain_output x \<Longrightarrow> covered (x # xs) = covered xs"
  by (cases x; auto)+

lemma em_ok_send: "em_ok m \<Longrightarrow> plain_output x \<Longrightarrow> em_ok (em_send x m)"
  by (simp add: em_ok_def em_send_def)

lemma em_ok_arb: "em_ok m \<Longrightarrow> estop_active arb = estop_active (em_arb m) \<Longrightarrow> em_ok (m\<lparr>em_arb := arb\<rparr>)"
  by (simp add: em_ok_def)

lemma em_ok_known: "em_ok m \<Longrightarrow> em_ok (m\<lparr>em_known := x\<rparr>)"
  by (simp add: em_ok_def)

lemma em_ok_clock: "em_ok m \<Longrightarrow> em_clock m \<le> t \<Longrightarrow> em_ok (m\<lparr>em_clock := t\<rparr>)"
  using state_ok_clock by (auto simp: em_ok_def)

lemma em_ok_drop: "em_ok m \<Longrightarrow> em_ok (em_put s None m)"
  by (simp add: em_ok_def em_put_def state_ok_drop)

definition em_job_ok :: "exec_manager \<Rightarrow> em_slot \<Rightarrow> em_job \<Rightarrow> bool" where
  "em_job_ok m s j = job_ok (estop_active (em_arb m)) (em_ops m) (em_fault m) (cmd_stamps (em_log m)) s j"

lemma em_ok_put:
  "em_ok m \<Longrightarrow> em_job_ok m s j \<Longrightarrow> job_op j = None \<or> em_jobs m s = Some j0 \<and> job_op j = job_op j0 \<Longrightarrow>
     em_ok (em_put s (Some j) m)"
  using state_ok_put by (auto simp: em_ok_def em_put_def em_job_ok_def)

lemma em_ok_job: "em_ok m \<Longrightarrow> em_jobs m s = Some j \<Longrightarrow> em_job_ok m s j"
  unfolding em_ok_def em_job_ok_def using state_okD(1) by blast

lemma em_ok_end: "em_ok m \<Longrightarrow> em_ok (em_end s f m)"
  by (auto simp: em_end_def em_ok_drop em_job_ok_def intro!: em_ok_put em_ok_send split: option.split)

lemma em_ok_register:
  assumes "em_ok m" "job_op j = Some (em_next_op m)" "s = Default \<or> \<not> estop_active (em_arb m)"
    "em_job_ok (snd (em_register m)) s j"
  shows "em_ok (em_put s (Some j) (snd (em_register m)))"
  using assms state_ok_register unfolding em_ok_def em_put_def em_register_def em_job_ok_def by auto

lemma em_ok_stamp: "em_ok m \<Longrightarrow> em_ok (snd (next_safety_stamp t m))"
  by (simp add: em_ok_def next_safety_stamp_def Let_def state_ok_stamp)

lemma em_ok_publish_state: "em_ok m \<Longrightarrow> em_ok (em_publish_state t m)"
  by (simp add: em_publish_state_def split_def Let_def em_ok_send em_ok_arb)

lemma em_ok_fields: "em_ok m \<Longrightarrow> 0 \<le> em_last_stamp m" "em_ok m \<Longrightarrow> em_fault m \<noteq> '''' \<Longrightarrow> estop_active (em_arb m)"
  "em_ok m \<Longrightarrow> c \<in> set (cmd_stamps (em_log m)) \<Longrightarrow> c \<le> em_clock m"
  by (simp_all add: em_ok_def state_ok_def)

subsection \<open>Handlers\<close>

lemma em_ok_command:
  assumes ok: "em_ok m" and t: "t \<le> em_clock m" and go: "\<not> estop_active (em_arb m)" "em_ops m = {}"
    and c: "ros_time_to_ns (sc_stamp c) = t"
  shows "em_ok (em_send (Out_command c) m)"
  using ok go state_ok_command [of _ _ _ _ _ _ t] t c by (auto simp: em_ok_def em_send_def)

lemma em_ok_handle_command:
  assumes ok: "em_ok m" and t: "em_clock m = t"
  shows "em_ok (em_handle_command src msg t0 t m)"
proof -
  let ?sp = "motion_command_to_setpoint msg"
  obtain res arb where r: "(if em_ops m \<noteq> {}
      then arb_reject src (py_strip ''stop_operation_pending'') (py_strip (py_strip (mc_requester_id msg)))
             (refresh_mode (now_sec t0) (em_arb m))
      else receive_command_from src (now_sec t0) (py_strip (mc_requester_id msg)) (py_strip (mc_lease_id msg)) (em_arb m))
      = (res, arb)" by fastforce
  have e: "estop_active arb = estop_active (em_arb m)"
    using arg_cong [OF r, of "\<lambda>x. estop_active (snd x)"] by (auto split: if_splits)
  have go: "\<not> estop_active (em_arb m) \<and> em_ops m = {}" if "ar_accepted res"
    using arg_cong [OF r, of fst] that accepted_not_stopped by (auto split: if_splits)
  let ?m1 = "m\<lparr>em_arb := arb\<rparr>"
  have ok1: "em_ok ?m1" using ok e by (simp add: em_ok_arb)
  let ?m2 = "if sp_actuator_type ?sp = ''bus'' then ?m1\<lparr>em_known := insert (sp_actuator_id ?sp) (em_known ?m1)\<rparr> else ?m1"
  have ok2: "em_ok ?m2" using ok1 em_ok_known [OF ok1] by simp
  have "em_ok (em_send (Out_command (to_servo_command ?sp (ns_to_ros_time t))) ?m2)" if "ar_accepted res"
    by (rule em_ok_command [OF ok2, of t]) (use go [OF that] e t in \<open>auto simp: to_servo_command_def\<close>)
  then have "em_ok (if ar_accepted res then em_send (Out_command (to_servo_command ?sp (ns_to_ros_time t))) ?m2 else ?m1)"
    using ok1 by simp
  from em_ok_put [OF this, of Default "J_publish_state (Some t0)"] show ?thesis
    by (simp add: em_handle_command_def r em_job_ok_def Let_def del: if_split)
qed

lemma em_ok_handle_teleop_control: "em_ok m \<Longrightarrow> em_ok (em_handle_teleop_control a r l fresh t0 m)"
  by (simp add: em_handle_teleop_control_def split_def Let_def em_ok_put em_ok_arb em_job_ok_def)

lemma em_ok_handle_task_control: "em_ok m \<Longrightarrow> em_ok (em_handle_task_control a t tr s l fresh t0 m)"
  by (simp add: em_handle_task_control_def split_def Let_def em_ok_put em_ok_arb em_job_ok_def)

lemma em_ok_estop_arb:
  "em_ok m \<Longrightarrow> em_ok (m\<lparr>em_arb := snd (set_estop True now why (em_arb m))\<rparr>)"
  by (auto simp: em_ok_def dest: state_ok_estop)

lemma em_ok_handle_estop:
  assumes "em_ok m" shows "em_ok (em_handle_estop t m)"
proof -
  let ?m = "m\<lparr>em_arb := snd (set_estop True (now_sec t) ''estop'' (em_arb m))\<rparr>"
  have ok: "em_ok ?m" by (rule em_ok_estop_arb [OF assms])
  have "em_ok (em_put Default (Some (J_safety_stamp why (After_stop (em_next_op ?m) ids))) (snd (em_register ?m)))" for why ids
    by (rule em_ok_register [OF ok]) (simp_all add: em_job_ok_def em_register_def)
  moreover have "em_ok (em_put Default (Some (J_safety_stamp why (After_end None))) ?m)" for why
    by (rule em_ok_put [OF ok]) (simp_all add: em_job_ok_def)
  ultimately show ?thesis
    by (simp add: em_handle_estop_def split_def Let_def em_register_def [of ?m])
qed

lemma em_ok_handle_estop_release:
  assumes "em_ok m" shows "em_ok (em_handle_estop_release t m)"
proof -
  let ?m = "m\<lparr>em_arb := snd (arb_snapshot_of (now_sec t) (em_arb m))\<rparr>"
  have ok: "em_ok ?m" by (rule em_ok_arb [OF assms]) simp
  have "em_ok (em_put Default (Some (J_release_stamp (For_estop (em_next_op ?m)))) (snd (em_register ?m)))"
    if "estop_active (em_arb m)" "em_ops m = {}" "em_fault m = ''''"
    by (rule em_ok_register [OF ok]) (use that in \<open>simp_all add: em_job_ok_def em_register_def\<close>)
  moreover have "em_ok (em_put Default (Some (J_publish_state None)) ?m)"
    by (rule em_ok_put [OF ok]) (simp_all add: em_job_ok_def)
  ultimately show ?thesis
    by (auto simp: em_handle_estop_release_def split_def Let_def em_register_def [of ?m])
qed

lemma em_ok_handle_driver_state: "em_ok m \<Longrightarrow> em_ok (em_handle_driver_state msg m)"
  by (simp add: em_handle_driver_state_def Let_def em_ok_send em_ok_known)

lemma em_ok_validate: "em_ok m \<Longrightarrow> em_ok (snd (em_validate t req m))"
  by (simp add: em_validate_def split_def Let_def em_ok_arb)

lemma validate_accepted:
  "ar_accepted (fst (em_validate t req m)) \<Longrightarrow>
     \<not> estop_active (em_arb m) \<and> \<not> estop_active (em_arb (snd (em_validate t req m)))"
  by (auto simp: em_validate_def split_def Let_def validate_task_operation_def task_operation_rejection_def
      result_of_def split: if_splits)

lemma em_ok_handle_read: "em_ok m \<Longrightarrow> em_ok (em_handle_read t req ready answer exc m)"
  by (simp add: em_handle_read_def split_def Let_def em_ok_send em_ok_validate)

lemma em_ok_handle_stop:
  assumes "em_ok m" shows "em_ok (em_handle_stop s t req m)"
proof -
  let ?m = "snd (em_validate t req m)"
  have ok: "em_ok ?m" by (rule em_ok_validate [OF assms])
  have "em_ok (em_put s (Some (J_safety_stamp why (After_stop (em_next_op ?m) ids))) (snd (em_register ?m)))"
    if "ar_accepted (fst (em_validate t req m))" for why ids
    by (rule em_ok_register [OF ok]) (use validate_accepted [OF that] in \<open>simp_all add: em_job_ok_def em_register_def\<close>)
  with assms ok show ?thesis
    by (auto simp: em_handle_stop_def split_def Let_def em_register_def [of ?m] intro!: em_ok_send)
qed
subsection \<open>Asynchronous callbacks\<close>

lemma em_ok_safety_stamp:
  assumes ok: "em_ok m" and j: "em_jobs m s = Some (J_safety_stamp why after)" and t: "em_clock m = t"
  shows "em_ok (em_safety_stamp s why after t m)"
proof -
  let ?m = "snd (next_safety_stamp t m)"
  have "em_ok (em_put s (Some (J_safety_emit why (max t (em_last_stamp m + 1)) after)) ?m)"
  proof (rule em_ok_put [OF em_ok_stamp [OF ok], where ?j0.0 = "J_safety_stamp why after"])
    show "em_job_ok ?m s (J_safety_emit why (max t (em_last_stamp m + 1)) after)"
      using em_ok_job [OF ok j] em_ok_fields(1) [OF ok] em_ok_fields(3) [OF ok] t
      by (auto simp: em_job_ok_def next_safety_stamp_def Let_def max.coboundedI1)
    show "job_op (J_safety_emit why (max t (em_last_stamp m + 1)) after) = None \<or>
        em_jobs ?m s = Some (J_safety_stamp why after) \<and>
        job_op (J_safety_emit why (max t (em_last_stamp m + 1)) after) = job_op (J_safety_stamp why after)"
      using j by (cases after) (auto simp: next_safety_stamp_def Let_def)
  qed
  then show ?thesis by (simp add: em_safety_stamp_def next_safety_stamp_def Let_def)
qed

lemma em_ok_safety_emit:
  assumes ok: "em_ok m" and j: "em_jobs m s = Some (J_safety_emit why st after)"
  shows "em_ok (em_safety_emit s why st after m)"
proof -
  let ?m = "em_send (Out_safety True why st) m"
  have jk: "em_job_ok m s (J_safety_emit why st after)" by (rule em_ok_job [OF ok j])
  then have ok1: "em_ok ?m" using ok by (auto simp: em_ok_def em_send_def em_job_ok_def)
  show ?thesis
  proof (cases after)
    case (After_stop oid ids)
    have "em_ok (em_put s (Some (J_stop oid ids [])) ?m)"
      by (rule em_ok_put [OF ok1, where ?j0.0 = "J_safety_emit why st after"])
        (use jk j After_stop in \<open>auto simp: em_job_ok_def em_send_def\<close>)
    with After_stop show ?thesis by (simp add: em_safety_emit_def)
  next
    case (After_end f)
    with em_ok_end [OF ok1] show ?thesis by (simp add: em_safety_emit_def)
  qed
qed

text \<open>A callback moves on and keeps its operation.\<close>

lemma em_ok_next:
  assumes "em_ok m" "em_jobs m s = Some j0" "job_op j = job_op j0" "em_job_ok m s j"
  shows "em_ok (em_put s (Some j) m)"
  by (rule em_ok_put [OF assms(1,4)]) (use assms in auto)

lemma put_send: "em_put s jo (em_send x m) = em_send x (em_put s jo m)"
  by (simp add: em_put_def em_send_def)

lemma em_ok_stop_send:
  assumes ok: "em_ok m" and j: "em_jobs m s = Some (J_stop oid ids obs)"
  shows "em_ok (em_stop_send s oid ids obs ready read m)"
proof -
  have "em_ok (em_put s (Some (J_stop oid ids obs')) m)" "em_ok (em_put s (Some (J_stop_wait oid ids obs ob)) m)" for obs' ob
    using em_ok_job [OF ok j] by (auto intro!: em_ok_next [OF ok j] simp: em_job_ok_def)
  then show ?thesis
    by (auto simp: em_stop_send_def Let_def em_ok_send split: list.split prod.split)
qed

lemma em_ok_stop_wait:
  assumes ok: "em_ok m" and j: "em_jobs m s = Some (J_stop_wait oid ids obs ob)"
  shows "em_ok (em_put s (Some (J_stop oid ids obs')) m)"
  using em_ok_job [OF ok j] by (auto intro!: em_ok_next [OF ok j] simp: em_job_ok_def)

lemma em_ok_stop_result:
  assumes ok: "em_ok m" and j: "em_jobs m s = Some (J_stop oid ids obs)"
  shows "em_ok (em_stop_result s oid ids obs m)"
  using em_ok_job [OF ok j]
  by (auto intro!: em_ok_next [OF ok j] simp: em_job_ok_def em_stop_result_def Let_def split_def)

lemma em_ok_discard:
  assumes ok: "em_ok m" and j: "em_jobs m s = Some j0" "job_op j0 = Some oid" "\<not> estop_release j0"
  shows "em_ok (em_put s None (m\<lparr>em_ops := em_ops m - {oid}\<rparr>))"
proof -
  have "state_ok (estop_active (em_arb m)) (em_ops m - {oid}) (em_fault m) (cmd_stamps (em_log m))
      (em_next_op m) (em_clock m) (em_last_stamp m) ((em_jobs m)(s := None))"
    by (rule state_ok_change [where ?j0.0 = j0 and oid = oid]) (use ok j in \<open>auto simp: em_ok_def dest: state_okD(4)\<close>)
  with ok show ?thesis by (simp add: em_ok_def em_put_def)
qed

lemma end_of_put: "em_end s f (em_put s None m) = em_end s f m"
  by (auto simp: em_end_def em_put_def split: option.split)

lemma em_ok_finish_check:
  assumes ok: "em_ok m" and j: "em_jobs m s = Some (J_finish_check oid f)"
  shows "em_ok (em_finish_check s oid f t m)"
proof -
  let ?m = "m\<lparr>em_arb := snd (arb_snapshot_of (now_sec t) (em_arb m))\<rparr>"
  have ok1: "em_ok ?m" by (rule em_ok_arb [OF ok]) simp
  have j1: "em_jobs ?m s = Some (J_finish_check oid f)" using j by simp
  have "em_ok (em_put s (Some (J_release_stamp (For_finish oid f))) ?m)"
    using em_ok_job [OF ok j] by (auto intro!: em_ok_next [OF ok1 j1] simp: em_job_ok_def)
  moreover have "em_ok (em_put s None (?m\<lparr>em_ops := em_ops ?m - {oid}\<rparr>))"
    by (rule em_ok_discard [OF ok1 j1]) simp_all
  then have "em_ok (em_end s (Some f) (?m\<lparr>em_ops := em_ops ?m - {oid}\<rparr>))"
    using em_ok_end end_of_put by metis
  ultimately show ?thesis by (simp add: em_finish_check_def split_def Let_def)
qed

lemma em_ok_release_stamp:
  assumes ok: "em_ok m" and j: "em_jobs m s = Some (J_release_stamp p)"
  shows "em_ok (em_release_stamp s p t m)"
proof -
  let ?m = "snd (next_safety_stamp t m)"
  have "em_ok (em_put s (Some (J_release_send p st)) ?m)" for st
    by (rule em_ok_next [OF em_ok_stamp [OF ok], where ?j0.0 = "J_release_stamp p"])
      (use em_ok_job [OF ok j] j in \<open>auto simp: em_job_ok_def next_safety_stamp_def Let_def\<close>)
  then show ?thesis by (simp add: em_release_stamp_def next_safety_stamp_def Let_def)
qed

lemma em_ok_release_failed:
  assumes ok: "em_ok m" and j: "em_jobs m s = Some j0" "job_op j0 = Some (purpose_op p)" and w: "why \<noteq> ''''"
  shows "em_ok (em_release_failed s p why m)"
  unfolding em_release_failed_def
  by (rule em_ok_next [OF ok j(1)])
    (use em_ok_job [OF ok j(1)] job_ok_op j(2) w in \<open>auto simp: em_job_ok_def\<close>)

lemma em_ok_release_send:
  assumes ok: "em_ok m" and j: "em_jobs m s = Some (J_release_send p st)"
  shows "em_ok (em_release_send s p st ready m)"
proof -
  have "em_ok (em_put s (Some (J_release_wait p st)) m)"
    by (rule em_ok_next [OF ok j]) (use em_ok_job [OF ok j] in \<open>auto simp: em_job_ok_def\<close>)
  then show ?thesis
    by (simp add: em_release_send_def em_ok_send em_ok_release_failed [OF ok j])
qed

lemma em_ok_release_reply:
  assumes ok: "em_ok m" and j: "em_jobs m s = Some (J_release_wait p st)"
  shows "em_ok (em_release_reply s p st answer m)"
proof -
  have "em_ok (em_put s (Some (J_release_done p st)) m)"
    by (rule em_ok_next [OF ok j]) (use em_ok_job [OF ok j] in \<open>auto simp: em_job_ok_def\<close>)
  then show ?thesis
    by (auto simp: em_release_reply_def em_ok_release_failed [OF ok j] split: outcome.split)
qed

lemma em_ok_release_done:
  assumes ok: "em_ok m" and j: "em_jobs m s = Some (J_release_done p st)"
  shows "em_ok (em_release_done s p st t m)"
proof (cases p)
  case (For_finish oid f)
  let ?m0 = "em_put s None (m\<lparr>em_ops := em_ops m - {oid}\<rparr>)"
  have ok0: "em_ok ?m0" by (rule em_ok_discard [OF ok j]) (use For_finish in simp_all)
  let ?m1 = "?m0\<lparr>em_arb := snd (arb_snapshot_of (now_sec t) (em_arb m))\<rparr>"
  have ok1: "em_ok ?m1" by (rule em_ok_arb [OF ok0]) (simp add: em_put_def)
  have eq: "em_put s None ((m\<lparr>em_ops := em_ops m - {oid}\<rparr>)\<lparr>em_arb := snd (arb_snapshot_of (now_sec t) (em_arb m))\<rparr>) = ?m1"
    by (simp add: em_put_def)
  show ?thesis
    using For_finish em_ok_end [OF ok1, of s "Some f"] em_ok_end [OF em_ok_send [OF ok1, of "Out_safety False '''' st"], of s "Some f"]
    by (simp add: split_def Let_def eq [symmetric] end_of_put put_send [symmetric])
next
  case (For_estop oid)
  have s: "s = Default" using em_ok_job [OF ok j] For_estop by (simp add: em_job_ok_def)
  have "state_ok False (em_ops m - {oid}) (em_fault m) (cmd_stamps (em_log m)) (em_next_op m) (em_clock m)
      (em_last_stamp m) ((em_jobs m)(Default := Some (J_publish_state None)))"
    by (rule state_ok_release(1)) (use ok j For_estop s in \<open>auto simp: em_ok_def\<close>)
  then show ?thesis
    using ok s For_estop by (simp add: em_ok_def em_end_def em_put_def em_send_def split_def)
qed

lemma em_ok_latch_fault:
  assumes ok: "em_ok m" and j: "em_jobs m s = Some (J_fault oid why f)"
  shows "em_ok (em_latch_fault s oid why f t m)"
proof (cases "oid \<in> em_ops m")
  case False
  with em_ok_end [OF ok] show ?thesis by (simp add: em_latch_fault_def)
next
  case True
  have w: "why \<noteq> ''''" using em_ok_job [OF ok j] by (simp add: em_job_ok_def)
  have "state_ok True (em_ops m) why (cmd_stamps (em_log m)) (em_next_op m) (em_clock m)
      (em_last_stamp m) ((em_jobs m)(s := Some (J_safety_stamp why (After_end f))))"
    by (rule state_ok_change [where ?j0.0 = "J_fault oid why f" and oid = oid])
      (use ok j w in \<open>auto simp: em_ok_def\<close>)
  with ok True show ?thesis
    by (simp add: em_latch_fault_def em_ok_def em_put_def split_def Let_def)
qed

lemma em_job_step_ok:
  assumes ok: "em_ok m" and j: "em_jobs m s = Some j" and st: "em_job_step s j i m = Some m'"
    and t: "\<And>t. i = I_time t \<Longrightarrow> em_clock m = t"
  shows "em_ok m'"
  using st j t
  by (cases "(s, j, i, m)" rule: em_job_step.cases)
    (auto split: if_splits
      intro: em_ok_safety_stamp em_ok_safety_emit em_ok_stop_send em_ok_stop_wait em_ok_stop_result
        em_ok_finish_check em_ok_release_stamp em_ok_release_send em_ok_release_reply em_ok_release_done
        em_ok_latch_fault em_ok_drop em_ok_publish_state ok)

lemma em_step_ok:
  assumes ok: "em_ok m" and st: "em_step e m = Some m'"
  shows "em_ok m'"
proof -
  define mm where "mm = (case event_time e of None \<Rightarrow> m | Some t \<Rightarrow> m\<lparr>em_clock := t\<rparr>)"
  have h: "em_handle e mm = Some m'" and g: "\<And>t. event_time e = Some t \<Longrightarrow> em_clock m \<le> t \<and> em_clock mm = t"
    using st by (auto simp: em_step_def mm_def split: option.splits if_splits)
  have ok1: "em_ok mm"
    using em_ok_clock [OF ok] g ok by (auto simp: mm_def split: option.split)
  show ?thesis
  proof (cases e)
    case (E_job s i)
    with h obtain j where j: "em_jobs mm s = Some j" "em_job_step s j i mm = Some m'" by (auto split: option.splits)
    show ?thesis by (rule em_job_step_ok [OF ok1 j]) (use g E_job in auto)
  next
    case (E_command src msg t0 t)
    then have "em_clock mm = t" using g by simp
    then show ?thesis using h E_command em_ok_handle_command [OF ok1] by (auto split: if_splits)
  qed (use h in \<open>auto split: if_splits
         intro: em_ok_handle_teleop_control em_ok_handle_task_control em_ok_handle_estop
           em_ok_handle_estop_release em_ok_handle_driver_state em_ok_handle_read em_ok_handle_stop
           em_ok_publish_state ok1\<close>)
qed

lemma em_init_ok: "em_ok (em_init a b c t)"
  by (simp add: em_init_def next_safety_stamp_def em_send_def em_ok_def state_ok_def owners_apart_def owned_def Let_def)

lemma em_reachable_ok: "em_reachable m \<Longrightarrow> em_ok m"
  by (induction rule: em_reachable.induct) (auto intro: em_init_ok em_step_ok)

section \<open>The arbiter inside the node\<close>

lemmas em_handler_defs = em_handle_command_def em_handle_teleop_control_def em_handle_task_control_def
  em_handle_estop_def em_handle_estop_release_def em_handle_driver_state_def em_publish_state_def
  em_validate_def em_handle_read_def em_handle_stop_def em_end_def em_stop_send_def em_stop_result_def
  em_finish_check_def em_release_failed_def em_release_reply_def em_latch_fault_def em_safety_stamp_def
  em_safety_emit_def em_release_stamp_def em_release_send_def em_register_def em_put_def em_send_def
  next_safety_stamp_def

lemmas em_splits = if_splits option.splits outcome.splits em_after.splits list.splits prod.splits

lemma arb_in_sections:
  "em_arb (em_put s jo m) = em_arb m" "em_arb (em_send x m) = em_arb m"
  "em_arb (em_end s f m) = em_arb m" "em_arb (snd (em_register m)) = em_arb m"
  "em_arb (snd (next_safety_stamp t m)) = em_arb m" "em_arb (em_safety_stamp s why after t m) = em_arb m"
  "em_arb (em_safety_emit s why st after m) = em_arb m" "em_arb (em_stop_send s oid ids obs ready read m) = em_arb m"
  "em_arb (em_stop_result s oid ids obs m) = em_arb m" "em_arb (em_release_stamp s p t m) = em_arb m"
  "em_arb (em_release_failed s p why m) = em_arb m" "em_arb (em_release_send s p st ready m) = em_arb m"
  "em_arb (em_release_reply s p st answer m) = em_arb m"
  by (auto simp: em_handler_defs Let_def split_def split: em_splits)

lemma em_job_step_arb:
  assumes "arb_ok (em_arb m)" "em_job_step s j i m = Some m'"
  shows "arb_ok (em_arb m')"
  using assms(2)
proof (cases "(s, j, i, m)" rule: em_job_step.cases)
  case (10 s p st t m)
  with assms show ?thesis
    by (cases p) (auto simp: split_def Let_def arb_in_sections intro: inv_rules)
qed (use assms in \<open>auto simp: arb_in_sections em_finish_check_def em_latch_fault_def em_publish_state_def split_def Let_def
     split: if_splits intro: inv_rules\<close>)

lemma em_step_arb:
  assumes "arb_ok (em_arb m)" "em_step e m = Some m'"
  shows "arb_ok (em_arb m')"
proof -
  define mm where "mm = (case event_time e of None \<Rightarrow> m | Some t \<Rightarrow> m\<lparr>em_clock := t\<rparr>)"
  have h: "em_handle e mm = Some m'" and ok: "arb_ok (em_arb mm)"
    using assms by (auto simp: em_step_def mm_def split: option.splits if_splits)
  show ?thesis
  proof (cases e)
    case (E_job s i)
    with h obtain j where "em_job_step s j i mm = Some m'" by (auto split: option.splits)
    from em_job_step_arb [OF ok this] show ?thesis .
  qed (use h ok in \<open>auto simp: em_handle_command_def em_handle_teleop_control_def em_handle_task_control_def
         em_handle_estop_def em_handle_estop_release_def em_handle_driver_state_def em_publish_state_def
         em_handle_read_def em_handle_stop_def em_validate_def arb_in_sections em_register_def arb_reject_ok refresh_mode_ok
         split_def Let_def split: if_splits intro: inv_rules\<close>)
qed

lemma em_reachable_arb: "em_reachable m \<Longrightarrow> arb_ok (em_arb m)"
proof (induction rule: em_reachable.induct)
  case (start a b c t)
  show ?case by (simp add: em_init_def next_safety_stamp_def em_send_def Let_def arb_init_ok)
qed (rule em_step_arb)

section \<open>What a section sends\<close>

text \<open>The outputs of a step, the newest first.\<close>

definition new_outputs :: "exec_manager \<Rightarrow> exec_manager \<Rightarrow> em_output list" where
  "new_outputs m m' = take (length (em_log m') - length (em_log m)) (em_log m')"

lemma log_lengths [simp]: "Suc n - n = Suc 0" "Suc (Suc n) - n = Suc (Suc 0)" for n :: nat
  by simp_all

definition em_free :: "exec_manager \<Rightarrow> bool" where
  "em_free m \<longleftrightarrow> \<not> estop_active (em_arb m) \<and> em_ops m = {} \<and> em_fault m = ''''"

lemma views [simp]:
  "em_log (em_put s jo m) = em_log m" "em_ops (em_put s jo m) = em_ops m" "em_fault (em_put s jo m) = em_fault m"
  "em_arb (em_put s jo m) = em_arb m" "em_jobs (em_put s jo m) = (em_jobs m)(s := jo)"
  "em_log (em_send x m) = x # em_log m" "em_ops (em_send x m) = em_ops m" "em_fault (em_send x m) = em_fault m"
  "em_arb (em_send x m) = em_arb m" "em_jobs (em_send x m) = em_jobs m"
  "em_ops (em_end s f m) = em_ops m" "em_fault (em_end s f m) = em_fault m" "em_arb (em_end s f m) = em_arb m"
  "em_log (em_end s f m) =
     (if s = Default then em_log m else case f of None \<Rightarrow> em_log m | Some a \<Rightarrow> Out_stop_response a # em_log m)"
  "em_log (snd (next_safety_stamp t m)) = em_log m" "em_fault (snd (next_safety_stamp t m)) = em_fault m"
  "em_log (snd (em_register m)) = em_log m" "em_fault (snd (em_register m)) = em_fault m"
  by (auto simp: em_put_def em_send_def em_end_def next_safety_stamp_def em_register_def Let_def split: option.split)

text \<open>No callback in progress sends a command; a released state is announced only by a free node.\<close>

fun quiet :: "em_output \<Rightarrow> bool" where
  "quiet (Out_command c) = False"
| "quiet (Out_safety active why st) = active"
| "quiet _ = True"

definition lawful :: "exec_manager \<Rightarrow> em_output \<Rightarrow> bool" where
  "lawful m x \<longleftrightarrow> quiet x \<or> (\<exists>why st. x = Out_safety False why st) \<and> em_free m"

lemma quiet_lawful [simp]: "quiet x \<Longrightarrow> lawful m x" "em_free m \<Longrightarrow> lawful m (Out_safety False why st)"
  by (auto simp: lawful_def)

lemma release_done_sends:
  assumes ok: "em_ok m" and j: "em_jobs m s = Some (J_release_done p st)"
  shows "list_all (lawful (em_release_done s p st t m)) (new_outputs m (em_release_done s p st t m))"
proof (cases p)
  case (For_finish oid f)
  then show ?thesis
    by (auto simp: split_def Let_def em_free_def new_outputs_def split: if_splits)
next
  case (For_estop oid)
  have "em_ops m = {oid}" "em_fault m = ''''"
    using em_ok_job [OF ok j] For_estop by (auto simp: em_job_ok_def)
  then show ?thesis
    using For_estop by (auto simp: new_outputs_def split_def Let_def em_free_def new_outputs_def split: option.split)
qed

lemma job_step_sends:
  assumes ok: "em_ok m" and j: "em_jobs m s = Some j" and st: "em_job_step s j i m = Some m'"
  shows "list_all (lawful m') (new_outputs m m')"
  using st
proof (cases "(s, j, i, m)" rule: em_job_step.cases)
  case (10 s p st t m)
  with st release_done_sends ok j show ?thesis by auto
qed (use st in \<open>auto simp: em_safety_stamp_def em_safety_emit_def em_stop_send_def em_stop_result_def
      em_finish_check_def em_release_stamp_def em_release_send_def em_release_reply_def em_release_failed_def
      em_latch_fault_def em_publish_state_def new_outputs_def split_def Let_def
    split: em_splits\<close>)

section \<open>Steps and runs\<close>

lemma receive_command_may:
  "ar_accepted (fst (receive_command_from src now r l st)) \<longleftrightarrow> may_command (owner_at now st) src (py_strip r) (py_strip l)"
  using command_rejection_owner [of src now r l "refresh_mode now st"]
  by (auto simp: receive_command_from_def Let_def)

lemma may_command_stopped: "may_command (owner_at now st) src r l \<Longrightarrow> \<not> estop_active st"
  by (auto simp: owner_at_def)

text \<open>What a command event sends: nothing, or the translated command while the owner admits it.\<close>

lemma command_sends:
  "new_outputs m (em_handle_command src msg t0 t m) =
     (if em_ops m = {} \<and> may_command (owner_at (now_sec t0) (em_arb m)) src
           (py_strip (mc_requester_id msg)) (py_strip (mc_lease_id msg))
      then [Out_command (to_servo_command (motion_command_to_setpoint msg) (ns_to_ros_time t))] else [])"
  by (auto simp: em_handle_command_def split_def Let_def new_outputs_def receive_command_may)

lemma quiet_handlers:
  "list_all quiet (new_outputs m (em_handle_teleop_control a r l fresh t0 m))"
  "list_all quiet (new_outputs m (em_handle_task_control a tid tr ses l fresh t0 m))"
  "list_all quiet (new_outputs m (em_handle_estop t m))"
  "list_all quiet (new_outputs m (em_handle_estop_release t m))"
  "list_all quiet (new_outputs m (em_handle_driver_state ss m))"
  "list_all quiet (new_outputs m (em_publish_state t m))"
  "list_all quiet (new_outputs m (em_handle_read t req ready answer exc m))"
  "list_all quiet (new_outputs m (em_handle_stop s t req m))"
  by (auto simp: em_handler_defs split_def Let_def new_outputs_def)

lemma step_sends:
  assumes ok: "em_ok m" and st: "em_step e m = Some m'" and x: "x \<in> set (new_outputs m m')"
  shows "lawful m' x \<or> (\<exists>src msg t0 t. e = E_command src msg t0 t \<and> em_ops m = {} \<and>
      may_command (owner_at (now_sec t0) (em_arb m)) src (py_strip (mc_requester_id msg)) (py_strip (mc_lease_id msg)) \<and>
      x = Out_command (to_servo_command (motion_command_to_setpoint msg) (ns_to_ros_time t)))"
proof -
  define mm where "mm = (case event_time e of None \<Rightarrow> m | Some t \<Rightarrow> m\<lparr>em_clock := t\<rparr>)"
  have h: "em_handle e mm = Some m'" and ok1: "em_ok mm"
    using st em_ok_clock [OF ok] ok by (auto simp: em_step_def mm_def split: option.splits if_splits)
  have same: "em_ops mm = em_ops m" "em_arb mm = em_arb m" "em_log mm = em_log m"
    by (auto simp: mm_def split: option.split)
  then have x1: "x \<in> set (new_outputs mm m')" using x by (simp add: new_outputs_def)
  show ?thesis
  proof (cases e)
    case (E_command src msg t0 t)
    with h have "m' = em_handle_command src msg t0 t mm" by (auto split: if_splits)
    with x1 E_command same show ?thesis by (auto simp: command_sends split: if_splits)
  next
    case (E_job s i)
    with h obtain j where "em_jobs mm s = Some j" "em_job_step s j i mm = Some m'" by (auto split: option.splits)
    from job_step_sends [OF ok1 this] x1 show ?thesis by (auto simp: list_all_iff)
  qed (use h x1 quiet_handlers in \<open>auto split: if_splits simp: list_all_iff intro: quiet_lawful\<close>)
qed

lemma step_fault:
  assumes ok: "em_ok m" and st: "em_step e m = Some m'" and f: "em_fault m \<noteq> ''''"
  shows "em_fault m' \<noteq> ''''"
proof -
  define mm where "mm = (case event_time e of None \<Rightarrow> m | Some t \<Rightarrow> m\<lparr>em_clock := t\<rparr>)"
  have h: "em_handle e mm = Some m'" and ok1: "em_ok mm"
    using st em_ok_clock [OF ok] ok by (auto simp: em_step_def mm_def split: option.splits if_splits)
  have f1: "em_fault mm \<noteq> ''''" using f by (simp add: mm_def split: option.split)
  show ?thesis
  proof (cases e)
    case (E_job s i)
    with h obtain j where j: "em_jobs mm s = Some j" "em_job_step s j i mm = Some m'" by (auto split: option.splits)
    show ?thesis using j(2)
    proof (cases "(s, j, i, mm)" rule: em_job_step.cases)
      case (10 s p st t m)
      with j(2) f1 show ?thesis by (cases p) (auto simp: split_def Let_def split: if_splits)
    next
      case (11 s oid why r t m)
      with j f1 em_ok_job [OF ok1 j(1)] show ?thesis
        by (auto simp: em_latch_fault_def em_job_ok_def split_def Let_def split: if_splits)
    qed (use j(2) f1 in \<open>auto simp: em_safety_stamp_def em_safety_emit_def em_stop_send_def em_stop_result_def
        em_finish_check_def em_release_stamp_def em_release_send_def em_release_reply_def em_release_failed_def
        em_publish_state_def split_def Let_def split: em_splits\<close>)
  qed (use h f1 in \<open>auto simp: em_handle_command_def em_handle_teleop_control_def em_handle_task_control_def
      em_handle_estop_def em_handle_estop_release_def em_handle_driver_state_def em_publish_state_def
      em_validate_def em_handle_read_def em_handle_stop_def em_register_def split_def Let_def split: if_splits\<close>)
qed

definition em_run :: "em_event list \<Rightarrow> exec_manager \<Rightarrow> exec_manager option" where
  "em_run es m = fold (\<lambda>e r. Option.bind r (em_step e)) es (Some m)"

lemma em_run_None [simp]: "fold (\<lambda>e r. Option.bind r (em_step e)) es None = None"
  by (induction es) simp_all

lemma em_run_simps [simp]:
  "em_run [] m = Some m"
  "em_run (e # es) m = (case em_step e m of None \<Rightarrow> None | Some m1 \<Rightarrow> em_run es m1)"
  by (simp_all add: em_run_def split: option.split)

lemma em_run_reachable: "em_reachable m \<Longrightarrow> em_run es m = Some m' \<Longrightarrow> em_reachable m'"
  by (induction es arbitrary: m) (auto split: option.splits intro: em_reachable.step)

lemma em_run_fault:
  "em_ok m \<Longrightarrow> em_fault m \<noteq> '''' \<Longrightarrow> em_run es m = Some m' \<Longrightarrow> em_ok m' \<and> em_fault m' \<noteq> ''''"
  by (induction es arbitrary: m) (auto split: option.splits dest: em_step_ok step_fault)

lemma covered_commands:
  "covered (xs @ Out_safety True why st # ys) \<Longrightarrow> Out_command c \<in> set ys \<Longrightarrow>
     0 < st \<and> ros_time_to_ns (sc_stamp c) \<le> st"
proof (induction xs)
  case Nil
  have "ros_time_to_ns (sc_stamp c) \<in> set (cmd_stamps zs)" if "Out_command c \<in> set zs" for zs
    using that by (induction zs rule: cmd_stamps.induct) auto
  with Nil show ?case by auto
next
  case (Cons x xs)
  have "covered (xs @ Out_safety True why st # ys)"
    using Cons.prems(1) by (cases "(x # xs @ Out_safety True why st # ys)" rule: covered.cases) auto
  with Cons show ?case by blast
qed
section \<open>Callbacks finish\<close>

text \<open>How many sections a callback still has, at most.\<close>

fun job_left :: "em_job \<Rightarrow> nat" where
  "job_left (J_publish_state w) = 1"
| "job_left (J_safety_emit why st (After_end f)) = 2"
| "job_left (J_safety_stamp why (After_end f)) = 3"
| "job_left (J_fault oid why f) = 4"
| "job_left (J_release_done p st) = 2"
| "job_left (J_release_wait p st) = 5"
| "job_left (J_release_send p st) = 6"
| "job_left (J_release_stamp p) = 7"
| "job_left (J_finish_check oid f) = 8"
| "job_left (J_stop_wait oid ids obs ob) = 8 + 2 * (length ids - length obs)"
| "job_left (J_stop oid ids obs) = 9 + 2 * (length ids - length obs)"
| "job_left (J_safety_emit why st (After_stop oid ids)) = 10 + 2 * length ids"
| "job_left (J_safety_stamp why (After_stop oid ids)) = 11 + 2 * length ids"

fun job_wf :: "em_job \<Rightarrow> bool" where
  "job_wf (J_stop oid ids obs) \<longleftrightarrow> length obs \<le> length ids"
| "job_wf (J_stop_wait oid ids obs ob) \<longleftrightarrow> length obs < length ids"
| "job_wf _ \<longleftrightarrow> True"

definition slot_left :: "exec_manager \<Rightarrow> em_slot \<Rightarrow> nat" where
  "slot_left m s = (case em_jobs m s of None \<Rightarrow> 0 | Some j \<Rightarrow> job_left j)"

definition jobs_wf :: "exec_manager \<Rightarrow> bool" where
  "jobs_wf m \<longleftrightarrow> (\<forall>s j. em_jobs m s = Some j \<longrightarrow> job_wf j)"

lemma job_views [simp]:
  "em_jobs (em_end s f m) = (em_jobs m)(s := (if s = Default then Some (J_publish_state None) else None))"
  "em_jobs (snd (next_safety_stamp t m)) = em_jobs m" "em_jobs (snd (em_register m)) = em_jobs m"
  by (auto simp: em_end_def next_safety_stamp_def em_register_def Let_def split: option.split)

text \<open>What a section of a callback does to its own slot.\<close>

definition slot_step :: "em_slot \<Rightarrow> em_job \<Rightarrow> exec_manager \<Rightarrow> exec_manager \<Rightarrow> bool" where
  "slot_step s j m m' \<longleftrightarrow> (\<exists>jo. em_jobs m' = (em_jobs m)(s := jo) \<and>
     (\<forall>j'. jo = Some j' \<longrightarrow> job_wf j' \<and> job_left j' < job_left j))"

lemma slot_stepI:
  "em_jobs m' = (em_jobs m)(s := jo) \<Longrightarrow> (\<And>j'. jo = Some j' \<Longrightarrow> job_wf j' \<and> job_left j' < job_left j) \<Longrightarrow>
     slot_step s j m m'"
  unfolding slot_step_def by blast

lemma after_left [simp]: "job_left (J_safety_emit why st after) < job_left (J_safety_stamp why' after)"
  "3 \<le> job_left (J_safety_stamp why' after)" "2 \<le> job_left (J_safety_emit why st after)"
  by (cases after; simp)+

lemma job_step_slot:
  assumes "em_job_step s j i m = Some m'" "job_wf j"
  shows "slot_step s j m m'"
  using assms
proof (cases "(s, j, i, m)" rule: em_job_step.cases)
  case (3 s oid ids obs ready read m)
  with assms show ?thesis
    by (auto simp: em_stop_send_def Let_def split: list.splits prod.splits if_splits intro!: slot_stepI)
next
  case (10 s p st t m)
  with assms show ?thesis
    by (cases p) (auto simp: split_def Let_def split: if_splits intro!: slot_stepI)
qed (auto simp: em_safety_stamp_def em_safety_emit_def em_stop_result_def
      em_finish_check_def em_release_stamp_def em_release_send_def em_release_reply_def em_release_failed_def
      em_latch_fault_def em_publish_state_def split_def Let_def
    split: if_splits outcome.splits em_after.splits intro!: slot_stepI)

text \<open>A handler leaves a slot alone, or starts a callback in it when it is idle.\<close>

lemma handler_slots:
  assumes "em_handle e m = Some m'" "\<And>s i. e \<noteq> E_job s i"
  shows "em_jobs m' s = em_jobs m s \<or> em_jobs m s = None \<and> (\<forall>j. em_jobs m' s = Some j \<longrightarrow> job_wf j)"
  using assms
  by (cases e) (auto simp: em_handle_command_def em_handle_teleop_control_def em_handle_task_control_def
      em_handle_estop_def em_handle_estop_release_def em_handle_driver_state_def em_publish_state_def
      em_validate_def em_handle_read_def em_handle_stop_def em_register_def split_def Let_def split: if_splits)

lemma step_slots:
  assumes wf: "jobs_wf m" and st: "em_step e m = Some m'"
  shows "jobs_wf m'" "em_jobs m s = Some j \<Longrightarrow> if \<exists>i. e = E_job s i then slot_left m' s < slot_left m s else em_jobs m' s = Some j"
proof -
  define mm where "mm = (case event_time e of None \<Rightarrow> m | Some t \<Rightarrow> m\<lparr>em_clock := t\<rparr>)"
  have h: "em_handle e mm = Some m'" using st by (auto simp: em_step_def mm_def split: option.splits if_splits)
  have same: "em_jobs mm = em_jobs m" by (simp add: mm_def split: option.split)
  have "jobs_wf m' \<and> (em_jobs m s = Some j \<longrightarrow>
      (if \<exists>i. e = E_job s i then slot_left m' s < slot_left m s else em_jobs m' s = Some j))" for s j
  proof (cases "\<exists>s' i. e = E_job s' i")
    case True
    then obtain s' i where e: "e = E_job s' i" by blast
    with h same obtain j' where j': "em_jobs m s' = Some j'" "em_job_step s' j' i mm = Some m'"
      by (auto split: option.splits)
    with wf have "job_wf j'" by (simp add: jobs_wf_def)
    from job_step_slot [OF j'(2) this] obtain jo where jo: "em_jobs m' = (em_jobs m)(s' := jo)"
      "\<And>k. jo = Some k \<Longrightarrow> job_wf k \<and> job_left k < job_left j'"
      unfolding slot_step_def same by blast
    have "jobs_wf m'" using wf jo by (auto simp: jobs_wf_def split: if_splits)
    moreover have "0 < job_left j'" by (cases j' rule: job_left.cases) auto
    then have "slot_left m' s' < slot_left m s'" using jo j'(1) by (cases jo) (auto simp: slot_left_def)
    ultimately show ?thesis using jo(1) e by auto
  next
    case False
    then have n: "\<And>s i. e \<noteq> E_job s i" by blast
    have *: "em_jobs m' s = em_jobs m s \<or> em_jobs m s = None \<and> (\<forall>j. em_jobs m' s = Some j \<longrightarrow> job_wf j)" for s
      using handler_slots [OF h n, of s] same by simp
    have "jobs_wf m'" unfolding jobs_wf_def using * wf [unfolded jobs_wf_def] by metis
    with * [of s] n show ?thesis by auto
  qed
  then show "jobs_wf m'" "em_jobs m s = Some j \<Longrightarrow> if \<exists>i. e = E_job s i then slot_left m' s < slot_left m s else em_jobs m' s = Some j"
    by blast+
qed

lemma em_reachable_wf: "em_reachable m \<Longrightarrow> jobs_wf m"
proof (induction rule: em_reachable.induct)
  case (start a b c t)
  show ?case by (simp add: em_init_def next_safety_stamp_def em_send_def jobs_wf_def Let_def)
qed (rule step_slots(1))

text \<open>A callback in progress is never stuck: some input lets it go on.\<close>

lemma job_enabled:
  assumes "em_jobs m s = Some j" "job_wf j"
  shows "\<exists>i m'. em_step (E_job s i) m = Some m'"
proof -
  have go: "\<exists>i m'. em_step (E_job s i) m = Some m'" if "em_job_step s j i m \<noteq> None" "\<And>t. i \<noteq> I_time t" for i
    using that assms(1) by (intro exI [of _ i]) (cases i; auto simp: em_step_def)
  have timed: "\<exists>i m'. em_step (E_job s i) m = Some m'" if "em_job_step s j (I_time (em_clock m)) m \<noteq> None"
    using that assms(1) by (intro exI [of _ "I_time (em_clock m)"]) (auto simp: em_step_def)
  show ?thesis
  proof (cases j)
    case (J_stop oid ids obs)
    show ?thesis
    proof (cases "length obs < length ids")
      case True
      with J_stop show ?thesis by (intro go [of "I_read False O_timeout"]) auto
    next
      case False
      with J_stop assms(2) show ?thesis by (intro go [of I_go]) auto
    qed
  next
    case (J_publish_state w)
    then show ?thesis by (cases w) (rule timed, simp, rule go [of I_go], auto)
  next
    case (J_safety_emit why st after)
    then show ?thesis by (intro go [of I_go]) auto
  next
    case (J_stop_wait oid ids obs ob)
    then show ?thesis by (intro go [of "I_execute O_timeout"]) auto
  next
    case (J_release_send p st)
    then show ?thesis by (intro go [of "I_ready False"]) auto
  next
    case (J_release_wait p st)
    then show ?thesis by (intro go [of "I_reply O_timeout"]) auto
  qed (auto intro!: timed)
qed
section \<open>Concrete runs\<close>

definition sec_ns :: "int \<Rightarrow> int" where
  "sec_ns n = n * 1000000000"

definition demo_stop_request :: task_request where
  "demo_stop_request = \<lparr>tq_actuator_type = ''bus'', tq_actuator_ids = [1], tq_task_id = ''t'',
     tq_trace_id = ''tr'', tq_session_id = ''s'', tq_lease_id = ''L''\<rparr>"

definition demo_command :: motion_command where
  "demo_command = \<lparr>mc_servo_type = ''bus'', mc_servo_id = 1, mc_position = 600, mc_value_encoding = '''',
     mc_duration_ms = 100, mc_requester_id = ''t'', mc_lease_id = ''L''\<rparr>"

definition demo_start_events :: "em_event list" where
  "demo_start_events =
     [E_task_control ''start'' ''t'' ''tr'' ''s'' '''' ''L'' (sec_ns 1), E_job Default I_go]"

definition demo_em :: exec_manager where
  "demo_em = the (em_run demo_start_events (em_init 1 1 5 0))"

text \<open>A stop of servo 1 up to the answer of its driver, in callback \<open>s\<close> at second \<open>t\<close>.\<close>

definition stop_sections :: "em_slot \<Rightarrow> int \<Rightarrow> em_event list" where
  "stop_sections s t = map (E_job s) [I_time (sec_ns t), I_go, I_read True (O_reply (True, ''lx'')),
     I_execute (O_reply True), I_go, I_time (sec_ns t)]"

text \<open>
  A stop service has written its stop and found nothing else pending, when an emergency stop is
  handled to its end; then the service takes its release stamp and sends its release.
\<close>

definition race_events :: "em_event list" where
  "race_events = demo_start_events @
     [E_command Src_task demo_command (sec_ns 1) (sec_ns 1), E_job Default I_go,
      E_stop 0 demo_stop_request (sec_ns 2)] @ stop_sections (Service 0) 3 @
     [E_estop True (sec_ns 4)] @ stop_sections Default 5 @ [E_job Default (I_time (sec_ns 5))] @
     map (E_job (Service 0)) [I_time (sec_ns 6), I_ready True, I_reply (O_reply True), I_time (sec_ns 7)]"

definition race_end :: exec_manager where
  "race_end = the (em_run race_events (em_init 1 1 5 0))"

text \<open>A stop service whose driver is not available.\<close>

definition fault_events :: "em_event list" where
  "fault_events = demo_start_events @ [E_stop 0 demo_stop_request (sec_ns 2)] @
     map (E_job (Service 0)) [I_time (sec_ns 3), I_go, I_read False O_timeout, I_go, I_time (sec_ns 4)]"

definition fault_end :: exec_manager where
  "fault_end = the (em_run fault_events (em_init 1 1 5 0))"

lemma demo_runs: "\<not> Option.is_none (em_run demo_start_events (em_init 1 1 5 0))"
  "\<not> Option.is_none (em_run race_events (em_init 1 1 5 0))"
  "\<not> Option.is_none (em_run fault_events (em_init 1 1 5 0))"
  by code_simp+

lemma run_end_reachable:
  "\<not> Option.is_none (em_run es (em_init a b c t)) \<Longrightarrow> em_reachable (the (em_run es (em_init a b c t)))"
  using em_run_reachable [OF em_reachable.start] by (auto simp: is_none_simps Option.is_none_def)

text \<open>Readers of the log, for evaluation.\<close>

fun active_state :: "em_output \<Rightarrow> (string \<times> int) option" where
  "active_state (Out_safety True why st) = Some (why, st)"
| "active_state _ = None"

fun sent_command :: "em_output \<Rightarrow> servo_command option" where
  "sent_command (Out_command c) = Some c"
| "sent_command _ = None"

lemma log_readers:
  "active_state x = Some (why, st) \<longleftrightarrow> x = Out_safety True why st"
  "sent_command x = Some c \<longleftrightarrow> x = Out_command c"
  by (cases x rule: active_state.cases; simp; fail)+

lemma split_log:
  "n < length xs \<Longrightarrow> active_state (xs ! n) = Some (why, st) \<Longrightarrow>
     xs = take n xs @ Out_safety True why st # drop (Suc n) xs"
  using id_take_nth_drop [of n xs] by (simp add: log_readers)

lemma demo_reachable: "em_reachable demo_em" "em_reachable race_end" "em_reachable fault_end"
  using demo_runs [THEN run_end_reachable] by (simp_all add: demo_em_def race_end_def fault_end_def)

section \<open>Properties\<close>

text \<open>
  C2: The node sends a motion command to the drivers only in answer to a command event that the
  present owner of the robot admits, and only while no emergency stop is active, no stop operation
  is pending and no stop fault is latched; the command sent is the translation of the received one
  with the node's own clock reading as its stamp.
\<close>

theorem commands_need_free_node:
  assumes "em_reachable m" "em_step e m = Some m'" "Out_command c \<in> set (new_outputs m m')"
  shows "em_free m \<and> (\<exists>src msg t0 t. e = E_command src msg t0 t \<and>
    may_command (owner_at (now_sec t0) (em_arb m)) src (py_strip (mc_requester_id msg)) (py_strip (mc_lease_id msg)) \<and>
    c = to_servo_command (motion_command_to_setpoint msg) (ns_to_ros_time t))"
proof -
  have "\<not> lawful m' (Out_command c)" by (simp add: lawful_def)
  with step_sends [OF em_reachable_ok [OF assms(1)] assms(2,3)]
  obtain src msg t0 t where h: "e = E_command src msg t0 t" "em_ops m = {}"
    "may_command (owner_at (now_sec t0) (em_arb m)) src (py_strip (mc_requester_id msg)) (py_strip (mc_lease_id msg))"
    "c = to_servo_command (motion_command_to_setpoint msg) (ns_to_ros_time t)" by blast
  moreover have "\<not> estop_active (em_arb m)" by (rule may_command_stopped [OF h(3)])
  ultimately show ?thesis
    using em_ok_fields(2) [OF em_reachable_ok [OF assms(1)]] by (auto simp: em_free_def)
qed

text \<open>
  Every active safety state the node publishes - for an emergency stop, a stop operation or a
  stop fault - carries a positive stamp that is not older than any motion command sent before it,
  whatever the interleaving of callbacks between taking the stamp and publishing it.
\<close>

theorem active_state_covers_commands:
  assumes "em_reachable m" "em_log m = xs @ Out_safety True why st # ys" "Out_command c \<in> set ys"
  shows "0 < st \<and> ros_time_to_ns (sc_stamp c) \<le> st"
  using em_reachable_ok [OF assms(1)] covered_commands [of xs why st ys c] assms(2,3) by (simp add: em_ok_def)

text \<open>
  The node announces that no stop is in force only when that is true at that moment: no
  emergency stop, no pending stop operation and no latched fault.
\<close>

theorem release_announced_when_free:
  assumes "em_reachable m" "em_step e m = Some m'" "Out_safety False why st \<in> set (new_outputs m m')"
  shows "em_free m'"
  using step_sends [OF em_reachable_ok [OF assms(1)] assms(2,3)] by (auto simp: lawful_def)

text \<open>
  C3: A latched stop fault holds the emergency stop for good: whatever happens after it, releases
  included, the fault stays latched, the emergency stop stays active and no command is sent.
\<close>

theorem stop_fault_is_permanent:
  assumes "em_reachable m" "em_fault m \<noteq> ''''" "em_run es m = Some m'" "em_step e m' = Some m2"
  shows "em_fault m' \<noteq> '''' \<and> estop_active (em_arb m') \<and> Out_command c \<notin> set (new_outputs m' m2)"
proof -
  have ok: "em_ok m'" "em_fault m' \<noteq> ''''" using em_run_fault [OF em_reachable_ok [OF assms(1)] assms(2,3)] by auto
  then have e: "estop_active (em_arb m')" by (rule em_ok_fields(2))
  have "\<not> lawful m2 (Out_command c)" by (simp add: lawful_def)
  with step_sends [OF ok(1) assms(4)] e may_command_stopped have "Out_command c \<notin> set (new_outputs m' m2)" by blast
  with ok e show ?thesis by blast
qed


subsection \<open>Witnesses\<close>

lemma the_step: "\<not> Option.is_none r \<Longrightarrow> r = Some (the r)"
  by (cases r) simp_all

theorem commands_need_free_node_witness:
  "em_free demo_em \<and> Out_command (to_servo_command (motion_command_to_setpoint demo_command) (ns_to_ros_time (sec_ns 2)))
     \<in> set (new_outputs demo_em (the (em_step (E_command Src_task demo_command (sec_ns 2) (sec_ns 2)) demo_em)))"
proof -
  let ?e = "E_command Src_task demo_command (sec_ns 2) (sec_ns 2)"
  let ?c = "to_servo_command (motion_command_to_setpoint demo_command) (ns_to_ros_time (sec_ns 2))"
  have st: "\<not> Option.is_none (em_step ?e demo_em)"
    "list_ex (\<lambda>x. sent_command x = Some ?c) (new_outputs demo_em (the (em_step ?e demo_em)))" by code_simp+
  then have x: "Out_command ?c \<in> set (new_outputs demo_em (the (em_step ?e demo_em)))"
    by (auto simp: list_ex_iff log_readers)
  from commands_need_free_node [OF demo_reachable(1) the_step [OF st(1)] x] x show ?thesis by blast
qed

lemma race_command:
  "em_log race_end = take 4 (em_log race_end) @ Out_safety True ''estop'' (sec_ns 5) # drop (Suc 4) (em_log race_end)"
  "\<exists>c. Out_command c \<in> set (drop (Suc 4) (em_log race_end)) \<and> sc_stamp c = ns_to_ros_time (sec_ns 1)"
proof -
  have f: "4 < length (em_log race_end)" "active_state (em_log race_end ! 4) = Some (''estop'', sec_ns 5)"
    "list_ex (\<lambda>x. map_option sc_stamp (sent_command x) = Some (ns_to_ros_time (sec_ns 1))) (drop (Suc 4) (em_log race_end))"
    by code_simp+
  from split_log [OF f(1,2)] show "em_log race_end = take 4 (em_log race_end) @ Out_safety True ''estop'' (sec_ns 5) # drop (Suc 4) (em_log race_end)" .
  from f(3) show "\<exists>c. Out_command c \<in> set (drop (Suc 4) (em_log race_end)) \<and> sc_stamp c = ns_to_ros_time (sec_ns 1)"
    by (auto simp: list_ex_iff log_readers)
qed

theorem active_state_covers_commands_witness:
  "\<exists>c. Out_command c \<in> set (em_log race_end) \<and> ros_time_to_ns (sc_stamp c) \<le> sec_ns 5"
proof -
  obtain c where c: "Out_command c \<in> set (drop (Suc 4) (em_log race_end))" using race_command(2) by blast
  from active_state_covers_commands [OF demo_reachable(2) race_command(1) c] in_set_dropD [OF c] show ?thesis by blast
qed

text \<open>The stop service of \<open>race_events\<close> with no emergency stop in between, up to its last section.\<close>

definition granted_events :: "em_event list" where
  "granted_events = demo_start_events @ [E_stop 0 demo_stop_request (sec_ns 2)] @ stop_sections (Service 0) 3 @
     map (E_job (Service 0)) [I_time (sec_ns 4), I_ready True, I_reply (O_reply True)]"

definition granted_em :: exec_manager where
  "granted_em = the (em_run granted_events (em_init 1 1 5 0))"

lemma inactive_found:
  assumes "list_ex (\<lambda>x. case x of Out_safety active w t \<Rightarrow> \<not> active \<and> w = why \<and> t = st | _ \<Rightarrow> False) xs"
  shows "Out_safety False why st \<in> set xs"
proof -
  obtain x where x: "x \<in> set xs" "case x of Out_safety active w t \<Rightarrow> \<not> active \<and> w = why \<and> t = st | _ \<Rightarrow> False"
    using assms unfolding list_ex_iff by blast
  from x(2) have "x = Out_safety False why st" by (cases x) auto
  with x(1) show ?thesis by simp
qed

theorem release_announced_when_free_witness:
  "em_free (the (em_step (E_job (Service 0) (I_time (sec_ns 5))) granted_em))"
proof -
  let ?e = "E_job (Service 0) (I_time (sec_ns 5))"
  have f: "\<not> Option.is_none (em_run granted_events (em_init 1 1 5 0))"
    "\<not> Option.is_none (em_step ?e granted_em)"
    "list_ex (\<lambda>x. case x of Out_safety active why st \<Rightarrow> \<not> active \<and> why = [] \<and> st = sec_ns 4 | _ \<Rightarrow> False)
       (new_outputs granted_em (the (em_step ?e granted_em)))" by code_simp+
  have x: "Out_safety False [] (sec_ns 4) \<in> set (new_outputs granted_em (the (em_step ?e granted_em)))"
    by (rule inactive_found [OF f(3)])
  show ?thesis
    by (rule release_announced_when_free [OF run_end_reachable [OF f(1), folded granted_em_def] the_step [OF f(2)] x])
qed

theorem stop_fault_is_permanent_witness:
  "estop_active (em_arb (the (em_run (map (E_job (Service 0)) [I_time (sec_ns 5), I_go] @
      [E_estop False (sec_ns 6), E_job Default (I_time (sec_ns 6))]) fault_end)))"
proof -
  let ?es = "map (E_job (Service 0)) [I_time (sec_ns 5), I_go] @ [E_estop False (sec_ns 6), E_job Default (I_time (sec_ns 6))]"
  let ?m = "the (em_run ?es fault_end)"
  let ?e = "E_command Src_task demo_command (sec_ns 7) (sec_ns 7)"
  have f: "em_fault fault_end \<noteq> []" "\<not> Option.is_none (em_run ?es fault_end)" "\<not> Option.is_none (em_step ?e ?m)"
    by code_simp+
  show ?thesis using stop_fault_is_permanent [OF demo_reachable(3) f(1) the_step [OF f(2)] the_step [OF f(3)]] by blast
qed


section \<open>Slots\<close>

text \<open>The slot an event runs in.\<close>

fun event_slot :: "em_event \<Rightarrow> em_slot" where
  "event_slot (E_job s i) = s"
| "event_slot (E_stop n req t) = Service n"
| "event_slot _ = Default"

lemma step_other_slot:
  assumes wf: "jobs_wf m" and st: "em_step e m = Some m'" and s: "event_slot e \<noteq> s"
  shows "em_jobs m' s = em_jobs m s"
proof -
  define mm where "mm = (case event_time e of None \<Rightarrow> m | Some t \<Rightarrow> m\<lparr>em_clock := t\<rparr>)"
  have h: "em_handle e mm = Some m'" using st by (auto simp: em_step_def mm_def split: option.splits if_splits)
  have same: "em_jobs mm = em_jobs m" by (simp add: mm_def split: option.split)
  show ?thesis
  proof (cases e)
    case (E_job s' i)
    with h same obtain j where j: "em_jobs m s' = Some j" "em_job_step s' j i mm = Some m'" by (auto split: option.splits)
    with wf have "job_wf j" by (simp add: jobs_wf_def)
    from job_step_slot [OF j(2) this] s E_job show ?thesis by (auto simp: slot_step_def same)
  qed (use h s in \<open>auto simp: same [symmetric] em_handle_command_def em_handle_teleop_control_def em_handle_task_control_def
      em_handle_estop_def em_handle_estop_release_def em_handle_driver_state_def em_publish_state_def
      em_validate_def em_handle_read_def em_handle_stop_def em_register_def split_def Let_def split: if_splits\<close>)
qed

lemma run_other_slot:
  "jobs_wf m \<Longrightarrow> em_run es m = Some m' \<Longrightarrow> list_all (\<lambda>e. event_slot e \<noteq> s) es \<Longrightarrow> em_jobs m' s = em_jobs m s"
proof (induction es arbitrary: m)
  case (Cons e es)
  then obtain m1 where m1: "em_step e m = Some m1" "em_run es m1 = Some m'" by (auto split: option.splits)
  from Cons.IH [OF step_slots(1) [OF Cons.prems(1) m1(1)] m1(2)] step_other_slot [OF Cons.prems(1) m1(1)] Cons.prems(3)
  show ?case by simp
qed simp

lemma race_idle: "em_jobs race_end s = None"
proof (cases "s = Default \<or> s = Service 0")
  case True
  moreover have "Option.is_none (em_jobs race_end Default)" "Option.is_none (em_jobs race_end (Service 0))" by code_simp+
  ultimately show ?thesis by (auto simp: Option.is_none_def)
next
  case False
  have wf: "jobs_wf (em_init 1 1 5 0)" by (rule em_reachable_wf [OF em_reachable.start])
  have r: "em_run race_events (em_init 1 1 5 0) = Some race_end"
    unfolding race_end_def by (rule the_step [OF demo_runs(2)])
  have "list_all (\<lambda>e. event_slot e \<noteq> s) race_events"
    using False by (auto simp: race_events_def demo_start_events_def stop_sections_def)
  from run_other_slot [OF wf r this] show ?thesis
    by (simp add: em_init_def next_safety_stamp_def em_send_def Let_def)
qed

end
