(* ===== verification/LX_Protocol.thy ===== *)
theory LX_Protocol
  imports Servo_Protocol
begin

unbundle bit_operations_syntax

text \<open>
  The binary servo protocol of \<open>servo_hardware/protocols/lx_protocol.py\<close>: frames
  \<open>55 55 id length cmd params checksum\<close>, little-endian parameters. Wire bytes are \<open>8 word\<close>;
  the integers the encoders receive and the decoders return are Python ints. The generator
  \<open>_iter_valid_packets\<close> is the list of what it yields, its index the suffix still unread.
\<close>

section \<open>Bytes and halfwords\<close>

definition lx_u8 :: "int \<Rightarrow> 8 word" where
  "lx_u8 value = word_of_int value"

text \<open>The checksum adds bytes modulo 256 and complements: \<open>~sum & 0xFF\<close>.\<close>

definition compute_checksum :: "bytes \<Rightarrow> 8 word" where
  "compute_checksum data = NOT (sum_list data)"

definition split_u16 :: "int \<Rightarrow> int \<times> int" where
  "split_u16 value =
     (let raw = value AND 0xFFFF in (raw AND 0xFF, drop_bit 8 raw AND 0xFF))"

definition join_u16 :: "int \<Rightarrow> int \<Rightarrow> int" where
  "join_u16 low high = push_bit 8 (high AND 0xFF) OR (low AND 0xFF)"

definition u16_to_i16 :: "int \<Rightarrow> int" where
  "u16_to_i16 value = (let raw = value AND 0xFFFF in if 0x8000 \<le> raw then raw - 0x10000 else raw)"

definition i16_to_u16 :: "int \<Rightarrow> int" where
  "i16_to_u16 value =
     (let v1 = (if value < -32768 then -32768 else value);
          v2 = (if v1 > 32767 then 32767 else v1)
      in v2 AND 0xFFFF)"

section \<open>Frames\<close>

text \<open>\<open>bytes([...])\<close> raises when the length does not fit a byte.\<close>

definition build_packet :: "int \<Rightarrow> int \<Rightarrow> int list \<Rightarrow> bytes result" where
  "build_packet servo_id cmd params =
     (let sid = clamp 0 253 servo_id;
          payload = map lx_u8 params;
          len = 3 + length payload;
          body = word_of_int sid # of_nat len # word_of_int cmd # payload
      in if 255 < len then Inl (ValueError ''bytes must be in range(0, 256)'')
         else Inr (0x55 # 0x55 # body @ [compute_checksum body]))"

definition build_read_packet :: "int \<Rightarrow> int \<Rightarrow> bytes result" where
  "build_read_packet servo_id cmd = build_packet servo_id cmd []"

type_synonym packet = "8 word \<times> 8 word \<times> bytes"

function iter_valid_packets :: "bytes \<Rightarrow> packet list" where
  "iter_valid_packets data =
     (if length data < 6 then []
      else if data ! 0 \<noteq> 0x55 \<or> data ! 1 \<noteq> 0x55 then iter_valid_packets (drop 1 data)
      else let total = unat (data ! 3) + 3
           in if total < 6 then iter_valid_packets (drop 1 data)
              else if length data < total then []
              else let frame = take total data;
                       more = iter_valid_packets (drop total data)
                   in if last frame = compute_checksum (butlast (drop 2 frame))
                      then (frame ! 2, frame ! 4, butlast (drop 5 frame)) # more
                      else more)"
  by pat_completeness auto
termination by (relation "measure length") auto

declare iter_valid_packets.simps [simp del]

text \<open>The first packet with the command, the id (when one is expected) and enough parameters.\<close>

fun first_match :: "packet list \<Rightarrow> int \<Rightarrow> int option \<Rightarrow> nat \<Rightarrow> (8 word \<times> bytes) option" where
  "first_match [] cmd expected min_len = None"
| "first_match ((sid, packet_cmd, params) # ps) cmd expected min_len =
     (if uint packet_cmd \<noteq> cmd then first_match ps cmd expected min_len
      else if expected \<noteq> None \<and> expected \<noteq> Some (uint sid) then first_match ps cmd expected min_len
      else if length params < min_len then first_match ps cmd expected min_len
      else Some (sid, params))"

definition first_params :: "bytes \<Rightarrow> int \<Rightarrow> int option \<Rightarrow> nat \<Rightarrow> (8 word \<times> bytes) option" where
  "first_params data cmd expected min_len = first_match (iter_valid_packets data) cmd expected min_len"

section \<open>Write commands\<close>

definition u16_params :: "int \<Rightarrow> int list" where
  "u16_params v = (let (low, high) = split_u16 v in [low, high])"

definition truth :: "int \<Rightarrow> int" where
  "truth v = (if v \<noteq> 0 then 1 else 0)"

definition encode_move_time_write :: "int \<Rightarrow> int \<Rightarrow> int \<Rightarrow> bytes result" where
  "encode_move_time_write servo_id position time_ms =
     build_packet servo_id 0x01 (u16_params (clamp 0 1000 position) @ u16_params (clamp 0 30000 time_ms))"

definition encode_move_time_wait_write :: "int \<Rightarrow> int \<Rightarrow> int \<Rightarrow> bytes result" where
  "encode_move_time_wait_write servo_id position time_ms =
     build_packet servo_id 0x07 (u16_params (clamp 0 1000 position) @ u16_params (clamp 0 30000 time_ms))"

definition encode_move_start :: "int \<Rightarrow> bytes result" where
  "encode_move_start servo_id = build_packet servo_id 0x0B []"

definition encode_move_stop :: "int \<Rightarrow> bytes result" where
  "encode_move_stop servo_id = build_packet servo_id 0x0C []"

definition encode_id_write :: "int \<Rightarrow> int \<Rightarrow> bytes result" where
  "encode_id_write servo_id new_id = build_packet servo_id 0x0D [clamp 0 253 new_id]"

definition encode_angle_offset_adjust :: "int \<Rightarrow> int \<Rightarrow> bytes result" where
  "encode_angle_offset_adjust servo_id offset =
     build_packet servo_id 0x11 [clamp (-125) 125 offset AND 0xFF]"

definition encode_angle_offset_write :: "int \<Rightarrow> bytes result" where
  "encode_angle_offset_write servo_id = build_packet servo_id 0x12 []"

definition encode_angle_limit_write :: "int \<Rightarrow> int \<Rightarrow> int \<Rightarrow> bytes result" where
  "encode_angle_limit_write servo_id min_pos max_pos =
     (let a = clamp 0 1000 min_pos; b = clamp 0 1000 max_pos;
          (lo, hi) = (if b < a then (b, a) else (a, b))
      in build_packet servo_id 0x14 (u16_params lo @ u16_params hi))"

definition encode_vin_limit_write :: "int \<Rightarrow> int \<Rightarrow> int \<Rightarrow> bytes result" where
  "encode_vin_limit_write servo_id min_mv max_mv =
     (let a = clamp 4500 14000 min_mv; b = clamp 4500 14000 max_mv;
          (lo, hi) = (if b < a then (b, a) else (a, b))
      in build_packet servo_id 0x16 (u16_params lo @ u16_params hi))"

definition encode_temp_max_limit_write :: "int \<Rightarrow> int \<Rightarrow> bytes result" where
  "encode_temp_max_limit_write servo_id temp_c = build_packet servo_id 0x18 [clamp 50 100 temp_c]"

definition encode_or_motor_mode_write :: "int \<Rightarrow> int \<Rightarrow> int \<Rightarrow> int \<Rightarrow> bytes result" where
  "encode_or_motor_mode_write servo_id mode drive_mode speed =
     build_packet servo_id 0x1D ([truth mode, truth drive_mode] @ u16_params (i16_to_u16 speed))"

definition encode_load_or_unload_write :: "int \<Rightarrow> int \<Rightarrow> bytes result" where
  "encode_load_or_unload_write servo_id load = build_packet servo_id 0x1F [truth load]"

definition encode_torque_restore :: "int \<Rightarrow> bytes result" where
  "encode_torque_restore servo_id = encode_load_or_unload_write servo_id 1"

definition encode_torque_release :: "int \<Rightarrow> bytes result" where
  "encode_torque_release servo_id = encode_load_or_unload_write servo_id 0"

definition encode_torque_switch_compat_write :: "int \<Rightarrow> int \<Rightarrow> bytes result" where
  "encode_torque_switch_compat_write servo_id load = build_packet servo_id 0x1E [truth load]"

definition encode_torque_restore_compat :: "int \<Rightarrow> bytes result" where
  "encode_torque_restore_compat servo_id = encode_torque_switch_compat_write servo_id 1"

definition encode_torque_release_compat :: "int \<Rightarrow> bytes result" where
  "encode_torque_release_compat servo_id = encode_torque_switch_compat_write servo_id 0"

definition encode_led_ctrl_write :: "int \<Rightarrow> int \<Rightarrow> bytes result" where
  "encode_led_ctrl_write servo_id led_off = build_packet servo_id 0x21 [truth led_off]"

definition encode_led_error_write :: "int \<Rightarrow> int \<Rightarrow> bytes result" where
  "encode_led_error_write servo_id led_mask = build_packet servo_id 0x23 [clamp 0 7 led_mask]"

definition lx_encode_move_command :: "int \<Rightarrow> int \<Rightarrow> int \<Rightarrow> bytes result" where
  "lx_encode_move_command servo_id position speed = encode_move_time_write servo_id position speed"

section \<open>Read commands\<close>

definition encode_move_time_read :: "int \<Rightarrow> bytes result" where
  "encode_move_time_read servo_id = build_read_packet servo_id 0x02"

definition encode_move_time_wait_read :: "int \<Rightarrow> bytes result" where
  "encode_move_time_wait_read servo_id = build_read_packet servo_id 0x08"

definition encode_id_read :: "int \<Rightarrow> bytes result" where
  "encode_id_read servo_id = build_read_packet servo_id 0x0E"

definition encode_angle_offset_read :: "int \<Rightarrow> bytes result" where
  "encode_angle_offset_read servo_id = build_read_packet servo_id 0x13"

definition encode_angle_limit_read :: "int \<Rightarrow> bytes result" where
  "encode_angle_limit_read servo_id = build_read_packet servo_id 0x15"

definition encode_vin_limit_read :: "int \<Rightarrow> bytes result" where
  "encode_vin_limit_read servo_id = build_read_packet servo_id 0x17"

definition encode_temp_max_limit_read :: "int \<Rightarrow> bytes result" where
  "encode_temp_max_limit_read servo_id = build_read_packet servo_id 0x19"

definition encode_temp_read :: "int \<Rightarrow> bytes result" where
  "encode_temp_read servo_id = build_read_packet servo_id 0x1A"

definition encode_vin_read :: "int \<Rightarrow> bytes result" where
  "encode_vin_read servo_id = build_read_packet servo_id 0x1B"

definition encode_pos_read :: "int \<Rightarrow> bytes result" where
  "encode_pos_read servo_id = build_read_packet servo_id 0x1C"

definition encode_or_motor_mode_read :: "int \<Rightarrow> bytes result" where
  "encode_or_motor_mode_read servo_id = build_read_packet servo_id 0x1E"

definition encode_load_or_unload_read :: "int \<Rightarrow> bytes result" where
  "encode_load_or_unload_read servo_id = build_read_packet servo_id 0x20"

definition encode_led_ctrl_read :: "int \<Rightarrow> bytes result" where
  "encode_led_ctrl_read servo_id = build_read_packet servo_id 0x22"

definition encode_led_error_read :: "int \<Rightarrow> bytes result" where
  "encode_led_error_read servo_id = build_read_packet servo_id 0x24"

definition encode_dis_read :: "int \<Rightarrow> bytes result" where
  "encode_dis_read servo_id = build_read_packet servo_id 0x30"

definition lx_encode_read_position_command :: "int \<Rightarrow> bytes result" where
  "lx_encode_read_position_command servo_id = encode_pos_read servo_id"

section \<open>Replies\<close>

definition param :: "bytes \<Rightarrow> nat \<Rightarrow> int" where
  "param params i = uint (params ! i)"

definition decode_byte :: "int \<Rightarrow> bytes \<Rightarrow> int option \<Rightarrow> int option" where
  "decode_byte cmd data expected = map_option (\<lambda>(_, ps). param ps 0) (first_params data cmd expected 1)"

definition decode_two_u16 :: "int \<Rightarrow> bytes \<Rightarrow> int option \<Rightarrow> (int \<times> int) option" where
  "decode_two_u16 cmd data expected =
     map_option (\<lambda>(_, ps). (join_u16 (param ps 0) (param ps 1), join_u16 (param ps 2) (param ps 3)))
       (first_params data cmd expected 4)"

definition decode_move_time_response :: "bytes \<Rightarrow> int option \<Rightarrow> bool \<Rightarrow> (int \<times> int) option" where
  "decode_move_time_response data expected wait_mode =
     decode_two_u16 (if wait_mode then 0x08 else 0x02) data expected"

definition decode_id_response :: "bytes \<Rightarrow> int option \<Rightarrow> int option" where
  "decode_id_response data expected = decode_byte 0x0E data expected"

definition decode_angle_offset_response :: "bytes \<Rightarrow> int option \<Rightarrow> int option" where
  "decode_angle_offset_response data expected =
     map_option (\<lambda>raw. if 128 \<le> raw then raw - 256 else raw) (decode_byte 0x13 data expected)"

definition decode_angle_limit_response :: "bytes \<Rightarrow> int option \<Rightarrow> (int \<times> int) option" where
  "decode_angle_limit_response data expected = decode_two_u16 0x15 data expected"

definition decode_vin_limit_response :: "bytes \<Rightarrow> int option \<Rightarrow> (int \<times> int) option" where
  "decode_vin_limit_response data expected = decode_two_u16 0x17 data expected"

definition decode_temp_max_limit_response :: "bytes \<Rightarrow> int option \<Rightarrow> int option" where
  "decode_temp_max_limit_response data expected = decode_byte 0x19 data expected"

definition decode_temp_response :: "bytes \<Rightarrow> int option \<Rightarrow> int option" where
  "decode_temp_response data expected = decode_byte 0x1A data expected"

definition decode_vin_response :: "bytes \<Rightarrow> int option \<Rightarrow> int option" where
  "decode_vin_response data expected =
     map_option (\<lambda>(_, ps). join_u16 (param ps 0) (param ps 1)) (first_params data 0x1B expected 2)"

definition decode_pos_response :: "bytes \<Rightarrow> int option \<Rightarrow> int option" where
  "decode_pos_response data expected =
     map_option (\<lambda>(_, ps). u16_to_i16 (join_u16 (param ps 0) (param ps 1)))
       (first_params data 0x1C expected 2)"

definition lx_decode_position_response :: "bytes \<Rightarrow> int option \<Rightarrow> int option" where
  "lx_decode_position_response data expected = decode_pos_response data expected"

definition decode_or_motor_mode_response :: "bytes \<Rightarrow> int option \<Rightarrow> (int \<times> int \<times> int) option" where
  "decode_or_motor_mode_response data expected =
     map_option (\<lambda>(_, ps). (param ps 0, param ps 1, u16_to_i16 (join_u16 (param ps 2) (param ps 3))))
       (first_params data 0x1E expected 4)"

definition decode_load_or_unload_response :: "bytes \<Rightarrow> int option \<Rightarrow> int option" where
  "decode_load_or_unload_response data expected = decode_byte 0x20 data expected"

definition decode_led_ctrl_response :: "bytes \<Rightarrow> int option \<Rightarrow> int option" where
  "decode_led_ctrl_response data expected = decode_byte 0x22 data expected"

definition decode_led_error_response :: "bytes \<Rightarrow> int option \<Rightarrow> int option" where
  "decode_led_error_response data expected = decode_byte 0x24 data expected"

definition decode_dis_response :: "bytes \<Rightarrow> int option \<Rightarrow> int option" where
  "decode_dis_response data expected =
     map_option (\<lambda>(_, ps).
         (param ps 0 AND 0xFF) OR push_bit 8 (param ps 1 AND 0xFF)
           OR push_bit 16 (param ps 2 AND 0xFF) OR push_bit 24 (param ps 3 AND 0xFF))
       (first_params data 0x30 expected 4)"

section \<open>Frames on the wire\<close>

text \<open>The frame the protocol document describes; the lemmas relate builder and reader to it.\<close>

definition lx_body :: "8 word \<Rightarrow> 8 word \<Rightarrow> bytes \<Rightarrow> bytes" where
  "lx_body sid cmd params = sid # of_nat (3 + length params) # cmd # params"

definition lx_frame :: "packet \<Rightarrow> bytes" where
  "lx_frame = (\<lambda>(sid, cmd, params).
     0x55 # 0x55 # lx_body sid cmd params @ [compute_checksum (lx_body sid cmd params)])"

lemma length_lx_frame [simp]: "length (lx_frame (sid, cmd, params)) = length params + 6"
  by (simp add: lx_frame_def lx_body_def)

lemma iter_short: "length data < 6 \<Longrightarrow> iter_valid_packets data = []"
  by (subst iter_valid_packets.simps) simp

lemma unat_length_byte: "n \<le> 252 \<Longrightarrow> unat (of_nat (3 + n) :: 8 word) = 3 + n"
  by (subst unat_of_nat) simp

lemma iter_step:
  assumes "data ! 0 = 0x55" "data ! 1 = 0x55" "n = unat (data ! 3) + 3" "6 \<le> n" "n \<le> length data"
    "frame = take n data" "more = iter_valid_packets (drop n data)"
  shows "iter_valid_packets data =
    (if last frame = compute_checksum (butlast (drop 2 frame))
     then (frame ! 2, frame ! 4, butlast (drop 5 frame)) # more else more)"
  using assms by (subst iter_valid_packets.simps) (simp add: Let_def)

lemma iter_frame:
  assumes "length params \<le> 252"
  shows "iter_valid_packets (lx_frame (sid, cmd, params) @ rest) = (sid, cmd, params) # iter_valid_packets rest"
proof -
  let ?f = "lx_frame (sid, cmd, params)"
  let ?n = "length params + 6"
  have at: "(?f @ rest) ! 0 = 0x55" "(?f @ rest) ! 1 = 0x55" "(?f @ rest) ! 3 = of_nat (3 + length params)"
    by (simp_all add: lx_frame_def lx_body_def numeral_3_eq_3)
  have total: "?n = unat ((?f @ rest) ! 3) + 3" unfolding at(3) using unat_length_byte [OF assms] by simp
  have fr: "?f ! 2 = sid" "?f ! 4 = cmd" "butlast (drop 5 ?f) = params"
      "last ?f = compute_checksum (butlast (drop 2 ?f))"
    by (simp_all add: lx_frame_def lx_body_def eval_nat_numeral butlast_append)
  have parts: "?f = take ?n (?f @ rest)" "iter_valid_packets rest = iter_valid_packets (drop ?n (?f @ rest))"
    by simp_all
  from iter_step [OF at(1,2) total _ _ parts] fr show ?thesis by simp
qed

lemma iter_frames:
  "\<forall>p \<in> set ps. length (snd (snd p)) \<le> 252 \<Longrightarrow>
    iter_valid_packets (concat (map lx_frame ps) @ rest) = ps @ iter_valid_packets rest"
  by (induction ps) (auto simp: iter_frame)

lemma iter_noise:
  assumes "0x55 \<notin> set noise"
  shows "iter_valid_packets (noise @ data) = iter_valid_packets data"
  using assms
proof (induction noise)
  case (Cons b noise)
  show ?case
  proof (cases "length (b # noise @ data) < 6")
    case True
    then show ?thesis by (simp add: iter_short)
  next
    case False
    with Cons show ?thesis by (subst iter_valid_packets.simps) simp
  qed
qed simp

lemma build_packet_frame:
  "build_packet servo_id cmd params = Inr pkt \<longleftrightarrow> length params \<le> 252 \<and>
     pkt = lx_frame (word_of_int (clamp 0 253 servo_id), word_of_int cmd, map lx_u8 params)"
  by (auto simp: build_packet_def Let_def lx_frame_def lx_body_def)

lemma byte_and: "(x AND 0xFF :: int) = take_bit 8 x" "(x AND 0xFFFF :: int) = take_bit 16 x"
proof -
  have "(0xFF :: int) = mask 8" "(0xFFFF :: int) = mask 16" by (simp_all add: mask_eq_exp_minus_1)
  then show "(x AND 0xFF :: int) = take_bit 8 x" "(x AND 0xFFFF :: int) = take_bit 16 x"
    by (simp_all only: take_bit_eq_mask)
qed

lemma uint_lx_u8 [simp]: "uint (lx_u8 x) = take_bit 8 x"
  by (simp add: lx_u8_def unsigned_of_int)

lemma split_u16_eq: "split_u16 v = (take_bit 8 v, take_bit 8 (drop_bit 8 v))"
proof -
  have "take_bit 8 (drop_bit 8 (take_bit 16 v)) = take_bit 8 (drop_bit 8 v)"
    by (rule bit_eqI) (auto simp: bit_simps)
  then show ?thesis by (simp add: split_u16_def Let_def byte_and)
qed

lemma join_take [simp]: "join_u16 (take_bit 8 l) h = join_u16 l h" "join_u16 l (take_bit 8 h) = join_u16 l h"
  by (simp_all add: join_u16_def byte_and)

lemma join_split: "join_u16 (take_bit 8 v) (take_bit 8 (drop_bit 8 v)) = take_bit 16 v"
  unfolding join_u16_def byte_and by (rule bit_eqI) (auto simp: bit_simps)

lemma u16_params_eq: "u16_params v = [take_bit 8 v, take_bit 8 (drop_bit 8 v)]"
  by (simp add: u16_params_def split_u16_eq)

lemma join_u16_params [simp]:
  "join_u16 (uint (lx_u8 (take_bit 8 v))) (uint (lx_u8 (take_bit 8 (drop_bit 8 v)))) = take_bit 16 v"
  using join_split [of v] by simp

lemma take_bit_16_id: "0 \<le> v \<Longrightarrow> v < 65536 \<Longrightarrow> take_bit 16 v = (v :: int)"
  by (simp add: take_bit_int_eq_self)

lemma i16_round_trip: "u16_to_i16 (take_bit 16 (i16_to_u16 v)) = clamp (-32768) 32767 v"
proof -
  define w where "w = clamp (-32768) 32767 v"
  have b: "-32768 \<le> w" "w \<le> 32767" by (simp_all add: w_def clamp_def)
  have e: "i16_to_u16 v = take_bit 16 w"
    by (simp add: i16_to_u16_def byte_and w_def clamp_def Let_def)
  have m: "take_bit 16 w = (if w < 0 then w + 65536 else w)"
  proof (cases "w < 0")
    case True
    have "w mod 65536 = (w + 65536) mod 65536" by simp
    also have "\<dots> = w + 65536" using b True by (intro mod_pos_pos_trivial) simp_all
    finally show ?thesis using True by (simp add: take_bit_eq_mod)
  next
    case False
    with b show ?thesis by (simp add: take_bit_int_eq_self)
  qed
  have "u16_to_i16 (take_bit 16 (i16_to_u16 v)) = w"
    unfolding u16_to_i16_def byte_and e Let_def take_bit_take_bit using b
    by (simp only: min.idem m) (simp split: if_splits)
  then show ?thesis by (simp add: w_def)
qed

lemma first_params_frame:
  assumes "length params \<le> 252"
  shows "first_params (lx_frame (sid, cmd, params) @ rest) want expected n =
    (if uint cmd = want \<and> (expected = None \<or> expected = Some (uint sid)) \<and> n \<le> length params
     then Some (sid, params) else first_params rest want expected n)"
  by (auto simp: first_params_def iter_frame [OF assms])

lemma uint_sid: "uint (word_of_int (clamp 0 253 sid) :: 8 word) = clamp 0 253 sid"
  using clamp_bounds [of 0 253 sid] by (simp add: unsigned_of_int take_bit_int_eq_self)

text \<open>The reader yields only what stands on the wire as a complete frame with its checksum.\<close>

lemma frame_of_fields:
  assumes "take 2 frame = [0x55, 0x55]" "6 \<le> length frame" "length frame = unat (frame ! 3) + 3"
    "last frame = compute_checksum (butlast (drop 2 frame))"
  shows "frame = lx_frame (frame ! 2, frame ! 4, butlast (drop 5 frame))"
proof -
  obtain a b sid len cmd tail where f: "frame = a # b # sid # len # cmd # tail" and "tail \<noteq> []"
    using assms(2) by (auto simp: eval_nat_numeral Suc_le_length_iff)
  then obtain params chk where t: "tail = params @ [chk]" by (metis rev_exhaust)
  from assms(1) f have ab: "a = 0x55" "b = 0x55" by simp_all
  have n: "unat len = 3 + length params" using assms(3) f t by simp
  have "of_nat (unat len) = len" by simp
  with n have "len = of_nat (3 + length params)" by simp
  with assms(4) show ?thesis
    by (simp add: f t ab lx_frame_def lx_body_def eval_nat_numeral butlast_append)
qed

lemma iter_sound:
  "p \<in> set (iter_valid_packets data) \<Longrightarrow>
    \<exists>pre post. data = pre @ lx_frame p @ post \<and> length (snd (snd p)) \<le> 252"
proof (induction data rule: iter_valid_packets.induct)
  case (1 data)
  let ?n = "unat (data ! 3) + 3"
  have skip: ?case if IH: "\<exists>pre post. drop 1 data = pre @ lx_frame p @ post \<and> length (snd (snd p)) \<le> 252"
    using IH by (metis append_Cons append_take_drop_id append_assoc)
  consider "length data < 6" | (sync) "6 \<le> length data" "data ! 0 \<noteq> 0x55 \<or> data ! 1 \<noteq> 0x55"
    | (small) "6 \<le> length data" "data ! 0 = 0x55" "data ! 1 = 0x55" "?n < 6"
    | (wait) "6 \<le> length data" "data ! 0 = 0x55" "data ! 1 = 0x55" "6 \<le> ?n" "length data < ?n"
    | (full) "data ! 0 = 0x55" "data ! 1 = 0x55" "6 \<le> ?n" "?n \<le> length data" by linarith
  then show ?case
  proof cases
    case 1
    with "1.prems" show ?thesis by (simp add: iter_short)
  next
    case sync
    with "1.prems" have "p \<in> set (iter_valid_packets (drop 1 data))"
      by (subst (asm) iter_valid_packets.simps) (auto split: if_splits)
    from "1.IH"(1) [OF _ _ this] sync have "\<exists>pre post. drop 1 data = pre @ lx_frame p @ post \<and> length (snd (snd p)) \<le> 252"
      by simp
    then show ?thesis by (rule skip)
  next
    case small
    with "1.prems" have "p \<in> set (iter_valid_packets (drop 1 data))"
      by (subst (asm) iter_valid_packets.simps) (simp add: Let_def)
    from "1.IH"(2) [OF _ _ refl _ this] small
    have "\<exists>pre post. drop 1 data = pre @ lx_frame p @ post \<and> length (snd (snd p)) \<le> 252" by simp
    then show ?thesis by (rule skip)
  next
    case wait
    with "1.prems" show ?thesis by (subst (asm) iter_valid_packets.simps) (simp add: Let_def)
  next
    case full
    let ?f = "take ?n data"
    have len: "6 \<le> length ?f" "length ?f = ?n" using full by simp_all
    have nth: "?f ! 3 = data ! 3" using full by simp
    have hd: "take 2 ?f = [0x55, 0x55]"
      using full len by (cases data; cases "tl data") (auto simp: numeral_2_eq_2)
    note s = "1.prems" [unfolded iter_step [OF full(1,2) refl full(3,4) refl refl]]
    show ?thesis
    proof (cases "p \<in> set (iter_valid_packets (drop ?n data))")
      case True
      from "1.IH"(3) [OF _ _ refl _ _ refl] True full
      obtain pre post where "drop ?n data = pre @ lx_frame p @ post" "length (snd (snd p)) \<le> 252"
        by (auto simp: Let_def)
      then show ?thesis by (metis append_assoc append_take_drop_id)
    next
      case False
      with s have ok: "last ?f = compute_checksum (butlast (drop 2 ?f))"
        and p: "p = (?f ! 2, ?f ! 4, butlast (drop 5 ?f))" by (auto split: if_splits)
      have "?f = lx_frame p"
        unfolding p by (rule frame_of_fields [OF hd len(1) _ ok]) (simp only: nth len)
      moreover have "length (snd (snd p)) \<le> 252"
        using unsigned_less [where 'a = nat, of "data ! 3"] len(2) by (simp add: p)
      ultimately show ?thesis by (metis append_Nil append_take_drop_id)
    qed
  qed
qed

section \<open>Properties\<close>

text \<open>
  C13: Reading back what the builder wrote: a built packet is recovered from the byte stream with
  its clamped id, its command and its parameters modulo 256, also behind line noise that does not
  contain the header byte, and the reader goes on with what follows it.
\<close>

theorem lx_packet_round_trip:
  assumes "build_packet servo_id cmd params = Inr pkt" "0x55 \<notin> set noise"
  shows "iter_valid_packets (noise @ pkt @ rest) =
    (word_of_int (clamp 0 253 servo_id), word_of_int cmd, map lx_u8 params) # iter_valid_packets rest"
  using assms by (auto simp: build_packet_frame iter_noise iter_frame)

theorem lx_packet_round_trip_witness:
  "iter_valid_packets ([1, 2] @ [0x55, 0x55, 7, 4, 28, 9, 207] @ []) = [(7, 28, [9])]"
proof -
  have "build_packet 7 28 [9] = Inr [0x55, 0x55, 7, 4, 28, 9, 207]" "(0x55 :: 8 word) \<notin> set [1, 2]"
    by code_simp+
  from lx_packet_round_trip [OF this, of "[]"] show ?thesis
    by (simp add: iter_short lx_u8_def clamp_def)
qed

text \<open>
  The reader invents nothing: every packet it yields stands in the buffer as one complete
  frame with header, length and a matching checksum.
\<close>

theorem lx_reader_sound:
  assumes "p \<in> set (iter_valid_packets data)"
  shows "\<exists>pre post. data = pre @ lx_frame p @ post \<and> length (snd (snd p)) \<le> 252"
  by (rule iter_sound [OF assms])

theorem lx_reader_sound_witness:
  "\<exists>pre post. [0x55, 0x55, 7, 4, 28, 9, 207, 3] = pre @ lx_frame (7, 28, [9]) @ post"
proof -
  have "(7, 28, [9]) \<in> set (iter_valid_packets [0x55, 0x55, 7, 4, 28, 9, 207, 3])"
    by code_simp
  from lx_reader_sound [OF this] show ?thesis by blast
qed

lemma iter_single: "length params \<le> 252 \<Longrightarrow> iter_valid_packets (lx_frame (sid, cmd, params)) = [(sid, cmd, params)]"
  using iter_frame [of params sid cmd "[]"] by (simp add: iter_short)

lemma lx_move_frame:
  "\<exists>pkt pl ph tl th. encode_move_time_write servo_id position time_ms = Inr pkt
    \<and> iter_valid_packets pkt = [(word_of_int (clamp 0 253 servo_id), 1, [pl, ph, tl, th])]
    \<and> join_u16 (uint pl) (uint ph) = clamp 0 1000 position
    \<and> join_u16 (uint tl) (uint th) = clamp 0 30000 time_ms"
proof -
  have "take_bit 16 (clamp 0 1000 position) = clamp 0 1000 position"
    "take_bit 16 (clamp 0 30000 time_ms) = clamp 0 30000 time_ms"
    using clamp_bounds [of 0 1000 position] clamp_bounds [of 0 30000 time_ms]
    by (simp_all add: take_bit_16_id)
  then show ?thesis
    by (auto simp: encode_move_time_write_def build_packet_frame u16_params_eq iter_single join_split
        simp del: join_take)
qed

text \<open>
  A move command reaches the servo as meant: for every id, position and time the encoder
  returns one valid frame with command 1 whose little-endian parameters are the position clamped
  to 0..1000 and the time clamped to 0..30000.
\<close>

theorem lx_move_on_the_wire:
  "\<exists>pkt pl ph tl th. encode_move_time_write servo_id position time_ms = Inr pkt
    \<and> iter_valid_packets pkt = [(word_of_int (clamp 0 253 servo_id), 1, [pl, ph, tl, th])]
    \<and> join_u16 (uint pl) (uint ph) = clamp 0 1000 position
    \<and> join_u16 (uint tl) (uint th) = clamp 0 30000 time_ms"
  by (rule lx_move_frame)

lemma position_reply:
  "\<exists>pkt. build_packet sid 0x1C (u16_params (i16_to_u16 pos)) = Inr pkt
    \<and> decode_pos_response (pkt @ rest) e =
        (if e = None \<or> e = Some (clamp 0 253 sid) then Some (clamp (-32768) 32767 pos)
         else decode_pos_response rest e)"
proof -
  let ?ps = "map lx_u8 (u16_params (i16_to_u16 pos))"
  have ps: "?ps = [lx_u8 (take_bit 8 (i16_to_u16 pos)), lx_u8 (take_bit 8 (drop_bit 8 (i16_to_u16 pos)))]"
    by (simp add: u16_params_eq)
  have val: "u16_to_i16 (join_u16 (param ?ps 0) (param ?ps 1)) = clamp (-32768) 32767 pos"
    using i16_round_trip [of pos] join_u16_params [of "i16_to_u16 pos"] by (simp add: ps param_def)
  have "length ?ps = 2" by (simp add: u16_params_eq)
  then show ?thesis
    using val by (intro exI [of _ "lx_frame (word_of_int (clamp 0 253 sid), 0x1C, ?ps)"])
      (auto simp: build_packet_frame decode_pos_response_def first_params_frame uint_sid u16_params_eq)
qed

text \<open>
  A position reply decodes to the signed position it carries, saturated to 16 bits, when it
  comes from the expected servo, and is passed over when another servo sent it.
\<close>

theorem lx_position_round_trip:
  "\<exists>pkt. build_packet sid 0x1C (u16_params (i16_to_u16 pos)) = Inr pkt
    \<and> decode_pos_response (pkt @ rest) e =
        (if e = None \<or> e = Some (clamp 0 253 sid) then Some (clamp (-32768) 32767 pos)
         else decode_pos_response rest e)"
  by (rule position_reply)

definition emits_one_packet :: "bytes result \<Rightarrow> bool" where
  "emits_one_packet r \<longleftrightarrow> (\<exists>pkt p. r = Inr pkt \<and> iter_valid_packets pkt = [p] \<and> length pkt \<le> 10)"

lemma emits_build: "length params \<le> 4 \<Longrightarrow> emits_one_packet (build_packet sid cmd params)"
  unfolding emits_one_packet_def
  by (auto simp: build_packet_frame iter_single intro!: exI)

lemmas lx_writer_defs = encode_move_time_write_def encode_move_time_wait_write_def encode_move_start_def
  encode_move_stop_def encode_id_write_def encode_angle_offset_adjust_def encode_angle_offset_write_def
  encode_angle_limit_write_def encode_vin_limit_write_def encode_temp_max_limit_write_def
  encode_or_motor_mode_write_def encode_load_or_unload_write_def encode_torque_restore_def
  encode_torque_release_def encode_torque_switch_compat_write_def encode_torque_restore_compat_def
  encode_torque_release_compat_def encode_led_ctrl_write_def encode_led_error_write_def

lemmas lx_reader_defs = build_read_packet_def encode_move_time_read_def encode_move_time_wait_read_def
  encode_id_read_def encode_angle_offset_read_def encode_angle_limit_read_def encode_vin_limit_read_def
  encode_temp_max_limit_read_def encode_temp_read_def encode_vin_read_def encode_pos_read_def
  encode_or_motor_mode_read_def encode_load_or_unload_read_def encode_led_ctrl_read_def
  encode_led_error_read_def encode_dis_read_def lx_encode_read_position_command_def

text \<open>
  No encoder can fail or emit anything but one frame: whatever integers it is given, each of
  the nineteen write and fifteen read commands returns a single valid packet of at most ten bytes.
\<close>

theorem lx_encoders_total:
  "list_all emits_one_packet
    [encode_move_time_write i a b, encode_move_time_wait_write i a b, encode_move_start i,
     encode_move_stop i, encode_id_write i a, encode_angle_offset_adjust i a, encode_angle_offset_write i,
     encode_angle_limit_write i a b, encode_vin_limit_write i a b, encode_temp_max_limit_write i a,
     encode_or_motor_mode_write i a b c, encode_load_or_unload_write i a, encode_torque_restore i,
     encode_torque_release i, encode_torque_switch_compat_write i a, encode_torque_restore_compat i,
     encode_torque_release_compat i, encode_led_ctrl_write i a, encode_led_error_write i a,
     encode_move_time_read i, encode_move_time_wait_read i, encode_id_read i, encode_angle_offset_read i,
     encode_angle_limit_read i, encode_vin_limit_read i, encode_temp_max_limit_read i, encode_temp_read i,
     encode_vin_read i, encode_pos_read i, encode_or_motor_mode_read i, encode_load_or_unload_read i,
     encode_led_ctrl_read i, encode_led_error_read i, encode_dis_read i]"
  by (simp add: lx_writer_defs lx_reader_defs emits_build u16_params_eq Let_def split_def)

text \<open>
  A stray header with a length that reaches past the end of the buffer hides everything behind
  it: the reader stops there and yields nothing, complete frames behind it included.
\<close>

theorem lx_partial_header_hides_frames:
  assumes "3 \<le> unat len" "length rest + 1 < unat len"
  shows "iter_valid_packets ([0x55, 0x55, sid, len] @ rest) = []"
proof -
  have "length ([0x55, 0x55, sid, len] @ rest) < unat (([0x55, 0x55, sid, len] @ rest) ! 3) + 3"
    using assms(2) by simp
  with assms(1) show ?thesis by (subst iter_valid_packets.simps) (simp add: Let_def)
qed

theorem lx_partial_header_hides_frames_witness:
  "iter_valid_packets ([0x55, 0x55, 1, 9] @ [0x55, 0x55, 7, 4, 28, 9, 207]) = []"
  using lx_partial_header_hides_frames [of 9 "[0x55, 0x55, 7, 4, 28, 9, 207]" 1] by simp

section \<open>The protocol interface\<close>

text \<open>What the reader yields on a buffer it also yields, first, on every longer one.\<close>

lemma iter_prefix: "\<exists>more. iter_valid_packets (a @ b) = iter_valid_packets a @ more"
proof (induction a rule: iter_valid_packets.induct)
  case (1 a)
  let ?n = "unat (a ! 3) + 3"
  consider (short) "length a < 6" | (sync) "6 \<le> length a" "a ! 0 \<noteq> 0x55 \<or> a ! 1 \<noteq> 0x55"
    | (small) "6 \<le> length a" "a ! 0 = 0x55" "a ! 1 = 0x55" "?n < 6"
    | (wait) "6 \<le> length a" "a ! 0 = 0x55" "a ! 1 = 0x55" "6 \<le> ?n" "length a < ?n"
    | (full) "a ! 0 = 0x55" "a ! 1 = 0x55" "6 \<le> ?n" "?n \<le> length a" by linarith
  then show ?case
  proof cases
    case short
    then show ?thesis by (simp add: iter_short)
  next
    case sync
    with "1.IH"(1) have "\<exists>more. iter_valid_packets (drop 1 a @ b) = iter_valid_packets (drop 1 a) @ more" by simp
    moreover have "iter_valid_packets a = iter_valid_packets (drop 1 a)"
      "iter_valid_packets (a @ b) = iter_valid_packets (drop 1 a @ b)"
      using sync by (subst iter_valid_packets.simps, force simp: nth_append)+
    ultimately show ?thesis by simp
  next
    case small
    with "1.IH"(2) [OF _ _ refl] have "\<exists>more. iter_valid_packets (drop 1 a @ b) = iter_valid_packets (drop 1 a) @ more" by simp
    moreover have "iter_valid_packets a = iter_valid_packets (drop 1 a)"
      using small by (subst iter_valid_packets.simps) (simp add: Let_def)
    moreover have "iter_valid_packets (a @ b) = iter_valid_packets (drop 1 a @ b)"
      using small by (subst iter_valid_packets.simps) (simp add: Let_def nth_append)
    ultimately show ?thesis by simp
  next
    case wait
    then have "iter_valid_packets a = []" by (subst iter_valid_packets.simps) (simp add: Let_def)
    then show ?thesis by simp
  next
    case full
    have at: "(a @ b) ! 0 = 0x55" "(a @ b) ! 1 = 0x55" "?n = unat ((a @ b) ! 3) + 3" "?n \<le> length (a @ b)"
      using full by (auto simp: nth_append)
    have tk: "take ?n a = take ?n (a @ b)" using full by simp
    have dr: "iter_valid_packets (drop ?n a @ b) = iter_valid_packets (drop ?n (a @ b))" using full by simp
    from "1.IH"(3) [OF _ _ refl _ _ refl] full
    have "\<exists>more. iter_valid_packets (drop ?n a @ b) = iter_valid_packets (drop ?n a) @ more" by (simp add: Let_def)
    then show ?thesis
      using iter_step [OF full(1,2) refl full(3,4) refl refl] iter_step [OF at(1,2,3) full(3) at(4) tk dr] by auto
  qed
qed

lemma first_match_append: "first_match ps cmd e n = Some r \<Longrightarrow> first_match (ps @ qs) cmd e n = Some r"
  by (induction ps cmd e n rule: first_match.induct) (auto split: if_splits)

lemma first_params_mono: "first_params a cmd e n = Some r \<Longrightarrow> first_params (a @ b) cmd e n = Some r"
  using iter_prefix [of a b] by (auto simp: first_params_def first_match_append)

definition lx_reply :: "int \<Rightarrow> int \<Rightarrow> bytes" where
  "lx_reply sid pos = lx_frame (word_of_int sid, 0x1C, map lx_u8 (u16_params (i16_to_u16 pos)))"

definition lx_id_ok :: "int \<Rightarrow> bool" where
  "lx_id_ok sid \<longleftrightarrow> 0 \<le> sid \<and> sid \<le> 253"

definition lx_pos_ok :: "int \<Rightarrow> bool" where
  "lx_pos_ok pos \<longleftrightarrow> -32768 \<le> pos \<and> pos \<le> 32767"

interpretation lx: servo_protocol lx_encode_move_command lx_encode_read_position_command
  lx_decode_position_response lx_reply lx_id_ok lx_pos_ok
proof unfold_locales
  show "\<exists>pkt. lx_encode_move_command sid pos time = Inr pkt \<and> pkt \<noteq> []" for sid pos time
    by (auto simp: lx_encode_move_command_def encode_move_time_write_def build_packet_frame u16_params_eq
        lx_frame_def)
  show "\<exists>pkt. lx_encode_read_position_command sid = Inr pkt \<and> pkt \<noteq> []" for sid
    by (auto simp: lx_reader_defs build_packet_frame lx_frame_def)
  show "lx_decode_position_response [] e = None" for e
    by (simp add: lx_decode_position_response_def decode_pos_response_def first_params_def iter_short)
  show "lx_decode_position_response a e = Some v \<Longrightarrow> lx_decode_position_response (a @ b) e = Some v" for a b e v
    by (auto simp: lx_decode_position_response_def decode_pos_response_def dest: first_params_mono)
  show "lx_decode_position_response (lx_reply sid pos @ rest) e =
      (if e = None \<or> e = Some sid then Some pos else lx_decode_position_response rest e)"
    if "lx_id_ok sid" "lx_pos_ok pos" for sid pos rest e
    using that position_reply [of sid pos rest e]
    by (auto simp: lx_id_ok_def lx_pos_ok_def lx_reply_def lx_decode_position_response_def
        build_packet_frame u16_params_eq)
qed

text \<open>
  On a bus where several servos have answered into one buffer, the driver that asked one of
  them reads that servo's position, wherever its reply stands, and nothing when it is missing.
\<close>

theorem lx_shared_bus_position:
  assumes "list_all (\<lambda>(sid, pos). lx_id_ok sid \<and> lx_pos_ok pos) rs"
  shows "lx_decode_position_response (concat (map (\<lambda>(sid, pos). lx_reply sid pos) rs)) (Some sid) = map_of rs sid"
  using lx.bus_position [OF assms, of sid] by (simp add: lx.bus_buffer_def)

theorem lx_shared_bus_position_witness:
  "lx_decode_position_response (concat (map (\<lambda>(sid, pos). lx_reply sid pos) [(3, 500), (8, -20)])) (Some 8)
    = Some (-20)"
proof -
  have "list_all (\<lambda>(sid, pos). lx_id_ok sid \<and> lx_pos_ok pos) [(3, 500), (8, -20)]"
    by (simp add: lx_id_ok_def lx_pos_ok_def)
  from lx_shared_bus_position [OF this, of 8] show ?thesis by simp
qed


end
