(* ===== verification/ZL_Protocol.thy ===== *)
theory ZL_Protocol
  imports Servo_Protocol Decimal_Text
begin

text \<open>
  The text protocol of \<open>servo_hardware/protocols/zl_protocol.py\<close>: commands \<open>#idBODY!\<close> with a
  three-digit id, replies found by regular expressions. Each expression is a matcher that reads
  one match off the front of a text; \<open>finditer\<close> scans left to right for the matches that do not
  overlap, as Python does. The greedy repetitions are followed by a character they cannot take,
  so a matcher needs no backtracking. Buffers are read as the model reads \<open>errors="ignore"\<close> on
  7-bit traffic: other bytes are dropped (valid multi-byte sequences are outside the model).
  The floats of a temperature reply are exact decimals.
\<close>

section \<open>Bytes and text\<close>

definition ascii_bytes :: "string \<Rightarrow> bytes" where
  "ascii_bytes s = map (\<lambda>c. of_nat (of_char c)) s"

definition decode_text :: "bytes \<Rightarrow> string" where
  "decode_text data = map (\<lambda>b. char_of (unat b)) (filter (\<lambda>b. b < 128) data)"

section \<open>Encoders\<close>

definition zl_sid :: "int \<Rightarrow> int" where
  "zl_sid servo_id = max 0 (min 999 servo_id)"

definition format_command :: "int \<Rightarrow> string \<Rightarrow> bytes" where
  "format_command servo_id body = ascii_bytes (''#'' @ fmt 3 (zl_sid servo_id) @ body @ ''!'')"

definition zl_encode_move_command :: "int \<Rightarrow> int \<Rightarrow> int \<Rightarrow> bytes" where
  "zl_encode_move_command servo_id position speed =
     format_command servo_id
       (''P'' @ fmt 4 (clamp 0 9999 position) @ ''T'' @ fmt 4 (clamp 0 9999 speed))"

definition zl_encode_version_read :: "int \<Rightarrow> bytes" where
  "zl_encode_version_read servo_id = format_command servo_id ''PVER''"

definition zl_encode_id_read :: "int \<Rightarrow> bytes" where
  "zl_encode_id_read servo_id = format_command servo_id ''PID''"

definition zl_encode_id_write :: "int \<Rightarrow> int \<Rightarrow> bytes" where
  "zl_encode_id_write servo_id new_id = format_command servo_id (''PID'' @ fmt 3 (zl_sid new_id))"

definition zl_encode_torque_release :: "int \<Rightarrow> bytes" where
  "zl_encode_torque_release servo_id = format_command servo_id ''PULK''"

definition zl_encode_torque_restore :: "int \<Rightarrow> bytes" where
  "zl_encode_torque_restore servo_id = format_command servo_id ''PULR''"

definition zl_encode_mode_read :: "int \<Rightarrow> bytes" where
  "zl_encode_mode_read servo_id = format_command servo_id ''PMOD''"

definition zl_encode_mode_write :: "int \<Rightarrow> int \<Rightarrow> bytes" where
  "zl_encode_mode_write servo_id mode = format_command servo_id (''PMOD'' @ fmt 1 (clamp 1 8 mode))"

definition zl_encode_position_read :: "int \<Rightarrow> bytes" where
  "zl_encode_position_read servo_id = format_command servo_id ''PRAD''"

definition zl_encode_read_position_command :: "int \<Rightarrow> bytes" where
  "zl_encode_read_position_command servo_id = zl_encode_position_read servo_id"

definition zl_encode_motion_pause :: "int \<Rightarrow> bytes" where
  "zl_encode_motion_pause servo_id = format_command servo_id ''PDPT''"

definition zl_encode_motion_continue :: "int \<Rightarrow> bytes" where
  "zl_encode_motion_continue servo_id = format_command servo_id ''PDCT''"

definition zl_encode_motion_stop :: "int \<Rightarrow> bytes" where
  "zl_encode_motion_stop servo_id = format_command servo_id ''PDST''"

definition zl_encode_baudrate_write :: "int \<Rightarrow> int \<Rightarrow> bytes" where
  "zl_encode_baudrate_write servo_id baudrate_code =
     format_command servo_id (''PBD'' @ fmt 1 (clamp 1 8 baudrate_code))"

definition zl_encode_middle_calibrate :: "int \<Rightarrow> bytes" where
  "zl_encode_middle_calibrate servo_id = format_command servo_id ''PSCK''"

definition zl_encode_startup_position_set :: "int \<Rightarrow> bytes" where
  "zl_encode_startup_position_set servo_id = format_command servo_id ''PCSD''"

definition zl_encode_startup_position_disable :: "int \<Rightarrow> bytes" where
  "zl_encode_startup_position_disable servo_id = format_command servo_id ''PCSM''"

definition zl_encode_startup_position_restore :: "int \<Rightarrow> bytes" where
  "zl_encode_startup_position_restore servo_id = format_command servo_id ''PCSR''"

definition zl_encode_min_position_set :: "int \<Rightarrow> bytes" where
  "zl_encode_min_position_set servo_id = format_command servo_id ''PSMI''"

definition zl_encode_max_position_set :: "int \<Rightarrow> bytes" where
  "zl_encode_max_position_set servo_id = format_command servo_id ''PSMX''"

definition zl_encode_factory_reset :: "int \<Rightarrow> bytes" where
  "zl_encode_factory_reset servo_id = format_command servo_id ''PCLE''"

definition zl_encode_temp_voltage_read :: "int \<Rightarrow> bytes" where
  "zl_encode_temp_voltage_read servo_id = format_command servo_id ''PRTV''"

section \<open>Matchers\<close>

definition eat :: "string \<Rightarrow> string \<Rightarrow> string option" where
  "eat p s = (if py_startswith s p then Some (drop (length p) s) else None)"

text \<open>The common head \<open>#\<close>, three digits and a literal.\<close>

definition eat_head :: "string \<Rightarrow> string \<Rightarrow> (int \<times> string) option" where
  "eat_head lit s =
     Option.bind (eat ''#'' s) (\<lambda>r.
       if 3 \<le> length r \<and> list_all is_digit (take 3 r)
       then map_option (Pair (int (parse_nat (take 3 r)))) (eat lit (drop 3 r))
       else None)"

definition match_pos :: "string \<Rightarrow> ((int \<times> int) \<times> string) option" where
  "match_pos s =
     Option.bind (eat_head ''P'' s) (\<lambda>(sid, r).
       let (neg, r1) = (case eat ''-'' r of Some q \<Rightarrow> (True, q) | None \<Rightarrow> (False, r));
           ds = takeWhile is_digit r1;
           pos = (if neg then - int (parse_nat ds) else int (parse_nat ds))
       in if 1 \<le> length ds \<and> length ds \<le> 5
          then map_option (Pair (sid, pos)) (eat ''!'' (drop (length ds) r1)) else None)"

definition match_id :: "string \<Rightarrow> ((int \<times> unit) \<times> string) option" where
  "match_id s = map_option (\<lambda>(sid, r). ((sid, ()), r)) (eat_head ''P!'' s)"

definition match_version :: "string \<Rightarrow> ((int \<times> string) \<times> string) option" where
  "match_version s =
     Option.bind (eat_head ''PV'' s) (\<lambda>(sid, r).
       let ver = takeWhile (\<lambda>c. c \<noteq> CHR ''!'') r
       in if ver = [] then None else map_option (Pair (sid, ver)) (eat ''!'' (drop (length ver) r)))"

definition match_mode :: "string \<Rightarrow> ((int \<times> int) \<times> string) option" where
  "match_mode s =
     Option.bind (eat_head ''PMOD'' s) (\<lambda>(sid, r).
       case r of
         c # q \<Rightarrow> if c \<in> set ''12345678'' then map_option (Pair (sid, int (digit_val c))) (eat ''!'' q) else None
       | [] \<Rightarrow> None)"

text \<open>\<open>-?\d+(?:\.\d+)?\<close> and the decimal it denotes.\<close>

definition eat_decimal :: "string \<Rightarrow> (real \<times> string) option" where
  "eat_decimal s =
     (let (neg, r) = (case eat ''-'' s of Some q \<Rightarrow> (True, q) | None \<Rightarrow> (False, s));
          ds = takeWhile is_digit r; r1 = drop (length ds) r;
          fs = (case eat ''.'' r1 of Some q \<Rightarrow> takeWhile is_digit q | None \<Rightarrow> []);
          r2 = (if fs = [] then r1 else drop (Suc (length fs)) r1);
          v = real (parse_nat ds) + real (parse_nat fs) / 10 ^ length fs
      in if ds = [] then None else Some (if neg then - v else v, r2))"

definition match_temp_voltage :: "string \<Rightarrow> ((int \<times> real \<times> real) \<times> string) option" where
  "match_temp_voltage s =
     Option.bind (eat_head ''T'' s) (\<lambda>(sid, r).
       Option.bind (eat_decimal r) (\<lambda>(temp, r1).
         Option.bind (eat ''V'' r1) (\<lambda>r2.
           Option.bind (eat_decimal r2) (\<lambda>(volt, r3).
             map_option (Pair (sid, temp, volt)) (eat ''!'' r3)))))"

text \<open>All matches; a match is never empty, which the length test makes plain.\<close>

function finditer :: "(string \<Rightarrow> ('a \<times> string) option) \<Rightarrow> string \<Rightarrow> 'a list" where
  "finditer m [] = []"
| "finditer m (c # s) =
     (case m (c # s) of
        None \<Rightarrow> finditer m s
      | Some (a, rest) \<Rightarrow> if length rest \<le> length s then a # finditer m rest else [])"
  by pat_completeness auto
termination by (relation "measure (\<lambda>(m, s). length s)") auto

text \<open>The value of the first match of the expected servo.\<close>

fun first_of :: "(int \<times> 'a) list \<Rightarrow> int option \<Rightarrow> (int \<times> 'a) option" where
  "first_of [] e = None"
| "first_of ((sid, v) # ms) e = (if e \<noteq> None \<and> e \<noteq> Some sid then first_of ms e else Some (sid, v))"

section \<open>Decoders\<close>

definition zl_decode_position_response :: "bytes \<Rightarrow> int option \<Rightarrow> int option" where
  "zl_decode_position_response data e =
     (if data = [] then None else map_option snd (first_of (finditer match_pos (decode_text data)) e))"

text \<open>\<open>"#OK!" in text\<close>\<close>

fun contains_text :: "string \<Rightarrow> string \<Rightarrow> bool" where
  "contains_text p s = (py_startswith s p \<or> (case s of [] \<Rightarrow> False | _ # t \<Rightarrow> contains_text p t))"

declare contains_text.simps [simp del]

definition zl_decode_ok_response :: "bytes \<Rightarrow> bool" where
  "zl_decode_ok_response data = (if data = [] then False else contains_text ''#OK!'' (decode_text data))"

definition zl_decode_id_response :: "bytes \<Rightarrow> int option \<Rightarrow> int option" where
  "zl_decode_id_response data e =
     (if data = [] then None else map_option fst (first_of (finditer match_id (decode_text data)) e))"

definition zl_decode_version_response :: "bytes \<Rightarrow> int option \<Rightarrow> string option" where
  "zl_decode_version_response data e =
     (if data = [] then None else map_option snd (first_of (finditer match_version (decode_text data)) e))"

definition zl_decode_mode_response :: "bytes \<Rightarrow> int option \<Rightarrow> int option" where
  "zl_decode_mode_response data e =
     (if data = [] then None else map_option snd (first_of (finditer match_mode (decode_text data)) e))"

definition zl_decode_temp_voltage_response :: "bytes \<Rightarrow> int option \<Rightarrow> (real \<times> real) option" where
  "zl_decode_temp_voltage_response data e =
     (if data = [] then None
      else map_option snd (first_of (finditer match_temp_voltage (decode_text data)) e))"

section \<open>Frames as text\<close>

lemma decode_text_append [simp]: "decode_text (a @ b) = decode_text a @ decode_text b"
  by (simp add: decode_text_def)

lemma decode_ascii:
  assumes "list_all (\<lambda>c. of_char c < (128 :: nat)) s"
  shows "decode_text (ascii_bytes s) = s"
proof -
  have *: "unat (of_nat (of_char c) :: 8 word) = (of_char c :: nat)" if "of_char c < (128 :: nat)" for c
    using that by (subst unat_of_nat) simp
  have "(of_nat (of_char c) :: 8 word) < 128" if "of_char c < (128 :: nat)" for c
    using that * [OF that] by (simp add: word_less_nat_alt)
  with assms * show ?thesis
    by (induction s) (simp_all add: decode_text_def ascii_bytes_def)
qed

lemma digits_ascii: "list_all is_digit s \<Longrightarrow> list_all (\<lambda>c. of_char c < (128 :: nat)) s"
  by (auto simp: list_all_iff is_digit_ascii)

lemma takeWhile_digits: "list_all is_digit s \<Longrightarrow> \<not> is_digit c \<Longrightarrow> takeWhile is_digit (s @ c # r) = s"
  by (induction s) auto

lemma eat_append [simp]: "eat p (p @ s) = Some s"
  by (simp add: eat_def py_startswith_def)

lemma eat_char: "eat [c] (d # s) = (if c = d then Some s else None)"
  by (auto simp: eat_def py_startswith_def)

lemma eat_head_append:
  assumes "length ds = 3" "list_all is_digit ds"
  shows "eat_head lit (''#'' @ ds @ lit @ r) = Some (int (parse_nat ds), r)"
  using assms by (simp add: eat_head_def eat_char)

lemma match_pos_text:
  assumes "length ds = 3" "list_all is_digit ds" "list_all is_digit ps" "1 \<le> length ps" "length ps \<le> 5"
  shows "match_pos (''#'' @ ds @ ''P'' @ (if neg then ''-'' else '''') @ ps @ ''!'' @ r) =
    Some ((int (parse_nat ds), if neg then - int (parse_nat ps) else int (parse_nat ps)), r)"
proof -
  obtain p qs where p: "ps = p # qs" using assms(4) by (cases ps) auto
  have "is_digit p" using assms(3) p by simp
  then have m: "p \<noteq> CHR ''-''" by (auto simp: is_digit_def)
  have e: "\<not> is_digit CHR ''!''" by (simp add: is_digit_def)
  let ?tail = "(if neg then ''-'' else '''') @ ps @ ''!'' @ r"
  have h: "eat_head ''P'' (''#'' @ ds @ ''P'' @ ?tail) = Some (int (parse_nat ds), ?tail)"
    by (rule eat_head_append [OF assms(1,2)])
  have n: "eat ''-'' (ps @ ''!'' @ r) = None" unfolding p using m by (simp add: eat_char)
  have t: "takeWhile is_digit (ps @ ''!'' @ r) = ps" using takeWhile_digits [OF assms(3) e] by simp
  show ?thesis
    unfolding match_pos_def h using n t assms(4,5) by (cases neg) (simp_all add: Let_def eat_char)
qed

lemmas match_pos_reply = match_pos_text [where neg = False, simplified]

lemma eat_Some: "eat p s = Some r \<longleftrightarrow> s = p @ r"
proof -
  have "s = p @ drop (length p) s" if "take (length p) s = p" using that by (metis append_take_drop_id)
  then show ?thesis by (auto simp: eat_def py_startswith_def)
qed

text \<open>What was matched ends at the first exclamation mark and matches the same before any rest.\<close>

lemma match_pos_shape:
  assumes "match_pos u = Some (v, r)"
  shows "\<exists>w. u = w @ CHR ''!'' # r \<and> CHR ''!'' \<notin> set w \<and> (\<forall>r'. match_pos (w @ CHR ''!'' # r') = Some (v, r'))"
proof -
  obtain sid q where h: "eat_head ''P'' u = Some (sid, q)"
    using assms by (auto simp: match_pos_def bind_eq_Some_conv)
  then obtain q1 where u: "u = ''#'' @ q1" and d3: "3 \<le> length q1" "list_all is_digit (take 3 q1)"
    and q: "drop 3 q1 = ''P'' @ q" "sid = int (parse_nat (take 3 q1))"
    by (auto simp: eat_head_def bind_eq_Some_conv eat_Some split: if_splits)
  define neg where "neg \<longleftrightarrow> eat ''-'' q \<noteq> None"
  obtain q2 where q2: "q = (if neg then ''-'' else '''') @ q2"
    "(case eat ''-'' q of Some x \<Rightarrow> (True, x) | None \<Rightarrow> (False, q)) = (neg, q2)"
  proof (cases "eat ''-'' q")
    case None
    then show ?thesis by (intro that [of q]) (simp_all add: neg_def)
  next
    case (Some x)
    then have "q = ''-'' @ x" by (simp only: eat_Some)
    with Some show ?thesis by (intro that [of x]) (simp_all add: neg_def)
  qed
  define ds where "ds = takeWhile is_digit q2"
  have m: "1 \<le> length ds" "length ds \<le> 5" "drop (length ds) q2 = ''!'' @ r"
    and v: "v = (sid, if neg then - int (parse_nat ds) else int (parse_nat ds))"
    using assms h q2(2) by (auto simp: match_pos_def Let_def eat_Some ds_def split: if_splits)
  have q2': "q2 = ds @ ''!'' @ r" using m(3) by (metis ds_def takeWhile_dropWhile_id dropWhile_eq_drop append_eq_conv_conj)
  have dd: "list_all is_digit ds" by (simp add: ds_def list_all_iff) (metis set_takeWhileD)
  have q1: "q1 = take 3 q1 @ ''P'' @ q" using q(1) by (metis append_take_drop_id)
  let ?w = "''#'' @ take 3 q1 @ ''P'' @ (if neg then ''-'' else '''') @ ds"
  have nd: "CHR ''!'' \<notin> set s" if "list_all is_digit s" for s
    using that by (auto simp: list_all_iff is_digit_def)
  have "u = ?w @ CHR ''!'' # r" using u q1 q2(1) q2' by simp
  moreover have "CHR ''!'' \<notin> set ?w" using nd [OF d3(2)] nd [OF dd] by simp
  moreover have "match_pos (?w @ CHR ''!'' # r') = Some (v, r')" for r'
    using match_pos_text [of "take 3 q1" ds neg r'] d3 dd m v q(2) by simp
  ultimately show ?thesis by blast
qed

lemma finditer_match:
  assumes "m s = Some (a, r)" "length r < length s"
  shows "finditer m s = a # finditer m r"
  using assms by (cases s) auto

lemma finditer_no_end: "CHR ''!'' \<notin> set s \<Longrightarrow> finditer match_pos s = []"
proof (induction s)
  case (Cons c s)
  have "match_pos (c # s) = None"
  proof (cases "match_pos (c # s)")
    case (Some vr)
    obtain v r where "vr = (v, r)" by (cases vr)
    with match_pos_shape [of "c # s" v r] Some obtain w where "c # s = w @ CHR ''!'' # r" by auto
    then have "CHR ''!'' \<in> set (c # s)" by simp
    with Cons.prems show ?thesis by blast
  qed
  with Cons show ?case by simp
qed simp

lemma finditer_prefix: "\<exists>more. finditer match_pos (s @ t) = finditer match_pos s @ more"
proof (induction "length s" arbitrary: s rule: less_induct)
  case less
  show ?case
  proof (cases s)
    case Nil
    then show ?thesis by simp
  next
    case (Cons c s')
    show ?thesis
    proof (cases "match_pos s")
      case (Some vr)
      obtain v r where vr: "vr = (v, r)" by (cases vr)
      from match_pos_shape [of s v r] Some vr obtain w where w: "s = w @ CHR ''!'' # r"
        "\<And>r'. match_pos (w @ CHR ''!'' # r') = Some (v, r')" by auto
      then have "match_pos (s @ t) = Some (v, r @ t)" "match_pos s = Some (v, r)" by simp_all
      with finditer_match [of match_pos "s @ t" v "r @ t"] finditer_match [of match_pos s v r] w(1)
      have "finditer match_pos (s @ t) = v # finditer match_pos (r @ t)" "finditer match_pos s = v # finditer match_pos r"
        by simp_all
      moreover have "length r < length s" using w(1) by simp
      ultimately show ?thesis using less by fastforce
    next
      case None
      show ?thesis
      proof (cases "match_pos (s @ t)")
        case None': None
        with None Cons have "finditer match_pos (s @ t) = finditer match_pos (s' @ t)"
          "finditer match_pos s = finditer match_pos s'" by simp_all
        with less [of s'] Cons show ?thesis by simp
      next
        case (Some vr)
        obtain v r where vr: "vr = (v, r)" by (cases vr)
        from match_pos_shape [of "s @ t" v r] Some vr obtain w where w: "s @ t = w @ CHR ''!'' # r" "CHR ''!'' \<notin> set w"
          "\<And>r'. match_pos (w @ CHR ''!'' # r') = Some (v, r')" by auto
        from w(1) consider us where "s = w @ us" "us @ t = CHR ''!'' # r" | us where "w = s @ us"
          by (auto simp: append_eq_append_conv2)
        then have "CHR ''!'' \<notin> set s"
        proof cases
          case 1
          show ?thesis
          proof (cases us)
            case Nil
            with 1 w(2) show ?thesis by simp
          next
            case (Cons x xs)
            with 1 w(3) [of xs] None show ?thesis by simp
          qed
        next
          case 2
          with w(2) show ?thesis by simp
        qed
        then show ?thesis by (simp add: finditer_no_end)
      qed
    qed
  qed
qed

lemma first_of_append: "first_of ms e = Some r \<Longrightarrow> first_of (ms @ ns) e = Some r"
  by (induction ms e rule: first_of.induct) (auto split: if_splits)

lemma zl_position_mono:
  "zl_decode_position_response a e = Some v \<Longrightarrow> zl_decode_position_response (a @ b) e = Some v"
  using finditer_prefix [of "decode_text a" "decode_text b"]
  by (auto simp: zl_decode_position_response_def first_of_append split: if_splits)

definition zl_reply :: "int \<Rightarrow> int \<Rightarrow> bytes" where
  "zl_reply sid pos = ascii_bytes (''#'' @ fmt 3 sid @ ''P'' @ fmt 4 pos @ ''!'')"

definition zl_id_ok :: "int \<Rightarrow> bool" where
  "zl_id_ok sid \<longleftrightarrow> 0 \<le> sid \<and> sid \<le> 999"

definition zl_pos_ok :: "int \<Rightarrow> bool" where
  "zl_pos_ok pos \<longleftrightarrow> 0 \<le> pos \<and> pos \<le> 9999"

lemma ascii_bytes_Nil [simp]: "ascii_bytes s = [] \<longleftrightarrow> s = []"
  by (simp add: ascii_bytes_def)

interpretation zl: servo_protocol "\<lambda>sid pos speed. Inr (zl_encode_move_command sid pos speed)"
  "\<lambda>sid. Inr (zl_encode_read_position_command sid)" zl_decode_position_response zl_reply zl_id_ok zl_pos_ok
proof unfold_locales
  show "\<exists>pkt. Inr (zl_encode_move_command sid pos time) = (Inr pkt :: bytes result) \<and> pkt \<noteq> []" for sid pos time
    by (simp add: zl_encode_move_command_def format_command_def)
  show "\<exists>pkt. Inr (zl_encode_read_position_command sid) = (Inr pkt :: bytes result) \<and> pkt \<noteq> []" for sid
    by (simp add: zl_encode_read_position_command_def zl_encode_position_read_def format_command_def)
  show "zl_decode_position_response [] e = None" for e
    by (simp add: zl_decode_position_response_def)
  show "zl_decode_position_response a e = Some v \<Longrightarrow> zl_decode_position_response (a @ b) e = Some v" for a b e v
    by (rule zl_position_mono)
  show "zl_decode_position_response (zl_reply sid pos @ rest) e =
      (if e = None \<or> e = Some sid then Some pos else zl_decode_position_response rest e)"
    if ok: "zl_id_ok sid" "zl_pos_ok pos" for sid pos rest e
  proof -
    note p = fmt_props [of 4 pos]
    note i = fmt_props [of 3 sid]
    let ?t = "''#'' @ fmt 3 sid @ ''P'' @ fmt 4 pos @ ''!''"
    have "list_all (\<lambda>c. of_char c < (128 :: nat)) ?t"
      using ok i p digits_ascii by (simp add: zl_id_ok_def zl_pos_ok_def)
    then have dt: "decode_text (zl_reply sid pos @ rest) = ?t @ decode_text rest"
      by (simp add: zl_reply_def decode_ascii del: append_Cons append_assoc)
    have "match_pos (?t @ decode_text rest) = Some ((sid, pos), decode_text rest)"
      using match_pos_reply [of "fmt 3 sid" "fmt 4 pos" "decode_text rest"] ok i p
      by (simp add: zl_id_ok_def zl_pos_ok_def)
    then have "finditer match_pos (decode_text (zl_reply sid pos @ rest)) =
        (sid, pos) # finditer match_pos (decode_text rest)"
      unfolding dt by (rule finditer_match) simp
    moreover have "zl_reply sid pos @ rest \<noteq> []" by (simp add: zl_reply_def)
    moreover have "zl_decode_position_response rest e = map_option snd (first_of (finditer match_pos (decode_text rest)) e)"
      by (simp add: zl_decode_position_response_def decode_text_def)
    ultimately show ?thesis by (auto simp: zl_decode_position_response_def)
  qed
qed

section \<open>Properties\<close>

text \<open>
  The text servos share the bus law of the binary ones: from a buffer in which several of
  them have answered the driver reads the position of the servo it asked, and nothing when that
  servo is missing.
\<close>

theorem zl_shared_bus_position:
  assumes "list_all (\<lambda>(sid, pos). zl_id_ok sid \<and> zl_pos_ok pos) rs"
  shows "zl_decode_position_response (concat (map (\<lambda>(sid, pos). zl_reply sid pos) rs)) (Some sid) = map_of rs sid"
  using zl.bus_position [OF assms, of sid] by (simp add: zl.bus_buffer_def)

theorem zl_shared_bus_position_witness:
  "zl_decode_position_response (concat (map (\<lambda>(sid, pos). zl_reply sid pos) [(3, 1500), (8, 20)])) (Some 8)
    = Some 20"
proof -
  have "list_all (\<lambda>(sid, pos). zl_id_ok sid \<and> zl_pos_ok pos) [(3, 1500), (8, 20)]"
    by (simp add: zl_id_ok_def zl_pos_ok_def)
  from zl_shared_bus_position [OF this, of 8] show ?thesis by simp
qed

text \<open>
  A text move command always has the fixed fifteen-character form the servo parses: for
  every id, position and time the fields are exactly three and four digits wide and read back as
  the values clamped to 0..999 and 0..9999.
\<close>

theorem zl_move_has_fixed_form:
  "\<exists>i p t. decode_text (zl_encode_move_command servo_id position speed) = ''#'' @ i @ ''P'' @ p @ ''T'' @ t @ ''!''
    \<and> list_all is_digit (i @ p @ t) \<and> length i = 3 \<and> length p = 4 \<and> length t = 4
    \<and> int (parse_nat i) = zl_sid servo_id
    \<and> int (parse_nat p) = clamp 0 9999 position \<and> int (parse_nat t) = clamp 0 9999 speed"
proof -
  have b: "0 \<le> zl_sid servo_id" "zl_sid servo_id < 10 ^ 3" by (simp_all add: zl_sid_def)
  have c: "0 \<le> clamp 0 9999 v" "clamp 0 9999 v < 10 ^ 4" for v by (simp_all add: clamp_def)
  note i = fmt_props [OF _ b] and f = fmt_props [OF _ c]
  let ?t = "''#'' @ fmt 3 (zl_sid servo_id) @ ''P'' @ fmt 4 (clamp 0 9999 position) @ ''T'' @
    fmt 4 (clamp 0 9999 speed) @ ''!''"
  have "list_all (\<lambda>c. of_char c < (128 :: nat)) ?t"
    using i f digits_ascii by simp
  then have "decode_text (zl_encode_move_command servo_id position speed) = ?t"
    by (simp add: zl_encode_move_command_def format_command_def decode_ascii del: append_Cons)
  with i f b c show ?thesis
    by (intro exI [of _ "fmt 3 (zl_sid servo_id)"] exI [of _ "fmt 4 (clamp 0 9999 position)"]
        exI [of _ "fmt 4 (clamp 0 9999 speed)"]) simp
qed


end
