(* ===== verification/Bus_Port_Driver.thy ===== *)
theory Bus_Port_Driver
  imports Servo_Messages LX_Protocol ZL_Protocol
begin

text \<open>
  The serial port driver of \<open>servo_hardware/bus_port_driver.py\<close>: unit conversions, the table of
  protocol commands, the move topics, the read and execute services and the safety handlers.

  The serial port (pyserial) is a parameter of every operation that uses it: a \<open>serial_run\<close> says
  whether the port opens, whether the write raises, and what the successive reads return before
  the deadline. \<open>pd_frames\<close> collects every frame handed to \<open>write\<close>, \<open>pd_states\<close> every state published.
  The float conversions are exact quotients rounded half to even; their operands are such that
  the binary floats of the code round to the same integer.
\<close>

section \<open>Unit conversions\<close>

definition angle_to_pulse :: "int \<Rightarrow> int" where
  "angle_to_pulse pos = round_half_even (500 * 180 + pos * 2000) 180"

definition position_to_pulse :: "int \<Rightarrow> int" where
  "position_to_pulse pos =
     (if 0 \<le> pos \<and> pos \<le> 180 then angle_to_pulse pos
      else if 500 \<le> pos \<and> pos \<le> 2500 then pos
      else if 0 \<le> pos \<and> pos \<le> 1000 then round_half_even (500 * 1000 + pos * 2000) 1000
      else clamp 500 2500 pos)"

definition pulse_to_lx_unit :: "int \<Rightarrow> int" where
  "pulse_to_lx_unit pulse = round_half_even (125 * 2000 + (clamp 500 2500 pulse - 500) * 750) 2000"

definition lx_unit_to_pulse :: "int \<Rightarrow> int" where
  "lx_unit_to_pulse unit = round_half_even (500 * 750 + (clamp 125 875 unit - 125) * 2000) 750"

definition pulse_to_zl_position :: "int \<Rightarrow> int" where
  "pulse_to_zl_position pulse = round_half_even (833 * 2000 + (clamp 500 2500 pulse - 500) * 1334) 2000"

definition zl_position_to_pulse :: "int \<Rightarrow> int" where
  "zl_position_to_pulse position = round_half_even (500 * 1334 + (clamp 833 2167 position - 833) * 2000) 1334"

text \<open>Protocol position and pulse of a move request.\<close>

definition normalize_move_target :: "string \<Rightarrow> int \<Rightarrow> int \<times> int" where
  "normalize_move_target protocol pos =
     (if protocol = ''lx'' then
        (if 500 \<le> pos \<and> pos \<le> 2500 then (pulse_to_lx_unit pos, pos)
         else if 0 \<le> pos \<and> pos \<le> 180
           then (let pulse = angle_to_pulse pos in (pulse_to_lx_unit pulse, pulse))
         else if 125 \<le> pos \<and> pos \<le> 875 then (pos, lx_unit_to_pulse pos)
         else (let unit = clamp 125 875 pos in (unit, lx_unit_to_pulse unit)))
      else if protocol = ''zl'' then
        (if 500 \<le> pos \<and> pos \<le> 2500 then (pulse_to_zl_position pos, pos)
         else if 0 \<le> pos \<and> pos \<le> 180
           then (let pulse = angle_to_pulse pos in (pulse_to_zl_position pulse, pulse))
         else if 833 \<le> pos \<and> pos \<le> 2167 then (pos, zl_position_to_pulse pos)
         else (let zl = clamp 833 2167 pos in (zl, zl_position_to_pulse zl)))
      else (let pulse = position_to_pulse pos in (pulse, pulse)))"

section \<open>The command tables\<close>

text \<open>An encoder with the number of its parameters, and the decoder of the reply if there is one.\<close>

record command_spec =
  sp_arity :: nat
  sp_encode :: "int list \<Rightarrow> bytes result"
  sp_decode :: "(bytes \<Rightarrow> int option \<Rightarrow> decoded option) option"

definition spec1 :: "(int \<Rightarrow> bytes result) \<Rightarrow> (bytes \<Rightarrow> int option \<Rightarrow> decoded option) option \<Rightarrow> command_spec" where
  "spec1 f d = \<lparr>sp_arity = 1, sp_encode = \<lambda>a. f (a ! 0), sp_decode = d\<rparr>"

definition spec2 :: "(int \<Rightarrow> int \<Rightarrow> bytes result) \<Rightarrow> command_spec" where
  "spec2 f = \<lparr>sp_arity = 2, sp_encode = \<lambda>a. f (a ! 0) (a ! 1), sp_decode = None\<rparr>"

definition spec3 :: "(int \<Rightarrow> int \<Rightarrow> int \<Rightarrow> bytes result) \<Rightarrow> command_spec" where
  "spec3 f = \<lparr>sp_arity = 3, sp_encode = \<lambda>a. f (a ! 0) (a ! 1) (a ! 2), sp_decode = None\<rparr>"

definition spec4 :: "(int \<Rightarrow> int \<Rightarrow> int \<Rightarrow> int \<Rightarrow> bytes result) \<Rightarrow> command_spec" where
  "spec4 f = \<lparr>sp_arity = 4, sp_encode = \<lambda>a. f (a ! 0) (a ! 1) (a ! 2) (a ! 3), sp_decode = None\<rparr>"

definition dec_int :: "(bytes \<Rightarrow> int option \<Rightarrow> int option) \<Rightarrow> (bytes \<Rightarrow> int option \<Rightarrow> decoded option) option" where
  "dec_int f = Some (\<lambda>raw e. map_option D_int (f raw e))"

definition dec_two :: "(bytes \<Rightarrow> int option \<Rightarrow> (int \<times> int) option) \<Rightarrow> (bytes \<Rightarrow> int option \<Rightarrow> decoded option) option" where
  "dec_two f = Some (\<lambda>raw e. map_option (\<lambda>(a, b). D_ints [a, b]) (f raw e))"

definition lx_specs :: "(string \<times> command_spec) list" where
  "lx_specs =
     [(''move_command'', spec3 lx_encode_move_command),
      (''read_position_command'', spec1 lx_encode_read_position_command (dec_int lx_decode_position_response)),
      (''move_time_write'', spec3 encode_move_time_write),
      (''move_time_read'', spec1 encode_move_time_read
         (dec_two (\<lambda>raw e. decode_move_time_response raw e False))),
      (''move_time_wait_write'', spec3 encode_move_time_wait_write),
      (''move_time_wait_read'', spec1 encode_move_time_wait_read
         (dec_two (\<lambda>raw e. decode_move_time_response raw e True))),
      (''move_start'', spec1 encode_move_start None),
      (''move_stop'', spec1 encode_move_stop None),
      (''id_write'', spec2 encode_id_write),
      (''id_read'', spec1 encode_id_read (dec_int decode_id_response)),
      (''angle_offset_adjust'', spec2 encode_angle_offset_adjust),
      (''angle_offset_write'', spec1 encode_angle_offset_write None),
      (''angle_offset_read'', spec1 encode_angle_offset_read (dec_int decode_angle_offset_response)),
      (''angle_limit_write'', spec3 encode_angle_limit_write),
      (''angle_limit_read'', spec1 encode_angle_limit_read (dec_two decode_angle_limit_response)),
      (''vin_limit_write'', spec3 encode_vin_limit_write),
      (''vin_limit_read'', spec1 encode_vin_limit_read (dec_two decode_vin_limit_response)),
      (''temp_max_limit_write'', spec2 encode_temp_max_limit_write),
      (''temp_max_limit_read'', spec1 encode_temp_max_limit_read (dec_int decode_temp_max_limit_response)),
      (''temp_read'', spec1 encode_temp_read (dec_int decode_temp_response)),
      (''vin_read'', spec1 encode_vin_read (dec_int decode_vin_response)),
      (''pos_read'', spec1 encode_pos_read (dec_int decode_pos_response)),
      (''or_motor_mode_write'', spec4 encode_or_motor_mode_write),
      (''or_motor_mode_read'', spec1 encode_or_motor_mode_read
         (Some (\<lambda>raw e. map_option (\<lambda>(a, b, c). D_ints [a, b, c]) (decode_or_motor_mode_response raw e)))),
      (''load_or_unload_write'', spec2 encode_load_or_unload_write),
      (''torque_restore'', spec1 encode_torque_restore None),
      (''torque_release'', spec1 encode_torque_release None),
      (''torque_switch_compat_write'', spec2 encode_torque_switch_compat_write),
      (''torque_restore_compat'', spec1 encode_torque_restore_compat None),
      (''torque_release_compat'', spec1 encode_torque_release_compat None),
      (''load_or_unload_read'', spec1 encode_load_or_unload_read (dec_int decode_load_or_unload_response)),
      (''led_ctrl_write'', spec2 encode_led_ctrl_write),
      (''led_ctrl_read'', spec1 encode_led_ctrl_read (dec_int decode_led_ctrl_response)),
      (''led_error_write'', spec2 encode_led_error_write),
      (''led_error_read'', spec1 encode_led_error_read (dec_int decode_led_error_response)),
      (''dis_read'', spec1 encode_dis_read (dec_int decode_dis_response))]"

definition zl1 :: "(int \<Rightarrow> bytes) \<Rightarrow> (bytes \<Rightarrow> int option \<Rightarrow> decoded option) option \<Rightarrow> command_spec" where
  "zl1 f d = spec1 (\<lambda>i. Inr (f i)) d"

definition zl2 :: "(int \<Rightarrow> int \<Rightarrow> bytes) \<Rightarrow> command_spec" where
  "zl2 f = spec2 (\<lambda>i a. Inr (f i a))"

definition zl3 :: "(int \<Rightarrow> int \<Rightarrow> int \<Rightarrow> bytes) \<Rightarrow> command_spec" where
  "zl3 f = spec3 (\<lambda>i a b. Inr (f i a b))"

definition zl_specs :: "(string \<times> command_spec) list" where
  "zl_specs =
     [(''move_command'', zl3 zl_encode_move_command),
      (''read_position_command'', zl1 zl_encode_read_position_command (dec_int zl_decode_position_response)),
      (''version_read'', zl1 zl_encode_version_read
         (Some (\<lambda>raw e. map_option D_text (zl_decode_version_response raw e)))),
      (''id_read'', zl1 zl_encode_id_read (dec_int zl_decode_id_response)),
      (''id_write'', zl2 zl_encode_id_write),
      (''torque_release'', zl1 zl_encode_torque_release None),
      (''torque_restore'', zl1 zl_encode_torque_restore None),
      (''mode_read'', zl1 zl_encode_mode_read (dec_int zl_decode_mode_response)),
      (''mode_write'', zl2 zl_encode_mode_write),
      (''position_read'', zl1 zl_encode_position_read (dec_int zl_decode_position_response)),
      (''motion_pause'', zl1 zl_encode_motion_pause None),
      (''motion_continue'', zl1 zl_encode_motion_continue None),
      (''motion_stop'', zl1 zl_encode_motion_stop None),
      (''baudrate_write'', zl2 zl_encode_baudrate_write),
      (''middle_calibrate'', zl1 zl_encode_middle_calibrate None),
      (''startup_position_set'', zl1 zl_encode_startup_position_set None),
      (''startup_position_disable'', zl1 zl_encode_startup_position_disable None),
      (''startup_position_restore'', zl1 zl_encode_startup_position_restore None),
      (''min_position_set'', zl1 zl_encode_min_position_set None),
      (''max_position_set'', zl1 zl_encode_max_position_set None),
      (''factory_reset'', zl1 zl_encode_factory_reset None),
      (''temp_voltage_read'', zl1 zl_encode_temp_voltage_read
         (Some (\<lambda>raw e. map_option (\<lambda>(t, v). D_reals [t, v]) (zl_decode_temp_voltage_response raw e))))]"

definition lx_aliases :: "(string \<times> string) list" where
  "lx_aliases =
     [(''move'', ''move_command''), (''read_position'', ''read_position_command''),
      (''position_read'', ''pos_read''), (''load_write'', ''load_or_unload_write''),
      (''load_read'', ''load_or_unload_read''), (''restore_torque'', ''torque_restore''),
      (''release_torque'', ''torque_release''), (''restore_torque_compat'', ''torque_restore_compat''),
      (''release_torque_compat'', ''torque_release_compat''),
      (''torque_switch_compat'', ''torque_switch_compat_write'')]"

definition zl_aliases :: "(string \<times> string) list" where
  "zl_aliases =
     [(''move'', ''move_command''), (''send_position'', ''move_command''),
      (''read_position'', ''read_position_command''), (''get_version'', ''version_read''),
      (''read_id'', ''id_read''), (''set_id'', ''id_write''), (''release_torque'', ''torque_release''),
      (''restore_torque'', ''torque_restore''), (''read_mode'', ''mode_read''),
      (''set_mode'', ''mode_write''), (''pause_motion'', ''motion_pause''),
      (''continue_motion'', ''motion_continue''), (''stop_motion'', ''motion_stop''),
      (''set_baudrate'', ''baudrate_write''), (''calibrate_middle'', ''middle_calibrate''),
      (''set_startup_position'', ''startup_position_set''),
      (''disable_startup_position'', ''startup_position_disable''),
      (''restore_startup_position'', ''startup_position_restore''),
      (''set_min_position'', ''min_position_set''), (''set_max_position'', ''max_position_set''),
      (''read_temp_voltage'', ''temp_voltage_read'')]"

definition command_specs :: "string \<Rightarrow> (string \<times> command_spec) list" where
  "command_specs protocol = (if protocol = ''lx'' then lx_specs else if protocol = ''zl'' then zl_specs else [])"

definition command_aliases :: "string \<Rightarrow> (string \<times> string) list" where
  "command_aliases protocol = (if protocol = ''lx'' then lx_aliases else if protocol = ''zl'' then zl_aliases else [])"

definition normalize_command_name :: "string \<Rightarrow> string" where
  "normalize_command_name command =
     (let s = py_lower (py_strip command);
          u = py_replace_char CHR '' '' CHR ''_'' (py_replace_char CHR ''-'' CHR ''_'' s);
          e = py_remove_prefix ''encode_'' u
      in py_remove_prefix ''servo_'' e)"

definition resolve_command :: "string \<Rightarrow> string \<Rightarrow> (string \<times> command_spec) option" where
  "resolve_command protocol command =
     (let key = normalize_command_name command;
          name = (case map_of (command_aliases protocol) key of None \<Rightarrow> key | Some a \<Rightarrow> a)
      in map_option (Pair name) (map_of (command_specs protocol) name))"

definition call_with_checked_params :: "command_spec \<Rightarrow> int list \<Rightarrow> bytes result" where
  "call_with_checked_params spec args =
     (if length args \<noteq> sp_arity spec then Inl (ValueError ''parameter count'') else sp_encode spec args)"

section \<open>The port and the driver's state\<close>

text \<open>
  One use of the serial port: does it open, does \<open>write\<close> raise, what do the reads return until
  the deadline, does a read raise then. A poll that finds nothing waiting is an empty chunk.
\<close>

record serial_run =
  sr_ready :: bool
  sr_write_fails :: bool
  sr_chunks :: "bytes list"
  sr_read_fails :: bool

record port_driver =
  pd_zl_ids :: "int set"
  pd_lx_ids :: "int set"
  pd_default_speed :: int
  pd_latch :: safety_latch
  pd_frames :: "bytes list"
  pd_states :: "servo_state list"

definition pd_init :: "int list \<Rightarrow> int list \<Rightarrow> int \<Rightarrow> port_driver" where
  "pd_init zl_ids lx_ids default_speed =
     \<lparr>pd_zl_ids = set (filter (\<lambda>x. 0 < x) zl_ids), pd_lx_ids = set (filter (\<lambda>x. 0 < x) lx_ids),
      pd_default_speed = default_speed, pd_latch = latch_init, pd_frames = [], pd_states = []\<rparr>"

definition is_allowed_id :: "string \<Rightarrow> int \<Rightarrow> port_driver \<Rightarrow> bool" where
  "is_allowed_id protocol servo_id d \<longleftrightarrow>
     (if protocol = ''zl'' then pd_zl_ids d = {} \<or> servo_id \<in> pd_zl_ids d
      else if protocol = ''lx'' then pd_lx_ids d = {} \<or> servo_id \<in> pd_lx_ids d
      else False)"

definition publish_state :: "int \<Rightarrow> int \<Rightarrow> int \<Rightarrow> port_driver \<Rightarrow> port_driver" where
  "publish_state servo_id pulse error_code d =
     d\<lparr>pd_states := pd_states d @
        [\<lparr>ss_servo_type = ''bus'', ss_servo_id = servo_id, ss_position = clamp 0 65535 pulse,
          ss_load = -1, ss_temperature = -1, ss_error_code = clamp 0 255 error_code\<rparr>]\<rparr>"

definition write_frame :: "bytes \<Rightarrow> serial_run \<Rightarrow> port_driver \<Rightarrow> bool \<times> port_driver" where
  "write_frame frame run d =
     (if \<not> sr_ready run then (False, d)
      else (\<not> sr_write_fails run, d\<lparr>pd_frames := pd_frames d @ [frame]\<rparr>))"

section \<open>Safety handlers\<close>

definition pd_on_driver_safety :: "bool \<Rightarrow> ros_stamp \<Rightarrow> int \<Rightarrow> port_driver \<Rightarrow> port_driver" where
  "pd_on_driver_safety active stamp now d =
     d\<lparr>pd_latch := snd (observe_authority active (ros_time_to_ns stamp) now (pd_latch d))\<rparr>"

definition pd_handle_driver_safety ::
    "bool \<Rightarrow> ros_stamp \<Rightarrow> int \<Rightarrow> port_driver \<Rightarrow> safety_response \<times> port_driver" where
  "pd_handle_driver_safety active stamp now d =
     (let l = snd (observe_authority active (ros_time_to_ns stamp) now (pd_latch d));
          success = (latch_latched l = active)
      in ((success, if success then '''' else ''stale_safety_state''), d\<lparr>pd_latch := l\<rparr>))"

section \<open>Moves\<close>

definition protocol_encode_move :: "string \<Rightarrow> int \<Rightarrow> int \<Rightarrow> int \<Rightarrow> bytes result" where
  "protocol_encode_move protocol servo_id position speed =
     (if protocol = ''lx'' then lx_encode_move_command servo_id position speed
      else if protocol = ''zl'' then Inr (zl_encode_move_command servo_id position speed)
      else Inl (KeyError protocol))"

text \<open>The state part of an exception is the unchanged driver: it is caught in the topic callback.\<close>

definition execute_move :: "string \<Rightarrow> int \<Rightarrow> int \<Rightarrow> int \<Rightarrow> serial_run \<Rightarrow> port_driver \<Rightarrow> port_driver result" where
  "execute_move protocol servo_id position speed run d =
     (if \<not> is_allowed_id protocol servo_id d then Inr d
      else let (proto_pos, pulse) = normalize_move_target protocol position
           in case protocol_encode_move protocol servo_id proto_pos (clamp 0 30000 speed) of
                Inl e \<Rightarrow> Inl e
              | Inr frame \<Rightarrow>
                  (let (success, d1) = write_frame frame run d
                   in Inr (publish_state servo_id pulse (if success then 0 else 1) d1)))"

definition on_move_command :: "string \<Rightarrow> servo_command \<Rightarrow> serial_run \<Rightarrow> port_driver \<Rightarrow> port_driver" where
  "on_move_command protocol msg run d =
     (if \<not> is_bus_command msg then d
      else let (accepted, l) = latch_admit (ros_time_to_ns (sc_stamp msg)) False 0 (pd_latch d);
               d1 = d\<lparr>pd_latch := l\<rparr>;
               speed = (if 0 < sc_speed msg then sc_speed msg else pd_default_speed d)
           in if \<not> accepted then d1
              else case execute_move protocol (sc_servo_id msg) (sc_position msg) speed run d1 of
                     Inl e \<Rightarrow> d1
                   | Inr d2 \<Rightarrow> d2)"

definition on_zl_command :: "servo_command \<Rightarrow> serial_run \<Rightarrow> port_driver \<Rightarrow> port_driver" where
  "on_zl_command msg run d = on_move_command ''zl'' msg run d"

definition on_lx_command :: "servo_command \<Rightarrow> serial_run \<Rightarrow> port_driver \<Rightarrow> port_driver" where
  "on_lx_command msg run d = on_move_command ''lx'' msg run d"

section \<open>Exchanges\<close>

text \<open>Reading until a reply decodes or the deadline passes; the buffer grows with every chunk.\<close>

fun poll :: "(bytes \<Rightarrow> 'a option) \<Rightarrow> bytes \<Rightarrow> bytes list \<Rightarrow> 'a option \<times> bytes" where
  "poll dec buffer [] = (None, buffer)"
| "poll dec buffer (chunk # chunks) =
     (if chunk = [] then poll dec buffer chunks
      else case dec (buffer @ chunk) of
             Some v \<Rightarrow> (Some v, buffer @ chunk)
           | None \<Rightarrow> poll dec (buffer @ chunk) chunks)"

text \<open>\<open>(ok, decoded, raw)\<close> and the driver after it.\<close>

definition exchange_with_servo ::
    "bytes \<Rightarrow> int \<Rightarrow> (bytes \<Rightarrow> int option \<Rightarrow> decoded option) option \<Rightarrow> serial_run \<Rightarrow> port_driver \<Rightarrow>
     (bool \<times> decoded option \<times> bytes) \<times> port_driver" where
  "exchange_with_servo frame servo_id decode run d =
     (if \<not> sr_ready run then ((False, None, []), d)
      else let d1 = d\<lparr>pd_frames := pd_frames d @ [frame]\<rparr>
           in if sr_write_fails run then ((False, None, []), d1)
              else case decode of
                     None \<Rightarrow> ((True, None, []), d1)
                   | Some dec \<Rightarrow>
                       (let (v, raw) = poll (\<lambda>buf. dec buf (Some servo_id)) [] (sr_chunks run)
                        in ((v \<noteq> None \<or> \<not> sr_read_fails run, v, raw), d1)))"

definition numeric_result :: "decoded option \<Rightarrow> int \<times> int list" where
  "numeric_result v =
     (case v of
        Some (D_int i) \<Rightarrow> (i, [i])
      | Some (D_ints is) \<Rightarrow> (if is = [] then 0 else hd is, is)
      | _ \<Rightarrow> (0, []))"

definition maybe_publish_read_state :: "string \<Rightarrow> string \<Rightarrow> int \<Rightarrow> decoded option \<Rightarrow> port_driver \<Rightarrow> port_driver" where
  "maybe_publish_read_state protocol command_name servo_id v d =
     (case v of
        Some (D_int i) \<Rightarrow>
          if command_name \<in> {''read_position_command'', ''position_read''} then
            (if protocol = ''lx'' then publish_state servo_id (lx_unit_to_pulse i) 0 d
             else if protocol = ''zl'' then publish_state servo_id (zl_position_to_pulse i) 0 d
             else d)
          else if command_name = ''pos_read'' \<and> 0 \<le> i \<and> i \<le> 1000
            then publish_state servo_id (lx_unit_to_pulse i) 0 d
          else d
      | _ \<Rightarrow> d)"

section \<open>The execute service\<close>

definition handle_execute_command_unlocked ::
    "execute_request \<Rightarrow> serial_run \<Rightarrow> port_driver \<Rightarrow> execute_response \<times> port_driver" where
  "handle_execute_command_unlocked req run d =
     (let servo_id = xq_servo_id req; protocol = norm_text (xq_protocol req);
          command = py_strip (xq_command req)
      in if protocol \<noteq> ''zl'' \<and> protocol \<noteq> ''lx'' then (execute_error protocol 2, d)
         else if \<not> is_allowed_id protocol servo_id d then (execute_error protocol 3, d)
         else case resolve_command protocol command of
                None \<Rightarrow> (execute_error protocol 4, d)
              | Some (name, spec) \<Rightarrow>
                  (case call_with_checked_params spec (servo_id # xq_params req) of
                     Inl e \<Rightarrow> (execute_error protocol 7, d)
                   | Inr frame \<Rightarrow>
                       (let ((ok, v, raw), d1) = exchange_with_servo frame servo_id (sp_decode spec) run d
                        in if \<not> ok then (execute_error protocol 9, d1)
                           else if sp_decode spec \<noteq> None \<and> v = None then (execute_error protocol 10, d1)
                           else (\<lparr>xr_success = True, xr_protocol = protocol, xr_error_code = 0,
                                  xr_value = fst (numeric_result v), xr_values = snd (numeric_result v),
                                  xr_raw = raw, xr_result = v\<rparr>,
                                 maybe_publish_read_state protocol name servo_id v d1))))"

definition handle_execute_command ::
    "execute_request \<Rightarrow> int \<Rightarrow> serial_run \<Rightarrow> port_driver \<Rightarrow> execute_response \<times> port_driver" where
  "handle_execute_command req now run d =
     (if is_stop_command (xq_command req) \<or> is_motion_command (xq_command req) then
        (let (admitted, l) = admit_protocol_command (xq_command req) now (ros_time_to_ns (xq_stamp req)) (pd_latch d);
             d1 = d\<lparr>pd_latch := l\<rparr>
         in if \<not> admitted then (execute_error (norm_text (xq_protocol req)) 11, d1)
            else handle_execute_command_unlocked req run d1)
      else handle_execute_command_unlocked req run d)"

section \<open>The read service\<close>

definition protocol_decode_position :: "string \<Rightarrow> bytes \<Rightarrow> int option \<Rightarrow> int option" where
  "protocol_decode_position protocol =
     (if protocol = ''zl'' then zl_decode_position_response else lx_decode_position_response)"

definition protocol_encode_read :: "string \<Rightarrow> int \<Rightarrow> bytes result" where
  "protocol_encode_read protocol servo_id =
     (if protocol = ''zl'' then Inr (zl_encode_read_position_command servo_id)
      else lx_encode_read_position_command servo_id)"

definition read_position_once :: "string \<Rightarrow> int \<Rightarrow> serial_run \<Rightarrow> port_driver \<Rightarrow> int option \<times> port_driver" where
  "read_position_once protocol servo_id run d =
     (if protocol \<notin> {''zl'', ''lx''} \<or> \<not> sr_ready run then (None, d)
      else case protocol_encode_read protocol servo_id of
             Inl e \<Rightarrow> (None, d)
           | Inr cmd \<Rightarrow>
               (let d1 = d\<lparr>pd_frames := pd_frames d @ [cmd]\<rparr>
                in if sr_write_fails run then (None, d1)
                   else (fst (poll (\<lambda>buf. protocol_decode_position protocol buf (Some servo_id)) []
                          (sr_chunks run)), d1)))"

definition pick_protocol_order :: "string \<Rightarrow> int \<Rightarrow> port_driver \<Rightarrow> string list" where
  "pick_protocol_order requested servo_id d =
     (let r = norm_text requested
      in if r = ''zl'' \<or> r = ''lx'' then [r]
         else let order = (if is_allowed_id ''lx'' servo_id d then [''lx''] else []) @
                          (if is_allowed_id ''zl'' servo_id d then [''zl''] else [])
              in if order = [] then [''lx'', ''zl''] else order)"

text \<open>The protocols are tried in order, each with its own use of the port.\<close>

fun read_first :: "string list \<Rightarrow> int \<Rightarrow> (string \<Rightarrow> serial_run) \<Rightarrow> port_driver \<Rightarrow> read_response \<times> port_driver" where
  "read_first [] servo_id runs d =
     (\<lparr>rr_success = False, rr_position = 0, rr_protocol = '''', rr_error_code = 1\<rparr>, d)"
| "read_first (protocol # rest) servo_id runs d =
     (case read_position_once protocol servo_id (runs protocol) d of
        (None, d1) \<Rightarrow> read_first rest servo_id runs d1
      | (Some pos, d1) \<Rightarrow>
          (let pulse = (if protocol = ''zl'' then zl_position_to_pulse pos else lx_unit_to_pulse pos)
           in (\<lparr>rr_success = True, rr_position = clamp 0 65535 pulse, rr_protocol = protocol,
                rr_error_code = 0\<rparr>,
               publish_state servo_id pulse 0 d1)))"

definition handle_read_position ::
    "int \<Rightarrow> string \<Rightarrow> (string \<Rightarrow> serial_run) \<Rightarrow> port_driver \<Rightarrow> read_response \<times> port_driver" where
  "handle_read_position servo_id protocol runs d =
     read_first (pick_protocol_order protocol servo_id d) servo_id runs d"

section \<open>Facts about the conversions\<close>

lemmas conversion_defs = pulse_to_lx_unit_def lx_unit_to_pulse_def pulse_to_zl_position_def
  zl_position_to_pulse_def angle_to_pulse_def

lemma clamp_ranges:
  "500 \<le> clamp 500 2500 x" "clamp 500 2500 x \<le> 2500" "125 \<le> clamp 125 875 x" "clamp 125 875 x \<le> 875"
  "833 \<le> clamp 833 2167 x" "clamp 833 2167 x \<le> 2167"
  by (simp_all add: clamp_def)

lemma lx_unit_near:
  "1500 * clamp 500 2500 p - 250000 - 2000 \<le> 4000 * pulse_to_lx_unit p" "4000 * pulse_to_lx_unit p \<le> 1500 * clamp 500 2500 p - 250000 + 2000"
  using round_half_even_bounds [of 2000 "125 * 2000 + (clamp 500 2500 p - 500) * 750"] by (simp_all add: pulse_to_lx_unit_def algebra_simps)

lemma lx_pulse_near:
  "4000 * clamp 125 875 u + 250000 - 750 \<le> 1500 * lx_unit_to_pulse u" "1500 * lx_unit_to_pulse u \<le> 4000 * clamp 125 875 u + 250000 + 750"
  using round_half_even_bounds [of 750 "500 * 750 + (clamp 125 875 u - 125) * 2000"] by (simp_all add: lx_unit_to_pulse_def algebra_simps)

lemma zl_position_near:
  "2668 * clamp 500 2500 p + 1998000 - 2000 \<le> 4000 * pulse_to_zl_position p" "4000 * pulse_to_zl_position p \<le> 2668 * clamp 500 2500 p + 1998000 + 2000"
  using round_half_even_bounds [of 2000 "833 * 2000 + (clamp 500 2500 p - 500) * 1334"] by (simp_all add: pulse_to_zl_position_def algebra_simps)

lemma zl_pulse_near:
  "4000 * clamp 833 2167 q - 1998000 - 1334 \<le> 2668 * zl_position_to_pulse q" "2668 * zl_position_to_pulse q \<le> 4000 * clamp 833 2167 q - 1998000 + 1334"
  using round_half_even_bounds [of 1334 "500 * 1334 + (clamp 833 2167 q - 833) * 2000"] by (simp_all add: zl_position_to_pulse_def algebra_simps)

lemma angle_near:
  "4000 * a + 180000 - 180 \<le> 360 * angle_to_pulse a" "360 * angle_to_pulse a \<le> 4000 * a + 180000 + 180"
  using round_half_even_bounds [of 180 "500 * 180 + a * 2000"] by (simp_all add: angle_to_pulse_def algebra_simps)

lemma conversion_ranges:
  "125 \<le> pulse_to_lx_unit p" "pulse_to_lx_unit p \<le> 875"
  "500 \<le> lx_unit_to_pulse u" "lx_unit_to_pulse u \<le> 2500"
  "833 \<le> pulse_to_zl_position p" "pulse_to_zl_position p \<le> 2167"
  "500 \<le> zl_position_to_pulse q" "zl_position_to_pulse q \<le> 2500"
  subgoal using clamp_ranges(1) [of p] lx_unit_near [of p] by linarith
  subgoal using clamp_ranges(2) [of p] lx_unit_near [of p] by linarith
  subgoal using clamp_ranges(3) [of u] lx_pulse_near [of u] by linarith
  subgoal using clamp_ranges(4) [of u] lx_pulse_near [of u] by linarith
  subgoal using clamp_ranges(1) [of p] zl_position_near [of p] by linarith
  subgoal using clamp_ranges(2) [of p] zl_position_near [of p] by linarith
  subgoal using clamp_ranges(5) [of q] zl_pulse_near [of q] by linarith
  subgoal using clamp_ranges(6) [of q] zl_pulse_near [of q] by linarith
  done

lemma angle_range:
  assumes "0 \<le> a" "a \<le> 180"
  shows "500 \<le> angle_to_pulse a \<and> angle_to_pulse a \<le> 2500"
proof
  show "500 \<le> angle_to_pulse a" using angle_near [of a] assms by linarith
  show "angle_to_pulse a \<le> 2500" using angle_near [of a] assms by linarith
qed

lemma lx_round_trip: "pulse_to_lx_unit (lx_unit_to_pulse u) = clamp 125 875 u"
proof -
  have c: "clamp 500 2500 (lx_unit_to_pulse u) = lx_unit_to_pulse u" using conversion_ranges(3,4) by simp
  show ?thesis
    unfolding pulse_to_lx_unit_def c
    by (rule round_half_even_unique) (use lx_pulse_near [of u] in \<open>simp_all add: algebra_simps\<close>)
qed

lemma zl_round_trip: "pulse_to_zl_position (zl_position_to_pulse q) = clamp 833 2167 q"
proof -
  have c: "clamp 500 2500 (zl_position_to_pulse q) = zl_position_to_pulse q" using conversion_ranges(7,8) by simp
  show ?thesis
    unfolding pulse_to_zl_position_def c
    by (rule round_half_even_unique) (use zl_pulse_near [of q] in \<open>simp_all add: algebra_simps\<close>)
qed

lemma conversion_mono:
  "p \<le> p' \<Longrightarrow> pulse_to_lx_unit p \<le> pulse_to_lx_unit p'"
  "p \<le> p' \<Longrightarrow> pulse_to_zl_position p \<le> pulse_to_zl_position p'"
  unfolding conversion_defs by (rule round_half_even_mono; simp add: clamp_def)+

section \<open>Properties of the conversions\<close>

text \<open>
  The drivers' units agree with the pulses they report: a servo position converted to a pulse
  and back is the same position, saturated to the range the driver controls, for both protocols.
\<close>

theorem unit_round_trips:
  "pulse_to_lx_unit (lx_unit_to_pulse u) = clamp 125 875 u
   \<and> pulse_to_zl_position (zl_position_to_pulse q) = clamp 833 2167 q"
  by (simp add: lx_round_trip zl_round_trip)

text \<open>
  Whatever position a command carries, the position sent to a servo lies in the controlled
  range of its protocol (125..875 or 833..2167) and the pulse reported for it in 500..2500.
\<close>

theorem move_target_is_bounded:
  "fst (normalize_move_target ''lx'' pos) \<in> {125..875} \<and> snd (normalize_move_target ''lx'' pos) \<in> {500..2500}
   \<and> fst (normalize_move_target ''zl'' pos) \<in> {833..2167} \<and> snd (normalize_move_target ''zl'' pos) \<in> {500..2500}"
  using conversion_ranges angle_range [of pos] clamp_ranges [of pos]
  by (simp add: normalize_move_target_def Let_def)

text \<open>
  Values are read as pulses before they are read as servo units: an LX unit in 500..875 is
  never passed through but sent to the lower third of the range, and the branch for ZL positions
  833..2167 is never reached, such a position being converted as if it were a pulse.
\<close>

theorem upper_units_taken_as_pulses:
  assumes "500 \<le> u" "u \<le> 875" "833 \<le> q" "q \<le> 2167"
  shows "fst (normalize_move_target ''lx'' u) \<le> 266 \<and> fst (normalize_move_target ''lx'' u) < u
    \<and> fst (normalize_move_target ''zl'' q) = pulse_to_zl_position q"
proof -
  have "pulse_to_lx_unit u \<le> pulse_to_lx_unit 875" by (rule conversion_mono(1) [OF assms(2)])
  also have "pulse_to_lx_unit 875 = 266" by code_simp
  finally show ?thesis using assms by (simp add: normalize_move_target_def)
qed

theorem upper_units_taken_as_pulses_witness:
  "fst (normalize_move_target ''lx'' 500) = 125 \<and> fst (normalize_move_target ''lx'' 499) = 499
   \<and> fst (normalize_move_target ''lx'' 875) \<le> 266"
proof -
  have "fst (normalize_move_target ''lx'' 500) = 125" "fst (normalize_move_target ''lx'' 499) = 499"
    by code_simp+
  with upper_units_taken_as_pulses [of 875 1000] show ?thesis by simp
qed

section \<open>Commands that move a servo\<close>

definition motion_spec_names :: "string list" where
  "motion_spec_names =
     [''move_command'', ''move_time_write'', ''move_time_wait_write'', ''move_start'', ''motion_continue'']"

definition lx_motion_frame :: "bytes \<Rightarrow> bool" where
  "lx_motion_frame f \<longleftrightarrow> list_ex (\<lambda>(_, cmd, _). cmd \<in> {0x01, 0x07, 0x0B}) (iter_valid_packets f)"

definition zl_motion_frame :: "bytes \<Rightarrow> bool" where
  "zl_motion_frame f \<longleftrightarrow>
     (case drop 4 (decode_text f) of
        c # d # r \<Rightarrow> c = CHR ''P'' \<and> (is_digit d \<or> d # r = ''DCT!'')
      | _ \<Rightarrow> False)"

definition motion_frame :: "string \<Rightarrow> bytes \<Rightarrow> bool" where
  "motion_frame protocol f \<longleftrightarrow> (if protocol = ''lx'' then lx_motion_frame f else zl_motion_frame f)"

lemma normalize_names_agree: "normalize_command_name = normalize_protocol_command"
  by (simp add: fun_eq_iff normalize_command_name_def normalize_protocol_command_def)

lemma map_of_Cons_Some: "map_of ((k, v) # xs) x = Some y \<longleftrightarrow> (if x = k then v = y else map_of xs x = Some y)"
  by simp

text \<open>Whatever its spelling or alias, a command that resolves to a move encoder is a motion command.\<close>

lemma resolve_motion:
  assumes "resolve_command protocol command = Some (name, spec)" "name \<in> set motion_spec_names"
  shows "is_motion_command command"
proof -
  let ?k = "normalize_protocol_command command"
  have n: "name = (case map_of (command_aliases protocol) ?k of None \<Rightarrow> ?k | Some a \<Rightarrow> a)"
    using assms(1) by (auto simp: resolve_command_def Let_def normalize_names_agree)
  have "?k \<in> set motion_commands"
  proof (cases "map_of (command_aliases protocol) ?k")
    case None
    with n assms(2) have "?k \<in> set motion_spec_names" by simp
    then show ?thesis by (auto simp: motion_spec_names_def motion_commands_def)
  next
    case (Some a)
    then have "(?k, a) \<in> set (command_aliases protocol)" by (rule map_of_SomeD)
    with n Some assms(2) show ?thesis
      by (auto simp: command_aliases_def lx_aliases_def zl_aliases_def motion_spec_names_def
          motion_commands_def split: if_splits)
  qed
  then show ?thesis by (simp add: is_motion_command_def)
qed

definition lx_quiet :: "bytes result \<Rightarrow> bool" where
  "lx_quiet r \<longleftrightarrow> (\<forall>f. r = Inr f \<longrightarrow> \<not> lx_motion_frame f)"

lemma quiet_build: "(word_of_int cmd :: 8 word) \<notin> {0x01, 0x07, 0x0B} \<Longrightarrow> lx_quiet (build_packet sid cmd ps)"
  by (auto simp: lx_quiet_def build_packet_frame lx_motion_frame_def iter_single)

lemmas spec_defs = spec1_def spec2_def spec3_def spec4_def zl1_def zl2_def zl3_def

lemma lx_quiet_encoders [simp]:
  "lx_quiet (encode_move_stop i)" "lx_quiet (encode_id_write i a)" "lx_quiet (encode_angle_offset_adjust i a)"
  "lx_quiet (encode_angle_offset_write i)" "lx_quiet (encode_angle_limit_write i a b)"
  "lx_quiet (encode_vin_limit_write i a b)" "lx_quiet (encode_temp_max_limit_write i a)"
  "lx_quiet (encode_or_motor_mode_write i a b c)" "lx_quiet (encode_load_or_unload_write i a)"
  "lx_quiet (encode_torque_restore i)" "lx_quiet (encode_torque_release i)"
  "lx_quiet (encode_torque_switch_compat_write i a)" "lx_quiet (encode_torque_restore_compat i)"
  "lx_quiet (encode_torque_release_compat i)" "lx_quiet (encode_led_ctrl_write i a)"
  "lx_quiet (encode_led_error_write i a)" "lx_quiet (encode_move_time_read i)"
  "lx_quiet (encode_move_time_wait_read i)" "lx_quiet (encode_id_read i)" "lx_quiet (encode_angle_offset_read i)"
  "lx_quiet (encode_angle_limit_read i)" "lx_quiet (encode_vin_limit_read i)"
  "lx_quiet (encode_temp_max_limit_read i)" "lx_quiet (encode_temp_read i)" "lx_quiet (encode_vin_read i)"
  "lx_quiet (encode_pos_read i)" "lx_quiet (encode_or_motor_mode_read i)"
  "lx_quiet (encode_load_or_unload_read i)" "lx_quiet (encode_led_ctrl_read i)"
  "lx_quiet (encode_led_error_read i)" "lx_quiet (encode_dis_read i)"
  "lx_quiet (lx_encode_read_position_command i)"
  by (simp_all add: lx_writer_defs lx_reader_defs Let_def split_def quiet_build)

lemma lx_specs_quiet:
  "list_all (\<lambda>(name, spec). name \<in> set motion_spec_names \<or> (\<forall>args. lx_quiet (sp_encode spec args))) lx_specs"
  by (simp add: lx_specs_def spec_defs) (simp add: motion_spec_names_def)

lemma lx_spec_quiet:
  "(name, spec) \<in> set lx_specs \<Longrightarrow> name \<notin> set motion_spec_names \<Longrightarrow> sp_encode spec args = Inr f \<Longrightarrow>
    \<not> lx_motion_frame f"
  using lx_specs_quiet by (fastforce simp: list_all_iff lx_quiet_def)

lemma decode_ascii_filter: "decode_text (ascii_bytes s) = filter (\<lambda>c. of_char c < (128 :: nat)) s"
proof (induction s)
  case Nil
  then show ?case by (simp add: decode_text_def ascii_bytes_def)
next
  case (Cons c s)
  have u: "unat (of_nat (of_char c) :: 8 word) = (of_char c :: nat)" by (simp add: unat_of_nat)
  have "(of_nat (of_char c) :: 8 word) < 128 \<longleftrightarrow> of_char c < (128 :: nat)"
    unfolding word_less_nat_alt u by simp
  with Cons u show ?case by (simp add: decode_text_def ascii_bytes_def)
qed

lemma zl_frame_body:
  "drop 4 (decode_text (format_command sid body)) = filter (\<lambda>c. of_char c < (128 :: nat)) body @ ''!''"
proof -
  have b: "0 \<le> zl_sid sid" "zl_sid sid < 10 ^ 3" by (simp_all add: zl_sid_def)
  note f = fmt_props [OF _ b]
  have "filter (\<lambda>c. of_char c < (128 :: nat)) (fmt 3 (zl_sid sid)) = fmt 3 (zl_sid sid)"
    using digits_ascii f(2) by (simp add: filter_id_conv list_all_iff)
  then show ?thesis using f(1) by (simp add: format_command_def decode_ascii_filter eval_nat_numeral)
qed

lemmas zl_encoder_defs = zl_encode_read_position_command_def zl_encode_version_read_def zl_encode_id_read_def
  zl_encode_id_write_def zl_encode_torque_release_def zl_encode_torque_restore_def zl_encode_mode_read_def
  zl_encode_mode_write_def zl_encode_position_read_def zl_encode_motion_pause_def zl_encode_motion_stop_def
  zl_encode_baudrate_write_def zl_encode_middle_calibrate_def zl_encode_startup_position_set_def
  zl_encode_startup_position_disable_def zl_encode_startup_position_restore_def zl_encode_min_position_set_def
  zl_encode_max_position_set_def zl_encode_factory_reset_def zl_encode_temp_voltage_read_def

definition zl_quiet :: "bytes result \<Rightarrow> bool" where
  "zl_quiet r \<longleftrightarrow> (\<forall>f. r = Inr f \<longrightarrow> \<not> zl_motion_frame f)"

lemma zl_quiet_command:
  "\<not> is_digit d \<Longrightarrow> of_char d < (128 :: nat) \<Longrightarrow>
    (d = CHR ''D'' \<longrightarrow> (case r of [] \<Rightarrow> True | c # _ \<Rightarrow> c \<noteq> CHR ''C'' \<and> of_char c < (128 :: nat))) \<Longrightarrow>
    zl_quiet (Inr (format_command i (CHR ''P'' # d # r)))"
  by (cases r) (auto simp: zl_quiet_def zl_motion_frame_def zl_frame_body)

lemma zl_quiet_encoders [simp]:
  "zl_quiet (Inr (zl_encode_read_position_command i))" "zl_quiet (Inr (zl_encode_version_read i))"
  "zl_quiet (Inr (zl_encode_id_read i))" "zl_quiet (Inr (zl_encode_id_write i a))"
  "zl_quiet (Inr (zl_encode_torque_release i))" "zl_quiet (Inr (zl_encode_torque_restore i))"
  "zl_quiet (Inr (zl_encode_mode_read i))" "zl_quiet (Inr (zl_encode_mode_write i a))"
  "zl_quiet (Inr (zl_encode_position_read i))" "zl_quiet (Inr (zl_encode_motion_pause i))"
  "zl_quiet (Inr (zl_encode_motion_stop i))" "zl_quiet (Inr (zl_encode_baudrate_write i a))"
  "zl_quiet (Inr (zl_encode_middle_calibrate i))" "zl_quiet (Inr (zl_encode_startup_position_set i))"
  "zl_quiet (Inr (zl_encode_startup_position_disable i))" "zl_quiet (Inr (zl_encode_startup_position_restore i))"
  "zl_quiet (Inr (zl_encode_min_position_set i))" "zl_quiet (Inr (zl_encode_max_position_set i))"
  "zl_quiet (Inr (zl_encode_factory_reset i))" "zl_quiet (Inr (zl_encode_temp_voltage_read i))"
  by (simp_all add: zl_encoder_defs zl_quiet_command is_digit_def)

lemma zl_specs_quiet:
  "list_all (\<lambda>(name, spec). name \<in> set motion_spec_names \<or> (\<forall>args. zl_quiet (sp_encode spec args))) zl_specs"
  by (simp add: zl_specs_def spec_defs) (simp add: motion_spec_names_def)

lemma zl_spec_quiet:
  "(name, spec) \<in> set zl_specs \<Longrightarrow> name \<notin> set motion_spec_names \<Longrightarrow> sp_encode spec args = Inr f \<Longrightarrow>
    \<not> zl_motion_frame f"
  using zl_specs_quiet by (fastforce simp: list_all_iff zl_quiet_def)

lemma resolve_quiet:
  assumes "resolve_command protocol command = Some (name, spec)" "\<not> is_motion_command command"
    "call_with_checked_params spec args = Inr f"
  shows "\<not> motion_frame protocol f"
proof -
  have n: "name \<notin> set motion_spec_names" using resolve_motion [OF assms(1)] assms(2) by blast
  have "map_of (command_specs protocol) name = Some spec"
    using assms(1) by (auto simp: resolve_command_def Let_def)
  then have mem: "(name, spec) \<in> set (command_specs protocol)" by (rule map_of_SomeD)
  have e: "sp_encode spec args = Inr f" using assms(3) by (simp add: call_with_checked_params_def split: if_splits)
  show ?thesis
    using mem lx_spec_quiet [OF _ n e] zl_spec_quiet [OF _ n e]
    by (auto simp: command_specs_def motion_frame_def split: if_splits)
qed

section \<open>Runs of the driver\<close>

lemma publish_state_frames [simp]:
  "pd_frames (publish_state i p e d) = pd_frames d" "pd_latch (publish_state i p e d) = pd_latch d"
  by (simp_all add: publish_state_def)

lemma read_state_frames [simp]:
  "pd_frames (maybe_publish_read_state p c i v d) = pd_frames d"
  "pd_latch (maybe_publish_read_state p c i v d) = pd_latch d"
  by (auto simp: maybe_publish_read_state_def split: option.splits decoded.splits)

lemma exchange_frames:
  "pd_latch (snd (exchange_with_servo f i dec run d)) = pd_latch d"
  "pd_frames (snd (exchange_with_servo f i dec run d)) = pd_frames d @ (if sr_ready run then [f] else [])"
  by (auto simp: exchange_with_servo_def Let_def split: option.splits prod.splits)

text \<open>The unlocked handler writes at most one frame, the one its command resolves to.\<close>

lemma unlocked_effect:
  fixes req run d
  defines "r \<equiv> handle_execute_command_unlocked req run d"
  shows "pd_latch (snd r) = pd_latch d \<and> xr_error_code (fst r) \<noteq> 11 \<and>
    (\<exists>fs. pd_frames (snd r) = pd_frames d @ fs \<and>
      (\<forall>f \<in> set fs. \<exists>name spec. resolve_command (norm_text (xq_protocol req)) (py_strip (xq_command req)) = Some (name, spec)
         \<and> call_with_checked_params spec (xq_servo_id req # xq_params req) = Inr f))"
proof (cases "resolve_command (norm_text (xq_protocol req)) (py_strip (xq_command req))")
  case None
  then show ?thesis by (auto simp: r_def handle_execute_command_unlocked_def Let_def)
next
  case (Some ns)
  obtain name spec where ns: "ns = (name, spec)" by (cases ns)
  show ?thesis
  proof (cases "call_with_checked_params spec (xq_servo_id req # xq_params req)")
    case (Inl e)
    with Some ns show ?thesis by (auto simp: r_def handle_execute_command_unlocked_def Let_def)
  next
    case (Inr frame)
    obtain ok v raw d1 where x: "exchange_with_servo frame (xq_servo_id req) (sp_decode spec) run d = ((ok, v, raw), d1)"
      by (metis prod_cases3 surj_pair)
    have "pd_latch d1 = pd_latch d" "pd_frames d1 = pd_frames d @ (if sr_ready run then [frame] else [])"
      using exchange_frames [of frame "xq_servo_id req" "sp_decode spec" run d] x by simp_all
    with Some ns Inr x show ?thesis
      by (cases "ok"; cases "sp_decode spec \<noteq> None \<and> v = None")
        (auto simp: r_def handle_execute_command_unlocked_def Let_def)
  qed
qed

lemma is_motion_strip [simp]: "is_motion_command (py_strip c) = is_motion_command c"
  by (simp add: is_motion_command_def normalize_protocol_command_def)

lemma execute_effect:
  assumes "latch_latched (pd_latch d)"
  shows "\<exists>fs. pd_frames (snd (handle_execute_command req now run d)) = pd_frames d @ fs \<and>
    (\<forall>f \<in> set fs. \<not> motion_frame (norm_text (xq_protocol req)) f)"
proof (cases "is_motion_command (xq_command req)")
  case True
  then show ?thesis
    using assms motion_not_stop [OF True]
    by (auto simp: handle_execute_command_def admit_protocol_command_def latch_admit_def)
next
  case False
  have quiet: "\<exists>fs. pd_frames (snd (handle_execute_command_unlocked req run d1)) = pd_frames d1 @ fs \<and>
      (\<forall>f \<in> set fs. \<not> motion_frame (norm_text (xq_protocol req)) f)" for d1
    using unlocked_effect [of req run d1] resolve_quiet False by fastforce
  show ?thesis
  proof (cases "is_stop_command (xq_command req)")
    case True
    with quiet [of "d\<lparr>pd_latch := latch_activate now (pd_latch d)\<rparr>"] show ?thesis
      by (simp add: handle_execute_command_def admit_protocol_command_def latch_admit_def)
  next
    case f: False
    with quiet [of d] False show ?thesis by (simp add: handle_execute_command_def)
  qed
qed

datatype pd_event =
    Pe_lx servo_command serial_run
  | Pe_zl servo_command serial_run
  | Pe_execute execute_request int serial_run
  | Pe_read int string "string \<Rightarrow> serial_run"
  | Pe_safety_topic bool ros_stamp int
  | Pe_safety_service bool ros_stamp int

fun pd_step :: "pd_event \<Rightarrow> port_driver \<Rightarrow> port_driver" where
  "pd_step (Pe_lx msg run) d = on_lx_command msg run d"
| "pd_step (Pe_zl msg run) d = on_zl_command msg run d"
| "pd_step (Pe_execute req now run) d = snd (handle_execute_command req now run d)"
| "pd_step (Pe_read sid protocol runs) d = snd (handle_read_position sid protocol runs d)"
| "pd_step (Pe_safety_topic active stamp now) d = pd_on_driver_safety active stamp now d"
| "pd_step (Pe_safety_service active stamp now) d = snd (pd_handle_driver_safety active stamp now d)"

definition pd_run :: "pd_event list \<Rightarrow> port_driver \<Rightarrow> port_driver" where
  "pd_run es d = fold pd_step es d"

text \<open>What an event is for the latch; moves of the topics and reads do not change it.\<close>

fun gate_events :: "pd_event \<Rightarrow> gate_event list" where
  "gate_events (Pe_execute req now run) =
     (if is_stop_command (xq_command req) then [Ev_command (xq_command req) now (ros_time_to_ns (xq_stamp req))]
      else [])"
| "gate_events (Pe_safety_topic active stamp now) = [Ev_authority active (ros_time_to_ns stamp) now]"
| "gate_events (Pe_safety_service active stamp now) = [Ev_authority active (ros_time_to_ns stamp) now]"
| "gate_events _ = []"

lemma latch_admit_move [simp]: "snd (latch_admit stamp False now l) = l"
  by (simp add: latch_admit_def)

lemma execute_move_latch: "execute_move p i x s run d = Inr d' \<Longrightarrow> pd_latch d' = pd_latch d"
  by (auto simp: execute_move_def write_frame_def Let_def split: if_splits sum.splits prod.splits)

lemma on_move_latch: "pd_latch (on_move_command p msg run d) = pd_latch d"
proof -
  obtain a l where l: "latch_admit (ros_time_to_ns (sc_stamp msg)) False 0 (pd_latch d) = (a, l)" by fastforce
  then have "l = pd_latch d" by (metis latch_admit_move snd_conv)
  with l show ?thesis
    by (auto simp: on_move_command_def Let_def split: sum.splits dest: execute_move_latch)
qed

lemma read_once_latch: "pd_latch (snd (read_position_once p i run d)) = pd_latch d"
  by (auto simp: read_position_once_def Let_def split: sum.splits)

lemma read_first_latch: "pd_latch (snd (read_first ps i runs d)) = pd_latch d"
proof (induction ps arbitrary: d)
  case (Cons p ps)
  obtain v d1 where r: "read_position_once p i (runs p) d = (v, d1)" by fastforce
  then have "pd_latch d1 = pd_latch d" by (metis read_once_latch snd_conv)
  with r Cons.IH [of d1] show ?case by (auto simp: Let_def split: option.splits)
qed simp

lemma execute_latch:
  "pd_latch (snd (handle_execute_command req now run d)) =
    (if is_stop_command (xq_command req) then latch_activate now (pd_latch d) else pd_latch d)"
  using unlocked_effect [of req run] motion_not_stop [of "xq_command req"]
  by (auto simp: handle_execute_command_def admit_protocol_command_def latch_admit_def Let_def)

lemma step_latch: "pd_latch (pd_step e d) = latch_run (gate_events e) (pd_latch d)"
  by (cases e) (simp_all add: latch_run_def on_lx_command_def on_zl_command_def on_move_latch execute_latch
      handle_read_position_def read_first_latch pd_on_driver_safety_def pd_handle_driver_safety_def Let_def
      admit_protocol_command_def latch_admit_def)

lemma run_latch: "pd_latch (pd_run es d) = latch_run (concat (map gate_events es)) (pd_latch d)"
proof (induction es arbitrary: d)
  case (Cons e es)
  then show ?case by (simp add: pd_run_def latch_run_run step_latch)
qed (simp add: pd_run_def latch_run_def)

lemma on_move_latched:
  "latch_latched (pd_latch d) \<Longrightarrow> on_move_command p msg run d = d"
  by (simp add: on_move_command_def latch_admit_def)

text \<open>
  Once a driver is latched nothing moves until it is released: after any messages, services
  and commands that contain no release, a move command of either topic changes nothing, and an
  execute request, whatever its command is called or aliased to, writes no move frame (LX move,
  delayed move or move start; ZL move or motion continue) to the serial port.
\<close>

theorem latched_driver_writes_no_motion:
  assumes "latch_latched (pd_latch d)"
    "list_all (\<lambda>e. list_all (\<lambda>g. release_stamp g = None) (gate_events e)) es"
  shows "on_lx_command msg run (pd_run es d) = pd_run es d
    \<and> on_zl_command msg run (pd_run es d) = pd_run es d
    \<and> (\<exists>fs. pd_frames (snd (handle_execute_command req now run (pd_run es d))) = pd_frames (pd_run es d) @ fs
         \<and> (\<forall>f \<in> set fs. \<not> motion_frame (norm_text (xq_protocol req)) f))"
proof -
  have "list_all (\<lambda>g. release_stamp g = None) (concat (map gate_events es))"
    using assms(2) by (auto simp: list_all_iff)
  then have "latch_latched (pd_latch (pd_run es d))"
    unfolding run_latch latch_run_run by (rule latch.stays_latched [OF assms(1)])
  with execute_effect [OF this] show ?thesis
    by (simp add: on_lx_command_def on_zl_command_def on_move_latched)
qed

definition demo_run :: serial_run where
  "demo_run = \<lparr>sr_ready = True, sr_write_fails = False, sr_chunks = [], sr_read_fails = False\<rparr>"

definition demo_driver :: port_driver where
  "demo_driver = pd_step (Pe_safety_topic True (Ros_time 5 0) 5000000000) (pd_init [] [1] 100)"

definition demo_move :: servo_command where
  "demo_move = \<lparr>sc_servo_type = ''bus'', sc_servo_id = 1, sc_position = 90, sc_speed = 0, sc_stamp = Ros_time 9 0\<rparr>"

theorem latched_driver_writes_no_motion_witness:
  "on_lx_command demo_move demo_run (pd_run [Pe_safety_service True (Ros_time 6 0) 7, Pe_lx demo_move demo_run] demo_driver)
   = pd_run [Pe_safety_service True (Ros_time 6 0) 7, Pe_lx demo_move demo_run] demo_driver"
proof -
  have a: "latch_latched (pd_latch demo_driver)" by code_simp
  have b: "list_all (\<lambda>e. list_all (\<lambda>g. release_stamp g = None) (gate_events e))
    [Pe_safety_service True (Ros_time 6 0) 7, Pe_lx demo_move demo_run]" by simp
  show ?thesis using latched_driver_writes_no_motion [OF a b] by blast
qed

lemma late_move_dropped:
  assumes "Pe_safety_topic True stamp now \<in> set es" "0 < ros_time_to_ns stamp"
    "ros_time_to_ns (sc_stamp msg) \<le> ros_time_to_ns stamp"
  shows "on_lx_command msg run (pd_run es d) = pd_run es d \<and> on_zl_command msg run (pd_run es d) = pd_run es d"
proof -
  let ?g = "Ev_authority True (ros_time_to_ns stamp) now"
  let ?l = "pd_latch (pd_run es d)"
  have "?g \<in> set (concat (map gate_events es))" using assms(1) by force
  moreover have "stop_fence ?g = Some (ros_time_to_ns stamp)" using assms(2) by simp
  ultimately have "ros_time_to_ns stamp \<le> latch_fence_ns ?l"
    unfolding run_latch latch_run_run by (rule latch.fence_covers)
  with assms(2,3) have "latch_admit (ros_time_to_ns (sc_stamp msg)) False 0 ?l = (False, ?l)"
    by (simp add: latch_admit_def)
  then show ?thesis by (simp add: on_lx_command_def on_zl_command_def on_move_command_def)
qed

text \<open>
  A move command that was published before an emergency stop and arrives late is dropped for
  good: when the driver has received an active safety state stamped \<open>t\<close>, then whatever else it
  received, releases included, a move stamped no later than \<open>t\<close> leaves the driver as it is.
\<close>

theorem late_move_is_dropped:
  assumes "Pe_safety_topic True stamp now \<in> set es" "0 < ros_time_to_ns stamp"
    "ros_time_to_ns (sc_stamp msg) \<le> ros_time_to_ns stamp"
  shows "on_lx_command msg run (pd_run es d) = pd_run es d \<and> on_zl_command msg run (pd_run es d) = pd_run es d"
  by (rule late_move_dropped [OF assms])

theorem late_move_is_dropped_witness:
  "on_lx_command (demo_move\<lparr>sc_stamp := Ros_time 4 0\<rparr>) demo_run
     (pd_run [Pe_safety_topic True (Ros_time 5 0) 6, Pe_safety_topic False (Ros_time 8 0) 9] (pd_init [] [1] 100))
   = pd_run [Pe_safety_topic True (Ros_time 5 0) 6, Pe_safety_topic False (Ros_time 8 0) 9] (pd_init [] [1] 100)"
  using late_move_is_dropped [of "Ros_time 5 0" 6
      "[Pe_safety_topic True (Ros_time 5 0) 6, Pe_safety_topic False (Ros_time 8 0) 9]"
      "demo_move\<lparr>sc_stamp := Ros_time 4 0\<rparr>"]
  by (simp add: demo_move_def)

section \<open>The driver as a safety gate\<close>

text \<open>
  The execute and safety services seen as a gate, for any choice \<open>env\<close> of protocol, servo,
  parameters and serial behaviour per event; the verdict is the response: not refused with code
  11, respectively a successful safety state.
\<close>

definition pd_gate_step ::
    "(gate_event \<Rightarrow> string \<times> int \<times> int list \<times> serial_run) \<Rightarrow> gate_event \<Rightarrow> port_driver \<Rightarrow> bool \<times> port_driver" where
  "pd_gate_step env e d =
     (case e of
        Ev_command c now stamp \<Rightarrow>
          (let (protocol, sid, params, run) = env e;
               (resp, d') = handle_execute_command
                 \<lparr>xq_servo_id = sid, xq_protocol = protocol, xq_command = c, xq_params = params,
                  xq_stamp = Ros_time 0 stamp\<rparr> now run d
           in (xr_error_code resp \<noteq> 11, d'))
      | Ev_authority active stamp now \<Rightarrow>
          (let (resp, d') = pd_handle_driver_safety active (Ros_time 0 stamp) now d in (fst resp, d')))"

lemma gate_command:
  "pd_gate_step env (Ev_command c now stamp) d =
    (let (protocol, sid, params, run) = env (Ev_command c now stamp);
         req = \<lparr>xq_servo_id = sid, xq_protocol = protocol, xq_command = c, xq_params = params, xq_stamp = Ros_time 0 stamp\<rparr>
     in (xr_error_code (fst (handle_execute_command req now run d)) \<noteq> 11, snd (handle_execute_command req now run d)))"
  by (simp add: pd_gate_step_def Let_def split_def)

lemma execute_verdict:
  "xr_error_code (fst (handle_execute_command req now run d)) \<noteq> 11 \<longleftrightarrow>
    (is_motion_command (xq_command req) \<longrightarrow>
       fst (latch_admit (ros_time_to_ns (xq_stamp req)) False 0 (pd_latch d)))"
  using unlocked_effect [of req run] motion_not_stop [of "xq_command req"]
  by (auto simp: handle_execute_command_def admit_protocol_command_def latch_admit_def Let_def)

interpretation port: safety_gate "pd_gate_step env" "\<lambda>d. latch_latched (pd_latch d)" "\<lambda>d. latch_fence_ns (pd_latch d)"
  for env
proof unfold_locales
  fix e t d
  show "stop_fence e = Some t \<Longrightarrow> fst (pd_gate_step env e d) \<and> latch_latched (pd_latch (snd (pd_gate_step env e d))) \<and>
      latch_fence_ns (pd_latch (snd (pd_gate_step env e d))) = max (latch_fence_ns (pd_latch d)) t"
    by (cases e) (auto simp: gate_command split_def Let_def execute_latch execute_verdict motion_not_stop
        pd_gate_step_def pd_handle_driver_safety_def observe_authority_def latch_activate_def
        split: if_splits dest: motion_not_stop)
  show "stop_fence e = None \<Longrightarrow> latch_fence_ns (pd_latch (snd (pd_gate_step env e d))) = latch_fence_ns (pd_latch d)"
    by (cases e) (auto simp: gate_command split_def Let_def execute_latch
        pd_gate_step_def pd_handle_driver_safety_def observe_authority_def split: if_splits)
  show "motion_stamp e = Some t \<Longrightarrow> latch_latched (pd_latch (snd (pd_gate_step env e d))) = latch_latched (pd_latch d) \<and>
      (fst (pd_gate_step env e d) \<longleftrightarrow> \<not> latch_latched (pd_latch d) \<and> (latch_fence_ns (pd_latch d) = 0 \<or> latch_fence_ns (pd_latch d) < t))"
    by (cases e) (auto simp: gate_command split_def Let_def execute_latch execute_verdict latch_admit_def
        motion_not_stop split: if_splits)
  show "latch_latched (pd_latch d) \<Longrightarrow> \<not> latch_latched (pd_latch (snd (pd_gate_step env e d))) \<Longrightarrow>
      \<exists>t. release_stamp e = Some t \<and> latch_fence_ns (pd_latch d) < t"
    by (cases e) (auto simp: gate_command split_def Let_def execute_latch latch_activate_def
        pd_gate_step_def pd_handle_driver_safety_def observe_authority_def split: if_splits)
qed

text \<open>
  Seen through its services, with any protocols, servos, parameters and serial faults, the
  driver refuses with code 11 every motion request stamped no later than a stop it has received,
  however the requests, stops and releases were interleaved.
\<close>

theorem stale_execute_refused:
  assumes "e \<in> set es" "stop_fence e = Some t" "0 < t" "is_motion_command c" "stamp \<le> t"
  shows "\<not> fst (pd_gate_step env (Ev_command c now stamp) (fold (\<lambda>e d. snd (pd_gate_step env e d)) es d))"
  using port.stale_motion_rejected [of e es t "Ev_command c now stamp" stamp env d] assms
  by (simp add: port.run_def)

theorem stale_execute_refused_witness:
  "\<not> fst (pd_gate_step (\<lambda>_. (''lx'', 1, [1, 500, 0], demo_run)) (Ev_command ''move'' 9 3)
     (fold (\<lambda>e d. snd (pd_gate_step (\<lambda>_. (''lx'', 1, [1, 500, 0], demo_run)) e d))
       [Ev_command ''move-stop'' 5 0, Ev_authority False 7 8] (pd_init [] [] 100)))"
proof -
  have "is_motion_command ''move''" "stop_fence (Ev_command ''move-stop'' 5 0) = Some 5" by code_simp+
  then show ?thesis
    using stale_execute_refused [of "Ev_command ''move-stop'' 5 0" "[Ev_command ''move-stop'' 5 0, Ev_authority False 7 8]" 5 "''move''" 3]
    by simp
qed

lemma execute_mode_write:
  assumes "is_allowed_id ''lx'' sid d" "sr_ready run" "\<not> sr_write_fails run"
    "encode_or_motor_mode_write sid mode drive speed = Inr f"
  shows "handle_execute_command_unlocked
      \<lparr>xq_servo_id = sid, xq_protocol = ''lx'', xq_command = ''or_motor_mode_write'', xq_params = [mode, drive, speed],
       xq_stamp = stamp\<rparr> run d
    = (\<lparr>xr_success = True, xr_protocol = ''lx'', xr_error_code = 0, xr_value = 0, xr_values = [], xr_raw = [],
        xr_result = None\<rparr>, d\<lparr>pd_frames := pd_frames d @ [f]\<rparr>)"
proof -
  have s: "py_strip ''or_motor_mode_write'' = ''or_motor_mode_write''" "norm_text ''lx'' = ''lx''" by code_simp+
  have r: "resolve_command ''lx'' ''or_motor_mode_write'' = Some (''or_motor_mode_write'', spec4 encode_or_motor_mode_write)"
  proof -
    have "normalize_command_name ''or_motor_mode_write'' = ''or_motor_mode_write''" by code_simp
    then show ?thesis
      by (simp add: resolve_command_def command_aliases_def lx_aliases_def command_specs_def lx_specs_def)
  qed
  have c: "call_with_checked_params (spec4 encode_or_motor_mode_write) [sid, mode, drive, speed] = Inr f"
    using assms(4) by (simp add: call_with_checked_params_def spec4_def)
  show ?thesis
    using assms(1-3) c
    by (simp add: handle_execute_command_unlocked_def s r exchange_with_servo_def spec4_def numeric_result_def
        maybe_publish_read_state_def Let_def)
qed

text \<open>
  The latch does not cover every command that makes a servo turn: an LX servo is set to
  continuous rotation at any speed by \<open>or_motor_mode_write\<close>, which is no motion command to the
  latch, so a latched driver answers it with success and writes the frame (command 1D, motor
  mode 1, the speed asked for) to the port.
\<close>

theorem rotation_command_passes_latch:
  assumes "latch_latched (pd_latch d)" "is_allowed_id ''lx'' sid d" "sr_ready run" "\<not> sr_write_fails run"
  shows "\<exists>resp f low high. handle_execute_command
      \<lparr>xq_servo_id = sid, xq_protocol = ''lx'', xq_command = ''or_motor_mode_write'', xq_params = [1, 1, speed],
       xq_stamp = stamp\<rparr> now run d = (resp, d\<lparr>pd_frames := pd_frames d @ [f]\<rparr>)
    \<and> xr_success resp
    \<and> iter_valid_packets f = [(word_of_int (clamp 0 253 sid), 0x1D, [1, 1, low, high])]
    \<and> u16_to_i16 (join_u16 (uint low) (uint high)) = clamp (-32768) 32767 speed"
proof -
  have n: "\<not> is_stop_command ''or_motor_mode_write''" "\<not> is_motion_command ''or_motor_mode_write''" by code_simp+
  define low high where "low = lx_u8 (take_bit 8 (i16_to_u16 speed))"
    and "high = lx_u8 (take_bit 8 (drop_bit 8 (i16_to_u16 speed)))"
  let ?p = "(word_of_int (clamp 0 253 sid), 0x1D, [1, 1, low, high])"
  have f: "encode_or_motor_mode_write sid 1 1 speed = Inr (lx_frame ?p)"
    by (simp add: encode_or_motor_mode_write_def build_packet_frame u16_params_eq truth_def low_def high_def)
      (simp add: lx_u8_def)
  have "handle_execute_command
      \<lparr>xq_servo_id = sid, xq_protocol = ''lx'', xq_command = ''or_motor_mode_write'', xq_params = [1, 1, speed],
       xq_stamp = stamp\<rparr> now run d
    = (\<lparr>xr_success = True, xr_protocol = ''lx'', xr_error_code = 0, xr_value = 0, xr_values = [], xr_raw = [],
        xr_result = None\<rparr>, d\<lparr>pd_frames := pd_frames d @ [lx_frame ?p]\<rparr>)"
    using n execute_mode_write [OF assms(2-4) f] by (simp add: handle_execute_command_def)
  moreover have "iter_valid_packets (lx_frame ?p) = [?p]" by (rule iter_single) simp
  moreover have "u16_to_i16 (join_u16 (uint low) (uint high)) = clamp (-32768) 32767 speed"
    using i16_round_trip [of speed] join_u16_params [of "i16_to_u16 speed"] by (simp add: low_def high_def)
  ultimately show ?thesis by (intro exI conjI) (assumption | simp)+
qed

theorem rotation_command_passes_latch_witness:
  "latch_latched (pd_latch demo_driver)
   \<and> (\<exists>resp f low high. handle_execute_command
      \<lparr>xq_servo_id = 1, xq_protocol = ''lx'', xq_command = ''or_motor_mode_write'', xq_params = [1, 1, 800],
       xq_stamp = No_stamp\<rparr> 9 demo_run demo_driver = (resp, demo_driver\<lparr>pd_frames := pd_frames demo_driver @ [f]\<rparr>)
    \<and> xr_success resp
    \<and> iter_valid_packets f = [(word_of_int (clamp 0 253 1), 0x1D, [1, 1, low, high])]
    \<and> u16_to_i16 (join_u16 (uint low) (uint high)) = clamp (-32768) 32767 800)"
proof -
  have a: "latch_latched (pd_latch demo_driver)" by code_simp
  have b: "is_allowed_id ''lx'' 1 demo_driver"
    by (simp add: demo_driver_def is_allowed_id_def pd_init_def pd_on_driver_safety_def)
  have c: "sr_ready demo_run" "\<not> sr_write_fails demo_run" by (simp_all add: demo_run_def)
  from a rotation_command_passes_latch [OF a b c, of 800 No_stamp 9] show ?thesis by (rule conjI)
qed

section \<open>Reading replies piecewise\<close>

text \<open>
  The poll loop does not depend on how the serial line splits a reply: with a decoder whose
  answers are stable under more data it returns what the decoder says of the whole.
\<close>

lemma poll_whole:
  assumes "\<And>a b v. dec a = Some v \<Longrightarrow> dec (a @ b) = Some v" "dec buffer = None"
  shows "fst (poll dec buffer chunks) = dec (buffer @ concat chunks)"
  using assms(2)
proof (induction chunks arbitrary: buffer)
  case (Cons c cs)
  show ?case
  proof (cases "dec (buffer @ c)")
    case None
    with Cons.IH [OF None] Cons.IH [OF Cons.prems] show ?thesis by simp
  next
    case (Some v)
    with assms(1) [OF Some, of "concat cs"] Cons.prems show ?thesis by auto
  qed
qed simp

context servo_protocol
begin

lemma poll_position:
  "list_all (\<lambda>(sid, pos). id_ok sid \<and> pos_ok pos) rs \<Longrightarrow> concat chunks = bus_buffer rs \<Longrightarrow>
    fst (poll (\<lambda>buf. decode_pos buf (Some sid)) [] chunks) = map_of rs sid"
  using poll_whole [of "\<lambda>buf. decode_pos buf (Some sid)" "[]" chunks] bus_position [of rs sid]
  by (simp add: decode_mono decode_nothing)

end

lemma read_once_lx:
  assumes "sr_ready run" "\<not> sr_write_fails run" "list_all (\<lambda>(sid, pos). lx_id_ok sid \<and> lx_pos_ok pos) rs"
    "concat (sr_chunks run) = concat (map (\<lambda>(sid, pos). lx_reply sid pos) rs)"
  shows "fst (read_position_once ''lx'' sid run d) = map_of rs sid"
proof -
  have p: "protocol_decode_position ''lx'' = lx_decode_position_response"
    by (simp add: protocol_decode_position_def)
  obtain pkt where e: "protocol_encode_read ''lx'' sid = Inr pkt"
    using lx.encode_read_total [of sid] by (auto simp: protocol_encode_read_def)
  show ?thesis
    using assms(1,2) e lx.poll_position [OF assms(3), of "sr_chunks run" sid] assms(4)
    by (simp add: read_position_once_def p Let_def lx.bus_buffer_def)
qed

lemma read_once_zl:
  assumes "sr_ready run" "\<not> sr_write_fails run" "list_all (\<lambda>(sid, pos). zl_id_ok sid \<and> zl_pos_ok pos) rs"
    "concat (sr_chunks run) = concat (map (\<lambda>(sid, pos). zl_reply sid pos) rs)"
  shows "fst (read_position_once ''zl'' sid run d) = map_of rs sid"
proof -
  have p: "protocol_decode_position ''zl'' = zl_decode_position_response"
    by (simp add: protocol_decode_position_def)
  show ?thesis
    using assms(1,2) zl.poll_position [OF assms(3), of "sr_chunks run" sid] assms(4)
    by (simp add: read_position_once_def p Let_def zl.bus_buffer_def protocol_encode_read_def)
qed

text \<open>
  A position read finds the reply of the servo it asked however the serial line cuts the
  bytes into reads and whichever other servos answered in between, and then succeeds with the
  pulse of that position and publishes it; with no reply of that servo it reports error 1.
\<close>

theorem lx_read_service_finds_reply:
  assumes "sr_ready (runs ''lx'')" "\<not> sr_write_fails (runs ''lx'')"
    "list_all (\<lambda>(sid, pos). lx_id_ok sid \<and> lx_pos_ok pos) rs"
    "concat (sr_chunks (runs ''lx'')) = concat (map (\<lambda>(sid, pos). lx_reply sid pos) rs)"
  shows "fst (handle_read_position sid ''lx'' runs d) =
    (case map_of rs sid of
       Some pos \<Rightarrow> \<lparr>rr_success = True, rr_position = lx_unit_to_pulse pos, rr_protocol = ''lx'', rr_error_code = 0\<rparr>
     | None \<Rightarrow> \<lparr>rr_success = False, rr_position = 0, rr_protocol = '''', rr_error_code = 1\<rparr>)"
proof -
  have n: "norm_text ''lx'' = ''lx''" by code_simp
  have c: "clamp 0 65535 (lx_unit_to_pulse pos) = lx_unit_to_pulse pos" for pos
    using conversion_ranges(3,4) [of pos] by simp
  obtain v d1 where r: "read_position_once ''lx'' sid (runs ''lx'') d = (v, d1)" by fastforce
  then have "v = map_of rs sid" using read_once_lx [OF assms, of sid d] by simp
  with r c show ?thesis
    by (auto simp: handle_read_position_def pick_protocol_order_def n Let_def split: option.splits)
qed

theorem lx_read_service_finds_reply_witness:
  "rr_position (fst (handle_read_position 8 ''lx''
     (\<lambda>_. demo_run\<lparr>sr_chunks := [[0x55, 0x55, 3, 5, 0x1C], [], [125, 0, 94, 0x55, 0x55, 8, 5], [0x1C, 107, 3, 104]]\<rparr>)
     demo_driver)) = 2500"
proof -
  let ?c = "[[0x55, 0x55, 3, 5, 0x1C], [], [125, 0, 94, 0x55, 0x55, 8, 5], [0x1C, 107, 3, 104]] :: bytes list"
  let ?r = "demo_run\<lparr>sr_chunks := ?c\<rparr>"
  have a: "sr_ready ?r" "\<not> sr_write_fails ?r" by (simp_all add: demo_run_def)
  have b: "list_all (\<lambda>(sid, pos). lx_id_ok sid \<and> lx_pos_ok pos) [(3, 125), (8, 875)]"
    by (simp add: lx_id_ok_def lx_pos_ok_def)
  have c: "concat (sr_chunks ?r) = concat (map (\<lambda>(sid, pos). lx_reply sid pos) [(3, 125), (8, 875)])"
    by code_simp
  have p: "lx_unit_to_pulse 875 = 2500" by code_simp
  show ?thesis using lx_read_service_finds_reply [of "\<lambda>_. ?r", OF a b c, of 8 demo_driver] by (simp add: p)
qed


end
