(* ===== verification/Py_Float.thy ===== *)
theory Py_Float
  imports Prelude
begin

text \<open>
  Python floats where the code tests for infinities and NaN. A finite float is the real number it
  denotes; arithmetic happens only on values the code has found finite, and is taken exactly.
  Every comparison with NaN is false.
\<close>

datatype py_float = Fin real | Pos_inf | Neg_inf | NaN

fun is_finite :: "py_float \<Rightarrow> bool" where
  "is_finite (Fin x) = True"
| "is_finite _ = False"

text \<open>The value of a finite float.\<close>

fun fin :: "py_float \<Rightarrow> real" where
  "fin (Fin x) = x"
| "fin _ = 0"

fun py_le :: "py_float \<Rightarrow> py_float \<Rightarrow> bool" where
  "py_le (Fin x) (Fin y) = (x \<le> y)"
| "py_le NaN _ = False"
| "py_le _ NaN = False"
| "py_le Neg_inf _ = True"
| "py_le _ Pos_inf = True"
| "py_le _ _ = False"

fun py_lt :: "py_float \<Rightarrow> py_float \<Rightarrow> bool" where
  "py_lt (Fin x) (Fin y) = (x < y)"
| "py_lt NaN _ = False"
| "py_lt _ NaN = False"
| "py_lt Neg_inf Neg_inf = False"
| "py_lt Neg_inf _ = True"
| "py_lt Pos_inf _ = False"
| "py_lt _ Pos_inf = True"
| "py_lt _ Neg_inf = False"

lemma is_finite_iff: "is_finite f \<longleftrightarrow> (\<exists>x. f = Fin x)"
  by (cases f) auto

lemma is_finite_fin [simp]: "is_finite f \<Longrightarrow> Fin (fin f) = f"
  by (cases f) auto

lemma py_le_finite [simp]: "is_finite f \<Longrightarrow> py_le (Fin x) f \<longleftrightarrow> x \<le> fin f" "is_finite f \<Longrightarrow> py_le f (Fin x) \<longleftrightarrow> fin f \<le> x"
  by (cases f; simp)+

lemma py_lt_finite [simp]: "is_finite f \<Longrightarrow> py_lt (Fin x) f \<longleftrightarrow> x < fin f" "is_finite f \<Longrightarrow> py_lt f (Fin x) \<longleftrightarrow> fin f < x"
  by (cases f; simp)+

text \<open>\<open>int(x)\<close> cuts towards zero.\<close>

definition py_trunc :: "real \<Rightarrow> int" where
  "py_trunc x = (if 0 \<le> x then \<lfloor>x\<rfloor> else \<lceil>x\<rceil>)"

lemma trunc_bounds: "of_int lo \<le> x \<Longrightarrow> x \<le> of_int hi \<Longrightarrow> lo \<le> py_trunc x \<and> py_trunc x \<le> hi"
  using floor_correct [of x] ceiling_correct [of x] unfolding py_trunc_def by (auto; linarith)

end
