(* ===== verification/Json_Values.thy ===== *)
theory Json_Values
  imports Py_Float Decimal_Text
begin

text \<open>
  The values \<open>json.loads\<close> returns, and what Python makes of them: truth, \<open>int\<close>, \<open>float\<close> and the
  texts of \<open>str\<close> that the code compares with names. An object is a dict: its keys in order, each
  once; \<open>jget\<close> is \<open>dict.get\<close>. The scanner that turns a text into tokens is the standard library's and
  is a parameter; what the hooks of the code do with the tokens is modelled at the end.
\<close>

section \<open>Values\<close>

datatype json =
    J_null
  | J_bool bool
  | J_int int
  | J_float py_float
  | J_string string
  | J_list "json list"
  | J_object "(string \<times> json) list"

type_synonym json_object = "(string \<times> json) list"

definition jget :: "string \<Rightarrow> json_object \<Rightarrow> json option" where
  "jget k kvs = map_of kvs k"

definition jget_or :: "string \<Rightarrow> json \<Rightarrow> json_object \<Rightarrow> json" where
  "jget_or k dflt kvs = (case jget k kvs of None \<Rightarrow> dflt | Some v \<Rightarrow> v)"

definition has_key :: "string \<Rightarrow> json_object \<Rightarrow> bool" where
  "has_key k kvs \<longleftrightarrow> k \<in> fst ` set kvs"

lemma has_key_jget: "has_key k kvs \<longleftrightarrow> jget k kvs \<noteq> None"
  by (simp add: has_key_def jget_def map_of_eq_None_iff)

text \<open>\<open>bool(v)\<close>\<close>

fun json_truthy :: "json \<Rightarrow> bool" where
  "json_truthy J_null = False"
| "json_truthy (J_bool b) = b"
| "json_truthy (J_int i) = (i \<noteq> 0)"
| "json_truthy (J_float f) = (f \<noteq> Fin 0)"
| "json_truthy (J_string s) = (s \<noteq> '''')"
| "json_truthy (J_list vs) = (vs \<noteq> [])"
| "json_truthy (J_object kvs) = (kvs \<noteq> [])"

text \<open>\<open>v or w\<close>\<close>

definition json_or :: "json \<Rightarrow> json \<Rightarrow> json" where
  "json_or v w = (if json_truthy v then v else w)"

section \<open>Numbers\<close>

text \<open>\<open>int(v)\<close>, with the exception it raises\<close>

fun json_int :: "json \<Rightarrow> int result" where
  "json_int (J_bool b) = Inr (of_bool b)"
| "json_int (J_int i) = Inr i"
| "json_int (J_float (Fin x)) = Inr (py_trunc x)"
| "json_int (J_float NaN) = Inl (ValueError ''cannot convert float NaN to integer'')"
| "json_int (J_float f) = Inl (OverflowError ''cannot convert float infinity to integer'')"
| "json_int (J_string s) =
     (case py_int s of None \<Rightarrow> Inl (ValueError ''invalid literal for int()'') | Some i \<Rightarrow> Inr i)"
| "json_int v = Inl (TypeError ''int() argument'')"

text \<open>
  \<open>float(i)\<close> of an integer: the largest finite double is \<open>2 ^ 1024 - 2 ^ 971\<close>, and integers from the
  midpoint to the next power of two on do not fit. Below that the value is taken exactly.
\<close>

definition int_float :: "int \<Rightarrow> real result" where
  "int_float i = (if \<bar>i\<bar> < 2 ^ 1024 - 2 ^ 970 then Inr (of_int i) else Inl (OverflowError ''int too large to convert to float''))"

lemma int_float_small: "\<bar>i\<bar> \<le> 2 ^ 1000 \<Longrightarrow> int_float i = Inr (of_int i)"
  by (simp add: int_float_def)

section \<open>Texts\<close>

text \<open>
  \<open>str(v)\<close> where the code compares the result with names: the text of anything but a string starts
  with a digit, a sign, a bracket or a capital, or is \<open>nan\<close> or \<open>inf\<close>, and is none of the names.
\<close>

definition json_text :: "json \<Rightarrow> string option" where
  "json_text v = (case v of J_string s \<Rightarrow> Some s | _ \<Rightarrow> None)"

text \<open>\<open>str(v).strip().lower()\<close>, \<open>None\<close> for a text that is no name.\<close>

definition json_name :: "json \<Rightarrow> string option" where
  "json_name v = map_option norm_text (json_text v)"

section \<open>Hooks\<close>

text \<open>
  What the scanner of \<open>json.loads\<close> reads, in the order of the text: values, the constants \<open>NaN\<close>,
  \<open>Infinity\<close> and \<open>-Infinity\<close>, and the point where the text stops being JSON. An object that breaks off
  ends with a \<open>Syn_bad\<close> entry.
\<close>

datatype json_syntax =
    Syn_null
  | Syn_bool bool
  | Syn_int int
  | Syn_float py_float
  | Syn_constant py_float
  | Syn_string string
  | Syn_list "json_syntax list"
  | Syn_object "(string \<times> json_syntax) list"
  | Syn_bad

text \<open>A failure while loading: what a hook raised, or the scanner's \<open>ValueError\<close>.\<close>

datatype load_error = Hook_error string | Not_json

text \<open>
  \<open>json.loads\<close> with an \<open>object_pairs_hook\<close> that refuses repeated keys with \<open>dup\<close> and a
  \<open>parse_constant\<close> that refuses constants with \<open>const\<close>; the hook sees an object when it is complete.
\<close>

fun strict_value :: "string \<Rightarrow> string \<Rightarrow> json_syntax \<Rightarrow> load_error + json"
and strict_list :: "string \<Rightarrow> string \<Rightarrow> json_syntax list \<Rightarrow> load_error + json list"
and strict_pairs :: "string \<Rightarrow> string \<Rightarrow> (string \<times> json_syntax) list \<Rightarrow> load_error + json_object" where
  "strict_value dup const Syn_null = Inr J_null"
| "strict_value dup const (Syn_bool b) = Inr (J_bool b)"
| "strict_value dup const (Syn_int i) = Inr (J_int i)"
| "strict_value dup const (Syn_float f) = Inr (J_float f)"
| "strict_value dup const (Syn_constant f) = Inl (Hook_error const)"
| "strict_value dup const (Syn_string s) = Inr (J_string s)"
| "strict_value dup const (Syn_list vs) =
     (case strict_list dup const vs of Inl e \<Rightarrow> Inl e | Inr ws \<Rightarrow> Inr (J_list ws))"
| "strict_value dup const (Syn_object kvs) =
     (case strict_pairs dup const kvs of
        Inl e \<Rightarrow> Inl e
      | Inr ws \<Rightarrow> if distinct (map fst ws) then Inr (J_object ws) else Inl (Hook_error dup))"
| "strict_value dup const Syn_bad = Inl Not_json"
| "strict_list dup const [] = Inr []"
| "strict_list dup const (v # vs) =
     (case strict_value dup const v of
        Inl e \<Rightarrow> Inl e
      | Inr w \<Rightarrow> (case strict_list dup const vs of Inl e \<Rightarrow> Inl e | Inr ws \<Rightarrow> Inr (w # ws)))"
| "strict_pairs dup const [] = Inr []"
| "strict_pairs dup const ((k, v) # kvs) =
     (case strict_value dup const v of
        Inl e \<Rightarrow> Inl e
      | Inr w \<Rightarrow> (case strict_pairs dup const kvs of Inl e \<Rightarrow> Inl e | Inr ws \<Rightarrow> Inr ((k, w) # ws)))"

text \<open>The text: what is read first, and whether anything but white space follows it.\<close>

definition strict_loads :: "string \<Rightarrow> string \<Rightarrow> json_syntax \<times> bool \<Rightarrow> load_error + json" where
  "strict_loads dup const doc =
     (case strict_value dup const (fst doc) of
        Inl e \<Rightarrow> Inl e
      | Inr v \<Rightarrow> if snd doc then Inl Not_json else Inr v)"

text \<open>No object of a loaded document has a key twice, at any depth.\<close>

fun json_strict :: "json \<Rightarrow> bool" where
  "json_strict (J_list vs) = list_all json_strict vs"
| "json_strict (J_object kvs) = (distinct (map fst kvs) \<and> list_all (\<lambda>(k, v). json_strict v) kvs)"
| "json_strict v = True"

lemma strict_value_strict:
  "strict_value dup const s = Inr v \<Longrightarrow> json_strict v"
  "strict_list dup const ss = Inr vs \<Longrightarrow> list_all json_strict vs"
  "strict_pairs dup const ps = Inr kvs \<Longrightarrow> list_all (\<lambda>(k, v). json_strict v) kvs"
  by (induction s and ss and ps arbitrary: v and vs and kvs rule: strict_value_strict_list_strict_pairs.induct)
     (auto split: sum.splits if_splits)

lemma strict_loads_strict: "strict_loads dup const doc = Inr v \<Longrightarrow> json_strict v"
  by (auto simp: strict_loads_def strict_value_strict(1) split: sum.splits if_splits)

end
