(* ===== verification/Protocol_Registry.thy ===== *)
theory Protocol_Registry
  imports Decimal_Text Json_Values "HOL-Library.AList"
begin

text \<open>
  The protocol registry of \<open>servo_hardware/bus_protocol_registry.py\<close>: which of the two protocols a
  servo id speaks, decided by a manual map, then a persistent cache, then configured id ranges.

  A map from ids is an association list with distinct keys. The files are read and written by the
  standard library; the model starts from the parsed JSON value and ends with the value written.
  The \<open>source\<close> and \<open>updated_at\<close> notes of a cache entry are written by the code and never read, and
  are left out, as is the object around the written mappings.
\<close>

section \<open>Protocol names and id ranges\<close>

definition valid_protocols :: "string list" where
  "valid_protocols = [''zl'', ''lx'']"

definition normalize_protocol :: "string option \<Rightarrow> string option" where
  "normalize_protocol value =
     (case value of
        None \<Rightarrow> None
      | Some v \<Rightarrow> if norm_text v \<in> set valid_protocols then Some (norm_text v) else None)"

text \<open>\<open>text.split(c)\<close>; \<open>split_first\<close> is \<open>text.split(c, 1)\<close> on a text that holds \<open>c\<close>.\<close>

fun split_char :: "char \<Rightarrow> string \<Rightarrow> string list" where
  "split_char c [] = [[]]"
| "split_char c (d # s) =
     (if d = c then [] # split_char c s
      else case split_char c s of [] \<Rightarrow> [[d]] | t # ts \<Rightarrow> (d # t) # ts)"

definition split_first :: "char \<Rightarrow> string \<Rightarrow> string \<times> string" where
  "split_first c s = (takeWhile (\<lambda>d. d \<noteq> c) s, drop 1 (dropWhile (\<lambda>d. d \<noteq> c) s))"

text \<open>\<open>None\<close> stands for the empty token and for the \<open>ValueError\<close> the caller skips.\<close>

definition parse_range_token :: "string \<Rightarrow> (int \<times> int) option" where
  "parse_range_token text =
     (let token = py_strip text
      in if token = '''' then None
         else let (l, r) = (if CHR ''-'' \<in> set token then split_first CHR ''-'' token else (token, token))
              in case (py_int (py_strip l), py_int (py_strip r)) of
                   (Some a, Some b) \<Rightarrow> Some (if b < a then (b, a) else (a, b))
                 | _ \<Rightarrow> None)"

text \<open>The configured value: nothing, a text, a list of items given as text, anything else as text.\<close>

datatype range_value =
    R_none
  | R_text string
  | R_items "string option list"
  | R_other string

definition comma_parts :: "string \<Rightarrow> string list" where
  "comma_parts s = filter (\<lambda>t. t \<noteq> '''') (map py_strip (split_char CHR '','' s))"

fun range_tokens :: "range_value \<Rightarrow> string list" where
  "range_tokens R_none = []"
| "range_tokens (R_text s) = comma_parts s"
| "range_tokens (R_items items) =
     concat (map (\<lambda>item. case item of None \<Rightarrow> [] | Some s \<Rightarrow> comma_parts s) items)"
| "range_tokens (R_other s) = [py_strip s]"

definition parse_id_ranges :: "range_value \<Rightarrow> (int \<times> int) list" where
  "parse_id_ranges value = List.map_filter parse_range_token (range_tokens value)"

fun match_ranges :: "int \<Rightarrow> (int \<times> int) list \<Rightarrow> bool" where
  "match_ranges sid [] = False"
| "match_ranges sid ((start, stop) # rs) = (if start \<le> sid \<and> sid \<le> stop then True else match_ranges sid rs)"

section \<open>The registry\<close>

record registry =
  reg_manual :: "(int \<times> string) list"
  reg_cache :: "(int \<times> string) list"
  reg_lx_ranges :: "(int \<times> int) list"
  reg_zl_ranges :: "(int \<times> int) list"

text \<open>A JSON value as the text \<open>str\<close> makes of it, as far as it can be a protocol name.\<close>

definition json_protocol :: "json \<Rightarrow> string option" where
  "json_protocol v = (case v of J_string s \<Rightarrow> normalize_protocol (Some s) | _ \<Rightarrow> None)"

definition entry_protocol :: "json \<Rightarrow> string option" where
  "entry_protocol v =
     (case v of
        J_object kvs \<Rightarrow> (case jget ''protocol'' kvs of None \<Rightarrow> None | Some p \<Rightarrow> json_protocol p)
      | _ \<Rightarrow> json_protocol v)"

text \<open>The loop over \<open>mappings.items()\<close>: entries with another key or protocol are skipped.\<close>

fun load_mappings :: "(string \<times> json) list \<Rightarrow> (int \<times> string) list \<Rightarrow> (int \<times> string) list" where
  "load_mappings [] acc = acc"
| "load_mappings ((key, v) # kvs) acc =
     load_mappings kvs
       (case py_int key of
          None \<Rightarrow> acc
        | Some sid \<Rightarrow> (case entry_protocol v of None \<Rightarrow> acc | Some p \<Rightarrow> AList.update sid p acc))"

text \<open>The file as \<open>json.load\<close> gave it; \<open>None\<close> when there is no file or it does not parse.\<close>

definition load_protocol_map :: "json option \<Rightarrow> (int \<times> string) list" where
  "load_protocol_map file =
     (case file of
        Some (J_object kvs) \<Rightarrow>
          (case jget_or ''mappings'' (J_object kvs) kvs of
             J_object m \<Rightarrow> load_mappings m []
           | _ \<Rightarrow> [])
      | _ \<Rightarrow> [])"

definition load_manual_protocol_map :: "json option \<Rightarrow> (int \<times> string) list" where
  "load_manual_protocol_map file = load_protocol_map file"

definition registry_init ::
    "(int \<times> string) list \<Rightarrow> range_value \<Rightarrow> range_value \<Rightarrow> json option \<Rightarrow> registry" where
  "registry_init manual lx zl cache_file =
     \<lparr>reg_manual = fold (\<lambda>(sid, p) acc.
          case normalize_protocol (Some p) of None \<Rightarrow> acc | Some q \<Rightarrow> AList.update sid q acc) manual [],
      reg_cache = load_protocol_map cache_file,
      reg_lx_ranges = parse_id_ranges lx, reg_zl_ranges = parse_id_ranges zl\<rparr>"

definition save_cache :: "registry \<Rightarrow> json" where
  "save_cache r =
     J_object [(''version'', J_int 1),
       (''mappings'', J_object (map (\<lambda>(sid, p). (int_string sid, J_object [(''protocol'', J_string p)])) (reg_cache r)))]"

definition set_protocol :: "int \<Rightarrow> string \<Rightarrow> registry \<Rightarrow> registry" where
  "set_protocol sid protocol r =
     (case normalize_protocol (Some protocol) of
        None \<Rightarrow> r
      | Some p \<Rightarrow> r\<lparr>reg_cache := AList.update sid p (reg_cache r)\<rparr>)"

definition get_protocol :: "int \<Rightarrow> registry \<Rightarrow> string option \<times> string" where
  "get_protocol sid r =
     (let manual = map_of (reg_manual r) sid; cached = map_of (reg_cache r) sid
      in if manual \<noteq> None \<and> manual \<noteq> Some '''' then (manual, ''manual'')
         else if normalize_protocol cached \<noteq> None then (cached, ''cache'')
         else if match_ranges sid (reg_lx_ranges r) then (Some ''lx'', ''range'')
         else if match_ranges sid (reg_zl_ranges r) then (Some ''zl'', ''range'')
         else (None, ''unknown''))"

definition unresolved_ids :: "int list \<Rightarrow> registry \<Rightarrow> int list" where
  "unresolved_ids sids r = filter (\<lambda>sid. fst (get_protocol sid r) = None) sids"

section \<open>The invariant\<close>

text \<open>Both maps have distinct ids and hold normalized protocol names only.\<close>

definition protocol_map_ok :: "(int \<times> string) list \<Rightarrow> bool" where
  "protocol_map_ok m \<longleftrightarrow> distinct (map fst m) \<and> list_all (\<lambda>(_, p). p \<in> set valid_protocols) m"

definition registry_ok :: "registry \<Rightarrow> bool" where
  "registry_ok r \<longleftrightarrow> protocol_map_ok (reg_manual r) \<and> protocol_map_ok (reg_cache r)"

lemma norm_valid [simp]: "p \<in> set valid_protocols \<Longrightarrow> norm_text p = p"
proof -
  have "norm_text ''zl'' = ''zl''" "norm_text ''lx'' = ''lx''" by code_simp+
  then show "p \<in> set valid_protocols \<Longrightarrow> norm_text p = p" by (auto simp: valid_protocols_def)
qed

lemma normalize_valid: "normalize_protocol v = Some p \<Longrightarrow> p \<in> set valid_protocols"
  by (auto simp: normalize_protocol_def split: option.splits if_splits)

lemma normalize_id [simp]: "p \<in> set valid_protocols \<Longrightarrow> normalize_protocol (Some p) = Some p"
  by (simp add: normalize_protocol_def)

lemma protocol_map_ok_update:
  "protocol_map_ok m \<Longrightarrow> p \<in> set valid_protocols \<Longrightarrow> protocol_map_ok (AList.update sid p m)"
  by (induction m) (auto simp: protocol_map_ok_def distinct_update dom_update list_all_iff split: if_splits)

lemma load_mappings_ok: "protocol_map_ok acc \<Longrightarrow> protocol_map_ok (load_mappings kvs acc)"
proof (induction kvs acc rule: load_mappings.induct)
  case (2 key v kvs acc)
  have "p \<in> set valid_protocols" if "entry_protocol v = Some p" for p
    using that by (auto simp: entry_protocol_def json_protocol_def dest: normalize_valid split: json.splits option.splits)
  with 2 show ?case by (auto simp: protocol_map_ok_update split: option.splits)
qed simp

lemma protocol_map_ok_Nil [simp]: "protocol_map_ok []"
  by (simp add: protocol_map_ok_def)

lemma load_map_ok: "protocol_map_ok (load_protocol_map file)"
  by (auto simp: load_protocol_map_def load_mappings_ok split: option.splits json.splits)

lemma manual_fold_ok:
  "protocol_map_ok acc \<Longrightarrow> protocol_map_ok (fold (\<lambda>(sid, p) acc.
     case normalize_protocol (Some p) of None \<Rightarrow> acc | Some q \<Rightarrow> AList.update sid q acc) m acc)"
proof (induction m arbitrary: acc)
  case (Cons e m)
  obtain sid p where e: "e = (sid, p)" by (cases e)
  have "protocol_map_ok (AList.update sid q acc)" if "normalize_protocol (Some p) = Some q" for q
    by (rule protocol_map_ok_update [OF Cons.prems normalize_valid [OF that]])
  with Cons e show ?case by (simp split: option.splits)
qed simp

lemma registry_init_ok [inv_rules]: "registry_ok (registry_init manual lx zl file)"
  by (simp add: registry_ok_def registry_init_def load_map_ok manual_fold_ok)

lemma set_protocol_ok [inv_rules]: "registry_ok r \<Longrightarrow> registry_ok (set_protocol sid p r)"
  by (auto simp: registry_ok_def set_protocol_def protocol_map_ok_update dest: normalize_valid split: option.splits)

lemma map_ok_valid:
  assumes "protocol_map_ok m" "map_of m sid = Some p"
  shows "p \<in> set valid_protocols" "p \<noteq> ''''"
  using assms by (auto simp: protocol_map_ok_def list_all_iff valid_protocols_def dest!: map_of_SomeD)

lemma get_protocol_cases:
  assumes "registry_ok r"
  shows "get_protocol sid r =
    (case map_of (reg_manual r) sid of
       Some p \<Rightarrow> (Some p, ''manual'')
     | None \<Rightarrow> (case map_of (reg_cache r) sid of
         Some p \<Rightarrow> (Some p, ''cache'')
       | None \<Rightarrow> if match_ranges sid (reg_lx_ranges r) then (Some ''lx'', ''range'')
                else if match_ranges sid (reg_zl_ranges r) then (Some ''zl'', ''range'') else (None, ''unknown'')))"
  using map_ok_valid [of "reg_manual r" sid] map_ok_valid [of "reg_cache r" sid] assms
  by (auto simp: get_protocol_def registry_ok_def Let_def normalize_protocol_def split: option.splits)

section \<open>Properties\<close>

text \<open>
  The registry answers by priority: the manual map first, then the cache, then the ranges with
  LX before ZL; and what it answers is always one of the two protocols the router has routes for.
\<close>

theorem protocol_priority:
  assumes "registry_ok r"
  shows "get_protocol sid r =
      (case map_of (reg_manual r) sid of
         Some p \<Rightarrow> (Some p, ''manual'')
       | None \<Rightarrow> (case map_of (reg_cache r) sid of
           Some p \<Rightarrow> (Some p, ''cache'')
         | None \<Rightarrow> if match_ranges sid (reg_lx_ranges r) then (Some ''lx'', ''range'')
                  else if match_ranges sid (reg_zl_ranges r) then (Some ''zl'', ''range'') else (None, ''unknown'')))
    \<and> (\<forall>p. fst (get_protocol sid r) = Some p \<longrightarrow> p \<in> set valid_protocols)"
proof -
  have "p \<in> set valid_protocols" if "fst (get_protocol sid r) = Some p" for p
    using that assms map_ok_valid(1) [of "reg_manual r" sid] map_ok_valid(1) [of "reg_cache r" sid]
    by (auto simp: get_protocol_cases [OF assms] registry_ok_def valid_protocols_def split: option.splits if_splits)
  then show ?thesis using get_protocol_cases [OF assms] by blast
qed

definition demo_registry :: registry where
  "demo_registry = registry_init [(7, ''ZL '')] (R_text ''21-34, 40'') (R_items [Some ''35-39'', None])
     (Some (J_object [(''mappings'', J_object [(''22'', J_object [(''protocol'', J_string ''zl'')]), (''x'', J_string ''lx'')])]))"

theorem protocol_priority_witness:
  "map (\<lambda>sid. get_protocol sid demo_registry) [7, 22, 40, 36, 50] =
    [(Some ''zl'', ''manual''), (Some ''zl'', ''cache''), (Some ''lx'', ''range''), (Some ''zl'', ''range''), (None, ''unknown'')]"
proof -
  have ok: "registry_ok demo_registry" by (simp add: demo_registry_def registry_init_ok)
  have m: "reg_manual demo_registry = [(7, ''zl'')]" "reg_cache demo_registry = [(22, ''zl'')]"
    "reg_lx_ranges demo_registry = [(21, 34), (40, 40)]" "reg_zl_ranges demo_registry = [(35, 39)]"
    by code_simp+
  show ?thesis
    using protocol_priority [OF ok, of 7] protocol_priority [OF ok, of 22] protocol_priority [OF ok, of 40]
      protocol_priority [OF ok, of 36] protocol_priority [OF ok, of 50] by (simp add: m)
qed

lemma get_set_protocol:
  assumes "registry_ok r"
  shows "get_protocol sid' (set_protocol sid p r) =
    (case normalize_protocol (Some p) of
       Some q \<Rightarrow> if sid' = sid \<and> map_of (reg_manual r) sid = None then (Some q, ''cache'') else get_protocol sid' r
     | None \<Rightarrow> get_protocol sid' r)"
proof (cases "normalize_protocol (Some p)")
  case None
  then show ?thesis by (simp add: set_protocol_def)
next
  case (Some q)
  then have s: "set_protocol sid p r = r\<lparr>reg_cache := AList.update sid q (reg_cache r)\<rparr>"
    by (simp add: set_protocol_def)
  show ?thesis
    unfolding get_protocol_cases [OF set_protocol_ok [OF assms]] get_protocol_cases [OF assms]
    using Some by (auto simp: s update_conv' split: option.splits)
qed

text \<open>
  Recording a protocol changes the answer for that servo only, from the next lookup on, and
  never against the manual map; a text that names no protocol changes nothing.
\<close>

theorem set_then_get_protocol:
  assumes "registry_ok r"
  shows "get_protocol sid' (set_protocol sid p r) =
    (case normalize_protocol (Some p) of
       Some q \<Rightarrow> if sid' = sid \<and> map_of (reg_manual r) sid = None then (Some q, ''cache'') else get_protocol sid' r
     | None \<Rightarrow> get_protocol sid' r)"
  by (rule get_set_protocol [OF assms])

theorem set_then_get_protocol_witness:
  "get_protocol 50 (set_protocol 50 ''LX'' demo_registry) = (Some ''lx'', ''cache'')"
proof -
  have ok: "registry_ok demo_registry" by (simp add: demo_registry_def registry_init_ok)
  have "normalize_protocol (Some ''LX'') = Some ''lx''" "map_of (reg_manual demo_registry) 50 = None" by code_simp+
  then show ?thesis using set_then_get_protocol [OF ok, of 50 50 "''LX''"] by simp
qed

lemma load_saved:
  "protocol_map_ok (acc @ m) \<Longrightarrow>
    load_mappings (map (\<lambda>(sid, p). (int_string sid, J_object [(''protocol'', J_string p)])) m) acc = acc @ m"
proof (induction m arbitrary: acc)
  case (Cons e m)
  obtain sid p where e: "e = (sid, p)" by (cases e)
  have p: "p \<in> set valid_protocols" and new: "sid \<notin> fst ` set acc"
    using Cons.prems e by (auto simp: protocol_map_ok_def list_all_iff)
  have ent: "entry_protocol (J_object [(''protocol'', J_string p)]) = Some p"
    using p by (simp add: entry_protocol_def jget_def json_protocol_def)
  have "AList.update sid p acc = acc @ [(sid, p)]" using new by (induction acc) auto
  with Cons.IH [of "acc @ [(sid, p)]"] Cons.prems e ent show ?case by simp
qed simp

text \<open>
  The cache survives a restart: what is written to the cache file is read back as the same
  map of servos to protocols.
\<close>

theorem cache_round_trip:
  assumes "registry_ok r"
  shows "load_protocol_map (Some (save_cache r)) = reg_cache r"
proof -
  have "protocol_map_ok ([] @ reg_cache r)" using assms by (simp add: registry_ok_def)
  from load_saved [OF this] show ?thesis
    by (simp add: load_protocol_map_def save_cache_def jget_or_def jget_def)
qed

theorem cache_round_trip_witness:
  "load_protocol_map (Some (save_cache (set_protocol 50 ''lx'' demo_registry))) = [(22, ''zl''), (50, ''lx'')]"
proof -
  have ok: "registry_ok (set_protocol 50 ''lx'' demo_registry)"
    by (simp add: demo_registry_def registry_init_ok set_protocol_ok)
  have c: "reg_cache (set_protocol 50 ''lx'' demo_registry) = [(22, ''zl''), (50, ''lx'')]" by code_simp
  show ?thesis using cache_round_trip [OF ok] by (simp add: c)
qed


end
