(* ===== verification/Bus_Router.thy ===== *)
theory Bus_Router
  imports Servo_Messages Protocol_Registry
begin

text \<open>
  The router of \<open>servo_hardware/bus_protocol_router.py\<close>: it maps a servo id to a serial port and a
  protocol, forwards moves to the port drivers, relays the read and execute services, applies the
  safety state to every port before it accepts a release itself, and probes unknown servos.

  The port drivers are other processes: \<open>port_clients\<close> holds what a service call to a port
  returns, \<open>None\<close> being a service that is missing, times out or raises, and threads the state \<open>'w\<close>
  of whatever answers. Each handler is one atomic section under \<open>safety_command_lock\<close>; the probe
  queue, whose timer callback gives up its lock during the probe, is modelled in two steps.
\<close>

record 'w port_clients =
  pc_read :: "string \<Rightarrow> int \<Rightarrow> string \<Rightarrow> 'w \<Rightarrow> read_response option \<times> 'w"
  pc_execute :: "string \<Rightarrow> execute_request \<Rightarrow> 'w \<Rightarrow> execute_response option \<times> 'w"
  pc_safety :: "string \<Rightarrow> bool \<Rightarrow> ros_stamp \<Rightarrow> 'w \<Rightarrow> safety_response option \<times> 'w"

record router =
  rt_ports :: "(string \<times> int list) list"
  rt_registry :: registry
  rt_latch :: safety_latch
  rt_probe_on_unknown :: bool
  rt_probe_retry_sec :: real
  rt_last_probe :: "int \<Rightarrow> real option"
  rt_probe_queue :: "int list"
  rt_probe_pending :: "int set"
  rt_probing :: "int list"   \<comment> \<open>servos a timer callback has taken off the queue\<close>
  rt_routed :: "(string \<times> string \<times> servo_command) list"

section \<open>The bus map\<close>

text \<open>The parsed file; \<open>Inl\<close> where the constructor raises. Ids are JSON numbers or numeric texts.\<close>

text \<open>Ids that \<open>int\<close> refuses are skipped; the \<open>OverflowError\<close> of an infinite one is not caught.\<close>

fun clean_ids :: "json list \<Rightarrow> int list result" where
  "clean_ids [] = Inr []"
| "clean_ids (v # vs) =
     (case json_int v of
        Inl (OverflowError m) \<Rightarrow> Inl (OverflowError m)
      | r \<Rightarrow> (case clean_ids vs of
          Inl e \<Rightarrow> Inl e
        | Inr ids \<Rightarrow> Inr (case r of Inl _ \<Rightarrow> ids | Inr i \<Rightarrow> i # ids)))"

fun clean_ports :: "json_object \<Rightarrow> (string \<times> int list) list result" where
  "clean_ports [] = Inr []"
| "clean_ports ((port, J_list vs) # kvs) =
     (case clean_ids vs of
        Inl e \<Rightarrow> Inl e
      | Inr ids \<Rightarrow> (case clean_ports kvs of Inl e \<Rightarrow> Inl e | Inr r \<Rightarrow> Inr ((port, ids) # r)))"
| "clean_ports (_ # kvs) = clean_ports kvs"

definition load_bus_map :: "json \<Rightarrow> (string \<times> int list) list result" where
  "load_bus_map file =
     (case file of
        J_object kvs \<Rightarrow> clean_ports kvs
      | _ \<Rightarrow> Inl (RuntimeError ''bus_map_file''))"

text \<open>Later ports win, as in the loop that fills \<open>id_to_port\<close>.\<close>

definition id_to_port :: "router \<Rightarrow> int \<Rightarrow> string option" where
  "id_to_port r sid = map_option fst (find (\<lambda>(_, ids). sid \<in> set ids) (rev (rt_ports r)))"

definition router_init ::
    "(string \<times> int list) list \<Rightarrow> registry \<Rightarrow> bool \<Rightarrow> real \<Rightarrow> router" where
  "router_init ports reg probe_on_unknown retry_sec =
     \<lparr>rt_ports = ports, rt_registry = reg, rt_latch = latch_init,
      rt_probe_on_unknown = probe_on_unknown, rt_probe_retry_sec = retry_sec,
      rt_last_probe = (\<lambda>_. None), rt_probe_queue = [], rt_probe_pending = {}, rt_probing = [],
      rt_routed = []\<rparr>"

definition update_registry :: "int \<Rightarrow> string \<Rightarrow> router \<Rightarrow> router" where
  "update_registry sid protocol r = r\<lparr>rt_registry := set_protocol sid protocol (rt_registry r)\<rparr>"

section \<open>Probing\<close>

definition schedule_runtime_probe :: "int \<Rightarrow> real \<Rightarrow> router \<Rightarrow> bool \<times> router" where
  "schedule_runtime_probe sid now r =
     (if \<not> rt_probe_on_unknown r then (False, r)
      else let min_interval = max (1 / 10) (rt_probe_retry_sec r);
               last = (case rt_last_probe r sid of None \<Rightarrow> 0 | Some t \<Rightarrow> t)
           in if now - last < min_interval then (False, r)
              else if sid \<in> rt_probe_pending r then (False, r)
              else (True, r\<lparr>rt_last_probe := (rt_last_probe r)(sid \<mapsto> now),
                            rt_probe_pending := insert sid (rt_probe_pending r),
                            rt_probe_queue := rt_probe_queue r @ [sid]\<rparr>))"

text \<open>The timer callback up to the probe: it takes one servo off the queue.\<close>

definition begin_runtime_probe :: "router \<Rightarrow> int option \<times> router" where
  "begin_runtime_probe r =
     (case rt_probe_queue r of
        [] \<Rightarrow> (None, r)
      | sid # q \<Rightarrow> (Some sid, r\<lparr>rt_probe_queue := q, rt_probing := rt_probing r @ [sid]\<rparr>))"

definition call_read_position ::
    "'w port_clients \<Rightarrow> string \<Rightarrow> int \<Rightarrow> string \<Rightarrow> router \<Rightarrow> 'w \<Rightarrow> read_response option \<times> 'w" where
  "call_read_position pc port sid protocol r w =
     (if port \<in> fst ` set (rt_ports r) then pc_read pc port sid protocol w else (None, w))"

fun probe_candidates ::
    "'w port_clients \<Rightarrow> string \<Rightarrow> int \<Rightarrow> string list \<Rightarrow> router \<Rightarrow> 'w \<Rightarrow> string option \<times> 'w" where
  "probe_candidates pc port sid [] r w = (None, w)"
| "probe_candidates pc port sid (protocol # ps) r w =
     (case call_read_position pc port sid protocol r w of
        (Some resp, w1) \<Rightarrow>
          if rr_success resp then (Some protocol, w1) else probe_candidates pc port sid ps r w1
      | (None, w1) \<Rightarrow> probe_candidates pc port sid ps r w1)"

definition probe_servo_id :: "'w port_clients \<Rightarrow> int \<Rightarrow> router \<Rightarrow> 'w \<Rightarrow> string option \<times> 'w" where
  "probe_servo_id pc sid r w =
     (case id_to_port r sid of
        None \<Rightarrow> (None, w)
      | Some port \<Rightarrow> probe_candidates pc port sid [''lx'', ''zl''] r w)"

text \<open>The rest of the callback: record what the probe found, then forget the servo is pending.\<close>

definition finish_runtime_probe :: "int \<Rightarrow> string option \<Rightarrow> router \<Rightarrow> router" where
  "finish_runtime_probe sid found r =
     (let r1 = (case found of None \<Rightarrow> r | Some p \<Rightarrow> update_registry sid p r)
      in r1\<lparr>rt_probe_pending := rt_probe_pending r1 - {sid}, rt_probing := remove1 sid (rt_probing r1)\<rparr>)"

text \<open>The startup probe over the unresolved servos, in order of their ids.\<close>

fun startup_probe_loop :: "'w port_clients \<Rightarrow> int list \<Rightarrow> router \<Rightarrow> 'w \<Rightarrow> router \<times> 'w" where
  "startup_probe_loop pc [] r w = (r, w)"
| "startup_probe_loop pc (sid # sids) r w =
     (let (found, w1) = probe_servo_id pc sid r w
      in startup_probe_loop pc sids
           (case found of None \<Rightarrow> r | Some p \<Rightarrow> update_registry sid p r) w1)"

definition run_startup_probe :: "'w port_clients \<Rightarrow> bool \<Rightarrow> router \<Rightarrow> 'w \<Rightarrow> router \<times> 'w" where
  "run_startup_probe pc probe_on_startup r w =
     (if \<not> probe_on_startup then (r, w)
      else let sids = sort (remdups (concat (map snd (rt_ports r))))
           in startup_probe_loop pc (unresolved_ids sids (rt_registry r)) r w)"

section \<open>Moves\<close>

definition publish_to_route :: "string \<Rightarrow> string \<Rightarrow> servo_command \<Rightarrow> router \<Rightarrow> bool \<times> router" where
  "publish_to_route port protocol msg r =
     (if port \<in> fst ` set (rt_ports r) \<and> protocol \<in> {''zl'', ''lx''}
      then (True, r\<lparr>rt_routed := rt_routed r @ [(port, protocol, msg)]\<rparr>) else (False, r))"

definition on_command :: "servo_command \<Rightarrow> real \<Rightarrow> router \<Rightarrow> router" where
  "on_command msg now r =
     (if \<not> is_bus_command msg then r
      else case id_to_port r (sc_servo_id msg) of
             None \<Rightarrow> r
           | Some port \<Rightarrow>
               (case fst (get_protocol (sc_servo_id msg) (rt_registry r)) of
                  None \<Rightarrow> snd (schedule_runtime_probe (sc_servo_id msg) now r)
                | Some protocol \<Rightarrow>
                    (let (admitted, l) = latch_admit (ros_time_to_ns (sc_stamp msg)) False 0 (rt_latch r);
                         r1 = r\<lparr>rt_latch := l\<rparr>
                     in if \<not> admitted then r1 else snd (publish_to_route port protocol msg r1))))"

section \<open>Safety\<close>

definition rt_on_driver_safety :: "bool \<Rightarrow> ros_stamp \<Rightarrow> int \<Rightarrow> router \<Rightarrow> router" where
  "rt_on_driver_safety active stamp now r =
     r\<lparr>rt_latch := snd (observe_authority active (ros_time_to_ns stamp) now (rt_latch r))\<rparr>"

definition call_driver_safety ::
    "'w port_clients \<Rightarrow> string \<Rightarrow> bool \<Rightarrow> ros_stamp \<Rightarrow> 'w \<Rightarrow> bool \<times> 'w" where
  "call_driver_safety pc port active stamp w =
     (case pc_safety pc port active stamp w of
        (None, w1) \<Rightarrow> (False, w1)
      | (Some resp, w1) \<Rightarrow> (fst resp, w1))"

text \<open>The list comprehension over the ports that serve servos; every port is called.\<close>

fun apply_driver_safety ::
    "'w port_clients \<Rightarrow> (string \<times> int list) list \<Rightarrow> bool \<Rightarrow> ros_stamp \<Rightarrow> 'w \<Rightarrow> bool list \<times> 'w" where
  "apply_driver_safety pc [] active stamp w = ([], w)"
| "apply_driver_safety pc ((port, ids) # ps) active stamp w =
     (if ids = [] then apply_driver_safety pc ps active stamp w
      else let (ok, w1) = call_driver_safety pc port active stamp w;
               (oks, w2) = apply_driver_safety pc ps active stamp w1
           in (ok # oks, w2))"

definition rt_handle_driver_safety ::
    "'w port_clients \<Rightarrow> bool \<Rightarrow> ros_stamp \<Rightarrow> int \<Rightarrow> router \<Rightarrow> 'w \<Rightarrow> safety_response \<times> router \<times> 'w" where
  "rt_handle_driver_safety pc active stamp now r w =
     (let l1 = (if active then snd (observe_authority True (ros_time_to_ns stamp) now (rt_latch r))
                else rt_latch r);
          (oks, w1) = apply_driver_safety pc (rt_ports r) active stamp w;
          all_applied = list_all (\<lambda>ok. ok) oks;
          l2 = (if all_applied \<and> \<not> active
                then snd (observe_authority False (ros_time_to_ns stamp) now l1) else l1);
          success = (all_applied \<and> latch_latched l2 = active)
      in ((success, if success then '''' else ''driver_safety_not_applied''), r\<lparr>rt_latch := l2\<rparr>, w1))"

section \<open>Services\<close>

definition resolve_protocol_order :: "string \<Rightarrow> int \<Rightarrow> router \<Rightarrow> string list" where
  "resolve_protocol_order requested sid r =
     (let q = norm_text requested
      in if q = ''zl'' \<or> q = ''lx'' then [q]
         else case fst (get_protocol sid (rt_registry r)) of
                Some p \<Rightarrow>
                  if p = ''zl'' \<or> p = ''lx'' then [p, if p = ''lx'' then ''zl'' else ''lx''] else [''lx'', ''zl'']
              | None \<Rightarrow> [''lx'', ''zl''])"

fun relay_read ::
    "'w port_clients \<Rightarrow> string \<Rightarrow> int \<Rightarrow> string list \<Rightarrow> router \<Rightarrow> 'w \<Rightarrow> read_response \<times> router \<times> 'w" where
  "relay_read pc port sid [] r w =
     (\<lparr>rr_success = False, rr_position = 0, rr_protocol = '''', rr_error_code = 1\<rparr>, r, w)"
| "relay_read pc port sid (protocol # ps) r w =
     (case call_read_position pc port sid protocol r w of
        (Some resp, w1) \<Rightarrow>
          if rr_success resp
          then (\<lparr>rr_success = True, rr_position = rr_position resp, rr_protocol = protocol, rr_error_code = 0\<rparr>,
                update_registry sid protocol r, w1)
          else relay_read pc port sid ps r w1
      | (None, w1) \<Rightarrow> relay_read pc port sid ps r w1)"

definition rt_handle_read_position ::
    "'w port_clients \<Rightarrow> int \<Rightarrow> string \<Rightarrow> router \<Rightarrow> 'w \<Rightarrow> read_response \<times> router \<times> 'w" where
  "rt_handle_read_position pc sid requested r w =
     (case id_to_port r sid of
        None \<Rightarrow> (\<lparr>rr_success = False, rr_position = 0, rr_protocol = '''', rr_error_code = 2\<rparr>, r, w)
      | Some port \<Rightarrow> relay_read pc port sid (resolve_protocol_order requested sid r) r w)"

definition call_execute_command ::
    "'w port_clients \<Rightarrow> string \<Rightarrow> execute_request \<Rightarrow> router \<Rightarrow> 'w \<Rightarrow> execute_response option \<times> 'w" where
  "call_execute_command pc port req r w =
     (if port \<in> fst ` set (rt_ports r) then pc_execute pc port req w else (None, w))"

fun relay_execute ::
    "'w port_clients \<Rightarrow> string \<Rightarrow> execute_request \<Rightarrow> string list \<Rightarrow> router \<Rightarrow> 'w \<Rightarrow> execute_response \<times> router \<times> 'w" where
  "relay_execute pc port req [] r w = (execute_error (norm_text (xq_protocol req)) 1, r, w)"
| "relay_execute pc port req (protocol # ps) r w =
     (case call_execute_command pc port
          (req\<lparr>xq_protocol := protocol, xq_command := py_strip (xq_command req)\<rparr>) r w of
        (Some resp, w1) \<Rightarrow>
          if xr_success resp
          then (resp\<lparr>xr_protocol := protocol\<rparr>, update_registry (xq_servo_id req) protocol r, w1)
          else relay_execute pc port req ps r w1
      | (None, w1) \<Rightarrow> relay_execute pc port req ps r w1)"

definition rt_execute_unlocked ::
    "'w port_clients \<Rightarrow> execute_request \<Rightarrow> router \<Rightarrow> 'w \<Rightarrow> execute_response \<times> router \<times> 'w" where
  "rt_execute_unlocked pc req r w =
     (if py_strip (xq_command req) = '''' then (execute_error (norm_text (xq_protocol req)) 2, r, w)
      else case id_to_port r (xq_servo_id req) of
             None \<Rightarrow> (execute_error (norm_text (xq_protocol req)) 2, r, w)
           | Some port \<Rightarrow>
               relay_execute pc port req (resolve_protocol_order (xq_protocol req) (xq_servo_id req) r) r w)"

definition rt_handle_execute ::
    "'w port_clients \<Rightarrow> execute_request \<Rightarrow> int \<Rightarrow> router \<Rightarrow> 'w \<Rightarrow> execute_response \<times> router \<times> 'w" where
  "rt_handle_execute pc req now r w =
     (if is_stop_command (xq_command req) \<or> is_motion_command (xq_command req) then
        (let (admitted, l) = admit_protocol_command (xq_command req) now (ros_time_to_ns (xq_stamp req)) (rt_latch r);
             r1 = r\<lparr>rt_latch := l\<rparr>
         in if \<not> admitted then (execute_error (norm_text (xq_protocol req)) 11, r1, w)
            else rt_execute_unlocked pc req r1 w)
      else rt_execute_unlocked pc req r w)"

section \<open>The probe queue\<close>

definition probe_ok :: "router \<Rightarrow> bool" where
  "probe_ok r \<longleftrightarrow> distinct (rt_probe_queue r @ rt_probing r) \<and>
     rt_probe_pending r = set (rt_probe_queue r @ rt_probing r)"

text \<open>Everything that touches the queue: moves for servos, timer callbacks, finished probes.\<close>

datatype probe_op =
    Po_command servo_command real
  | Po_begin
  | Po_finish int "string option"

fun probe_step :: "probe_op \<Rightarrow> router \<Rightarrow> router" where
  "probe_step (Po_command msg now) r = on_command msg now r"
| "probe_step Po_begin r = snd (begin_runtime_probe r)"
| "probe_step (Po_finish sid found) r =
     (if sid \<in> set (rt_probing r) then finish_runtime_probe sid found r else r)"

lemma update_registry_fields [simp]:
  "rt_probe_queue (update_registry sid p r) = rt_probe_queue r"
  "rt_probing (update_registry sid p r) = rt_probing r"
  "rt_probe_pending (update_registry sid p r) = rt_probe_pending r"
  "rt_latch (update_registry sid p r) = rt_latch r" "rt_ports (update_registry sid p r) = rt_ports r"
  "rt_registry (update_registry sid p r) = set_protocol sid p (rt_registry r)"
  "rt_routed (update_registry sid p r) = rt_routed r"
  by (simp_all add: update_registry_def)

lemma schedule_ok: "probe_ok r \<Longrightarrow> probe_ok (snd (schedule_runtime_probe sid now r))"
  by (auto simp: schedule_runtime_probe_def probe_ok_def Let_def)

lemma probe_ok_frame [simp]:
  "probe_ok (r\<lparr>rt_latch := l\<rparr>) = probe_ok r" "probe_ok (r\<lparr>rt_routed := ms\<rparr>) = probe_ok r"
  by (simp_all add: probe_ok_def)

lemma publish_ok: "probe_ok r \<Longrightarrow> probe_ok (snd (publish_to_route port p msg r))"
  by (simp add: publish_to_route_def)

lemma on_command_ok: "probe_ok r \<Longrightarrow> probe_ok (on_command msg now r)"
  unfolding on_command_def Let_def
  by (simp add: schedule_ok publish_ok split: option.split prod.split)

lemma begin_ok: "probe_ok r \<Longrightarrow> probe_ok (snd (begin_runtime_probe r))"
  by (auto simp: begin_runtime_probe_def probe_ok_def split: list.splits)

lemma finish_ok: "probe_ok r \<Longrightarrow> sid \<in> set (rt_probing r) \<Longrightarrow> probe_ok (finish_runtime_probe sid found r)"
  by (auto simp: finish_runtime_probe_def probe_ok_def Let_def split: option.splits)

lemma probe_step_ok: "probe_ok r \<Longrightarrow> probe_ok (probe_step op r)"
  by (cases op) (simp_all add: on_command_ok begin_ok finish_ok)

text \<open>
  However moves, timer callbacks and finishing probes interleave, the router never has two
  probes of one servo waiting or running, and the pending set is exactly those servos, so a
  servo whose probe is over can be scheduled again.
\<close>

theorem probe_queue_invariant:
  "probe_ok (fold probe_step ops (router_init ports reg probe_on_unknown retry_sec))"
proof -
  have "probe_ok r \<Longrightarrow> probe_ok (fold probe_step ops r)" for r
    by (induction ops arbitrary: r) (simp_all add: probe_step_ok)
  then show ?thesis by (simp add: router_init_def probe_ok_def)
qed

section \<open>The router as a safety gate\<close>

definition rt_gate_step ::
    "'w port_clients \<Rightarrow> (gate_event \<Rightarrow> string \<times> int \<times> int list) \<Rightarrow> gate_event \<Rightarrow> router \<times> 'w \<Rightarrow> bool \<times> router \<times> 'w" where
  "rt_gate_step pc env e = (\<lambda>(r, w).
     case e of
       Ev_command c now stamp \<Rightarrow>
         (let (protocol, sid, params) = env e;
              (resp, r', w') = rt_handle_execute pc
                \<lparr>xq_servo_id = sid, xq_protocol = protocol, xq_command = c, xq_params = params,
                 xq_stamp = Ros_time 0 stamp\<rparr> now r w
          in (xr_success resp \<or> xr_error_code resp \<noteq> 11, r', w'))
     | Ev_authority active stamp now \<Rightarrow> (True, rt_on_driver_safety active (Ros_time 0 stamp) now r, w))"

lemma relay_effect:
  "relay_execute pc port req ps r w = (resp, r', w') \<Longrightarrow>
    rt_latch r' = rt_latch r \<and> (xr_success resp \<or> xr_error_code resp \<noteq> 11)"
  by (induction pc port req ps r w rule: relay_execute.induct) (auto split: prod.splits option.splits if_splits)

lemma rt_unlocked_effect:
  "rt_execute_unlocked pc req r w = (resp, r', w') \<Longrightarrow>
    rt_latch r' = rt_latch r \<and> (xr_success resp \<or> xr_error_code resp \<noteq> 11)"
  by (auto simp: rt_execute_unlocked_def dest!: relay_effect split: if_splits option.splits)

lemma rt_execute_effect:
  assumes "rt_handle_execute pc req now r w = (resp, r', w')"
  shows "rt_latch r' = (if is_stop_command (xq_command req) then latch_activate now (rt_latch r) else rt_latch r)"
    "xr_success resp \<or> xr_error_code resp \<noteq> 11 \<longleftrightarrow>
      (is_motion_command (xq_command req) \<longrightarrow> fst (latch_admit (ros_time_to_ns (xq_stamp req)) False 0 (rt_latch r)))"
  using assms motion_not_stop [of "xq_command req"]
  by (auto simp: rt_handle_execute_def admit_protocol_command_def latch_admit_def Let_def
      dest!: rt_unlocked_effect split: if_splits)

lemma rt_gate_command:
  obtains protocol sid params resp r' w' where
    "rt_handle_execute pc \<lparr>xq_servo_id = sid, xq_protocol = protocol, xq_command = c, xq_params = params,
       xq_stamp = Ros_time 0 stamp\<rparr> now r w = (resp, r', w')"
    "rt_gate_step pc env (Ev_command c now stamp) (r, w) = (xr_success resp \<or> xr_error_code resp \<noteq> 11, r', w')"
proof -
  obtain protocol sid params where e: "env (Ev_command c now stamp) = (protocol, sid, params)" by (metis prod_cases3)
  obtain resp r' w' where h: "rt_handle_execute pc \<lparr>xq_servo_id = sid, xq_protocol = protocol, xq_command = c,
      xq_params = params, xq_stamp = Ros_time 0 stamp\<rparr> now r w = (resp, r', w')" by (metis prod_cases3)
  show ?thesis by (rule that [OF h]) (simp add: rt_gate_step_def e h Let_def)
qed

interpretation route: safety_gate "rt_gate_step pc env" "\<lambda>s. latch_latched (rt_latch (fst s))"
  "\<lambda>s. latch_fence_ns (rt_latch (fst s))" for pc env
proof unfold_locales
  fix e t and s :: "router \<times> 'a"
  obtain r w where s: "s = (r, w)" by (cases s)
  show "stop_fence e = Some t \<Longrightarrow> fst (rt_gate_step pc env e s) \<and> latch_latched (rt_latch (fst (snd (rt_gate_step pc env e s)))) \<and>
      latch_fence_ns (rt_latch (fst (snd (rt_gate_step pc env e s)))) = max (latch_fence_ns (rt_latch (fst s))) t"
  proof (cases e)
    case (Ev_command c now stamp)
    assume *: "stop_fence e = Some t"
    show ?thesis
      using * Ev_command s
      by (cases rule: rt_gate_command [of pc c stamp now r w env])
        (auto simp: rt_execute_effect latch_activate_def split: if_splits dest: motion_not_stop)
  qed (auto simp: s rt_gate_step_def rt_on_driver_safety_def observe_authority_def split: if_splits)
  show "stop_fence e = None \<Longrightarrow> latch_fence_ns (rt_latch (fst (snd (rt_gate_step pc env e s)))) = latch_fence_ns (rt_latch (fst s))"
  proof (cases e)
    case (Ev_command c now stamp)
    assume *: "stop_fence e = None"
    show ?thesis
      using * Ev_command s
      by (cases rule: rt_gate_command [of pc c stamp now r w env]) (auto simp: rt_execute_effect split: if_splits)
  qed (auto simp: s rt_gate_step_def rt_on_driver_safety_def observe_authority_def Let_def split: if_splits)
  show "motion_stamp e = Some t \<Longrightarrow>
      latch_latched (rt_latch (fst (snd (rt_gate_step pc env e s)))) = latch_latched (rt_latch (fst s)) \<and>
      (fst (rt_gate_step pc env e s) \<longleftrightarrow> \<not> latch_latched (rt_latch (fst s)) \<and>
        (latch_fence_ns (rt_latch (fst s)) = 0 \<or> latch_fence_ns (rt_latch (fst s)) < t))"
  proof (cases e)
    case (Ev_command c now stamp)
    assume *: "motion_stamp e = Some t"
    show ?thesis
      using * Ev_command s motion_not_stop [of c]
      by (cases rule: rt_gate_command [of pc c stamp now r w env])
        (auto simp: rt_execute_effect latch_admit_def split: if_splits)
  qed auto
  show "latch_latched (rt_latch (fst s)) \<Longrightarrow> \<not> latch_latched (rt_latch (fst (snd (rt_gate_step pc env e s)))) \<Longrightarrow>
      \<exists>t. release_stamp e = Some t \<and> latch_fence_ns (rt_latch (fst s)) < t"
  proof (cases e)
    case (Ev_command c now stamp)
    assume *: "latch_latched (rt_latch (fst s))" "\<not> latch_latched (rt_latch (fst (snd (rt_gate_step pc env e s))))"
    show ?thesis
      using * Ev_command s
      by (cases rule: rt_gate_command [of pc c stamp now r w env])
        (auto simp: rt_execute_effect latch_activate_def split: if_splits)
  qed (auto simp: s rt_gate_step_def rt_on_driver_safety_def observe_authority_def Let_def split: if_splits)
qed

text \<open>
  The router is a gate of its own in front of the drivers: whatever the drivers answer and
  whatever states, stops and commands it has relayed, it refuses with code 11 a motion request
  stamped no later than a stop it has seen.
\<close>

theorem router_refuses_stale_motion:
  assumes "e \<in> set es" "stop_fence e = Some t" "0 < t" "is_motion_command c" "stamp \<le> t"
  shows "\<not> fst (rt_gate_step pc env (Ev_command c now stamp) (fold (\<lambda>e s. snd (rt_gate_step pc env e s)) es s))"
  using route.stale_motion_rejected [of e es t "Ev_command c now stamp" stamp pc env s] assms
  by (simp add: route.run_def)


definition silent_clients :: "unit port_clients" where
  "silent_clients = \<lparr>pc_read = \<lambda>_ _ _ w. (None, w), pc_execute = \<lambda>_ _ w. (None, w), pc_safety = \<lambda>_ _ _ w. (None, w)\<rparr>"

definition demo_router :: router where
  "demo_router = router_init [(''p0'', [1, 22]), (''p1'', [])] demo_registry True 3"

theorem router_refuses_stale_motion_witness:
  "\<not> fst (rt_gate_step silent_clients (\<lambda>_. (''lx'', 1, [])) (Ev_command ''move'' 9 3)
     (fold (\<lambda>e s. snd (rt_gate_step silent_clients (\<lambda>_. (''lx'', 1, [])) e s))
       [Ev_authority True 5 5, Ev_authority False 7 8] (demo_router, ())))"
proof -
  have "is_motion_command ''move''" by code_simp
  then show ?thesis
    using router_refuses_stale_motion [of "Ev_authority True 5 5" "[Ev_authority True 5 5, Ev_authority False 7 8]" 5 "''move''" 3]
    by simp
qed

end
