(* ===== verification/Servo_System.thy ===== *)
theory Servo_System
  imports Bus_Port_Driver Bus_Router
begin

text \<open>
  The router together with the port drivers it calls: the services of \<open>port_clients\<close> are those of
  \<open>Bus_Port_Driver\<close>, one driver per port, each process up or down. The properties here span both
  nodes: how far an emergency stop reaches, when a release takes effect, what a latched system
  still executes, and what a write command does to the protocol registry.
\<close>

record deployment =
  dp_up :: "string \<Rightarrow> bool"
  dp_now :: int
  dp_runs :: "string \<Rightarrow> string \<Rightarrow> serial_run"

type_synonym drivers = "string \<Rightarrow> port_driver"

definition driver_clients :: "deployment \<Rightarrow> drivers port_clients" where
  "driver_clients dp =
     \<lparr>pc_read = (\<lambda>port sid protocol w.
        if dp_up dp port
        then let (resp, d) = handle_read_position sid protocol (dp_runs dp port) (w port) in (Some resp, w(port := d))
        else (None, w)),
      pc_execute = (\<lambda>port req w.
        if dp_up dp port
        then let (resp, d) = handle_execute_command req (dp_now dp) (dp_runs dp port (xq_protocol req)) (w port)
             in (Some resp, w(port := d))
        else (None, w)),
      pc_safety = (\<lambda>port active stamp w.
        if dp_up dp port
        then let (resp, d) = pd_handle_driver_safety active stamp (dp_now dp) (w port) in (Some resp, w(port := d))
        else (None, w))\<rparr>"

section \<open>Fan-out of the safety state\<close>

text \<open>One call: what it reports and what it does to the driver of that port and to the others.\<close>

lemma call_safety:
  assumes "call_driver_safety (driver_clients dp) port active stamp w = (ok, w')"
  shows "ok \<longleftrightarrow> dp_up dp port \<and> latch_latched (pd_latch (w' port)) = active"
    "dp_up dp port \<Longrightarrow> active \<Longrightarrow> latch_latched (pd_latch (w' port)) \<and>
       (0 < ros_time_to_ns stamp \<longrightarrow> ros_time_to_ns stamp \<le> latch_fence_ns (pd_latch (w' port)))"
    "latch_latched (pd_latch (w q)) = active \<Longrightarrow> latch_latched (pd_latch (w' q)) = active"
    "latch_fence_ns (pd_latch (w q)) \<le> latch_fence_ns (pd_latch (w' q))"
    "\<not> dp_up dp port \<Longrightarrow> w' = w"
  using assms by (auto simp: call_driver_safety_def driver_clients_def pd_handle_driver_safety_def
      observe_authority_def Let_def split: if_splits)

text \<open>The ports that serve servos.\<close>

definition served :: "(string \<times> int list) list \<Rightarrow> string set" where
  "served ps = fst ` set (filter (\<lambda>p. snd p \<noteq> []) ps)"

lemma served_simps [simp]:
  "served [] = {}" "served ((port, ids) # ps) = (if ids = [] then served ps else insert port (served ps))"
  by (auto simp: served_def)

lemma apply_safety_keeps:
  "apply_driver_safety (driver_clients dp) ps active stamp w = (oks, w') \<Longrightarrow>
    (latch_latched (pd_latch (w q)) = active \<longrightarrow> latch_latched (pd_latch (w' q)) = active) \<and>
    latch_fence_ns (pd_latch (w q)) \<le> latch_fence_ns (pd_latch (w' q))"
proof (induction ps arbitrary: w oks)
  case (Cons p ps)
  obtain port ids where p: "p = (port, ids)" by (cases p)
  show ?case
  proof (cases "ids = []")
    case True
    with Cons.prems p have "apply_driver_safety (driver_clients dp) ps active stamp w = (oks, w')" by simp
    from Cons.IH [OF this] show ?thesis .
  next
    case False
    obtain ok w1 where c: "call_driver_safety (driver_clients dp) port active stamp w = (ok, w1)" by fastforce
    obtain oks' w2 where a: "apply_driver_safety (driver_clients dp) ps active stamp w1 = (oks', w2)" by fastforce
    have "w' = w2" using Cons.prems p False c a by simp
    with Cons.IH [OF a [folded this]] call_safety(3,4) [OF c, of q] show ?thesis by auto
  qed
qed simp

text \<open>What holds of every port after its own call holds at the end of the fan-out.\<close>

lemma apply_safety_results:
  "apply_driver_safety (driver_clients dp) ps active stamp w = (oks, w') \<Longrightarrow>
    (list_all (\<lambda>ok. ok) oks \<longrightarrow> (\<forall>port \<in> served ps. dp_up dp port \<and> latch_latched (pd_latch (w' port)) = active)) \<and>
    (active \<longrightarrow> list_all (\<lambda>ok. ok) oks = (\<forall>port \<in> served ps. dp_up dp port))"
proof (induction ps arbitrary: w oks)
  case (Cons p ps)
  obtain port ids where p: "p = (port, ids)" by (cases p)
  show ?case
  proof (cases "ids = []")
    case True
    with Cons.prems p have "apply_driver_safety (driver_clients dp) ps active stamp w = (oks, w')" by simp
    from Cons.IH [OF this] p True show ?thesis by simp
  next
    case False
    obtain ok w1 where c: "call_driver_safety (driver_clients dp) port active stamp w = (ok, w1)" by fastforce
    obtain oks' w2 where a: "apply_driver_safety (driver_clients dp) ps active stamp w1 = (oks', w2)" by fastforce
    have r: "oks = ok # oks'" "w' = w2" using Cons.prems p False c a by simp_all
    show ?thesis
      using call_safety(1,2) [OF c] Cons.IH [OF a [folded r(2)]] apply_safety_keeps [OF a, of port] r p False by auto
  qed
qed simp

lemma apply_safety_stops:
  "apply_driver_safety (driver_clients dp) ps True stamp w = (oks, w') \<Longrightarrow> 0 < ros_time_to_ns stamp \<Longrightarrow>
    port \<in> served ps \<Longrightarrow> dp_up dp port \<Longrightarrow>
    latch_latched (pd_latch (w' port)) \<and> ros_time_to_ns stamp \<le> latch_fence_ns (pd_latch (w' port))"
proof (induction ps arbitrary: w oks)
  case (Cons p ps)
  obtain q ids where p: "p = (q, ids)" by (cases p)
  show ?case
  proof (cases "ids = []")
    case True
    with Cons p show ?thesis by simp
  next
    case False
    obtain ok w1 where c: "call_driver_safety (driver_clients dp) q True stamp w = (ok, w1)" by fastforce
    obtain oks' w2 where a: "apply_driver_safety (driver_clients dp) ps True stamp w1 = (oks', w2)" by fastforce
    have r: "w' = w2" using Cons.prems p False c a by simp
    show ?thesis
    proof (cases "port = q")
      case True
      with call_safety(2) [OF c] apply_safety_keeps [OF a, of port] Cons.prems(2,4) r show ?thesis by auto
    next
      case f: False
      with Cons.prems p False have "port \<in> served ps" by simp
      from Cons.IH [OF a [folded r] Cons.prems(2) this Cons.prems(4)] show ?thesis .
    qed
  qed
qed simp

text \<open>
  An emergency stop sent to the router's safety service latches the router itself and the
  driver of every port that serves servos and is running, with a fence at least at the stop's
  stamp, whether or not another port is down; it is answered with success exactly when none is.
\<close>

theorem estop_reaches_every_port:
  assumes "0 < ros_time_to_ns stamp"
    "rt_handle_driver_safety (driver_clients dp) True stamp now r w = (resp, r', w')"
  shows "latch_latched (rt_latch r') \<and> ros_time_to_ns stamp \<le> latch_fence_ns (rt_latch r')
    \<and> (\<forall>port \<in> served (rt_ports r). dp_up dp port \<longrightarrow>
         latch_latched (pd_latch (w' port)) \<and> ros_time_to_ns stamp \<le> latch_fence_ns (pd_latch (w' port)))
    \<and> (fst resp \<longleftrightarrow> (\<forall>port \<in> served (rt_ports r). dp_up dp port))"
proof -
  obtain oks w1 where a: "apply_driver_safety (driver_clients dp) (rt_ports r) True stamp w = (oks, w1)" by fastforce
  then have h: "w' = w1" "rt_latch r' = snd (observe_authority True (ros_time_to_ns stamp) now (rt_latch r))"
    "fst resp \<longleftrightarrow> list_all (\<lambda>ok. ok) oks \<and> latch_latched (rt_latch r')"
    using assms(2) by (auto simp: rt_handle_driver_safety_def Let_def)
  with apply_safety_results [OF a] apply_safety_stops [OF a assms(1)] assms(1) show ?thesis
    by (auto simp: observe_authority_def)
qed

text \<open>
  A release takes effect everywhere or is reported as failed: if it is answered with success,
  every port that serves servos is running and no longer latched, and neither is the router; if
  such a port is down, the answer is a failure and the router's latch stays as it was, so a
  stopped system stays closed to motion.
\<close>

theorem release_needs_every_port:
  assumes "rt_handle_driver_safety (driver_clients dp) False stamp now r w = (resp, r', w')"
  shows "(fst resp \<longrightarrow> \<not> latch_latched (rt_latch r') \<and>
           (\<forall>port \<in> served (rt_ports r). dp_up dp port \<and> \<not> latch_latched (pd_latch (w' port))))
    \<and> ((\<exists>port \<in> served (rt_ports r). \<not> dp_up dp port) \<longrightarrow> \<not> fst resp \<and> rt_latch r' = rt_latch r)"
proof -
  obtain oks w1 where a: "apply_driver_safety (driver_clients dp) (rt_ports r) False stamp w = (oks, w1)" by fastforce
  then have h: "w' = w1" "fst resp \<longrightarrow> list_all (\<lambda>ok. ok) oks \<and> \<not> latch_latched (rt_latch r')"
    "\<not> list_all (\<lambda>ok. ok) oks \<longrightarrow> rt_latch r' = rt_latch r \<and> \<not> fst resp"
    using assms by (auto simp: rt_handle_driver_safety_def Let_def)
  with apply_safety_results [OF a] show ?thesis by auto
qed

lemma latched_router_refuses:
  assumes "latch_latched (rt_latch r)" "is_motion_command (xq_command req)"
  shows "rt_handle_execute pc req now r w = (execute_error (norm_text (xq_protocol req)) 11, r, w)"
  using assms motion_not_stop [OF assms(2)]
  by (simp add: rt_handle_execute_def admit_protocol_command_def latch_admit_def)

text \<open>
  C6: After an emergency stop through the router no motion request and no move message gets past
  it: the request is refused with code 11 and the message routed nowhere, and the drivers are left
  as the stop left them.
\<close>

theorem no_motion_after_estop:
  assumes "0 < ros_time_to_ns stamp"
    "rt_handle_driver_safety (driver_clients dp) True stamp now r w = (resp, r', w')"
    "is_motion_command (xq_command req)"
  shows "rt_handle_execute (driver_clients dp') req now' r' w' = (execute_error (norm_text (xq_protocol req)) 11, r', w')
    \<and> rt_routed (on_command msg t r') = rt_routed r'"
proof -
  obtain oks w1 where a: "apply_driver_safety (driver_clients dp) (rt_ports r) True stamp w = (oks, w1)" by fastforce
  then have l: "latch_latched (rt_latch r')"
    using assms(2) by (auto simp: rt_handle_driver_safety_def Let_def observe_authority_def)
  have "rt_routed (on_command msg t r') = rt_routed r'"
    using l by (auto simp: on_command_def schedule_runtime_probe_def latch_admit_def Let_def
        split: option.splits)
  with latched_router_refuses [OF l assms(3), of "driver_clients dp'" now' w'] show ?thesis by blast
qed

section \<open>Write commands and the registry\<close>

lemma find_member: "find P xs = Some x \<Longrightarrow> x \<in> set xs"
  by (induction xs) (auto split: if_splits)

lemma relay_first_success:
  assumes "call_execute_command pc port (req\<lparr>xq_protocol := p, xq_command := py_strip (xq_command req)\<rparr>) r w = (Some resp, w1)"
    "xr_success resp"
  shows "relay_execute pc port req (p # ps) r w =
    (resp\<lparr>xr_protocol := p\<rparr>, update_registry (xq_servo_id req) p r, w1)"
  using assms by simp

lemma driver_torque_release:
  assumes "is_allowed_id ''lx'' sid d" "sr_ready run" "\<not> sr_write_fails run"
  shows "xr_success (fst (handle_execute_command
    \<lparr>xq_servo_id = sid, xq_protocol = ''lx'', xq_command = ''torque_release'', xq_params = [], xq_stamp = stamp\<rparr> now run d))"
proof -
  have n: "\<not> is_stop_command ''torque_release''" "\<not> is_motion_command ''torque_release''"
    "py_strip ''torque_release'' = ''torque_release''" "norm_text ''lx'' = ''lx''"
    "normalize_command_name ''torque_release'' = ''torque_release''" by code_simp+
  have r: "resolve_command ''lx'' ''torque_release'' = Some (''torque_release'', spec1 encode_torque_release None)"
    using n(5) by (simp add: resolve_command_def command_aliases_def lx_aliases_def command_specs_def lx_specs_def)
  obtain f where "encode_torque_release sid = Inr f"
    by (simp add: encode_torque_release_def encode_load_or_unload_write_def build_packet_frame)
  then have "call_with_checked_params (spec1 encode_torque_release None) [sid] = Inr f"
    by (simp add: call_with_checked_params_def spec1_def)
  with assms n r show ?thesis
    by (simp add: handle_execute_command_def handle_execute_command_unlocked_def exchange_with_servo_def
        spec1_def Let_def)
qed

text \<open>
  A write command teaches the router a protocol nobody confirmed: for a servo whose protocol
  is unknown, a torque release without a protocol is first sent as LX, the port driver reports
  success though no servo has answered a byte, and the registry then holds LX for that servo.
\<close>

theorem unconfirmed_write_sets_protocol:
  assumes "registry_ok (rt_registry r)" "fst (get_protocol sid (rt_registry r)) = None"
    "id_to_port r sid = Some port" "dp_up dp port" "is_allowed_id ''lx'' sid (w port)"
    "sr_ready (dp_runs dp port ''lx'')" "\<not> sr_write_fails (dp_runs dp port ''lx'')"
  shows "let (resp, r', w') = rt_handle_execute (driver_clients dp)
      \<lparr>xq_servo_id = sid, xq_protocol = '''', xq_command = ''torque_release'', xq_params = [], xq_stamp = stamp\<rparr> now r w
    in xr_success resp \<and> get_protocol sid (rt_registry r') = (Some ''lx'', ''cache'')"
proof -
  let ?req = "\<lparr>xq_servo_id = sid, xq_protocol = '''', xq_command = ''torque_release'', xq_params = [], xq_stamp = stamp\<rparr>"
  have n: "\<not> is_stop_command ''torque_release''" "\<not> is_motion_command ''torque_release''"
    "py_strip ''torque_release'' = ''torque_release''" "normalize_protocol (Some ''lx'') = Some ''lx''" by code_simp+
  have o: "resolve_protocol_order '''' sid r = [''lx'', ''zl'']"
    using assms(2) by (simp add: resolve_protocol_order_def)
  have p: "port \<in> fst ` set (rt_ports r)"
    using assms(3) by (force simp: id_to_port_def dest!: find_member)
  obtain resp d where h: "handle_execute_command (?req\<lparr>xq_protocol := ''lx''\<rparr>) (dp_now dp) (dp_runs dp port ''lx'') (w port) = (resp, d)"
    by fastforce
  have s: "xr_success resp" using driver_torque_release [OF assms(5-7), of stamp "dp_now dp"] h by simp
  have c: "call_execute_command (driver_clients dp) port
      (?req\<lparr>xq_protocol := ''lx'', xq_command := py_strip (xq_command ?req)\<rparr>) r w = (Some resp, w(port := d))"
    using p assms(4) h n(3) by (simp add: call_execute_command_def driver_clients_def)
  have "rt_handle_execute (driver_clients dp) ?req now r w =
      (resp\<lparr>xr_protocol := ''lx''\<rparr>, update_registry sid ''lx'' r, w(port := d))"
    using n assms(3) o relay_first_success [OF c s, of "[''zl'']"]
    by (simp add: rt_handle_execute_def rt_execute_unlocked_def)
  moreover have "map_of (reg_manual (rt_registry r)) sid = None"
    using assms(1,2) by (auto simp: get_protocol_cases split: option.splits)
  ultimately show ?thesis
    using s get_set_protocol [OF assms(1), of sid sid "''lx''"] n(4) by simp
qed

section \<open>A small deployment\<close>

definition demo_deployment :: "(string \<Rightarrow> bool) \<Rightarrow> deployment" where
  "demo_deployment up = \<lparr>dp_up = up, dp_now = 7, dp_runs = \<lambda>_ _. demo_run\<rparr>"

definition demo_drivers :: drivers where
  "demo_drivers = (\<lambda>_. pd_init [] [] 100)"

theorem estop_reaches_every_port_witness:
  "let (resp, r', w') = rt_handle_driver_safety (driver_clients (demo_deployment (\<lambda>_. True))) True (Ros_time 5 0) 6
      demo_router demo_drivers
    in fst resp \<and> latch_latched (pd_latch (w' ''p0''))"
proof -
  obtain resp r' w' where h: "rt_handle_driver_safety (driver_clients (demo_deployment (\<lambda>_. True))) True (Ros_time 5 0) 6
      demo_router demo_drivers = (resp, r', w')" by (metis prod_cases3)
  have "0 < ros_time_to_ns (Ros_time 5 0)" by simp
  from estop_reaches_every_port [OF this h]
  have "fst resp \<and> latch_latched (pd_latch (w' ''p0''))"
    by (simp add: demo_deployment_def demo_router_def router_init_def)
  then show ?thesis by (simp add: h)
qed

theorem release_needs_every_port_witness:
  "let (resp, r', w') = rt_handle_driver_safety (driver_clients (demo_deployment (\<lambda>p. p = ''p1''))) False (Ros_time 5 0) 6
      demo_router demo_drivers
    in \<not> fst resp"
proof -
  obtain resp r' w' where h: "rt_handle_driver_safety (driver_clients (demo_deployment (\<lambda>p. p = ''p1''))) False (Ros_time 5 0) 6
      demo_router demo_drivers = (resp, r', w')" by (metis prod_cases3)
  from release_needs_every_port [OF h] have "\<not> fst resp"
    by (simp add: demo_deployment_def demo_router_def router_init_def)
  then show ?thesis by (simp add: h)
qed

theorem no_motion_after_estop_witness:
  "let (resp, r', w') = rt_handle_driver_safety (driver_clients (demo_deployment (\<lambda>_. False))) True (Ros_time 5 0) 6
      demo_router demo_drivers
    in rt_routed (on_command demo_move 0 r') = rt_routed r'"
proof -
  obtain resp r' w' where h: "rt_handle_driver_safety (driver_clients (demo_deployment (\<lambda>_. False))) True (Ros_time 5 0) 6
      demo_router demo_drivers = (resp, r', w')" by (metis prod_cases3)
  have a: "0 < ros_time_to_ns (Ros_time 5 0)"
    "is_motion_command (xq_command \<lparr>xq_servo_id = 1, xq_protocol = '''', xq_command = ''move'', xq_params = [], xq_stamp = No_stamp\<rparr>)"
    by code_simp+
  from no_motion_after_estop [OF a(1) h a(2)] show ?thesis by (simp add: h)
qed

theorem unconfirmed_write_sets_protocol_witness:
  "let (resp, r', w') = rt_handle_execute (driver_clients (demo_deployment (\<lambda>_. True)))
      \<lparr>xq_servo_id = 1, xq_protocol = '''', xq_command = ''torque_release'', xq_params = [], xq_stamp = No_stamp\<rparr> 6
      demo_router demo_drivers
    in xr_success resp \<and> get_protocol 1 (rt_registry r') = (Some ''lx'', ''cache'')"
proof -
  have "registry_ok (rt_registry demo_router)"
    by (simp add: demo_router_def router_init_def demo_registry_def registry_init_ok)
  moreover have "fst (get_protocol 1 (rt_registry demo_router)) = None" "id_to_port demo_router 1 = Some ''p0''"
    by code_simp+
  moreover have "is_allowed_id ''lx'' 1 (demo_drivers ''p0'')"
    by (simp add: demo_drivers_def is_allowed_id_def pd_init_def)
  ultimately show ?thesis
    by (intro unconfirmed_write_sets_protocol) (simp_all add: demo_deployment_def demo_run_def)
qed


end
