(* ===== verification/Action_Server.thy ===== *)
theory Action_Server
  imports Prelude
begin

text \<open>
  What the two action servers of the program, the task bridge and the motion controller, share: goals and
  their ends, and the single-goal slot (the class \<open>SingleGoalAdmission\<close>, which both packages define).
\<close>

type_synonym goal_id = nat

datatype goal_end = End_succeeded | End_aborted | End_canceled

text \<open>The status with which a goal of another server is answered.\<close>

datatype goal_status = Status_succeeded | Status_canceled | Status_aborted

section \<open>The single-goal slot\<close>

text \<open>The slot is one flag; \<open>release\<close> clears it whoever calls.\<close>

definition try_acquire :: "bool \<Rightarrow> bool \<times> bool" where
  "try_acquire occupied = (if occupied then (False, occupied) else (True, True))"

definition slot_release :: "bool \<Rightarrow> bool" where
  "slot_release occupied = False"

end
