(* ===== verification/Motion_Goal.thy ===== *)
theory Motion_Goal
  imports Py_Float Action_Server
begin

text \<open>
  The pure part of the motion action server, \<open>parallel_3dof_controller/motion_execution.py\<close>: the
  validation of a motion goal, what the controller reads off a published task state, and the
  aggregation of position feedback into progress and completion.
\<close>

section \<open>Goals\<close>

record motion_goal =
  mg_task_id :: string
  mg_trace_id :: string
  mg_session_id :: string
  mg_motion_type :: string
  mg_target_group :: string
  mg_roll_deg :: py_float
  mg_pitch_deg :: py_float
  mg_yaw_deg :: py_float
  mg_duration_ms :: int
  mg_position_tolerance :: int
  mg_execution_timeout_sec :: py_float

record motion_spec =
  ms_task_id :: string
  ms_trace_id :: string
  ms_session_id :: string
  ms_motion_type :: string
  ms_target_group :: string
  ms_roll_deg :: real
  ms_pitch_deg :: real
  ms_yaw_deg :: real
  ms_duration_ms :: int
  ms_position_tolerance :: int
  ms_execution_timeout_sec :: real

definition supported_motion_type :: string where
  "supported_motion_type = ''ankle_pose''"

definition supported_target_groups :: "string list" where
  "supported_target_groups = [''left_ankle'', ''right_ankle'']"

text \<open>One turn of the loop over the angles; \<open>None\<close> when the angle is good.\<close>

definition angle_failure :: "string \<Rightarrow> py_float \<Rightarrow> string option" where
  "angle_failure name a =
     (if \<not> is_finite a then Some (name @ ''_not_finite'')
      else if 30 < \<bar>fin a\<bar> then Some (name @ ''_out_of_workspace'') else None)"

text \<open>\<open>normalize_motion_goal\<close>; \<open>MotionGoalValidationError\<close> is a \<open>ValueError\<close> that carries its reason.\<close>

definition normalize_motion_goal :: "motion_goal \<Rightarrow> motion_spec result" where
  "normalize_motion_goal g =
     (let task_id = py_strip (mg_task_id g); trace_id = py_strip (mg_trace_id g);
          session_id = py_strip (mg_session_id g);
          motion_type = norm_text (mg_motion_type g); target_group = norm_text (mg_target_group g);
          fail = (\<lambda>why. Inl (ValueError why))
      in if task_id = '''' then fail ''task_id_required''
         else if trace_id = '''' then fail ''trace_id_required''
         else if session_id = '''' then fail ''session_id_required''
         else if motion_type \<noteq> supported_motion_type then fail ''unsupported_motion_type''
         else if target_group \<notin> set supported_target_groups then fail ''unsupported_target_group''
         else case angle_failure ''roll'' (mg_roll_deg g) of Some why \<Rightarrow> fail why | None \<Rightarrow>
              (case angle_failure ''pitch'' (mg_pitch_deg g) of Some why \<Rightarrow> fail why | None \<Rightarrow>
              (case angle_failure ''yaw'' (mg_yaw_deg g) of Some why \<Rightarrow> fail why | None \<Rightarrow>
                (if mg_duration_ms g \<le> 0 then fail ''duration_ms_required''
                 else if \<not> (1 \<le> mg_position_tolerance g \<and> mg_position_tolerance g \<le> 500)
                   then fail ''position_tolerance_out_of_range''
                 else if \<not> is_finite (mg_execution_timeout_sec g) then fail ''execution_timeout_not_finite''
                 else if \<not> (1 / 10 \<le> fin (mg_execution_timeout_sec g) \<and> fin (mg_execution_timeout_sec g) \<le> 120)
                   then fail ''execution_timeout_out_of_range''
                 else Inr \<lparr>ms_task_id = task_id, ms_trace_id = trace_id, ms_session_id = session_id,
                        ms_motion_type = motion_type, ms_target_group = target_group,
                        ms_roll_deg = fin (mg_roll_deg g), ms_pitch_deg = fin (mg_pitch_deg g),
                        ms_yaw_deg = fin (mg_yaw_deg g), ms_duration_ms = mg_duration_ms g,
                        ms_position_tolerance = mg_position_tolerance g,
                        ms_execution_timeout_sec = fin (mg_execution_timeout_sec g)\<rparr>))))"

section \<open>Task states\<close>

text \<open>The fields of \<open>TaskExecutionState\<close> that are read; no state has arrived while it is \<open>None\<close>.\<close>

record task_state =
  ts_active :: bool
  ts_task_id :: string
  ts_trace_id :: string
  ts_session_id :: string
  ts_lease_id :: string
  ts_last_action :: string
  ts_last_task_id :: string
  ts_last_trace_id :: string
  ts_last_session_id :: string
  ts_last_action_accepted :: bool
  ts_status :: string
  ts_reason :: string

definition task_state_has_identity :: "task_state option \<Rightarrow> motion_spec \<Rightarrow> bool" where
  "task_state_has_identity state spec =
     (case state of None \<Rightarrow> False
      | Some s \<Rightarrow> ts_task_id s = ms_task_id spec \<and> ts_trace_id s = ms_trace_id spec
          \<and> ts_session_id s = ms_session_id spec)"

definition active_task_lease :: "task_state option \<Rightarrow> motion_spec \<Rightarrow> string" where
  "active_task_lease state spec =
     (case state of None \<Rightarrow> ''''
      | Some s \<Rightarrow> if \<not> task_state_has_identity state spec \<or> \<not> ts_active s then ''''
                  else py_strip (ts_lease_id s))"

definition terminal_task_statuses :: "string list" where
  "terminal_task_statuses = [''finished'', ''cancelled'', ''expired'', ''blocked'']"

definition terminal_task_status :: "task_state option \<Rightarrow> motion_spec \<Rightarrow> string" where
  "terminal_task_status state spec =
     (case state of None \<Rightarrow> ''''
      | Some s \<Rightarrow>
          (let status = norm_text (ts_status s)
           in if task_state_has_identity state spec \<and> \<not> ts_active s \<and> py_strip (ts_lease_id s) = ''''
                 \<and> status \<in> set terminal_task_statuses
              then status else ''''))"

definition is_terminal_task_state :: "task_state option \<Rightarrow> motion_spec \<Rightarrow> bool" where
  "is_terminal_task_state state spec \<longleftrightarrow> terminal_task_status state spec \<noteq> ''''"

text \<open>The last task control a state reports is a start of this goal.\<close>

definition last_is_start_of :: "task_state \<Rightarrow> motion_spec \<Rightarrow> bool" where
  "last_is_start_of s spec \<longleftrightarrow> norm_text (ts_last_action s) = ''start'' \<and> ts_last_task_id s = ms_task_id spec
     \<and> ts_last_trace_id s = ms_trace_id spec \<and> ts_last_session_id s = ms_session_id spec"

definition task_start_was_rejected :: "task_state option \<Rightarrow> motion_spec \<Rightarrow> bool" where
  "task_start_was_rejected state spec =
     (case state of None \<Rightarrow> False
      | Some s \<Rightarrow> last_is_start_of s spec \<and> \<not> ts_last_action_accepted s)"

definition task_start_was_accepted :: "task_state option \<Rightarrow> motion_spec \<Rightarrow> bool" where
  "task_start_was_accepted state spec =
     (case state of None \<Rightarrow> False
      | Some s \<Rightarrow> task_state_has_identity state spec \<and> ts_active s \<and> last_is_start_of s spec
          \<and> ts_last_action_accepted s \<and> py_strip (ts_lease_id s) \<noteq> '''')"

section \<open>Feedback\<close>

record actuator_observation =
  ao_position_raw :: int
  ao_status :: string
  ao_reason :: string
  ao_recoverable :: bool
  ao_observed :: real

text \<open>Targets and observations are dictionaries; the loop visits the targets in order.\<close>

fun feedback_loop :: "(int \<times> int) list \<Rightarrow> (int \<rightharpoonup> actuator_observation) \<Rightarrow> real \<Rightarrow> int \<Rightarrow>
    nat \<times> actuator_observation option \<Rightarrow> nat \<times> actuator_observation option" where
  "feedback_loop [] obs issued tol acc = acc"
| "feedback_loop ((actuator, target) # targets) obs issued tol (reached, err) =
     (case obs actuator of
        None \<Rightarrow> feedback_loop targets obs issued tol (reached, err)
      | Some ob \<Rightarrow>
          if ao_observed ob < issued then feedback_loop targets obs issued tol (reached, err)
          else if ao_status ob = ''error''
            then feedback_loop targets obs issued tol (reached, if err = None then Some ob else err)
          else if \<bar>ao_position_raw ob - target\<bar> \<le> tol
            then feedback_loop targets obs issued tol (Suc reached, err)
          else feedback_loop targets obs issued tol (reached, err))"

definition evaluate_target_feedback ::
    "(int \<times> int) list \<Rightarrow> (int \<rightharpoonup> actuator_observation) \<Rightarrow> real \<Rightarrow> int \<Rightarrow> nat \<times> actuator_observation option" where
  "evaluate_target_feedback targets obs issued tol = feedback_loop targets obs issued tol (0, None)"

definition progress_fraction :: "int \<Rightarrow> int \<Rightarrow> real" where
  "progress_fraction reached target_count =
     (if target_count \<le> 0 then 0 else max 0 (min 1 (of_int reached / of_int target_count)))"

record stable_tracker =
  tr_required :: nat
  tr_consecutive :: nat

definition tracker_init :: "int \<Rightarrow> stable_tracker result" where
  "tracker_init required =
     (if required \<le> 0 then Inl (ValueError ''required_samples_must_be_positive'')
      else Inr \<lparr>tr_required = nat required, tr_consecutive = 0\<rparr>)"

definition tracker_update :: "nat \<Rightarrow> nat \<Rightarrow> stable_tracker \<Rightarrow> bool \<times> stable_tracker" where
  "tracker_update reached target_count tr =
     (let n = (if 0 < target_count \<and> reached = target_count then Suc (tr_consecutive tr) else 0);
          tr' = tr\<lparr>tr_consecutive := n\<rparr>
      in (tr_required tr \<le> n, tr'))"

section \<open>Validation\<close>

text \<open>What an accepted goal satisfies.\<close>

definition spec_ok :: "motion_spec \<Rightarrow> bool" where
  "spec_ok s \<longleftrightarrow> ms_task_id s \<noteq> '''' \<and> ms_trace_id s \<noteq> '''' \<and> ms_session_id s \<noteq> ''''
     \<and> py_strip (ms_task_id s) = ms_task_id s \<and> py_strip (ms_trace_id s) = ms_trace_id s
     \<and> py_strip (ms_session_id s) = ms_session_id s
     \<and> ms_motion_type s = supported_motion_type \<and> ms_target_group s \<in> set supported_target_groups
     \<and> \<bar>ms_roll_deg s\<bar> \<le> 30 \<and> \<bar>ms_pitch_deg s\<bar> \<le> 30 \<and> \<bar>ms_yaw_deg s\<bar> \<le> 30
     \<and> 0 < ms_duration_ms s \<and> 1 \<le> ms_position_tolerance s \<and> ms_position_tolerance s \<le> 500
     \<and> 1 / 10 \<le> ms_execution_timeout_sec s \<and> ms_execution_timeout_sec s \<le> 120"

lemma angle_failure_None [simp]: "angle_failure name a = None \<longleftrightarrow> is_finite a \<and> \<bar>fin a\<bar> \<le> 30"
  by (auto simp: angle_failure_def)

lemma normalize_ok: "normalize_motion_goal g = Inr s \<Longrightarrow> spec_ok s"
  by (auto simp: normalize_motion_goal_def spec_ok_def Let_def split: if_splits option.splits)

lemma normalize_accepts:
  assumes "py_strip (mg_task_id g) \<noteq> ''''" "py_strip (mg_trace_id g) \<noteq> ''''" "py_strip (mg_session_id g) \<noteq> ''''"
    "norm_text (mg_motion_type g) = supported_motion_type" "norm_text (mg_target_group g) \<in> set supported_target_groups"
    "is_finite (mg_roll_deg g)" "\<bar>fin (mg_roll_deg g)\<bar> \<le> 30" "is_finite (mg_pitch_deg g)" "\<bar>fin (mg_pitch_deg g)\<bar> \<le> 30"
    "is_finite (mg_yaw_deg g)" "\<bar>fin (mg_yaw_deg g)\<bar> \<le> 30" "0 < mg_duration_ms g"
    "1 \<le> mg_position_tolerance g" "mg_position_tolerance g \<le> 500" "is_finite (mg_execution_timeout_sec g)"
    "1 / 10 \<le> fin (mg_execution_timeout_sec g)" "fin (mg_execution_timeout_sec g) \<le> 120"
  shows "\<exists>s. normalize_motion_goal g = Inr s"
  using assms by (simp add: normalize_motion_goal_def angle_failure_def Let_def)

section \<open>Feedback facts\<close>

text \<open>A target counts as reached by a fresh, error-free reading within the tolerance.\<close>

definition target_reached :: "(int \<rightharpoonup> actuator_observation) \<Rightarrow> real \<Rightarrow> int \<Rightarrow> int \<times> int \<Rightarrow> bool" where
  "target_reached obs issued tol t =
     (case obs (fst t) of None \<Rightarrow> False
      | Some ob \<Rightarrow> issued \<le> ao_observed ob \<and> ao_status ob \<noteq> ''error'' \<and> \<bar>ao_position_raw ob - snd t\<bar> \<le> tol)"

definition target_error :: "(int \<rightharpoonup> actuator_observation) \<Rightarrow> real \<Rightarrow> int \<times> int \<Rightarrow> actuator_observation option" where
  "target_error obs issued t =
     (case obs (fst t) of None \<Rightarrow> None
      | Some ob \<Rightarrow> if issued \<le> ao_observed ob \<and> ao_status ob = ''error'' then Some ob else None)"

lemma feedback_loop_eq:
  "feedback_loop targets obs issued tol (n, e) =
     (n + length (filter (target_reached obs issued tol) targets),
      (case e of Some x \<Rightarrow> Some x
       | None \<Rightarrow> (case List.map_filter (target_error obs issued) targets of [] \<Rightarrow> None | x # _ \<Rightarrow> Some x)))"
  by (induction targets obs issued tol "(n, e)" arbitrary: n e rule: feedback_loop.induct)
    (auto simp: target_reached_def target_error_def map_filter_simps split: option.splits)

lemma evaluate_feedback:
  "evaluate_target_feedback targets obs issued tol =
     (length (filter (target_reached obs issued tol) targets),
      (case List.map_filter (target_error obs issued) targets of [] \<Rightarrow> None | x # _ \<Rightarrow> Some x))"
  by (simp add: evaluate_target_feedback_def feedback_loop_eq)

lemma all_reached_iff:
  "fst (evaluate_target_feedback targets obs issued tol) = length targets \<longleftrightarrow>
     list_all (target_reached obs issued tol) targets"
proof -
  have "length (filter P xs) = length xs \<longleftrightarrow> list_all P xs" for P and xs :: "(int \<times> int) list"
    using length_filter_less [of _ xs P] unfolding list_all_iff by (metis filter_True less_irrefl)
  then show ?thesis by (simp add: evaluate_feedback)
qed

section \<open>Completion\<close>

definition tracker_run :: "(nat \<times> nat) list \<Rightarrow> stable_tracker \<Rightarrow> stable_tracker" where
  "tracker_run us tr = fold (\<lambda>(r, n) tr. snd (tracker_update r n tr)) us tr"

definition full_sample :: "nat \<times> nat \<Rightarrow> bool" where
  "full_sample u \<longleftrightarrow> 0 < snd u \<and> fst u = snd u"

lemma tracker_update_simps [simp]:
  "tr_required (snd (tracker_update r n tr)) = tr_required tr"
  "tr_consecutive (snd (tracker_update r n tr)) = (if full_sample (r, n) then Suc (tr_consecutive tr) else 0)"
  "fst (tracker_update r n tr) \<longleftrightarrow> tr_required tr \<le> (if full_sample (r, n) then Suc (tr_consecutive tr) else 0)"
  by (simp_all add: tracker_update_def full_sample_def Let_def)

lemma tracker_run_required [simp]: "tr_required (tracker_run us tr) = tr_required tr"
  by (induction us arbitrary: tr) (auto simp: tracker_run_def)

lemma tracker_run_consecutive:
  "tr_consecutive tr = 0 \<Longrightarrow> tr_consecutive (tracker_run us tr) = length (takeWhile full_sample (rev us))"
proof (induction us rule: rev_induct)
  case (snoc u us)
  then show ?case by (cases u) (simp add: tracker_run_def split_def)
qed (simp add: tracker_run_def)


section \<open>Properties\<close>

text \<open>
  A motion goal that passes validation is well formed whatever was sent: non-empty stripped
  identities, the supported motion and a supported group, finite angles within 30 degrees, a
  positive duration, a tolerance of 1 to 500 and a timeout of 0.1 to 120 seconds.
\<close>

theorem accepted_goal_is_well_formed:
  assumes "normalize_motion_goal g = Inr s"
  shows "spec_ok s"
  by (rule normalize_ok [OF assms])

definition demo_goal :: motion_goal where
  "demo_goal = \<lparr>mg_task_id = '' t '', mg_trace_id = ''tr'', mg_session_id = ''s'', mg_motion_type = ''Ankle_Pose'',
     mg_target_group = ''left_ankle'', mg_roll_deg = Fin 10, mg_pitch_deg = Fin (-30), mg_yaw_deg = Fin 0,
     mg_duration_ms = 200, mg_position_tolerance = 5, mg_execution_timeout_sec = Fin 2\<rparr>"

definition demo_spec :: motion_spec where
  "demo_spec = \<lparr>ms_task_id = ''t'', ms_trace_id = ''tr'', ms_session_id = ''s'', ms_motion_type = ''ankle_pose'',
     ms_target_group = ''left_ankle'', ms_roll_deg = 10, ms_pitch_deg = -30, ms_yaw_deg = 0,
     ms_duration_ms = 200, ms_position_tolerance = 5, ms_execution_timeout_sec = 2\<rparr>"

lemma demo_goal_spec: "normalize_motion_goal demo_goal = Inr demo_spec"
  by code_simp

theorem accepted_goal_is_well_formed_witness: "spec_ok demo_spec"
  by (rule accepted_goal_is_well_formed [OF demo_goal_spec])

text \<open>
  Completion needs a streak: after any feedback samples, the next one completes the motion
  exactly when it and the samples directly before it, \<open>required\<close> in all, each reported every target
  reached (and there was a target); one miss starts the count again.
\<close>

theorem completion_needs_streak:
  assumes "tracker_init required = Inr tr"
  shows "fst (tracker_update r n (tracker_run us tr)) \<longleftrightarrow>
    required \<le> int (length (takeWhile full_sample (rev (us @ [(r, n)]))))"
proof -
  from assms have "0 < required" "tr = \<lparr>tr_required = nat required, tr_consecutive = 0\<rparr>"
    by (auto simp: tracker_init_def split: if_splits)
  then show ?thesis by (simp add: tracker_run_consecutive) linarith
qed

theorem completion_needs_streak_witness:
  "fst (tracker_update 3 3 (tracker_run [(2, 3), (3, 3)] \<lparr>tr_required = 2, tr_consecutive = 0\<rparr>))"
proof -
  have "tracker_init 2 = Inr \<lparr>tr_required = 2, tr_consecutive = 0\<rparr>" by (simp add: tracker_init_def)
  from completion_needs_streak [OF this, of 3 3 "[(2, 3), (3, 3)]"] show ?thesis by (simp add: full_sample_def)
qed

text \<open>
  A motion counts as complete in one sample exactly when every target has a reading taken after
  the commands were issued, without a driver error and within the tolerance; the error reported is
  that of the first target in order with a fresh error reading; the progress lies between 0 and 1.
\<close>

theorem feedback_counts_fresh_targets:
  "(fst (evaluate_target_feedback targets obs issued tol) = length targets \<longleftrightarrow>
      list_all (target_reached obs issued tol) targets)
   \<and> snd (evaluate_target_feedback targets obs issued tol) =
      (case List.map_filter (target_error obs issued) targets of [] \<Rightarrow> None | x # _ \<Rightarrow> Some x)
   \<and> fst (evaluate_target_feedback targets obs issued tol) \<le> length targets
   \<and> 0 \<le> progress_fraction r n \<and> progress_fraction r n \<le> 1"
  by (simp only: all_reached_iff) (simp add: evaluate_feedback progress_fraction_def)

end
