(* ===== verification/Scene_Admission.thy ===== *)
theory Scene_Admission
  imports Py_Float Replay_Window
begin

text \<open>
  The scene gate of the motion controller, \<open>parallel_3dof_controller/scene_admission.py\<close>: the geometry
  policy, the latest scene with its window of seen observations, and the admission decision. The lock
  of the gate makes every method atomic; the commit of \<open>commit_if_accepted\<close> is a function on the
  state of the caller.
\<close>

section \<open>Scenes and the geometry policy\<close>

record scene_object =
  so_object_id :: string
  so_label :: string
  so_confidence :: py_float
  so_x :: py_float
  so_y :: py_float
  so_z :: py_float
  so_size_x :: py_float
  so_size_y :: py_float
  so_size_z :: py_float

record scene_snapshot =
  sn_observation_id :: string
  sn_session_id :: string
  sn_frame_id :: string
  sn_objects :: "scene_object list"
  sn_status :: string
  sn_reason :: string
  sn_received :: real

type_synonym scene_decision = "bool \<times> string"

record geometry_policy =
  gp_frame_id :: string
  gp_min_confidence :: real
  gp_max_extent :: real

definition geometry_policy_init :: "string \<Rightarrow> py_float \<Rightarrow> py_float \<Rightarrow> geometry_policy result" where
  "geometry_policy_init frame confidence extent =
     (if py_strip frame = '''' then Inl (ValueError ''scene required frame must not be empty'')
      else if \<not> is_finite confidence \<or> \<not> (0 \<le> fin confidence \<and> fin confidence \<le> 1)
        then Inl (ValueError ''scene minimum confidence must be within [0, 1]'')
      else if \<not> is_finite extent \<or> fin extent \<le> 0
        then Inl (ValueError ''scene maximum extent must be finite and positive'')
      else Inr \<lparr>gp_frame_id = py_strip frame, gp_min_confidence = fin confidence, gp_max_extent = fin extent\<rparr>)"

definition object_is_finite :: "scene_object \<Rightarrow> bool" where
  "object_is_finite item \<longleftrightarrow>
     list_all is_finite [so_confidence item, so_x item, so_y item, so_z item,
       so_size_x item, so_size_y item, so_size_z item]
     \<and> py_le (Fin 0) (so_confidence item) \<and> py_le (so_confidence item) (Fin 1)
     \<and> py_le (Fin 0) (so_size_x item) \<and> py_le (Fin 0) (so_size_y item) \<and> py_le (Fin 0) (so_size_z item)"

definition object_sizes :: "scene_object \<Rightarrow> real list" where
  "object_sizes t = [fin (so_size_x t), fin (so_size_y t), fin (so_size_z t)]"

definition object_centers :: "scene_object \<Rightarrow> real list" where
  "object_centers t = [fin (so_x t), fin (so_y t), fin (so_z t)]"

definition evaluate_geometry :: "geometry_policy \<Rightarrow> scene_snapshot \<Rightarrow> string \<Rightarrow> scene_decision" where
  "evaluate_geometry p sn target_group =
     (if sn_frame_id sn = '''' then (False, ''scene_context_frame_required'')
      else if sn_frame_id sn \<noteq> gp_frame_id p then (False, ''scene_context_frame_mismatch'')
      else if sn_objects sn = [] then (False, ''scene_context_objects_required'')
      else let ids = map (\<lambda>item. py_strip (so_object_id item)) (sn_objects sn)
      in if list_ex (\<lambda>i. i = '''') ids then (False, ''scene_context_object_identity_required'')
      else if length ids \<noteq> length (remdups ids) then (False, ''scene_context_object_identity_not_unique'')
      else if list_ex (\<lambda>item. \<not> object_is_finite item) (sn_objects sn)
        then (False, ''scene_context_object_geometry_invalid'')
      else let targets = filter (\<lambda>item. py_strip (so_label item) = py_strip target_group) (sn_objects sn)
      in if targets = [] then (False, ''scene_context_target_missing'')
      else if length targets \<noteq> 1 then (False, ''scene_context_target_not_unique'')
      else let target = hd targets
      in if fin (so_confidence target) < gp_min_confidence p then (False, ''scene_context_target_confidence_low'')
      else if list_ex (\<lambda>size. size \<le> 0) (object_sizes target) then (False, ''scene_context_target_size_invalid'')
      else if list_ex (\<lambda>(center, size). gp_max_extent p < \<bar>center\<bar> + size / 2)
                (zip (object_centers target) (object_sizes target))
        then (False, ''scene_context_target_out_of_bounds'')
      else (True, ''scene_context_ready''))"

section \<open>The gate\<close>

record scene_gate =
  sg_max_age :: real
  sg_snapshot :: "scene_snapshot option"
  sg_seen_order :: "string list"
  sg_seen_ids :: "string set"
  sg_window :: nat
  sg_policy :: geometry_policy

definition scene_gate_init :: "py_float \<Rightarrow> int \<Rightarrow> geometry_policy \<Rightarrow> scene_gate result" where
  "scene_gate_init max_age window policy =
     (if \<not> is_finite max_age \<or> fin max_age \<le> 0 then Inl (ValueError ''scene max age must be finite and positive'')
      else Inr \<lparr>sg_max_age = fin max_age, sg_snapshot = None, sg_seen_order = [], sg_seen_ids = {},
             sg_window = nat (max 1 window), sg_policy = policy\<rparr>)"

text \<open>\<open>while len(order) > window: ids.discard(order.popleft())\<close>\<close>

fun evict :: "nat \<Rightarrow> 'k list \<Rightarrow> 'k set \<Rightarrow> 'k window" where
  "evict limit [] members = ([], members)"
| "evict limit (k # queue) members =
     (if limit < length (k # queue) then evict limit queue (members - {k}) else (k # queue, members))"

text \<open>What the gate does with an observation id that is not empty.\<close>

definition observation_push :: "nat \<Rightarrow> 'k \<Rightarrow> 'k window \<Rightarrow> 'k window" where
  "observation_push limit k w =
     (if k \<in> snd w then w else evict limit (fst w @ [k]) (insert k (snd w)))"

text \<open>An update that is rejected leaves the gate as it was.\<close>

definition scene_update :: "string \<Rightarrow> string \<Rightarrow> string \<Rightarrow> scene_object list \<Rightarrow> string \<Rightarrow> string \<Rightarrow> py_float \<Rightarrow>
    scene_gate \<Rightarrow> bool \<times> scene_gate" where
  "scene_update observation_id session_id frame_id objects status reason received g =
     (let oid = py_strip observation_id
      in if \<not> is_finite received then (False, g)
         else if oid \<noteq> '''' \<and> oid \<in> sg_seen_ids g then (False, g)
         else let sn = \<lparr>sn_observation_id = oid, sn_session_id = py_strip session_id, sn_frame_id = py_strip frame_id,
                        sn_objects = objects, sn_status = norm_text status, sn_reason = py_strip reason,
                        sn_received = fin received\<rparr>;
                  g1 = g\<lparr>sg_snapshot := Some sn\<rparr>
              in if oid = '''' then (True, g1)
                 else let w = observation_push (sg_window g) oid (sg_seen_order g, sg_seen_ids g)
                      in (True, g1\<lparr>sg_seen_order := fst w, sg_seen_ids := snd w\<rparr>))"

definition evaluate_snapshot :: "string \<Rightarrow> string \<Rightarrow> py_float \<Rightarrow> scene_gate \<Rightarrow> scene_decision" where
  "evaluate_snapshot session_id target_group now g =
     (case sg_snapshot g of
        None \<Rightarrow> (False, ''scene_context_unavailable'')
      | Some sn \<Rightarrow>
          if sn_status sn \<noteq> ''ok'' then (False, ''scene_context_rejected'')
          else if sn_observation_id sn = '''' then (False, ''scene_context_observation_required'')
          else if sn_session_id sn = '''' then (False, ''scene_context_session_required'')
          else if sn_session_id sn \<noteq> py_strip session_id then (False, ''scene_context_session_mismatch'')
          else if \<not> is_finite now \<or> fin now - sn_received sn < 0 then (False, ''scene_context_clock_invalid'')
          else if sg_max_age g < fin now - sn_received sn then (False, ''scene_context_stale'')
          else evaluate_geometry (sg_policy g) sn target_group)"

text \<open>\<open>evaluate\<close> reads the gate only; \<open>commit_if_accepted\<close> runs the commit under the same lock.\<close>

definition commit_if_accepted :: "string \<Rightarrow> string \<Rightarrow> py_float \<Rightarrow> ('s \<Rightarrow> 's) \<Rightarrow> scene_gate \<Rightarrow> 's \<Rightarrow> scene_decision \<times> 's" where
  "commit_if_accepted session_id target_group now commit g s =
     (let decision = evaluate_snapshot session_id target_group now g
      in (decision, if fst decision then commit s else s))"

section \<open>The window of observations\<close>

lemma evict_short [simp]: "length queue \<le> limit \<Longrightarrow> evict limit queue members = (queue, members)"
  by (cases queue) auto

lemma evict_one:
  "length queue = Suc limit \<Longrightarrow> evict limit queue members = (tl queue, members - {hd queue})"
  by (cases queue) auto

lemma observation_push_new:
  assumes "window_ok limit w" "k \<notin> snd w"
  shows "observation_push limit k w =
    (if length (fst w) < limit then (fst w @ [k], insert k (snd w))
     else (tl (fst w @ [k]), insert k (snd w) - {hd (fst w @ [k])}))"
proof (cases "length (fst w) < limit")
  case True
  with assms(2) show ?thesis by (simp add: observation_push_def)
next
  case False
  with assms(1) have "length (fst w @ [k]) = Suc limit" by (simp add: window_ok_def)
  with False assms(2) show ?thesis by (simp add: observation_push_def evict_one)
qed

interpretation observations: replay_window observation_push
proof unfold_locales
  fix k :: 'a and w :: "'a window" and limit :: nat
  show "k \<in> snd w \<Longrightarrow> observation_push limit k w = w" by (simp add: observation_push_def)
  show "snd (observation_push limit k w) = set (fst (observation_push limit k w))"
    if "0 < limit" "window_ok limit w"
  proof (cases "k \<in> snd w")
    case True
    with that(2) show ?thesis by (simp add: observation_push_def window_ok_def)
  next
    case False
    with that show ?thesis
      by (cases "fst w") (auto simp: observation_push_new window_ok_def)
  qed
  show "rev (fst (observation_push limit k w)) = take limit (k # rev (fst w))"
    if pos: "0 < limit" and ok: "window_ok limit w" "k \<notin> snd w"
  proof (cases "length (fst w) < limit")
    case True
    with pos ok show ?thesis by (simp add: observation_push_new)
  next
    case False
    with ok(1) have l: "length (fst w) = limit" by (simp add: window_ok_def)
    then obtain a q where q: "fst w = a # q" using pos by (cases "fst w") auto
    from False ok l q show ?thesis by (simp add: observation_push_new) (cases limit; simp)
  qed
qed

section \<open>Invariant\<close>

definition gate_ok :: "scene_gate \<Rightarrow> bool" where
  "gate_ok g \<longleftrightarrow> 0 < sg_window g \<and> 0 < sg_max_age g \<and> window_ok (sg_window g) (sg_seen_order g, sg_seen_ids g)
     \<and> (case sg_snapshot g of None \<Rightarrow> True
        | Some sn \<Rightarrow> py_strip (sn_session_id sn) = sn_session_id sn \<and> norm_text (sn_status sn) = sn_status sn)"

lemma scene_gate_init_ok: "scene_gate_init age window p = Inr g \<Longrightarrow> gate_ok g"
  by (auto simp: scene_gate_init_def gate_ok_def split: if_splits)

lemma scene_update_ok: "gate_ok g \<Longrightarrow> gate_ok (snd (scene_update oid sid frame objs status reason t g))"
  using observations.push_ok [of "sg_window g" "(sg_seen_order g, sg_seen_ids g)" "py_strip oid"]
  by (auto simp: scene_update_def gate_ok_def Let_def)

text \<open>What an accepted geometry means.\<close>

definition in_envelope :: "geometry_policy \<Rightarrow> scene_object \<Rightarrow> bool" where
  "in_envelope p t \<longleftrightarrow> object_is_finite t \<and> gp_min_confidence p \<le> fin (so_confidence t)
     \<and> (\<forall>size \<in> set (object_sizes t). 0 < size)
     \<and> (\<forall>(center, size) \<in> set (zip (object_centers t) (object_sizes t)).
          - gp_max_extent p \<le> center - size / 2 \<and> center + size / 2 \<le> gp_max_extent p)"

lemma within_extent: "\<bar>c\<bar> + s / 2 \<le> e \<longleftrightarrow> - e \<le> c - s / 2 \<and> c + s / 2 \<le> e" for c s e :: real
  by (auto simp: abs_le_iff)

lemma evaluate_geometry_accepts:
  "fst (evaluate_geometry p sn target_group) \<longleftrightarrow>
     sn_frame_id sn \<noteq> '''' \<and> sn_frame_id sn = gp_frame_id p
     \<and> distinct (map (\<lambda>o'. py_strip (so_object_id o')) (sn_objects sn))
     \<and> (\<forall>o' \<in> set (sn_objects sn). py_strip (so_object_id o') \<noteq> '''' \<and> object_is_finite o')
     \<and> (\<exists>t. filter (\<lambda>o'. py_strip (so_label o') = py_strip target_group) (sn_objects sn) = [t] \<and> in_envelope p t)"
proof -
  let ?ts = "filter (\<lambda>o'. py_strip (so_label o') = py_strip target_group) (sn_objects sn)"
  have fin: "object_is_finite t" if "?ts = [t]" "\<forall>o' \<in> set (sn_objects sn). object_is_finite o'" for t
    using that(1) that(2) by (metis filter_is_subset list.set_intros(1) subsetD)
  have none: "?ts = []" if "sn_objects sn = []" using that by simp
  have dist: "length xs = length (remdups (map f xs)) \<longleftrightarrow> distinct (map f xs)"
    for xs :: "scene_object list" and f :: "scene_object \<Rightarrow> string"
    by (metis card_distinct distinct_card length_map length_remdups_card_conv)
  show ?thesis
  proof (cases "\<exists>t. ?ts = [t]")
    case True
    then obtain t where t: "?ts = [t]" by blast
    then have "sn_objects sn \<noteq> []" by auto
    then show ?thesis
      using fin [OF t]
      by (auto simp: evaluate_geometry_def Let_def t dist list_ex_iff list_all_iff in_envelope_def not_less
          not_le within_extent object_sizes_def object_centers_def) force+
  next
    case False
    then have "?ts = [] \<or> length ?ts \<noteq> 1" by (auto simp: length_Suc_conv)
    with False show ?thesis by (auto simp: evaluate_geometry_def Let_def)
  qed
qed


section \<open>Properties\<close>

text \<open>
  C29: Admission is fail closed: a motion is admitted exactly when the latest scene is ok, identified,
  of the same session and no older than the maximum age on a clock that did not run backwards, its
  objects have distinct non-empty identities and finite geometry, and exactly one of them carries the
  target label, with enough confidence and a bounding box of positive size inside the envelope.
\<close>

theorem scene_admission_is_fail_closed:
  "fst (evaluate_snapshot session target now g) \<longleftrightarrow>
     (\<exists>sn t. sg_snapshot g = Some sn \<and> sn_status sn = ''ok'' \<and> sn_observation_id sn \<noteq> ''''
        \<and> sn_session_id sn \<noteq> '''' \<and> sn_session_id sn = py_strip session
        \<and> is_finite now \<and> sn_received sn \<le> fin now \<and> fin now \<le> sn_received sn + sg_max_age g
        \<and> sn_frame_id sn \<noteq> '''' \<and> sn_frame_id sn = gp_frame_id (sg_policy g)
        \<and> distinct (map (\<lambda>o'. py_strip (so_object_id o')) (sn_objects sn))
        \<and> (\<forall>o' \<in> set (sn_objects sn). py_strip (so_object_id o') \<noteq> '''' \<and> object_is_finite o')
        \<and> filter (\<lambda>o'. py_strip (so_label o') = py_strip target) (sn_objects sn) = [t]
        \<and> in_envelope (sg_policy g) t)"
proof (cases "sg_snapshot g")
  case (Some sn)
  then show ?thesis
    using evaluate_geometry_accepts [of "sg_policy g" sn target]
    by (auto simp: evaluate_snapshot_def not_less diff_le_eq add.commute)
qed (simp add: evaluate_snapshot_def)

definition demo_policy :: geometry_policy where
  "demo_policy = \<lparr>gp_frame_id = ''camera_link'', gp_min_confidence = 1 / 2, gp_max_extent = 2\<rparr>"

definition demo_gate :: scene_gate where
  "demo_gate = \<lparr>sg_max_age = 2, sg_snapshot = None, sg_seen_order = [], sg_seen_ids = {}, sg_window = 2, sg_policy = demo_policy\<rparr>"

definition demo_object :: scene_object where
  "demo_object = \<lparr>so_object_id = ''a'', so_label = ''left_ankle'', so_confidence = Fin (3 / 4), so_x = Fin 1, so_y = Fin 0,
     so_z = Fin 0, so_size_x = Fin 1, so_size_y = Fin 1, so_size_z = Fin 1\<rparr>"

lemma demo_gate_ok: "gate_ok demo_gate"
  by (simp add: gate_ok_def demo_gate_def)

theorem scene_admission_is_fail_closed_witness:
  "\<exists>sn. sg_snapshot (snd (scene_update ''o1'' ''s'' ''camera_link'' [demo_object] ''ok'' '''' (Fin 1) demo_gate)) = Some sn
     \<and> sn_received sn \<le> 2 \<and> distinct (map (\<lambda>o'. py_strip (so_object_id o')) (sn_objects sn))"
proof -
  have "fst (evaluate_snapshot ''s'' ''left_ankle'' (Fin 2)
      (snd (scene_update ''o1'' ''s'' ''camera_link'' [demo_object] ''ok'' '''' (Fin 1) demo_gate)))" by code_simp
  then show ?thesis unfolding scene_admission_is_fail_closed by auto
qed

text \<open>An update sent to the gate, and a run of updates.\<close>

type_synonym scene_message = "string \<times> string \<times> string \<times> scene_object list \<times> string \<times> string \<times> py_float"

fun gate_step :: "scene_message \<Rightarrow> scene_gate \<Rightarrow> scene_gate" where
  "gate_step (oid, sid, frame, objs, status, reason, t) g = snd (scene_update oid sid frame objs status reason t g)"

definition gate_run :: "scene_message list \<Rightarrow> scene_gate \<Rightarrow> scene_gate" where
  "gate_run ms g = fold gate_step ms g"

lemma gate_run_simps [simp]: "gate_run [] g = g" "gate_run (m # ms) g = gate_run ms (gate_step m g)"
  by (simp_all add: gate_run_def)

definition message_id :: "scene_message \<Rightarrow> string" where
  "message_id m = py_strip (fst m)"

text \<open>The ids a run really stores.\<close>

definition stored_ids :: "scene_message list \<Rightarrow> string list" where
  "stored_ids ms = filter (\<lambda>i. i \<noteq> '''')
     (map message_id (filter (\<lambda>(_, _, _, _, _, _, t). is_finite t) ms))"

lemma gate_step_window:
  "sg_window (gate_step m g) = sg_window g"
  "(sg_seen_order (gate_step m g), sg_seen_ids (gate_step m g)) =
     fold (observation_push (sg_window g)) (stored_ids [m]) (sg_seen_order g, sg_seen_ids g)"
  by (cases m; auto simp: scene_update_def stored_ids_def message_id_def Let_def observation_push_def)+

lemma stored_ids_Cons: "stored_ids (m # ms) = stored_ids [m] @ stored_ids ms"
  by (cases m) (simp add: stored_ids_def)

lemma gate_run_window:
  "sg_window (gate_run ms g) = sg_window g \<and>
   (sg_seen_order (gate_run ms g), sg_seen_ids (gate_run ms g)) =
     fold (observation_push (sg_window g)) (stored_ids ms) (sg_seen_order g, sg_seen_ids g)"
proof (induction ms arbitrary: g)
  case (Cons m ms)
  show ?case
    using Cons [of "gate_step m g"] gate_step_window [of m g] by (simp add: stored_ids_Cons [of m ms])
qed (simp add: stored_ids_def)

text \<open>
  An old scene cannot be made fresh again by sending it once more: after an observation was
  accepted, an update with the same identity is refused and changes nothing, whatever was received in
  between, as long as fewer identified updates than the window holds came after it; so the age of the
  scene keeps counting from its first reception.
\<close>

theorem replayed_scene_is_not_refreshed:
  assumes "gate_ok g" "scene_update oid sid frame objs status reason t g = (True, g1)" "py_strip oid \<noteq> ''''"
    "length (stored_ids ms) < sg_window g"
  shows "scene_update oid sid' frame' objs' status' reason' t' (gate_run ms g1) = (False, gate_run ms g1)"
proof -
  let ?w = "(sg_seen_order g, sg_seen_ids g)"
  have fresh: "py_strip oid \<notin> sg_seen_ids g" and w1: "sg_window g1 = sg_window g"
    "(sg_seen_order g1, sg_seen_ids g1) = observation_push (sg_window g) (py_strip oid) ?w"
    using assms(2,3) by (auto simp: scene_update_def Let_def split: if_splits)
  have ok: "0 < sg_window g" "window_ok (sg_window g) ?w" using assms(1) by (auto simp: gate_ok_def)
  have "py_strip oid \<in> snd (fold (observation_push (sg_window g)) (stored_ids ms)
      (observation_push (sg_window g) (py_strip oid) ?w))"
    by (rule observations.remembered [OF ok _ assms(4)]) (use fresh in simp)
  then have "py_strip oid \<in> sg_seen_ids (gate_run ms g1)"
    using gate_run_window [of ms g1] w1 by (metis snd_conv)
  with assms(3) show ?thesis by (simp add: scene_update_def Let_def)
qed

theorem replayed_scene_is_not_refreshed_witness:
  "\<not> fst (scene_update ''o1'' ''s'' ''camera_link'' [demo_object] ''ok'' '''' (Fin 9)
     (gate_run [(''o2'', ''s'', ''camera_link'', [], ''ok'', '''', Fin 5)]
       (snd (scene_update ''o1'' ''s'' ''camera_link'' [demo_object] ''ok'' '''' (Fin 1) demo_gate))))"
proof -
  let ?u = "scene_update ''o1'' ''s'' ''camera_link'' [demo_object] ''ok'' '''' (Fin 1) demo_gate"
  have a: "fst ?u" "py_strip ''o1'' \<noteq> []"
    "length (stored_ids [(''o2'', ''s'', ''camera_link'', [], ''ok'', '''', Fin 5)]) < sg_window demo_gate" by code_simp+
  have u: "?u = (True, snd ?u)" using a(1) by (metis prod.collapse)
  show ?thesis using replayed_scene_is_not_refreshed [OF demo_gate_ok u a(2,3)] by simp
qed

end
