(* ===== verification/Task_Contract.thy ===== *)
theory Task_Contract
  imports Motion_Goal Scene_Admission Decimal_Text
begin

text \<open>
  The pure part of the task bridge: \<open>task_service_bridge/task_contract.py\<close> (validation of a task goal,
  its translation to a motion goal, the translation of feedback and results back) and
  \<open>context_adapter.py\<close> (context signals from speech intents and scenes).
\<close>

section \<open>Goals\<close>

record task_goal =
  tg_task_id :: string
  tg_trace_id :: string
  tg_session_id :: string
  tg_task_type :: string
  tg_target_group :: string
  tg_roll_deg :: py_float
  tg_pitch_deg :: py_float
  tg_yaw_deg :: py_float
  tg_duration_ms :: int
  tg_position_tolerance :: int
  tg_execution_timeout_sec :: py_float

definition pose_failure :: "string \<Rightarrow> py_float \<Rightarrow> string option" where
  "pose_failure name a =
     (if \<not> is_finite a then Some (name @ ''_not_finite'')
      else if 30 < \<bar>fin a\<bar> then Some (name @ ''_out_of_range'') else None)"

text \<open>Acceptance and reason.\<close>

definition validate_task_goal :: "task_goal \<Rightarrow> bool \<times> string" where
  "validate_task_goal g =
     (if py_strip (tg_task_id g) = '''' then (False, ''task_id_required'')
      else if py_strip (tg_trace_id g) = '''' then (False, ''trace_id_required'')
      else if py_strip (tg_session_id g) = '''' then (False, ''session_id_required'')
      else if tg_task_type g \<noteq> ''ankle_pose'' then (False, ''unsupported_task_type'')
      else if tg_target_group g \<notin> {''right_ankle'', ''left_ankle''} then (False, ''unsupported_target_group'')
      else case pose_failure ''roll_deg'' (tg_roll_deg g) of Some why \<Rightarrow> (False, why) | None \<Rightarrow>
           (case pose_failure ''pitch_deg'' (tg_pitch_deg g) of Some why \<Rightarrow> (False, why) | None \<Rightarrow>
           (case pose_failure ''yaw_deg'' (tg_yaw_deg g) of Some why \<Rightarrow> (False, why) | None \<Rightarrow>
             (if tg_duration_ms g \<le> 0 then (False, ''duration_ms_out_of_range'')
              else if \<not> (1 \<le> tg_position_tolerance g \<and> tg_position_tolerance g \<le> 500)
                then (False, ''position_tolerance_out_of_range'')
              else if \<not> is_finite (tg_execution_timeout_sec g) then (False, ''execution_timeout_sec_not_finite'')
              else if \<not> (1 / 10 \<le> fin (tg_execution_timeout_sec g) \<and> fin (tg_execution_timeout_sec g) \<le> 120)
                then (False, ''execution_timeout_sec_out_of_range'')
              else (True, '''')))))"

definition map_task_goal :: "task_goal \<Rightarrow> motion_goal" where
  "map_task_goal g =
     \<lparr>mg_task_id = tg_task_id g, mg_trace_id = tg_trace_id g, mg_session_id = tg_session_id g,
      mg_motion_type = tg_task_type g, mg_target_group = tg_target_group g, mg_roll_deg = tg_roll_deg g,
      mg_pitch_deg = tg_pitch_deg g, mg_yaw_deg = tg_yaw_deg g, mg_duration_ms = tg_duration_ms g,
      mg_position_tolerance = tg_position_tolerance g, mg_execution_timeout_sec = tg_execution_timeout_sec g\<rparr>"

section \<open>Feedback and results\<close>

record motion_feedback =
  mf_task_id :: string
  mf_trace_id :: string
  mf_session_id :: string
  mf_status :: string
  mf_reason :: string
  mf_progress :: real
  mf_reached :: nat
  mf_targets :: nat
  mf_cancel_requested :: bool
  mf_stop_command_sent :: bool
  mf_stop_confirmed :: bool

record task_feedback =
  tf_task_id :: string
  tf_trace_id :: string
  tf_session_id :: string
  tf_status :: string
  tf_reason :: string
  tf_progress :: real
  tf_reached :: nat
  tf_targets :: nat
  tf_cancel_requested :: bool
  tf_stop_command_sent :: bool
  tf_stop_confirmed :: bool

definition map_motion_feedback :: "motion_feedback \<Rightarrow> task_feedback" where
  "map_motion_feedback f =
     \<lparr>tf_task_id = mf_task_id f, tf_trace_id = mf_trace_id f, tf_session_id = mf_session_id f,
      tf_status = mf_status f, tf_reason = mf_reason f, tf_progress = mf_progress f,
      tf_reached = mf_reached f, tf_targets = mf_targets f, tf_cancel_requested = mf_cancel_requested f,
      tf_stop_command_sent = mf_stop_command_sent f, tf_stop_confirmed = mf_stop_confirmed f\<rparr>"

record motion_result =
  mr_success :: bool
  mr_task_id :: string
  mr_trace_id :: string
  mr_session_id :: string
  mr_status :: string
  mr_reason :: string
  mr_recoverable :: bool
  mr_target_reached :: bool
  mr_admission_released :: bool
  mr_stop_requested :: bool
  mr_stop_command_sent :: bool
  mr_stop_confirmed :: bool

record task_result =
  tk_success :: bool
  tk_task_id :: string
  tk_trace_id :: string
  tk_session_id :: string
  tk_status :: string
  tk_reason :: string
  tk_recoverable :: bool
  tk_target_reached :: bool
  tk_admission_released :: bool
  tk_stop_requested :: bool
  tk_stop_command_sent :: bool
  tk_stop_confirmed :: bool

definition map_motion_result :: "motion_result \<Rightarrow> task_result" where
  "map_motion_result r =
     \<lparr>tk_success = mr_success r, tk_task_id = mr_task_id r, tk_trace_id = mr_trace_id r,
      tk_session_id = mr_session_id r, tk_status = mr_status r, tk_reason = mr_reason r,
      tk_recoverable = mr_recoverable r, tk_target_reached = mr_target_reached r,
      tk_admission_released = mr_admission_released r, tk_stop_requested = mr_stop_requested r,
      tk_stop_command_sent = mr_stop_command_sent r, tk_stop_confirmed = mr_stop_confirmed r\<rparr>"

definition rejected_result :: "string \<Rightarrow> task_goal \<Rightarrow> task_result" where
  "rejected_result reason request =
     \<lparr>tk_success = False, tk_task_id = tg_task_id request, tk_trace_id = tg_trace_id request,
      tk_session_id = tg_session_id request, tk_status = ''rejected'', tk_reason = reason,
      tk_recoverable = True, tk_target_reached = False, tk_admission_released = True,
      tk_stop_requested = False, tk_stop_command_sent = False, tk_stop_confirmed = False\<rparr>"

section \<open>Context signals\<close>

record context_fields =
  cx_source :: string
  cx_event_id :: string
  cx_session_id :: string
  cx_status :: string
  cx_reason :: string
  cx_recoverable :: bool
  cx_summary :: string
  cx_labels :: "string list"

record speech_intent =
  si_intent_id :: string
  si_session_id :: string
  si_task_type :: string
  si_target_group :: string
  si_status :: string
  si_reason :: string
  si_recoverable :: bool

record scene_state =
  ss'_observation_id :: string
  ss'_session_id :: string
  ss'_frame_id :: string
  ss'_objects :: "scene_object list"
  ss'_status :: string
  ss'_reason :: string
  ss'_recoverable :: bool

definition or_default :: "string \<Rightarrow> string \<Rightarrow> string" where
  "or_default s d = (if s = '''' then d else s)"

definition speech_context_fields :: "speech_intent \<Rightarrow> context_fields" where
  "speech_context_fields m =
     (let task_type = py_strip (si_task_type m); target_group = py_strip (si_target_group m)
      in \<lparr>cx_source = ''speech'', cx_event_id = py_strip (si_intent_id m), cx_session_id = py_strip (si_session_id m),
          cx_status = or_default (py_strip (si_status m)) ''ready'', cx_reason = py_strip (si_reason m),
          cx_recoverable = si_recoverable m,
          cx_summary = ''task_type='' @ or_default task_type ''unknown'' @ '' target_group='' @ or_default target_group ''unknown'',
          cx_labels = filter (\<lambda>v. v \<noteq> '''') [task_type, target_group]\<rparr>)"

fun unique_labels_loop :: "string list \<Rightarrow> string set \<Rightarrow> string list \<Rightarrow> string list" where
  "unique_labels_loop [] seen labels = labels"
| "unique_labels_loop (v # vs) seen labels =
     (let n = py_strip v
      in if n = '''' \<or> n \<in> seen then unique_labels_loop vs seen labels
         else unique_labels_loop vs (insert n seen) (labels @ [n]))"

definition unique_labels :: "string list \<Rightarrow> string list" where
  "unique_labels vs = unique_labels_loop vs {} []"

definition perception_context_fields :: "scene_state \<Rightarrow> context_fields" where
  "perception_context_fields m =
     \<lparr>cx_source = ''perception'', cx_event_id = py_strip (ss'_observation_id m), cx_session_id = py_strip (ss'_session_id m),
      cx_status = or_default (py_strip (ss'_status m)) ''ready'', cx_reason = py_strip (ss'_reason m),
      cx_recoverable = ss'_recoverable m,
      cx_summary = ''objects='' @ int_string (int (length (ss'_objects m))) @ '' frame=''
        @ or_default (py_strip (ss'_frame_id m)) ''unknown'',
      cx_labels = unique_labels (map so_label (ss'_objects m))\<rparr>"

section \<open>Facts\<close>

lemma pose_failure_None [simp]: "pose_failure name a = None \<longleftrightarrow> is_finite a \<and> \<bar>fin a\<bar> \<le> 30"
  by (auto simp: pose_failure_def)

lemma supported_names:
  "norm_text ''ankle_pose'' = supported_motion_type" "norm_text ''left_ankle'' = ''left_ankle''"
  "norm_text ''right_ankle'' = ''right_ankle''"
  by code_simp+

lemma task_goal_valid:
  assumes "fst (validate_task_goal g)"
  shows "\<exists>s. normalize_motion_goal (map_task_goal g) = Inr s"
proof (rule normalize_accepts)
qed (use assms in \<open>auto simp: validate_task_goal_def map_task_goal_def supported_names supported_target_groups_def
      split: if_splits option.splits\<close>)

lemma normalize_fields:
  "normalize_motion_goal g = Inr s \<Longrightarrow>
     ms_task_id s = py_strip (mg_task_id g) \<and> ms_trace_id s = py_strip (mg_trace_id g)
     \<and> ms_session_id s = py_strip (mg_session_id g) \<and> ms_target_group s = norm_text (mg_target_group g)
     \<and> Fin (ms_roll_deg s) = mg_roll_deg g \<and> Fin (ms_pitch_deg s) = mg_pitch_deg g \<and> Fin (ms_yaw_deg s) = mg_yaw_deg g
     \<and> ms_duration_ms s = mg_duration_ms g \<and> ms_position_tolerance s = mg_position_tolerance g
     \<and> Fin (ms_execution_timeout_sec s) = mg_execution_timeout_sec g"
  by (auto simp: normalize_motion_goal_def Let_def split: if_splits option.splits)

lemma unique_loop:
  "set labels = seen \<Longrightarrow> distinct labels \<Longrightarrow> '''' \<notin> seen \<Longrightarrow>
     distinct (unique_labels_loop vs seen labels) \<and> '''' \<notin> set (unique_labels_loop vs seen labels) \<and>
     set (unique_labels_loop vs seen labels) = seen \<union> {n \<in> py_strip ` set vs. n \<noteq> ''''}"
  by (induction vs seen labels rule: unique_labels_loop.induct) (auto simp: Let_def)

lemma unique_labels_sound:
  "distinct (unique_labels vs)" "set (unique_labels vs) = {n \<in> py_strip ` set vs. n \<noteq> ''''}"
  using unique_loop [of "[]" "{}" vs] by (auto simp: unique_labels_def)

section \<open>Properties\<close>

text \<open>
  The two validations agree: a task goal that the bridge accepts is, after translation, accepted by
  the motion controller's own validation, with the stripped identities, the same group, pose, duration,
  tolerance and timeout; the bridge never forwards a goal that the controller refuses as invalid.
\<close>

theorem accepted_task_is_valid_motion:
  assumes "fst (validate_task_goal g)"
  shows "\<exists>s. normalize_motion_goal (map_task_goal g) = Inr s \<and> spec_ok s
    \<and> ms_task_id s = py_strip (tg_task_id g) \<and> ms_trace_id s = py_strip (tg_trace_id g)
    \<and> ms_session_id s = py_strip (tg_session_id g) \<and> ms_target_group s = tg_target_group g
    \<and> Fin (ms_roll_deg s) = tg_roll_deg g \<and> Fin (ms_pitch_deg s) = tg_pitch_deg g \<and> Fin (ms_yaw_deg s) = tg_yaw_deg g
    \<and> ms_duration_ms s = tg_duration_ms g \<and> ms_position_tolerance s = tg_position_tolerance g
    \<and> Fin (ms_execution_timeout_sec s) = tg_execution_timeout_sec g"
proof -
  obtain s where s: "normalize_motion_goal (map_task_goal g) = Inr s" using task_goal_valid [OF assms] by blast
  have "norm_text (tg_target_group g) = tg_target_group g"
    using assms by (auto simp: validate_task_goal_def supported_names split: if_splits)
  with s normalize_fields [OF s] normalize_ok [OF s] show ?thesis by (simp add: map_task_goal_def)
qed

definition demo_task :: task_goal where
  "demo_task = \<lparr>tg_task_id = '' t '', tg_trace_id = ''tr'', tg_session_id = ''s'', tg_task_type = ''ankle_pose'',
     tg_target_group = ''left_ankle'', tg_roll_deg = Fin 10, tg_pitch_deg = Fin (-30), tg_yaw_deg = Fin 0,
     tg_duration_ms = 200, tg_position_tolerance = 5, tg_execution_timeout_sec = Fin 2\<rparr>"

theorem accepted_task_is_valid_motion_witness:
  "\<exists>s. normalize_motion_goal (map_task_goal demo_task) = Inr s \<and> ms_task_id s = ''t''"
proof -
  have a: "fst (validate_task_goal demo_task)" and t: "py_strip (tg_task_id demo_task) = ''t''" by code_simp+
  show ?thesis using accepted_task_is_valid_motion [OF a] unfolding t by blast
qed

end
