(* ===== verification/Task_Bridge.thy ===== *)
theory Task_Bridge
  imports Task_Contract
begin

text \<open>
  The action boundary of \<open>task_service_bridge/bridge_node.py\<close>: a task goal is admitted into the single
  slot, forwarded as a motion goal, and answered with the translated result.

  The node runs on a multi-threaded executor with a reentrant callback group, so goal, cancel and
  execute callbacks interleave. A callback is a sequence of sections, cut where it takes a lock or
  awaits: \<open>exec_point\<close> is the point the execute callback of a goal has reached, \<open>cancel_point\<close> that of
  a cancel callback. Of the action server the code relies on: an accepted goal is executed once; a goal
  becomes cancel-requested after its cancel callback has returned ACCEPT; \<open>succeed\<close> and \<open>abort\<close> end a
  goal that has not ended, \<open>canceled\<close> one that is also cancel-requested, and any other transition raises.
\<close>

section \<open>State\<close>

datatype exec_point =
    X_ready                      \<comment> \<open>accepted, execution not begun\<close>
  | X_server                     \<comment> \<open>waiting for the motion server\<close>
  | X_sent                       \<comment> \<open>awaiting the answer to the motion goal\<close>
  | X_store nat                  \<comment> \<open>accepted under this motion handle, not stored yet\<close>
  | X_check nat                  \<comment> \<open>stored, about to look for a cancel request\<close>
  | X_cancelling nat             \<comment> \<open>awaiting the cancellation of the motion goal\<close>
  | X_result nat                 \<comment> \<open>awaiting the result\<close>
  | X_clear task_result          \<comment> \<open>\<open>finally\<close>, before the handles are cleared\<close>
  | X_release task_result        \<comment> \<open>\<open>finally\<close>, before the slot is released\<close>

datatype cancel_point =
    Cancel_read goal_id "goal_id option" "nat option"  \<comment> \<open>the two handles read under the lock\<close>
  | Cancel_accept goal_id                               \<comment> \<open>ACCEPT returned to the action server\<close>

datatype bridge_output =
    Motion_goal_sent motion_goal
  | Motion_cancel_sent nat
  | Task_feedback_sent goal_id task_feedback

record bridge =
  tb_occupied :: bool
  tb_external :: "goal_id option"
  tb_motion :: "nat option"
  tb_known :: "goal_id set"
  tb_request :: "goal_id \<Rightarrow> task_goal option"
  tb_exec :: "goal_id \<Rightarrow> exec_point option"
  tb_cancel_requested :: "goal_id set"
  tb_end :: "goal_id \<Rightarrow> goal_end option"
  tb_result :: "goal_id \<Rightarrow> task_result option"
  tb_cancels :: "nat \<Rightarrow> cancel_point option"
  tb_log :: "bridge_output list"

definition bridge_init :: bridge where
  "bridge_init =
     \<lparr>tb_occupied = False, tb_external = None, tb_motion = None, tb_known = {}, tb_request = (\<lambda>_. None),
      tb_exec = (\<lambda>_. None), tb_cancel_requested = {}, tb_end = (\<lambda>_. None), tb_result = (\<lambda>_. None),
      tb_cancels = (\<lambda>_. None), tb_log = []\<rparr>"

definition at_point :: "goal_id \<Rightarrow> exec_point \<Rightarrow> bridge \<Rightarrow> bridge" where
  "at_point g p m = m\<lparr>tb_exec := (tb_exec m)(g \<mapsto> p)\<rparr>"

section \<open>Callbacks\<close>

text \<open>\<open>_goal_callback\<close>: validated goals take the slot; a rejected one is forgotten.\<close>

definition bridge_goal_callback :: "goal_id \<Rightarrow> task_goal \<Rightarrow> bridge \<Rightarrow> bridge" where
  "bridge_goal_callback g goal m =
     (let m1 = m\<lparr>tb_known := insert g (tb_known m), tb_request := (tb_request m)(g \<mapsto> goal)\<rparr>
      in if \<not> fst (validate_task_goal goal) then m1
         else let (acquired, occupied) = try_acquire (tb_occupied m)
              in if \<not> acquired then m1 else at_point g X_ready (m1\<lparr>tb_occupied := occupied\<rparr>))"

text \<open>A transition of the goal handle; \<open>None\<close> when the action server raises.\<close>

definition goal_transition :: "goal_id \<Rightarrow> goal_end \<Rightarrow> bridge \<Rightarrow> bridge option" where
  "goal_transition g e m =
     (if tb_end m g \<noteq> None \<or> e = End_canceled \<and> g \<notin> tb_cancel_requested m then None
      else Some (m\<lparr>tb_end := (tb_end m)(g \<mapsto> e)\<rparr>))"

definition failed_end :: "goal_id \<Rightarrow> bridge \<Rightarrow> goal_end" where
  "failed_end g m = (if g \<in> tb_cancel_requested m then End_canceled else End_aborted)"

text \<open>\<open>_finish_failed_goal\<close>, then \<open>rejected_result\<close>.\<close>

definition bridge_fail :: "goal_id \<Rightarrow> string \<Rightarrow> bridge \<Rightarrow> bridge" where
  "bridge_fail g reason m =
     at_point g (X_clear (rejected_result reason (the (tb_request m g))))
       (m\<lparr>tb_end := (tb_end m)(g \<mapsto> failed_end g m)\<rparr>)"

definition external_end :: "goal_id \<Rightarrow> goal_status \<Rightarrow> string \<Rightarrow> bridge \<Rightarrow> goal_end" where
  "external_end g motion_status result_status m =
     (if g \<in> tb_cancel_requested m \<or> motion_status = Status_canceled \<or> result_status = ''cancelled'' then End_canceled
      else if motion_status = Status_succeeded \<and> result_status = ''succeeded'' then End_succeeded
      else End_aborted)"

text \<open>\<open>_finish_external_goal\<close> and the return, or the \<open>except\<close> branch when the transition raises.\<close>

definition bridge_finish :: "goal_id \<Rightarrow> motion_result \<Rightarrow> goal_status \<Rightarrow> bridge \<Rightarrow> bridge" where
  "bridge_finish g r status m =
     (case goal_transition g (external_end g status (tk_status (map_motion_result r)) m) m of
        None \<Rightarrow> bridge_fail g ''task_bridge_error'' m
      | Some m1 \<Rightarrow> at_point g (X_clear (map_motion_result r)) m1)"

datatype exec_input =
    XI_go
  | XI_server bool
  | XI_answer "nat option"
  | XI_result motion_result goal_status
  | XI_exception

text \<open>The next section of \<open>_execute_callback\<close>.\<close>

fun bridge_exec :: "goal_id \<Rightarrow> exec_point \<Rightarrow> exec_input \<Rightarrow> bridge \<Rightarrow> bridge option" where
  "bridge_exec g X_ready XI_go m = Some (at_point g X_server (m\<lparr>tb_external := Some g\<rparr>))"
| "bridge_exec g X_server (XI_server up) m =
     (if \<not> up then Some (bridge_fail g ''motion_action_unavailable'' m)
      else Some (at_point g X_sent (m\<lparr>tb_log := Motion_goal_sent (map_task_goal (the (tb_request m g))) # tb_log m\<rparr>)))"
| "bridge_exec g X_sent (XI_answer None) m = Some (bridge_fail g ''motion_goal_rejected'' m)"
| "bridge_exec g X_sent (XI_answer (Some n)) m = Some (at_point g (X_store n) m)"
| "bridge_exec g (X_store n) XI_go m = Some (at_point g (X_check n) (m\<lparr>tb_motion := Some n\<rparr>))"
| "bridge_exec g (X_check n) XI_go m =
     (if g \<in> tb_cancel_requested m
      then Some (at_point g (X_cancelling n) (m\<lparr>tb_log := Motion_cancel_sent n # tb_log m\<rparr>))
      else Some (at_point g (X_result n) m))"
| "bridge_exec g (X_cancelling n) XI_go m = Some (at_point g (X_result n) m)"
| "bridge_exec g (X_result n) (XI_result r status) m = Some (bridge_finish g r status m)"
| "bridge_exec g X_server XI_exception m = Some (bridge_fail g ''task_bridge_error'' m)"
| "bridge_exec g X_sent XI_exception m = Some (bridge_fail g ''task_bridge_error'' m)"
| "bridge_exec g (X_cancelling n) XI_exception m = Some (bridge_fail g ''task_bridge_error'' m)"
| "bridge_exec g (X_result n) XI_exception m = Some (bridge_fail g ''task_bridge_error'' m)"
| "bridge_exec g (X_clear r) XI_go m = Some (at_point g (X_release r) (m\<lparr>tb_external := None, tb_motion := None\<rparr>))"
| "bridge_exec g (X_release r) XI_go m =
     Some (m\<lparr>tb_occupied := slot_release (tb_occupied m), tb_exec := (tb_exec m)(g := None),
             tb_result := (tb_result m)(g \<mapsto> r)\<rparr>)"
| "bridge_exec g _ _ m = None"

text \<open>The sections of \<open>_cancel_callback\<close> after the lock, and the action server's after ACCEPT.\<close>

fun bridge_cancel :: "nat \<Rightarrow> cancel_point \<Rightarrow> bridge \<Rightarrow> bridge" where
  "bridge_cancel c (Cancel_read g ext mot) m =
     (if \<not> tb_occupied m \<or> ext \<noteq> None \<and> ext \<noteq> Some g then m\<lparr>tb_cancels := (tb_cancels m)(c := None)\<rparr>
      else (case mot of None \<Rightarrow> m | Some n \<Rightarrow> m\<lparr>tb_log := Motion_cancel_sent n # tb_log m\<rparr>)
             \<lparr>tb_cancels := (tb_cancels m)(c \<mapsto> Cancel_accept g)\<rparr>)"
| "bridge_cancel c (Cancel_accept g) m =
     m\<lparr>tb_cancels := (tb_cancels m)(c := None),
       tb_cancel_requested := (if tb_exec m g \<noteq> None \<and> tb_end m g = None then insert g (tb_cancel_requested m)
                               else tb_cancel_requested m)\<rparr>"

datatype bridge_event =
    B_goal goal_id task_goal
  | B_exec goal_id exec_input
  | B_feedback goal_id motion_feedback
  | B_cancel nat goal_id           \<comment> \<open>a cancel callback starts and reads the handles\<close>
  | B_cancel_go nat

text \<open>The action server calls back for cancellation only while the goal is active.\<close>

fun bridge_step :: "bridge_event \<Rightarrow> bridge \<Rightarrow> bridge option" where
  "bridge_step (B_goal g goal) m = (if g \<in> tb_known m then None else Some (bridge_goal_callback g goal m))"
| "bridge_step (B_exec g i) m = (case tb_exec m g of None \<Rightarrow> None | Some p \<Rightarrow> bridge_exec g p i m)"
| "bridge_step (B_feedback g f) m =
     (if tb_exec m g = None then None
      else Some (m\<lparr>tb_log := Task_feedback_sent g (map_motion_feedback f) # tb_log m\<rparr>))"
| "bridge_step (B_cancel c g) m =
     (if tb_cancels m c \<noteq> None \<or> tb_exec m g = None \<or> tb_end m g \<noteq> None then None
      else Some (m\<lparr>tb_cancels := (tb_cancels m)(c \<mapsto> Cancel_read g (tb_external m) (tb_motion m))\<rparr>))"
| "bridge_step (B_cancel_go c) m = (case tb_cancels m c of None \<Rightarrow> None | Some p \<Rightarrow> Some (bridge_cancel c p m))"

inductive bridge_reachable :: "bridge \<Rightarrow> bool" where
  start: "bridge_reachable bridge_init"
| step: "bridge_reachable m \<Longrightarrow> bridge_step e m = Some m' \<Longrightarrow> bridge_reachable m'"

section \<open>The invariant\<close>

fun stored_handle :: "exec_point \<Rightarrow> nat option \<Rightarrow> bool" where
  "stored_handle (X_check n) mot \<longleftrightarrow> mot = Some n"
| "stored_handle (X_cancelling n) mot \<longleftrightarrow> mot = Some n"
| "stored_handle (X_result n) mot \<longleftrightarrow> mot = Some n"
| "stored_handle (X_clear r) mot \<longleftrightarrow> True"
| "stored_handle _ mot \<longleftrightarrow> mot = None"

fun stored_external :: "exec_point \<Rightarrow> goal_id \<Rightarrow> goal_id option" where
  "stored_external X_ready g = None"
| "stored_external (X_release r) g = None"
| "stored_external _ g = Some g"

fun ended :: "exec_point \<Rightarrow> bool" where
  "ended (X_clear r) = True"
| "ended (X_release r) = True"
| "ended _ = False"

text \<open>No goal is being served; goal \<open>g\<close> is, and is at point \<open>p\<close>.\<close>

definition requests_ok :: "bridge \<Rightarrow> bool" where
  "requests_ok m \<longleftrightarrow> (\<forall>g. tb_exec m g \<noteq> None \<or> tb_result m g \<noteq> None \<longrightarrow>
     g \<in> tb_known m \<and> (\<exists>goal. tb_request m g = Some goal \<and> fst (validate_task_goal goal)))"

definition idle_ok :: "bridge \<Rightarrow> bool" where
  "idle_ok m \<longleftrightarrow> \<not> tb_occupied m \<and> tb_exec m = Map.empty \<and> tb_external m = None \<and> tb_motion m = None
     \<and> (\<forall>g. tb_end m g = None \<longleftrightarrow> tb_result m g = None) \<and> requests_ok m"

definition busy_ok :: "bridge \<Rightarrow> goal_id \<Rightarrow> exec_point \<Rightarrow> bool" where
  "busy_ok m g p \<longleftrightarrow> tb_occupied m \<and> tb_exec m = [g \<mapsto> p] \<and> tb_external m = stored_external p g
     \<and> stored_handle p (tb_motion m) \<and> (tb_end m g = None \<longleftrightarrow> \<not> ended p) \<and> tb_result m g = None
     \<and> (\<forall>g'. g' \<noteq> g \<longrightarrow> (tb_end m g' = None \<longleftrightarrow> tb_result m g' = None)) \<and> requests_ok m"

definition bridge_ok :: "bridge \<Rightarrow> bool" where
  "bridge_ok m \<longleftrightarrow> idle_ok m \<or> (\<exists>g p. busy_ok m g p)"

lemma bridge_okI: "idle_ok m \<Longrightarrow> bridge_ok m" "busy_ok m g p \<Longrightarrow> bridge_ok m"
  by (auto simp: bridge_ok_def)

lemma busy_point: "bridge_ok m \<Longrightarrow> tb_exec m g = Some p \<Longrightarrow> busy_ok m g p"
  by (auto simp: bridge_ok_def idle_ok_def busy_ok_def split: if_splits)

lemma bridge_init_ok: "bridge_ok bridge_init"
  by (rule bridge_okI) (simp add: idle_ok_def requests_ok_def bridge_init_def)

lemma single_upd [simp]: "[g \<mapsto> p](g \<mapsto> q) = [g \<mapsto> q]" "([g \<mapsto> p])(g := None) = Map.empty"
  by auto

lemma goal_callback_ok:
  assumes ok: "bridge_ok m" and new: "g \<notin> tb_known m"
  shows "bridge_ok (bridge_goal_callback g goal m)"
proof (cases "tb_occupied m")
  case True
  with ok obtain h p where b: "busy_ok m h p" by (auto simp: bridge_ok_def idle_ok_def)
  have "h \<noteq> g" using b new by (auto simp: busy_ok_def requests_ok_def)
  then have "busy_ok (bridge_goal_callback g goal m) h p"
    using b new True by (auto simp: busy_ok_def requests_ok_def bridge_goal_callback_def try_acquire_def Let_def)
  then show ?thesis by (rule bridge_okI)
next
  case False
  with ok have i: "idle_ok m" by (auto simp: bridge_ok_def busy_ok_def)
  show ?thesis
  proof (cases "fst (validate_task_goal goal)")
    case True
    have "busy_ok (bridge_goal_callback g goal m) g X_ready"
      using i new False True
      by (auto simp: idle_ok_def busy_ok_def requests_ok_def bridge_goal_callback_def try_acquire_def at_point_def Let_def)
    then show ?thesis by (rule bridge_okI)
  next
    case invalid: False
    have "idle_ok (bridge_goal_callback g goal m)"
      using i new invalid by (auto simp: idle_ok_def requests_ok_def bridge_goal_callback_def Let_def)
    then show ?thesis by (rule bridge_okI)
  qed
qed

text \<open>A section of the execute callback moves its goal to the next point, or frees the slot.\<close>

lemma requests_ok_cong:
  "requests_ok m \<Longrightarrow> tb_known m' = tb_known m \<Longrightarrow> tb_request m' = tb_request m \<Longrightarrow> tb_result m' = tb_result m \<Longrightarrow>
     dom (tb_exec m') \<subseteq> dom (tb_exec m) \<Longrightarrow> requests_ok m'"
  by (auto simp: requests_ok_def dom_def)

lemma move_ok:
  assumes "busy_ok m g p" "tb_exec m' = (tb_exec m)(g \<mapsto> q)"
    "tb_occupied m' = tb_occupied m" "tb_known m' = tb_known m" "tb_request m' = tb_request m"
    "tb_result m' = tb_result m" "\<And>g'. g' \<noteq> g \<Longrightarrow> tb_end m' g' = tb_end m g'"
    "tb_external m' = stored_external q g" "stored_handle q (tb_motion m')" "tb_end m' g = None \<longleftrightarrow> \<not> ended q"
  shows "busy_ok m' g q"
proof -
  have "requests_ok m'"
    by (rule requests_ok_cong [of m]) (use assms in \<open>auto simp: busy_ok_def split: if_splits\<close>)
  with assms show ?thesis by (simp add: busy_ok_def)
qed

lemma fail_ok:
  assumes b: "busy_ok m g p" and p: "p \<noteq> X_ready" "\<not> ended p"
  shows "busy_ok (bridge_fail g why m) g (X_clear (rejected_result why (the (tb_request m g))))"
  by (rule move_ok [OF b]) (use b p in \<open>cases p; auto simp: busy_ok_def bridge_fail_def at_point_def\<close>)+

lemma answer_ok:
  assumes b: "busy_ok m g (X_result n)"
  shows "\<exists>r'. busy_ok (bridge_finish g r status m) g (X_clear r')"
proof (cases "goal_transition g (external_end g status (tk_status (map_motion_result r)) m) m")
  case None
  with fail_ok [OF b] show ?thesis by (auto simp: bridge_finish_def)
next
  case (Some m1)
  then obtain e where m1: "m1 = m\<lparr>tb_end := (tb_end m)(g \<mapsto> e)\<rparr>" by (auto simp: goal_transition_def split: if_splits)
  have "busy_ok (at_point g (X_clear (map_motion_result r)) m1) g (X_clear (map_motion_result r))"
    by (rule move_ok [OF b]) (use b m1 in \<open>auto simp: busy_ok_def at_point_def\<close>)
  with Some show ?thesis by (auto simp: bridge_finish_def)
qed

text \<open>How many sections are left at a point; it also orders the points of one callback.\<close>

fun exec_left :: "exec_point \<Rightarrow> nat" where
  "exec_left X_ready = 9"
| "exec_left X_server = 8"
| "exec_left X_sent = 7"
| "exec_left (X_store n) = 6"
| "exec_left (X_check n) = 5"
| "exec_left (X_cancelling n) = 4"
| "exec_left (X_result n) = 3"
| "exec_left (X_clear r) = 2"
| "exec_left (X_release r) = 1"

definition goal_moves :: "goal_id \<Rightarrow> exec_point \<Rightarrow> bridge \<Rightarrow> bool" where
  "goal_moves g p m' \<longleftrightarrow> (\<exists>q. busy_ok m' g q \<and> exec_left q < exec_left p)
     \<or> idle_ok m' \<and> tb_result m' g \<noteq> None \<and> tb_end m' g \<noteq> None"

lemma goal_movesI: "busy_ok m' g q \<Longrightarrow> exec_left q < exec_left p \<Longrightarrow> goal_moves g p m'"
  unfolding goal_moves_def by blast

lemma step_to_point:
  assumes "busy_ok m g p" "m' = at_point g q m1" "exec_left q < exec_left p" "ended q = ended p"
    "tb_exec m1 = tb_exec m" "tb_occupied m1 = tb_occupied m" "tb_known m1 = tb_known m" "tb_request m1 = tb_request m"
    "tb_result m1 = tb_result m" "tb_end m1 = tb_end m" "tb_external m1 = stored_external q g" "stored_handle q (tb_motion m1)"
  shows "goal_moves g p m'"
  by (rule goal_movesI [OF move_ok [OF assms(1)] assms(3)]) (use assms in \<open>auto simp: at_point_def busy_ok_def\<close>)

lemma exec_moves:
  assumes b: "busy_ok m g p" and st: "bridge_exec g p i m = Some m'"
  shows "goal_moves g p m'"
proof -
  have f: "tb_external m = stored_external p g" "stored_handle p (tb_motion m)" using b by (simp_all add: busy_ok_def)
  have fail: "goal_moves g p (bridge_fail g why m)" if "p \<noteq> X_ready" "\<not> ended p" for why
    by (rule goal_movesI [OF fail_ok [OF b that]]) (use that in \<open>cases p; simp\<close>)
  note move = step_to_point [OF b]
  show ?thesis
  proof (cases p)
    case X_ready
    with st have "m' = at_point g X_server (m\<lparr>tb_external := Some g\<rparr>)" by (cases i) auto
    then show ?thesis by (rule move) (use X_ready f in simp_all)
  next
    case X_server
    then consider (up) "m' = at_point g X_sent (m\<lparr>tb_log := Motion_goal_sent (map_task_goal (the (tb_request m g))) # tb_log m\<rparr>)"
      | (failed) why where "m' = bridge_fail g why m"
      using st by (cases i) (auto split: if_splits)
    then show ?thesis
    proof cases
      case up
      then show ?thesis by (rule move) (use X_server f in simp_all)
    qed (use X_server fail in simp)
  next
    case X_sent
    then consider (accepted) n where "m' = at_point g (X_store n) m" | (failed) why where "m' = bridge_fail g why m"
      using st by (cases "(g, p, i, m)" rule: bridge_exec.cases) auto
    then show ?thesis
    proof cases
      case accepted
      then show ?thesis by (rule move) (use X_sent f in simp_all)
    qed (use X_sent fail in simp)
  next
    case (X_store n)
    with st have "m' = at_point g (X_check n) (m\<lparr>tb_motion := Some n\<rparr>)" by (cases i) auto
    then show ?thesis by (rule move) (use X_store f in simp_all)
  next
    case (X_check n)
    then consider (cancel) "m' = at_point g (X_cancelling n) (m\<lparr>tb_log := Motion_cancel_sent n # tb_log m\<rparr>)"
      | (go) "m' = at_point g (X_result n) m"
      using st by (cases i) (auto split: if_splits)
    then show ?thesis
    proof cases
      case cancel
      then show ?thesis by (rule move) (use X_check f in simp_all)
    next
      case go
      then show ?thesis by (rule move) (use X_check f in simp_all)
    qed
  next
    case (X_cancelling n)
    then consider (go) "m' = at_point g (X_result n) m" | (failed) why where "m' = bridge_fail g why m"
      using st by (cases i) auto
    then show ?thesis
    proof cases
      case go
      then show ?thesis by (rule move) (use X_cancelling f in simp_all)
    qed (use X_cancelling fail in simp)
  next
    case (X_result n)
    have fin: "goal_moves g p (bridge_finish g r status m)" for r status
    proof -
      obtain r' where "busy_ok (bridge_finish g r status m) g (X_clear r')" using answer_ok b X_result by blast
      then show ?thesis by (rule goal_movesI) (simp add: X_result)
    qed
    with X_result st fail show ?thesis by (cases i) auto
  next
    case (X_clear r)
    with st have "m' = at_point g (X_release r) (m\<lparr>tb_external := None, tb_motion := None\<rparr>)" by (cases i) auto
    then show ?thesis by (rule move) (use X_clear f in simp_all)
  next
    case (X_release r)
    with st have m': "m' = m\<lparr>tb_occupied := False, tb_exec := (tb_exec m)(g := None), tb_result := (tb_result m)(g \<mapsto> r)\<rparr>"
      by (cases i) (auto simp: slot_release_def)
    have "idle_ok m'" using b X_release unfolding m' by (auto simp: idle_ok_def busy_ok_def requests_ok_def)
    then show ?thesis using b X_release by (auto simp: goal_moves_def m' busy_ok_def)
  qed
qed

text \<open>Feedback and cancellation touch only the log and their own bookkeeping.\<close>

lemma frame_ok:
  assumes "bridge_ok m" "tb_occupied m' = tb_occupied m" "tb_external m' = tb_external m" "tb_motion m' = tb_motion m"
    "tb_known m' = tb_known m" "tb_request m' = tb_request m" "tb_exec m' = tb_exec m" "tb_end m' = tb_end m"
    "tb_result m' = tb_result m"
  shows "bridge_ok m'"
proof -
  have "idle_ok m' = idle_ok m" "busy_ok m' g p = busy_ok m g p" for g p
    using assms(2-) by (simp_all add: idle_ok_def busy_ok_def requests_ok_def)
  with assms(1) show ?thesis by (simp add: bridge_ok_def)
qed

lemma cancel_frame [simp]:
  "tb_occupied (bridge_cancel c p m) = tb_occupied m" "tb_external (bridge_cancel c p m) = tb_external m"
  "tb_motion (bridge_cancel c p m) = tb_motion m" "tb_known (bridge_cancel c p m) = tb_known m"
  "tb_request (bridge_cancel c p m) = tb_request m" "tb_exec (bridge_cancel c p m) = tb_exec m"
  "tb_end (bridge_cancel c p m) = tb_end m" "tb_result (bridge_cancel c p m) = tb_result m"
  by (cases p; simp split: option.split)+

lemma step_ok:
  assumes ok: "bridge_ok m" and st: "bridge_step e m = Some m'"
  shows "bridge_ok m'"
proof (cases e)
  case (B_goal g goal)
  with ok st goal_callback_ok show ?thesis by (auto split: if_splits)
next
  case (B_exec g i)
  with st obtain p where p: "tb_exec m g = Some p" "bridge_exec g p i m = Some m'" by (auto split: option.splits)
  from exec_moves [OF busy_point [OF ok p(1)] p(2)] show ?thesis by (auto simp: goal_moves_def intro: bridge_okI)
next
  case (B_cancel_go c)
  with st obtain p where "m' = bridge_cancel c p m" by (auto split: option.splits)
  then show ?thesis by (simp add: frame_ok [OF ok])
next
  case (B_feedback g f)
  with st show ?thesis by (auto split: if_splits intro: frame_ok [OF ok])
next
  case (B_cancel c g)
  with st show ?thesis by (auto split: if_splits intro: frame_ok [OF ok])
qed

lemma bridge_reachable_ok: "bridge_reachable m \<Longrightarrow> bridge_ok m"
  by (induction rule: bridge_reachable.induct) (auto intro: bridge_init_ok step_ok)


section \<open>Properties\<close>

lemma moves_of_own_step:
  assumes "bridge_ok m" "bridge_step (B_exec g i) m = Some m'" "tb_exec m g = Some p"
  shows "(\<exists>q. tb_exec m' g = Some q \<and> exec_left q < exec_left p)
    \<or> (tb_exec m' g = None \<and> \<not> tb_occupied m' \<and> tb_end m' g \<noteq> None \<and> tb_result m' g \<noteq> None)"
proof -
  have "bridge_exec g p i m = Some m'" using assms by simp
  from exec_moves [OF busy_point [OF assms(1,3)] this] show ?thesis
    by (auto simp: goal_moves_def idle_ok_def busy_ok_def)
qed

lemma exec_enabled:
  "\<exists>i m'. bridge_exec g p i m = Some m'"
proof -
  define i where "i = (case p of X_server \<Rightarrow> XI_server False | X_sent \<Rightarrow> XI_answer None | X_result n \<Rightarrow> XI_exception | _ \<Rightarrow> XI_go)"
  have "\<exists>m'. bridge_exec g p i m = Some m'" by (cases p) (simp_all add: i_def)
  then show ?thesis ..
qed

lemma others_leave_point:
  assumes ok: "bridge_ok m" and st: "bridge_step e m = Some m'" and p: "tb_exec m g = Some p" and e: "\<nexists>i. e = B_exec g i"
  shows "tb_exec m' g = Some p"
proof -
  have b: "busy_ok m g p" using busy_point [OF ok p] .
  show ?thesis
  proof (cases e)
    case (B_goal h goal)
    have "h \<noteq> g" "tb_occupied m" using b st B_goal by (auto simp: busy_ok_def requests_ok_def split: if_splits)
    then show ?thesis using st p B_goal
      by (auto simp: bridge_goal_callback_def try_acquire_def Let_def split: if_splits)
  next
    case (B_exec h i)
    then show ?thesis using b st e by (auto simp: busy_ok_def split: option.splits if_splits)
  next
    case (B_cancel_go c)
    then show ?thesis using st p by (auto split: option.splits)
  qed (use st p in \<open>auto split: if_splits\<close>)
qed

fun bridge_run :: "bridge_event list \<Rightarrow> bridge \<Rightarrow> bridge option" where
  "bridge_run [] m = Some m"
| "bridge_run (e # es) m = (case bridge_step e m of None \<Rightarrow> None | Some m' \<Rightarrow> bridge_run es m')"

lemma bridge_run_reachable: "bridge_run es m = Some m' \<Longrightarrow> bridge_reachable m \<Longrightarrow> bridge_reachable m'"
  by (induction es arbitrary: m) (auto split: option.splits intro: bridge_reachable.step)

lemma bridge_run_start: "bridge_run es bridge_init = Some m \<Longrightarrow> bridge_reachable m"
  using bridge_run_reachable bridge_reachable.start by blast

text \<open>
  In every interleaving of goal, cancel and execute callbacks the bridge serves one goal at a time:
  the slot is occupied exactly while some goal executes, at most one goal does, the stored external
  handle is that goal's or none, and the goal's request passed validation.
\<close>

theorem bridge_serves_one_goal:
  assumes "bridge_reachable m"
  shows "(tb_occupied m \<longleftrightarrow> (\<exists>g. tb_exec m g \<noteq> None))
    \<and> (\<forall>g p. tb_exec m g = Some p \<longrightarrow>
         (\<forall>h. h \<noteq> g \<longrightarrow> tb_exec m h = None) \<and> (tb_external m = None \<or> tb_external m = Some g)
         \<and> (\<exists>goal. tb_request m g = Some goal \<and> fst (validate_task_goal goal)))"
proof -
  have ok: "bridge_ok m" using bridge_reachable_ok [OF assms] .
  have ext: "stored_external p g = None \<or> stored_external p g = Some g" for p g by (cases p) simp_all
  have "tb_occupied m \<longleftrightarrow> (\<exists>g. tb_exec m g \<noteq> None)" using ok by (auto simp: bridge_ok_def idle_ok_def busy_ok_def)
  moreover have "(\<forall>h. h \<noteq> g \<longrightarrow> tb_exec m h = None) \<and> (tb_external m = None \<or> tb_external m = Some g)
         \<and> (\<exists>goal. tb_request m g = Some goal \<and> fst (validate_task_goal goal))" if "tb_exec m g = Some p" for g p
    using busy_point [OF ok that] ext [of p g] by (auto simp: busy_ok_def requests_ok_def)
  ultimately show ?thesis by blast
qed

definition overlap_run :: "bridge_event list" where
  "overlap_run = [B_goal 0 demo_task, B_exec 0 XI_go, B_goal 1 demo_task, B_exec 0 (XI_server True), B_goal 2 demo_task]"

theorem bridge_serves_one_goal_witness:
  "\<exists>m. bridge_run overlap_run bridge_init = Some m \<and> tb_occupied m \<and> tb_exec m 0 \<noteq> None \<and> tb_exec m 1 = None"
proof -
  have "\<not> Option.is_none (bridge_run overlap_run bridge_init)
    \<and> tb_exec (the (bridge_run overlap_run bridge_init)) 0 = Some X_sent" by code_simp
  then obtain m where r: "bridge_run overlap_run bridge_init = Some m" and p: "tb_exec m 0 = Some X_sent"
    by (auto simp: Option.is_none_def)
  have one: "\<forall>h. h \<noteq> 0 \<longrightarrow> tb_exec m h = None" and occ: "tb_occupied m"
    using bridge_serves_one_goal [OF bridge_run_start [OF r]] p by auto
  show ?thesis by (rule exI [of _ m]) (use r p one occ in simp)
qed


text \<open>A motion action that is not there: three sections later the goal has ended.\<close>

definition unavailable_run :: "bridge_event list" where
  "unavailable_run = [B_goal 0 demo_task, B_exec 0 XI_go, B_exec 0 (XI_server False), B_exec 0 XI_go]"


definition lost_cancel_run :: "bridge_event list" where
  "lost_cancel_run = [B_goal 0 demo_task, B_exec 0 XI_go, B_exec 0 (XI_server True), B_exec 0 (XI_answer (Some 7)),
     B_cancel 0 0, B_exec 0 XI_go, B_exec 0 XI_go, B_cancel_go 0, B_cancel_go 0]"

fun is_motion_cancel :: "bridge_output \<Rightarrow> bool" where
  "is_motion_cancel (Motion_cancel_sent n) = True"
| "is_motion_cancel _ = False"

definition demo_motion_result :: motion_result where
  "demo_motion_result = \<lparr>mr_success = True, mr_task_id = ''t'', mr_trace_id = ''tr'', mr_session_id = ''s'',
     mr_status = ''succeeded'', mr_reason = '''', mr_recoverable = False, mr_target_reached = True,
     mr_admission_released = True, mr_stop_requested = False, mr_stop_command_sent = False, mr_stop_confirmed = False\<rparr>"

definition lost_cancel_state :: bridge where
  "lost_cancel_state = the (bridge_run lost_cancel_run bridge_init)"

text \<open>
  C28: A cancellation can be lost: the cancel callback reads that no motion goal is stored, the execute
  callback then stores it and sees no cancel request yet, and only then the action server records the
  request. The goal is cancel-requested, the motion goal is executing, no cancellation was ever sent to
  it and no callback is left that would; the motion runs to its end and the task is reported as
  cancelled although the motion succeeded.
\<close>

theorem cancel_can_be_lost:
  "bridge_reachable lost_cancel_state \<and> 0 \<in> tb_cancel_requested lost_cancel_state
    \<and> tb_exec lost_cancel_state 0 = Some (X_result 7)
    \<and> tb_cancels lost_cancel_state 0 = None
    \<and> \<not> list_ex is_motion_cancel (tb_log lost_cancel_state)
    \<and> (\<exists>m. bridge_step (B_exec 0 (XI_result demo_motion_result Status_succeeded)) lost_cancel_state = Some m
         \<and> tb_end m 0 = Some End_canceled)"
proof -
  have some: "\<not> Option.is_none (bridge_run lost_cancel_run bridge_init)" by code_simp
  then have r: "bridge_run lost_cancel_run bridge_init = Some lost_cancel_state"
    by (auto simp: Option.is_none_def lost_cancel_state_def)
  have facts: "0 \<in> tb_cancel_requested lost_cancel_state" "tb_exec lost_cancel_state 0 = Some (X_result 7)"
    "Option.is_none (tb_cancels lost_cancel_state 0)" "\<not> list_ex is_motion_cancel (tb_log lost_cancel_state)"
    by code_simp+
  define s where "s = bridge_step (B_exec 0 (XI_result demo_motion_result Status_succeeded)) lost_cancel_state"
  have "\<not> Option.is_none s" "tb_end (the s) 0 = Some End_canceled"
    unfolding s_def by code_simp+
  then have "\<exists>m. s = Some m \<and> tb_end m 0 = Some End_canceled" by (auto simp: Option.is_none_def)
  with r facts show ?thesis by (auto simp: s_def Option.is_none_def intro: bridge_run_start)
qed

end
