(* ===== verification/Motion_Controller.thy ===== *)
theory Motion_Controller
  imports Task_Contract Execution_Adapters "HOL-Library.AList"
begin

text \<open>
  The motion action server of \<open>parallel_3dof_controller/controller_node.py\<close>: a goal takes the single
  slot, obtains a task lease from the execution manager, publishes its commands under it, polls the
  actuators until they are stably at their targets, and gives the lease back; every other way out stops
  the actuators first and keeps asking for the release of a lease that may still be held.

  The node runs on a multi-threaded executor with reentrant callbacks. A callback is a sequence of
  sections, cut where it awaits, sleeps, or has read shared state it acts on later: \<open>motion_point\<close> is the
  point the execute callback of a goal has reached and \<open>motion_job\<close> its local variables. A publication
  that follows a locked section belongs to that section: nothing in the node reads what it published.
  The inputs of a section are what the environment decides: the answers of services, their time-outs,
  and exceptions of the calls to the middleware. The monotonic clock is part of the state and
  advances by events of its own. Parameters are the record \<open>controller_config\<close>; the kinematics is its
  function \<open>cf_solve\<close>, from the angles in degrees, the side and the duration. Log lines and time stamps
  are left out.
\<close>

section \<open>State\<close>

type_synonym motion_identity = "string \<times> string \<times> string"

record solver_command =
  sv_id :: int
  sv_position :: int
  sv_duration_ms :: int

record controller_config =
  cf_solve :: "real \<Rightarrow> real \<Rightarrow> real \<Rightarrow> string \<Rightarrow> int \<Rightarrow> solver_command list result"
  cf_require_scene :: bool
  cf_lease_wait :: real
  cf_terminal_wait :: real
  cf_keepalive :: real
  cf_stable_samples :: int
  cf_stop_tolerance :: int

text \<open>The bounds \<open>__init__\<close> puts on its parameters.\<close>

definition controller_config_init ::
    "(real \<Rightarrow> real \<Rightarrow> real \<Rightarrow> string \<Rightarrow> int \<Rightarrow> solver_command list result) \<Rightarrow> bool \<Rightarrow> real \<Rightarrow> real \<Rightarrow> real \<Rightarrow> int \<Rightarrow> int \<Rightarrow> controller_config" where
  "controller_config_init solve scene lease_wait terminal_wait keepalive samples tolerance =
     \<lparr>cf_solve = solve, cf_require_scene = scene, cf_lease_wait = max (1 / 10) lease_wait,
      cf_terminal_wait = max (1 / 10) terminal_wait, cf_keepalive = max (1 / 20) keepalive,
      cf_stable_samples = max 1 samples, cf_stop_tolerance = max 0 tolerance\<rparr>"

type_synonym observations = "(int \<times> actuator_observation) list"

text \<open>Why the actuators are being stopped, and why the lease is being given back.\<close>

datatype stop_why =
    Stop_abort string string bool     \<comment> \<open>status, reason, recoverable\<close>
  | Stop_cancel
  | Stop_error string

datatype release_why =
    Rel_finish
  | Rel_cancel_before
  | Rel_reject string
  | Rel_abort string string bool bool  \<comment> \<open>and whether the stop was sent\<close>
  | Rel_cancel bool bool               \<comment> \<open>stop sent, stop confirmed\<close>
  | Rel_error string

datatype motion_point =
    M_begin                            \<comment> \<open>\<open>_execute_motion\<close> not begun\<close>
  | M_start                            \<comment> \<open>about to read the number of task states heard\<close>
  | M_publish_start nat
  | M_lease nat real                   \<comment> \<open>\<open>_wait_for_task_lease\<close>: states heard before, deadline\<close>
  | M_no_lease string bool             \<comment> \<open>reason, cleanup required\<close>
  | M_leased
  | M_commit
  | M_poll                             \<comment> \<open>head of the feedback loop\<close>
  | M_read "int list" observations     \<comment> \<open>actuators still to read\<close>
  | M_evaluate observations
  | M_stop stop_why
  | M_confirm "(int \<times> int) list option" stable_tracker real
  | M_confirm_read "int list" observations "(int \<times> int) list option" stable_tracker real
  | M_release release_why
  | M_publish_release release_why nat
  | M_terminal release_why nat real    \<comment> \<open>\<open>_wait_for_task_terminal\<close>\<close>
  | M_error string                     \<comment> \<open>the end of the exception handler\<close>
  | M_return                           \<comment> \<open>\<open>finally\<close>, before the slot is released\<close>

record motion_job =
  mj_request :: motion_goal
  mj_spec :: "motion_spec option"
  mj_requested :: bool
  mj_lease :: string
  mj_commands :: "solver_command list"
  mj_targets :: "(int \<times> int) list"
  mj_issued :: real
  mj_last_keepalive :: real
  mj_tracker :: stable_tracker
  mj_result :: motion_result

text \<open>What the node publishes and requests; \<open>None\<close> marks the cleanup of an earlier goal.\<close>

datatype controller_output =
    Control_sent "goal_id option" string motion_spec string
  | Command_sent goal_id motion_command
  | Feedback_sent goal_id motion_feedback
  | Read_requested goal_id int
  | Stop_requested goal_id "int list"

text \<open>
  The state of the node. \<open>cn_heard\<close> (all task states received, newest first) and \<open>cn_started\<close> (the goals
  whose start was published, with the number of states heard before) are history only.
\<close>

record controller =
  cn_latest :: "task_state option"
  cn_sequence :: nat
  cn_pending :: "(motion_identity \<times> (motion_spec \<times> bool)) list"
  cn_occupied :: bool
  cn_scene :: scene_gate
  cn_now :: real
  cn_known :: "goal_id set"
  cn_offers :: "goal_id \<Rightarrow> motion_goal option"
  cn_exec :: "goal_id \<Rightarrow> (motion_point \<times> motion_job) option"
  cn_cancel_requested :: "goal_id set"
  cn_end :: "goal_id \<Rightarrow> goal_end option"
  cn_result :: "goal_id \<Rightarrow> motion_result option"
  cn_log :: "controller_output list"
  cn_heard :: "task_state list"
  cn_started :: "goal_id \<Rightarrow> (motion_spec \<times> nat) option"

definition controller_init :: "scene_gate \<Rightarrow> controller" where
  "controller_init gate =
     \<lparr>cn_latest = None, cn_sequence = 0, cn_pending = [], cn_occupied = False, cn_scene = gate, cn_now = 0,
      cn_known = {}, cn_offers = (\<lambda>_. None), cn_exec = (\<lambda>_. None), cn_cancel_requested = {}, cn_end = (\<lambda>_. None),
      cn_result = (\<lambda>_. None), cn_log = [], cn_heard = [], cn_started = (\<lambda>_. None)\<rparr>"

definition set_job :: "goal_id \<Rightarrow> motion_point \<Rightarrow> motion_job \<Rightarrow> controller \<Rightarrow> controller" where
  "set_job g p j m = m\<lparr>cn_exec := (cn_exec m)(g \<mapsto> (p, j))\<rparr>"

definition cn_emit :: "controller_output \<Rightarrow> controller \<Rightarrow> controller" where
  "cn_emit out m = m\<lparr>cn_log := out # cn_log m\<rparr>"

section \<open>Task states and pending cleanups\<close>

definition spec_identity :: "motion_spec \<Rightarrow> motion_identity" where
  "spec_identity spec = (ms_task_id spec, ms_trace_id spec, ms_session_id spec)"

text \<open>The two branches of the loop of \<open>_on_task_state\<close>.\<close>

definition cleanup_due :: "task_state \<Rightarrow> motion_spec \<times> bool \<Rightarrow> bool" where
  "cleanup_due st e \<longleftrightarrow> active_task_lease (Some st) (fst e) \<noteq> '''' \<and> \<not> snd e"

definition cleanup_over :: "task_state \<Rightarrow> motion_spec \<times> bool \<Rightarrow> bool" where
  "cleanup_over st e \<longleftrightarrow> \<not> cleanup_due st e
     \<and> (is_terminal_task_state (Some st) (fst e) \<or> task_start_was_rejected (Some st) (fst e))"

definition on_task_state :: "task_state \<Rightarrow> controller \<Rightarrow> controller" where
  "on_task_state st m =
     (let due = filter (\<lambda>e. cleanup_due st (snd e)) (cn_pending m);
          kept = filter (\<lambda>e. \<not> cleanup_over st (snd e)) (cn_pending m)
      in m\<lparr>cn_latest := Some st, cn_sequence := Suc (cn_sequence m),
           cn_pending := map (\<lambda>(k, (spec, sent)). (k, (spec, sent \<or> cleanup_due st (spec, sent)))) kept,
           cn_log := rev (map (\<lambda>(k, (spec, sent)). Control_sent None ''cancel'' spec (active_task_lease (Some st) spec)) due)
             @ cn_log m,
           cn_heard := st # cn_heard m\<rparr>)"

definition register_cleanup :: "motion_spec \<Rightarrow> controller \<Rightarrow> controller" where
  "register_cleanup spec m =
     (if is_terminal_task_state (cn_latest m) spec
      then m\<lparr>cn_pending := AList.delete (spec_identity spec) (cn_pending m)\<rparr>
      else let lease = active_task_lease (cn_latest m) spec;
               m1 = m\<lparr>cn_pending := AList.update (spec_identity spec) (spec, lease \<noteq> '''') (cn_pending m)\<rparr>
           in if lease \<noteq> '''' then cn_emit (Control_sent None ''cancel'' spec lease) m1 else m1)"

section \<open>Goals\<close>

definition motion_result_init :: "motion_goal \<Rightarrow> motion_result" where
  "motion_result_init request =
     \<lparr>mr_success = False, mr_task_id = mg_task_id request, mr_trace_id = mg_trace_id request,
      mr_session_id = mg_session_id request, mr_status = '''', mr_reason = '''', mr_recoverable = False,
      mr_target_reached = False, mr_admission_released = False, mr_stop_requested = False,
      mr_stop_command_sent = False, mr_stop_confirmed = False\<rparr>"

definition motion_job_init :: "motion_goal \<Rightarrow> motion_job" where
  "motion_job_init request =
     \<lparr>mj_request = request, mj_spec = None, mj_requested = False, mj_lease = '''', mj_commands = [],
      mj_targets = [], mj_issued = 0, mj_last_keepalive = 0,
      mj_tracker = \<lparr>tr_required = 1, tr_consecutive = 0\<rparr>, mj_result = motion_result_init request\<rparr>"

text \<open>
  \<open>_motion_goal_callback\<close> in its two sections: the checks, among them that no cleanup is pending, and
  then the slot. Whether the task control topic has a subscriber is the environment's.
\<close>

definition motion_goal_offer :: "goal_id \<Rightarrow> motion_goal \<Rightarrow> bool \<Rightarrow> controller \<Rightarrow> controller" where
  "motion_goal_offer g goal subscribed m =
     (let m1 = m\<lparr>cn_known := insert g (cn_known m)\<rparr>
      in case normalize_motion_goal goal of
           Inl _ \<Rightarrow> m1
         | Inr _ \<Rightarrow> if \<not> (0 < cn_sequence m \<and> subscribed) then m1
             else if cn_pending m \<noteq> [] then m1
             else m1\<lparr>cn_offers := (cn_offers m)(g \<mapsto> goal)\<rparr>)"

definition motion_goal_acquire :: "goal_id \<Rightarrow> motion_goal \<Rightarrow> controller \<Rightarrow> controller" where
  "motion_goal_acquire g goal m =
     (let m1 = m\<lparr>cn_offers := (cn_offers m)(g := None)\<rparr>; (acquired, occupied) = try_acquire (cn_occupied m)
      in if \<not> acquired then m1 else set_job g M_begin (motion_job_init goal) (m1\<lparr>cn_occupied := occupied\<rparr>))"

section \<open>The ends of a goal\<close>

text \<open>A transition of the goal handle and \<open>_finish_result\<close>.\<close>

definition motion_return :: "goal_id \<Rightarrow> goal_end \<Rightarrow> motion_job \<Rightarrow> string \<Rightarrow> string \<Rightarrow> bool \<Rightarrow> controller \<Rightarrow> controller" where
  "motion_return g e j status reason recoverable m =
     set_job g M_return
       (j\<lparr>mj_result := (mj_result j)\<lparr>mr_status := status, mr_reason := reason, mr_recoverable := recoverable\<rparr>\<rparr>)
       (m\<lparr>cn_end := (cn_end m)(g \<mapsto> e)\<rparr>)"

text \<open>\<open>_handle_unexpected_motion_error\<close>, up to its first await and after its last.\<close>

definition motion_error :: "goal_id \<Rightarrow> string \<Rightarrow> motion_job \<Rightarrow> controller \<Rightarrow> controller" where
  "motion_error g why j m =
     (let reason = ''motion_execution_error:'' @ why;
          stop = (mj_lease j \<noteq> '''' \<and> mj_targets j \<noteq> []);
          j1 = j\<lparr>mj_result := (mj_result j)\<lparr>mr_stop_requested := stop\<rparr>\<rparr>
      in set_job g (if stop then M_stop (Stop_error reason)
                    else if mj_spec j \<noteq> None \<and> mj_lease j \<noteq> '''' then M_release (Rel_error reason)
                    else M_error reason) j1 m)"

definition error_return :: "goal_id \<Rightarrow> string \<Rightarrow> motion_job \<Rightarrow> controller \<Rightarrow> controller" where
  "error_return g reason j m =
     (case mj_spec j of
        Some spec \<Rightarrow>
          if mj_requested j \<and> \<not> mr_admission_released (mj_result j)
          then motion_return g End_aborted j ''failed'' ''task_admission_release_unconfirmed'' True (register_cleanup spec m)
          else motion_return g End_aborted j ''failed'' reason True m
      | None \<Rightarrow> motion_return g End_aborted j ''failed'' reason True m)"

text \<open>What follows \<open>_release_task_admission\<close>, which returned the terminal status or nothing.\<close>

definition unconfirmed :: string where
  "unconfirmed = ''task_admission_release_unconfirmed''"

definition finish_return :: "goal_id \<Rightarrow> string \<Rightarrow> motion_spec \<Rightarrow> motion_job \<Rightarrow> controller \<Rightarrow> controller" where
  "finish_return g status spec j m =
     (let j1 = j\<lparr>mj_result := (mj_result j)\<lparr>mr_target_reached := True, mr_admission_released := status \<noteq> ''''\<rparr>\<rparr>
      in if status \<noteq> ''finished''
         then motion_return g End_aborted j1 ''failed''
                (if status \<noteq> '''' then ''task_admission_'' @ status else unconfirmed) True (register_cleanup spec m)
         else motion_return g End_succeeded (j1\<lparr>mj_result := (mj_result j1)\<lparr>mr_success := True\<rparr>\<rparr>) ''succeeded'' '''' False m)"

definition cancel_before_return :: "goal_id \<Rightarrow> string \<Rightarrow> motion_spec \<Rightarrow> motion_job \<Rightarrow> controller \<Rightarrow> controller" where
  "cancel_before_return g status spec j m =
     motion_return g End_canceled (j\<lparr>mj_result := (mj_result j)\<lparr>mr_admission_released := status \<noteq> ''''\<rparr>\<rparr>) ''cancelled''
       (if status \<noteq> '''' then '''' else unconfirmed) (status = '''')
       (if status = '''' then register_cleanup spec m else m)"

definition reject_return :: "goal_id \<Rightarrow> string \<Rightarrow> string \<Rightarrow> motion_spec \<Rightarrow> motion_job \<Rightarrow> controller \<Rightarrow> controller" where
  "reject_return g reason status spec j m =
     motion_return g End_aborted (j\<lparr>mj_result := (mj_result j)\<lparr>mr_admission_released := status \<noteq> ''''\<rparr>\<rparr>) ''rejected''
       (if status \<noteq> '''' then reason else unconfirmed) True
       (if status = '''' then register_cleanup spec m else m)"

text \<open>The ends of \<open>_abort_motion\<close> and \<open>_cancel_motion\<close>, with what the stop came to.\<close>

definition abort_return :: "goal_id \<Rightarrow> string \<Rightarrow> string \<Rightarrow> bool \<Rightarrow> bool \<Rightarrow> string \<Rightarrow> motion_spec \<Rightarrow> motion_job \<Rightarrow> controller \<Rightarrow> controller" where
  "abort_return g result_status reason recoverable sent status spec j m =
     motion_return g End_aborted
       (j\<lparr>mj_result := (mj_result j)\<lparr>mr_admission_released := status \<noteq> '''', mr_stop_requested := True,
            mr_stop_command_sent := sent, mr_stop_confirmed := False\<rparr>\<rparr>)
       result_status (if status \<noteq> '''' then reason else unconfirmed) (recoverable \<or> status = '''')
       (if status = '''' then register_cleanup spec m else m)"

definition cancel_return :: "goal_id \<Rightarrow> bool \<Rightarrow> bool \<Rightarrow> string \<Rightarrow> motion_spec \<Rightarrow> motion_job \<Rightarrow> controller \<Rightarrow> controller" where
  "cancel_return g sent confirmed status spec j m =
     motion_return g End_canceled
       (j\<lparr>mj_result := (mj_result j)\<lparr>mr_admission_released := status \<noteq> '''', mr_stop_requested := True,
            mr_stop_command_sent := sent, mr_stop_confirmed := confirmed\<rparr>\<rparr>)
       ''cancelled'' (if status = '''' then unconfirmed else if \<not> confirmed then ''stop_not_confirmed'' else '''')
       (\<not> confirmed \<or> status = '''')
       (if status = '''' then register_cleanup spec m else m)"

fun release_return :: "goal_id \<Rightarrow> release_why \<Rightarrow> string \<Rightarrow> motion_spec \<Rightarrow> motion_job \<Rightarrow> controller \<Rightarrow> controller" where
  "release_return g Rel_finish status spec j m = finish_return g status spec j m"
| "release_return g Rel_cancel_before status spec j m = cancel_before_return g status spec j m"
| "release_return g (Rel_reject reason) status spec j m = reject_return g reason status spec j m"
| "release_return g (Rel_abort s reason recoverable sent) status spec j m = abort_return g s reason recoverable sent status spec j m"
| "release_return g (Rel_cancel sent confirmed) status spec j m = cancel_return g sent confirmed status spec j m"
| "release_return g (Rel_error reason) status spec j m =
     error_return g reason (j\<lparr>mj_result := (mj_result j)\<lparr>mr_admission_released := status \<noteq> ''''\<rparr>\<rparr>) m"

lemmas return_defs = finish_return_def cancel_before_return_def reject_return_def abort_return_def cancel_return_def

section \<open>The sections of the execute callback\<close>

text \<open>The inputs: an answer to a read, to a stop, none of them ready or in time, an exception.\<close>

record read_reply =
  rp_success :: bool
  rp_position :: int
  rp_status :: string
  rp_reason :: string
  rp_recoverable :: bool

datatype motion_input =
    MI_go
  | MI_unready
  | MI_timeout
  | MI_read read_reply
  | MI_stop bool
  | MI_partial nat string    \<comment> \<open>publishing the commands failed after some of them\<close>
  | MI_exception string

definition scene_rejection_reason :: "controller_config \<Rightarrow> motion_spec \<Rightarrow> controller \<Rightarrow> string" where
  "scene_rejection_reason cf spec m =
     (if \<not> cf_require_scene cf then ''''
      else let d = evaluate_snapshot (ms_session_id spec) (ms_target_group spec) (Fin (cn_now m)) (cn_scene m)
           in if fst d then '''' else snd d)"

text \<open>\<open>target_group[:-len('_ankle')]\<close>\<close>

definition ankle_side_of :: "string \<Rightarrow> string" where
  "ankle_side_of grp = take (length grp - length ''_ankle'') grp"

definition motion_begin :: "controller_config \<Rightarrow> goal_id \<Rightarrow> motion_job \<Rightarrow> controller \<Rightarrow> controller" where
  "motion_begin cf g j m =
     (case normalize_motion_goal (mj_request j) of
        Inl (ValueError why) \<Rightarrow> motion_return g End_aborted j ''rejected'' why False m
      | Inl e \<Rightarrow> motion_error g '''' j m
      | Inr spec \<Rightarrow>
          let j1 = j\<lparr>mj_spec := Some spec\<rparr>; reason = scene_rejection_reason cf spec m
          in if reason \<noteq> '''' then motion_return g End_aborted j1 ''rejected'' reason True m
             else case cf_solve cf (ms_roll_deg spec) (ms_pitch_deg spec) (ms_yaw_deg spec)
                         (ankle_side_of (ms_target_group spec)) (ms_duration_ms spec) of
                    Inl (ValueError why) \<Rightarrow> motion_return g End_aborted j1 ''rejected'' why False m
                  | Inl e \<Rightarrow> motion_error g '''' j1 m
                  | Inr commands \<Rightarrow> set_job g M_start (j1\<lparr>mj_commands := commands\<rparr>) m)"

definition motion_publish_start :: "controller_config \<Rightarrow> goal_id \<Rightarrow> nat \<Rightarrow> motion_spec \<Rightarrow> motion_job \<Rightarrow> controller \<Rightarrow> controller" where
  "motion_publish_start cf g seq spec j m =
     set_job g (M_lease seq (cn_now m + cf_lease_wait cf)) (j\<lparr>mj_requested := True\<rparr>)
       (cn_emit (Control_sent (Some g) ''start'' spec '''')
         (m\<lparr>cn_started := (cn_started m)(g \<mapsto> (spec, seq))\<rparr>))"

definition latest_reason :: "controller \<Rightarrow> string" where
  "latest_reason m = (case cn_latest m of None \<Rightarrow> '''' | Some s \<Rightarrow> ts_reason s)"

definition or_else :: "string \<Rightarrow> string \<Rightarrow> string" where
  "or_else s t = (if s = '''' then t else s)"

definition motion_lease :: "goal_id \<Rightarrow> nat \<Rightarrow> real \<Rightarrow> motion_spec \<Rightarrow> motion_job \<Rightarrow> controller \<Rightarrow> controller" where
  "motion_lease g seq deadline spec j m =
     (if deadline < cn_now m then set_job g (M_no_lease ''task_admission_state_unconfirmed'' True) j m
      else if g \<in> cn_cancel_requested m then set_job g (M_no_lease ''motion_cancel_requested'' True) j m
      else if seq < cn_sequence m \<and> task_start_was_rejected (cn_latest m) spec
        then set_job g (M_no_lease (or_else (latest_reason m) ''task_lease_not_granted'') False) j m
      else if seq < cn_sequence m \<and> task_start_was_accepted (cn_latest m) spec
        then set_job g M_leased (j\<lparr>mj_lease := active_task_lease (cn_latest m) spec\<rparr>) m
      else set_job g (M_lease seq deadline) j m)"

definition motion_no_lease :: "goal_id \<Rightarrow> string \<Rightarrow> bool \<Rightarrow> motion_spec \<Rightarrow> motion_job \<Rightarrow> controller \<Rightarrow> controller" where
  "motion_no_lease g reason cleanup spec j m =
     (let m1 = (if cleanup then register_cleanup spec m else m)
      in if g \<in> cn_cancel_requested m then motion_return g End_canceled j ''cancelled'' reason True m1
         else motion_return g End_aborted j ''rejected'' reason True m1)"

text \<open>The dictionary of targets: a later command for the same actuator replaces an earlier one.\<close>

definition command_targets :: "solver_command list \<Rightarrow> (int \<times> int) list" where
  "command_targets cs = fold (\<lambda>c. AList.update (sv_id c) (sv_position c)) cs []"

definition motion_leased :: "goal_id \<Rightarrow> motion_job \<Rightarrow> controller \<Rightarrow> controller" where
  "motion_leased g j m =
     (if g \<in> cn_cancel_requested m then set_job g (M_release Rel_cancel_before) j m
      else set_job g M_commit (j\<lparr>mj_targets := command_targets (mj_commands j)\<rparr>) m)"

definition build_execution_command :: "solver_command \<Rightarrow> string \<Rightarrow> string \<Rightarrow> motion_command" where
  "build_execution_command c requester lease =
     \<lparr>mc_servo_type = ''bus'', mc_servo_id = sv_id c, mc_position = sv_position c,
      mc_value_encoding = ''bus_pulse_us'', mc_duration_ms = sv_duration_ms c,
      mc_requester_id = requester, mc_lease_id = lease\<rparr>"

text \<open>The legacy \<open>ankle_rpy_callback\<close>: commands without requester and lease, nothing on an error.\<close>

definition ankle_rpy_commands :: "controller_config \<Rightarrow> real \<Rightarrow> real \<Rightarrow> real \<Rightarrow> string \<Rightarrow> int \<Rightarrow> motion_command list" where
  "ankle_rpy_commands cf x y z side speed =
     (case cf_solve cf x y z side speed of
        Inl _ \<Rightarrow> []
      | Inr cs \<Rightarrow> map (\<lambda>c. build_execution_command c '''' '''') cs)"

definition publish_commands :: "goal_id \<Rightarrow> motion_command list \<Rightarrow> controller \<Rightarrow> controller" where
  "publish_commands g cs m = m\<lparr>cn_log := rev (map (Command_sent g) cs) @ cn_log m\<rparr>"

text \<open>\<open>_commit_task_commands\<close>: the scene is judged and the commands are published under the scene's lock.
  The reason of a rejection is never empty.\<close>

definition motion_commit :: "controller_config \<Rightarrow> goal_id \<Rightarrow> motion_input \<Rightarrow> motion_spec \<Rightarrow> motion_job \<Rightarrow> controller \<Rightarrow> controller" where
  "motion_commit cf g i spec j m =
     (let commands = map (\<lambda>c. build_execution_command c (ms_task_id spec) (mj_lease j)) (mj_commands j);
          j1 = j\<lparr>mj_issued := cn_now m, mj_last_keepalive := cn_now m\<rparr>;
          (decision, m1) = (if cf_require_scene cf
             then commit_if_accepted (ms_session_id spec) (ms_target_group spec) (Fin (cn_now m))
                    (publish_commands g (case i of MI_partial k _ \<Rightarrow> take k commands | _ \<Rightarrow> commands)) (cn_scene m) m
             else ((True, ''''), publish_commands g (case i of MI_partial k _ \<Rightarrow> take k commands | _ \<Rightarrow> commands) m))
      in if \<not> fst decision then set_job g (M_release (Rel_reject (snd decision))) j m1
         else case i of
           MI_partial k why \<Rightarrow> motion_error g why j m1
         | _ \<Rightarrow> (case tracker_init (cf_stable_samples cf) of
                   Inl _ \<Rightarrow> motion_error g '''' j1 m1
                 | Inr tr \<Rightarrow> set_job g M_poll (j1\<lparr>mj_tracker := tr\<rparr>) m1))"

definition motion_feedback_of :: "motion_spec \<Rightarrow> string \<Rightarrow> nat \<Rightarrow> nat \<Rightarrow> bool \<Rightarrow> motion_feedback" where
  "motion_feedback_of spec status reached targets cancel =
     \<lparr>mf_task_id = ms_task_id spec, mf_trace_id = ms_trace_id spec, mf_session_id = ms_session_id spec,
      mf_status = status, mf_reason = '''', mf_progress = progress_fraction (int reached) (int targets),
      mf_reached = reached, mf_targets = targets, mf_cancel_requested = cancel,
      mf_stop_command_sent = False, mf_stop_confirmed = False\<rparr>"

text \<open>The beginning of \<open>_cancel_motion\<close>.\<close>

definition motion_cancel :: "goal_id \<Rightarrow> motion_spec \<Rightarrow> motion_job \<Rightarrow> controller \<Rightarrow> controller" where
  "motion_cancel g spec j m =
     set_job g (M_stop Stop_cancel) j
       (cn_emit (Feedback_sent g (motion_feedback_of spec ''cancelled'' 0 (length (mj_targets j)) True)) m)"

definition motion_poll :: "controller_config \<Rightarrow> goal_id \<Rightarrow> motion_spec \<Rightarrow> motion_job \<Rightarrow> controller \<Rightarrow> controller" where
  "motion_poll cf g spec j m =
     (if mj_issued j + ms_execution_timeout_sec spec < cn_now m
      then set_job g (M_stop (Stop_abort ''timed_out'' ''execution_timeout'' True)) j m
      else if g \<in> cn_cancel_requested m then motion_cancel g spec j m
      else if cf_keepalive cf \<le> cn_now m - mj_last_keepalive j
        then set_job g (M_read (map fst (mj_targets j)) []) (j\<lparr>mj_last_keepalive := cn_now m\<rparr>)
               (cn_emit (Control_sent (Some g) ''keepalive'' spec (mj_lease j)) m)
      else set_job g (M_read (map fst (mj_targets j)) []) j m)"

text \<open>One turn of \<open>_read_positions\<close>: an error, or the observation of the actuator.\<close>

fun read_position :: "motion_input \<Rightarrow> real \<Rightarrow> (string + actuator_observation) option" where
  "read_position MI_unready now = Some (Inl ''read_actuator_service_unavailable'')"
| "read_position MI_timeout now = Some (Inl ''actuator_position_read_timeout'')"
| "read_position (MI_read r) now =
     Some (if \<not> rp_success r then Inl (or_else (rp_reason r) ''actuator_position_read_failed'')
           else Inr \<lparr>ao_position_raw = rp_position r, ao_status = rp_status r, ao_reason = rp_reason r,
                  ao_recoverable = rp_recoverable r, ao_observed = now\<rparr>)"
| "read_position _ now = None"

definition log_read :: "goal_id \<Rightarrow> motion_input \<Rightarrow> int \<Rightarrow> controller \<Rightarrow> controller" where
  "log_read g i actuator m = (if i = MI_unready then m else cn_emit (Read_requested g actuator) m)"

definition motion_evaluate :: "goal_id \<Rightarrow> observations \<Rightarrow> motion_spec \<Rightarrow> motion_job \<Rightarrow> controller \<Rightarrow> controller" where
  "motion_evaluate g obs spec j m =
     (let (reached, err) = evaluate_target_feedback (mj_targets j) (map_of obs) (mj_issued j) (ms_position_tolerance spec)
      in case err of
           Some ob \<Rightarrow> set_job g (M_stop (Stop_abort ''failed'' (or_else (ao_reason ob) ''actuator_error'') (ao_recoverable ob))) j m
         | None \<Rightarrow>
             let m1 = cn_emit (Feedback_sent g (motion_feedback_of spec ''executing'' reached (length (mj_targets j)) False)) m;
                 (done, tr) = tracker_update reached (length (mj_targets j)) (mj_tracker j);
                 j1 = j\<lparr>mj_tracker := tr\<rparr>
             in if \<not> done then set_job g M_poll j1 m1
                else if g \<in> cn_cancel_requested m then motion_cancel g spec j1 m1
                else set_job g (M_release Rel_finish) j1 m1)"

text \<open>After \<open>_request_stop\<close>, which reports whether the stop was sent.\<close>

fun motion_stopped :: "controller_config \<Rightarrow> goal_id \<Rightarrow> stop_why \<Rightarrow> bool \<Rightarrow> motion_spec \<Rightarrow> motion_job \<Rightarrow> controller \<Rightarrow> controller" where
  "motion_stopped cf g (Stop_abort status reason recoverable) sent spec j m =
     set_job g (M_release (Rel_abort status reason recoverable sent)) j m"
| "motion_stopped cf g Stop_cancel sent spec j m =
     (if \<not> sent then set_job g (M_release (Rel_cancel False False)) j m
      else case tracker_init (cf_stable_samples cf) of
             Inl _ \<Rightarrow> motion_error g '''' j m
           | Inr tr \<Rightarrow> set_job g (M_confirm None tr (cn_now m + min (ms_execution_timeout_sec spec) 2)) j m)"
| "motion_stopped cf g (Stop_error reason) sent spec j m =
     set_job g (M_release (Rel_error reason)) (j\<lparr>mj_result := (mj_result j)\<lparr>mr_stop_command_sent := sent\<rparr>\<rparr>) m"

definition motion_confirm :: "goal_id \<Rightarrow> (int \<times> int) list option \<Rightarrow> stable_tracker \<Rightarrow> real \<Rightarrow> motion_spec \<Rightarrow> motion_job \<Rightarrow> controller \<Rightarrow> controller" where
  "motion_confirm g previous tr deadline spec j m =
     (if deadline < cn_now m then set_job g (M_release (Rel_cancel True False)) j m
      else set_job g (M_confirm_read (map fst (mj_targets j)) [] previous tr deadline) j
             (cn_emit (Control_sent (Some g) ''keepalive'' spec (mj_lease j)) m))"

definition unchanged_count :: "int \<Rightarrow> (int \<times> int) list option \<Rightarrow> (int \<times> int) list \<Rightarrow> nat" where
  "unchanged_count tolerance previous current =
     (case previous of None \<Rightarrow> 0
      | Some prev \<Rightarrow> length (filter (\<lambda>(k, pos). \<bar>pos - (case map_of prev k of None \<Rightarrow> pos | Some p \<Rightarrow> p)\<bar> \<le> tolerance) current))"

definition motion_confirmed :: "controller_config \<Rightarrow> goal_id \<Rightarrow> observations \<Rightarrow> (int \<times> int) list option \<Rightarrow> stable_tracker \<Rightarrow> real \<Rightarrow>
    motion_job \<Rightarrow> controller \<Rightarrow> controller" where
  "motion_confirmed cf g obs previous tr deadline j m =
     (let current = map (\<lambda>(k, ob). (k, ao_position_raw ob)) obs;
          (done, tr1) = tracker_update (unchanged_count (cf_stop_tolerance cf) previous current) (length (mj_targets j)) tr
      in if done then set_job g (M_release (Rel_cancel True True)) j m
         else set_job g (M_confirm (Some current) tr1 deadline) j m)"

definition release_action :: "release_why \<Rightarrow> string" where
  "release_action why = (if why = Rel_finish then ''finish'' else ''cancel'')"

definition motion_release :: "goal_id \<Rightarrow> release_why \<Rightarrow> motion_spec \<Rightarrow> motion_job \<Rightarrow> controller \<Rightarrow> controller" where
  "motion_release g why spec j m =
     (let status = terminal_task_status (cn_latest m) spec
      in if status \<noteq> '''' then release_return g why status spec j m
         else set_job g (M_publish_release why (cn_sequence m)) j m)"

definition motion_publish_release :: "controller_config \<Rightarrow> goal_id \<Rightarrow> release_why \<Rightarrow> nat \<Rightarrow> motion_spec \<Rightarrow> motion_job \<Rightarrow> controller \<Rightarrow> controller" where
  "motion_publish_release cf g why seq spec j m =
     set_job g (M_terminal why seq (cn_now m + cf_terminal_wait cf)) j
       (cn_emit (Control_sent (Some g) (release_action why) spec (mj_lease j)) m)"

definition motion_terminal :: "goal_id \<Rightarrow> release_why \<Rightarrow> nat \<Rightarrow> real \<Rightarrow> motion_spec \<Rightarrow> motion_job \<Rightarrow> controller \<Rightarrow> controller" where
  "motion_terminal g why seq deadline spec j m =
     (if deadline < cn_now m then release_return g why '''' spec j m
      else if seq < cn_sequence m \<and> is_terminal_task_state (cn_latest m) spec
        then release_return g why (terminal_task_status (cn_latest m) spec) spec j m
      else set_job g (M_terminal why seq deadline) j m)"

definition motion_finally :: "goal_id \<Rightarrow> motion_job \<Rightarrow> controller \<Rightarrow> controller" where
  "motion_finally g j m =
     m\<lparr>cn_occupied := slot_release (cn_occupied m), cn_exec := (cn_exec m)(g := None),
       cn_result := (cn_result m)(g \<mapsto> mj_result j)\<rparr>"

text \<open>
  Where an exception arises, it enters the handler; inside the handler the stop and the release are
  guarded, so there it only ends that attempt.
\<close>

fun motion_exception :: "goal_id \<Rightarrow> string \<Rightarrow> motion_point \<Rightarrow> motion_job \<Rightarrow> controller \<Rightarrow> controller option" where
  "motion_exception g why (M_stop (Stop_error reason)) j m = Some (set_job g (M_release (Rel_error reason)) j m)"
| "motion_exception g why (M_publish_release (Rel_error reason) seq) j m = Some (set_job g (M_error reason) j m)"
| "motion_exception g why (M_terminal (Rel_error reason) seq deadline) j m = Some (set_job g (M_error reason) j m)"
| "motion_exception g why M_start j m = None"
| "motion_exception g why (M_no_lease r c) j m = None"
| "motion_exception g why M_leased j m = None"
| "motion_exception g why M_commit j m = None"
| "motion_exception g why (M_release w) j m = None"
| "motion_exception g why (M_error r) j m = None"
| "motion_exception g why M_return j m = None"
| "motion_exception g why p j m = Some (motion_error g why j m)"

text \<open>A section that takes no input of the environment.\<close>

definition on_go :: "motion_input \<Rightarrow> controller \<Rightarrow> controller option" where
  "on_go i m' = (if i = MI_go then Some m' else None)"

definition commit_section :: "controller_config \<Rightarrow> goal_id \<Rightarrow> motion_input \<Rightarrow> motion_spec \<Rightarrow> motion_job \<Rightarrow> controller \<Rightarrow> controller option" where
  "commit_section cf g i spec j m =
     (case i of MI_go \<Rightarrow> Some (motion_commit cf g i spec j m) | MI_partial _ _ \<Rightarrow> Some (motion_commit cf g i spec j m) | _ \<Rightarrow> None)"

definition read_section :: "goal_id \<Rightarrow> motion_input \<Rightarrow> int list \<Rightarrow> observations \<Rightarrow> motion_job \<Rightarrow> controller \<Rightarrow> controller option" where
  "read_section g i ids obs j m =
     (case ids of
        [] \<Rightarrow> on_go i (set_job g (M_evaluate obs) j m)
      | a # rest \<Rightarrow>
          (case read_position i (cn_now m) of
             None \<Rightarrow> None
           | Some (Inl reason) \<Rightarrow> Some (set_job g (M_stop (Stop_abort ''failed'' reason True)) j (log_read g i a m))
           | Some (Inr ob) \<Rightarrow> Some (set_job g (M_read rest (AList.update a ob obs)) j (log_read g i a m))))"

definition confirm_read_section :: "controller_config \<Rightarrow> goal_id \<Rightarrow> motion_input \<Rightarrow> int list \<Rightarrow> observations \<Rightarrow>
    (int \<times> int) list option \<Rightarrow> stable_tracker \<Rightarrow> real \<Rightarrow> motion_job \<Rightarrow> controller \<Rightarrow> controller option" where
  "confirm_read_section cf g i ids obs previous tr deadline j m =
     (case ids of
        [] \<Rightarrow> on_go i (motion_confirmed cf g obs previous tr deadline j m)
      | a # rest \<Rightarrow>
          (case read_position i (cn_now m) of
             None \<Rightarrow> None
           | Some (Inl reason) \<Rightarrow> Some (set_job g (M_release (Rel_cancel True False)) j (log_read g i a m))
           | Some (Inr ob) \<Rightarrow>
               Some (set_job g (M_confirm_read rest (AList.update a ob obs) previous tr deadline) j (log_read g i a m))))"

text \<open>\<open>_request_stop\<close>\<close>

definition stop_section :: "controller_config \<Rightarrow> goal_id \<Rightarrow> motion_input \<Rightarrow> stop_why \<Rightarrow> motion_spec \<Rightarrow> motion_job \<Rightarrow> controller \<Rightarrow> controller option" where
  "stop_section cf g i why spec j m =
     (let m1 = cn_emit (Stop_requested g (map fst (mj_targets j))) m
      in case i of
           MI_unready \<Rightarrow> Some (motion_stopped cf g why False spec j m)
         | MI_timeout \<Rightarrow> Some (motion_stopped cf g why False spec j m1)
         | MI_stop sent \<Rightarrow> Some (motion_stopped cf g why sent spec j m1)
         | _ \<Rightarrow> None)"

text \<open>The next section of the callback at a point; \<open>None\<close>: not an input of this point.\<close>

definition spec_section :: "controller_config \<Rightarrow> goal_id \<Rightarrow> motion_point \<Rightarrow> motion_input \<Rightarrow> motion_spec \<Rightarrow> motion_job \<Rightarrow>
    controller \<Rightarrow> controller option" where
  "spec_section cf g p i spec j m =
     (case p of
        M_start \<Rightarrow> on_go i (set_job g (M_publish_start (cn_sequence m)) j m)
      | M_publish_start seq \<Rightarrow> on_go i (motion_publish_start cf g seq spec j m)
      | M_lease seq deadline \<Rightarrow> on_go i (motion_lease g seq deadline spec j m)
      | M_no_lease reason cleanup \<Rightarrow> on_go i (motion_no_lease g reason cleanup spec j m)
      | M_leased \<Rightarrow> on_go i (motion_leased g j m)
      | M_commit \<Rightarrow> commit_section cf g i spec j m
      | M_poll \<Rightarrow> on_go i (motion_poll cf g spec j m)
      | M_read ids obs \<Rightarrow> read_section g i ids obs j m
      | M_evaluate obs \<Rightarrow> on_go i (motion_evaluate g obs spec j m)
      | M_stop why \<Rightarrow> stop_section cf g i why spec j m
      | M_confirm previous tr deadline \<Rightarrow> on_go i (motion_confirm g previous tr deadline spec j m)
      | M_confirm_read ids obs previous tr deadline \<Rightarrow> confirm_read_section cf g i ids obs previous tr deadline j m
      | M_release why \<Rightarrow> on_go i (motion_release g why spec j m)
      | M_publish_release why seq \<Rightarrow> on_go i (motion_publish_release cf g why seq spec j m)
      | M_terminal why seq deadline \<Rightarrow> on_go i (motion_terminal g why seq deadline spec j m)
      | _ \<Rightarrow> None)"

definition motion_exec :: "controller_config \<Rightarrow> goal_id \<Rightarrow> motion_point \<Rightarrow> motion_input \<Rightarrow> motion_job \<Rightarrow> controller \<Rightarrow> controller option" where
  "motion_exec cf g p i j m =
     (case i of
        MI_exception why \<Rightarrow> motion_exception g why p j m
      | _ \<Rightarrow>
          (case p of
             M_begin \<Rightarrow> on_go i (motion_begin cf g j m)
           | M_error reason \<Rightarrow> on_go i (error_return g reason j m)
           | M_return \<Rightarrow> on_go i (motion_finally g j m)
           | _ \<Rightarrow> (case mj_spec j of None \<Rightarrow> None | Some spec \<Rightarrow> spec_section cf g p i spec j m)))"

section \<open>Steps\<close>

record scene_report =
  sm_observation_id :: string
  sm_session_id :: string
  sm_frame_id :: string
  sm_objects :: "scene_object list"
  sm_status :: string
  sm_reason :: string

definition on_scene_state :: "scene_report \<Rightarrow> controller \<Rightarrow> controller" where
  "on_scene_state msg m =
     m\<lparr>cn_scene := snd (scene_update (sm_observation_id msg) (sm_session_id msg) (sm_frame_id msg) (sm_objects msg)
          (sm_status msg) (sm_reason msg) (Fin (cn_now m)) (cn_scene m))\<rparr>"

datatype motion_event =
    C_offer goal_id motion_goal bool     \<comment> \<open>a goal request is checked\<close>
  | C_acquire goal_id                    \<comment> \<open>and tries to take the slot\<close>
  | C_exec goal_id motion_input
  | C_cancel goal_id
  | C_state task_state
  | C_scene scene_report
  | C_time real

fun controller_step :: "controller_config \<Rightarrow> motion_event \<Rightarrow> controller \<Rightarrow> controller option" where
  "controller_step cf (C_offer g goal subscribed) m =
     (if g \<in> cn_known m then None else Some (motion_goal_offer g goal subscribed m))"
| "controller_step cf (C_acquire g) m =
     (case cn_offers m g of None \<Rightarrow> None | Some goal \<Rightarrow> Some (motion_goal_acquire g goal m))"
| "controller_step cf (C_exec g i) m = (case cn_exec m g of None \<Rightarrow> None | Some (p, j) \<Rightarrow> motion_exec cf g p i j m)"
| "controller_step cf (C_cancel g) m =
     (if cn_exec m g = None \<or> cn_end m g \<noteq> None then None
      else Some (m\<lparr>cn_cancel_requested := insert g (cn_cancel_requested m)\<rparr>))"
| "controller_step cf (C_state st) m = Some (on_task_state st m)"
| "controller_step cf (C_scene msg) m = Some (on_scene_state msg m)"
| "controller_step cf (C_time t) m = (if cn_now m \<le> t then Some (m\<lparr>cn_now := t\<rparr>) else None)"

inductive controller_reachable :: "controller_config \<Rightarrow> controller \<Rightarrow> bool" for cf where
  start: "controller_reachable cf (controller_init gate)"
| step: "controller_reachable cf m \<Longrightarrow> controller_step cf e m = Some m' \<Longrightarrow> controller_reachable cf m'"

end
