(* ===== verification/Motion_Safety.thy ===== *)
theory Motion_Safety
  imports Motion_Controller
begin

text \<open>
  What the motion action server guarantees in every interleaving of its callbacks: the invariant
  \<open>controller_ok\<close> over the points a goal can be at, that every section and every other callback keeps it,
  and the properties that follow from it; \<open>phase\<close>, \<open>round_left\<close> and \<open>phase_deadline\<close> order the points of a
  goal so that each of its sections brings it nearer its end.
\<close>

section \<open>What the history says of a goal\<close>

text \<open>The feedback samples of a goal, newest first; whether it has commanded an actuator.\<close>

fun sample_of :: "goal_id \<Rightarrow> controller_output \<Rightarrow> (nat \<times> nat) list" where
  "sample_of g (Feedback_sent h f) = (if h = g then [(mf_reached f, mf_targets f)] else [])"
| "sample_of g _ = []"

definition samples :: "goal_id \<Rightarrow> controller_output list \<Rightarrow> (nat \<times> nat) list" where
  "samples g outs = concat (map (sample_of g) outs)"

fun commands_of :: "goal_id \<Rightarrow> controller_output \<Rightarrow> motion_command list" where
  "commands_of g (Command_sent h c) = (if h = g then [c] else [])"
| "commands_of g _ = []"

definition sent_commands :: "goal_id \<Rightarrow> controller_output list \<Rightarrow> motion_command list" where
  "sent_commands g outs = concat (map (commands_of g) outs)"

definition streak :: "goal_id \<Rightarrow> controller \<Rightarrow> nat" where
  "streak g m = length (takeWhile full_sample (samples g (cn_log m)))"

text \<open>The task states heard after the first \<open>n\<close>.\<close>

definition heard_since :: "controller \<Rightarrow> nat \<Rightarrow> task_state set" where
  "heard_since m n = set (take (length (cn_heard m) - n) (cn_heard m))"

text \<open>The lease was granted to the goal after its start; the task is over, or its cleanup is pending.\<close>

definition lease_granted :: "controller \<Rightarrow> motion_spec \<Rightarrow> nat \<Rightarrow> string \<Rightarrow> bool" where
  "lease_granted m spec n lease \<longleftrightarrow>
     (\<exists>st \<in> heard_since m n. task_start_was_accepted (Some st) spec \<and> lease = active_task_lease (Some st) spec)"

definition start_settled :: "controller \<Rightarrow> motion_spec \<Rightarrow> nat \<Rightarrow> bool" where
  "start_settled m spec n \<longleftrightarrow> spec_identity spec \<in> fst ` set (cn_pending m)
     \<or> (\<exists>st \<in> set (cn_heard m). is_terminal_task_state (Some st) spec)
     \<or> (\<exists>st \<in> heard_since m n. task_start_was_rejected (Some st) spec)"

lemma samples_simps [simp]:
  "samples g [] = []" "samples g (x # xs) = sample_of g x @ samples g xs" "samples g (xs @ ys) = samples g xs @ samples g ys"
  by (simp_all add: samples_def)

lemma sent_commands_simps [simp]:
  "sent_commands g [] = []" "sent_commands g (x # xs) = commands_of g x @ sent_commands g xs"
  "sent_commands g (xs @ ys) = sent_commands g xs @ sent_commands g ys"
  by (simp_all add: sent_commands_def)

lemma logged_commands:
  "samples g (rev (map (Command_sent h) cs)) = []" "sent_commands g (rev (map (Command_sent h) cs)) = (if h = g then rev cs else [])"
  by (induction cs) auto

lemma logged_cleanups:
  "samples g (rev (map (\<lambda>(k, (spec, sent)). Control_sent None a spec (l spec)) es)) = []"
  "sent_commands g (rev (map (\<lambda>(k, (spec, sent)). Control_sent None a spec (l spec)) es)) = []"
  by (induction es) auto

lemma streak_emit [simp]:
  "streak g (cn_emit (Feedback_sent g f) m) = (if full_sample (mf_reached f, mf_targets f) then Suc (streak g m) else 0)"
  by (simp add: streak_def cn_emit_def)

lemma set_job_frame [simp]:
  "cn_latest (set_job g p j m) = cn_latest m" "cn_sequence (set_job g p j m) = cn_sequence m"
  "cn_pending (set_job g p j m) = cn_pending m" "cn_occupied (set_job g p j m) = cn_occupied m"
  "cn_known (set_job g p j m) = cn_known m" "cn_offers (set_job g p j m) = cn_offers m"
  "cn_now (set_job g p j m) = cn_now m"
  "cn_exec (set_job g p j m) = (cn_exec m)(g \<mapsto> (p, j))" "cn_cancel_requested (set_job g p j m) = cn_cancel_requested m"
  "cn_end (set_job g p j m) = cn_end m" "cn_result (set_job g p j m) = cn_result m" "cn_log (set_job g p j m) = cn_log m"
  "cn_heard (set_job g p j m) = cn_heard m" "cn_started (set_job g p j m) = cn_started m"
  "streak h (set_job g p j m) = streak h m" "lease_granted (set_job g p j m) = lease_granted m"
  "start_settled (set_job g p j m) = start_settled m"
  by (simp_all add: set_job_def streak_def lease_granted_def start_settled_def heard_since_def fun_eq_iff)

lemma cn_emit_frame [simp]:
  "cn_latest (cn_emit out m) = cn_latest m" "cn_sequence (cn_emit out m) = cn_sequence m"
  "cn_pending (cn_emit out m) = cn_pending m" "cn_occupied (cn_emit out m) = cn_occupied m"
  "cn_known (cn_emit out m) = cn_known m" "cn_offers (cn_emit out m) = cn_offers m"
  "cn_now (cn_emit out m) = cn_now m"
  "cn_exec (cn_emit out m) = cn_exec m" "cn_cancel_requested (cn_emit out m) = cn_cancel_requested m"
  "cn_end (cn_emit out m) = cn_end m" "cn_result (cn_emit out m) = cn_result m" "cn_log (cn_emit out m) = out # cn_log m"
  "cn_heard (cn_emit out m) = cn_heard m" "cn_started (cn_emit out m) = cn_started m"
  "lease_granted (cn_emit out m) = lease_granted m" "start_settled (cn_emit out m) = start_settled m"
  by (simp_all add: cn_emit_def lease_granted_def start_settled_def heard_since_def fun_eq_iff)

lemma publish_commands_frame [simp]:
  "cn_latest (publish_commands g cs m) = cn_latest m" "cn_sequence (publish_commands g cs m) = cn_sequence m"
  "cn_pending (publish_commands g cs m) = cn_pending m" "cn_occupied (publish_commands g cs m) = cn_occupied m"
  "cn_known (publish_commands g cs m) = cn_known m" "cn_offers (publish_commands g cs m) = cn_offers m"
  "cn_now (publish_commands g cs m) = cn_now m"
  "cn_exec (publish_commands g cs m) = cn_exec m" "cn_cancel_requested (publish_commands g cs m) = cn_cancel_requested m"
  "cn_end (publish_commands g cs m) = cn_end m" "cn_result (publish_commands g cs m) = cn_result m"
  "cn_heard (publish_commands g cs m) = cn_heard m" "cn_started (publish_commands g cs m) = cn_started m"
  "lease_granted (publish_commands g cs m) = lease_granted m" "start_settled (publish_commands g cs m) = start_settled m"
  "samples h (cn_log (publish_commands g cs m)) = samples h (cn_log m)" "streak h (publish_commands g cs m) = streak h m"
  "sent_commands h (cn_log (publish_commands g cs m)) = (if h = g then rev cs else []) @ sent_commands h (cn_log m)"
  by (simp_all add: publish_commands_def lease_granted_def start_settled_def heard_since_def streak_def logged_commands fun_eq_iff)

lemma register_frame [simp]:
  "cn_latest (register_cleanup s m) = cn_latest m" "cn_sequence (register_cleanup s m) = cn_sequence m"
  "cn_occupied (register_cleanup s m) = cn_occupied m"
  "cn_known (register_cleanup s m) = cn_known m" "cn_offers (register_cleanup s m) = cn_offers m"
  "cn_now (register_cleanup s m) = cn_now m"
  "cn_exec (register_cleanup s m) = cn_exec m" "cn_cancel_requested (register_cleanup s m) = cn_cancel_requested m"
  "cn_end (register_cleanup s m) = cn_end m" "cn_result (register_cleanup s m) = cn_result m"
  "cn_heard (register_cleanup s m) = cn_heard m" "cn_started (register_cleanup s m) = cn_started m"
  "lease_granted (register_cleanup s m) = lease_granted m"
  "samples g (cn_log (register_cleanup s m)) = samples g (cn_log m)"
  "sent_commands g (cn_log (register_cleanup s m)) = sent_commands g (cn_log m)" "streak g (register_cleanup s m) = streak g m"
  by (simp_all add: register_cleanup_def lease_granted_def heard_since_def streak_def Let_def fun_eq_iff)

text \<open>Only the identity of a specification matters to what a task state says of it.\<close>

lemma same_identity:
  assumes "spec_identity s = spec_identity t"
  shows "is_terminal_task_state x s = is_terminal_task_state x t" "task_start_was_rejected x s = task_start_was_rejected x t"
    "active_task_lease x s = active_task_lease x t"
  using assms
  by (auto simp: spec_identity_def is_terminal_task_state_def terminal_task_status_def task_start_was_rejected_def
    active_task_lease_def task_state_has_identity_def last_is_start_of_def split: option.splits)

lemma register_settles:
  assumes "\<And>st. cn_latest m = Some st \<Longrightarrow> st \<in> set (cn_heard m)"
  shows "start_settled (register_cleanup spec m) spec n"
proof (cases "is_terminal_task_state (cn_latest m) spec")
  case True
  then obtain st where "cn_latest m = Some st" by (cases "cn_latest m") (auto simp: is_terminal_task_state_def terminal_task_status_def)
  with True assms show ?thesis by (auto simp: start_settled_def)
next
  case False
  then show ?thesis by (auto simp: start_settled_def register_cleanup_def Let_def AList.dom_update)
qed

lemma delete_dom: "fst ` set (AList.delete k al) = fst ` set al - {k}"
  using arg_cong [OF AList.delete_keys [of k al], of set] by simp

lemma settled_register:
  assumes "\<And>st. cn_latest m = Some st \<Longrightarrow> st \<in> set (cn_heard m)" "start_settled m s n"
  shows "start_settled (register_cleanup spec m) s n"
proof (cases "spec_identity s = spec_identity spec")
  case True
  from register_settles [OF assms(1), of spec n] show ?thesis
    using True same_identity [OF True] by (simp add: start_settled_def heard_since_def)
next
  case False
  then have "spec_identity s \<in> fst ` set (cn_pending m) \<Longrightarrow> spec_identity s \<in> fst ` set (cn_pending (register_cleanup spec m))"
    by (simp add: register_cleanup_def Let_def AList.dom_update delete_dom)
  with assms(2) show ?thesis by (auto simp: start_settled_def heard_since_def)
qed

lemma heard_since_more: "x \<in> heard_since m n \<Longrightarrow> cn_heard m' = st # cn_heard m \<Longrightarrow> x \<in> heard_since m' n"
  by (cases "n \<le> length (cn_heard m)") (auto simp: heard_since_def Suc_diff_le)

lemma newest_heard: "cn_heard m = st # hs \<Longrightarrow> n \<le> length hs \<Longrightarrow> st \<in> heard_since m n"
  by (simp add: heard_since_def Suc_diff_le)

section \<open>The invariant of a goal\<close>

definition has_lease :: "controller \<Rightarrow> goal_id \<Rightarrow> motion_job \<Rightarrow> bool" where
  "has_lease m g j \<longleftrightarrow> mj_lease j \<noteq> '''' \<and>
     (\<exists>spec n. mj_spec j = Some spec \<and> cn_started m g = Some (spec, n) \<and> lease_granted m spec n (mj_lease j))"

definition unmoved :: "controller \<Rightarrow> goal_id \<Rightarrow> bool" where
  "unmoved m g \<longleftrightarrow> samples g (cn_log m) = [] \<and> sent_commands g (cn_log m) = []"

definition has_moved :: "controller \<Rightarrow> goal_id \<Rightarrow> bool" where
  "has_moved m g \<longleftrightarrow> sent_commands g (cn_log m) \<noteq> []"

definition tracking :: "controller_config \<Rightarrow> controller \<Rightarrow> goal_id \<Rightarrow> motion_job \<Rightarrow> bool" where
  "tracking cf m g j \<longleftrightarrow> tr_consecutive (mj_tracker j) = streak g m \<and> int (tr_required (mj_tracker j)) = cf_stable_samples cf"

fun release_ok :: "controller_config \<Rightarrow> controller \<Rightarrow> goal_id \<Rightarrow> motion_job \<Rightarrow> release_why \<Rightarrow> bool" where
  "release_ok cf m g j Rel_finish \<longleftrightarrow> cf_stable_samples cf \<le> int (streak g m)"
| "release_ok cf m g j Rel_cancel_before \<longleftrightarrow> g \<in> cn_cancel_requested m \<and> \<not> has_moved m g"
| "release_ok cf m g j (Rel_reject r) \<longleftrightarrow> \<not> has_moved m g"
| "release_ok cf m g j (Rel_abort s r rec sent) \<longleftrightarrow> True"
| "release_ok cf m g j (Rel_cancel sent confirmed) \<longleftrightarrow> g \<in> cn_cancel_requested m"
| "release_ok cf m g j (Rel_error r) \<longleftrightarrow> (has_moved m g \<longrightarrow> mr_stop_requested (mj_result j))"

fun stop_ok :: "controller \<Rightarrow> goal_id \<Rightarrow> motion_job \<Rightarrow> stop_why \<Rightarrow> bool" where
  "stop_ok m g j (Stop_abort s r rec) \<longleftrightarrow> True"
| "stop_ok m g j Stop_cancel \<longleftrightarrow> g \<in> cn_cancel_requested m"
| "stop_ok m g j (Stop_error r) \<longleftrightarrow> mr_stop_requested (mj_result j)"

definition settled_goal :: "controller \<Rightarrow> goal_id \<Rightarrow> bool" where
  "settled_goal m g \<longleftrightarrow> (\<forall>spec n. cn_started m g = Some (spec, n) \<longrightarrow> n \<le> cn_sequence m \<and> start_settled m spec n)"

text \<open>Every command of the goal carries its task and a lease granted to it after its start.\<close>

definition commands_ok :: "controller \<Rightarrow> goal_id \<Rightarrow> bool" where
  "commands_ok m g \<longleftrightarrow> (\<forall>c \<in> set (sent_commands g (cn_log m)). \<exists>spec n. cn_started m g = Some (spec, n)
     \<and> mc_requester_id c = ms_task_id spec \<and> mc_lease_id c \<noteq> '''' \<and> lease_granted m spec n (mc_lease_id c))"

definition finish_heard :: "controller \<Rightarrow> goal_id \<Rightarrow> bool" where
  "finish_heard m g \<longleftrightarrow> (\<exists>spec n. cn_started m g = Some (spec, n)
     \<and> (\<exists>st \<in> heard_since m n. terminal_task_status (Some st) spec = ''finished''))"

definition result_ok :: "controller_config \<Rightarrow> controller \<Rightarrow> goal_id \<Rightarrow> motion_result \<Rightarrow> bool" where
  "result_ok cf m g r \<longleftrightarrow> settled_goal m g \<and> commands_ok m g
     \<and> (has_moved m g \<longrightarrow> mr_target_reached r \<or> mr_stop_requested r)
     \<and> (cn_end m g = Some End_canceled \<longrightarrow> g \<in> cn_cancel_requested m)
     \<and> (cn_end m g = Some End_succeeded \<longrightarrow> mr_success r \<and> mr_admission_released r
          \<and> cf_stable_samples cf \<le> int (streak g m) \<and> finish_heard m g)"

text \<open>At each point of the callback, beside what holds at all of them.\<close>

fun point_ok :: "controller_config \<Rightarrow> controller \<Rightarrow> goal_id \<Rightarrow> motion_job \<Rightarrow> motion_point \<Rightarrow> bool" where
  "point_ok cf m g j M_begin \<longleftrightarrow> mj_lease j = '''' \<and> unmoved m g \<and> cn_started m g = None"
| "point_ok cf m g j M_start \<longleftrightarrow> mj_lease j = '''' \<and> unmoved m g \<and> cn_started m g = None \<and> mj_spec j \<noteq> None"
| "point_ok cf m g j (M_publish_start s) \<longleftrightarrow> mj_lease j = '''' \<and> unmoved m g \<and> cn_started m g = None \<and> mj_spec j \<noteq> None
     \<and> s \<le> cn_sequence m"
| "point_ok cf m g j (M_lease s d) \<longleftrightarrow> mj_lease j = '''' \<and> unmoved m g \<and> mj_requested j
     \<and> (\<exists>spec. cn_started m g = Some (spec, s)) \<and> s \<le> cn_sequence m"
| "point_ok cf m g j (M_no_lease r c) \<longleftrightarrow> mj_lease j = '''' \<and> unmoved m g \<and> mj_requested j \<and> (\<not> c \<longrightarrow> settled_goal m g)"
| "point_ok cf m g j M_leased \<longleftrightarrow> has_lease m g j \<and> unmoved m g"
| "point_ok cf m g j M_commit \<longleftrightarrow> has_lease m g j \<and> unmoved m g \<and> mj_targets j = command_targets (mj_commands j)"
| "point_ok cf m g j M_poll \<longleftrightarrow> has_lease m g j \<and> tracking cf m g j"
| "point_ok cf m g j (M_read ids obs) \<longleftrightarrow> has_lease m g j \<and> tracking cf m g j"
| "point_ok cf m g j (M_evaluate obs) \<longleftrightarrow> has_lease m g j \<and> tracking cf m g j"
| "point_ok cf m g j (M_stop why) \<longleftrightarrow> has_lease m g j \<and> stop_ok m g j why"
| "point_ok cf m g j (M_confirm p t d) \<longleftrightarrow> has_lease m g j \<and> g \<in> cn_cancel_requested m"
| "point_ok cf m g j (M_confirm_read ids obs p t d) \<longleftrightarrow> has_lease m g j \<and> g \<in> cn_cancel_requested m"
| "point_ok cf m g j (M_release why) \<longleftrightarrow> has_lease m g j \<and> release_ok cf m g j why"
| "point_ok cf m g j (M_publish_release why s) \<longleftrightarrow> has_lease m g j \<and> release_ok cf m g j why"
| "point_ok cf m g j (M_terminal why s d) \<longleftrightarrow> has_lease m g j \<and> release_ok cf m g j why"
| "point_ok cf m g j (M_error r) \<longleftrightarrow> (has_moved m g \<longrightarrow> mr_stop_requested (mj_result j))"
| "point_ok cf m g j M_return \<longleftrightarrow> result_ok cf m g (mj_result j)"

definition goal_job_ok :: "controller_config \<Rightarrow> controller \<Rightarrow> goal_id \<Rightarrow> motion_point \<Rightarrow> motion_job \<Rightarrow> bool" where
  "goal_job_ok cf m g p j \<longleftrightarrow> cn_result m g = None \<and> (cn_end m g = None \<longleftrightarrow> p \<noteq> M_return)
     \<and> (mj_requested j \<longleftrightarrow> cn_started m g \<noteq> None)
     \<and> (\<forall>spec n. cn_started m g = Some (spec, n) \<longrightarrow> mj_spec j = Some spec \<and> n \<le> cn_sequence m)
     \<and> (mj_lease j \<noteq> '''' \<longrightarrow> has_lease m g j)
     \<and> (has_moved m g \<longrightarrow> mj_lease j \<noteq> '''' \<and> mj_targets j \<noteq> []) \<and> commands_ok m g
     \<and> (p \<noteq> M_return \<longrightarrow> \<not> mr_admission_released (mj_result j))
     \<and> point_ok cf m g j p"

text \<open>A goal not yet served, and one answered.\<close>

definition fresh_goal :: "controller \<Rightarrow> goal_id \<Rightarrow> bool" where
  "fresh_goal m g \<longleftrightarrow> cn_end m g = None \<and> cn_result m g = None \<and> cn_started m g = None \<and> unmoved m g
     \<and> g \<notin> cn_cancel_requested m"

definition goal_ok :: "controller_config \<Rightarrow> controller \<Rightarrow> goal_id \<Rightarrow> bool" where
  "goal_ok cf m g \<longleftrightarrow>
     (case cn_exec m g of
        Some (p, j) \<Rightarrow> goal_job_ok cf m g p j
      | None \<Rightarrow> fresh_goal m g \<or> cn_end m g \<noteq> None \<and> (\<exists>r. cn_result m g = Some r \<and> result_ok cf m g r))"

text \<open>What the node knows of task states and of the cleanups it still owes.\<close>

definition memory_ok :: "controller \<Rightarrow> bool" where
  "memory_ok m \<longleftrightarrow> cn_sequence m = length (cn_heard m)
     \<and> cn_latest m = (case cn_heard m of [] \<Rightarrow> None | st # _ \<Rightarrow> Some st)
     \<and> (\<forall>(k, e) \<in> set (cn_pending m). k = spec_identity (fst e)) \<and> distinct (map fst (cn_pending m))"

text \<open>The parts of the state a goal's invariant reads, and how they may change under it.\<close>

definition same_goal :: "goal_id \<Rightarrow> controller \<Rightarrow> controller \<Rightarrow> bool" where
  "same_goal g m m' \<longleftrightarrow> cn_exec m' g = cn_exec m g \<and> cn_end m' g = cn_end m g \<and> cn_result m' g = cn_result m g
     \<and> cn_started m' g = cn_started m g \<and> (g \<in> cn_cancel_requested m' \<longleftrightarrow> g \<in> cn_cancel_requested m)
     \<and> samples g (cn_log m') = samples g (cn_log m) \<and> sent_commands g (cn_log m') = sent_commands g (cn_log m)"

definition more_heard :: "controller \<Rightarrow> controller \<Rightarrow> bool" where
  "more_heard m m' \<longleftrightarrow> cn_sequence m \<le> cn_sequence m' \<and> (\<forall>n. heard_since m n \<subseteq> heard_since m' n)
     \<and> (\<forall>spec n. n \<le> cn_sequence m \<longrightarrow> start_settled m spec n \<longrightarrow> start_settled m' spec n)"

lemma more_heard_lease: "more_heard m m' \<Longrightarrow> lease_granted m spec n l \<Longrightarrow> lease_granted m' spec n l"
  by (auto simp: more_heard_def lease_granted_def)

lemma goal_ok_frame:
  assumes ok: "goal_ok cf m g" and same: "same_goal g m m'" and more: "more_heard m m'"
  shows "goal_ok cf m' g"
proof -
  have f: "cn_exec m' g = cn_exec m g" "cn_end m' g = cn_end m g" "cn_result m' g = cn_result m g"
     "cn_started m' g = cn_started m g" "(g \<in> cn_cancel_requested m') = (g \<in> cn_cancel_requested m)"
     "unmoved m' g = unmoved m g" "has_moved m' g = has_moved m g" "streak g m' = streak g m"
    using same by (simp_all add: same_goal_def unmoved_def has_moved_def streak_def)
  have l: "has_lease m g j \<Longrightarrow> has_lease m' g j" for j
    using more_heard_lease [OF more] f by (auto simp: has_lease_def)
  have s: "settled_goal m g \<Longrightarrow> settled_goal m' g" using more f by (auto simp: settled_goal_def more_heard_def intro: order_trans)
  have cs: "sent_commands g (cn_log m') = sent_commands g (cn_log m)" using same by (simp add: same_goal_def)
  have c: "commands_ok m g \<Longrightarrow> commands_ok m' g"
    using more_heard_lease [OF more] unfolding commands_ok_def cs f by blast
  have fin: "finish_heard m g \<Longrightarrow> finish_heard m' g" using more unfolding finish_heard_def f more_heard_def by blast
  have r: "result_ok cf m g r \<Longrightarrow> result_ok cf m' g r" for r using s c fin f by (auto simp: result_ok_def)
  have rel: "release_ok cf m g j w \<Longrightarrow> release_ok cf m' g j w" for j w using f by (cases w) auto
  have st: "stop_ok m g j w \<Longrightarrow> stop_ok m' g j w" for j w using f by (cases w) auto
  have sq: "cn_sequence m \<le> cn_sequence m'" using more by (simp add: more_heard_def)
  have p: "point_ok cf m g j p \<Longrightarrow> point_ok cf m' g j p" for j p
    using f l s r rel st sq by (cases p) (auto simp: tracking_def)
  have j: "goal_job_ok cf m g p j \<Longrightarrow> goal_job_ok cf m' g p j" for j p
    unfolding goal_job_ok_def using f l p sq c by (auto intro: order_trans)
  show ?thesis using ok f r j
    by (auto simp: goal_ok_def fresh_goal_def split: option.splits prod.splits)
qed

definition controller_ok :: "controller_config \<Rightarrow> controller \<Rightarrow> bool" where
  "controller_ok cf m \<longleftrightarrow> memory_ok m \<and> (\<forall>g. goal_ok cf m g)
     \<and> (\<forall>g h. cn_exec m g \<noteq> None \<longrightarrow> cn_exec m h \<noteq> None \<longrightarrow> g = h)
     \<and> (cn_occupied m \<longleftrightarrow> (\<exists>g. cn_exec m g \<noteq> None))
     \<and> (\<forall>g. g \<notin> cn_known m \<or> cn_offers m g \<noteq> None \<longrightarrow> cn_exec m g = None \<and> fresh_goal m g)
     \<and> (\<forall>g. cn_offers m g \<noteq> None \<longrightarrow> g \<in> cn_known m)"

section \<open>Sections keep the invariant\<close>

definition section_frame :: "goal_id \<Rightarrow> controller \<Rightarrow> controller \<Rightarrow> bool" where
  "section_frame g m m' \<longleftrightarrow> cn_heard m' = cn_heard m \<and> cn_latest m' = cn_latest m \<and> cn_sequence m' = cn_sequence m
     \<and> cn_known m' = cn_known m \<and> cn_offers m' = cn_offers m
     \<and> (\<forall>h. h \<noteq> g \<longrightarrow> same_goal h m m') \<and> (\<forall>spec n. start_settled m spec n \<longrightarrow> start_settled m' spec n) \<and> memory_ok m'"

definition progress :: "controller_config \<Rightarrow> goal_id \<Rightarrow> controller \<Rightarrow> controller \<Rightarrow> bool" where
  "progress cf g m m' \<longleftrightarrow> section_frame g m m' \<and> cn_occupied m' = cn_occupied m
     \<and> (\<exists>p j. cn_exec m' g = Some (p, j) \<and> goal_job_ok cf m' g p j)"

lemma update_frame [simp]:
  "lease_granted (m\<lparr>cn_end := e\<rparr>) = lease_granted m" "lease_granted (m\<lparr>cn_started := s\<rparr>) = lease_granted m"
  "start_settled (m\<lparr>cn_end := e\<rparr>) = start_settled m" "start_settled (m\<lparr>cn_started := s\<rparr>) = start_settled m"
  "streak g (m\<lparr>cn_end := e\<rparr>) = streak g m" "streak g (m\<lparr>cn_started := s\<rparr>) = streak g m"
  by (simp_all add: lease_granted_def start_settled_def heard_since_def streak_def fun_eq_iff)

lemma latest_heard: "memory_ok m \<Longrightarrow> cn_latest m = Some st \<Longrightarrow> st \<in> set (cn_heard m)"
  by (auto simp: memory_ok_def split: list.splits)

lemma memory_ok_set_job [simp]: "memory_ok (set_job g p j m) = memory_ok m" "memory_ok (cn_emit out m) = memory_ok m"
  "memory_ok (m\<lparr>cn_end := e\<rparr>) = memory_ok m" "memory_ok (m\<lparr>cn_started := s\<rparr>) = memory_ok m"
  "memory_ok (publish_commands g cs m) = memory_ok m"
  by (simp_all add: memory_ok_def)

lemma update_set: "set (AList.update k v al) \<subseteq> insert (k, v) (set al)"
  by (induction al) auto

lemma delete_set: "set (AList.delete k al) \<subseteq> set al"
  by (simp add: AList.delete_eq)

lemma memory_ok_register: "memory_ok m \<Longrightarrow> memory_ok (register_cleanup spec m)"
  using update_set [of "spec_identity spec" _ "cn_pending m"] delete_set [of "spec_identity spec" "cn_pending m"]
  by (fastforce simp: memory_ok_def register_cleanup_def Let_def cn_emit_def AList.distinct_update AList.distinct_delete)

text \<open>How the building blocks of a section touch the other goals: not at all.\<close>

lemma frame_refl: "memory_ok m \<Longrightarrow> section_frame g m m"
  by (simp add: section_frame_def same_goal_def)

lemma frame_set_job [inv_rules]: "section_frame g m m1 \<Longrightarrow> section_frame g m (set_job g p j m1)"
  by (simp add: section_frame_def same_goal_def)

lemma frame_end [inv_rules]: "section_frame g m m1 \<Longrightarrow> section_frame g m (m1\<lparr>cn_end := (cn_end m1)(g \<mapsto> e)\<rparr>)"
  by (simp add: section_frame_def same_goal_def)

lemma frame_started [inv_rules]: "section_frame g m m1 \<Longrightarrow> section_frame g m (m1\<lparr>cn_started := (cn_started m1)(g \<mapsto> e)\<rparr>)"
  by (simp add: section_frame_def same_goal_def)

lemma frame_emit [inv_rules]:
  "section_frame g m m1 \<Longrightarrow> section_frame g m (cn_emit (Control_sent r a s l) m1)"
  "section_frame g m m1 \<Longrightarrow> section_frame g m (cn_emit (Feedback_sent g f) m1)"
  "section_frame g m m1 \<Longrightarrow> section_frame g m (cn_emit (Read_requested g i) m1)"
  "section_frame g m m1 \<Longrightarrow> section_frame g m (cn_emit (Stop_requested g ids) m1)"
  by (simp_all add: section_frame_def same_goal_def)

lemma frame_publish [inv_rules]: "section_frame g m m1 \<Longrightarrow> section_frame g m (publish_commands g cs m1)"
  by (simp add: section_frame_def same_goal_def)

lemma frame_log_read [inv_rules]: "section_frame g m m1 \<Longrightarrow> section_frame g m (log_read g i a m1)"
  by (simp add: log_read_def frame_emit)

lemma frame_register [inv_rules]: "section_frame g m m1 \<Longrightarrow> section_frame g m (register_cleanup s m1)"
  using settled_register [of m1] latest_heard [of m1] memory_ok_register [of m1 s]
  by (simp add: section_frame_def same_goal_def)

text \<open>The job that a section leaves behind.\<close>

lemma progressI:
  assumes "section_frame g m m'" "cn_occupied m' = cn_occupied m" "cn_exec m' g = Some (p, j)" "goal_job_ok cf m' g p j"
  shows "progress cf g m m'"
  using assms by (auto simp: progress_def)

lemma set_job_progress:
  assumes "section_frame g m m1" "cn_occupied m1 = cn_occupied m" "goal_job_ok cf (set_job g p j m1) g p j"
  shows "progress cf g m (set_job g p j m1)"
  by (rule progressI) (use assms in \<open>auto intro: inv_rules\<close>)

lemmas goal_defs = has_lease_def unmoved_def has_moved_def tracking_def settled_goal_def result_ok_def

lemma job_ok_memory: "goal_job_ok cf m g p j \<Longrightarrow> progress cf g m m' \<Longrightarrow> memory_ok m'"
  by (simp add: progress_def section_frame_def)

lemma set_job_more [simp]: "commands_ok (set_job g p j m) = commands_ok m" "finish_heard (set_job g p j m) = finish_heard m"
  "commands_ok (m\<lparr>cn_end := e\<rparr>) = commands_ok m" "finish_heard (m\<lparr>cn_end := e\<rparr>) = finish_heard m"
  "commands_ok (register_cleanup s m) = commands_ok m" "finish_heard (register_cleanup s m) = finish_heard m"
  by (simp_all add: commands_ok_def finish_heard_def heard_since_def fun_eq_iff)

text \<open>Ending a goal.\<close>

lemma return_progress:
  assumes "section_frame g m m1" "cn_occupied m1 = cn_occupied m" "cn_result m1 g = None"
    "mj_requested j \<longleftrightarrow> cn_started m1 g \<noteq> None" "\<And>spec n. cn_started m1 g = Some (spec, n) \<Longrightarrow> mj_spec j = Some spec \<and> n \<le> cn_sequence m1"
    "mj_lease j \<noteq> '''' \<Longrightarrow> has_lease m1 g j" "has_moved m1 g \<Longrightarrow> mj_lease j \<noteq> '''' \<and> mj_targets j \<noteq> []"
    "commands_ok m1 g"
    "settled_goal m1 g" "has_moved m1 g \<Longrightarrow> mr_target_reached (mj_result j) \<or> mr_stop_requested (mj_result j)"
    "e = End_canceled \<Longrightarrow> g \<in> cn_cancel_requested m1"
    "e = End_succeeded \<Longrightarrow> mr_success (mj_result j) \<and> mr_admission_released (mj_result j)
       \<and> cf_stable_samples cf \<le> int (streak g m1) \<and> finish_heard m1 g"
  shows "progress cf g m (motion_return g e j status reason recoverable m1)"
  unfolding motion_return_def
  by (rule set_job_progress) (use assms in \<open>auto intro: inv_rules simp: goal_job_ok_def goal_defs\<close>)

lemma settled_goal_register:
  "memory_ok m \<Longrightarrow> (\<And>spec' n. cn_started m g = Some (spec', n) \<Longrightarrow> spec' = spec \<and> n \<le> cn_sequence m) \<Longrightarrow> settled_goal (register_cleanup spec m) g"
  using register_settles [OF latest_heard] by (fastforce simp: settled_goal_def)

lemma settled_unrequested: "cn_started m g = None \<Longrightarrow> settled_goal m g"
  by (simp add: settled_goal_def)

lemma has_lease_register [simp]:
  "has_lease (register_cleanup s m) = has_lease m" "has_moved (register_cleanup s m) = has_moved m"
  by (simp_all add: has_lease_def has_moved_def fun_eq_iff)

lemma frame_memory: "section_frame g m m1 \<Longrightarrow> memory_ok m1"
  by (simp add: section_frame_def)

lemma register_occupied [simp]: "cn_occupied (register_cleanup s m) = cn_occupied m"
  by (simp add: register_cleanup_def Let_def)

text \<open>A goal ends with its start settled, or settles it by registering the cleanup.\<close>

lemma ending_progress:
  assumes ok: "goal_job_ok cf m g p j" "memory_ok m"
    and m1: "m1 = m \<and> settled_goal m g \<or> m1 = register_cleanup spec m \<and> mj_spec j = Some spec"
    and r: "has_moved m g \<Longrightarrow> mr_target_reached r \<or> mr_stop_requested r"
      "e = End_canceled \<Longrightarrow> g \<in> cn_cancel_requested m" "e = End_succeeded \<Longrightarrow> mr_success r \<and> mr_admission_released r
        \<and> cf_stable_samples cf \<le> int (streak g m) \<and> finish_heard m g"
  shows "progress cf g m (motion_return g e (j\<lparr>mj_result := r\<rparr>) s reason rec m1)"
proof (rule return_progress)
  have sp: "cn_started m g = Some (spec', n) \<Longrightarrow> mj_spec j = Some spec' \<and> n \<le> cn_sequence m" for spec' n using ok by (simp add: goal_job_ok_def)
  have reg: "settled_goal (register_cleanup spec m) g" if "mj_spec j = Some spec"
    by (rule settled_goal_register) (use ok(2) sp that in auto)
  show "section_frame g m m1" using m1 frame_refl [OF ok(2)] by (auto intro: frame_register)
  show "settled_goal m1 g" using m1 reg by auto
  have l: "has_lease m g (j\<lparr>mj_result := r\<rparr>) = has_lease m g j" by (simp add: has_lease_def)
  show "mj_lease (j\<lparr>mj_result := r\<rparr>) \<noteq> '''' \<Longrightarrow> has_lease m1 g (j\<lparr>mj_result := r\<rparr>)"
    using m1 ok l by (auto simp: goal_job_ok_def)
qed (use m1 ok r in \<open>auto simp: goal_job_ok_def\<close>)

lemma latest_settles:
  assumes "memory_ok m" "is_terminal_task_state (cn_latest m) spec"
  shows "start_settled m spec n"
proof -
  obtain st where "cn_latest m = Some st"
    using assms(2) by (cases "cn_latest m") (auto simp: is_terminal_task_state_def terminal_task_status_def)
  with assms latest_heard [OF assms(1)] show ?thesis by (auto simp: start_settled_def)
qed

lemma settled_goal_latest:
  assumes "memory_ok m" "is_terminal_task_state (cn_latest m) spec" "goal_job_ok cf m g p j" "mj_spec j = Some spec"
  shows "settled_goal m g"
  using latest_settles [OF assms(1,2)] assms(3,4) by (auto simp: settled_goal_def goal_job_ok_def)

lemma error_return_progress:
  assumes ok: "goal_job_ok cf m g p j" "memory_ok m"
    and stop: "has_moved m g \<Longrightarrow> mr_stop_requested (mj_result j)"
    and rel: "mr_admission_released r \<Longrightarrow> settled_goal m g" and r: "r = mj_result j\<lparr>mr_admission_released := a\<rparr>"
  shows "progress cf g m (error_return g reason (j\<lparr>mj_result := r\<rparr>) m)"
proof -
  have unst: "settled_goal m g" if "mj_spec j = None \<or> \<not> mj_requested j"
    using ok that by (cases "cn_started m g") (auto simp: settled_goal_def goal_job_ok_def)
  have s: "has_moved m g \<Longrightarrow> mr_stop_requested r" using stop r by simp
  show ?thesis
  proof (cases "mj_spec j")
    case None
    then show ?thesis unfolding error_return_def
      by (simp, intro ending_progress [OF ok]) (use unst s in auto)
  next
    case (Some spec)
    show ?thesis
    proof (cases "mj_requested j \<and> \<not> mr_admission_released r")
      case True
      with Some show ?thesis unfolding error_return_def
        by (simp, intro ending_progress [OF ok, where spec = spec]) (use s in auto)
    next
      case False
      with Some show ?thesis unfolding error_return_def
        by (simp, intro impI conjI ending_progress [OF ok]) (use s unst rel in auto)
    qed
  qed
qed

lemma heard_latest_since:
  assumes "memory_ok m" "n < cn_sequence m" "cn_latest m = Some st"
  shows "st \<in> heard_since m n"
  using assms by (cases "cn_heard m") (auto simp: memory_ok_def intro: newest_heard)

lemma leased_finish:
  assumes "memory_ok m" "has_lease m g j" "mj_spec j = Some spec" "terminal_task_status (cn_latest m) spec = ''finished''"
  shows "finish_heard m g"
proof -
  from assms(2,3) obtain n st where n: "cn_started m g = Some (spec, n)" and "st \<in> heard_since m n"
    by (auto simp: has_lease_def lease_granted_def)
  then have "n < cn_sequence m" using assms(1) by (cases "n < length (cn_heard m)") (auto simp: heard_since_def memory_ok_def)
  moreover obtain s where "cn_latest m = Some s" using assms(4) by (cases "cn_latest m") (auto simp: terminal_task_status_def)
  ultimately show ?thesis using n assms(4) heard_latest_since [OF assms(1)] by (auto simp: finish_heard_def)
qed

lemma release_return_progress:
  assumes ok: "goal_job_ok cf m g p j" "memory_ok m" and sp: "mj_spec j = Some spec" and why: "release_ok cf m g j why" "has_lease m g j"
    and status: "status \<noteq> '''' \<Longrightarrow> terminal_task_status (cn_latest m) spec = status"
  shows "progress cf g m (release_return g why status spec j m)"
proof -
  have over: "settled_goal m g" if "status \<noteq> ''''"
    by (rule settled_goal_latest [OF ok(2) _ ok(1) sp]) (use status that in \<open>simp add: is_terminal_task_state_def\<close>)
  note e = ending_progress [OF ok, where spec = spec]
  show ?thesis
  proof (cases why)
    case Rel_finish
    then show ?thesis using why leased_finish [OF ok(2) why(2) sp] status
      by (cases "status = ''finished''") (auto intro!: e simp: return_defs sp over Let_def)
  next
    case Rel_cancel_before
    then show ?thesis using why by (auto intro!: e simp: return_defs sp over)
  next
    case (Rel_reject r)
    then show ?thesis using why by (auto intro!: e simp: return_defs sp over)
  next
    case (Rel_abort s r rec sent)
    then show ?thesis using why by (auto intro!: e simp: return_defs sp over)
  next
    case (Rel_cancel sent confirmed)
    then show ?thesis using why by (auto intro!: e simp: return_defs sp over)
  next
    case (Rel_error r)
    then show ?thesis using why
      by (simp, intro error_return_progress [OF ok]) (use over in auto)
  qed
qed

text \<open>What holds of a job at every point before its end.\<close>

definition live_job :: "controller \<Rightarrow> goal_id \<Rightarrow> motion_job \<Rightarrow> bool" where
  "live_job m g j \<longleftrightarrow> cn_result m g = None \<and> cn_end m g = None
     \<and> (mj_requested j \<longleftrightarrow> cn_started m g \<noteq> None)
     \<and> (\<forall>spec n. cn_started m g = Some (spec, n) \<longrightarrow> mj_spec j = Some spec \<and> n \<le> cn_sequence m)
     \<and> (mj_lease j \<noteq> '''' \<longrightarrow> has_lease m g j)
     \<and> (has_moved m g \<longrightarrow> mj_lease j \<noteq> '''' \<and> mj_targets j \<noteq> []) \<and> commands_ok m g \<and> \<not> mr_admission_released (mj_result j)"

lemma job_ok_live: "p \<noteq> M_return \<Longrightarrow> goal_job_ok cf m g p j \<longleftrightarrow> live_job m g j \<and> point_ok cf m g j p"
  by (auto simp: goal_job_ok_def live_job_def)

lemma set_job_ok [simp]:
  "has_lease (set_job g p j m) = has_lease m" "has_moved (set_job g p j m) = has_moved m" "unmoved (set_job g p j m) = unmoved m"
  "tracking cf (set_job g p j m) = tracking cf m" "settled_goal (set_job g p j m) = settled_goal m"
  by (simp_all add: goal_defs fun_eq_iff)

lemma set_job_live [simp]: "live_job (set_job g p j m) = live_job m" "release_ok cf (set_job g p j m) = release_ok cf m"
  "stop_ok (set_job g p j m) = stop_ok m"
proof -
  have "release_ok cf (set_job g p j m) h k w = release_ok cf m h k w" for h k w by (cases w) auto
  then show "release_ok cf (set_job g p j m) = release_ok cf m" by (intro ext)
  have "stop_ok (set_job g p j m) h k w = stop_ok m h k w" for h k w by (cases w) auto
  then show "stop_ok (set_job g p j m) = stop_ok m" by (intro ext)
qed (simp add: live_job_def fun_eq_iff)

lemma set_job_point [simp]: "point_ok cf (set_job g p j m) h k q = point_ok cf m h k q"
  by (cases q) (simp_all add: result_ok_def)

lemma to_point:
  assumes "section_frame g m m1" "cn_occupied m1 = cn_occupied m" "live_job m1 g j" "p \<noteq> M_return" "point_ok cf m1 g j p"
  shows "progress cf g m (set_job g p j m1)"
  by (rule set_job_progress) (use assms in \<open>auto simp: job_ok_live\<close>)

text \<open>Logging what is neither a command nor a feedback sample changes nothing of a job.\<close>

fun quiet_output :: "controller_output \<Rightarrow> bool" where
  "quiet_output (Command_sent h c) = False"
| "quiet_output (Feedback_sent h f) = False"
| "quiet_output _ = True"

lemma quiet_nothing: "quiet_output out \<Longrightarrow> sample_of h out = []" "quiet_output out \<Longrightarrow> commands_of h out = []"
  by (cases out; simp)+

lemma emit_quiet [simp]:
  assumes "quiet_output out"
  shows "has_lease (cn_emit out m) = has_lease m" "has_moved (cn_emit out m) = has_moved m" "unmoved (cn_emit out m) = unmoved m"
    "tracking cf (cn_emit out m) = tracking cf m" "streak g (cn_emit out m) = streak g m" "commands_ok (cn_emit out m) = commands_ok m"
  using assms by (simp_all add: goal_defs streak_def commands_ok_def quiet_nothing fun_eq_iff)

lemma emit_feedback [simp]:
  "has_lease (cn_emit (Feedback_sent h f) m) = has_lease m" "has_moved (cn_emit (Feedback_sent h f) m) = has_moved m"
  "commands_ok (cn_emit (Feedback_sent h f) m) = commands_ok m"
  by (simp_all add: goal_defs commands_ok_def fun_eq_iff)

lemma live_emit [simp]: "quiet_output out \<Longrightarrow> live_job (cn_emit out m) = live_job m" "live_job (cn_emit (Feedback_sent h f) m) = live_job m"
  by (simp_all add: live_job_def fun_eq_iff)

lemma log_read_frame [simp]:
  "live_job (log_read g i a m) = live_job m" "has_lease (log_read g i a m) = has_lease m"
  "tracking cf (log_read g i a m) = tracking cf m" "cn_occupied (log_read g i a m) = cn_occupied m"
  "cn_cancel_requested (log_read g i a m) = cn_cancel_requested m"
  by (simp_all add: log_read_def)

lemma error_progress:
  assumes "section_frame g m m1" "cn_occupied m1 = cn_occupied m" "live_job m1 g j"
  shows "progress cf g m (motion_error g why j m1)"
proof -
  define r where "r = (mj_result j)\<lparr>mr_stop_requested := mj_lease j \<noteq> '''' \<and> mj_targets j \<noteq> []\<rparr>"
  have l: "live_job m1 g (j\<lparr>mj_result := r\<rparr>)" "has_lease m1 g (j\<lparr>mj_result := r\<rparr>) = has_lease m1 g j"
    using assms(3) by (auto simp: live_job_def has_lease_def r_def)
  show ?thesis unfolding motion_error_def Let_def r_def [symmetric]
    by (rule to_point [OF assms(1,2) l(1)]) (use assms(3) l in \<open>auto simp: live_job_def r_def\<close>)
qed

lemma return_fresh:
  assumes ok: "live_job m g j" "memory_ok m" "cn_started m g = None" "unmoved m g"
  shows "progress cf g m (motion_return g End_aborted j s r rec m)"
  by (rule return_progress [OF frame_refl [OF ok(2)]]) (use ok in \<open>auto simp: live_job_def goal_defs\<close>)

lemma begin_progress:
  assumes ok: "live_job m g j" "memory_ok m" and p: "mj_lease j = ''''" "unmoved m g" "cn_started m g = None"
  shows "progress cf g m (motion_begin cf g j m)"
proof -
  have l: "live_job m g (j\<lparr>mj_spec := Some s\<rparr>)" "live_job m g (j\<lparr>mj_spec := Some s, mj_commands := cs\<rparr>)" for s cs
    using ok p by (auto simp: live_job_def has_lease_def)
  note r = return_fresh [OF _ ok(2) p(3,2)] and e = error_progress [OF frame_refl [OF ok(2)] refl]
  note t = to_point [OF frame_refl [OF ok(2)] refl]
  show ?thesis
    using ok p l by (auto simp: motion_begin_def Let_def split: sum.split py_error.split intro!: r e t)
qed

lemma rejected_settles:
  assumes "memory_ok m" "n < cn_sequence m" "task_start_was_rejected (cn_latest m) spec"
  shows "start_settled m spec n"
proof -
  obtain st where "cn_latest m = Some st" using assms(3) by (cases "cn_latest m") (auto simp: task_start_was_rejected_def)
  with heard_latest_since [OF assms(1,2)] assms(3) show ?thesis by (auto simp: start_settled_def)
qed

lemma accepted_grants:
  assumes "memory_ok m" "n < cn_sequence m" "task_start_was_accepted (cn_latest m) spec"
  shows "lease_granted m spec n (active_task_lease (cn_latest m) spec)" "active_task_lease (cn_latest m) spec \<noteq> ''''"
proof -
  obtain st where st: "cn_latest m = Some st" using assms(3) by (cases "cn_latest m") (auto simp: task_start_was_accepted_def)
  with heard_latest_since [OF assms(1,2)] assms(3)
  show "lease_granted m spec n (active_task_lease (cn_latest m) spec)" by (auto simp: lease_granted_def)
  show "active_task_lease (cn_latest m) spec \<noteq> ''''"
    using assms(3) st by (auto simp: task_start_was_accepted_def active_task_lease_def)
qed

lemma lease_progress:
  assumes ok: "live_job m g j" "memory_ok m" and p: "point_ok cf m g j (M_lease s d)" and sp: "mj_spec j = Some spec"
  shows "progress cf g m (motion_lease g s d spec j m)"
proof -
  have st: "cn_started m g = Some (spec, s)" using ok p sp by (auto simp: live_job_def)
  note t = to_point [OF frame_refl [OF ok(2)] refl]
  show ?thesis
  proof (cases "s < cn_sequence m \<and> task_start_was_accepted (cn_latest m) spec")
    case True
    note g = accepted_grants [OF ok(2) conjunct1 [OF True] conjunct2 [OF True]]
    have h: "has_lease m g (j\<lparr>mj_lease := active_task_lease (cn_latest m) spec\<rparr>)" using g st sp by (auto simp: has_lease_def)
    then have "live_job m g (j\<lparr>mj_lease := active_task_lease (cn_latest m) spec\<rparr>)"
      using ok p by (auto simp: live_job_def goal_defs)
    with h ok p st show ?thesis
      by (auto simp: motion_lease_def settled_goal_def rejected_settles [OF ok(2)] intro!: t)
  next
    case False
    with ok p st show ?thesis
      by (auto simp: motion_lease_def settled_goal_def rejected_settles [OF ok(2)] intro!: t)
  qed
qed

lemma publish_start_progress:
  assumes ok: "live_job m g j" "memory_ok m" and p: "point_ok cf m g j (M_publish_start s)" and sp: "mj_spec j = Some spec"
  shows "progress cf g m (motion_publish_start cf g s spec j m)"
  unfolding motion_publish_start_def
  by (rule to_point) (use ok p sp in \<open>auto intro!: inv_rules frame_refl simp: live_job_def goal_defs commands_ok_def\<close>)

lemma no_lease_progress:
  assumes ok: "live_job m g j" "memory_ok m" and p: "point_ok cf m g j (M_no_lease r c)" and sp: "mj_spec j = Some spec"
  shows "progress cf g m (motion_no_lease g r c spec j m)"
proof -
  have jo: "goal_job_ok cf m g (M_no_lease r c) j" using ok p by (simp add: job_ok_live)
  have "progress cf g m (motion_return g e (j\<lparr>mj_result := mj_result j\<rparr>) s r True (if c then register_cleanup spec m else m))"
    if "e = End_aborted \<or> e = End_canceled \<and> g \<in> cn_cancel_requested m" for e s
    by (rule ending_progress [OF jo ok(2), where spec = spec]) (use p sp that in \<open>auto simp: unmoved_def has_moved_def\<close>)
  then show ?thesis by (simp add: motion_no_lease_def Let_def)
qed

lemma leased_progress:
  assumes ok: "live_job m g j" "memory_ok m" and p: "has_lease m g j" "unmoved m g"
  shows "progress cf g m (motion_leased g j m)"
proof -
  have l: "live_job m g (j\<lparr>mj_targets := ts\<rparr>)" "has_lease m g (j\<lparr>mj_targets := ts\<rparr>)" for ts
    using ok p by (auto simp: live_job_def goal_defs)
  with ok p show ?thesis
    by (auto simp: motion_leased_def has_moved_def unmoved_def intro!: to_point [OF frame_refl [OF ok(2)] refl])
qed

lemma command_targets_empty [simp]: "command_targets cs = [] \<longleftrightarrow> cs = []"
proof (cases cs rule: rev_cases)
  case (snoc ds d)
  then show ?thesis by (simp add: command_targets_def)
qed (simp add: command_targets_def)

lemma live_publish:
  assumes live: "live_job m g j" and lease: "has_lease m g j" and t: "cs \<noteq> [] \<Longrightarrow> mj_targets j \<noteq> []" and sp: "mj_spec j = Some spec"
    and cs: "\<And>c. c \<in> set cs \<Longrightarrow> mc_requester_id c = ms_task_id spec \<and> mc_lease_id c = mj_lease j"
  shows "live_job (publish_commands g cs m) g j"
proof -
  have lz: "mj_lease j \<noteq> []" using lease by (simp add: has_lease_def)
  obtain n where n: "cn_started m g = Some (spec, n)" "lease_granted m spec n (mj_lease j)"
    using lease sp by (auto simp: has_lease_def)
  have old: "commands_ok m g" using live by (simp add: live_job_def)
  have "commands_ok (publish_commands g cs m) g"
    unfolding commands_ok_def
  proof
    fix c assume "c \<in> set (sent_commands g (cn_log (publish_commands g cs m)))"
    then consider "c \<in> set cs" | "c \<in> set (sent_commands g (cn_log m))" by auto
    then show "\<exists>spec n. cn_started (publish_commands g cs m) g = Some (spec, n) \<and> mc_requester_id c = ms_task_id spec
      \<and> mc_lease_id c \<noteq> [] \<and> lease_granted (publish_commands g cs m) spec n (mc_lease_id c)"
    proof cases
      case 1
      then show ?thesis using cs [OF 1] n lz by simp
    next
      case 2
      then show ?thesis using old by (simp add: commands_ok_def)
    qed
  qed
  moreover have "has_lease (publish_commands g cs m) = has_lease m" by (simp add: has_lease_def fun_eq_iff)
  moreover have "has_moved (publish_commands g cs m) g \<Longrightarrow> mj_targets j \<noteq> []"
    using live t by (cases "cs = []") (simp_all add: live_job_def has_moved_def)
  ultimately show ?thesis using live lz unfolding live_job_def by simp
qed

lemma commit_progress:
  assumes ok: "live_job m g j" "memory_ok m" and p: "point_ok cf m g j M_commit" and sp: "mj_spec j = Some spec"
    and sam: "0 < cf_stable_samples cf"
  shows "progress cf g m (motion_commit cf g i spec j m)"
proof -
  define cmds where "cmds = map (\<lambda>c. build_execution_command c (ms_task_id spec) (mj_lease j)) (mj_commands j)"
  define pub where "pub = (case i of MI_partial k _ \<Rightarrow> take k cmds | _ \<Rightarrow> cmds)"
  define j1 where "j1 = j\<lparr>mj_issued := cn_now m, mj_last_keepalive := cn_now m\<rparr>"
  have pl: "has_lease m g j" and tg: "mj_targets j = [] \<longleftrightarrow> mj_commands j = []" using p by simp_all
  have pub: "pub \<noteq> [] \<Longrightarrow> mj_targets j \<noteq> []" by (auto simp: tg pub_def cmds_def split: motion_input.splits)
  have auth: "mc_requester_id c = ms_task_id spec \<and> mc_lease_id c = mj_lease j" if "c \<in> set pub" for c
  proof -
    have "c \<in> set cmds" using that by (auto simp: pub_def split: motion_input.splits dest: in_set_takeD)
    then show ?thesis by (auto simp: cmds_def build_execution_command_def)
  qed
  have lj: "live_job (publish_commands g pub m) g j1" "has_lease m g j1"
  proof -
    have j1: "live_job m g j1" "has_lease m g j1" using ok pl by (auto simp: live_job_def goal_defs j1_def)
    show "live_job (publish_commands g pub m) g j1" by (rule live_publish [OF j1]) (use pub auth sp in \<open>simp_all add: j1_def\<close>)
    show "has_lease m g j1" by (rule j1)
  qed
  have err: "progress cf g m (motion_error g why j1 (publish_commands g pub m))" for why
    by (rule error_progress) (use ok lj in \<open>auto intro!: inv_rules frame_refl\<close>)
  have err': "progress cf g m (motion_error g why j (publish_commands g pub m))" for why
    by (rule error_progress) (use ok pl pub sp auth in \<open>auto intro!: inv_rules frame_refl live_publish [where spec = spec]\<close>)
  have run: "progress cf g m (set_job g M_poll (j1\<lparr>mj_tracker := tr\<rparr>) (publish_commands g pub m))"
    if "tracker_init (cf_stable_samples cf) = Inr tr" for tr
  proof (rule to_point)
    show "live_job (publish_commands g pub m) g (j1\<lparr>mj_tracker := tr\<rparr>)" using lj by (auto simp: live_job_def goal_defs)
    show "point_ok cf (publish_commands g pub m) g (j1\<lparr>mj_tracker := tr\<rparr>) M_poll"
      using that sam lj p by (auto simp: tracker_init_def goal_defs streak_def split: if_splits)
  qed (use ok in \<open>auto intro!: inv_rules frame_refl\<close>)
  have rej: "progress cf g m (set_job g (M_release (Rel_reject r)) j m)" for r
    by (rule to_point) (use ok p in \<open>auto intro!: frame_refl simp: goal_defs\<close>)
  show ?thesis
    using err err' run rej
    unfolding motion_commit_def cmds_def [symmetric] pub_def [symmetric] j1_def [symmetric] Let_def commit_if_accepted_def
    by (auto split: motion_input.split sum.split)
qed

lemma cancel_progress:
  assumes ok: "live_job m g j" "section_frame g m0 m" "cn_occupied m = cn_occupied m0" and p: "has_lease m g j" "g \<in> cn_cancel_requested m"
  shows "progress cf g m0 (motion_cancel g spec j m)"
  unfolding motion_cancel_def by (rule to_point) (use ok p in \<open>auto intro!: inv_rules\<close>)

lemma poll_progress:
  assumes ok: "live_job m g j" "memory_ok m" and p: "has_lease m g j" "tracking cf m g j"
  shows "progress cf g m (motion_poll cf g spec j m)"
proof -
  have l: "live_job m g (j\<lparr>mj_last_keepalive := t\<rparr>)" "has_lease m g (j\<lparr>mj_last_keepalive := t\<rparr>)"
    "tracking cf m g (j\<lparr>mj_last_keepalive := t\<rparr>)" for t
    using ok p by (auto simp: live_job_def goal_defs)
  show ?thesis using ok p l unfolding motion_poll_def
    by (auto intro!: cancel_progress to_point inv_rules frame_refl)
qed

lemma read_progress:
  assumes ok: "live_job m g j" "memory_ok m" and p: "has_lease m g j" "tracking cf m g j"
    and st: "read_section g i ids obs j m = Some m'"
  shows "progress cf g m m'"
  using st ok p by (auto simp: read_section_def on_go_def split: list.splits if_splits option.splits sum.splits
      intro!: to_point inv_rules frame_refl)

lemma evaluate_progress:
  assumes ok: "live_job m g j" "memory_ok m" and p: "has_lease m g j" "tracking cf m g j"
  shows "progress cf g m (motion_evaluate g obs spec j m)"
proof -
  obtain reached err where e: "evaluate_target_feedback (mj_targets j) (map_of obs) (mj_issued j) (ms_position_tolerance spec) = (reached, err)"
    by (cases "evaluate_target_feedback (mj_targets j) (map_of obs) (mj_issued j) (ms_position_tolerance spec)")
  define f where "f = motion_feedback_of spec ''executing'' reached (length (mj_targets j)) False"
  define tr where "tr = tracker_update reached (length (mj_targets j)) (mj_tracker j)"
  have f: "mf_reached f = reached" "mf_targets f = length (mj_targets j)" by (simp_all add: f_def motion_feedback_of_def)
  have l: "live_job m g (j\<lparr>mj_tracker := t\<rparr>)" "has_lease m g (j\<lparr>mj_tracker := t\<rparr>)" for t
    using ok p by (auto simp: live_job_def goal_defs)
  have t: "tracking cf (cn_emit (Feedback_sent g f) m) g (j\<lparr>mj_tracker := snd tr\<rparr>)"
    using p f by (simp add: tracking_def tr_def)
  have s: "cf_stable_samples cf \<le> int (streak g (cn_emit (Feedback_sent g f) m))" if "fst tr"
    using that p f unfolding tracking_def tr_def by (simp split: if_splits; linarith)
  note tp = to_point [OF frame_emit(2) [OF frame_refl [OF ok(2)]]]
  show ?thesis
  proof (cases err)
    case None
    have "progress cf g m (if \<not> fst tr then set_job g M_poll (j\<lparr>mj_tracker := snd tr\<rparr>) (cn_emit (Feedback_sent g f) m)
       else if g \<in> cn_cancel_requested m then motion_cancel g spec (j\<lparr>mj_tracker := snd tr\<rparr>) (cn_emit (Feedback_sent g f) m)
       else set_job g (M_release Rel_finish) (j\<lparr>mj_tracker := snd tr\<rparr>) (cn_emit (Feedback_sent g f) m))"
      using l t s ok by (auto intro!: tp cancel_progress frame_emit frame_refl)
    then show ?thesis
      unfolding motion_evaluate_def e None f_def tr_def by (simp only: Let_def split_def option.case fst_conv snd_conv)
  next
    case (Some ob)
    then show ?thesis using ok p
      by (auto simp: motion_evaluate_def e intro!: to_point frame_refl)
  qed
qed

lemma stopped_progress:
  assumes ok: "live_job m1 g j" "section_frame g m m1" "cn_occupied m1 = cn_occupied m"
    and p: "has_lease m1 g j" "stop_ok m1 g j why"
  shows "progress cf g m (motion_stopped cf g why sent spec j m1)"
proof -
  have l: "live_job m1 g (j\<lparr>mj_result := (mj_result j)\<lparr>mr_stop_command_sent := s\<rparr>\<rparr>)"
    "has_lease m1 g (j\<lparr>mj_result := (mj_result j)\<lparr>mr_stop_command_sent := s\<rparr>\<rparr>)" for s
    using ok p by (auto simp: live_job_def goal_defs)
  with ok p show ?thesis
    by (cases why) (auto intro!: to_point error_progress split: sum.split)
qed

lemma stop_progress:
  assumes ok: "live_job m g j" "memory_ok m" and p: "has_lease m g j" "stop_ok m g j why"
    and st: "stop_section cf g i why spec j m = Some m'"
  shows "progress cf g m m'"
proof -
  have "stop_ok (cn_emit out m) g j why" for out using p by (cases why) simp_all
  with st ok p show ?thesis
    by (auto simp: stop_section_def Let_def split: motion_input.splits intro!: stopped_progress inv_rules frame_refl)
qed

lemma confirm_progress:
  assumes ok: "live_job m g j" "memory_ok m" and p: "has_lease m g j" "g \<in> cn_cancel_requested m"
  shows "progress cf g m (motion_confirm g previous tr deadline spec j m)"
    "progress cf g m (motion_confirmed cf g obs previous tr deadline j m)"
    "confirm_read_section cf g i ids obs previous tr deadline j m = Some m' \<Longrightarrow> progress cf g m m'"
proof -
  show c: "progress cf g m (motion_confirmed cf g obs previous tr deadline j m)" for obs
    using ok p by (auto simp: motion_confirmed_def Let_def split_def intro!: to_point frame_refl)
  show "progress cf g m (motion_confirm g previous tr deadline spec j m)"
    using ok p by (auto simp: motion_confirm_def intro!: to_point inv_rules frame_refl)
  show "confirm_read_section cf g i ids obs previous tr deadline j m = Some m' \<Longrightarrow> progress cf g m m'"
    using ok p c by (auto simp: confirm_read_section_def on_go_def split: list.splits if_splits option.splits sum.splits
      intro!: to_point inv_rules frame_refl)
qed

lemma exception_progress:
  assumes ok: "goal_job_ok cf m g p j" "memory_ok m" and st: "motion_exception g why p j m = Some m'"
  shows "progress cf g m m'"
proof -
  have nr: "p \<noteq> M_return" using st by auto
  then have l: "live_job m g j" "point_ok cf m g j p" using ok(1) by (simp_all add: job_ok_live)
  have err: "progress cf g m (motion_error g why j m)" by (rule error_progress) (use ok(2) l in \<open>auto intro: frame_refl\<close>)
  note t = to_point [OF frame_refl [OF ok(2)] refl l(1)]
  have stop: "progress cf g m (set_job g (M_release (Rel_error r)) j m)" if "p = M_stop (Stop_error r)" for r
    by (rule t) (use l that in simp_all)
  have rel: "progress cf g m (set_job g (M_error r) j m)" if "p = M_publish_release (Rel_error r) s \<or> p = M_terminal (Rel_error r) s d" for r s d
    by (rule t) (use l that in auto)
  from st show ?thesis
    by (cases "(g, why, p, j, m)" rule: motion_exception.cases) (use err stop rel in auto)
qed

lemma spec_section_progress:
  assumes ok: "goal_job_ok cf m g p j" "memory_ok m" and sam: "0 < cf_stable_samples cf" and sp: "mj_spec j = Some spec"
    and st: "spec_section cf g p i spec j m = Some m'"
  shows "progress cf g m m'"
proof -
  have nr: "p \<noteq> M_return" using st by (auto simp: spec_section_def)
  then have l: "live_job m g j" "point_ok cf m g j p" using ok(1) by (simp_all add: job_ok_live)
  note t = to_point [OF frame_refl [OF ok(2)] refl l(1)]
  note rel = release_return_progress [OF ok sp]
  have lease: "has_lease m g j" if "p = M_release why \<or> p = M_terminal why s d" for why s d using l that by auto
  show ?thesis
  proof (cases p)
    case M_start
    then show ?thesis using st l t by (auto simp: spec_section_def on_go_def split: if_splits)
  next
    case (M_publish_start s)
    then show ?thesis using st l publish_start_progress [OF l(1) ok(2) _ sp] by (auto simp: spec_section_def on_go_def split: if_splits)
  next
    case (M_lease s d)
    then show ?thesis using st l lease_progress [OF l(1) ok(2) _ sp] by (auto simp: spec_section_def on_go_def split: if_splits)
  next
    case (M_no_lease r c)
    then show ?thesis using st l no_lease_progress [OF l(1) ok(2) _ sp] by (auto simp: spec_section_def on_go_def split: if_splits)
  next
    case M_leased
    then show ?thesis using st l leased_progress [OF l(1) ok(2)] by (auto simp: spec_section_def on_go_def split: if_splits)
  next
    case M_commit
    with l have "point_ok cf m g j M_commit" by simp
    from M_commit st commit_progress [OF l(1) ok(2) this sp sam] show ?thesis
      by (auto simp: spec_section_def commit_section_def split: motion_input.splits)
  next
    case M_poll
    then show ?thesis using st l poll_progress [OF l(1) ok(2)] by (auto simp: spec_section_def on_go_def split: if_splits)
  next
    case (M_read ids obs)
    then show ?thesis using st l read_progress [OF l(1) ok(2)] by (auto simp: spec_section_def)
  next
    case (M_evaluate obs)
    then show ?thesis using st l evaluate_progress [OF l(1) ok(2)] by (auto simp: spec_section_def on_go_def split: if_splits)
  next
    case (M_stop why)
    then show ?thesis using st l stop_progress [OF l(1) ok(2)] by (auto simp: spec_section_def)
  next
    case (M_confirm p t d)
    then show ?thesis using st l confirm_progress(1) [OF l(1) ok(2)] by (auto simp: spec_section_def on_go_def split: if_splits)
  next
    case (M_confirm_read ids obs p t d)
    then show ?thesis using st l confirm_progress(3) [OF l(1) ok(2)] by (auto simp: spec_section_def)
  next
    case (M_release why)
    then have w: "release_ok cf m g j why" using l by simp
    show ?thesis using M_release st l rel [OF w lease] t by (auto simp: spec_section_def on_go_def motion_release_def Let_def split: if_splits)
  next
    case (M_publish_release why s)
    have "release_ok cf (cn_emit (Control_sent r a sp q) m) g j w = release_ok cf m g j w" for w r a sp q by (cases w) simp_all
    then show ?thesis using M_publish_release st l ok
      by (auto simp: spec_section_def on_go_def motion_publish_release_def split: if_splits intro!: to_point inv_rules frame_refl)
  next
    case (M_terminal why s d)
    then have w: "release_ok cf m g j why" using l by simp
    show ?thesis using M_terminal st l rel [OF w lease] t
      by (auto simp: spec_section_def on_go_def motion_terminal_def is_terminal_task_state_def split: if_splits)
  qed (use st in \<open>auto simp: spec_section_def\<close>)
qed

lemma exec_progress:
  assumes ok: "goal_job_ok cf m g p j" "memory_ok m" and sam: "0 < cf_stable_samples cf" and st: "motion_exec cf g p i j m = Some m'"
  shows "progress cf g m m' \<or> p = M_return \<and> m' = motion_finally g j m"
proof (cases "\<exists>why. i = MI_exception why")
  case True
  with st exception_progress [OF ok] show ?thesis by (auto simp: motion_exec_def)
next
  case False
  then consider (starting) "p = M_begin" "m' = motion_begin cf g j m" | (err) r where "p = M_error r" "m' = error_return g r j m"
    | (return) "p = M_return" "m' = motion_finally g j m"
    | (spec) spec where "mj_spec j = Some spec" "spec_section cf g p i spec j m = Some m'"
    using st by (cases p; cases i; simp add: motion_exec_def on_go_def spec_section_def split: option.splits if_splits)
  then show ?thesis
  proof cases
    case starting
    with ok begin_progress [of m g j] show ?thesis by (simp add: job_ok_live)
  next
    case err
    have "progress cf g m (error_return g r (j\<lparr>mj_result := mj_result j\<rparr>) m)"
      by (rule error_return_progress [OF ok, where a = False]) (use ok err in \<open>auto simp: job_ok_live live_job_def\<close>)
    with err show ?thesis by simp
  next
    case spec
    with spec_section_progress [OF ok sam] show ?thesis by blast
  qed simp
qed

section \<open>Every step keeps the invariant\<close>

lemma frame_more: "section_frame g m m' \<Longrightarrow> more_heard m m'"
  by (auto simp: section_frame_def more_heard_def heard_since_def)

lemma controller_okI:
  assumes "memory_ok m" "\<And>g. goal_ok cf m g"
    "\<And>g h. cn_exec m g \<noteq> None \<Longrightarrow> cn_exec m h \<noteq> None \<Longrightarrow> g = h"
    "cn_occupied m \<longleftrightarrow> (\<exists>g. cn_exec m g \<noteq> None)"
    "\<And>g. g \<notin> cn_known m \<or> cn_offers m g \<noteq> None \<Longrightarrow> cn_exec m g = None \<and> fresh_goal m g"
    "\<And>g. cn_offers m g \<noteq> None \<Longrightarrow> g \<in> cn_known m"
  shows "controller_ok cf m"
  using assms unfolding controller_ok_def by blast

lemma fresh_frame: "same_goal g m m' \<Longrightarrow> fresh_goal m' g = fresh_goal m g"
  by (simp add: same_goal_def fresh_goal_def unmoved_def)

lemma progress_ok:
  assumes ok: "controller_ok cf m" and g: "cn_exec m g \<noteq> None" and pr: "progress cf g m m'"
  shows "controller_ok cf m'"
proof -
  have fr: "section_frame g m m'" and oc: "cn_occupied m' = cn_occupied m" using pr by (simp_all add: progress_def)
  have ot: "same_goal h m m'" if "h \<noteq> g" for h using fr that by (simp add: section_frame_def)
  then have ex: "cn_exec m' h = cn_exec m h" if "h \<noteq> g" for h using that by (simp add: same_goal_def)
  have exg: "cn_exec m' h \<noteq> None \<longleftrightarrow> cn_exec m h \<noteq> None" for h
    using ex [of h] g pr by (cases "h = g") (auto simp: progress_def)
  show ?thesis
  proof (rule controller_okI)
    show "memory_ok m'" using fr by (rule frame_memory)
    show "goal_ok cf m' h" for h
    proof (cases "h = g")
      case True
      with pr show ?thesis by (auto simp: progress_def goal_ok_def)
    next
      case False
      with ok ot frame_more [OF fr] show ?thesis by (auto simp: controller_ok_def intro: goal_ok_frame)
    qed
    show "g' = h" if "cn_exec m' g' \<noteq> None" "cn_exec m' h \<noteq> None" for g' h
      using ok that unfolding exg controller_ok_def by blast
    show "cn_occupied m' \<longleftrightarrow> (\<exists>g. cn_exec m' g \<noteq> None)" using ok unfolding exg oc controller_ok_def by blast
    show "cn_exec m' h = None \<and> fresh_goal m' h" if h: "h \<notin> cn_known m' \<or> cn_offers m' h \<noteq> None" for h
    proof -
      have "cn_exec m h = None \<and> fresh_goal m h" using ok fr h by (auto simp: section_frame_def controller_ok_def)
      moreover from this g have "h \<noteq> g" by auto
      ultimately show ?thesis using ex fresh_frame [OF ot] by simp
    qed
    show "cn_offers m' h \<noteq> None \<Longrightarrow> h \<in> cn_known m'" for h using ok fr by (auto simp: section_frame_def controller_ok_def)
  qed
qed

text \<open>The other steps leave every goal alone, but for what it has heard.\<close>

lemma quiet_step_ok:
  assumes ok: "controller_ok cf m" and mem: "memory_ok m'" and more: "more_heard m m'"
    and same: "\<And>g. same_goal g m m'" and rest: "cn_occupied m' = cn_occupied m"
    and offers: "\<And>g. g \<notin> cn_known m' \<or> cn_offers m' g \<noteq> None \<Longrightarrow> cn_exec m g = None \<and> fresh_goal m g"
      "\<And>g. cn_offers m' g \<noteq> None \<Longrightarrow> g \<in> cn_known m'"
  shows "controller_ok cf m'"
proof (rule controller_okI)
  have ex: "cn_exec m' = cn_exec m" using same by (auto simp: same_goal_def)
  show "memory_ok m'" by (rule mem)
  show "goal_ok cf m' h" for h using ok same more by (auto simp: controller_ok_def intro: goal_ok_frame)
  show "g = h" if "cn_exec m' g \<noteq> None" "cn_exec m' h \<noteq> None" for g h
    using ok that unfolding ex controller_ok_def by blast
  show "cn_occupied m' \<longleftrightarrow> (\<exists>g. cn_exec m' g \<noteq> None)" using ok unfolding ex rest controller_ok_def by blast
  show "cn_exec m' h = None \<and> fresh_goal m' h" if h: "h \<notin> cn_known m' \<or> cn_offers m' h \<noteq> None" for h
    using offers(1) [OF h] ex fresh_frame [OF same] by simp
  show "cn_offers m' h \<noteq> None \<Longrightarrow> h \<in> cn_known m'" for h by (rule offers(2))
qed

lemma finally_ok:
  assumes ok: "controller_ok cf m" and g: "cn_exec m g = Some (M_return, j)"
  shows "controller_ok cf (motion_finally g j m)"
proof -
  define m' where "m' = motion_finally g j m"
  have "goal_ok cf m g" using ok by (simp add: controller_ok_def)
  with g have jo: "goal_job_ok cf m g M_return j" by (simp add: goal_ok_def)
  have one: "\<forall>g h. cn_exec m g \<noteq> None \<longrightarrow> cn_exec m h \<noteq> None \<longrightarrow> g = h" using ok by (simp add: controller_ok_def)
  have others: "cn_exec m h = None" if "h \<noteq> g" for h
  proof (rule ccontr)
    assume "cn_exec m h \<noteq> None"
    with one g have "h = g" by simp
    with that show False by simp
  qed
  then have none: "cn_exec m' h = None" for h by (simp add: m'_def motion_finally_def)
  have same: "same_goal h m m'" if "h \<noteq> g" for h using that by (simp add: same_goal_def m'_def motion_finally_def)
  have mem: "memory_ok m'" using ok by (simp add: controller_ok_def memory_ok_def m'_def motion_finally_def)
  have eq: "cn_heard m' = cn_heard m" "cn_pending m' = cn_pending m" "cn_sequence m' = cn_sequence m"
    "cn_end m' = cn_end m" "cn_started m' = cn_started m" "cn_log m' = cn_log m" "cn_cancel_requested m' = cn_cancel_requested m"
    "cn_result m' g = Some (mj_result j)" "cn_offers m' = cn_offers m" "cn_known m' = cn_known m"
    by (simp_all add: m'_def motion_finally_def)
  have st: "start_settled m' = start_settled m" by (simp add: start_settled_def heard_since_def eq fun_eq_iff)
  have more: "more_heard m m'" using st eq by (simp add: more_heard_def heard_since_def)
  have "lease_granted m' = lease_granted m" "streak g m' = streak g m"
    by (simp_all add: lease_granted_def heard_since_def streak_def eq fun_eq_iff)
  then have res: "result_ok cf m' g (mj_result j)"
    using jo st eq by (auto simp: goal_job_ok_def goal_defs commands_ok_def finish_heard_def heard_since_def)
  show ?thesis unfolding m'_def [symmetric]
  proof (rule controller_okI)
    show "goal_ok cf m' h" for h
    proof (cases "h = g")
      case True
      then show ?thesis using none res jo eq by (auto simp: goal_ok_def goal_job_ok_def)
    next
      case False
      with ok same more show ?thesis by (auto simp: controller_ok_def intro: goal_ok_frame)
    qed
    show "cn_occupied m' \<longleftrightarrow> (\<exists>g. cn_exec m' g \<noteq> None)" using none by (simp add: m'_def motion_finally_def slot_release_def)
    show "cn_exec m' h = None \<and> fresh_goal m' h" if h: "h \<notin> cn_known m' \<or> cn_offers m' h \<noteq> None" for h
    proof -
      have h': "cn_exec m h = None \<and> fresh_goal m h" using ok h eq by (auto simp: controller_ok_def)
      moreover from h' g have "h \<noteq> g" by auto
      ultimately show ?thesis using none fresh_frame [OF same] by simp
    qed
    show "cn_offers m' h \<noteq> None \<Longrightarrow> h \<in> cn_known m'" for h using ok eq by (auto simp: controller_ok_def)
  qed (use none mem in auto)
qed

lemma on_task_state_frame [simp]:
  "cn_latest (on_task_state st m) = Some st" "cn_sequence (on_task_state st m) = Suc (cn_sequence m)"
  "cn_heard (on_task_state st m) = st # cn_heard m" "cn_occupied (on_task_state st m) = cn_occupied m"
  "cn_known (on_task_state st m) = cn_known m" "cn_offers (on_task_state st m) = cn_offers m"
  "cn_exec (on_task_state st m) = cn_exec m" "cn_started (on_task_state st m) = cn_started m"
  "cn_end (on_task_state st m) = cn_end m" "cn_result (on_task_state st m) = cn_result m"
  "samples g (cn_log (on_task_state st m)) = samples g (cn_log m)"
  "sent_commands g (cn_log (on_task_state st m)) = sent_commands g (cn_log m)"
  by (simp_all add: on_task_state_def Let_def logged_cleanups)

lemma pending_after_state:
  "cn_pending (on_task_state st m) =
     map (\<lambda>(k, e). (k, (fst e, snd e \<or> cleanup_due st e))) (filter (\<lambda>(k, e). \<not> cleanup_over st e) (cn_pending m))"
  by (simp add: on_task_state_def Let_def split_def)

lemma state_memory: "memory_ok m \<Longrightarrow> memory_ok (on_task_state st m)"
  by (auto simp: memory_ok_def pending_after_state comp_def split_def intro: distinct_map_filter)

lemma state_more:
  assumes "memory_ok m"
  shows "more_heard m (on_task_state st m)"
proof -
  have since: "heard_since m n \<subseteq> heard_since (on_task_state st m) n" for n using heard_since_more [of _ m n] by auto
  have "start_settled (on_task_state st m) spec n" if n: "n \<le> cn_sequence m" and s: "start_settled m spec n" for spec n
  proof (cases "spec_identity spec \<in> fst ` set (cn_pending m)")
    case True
    then obtain e where e: "(spec_identity spec, e) \<in> set (cn_pending m)" by auto
    then have id: "spec_identity (fst e) = spec_identity spec" using assms by (auto simp: memory_ok_def)
    show ?thesis
    proof (cases "cleanup_over st e")
      case True
      then have "is_terminal_task_state (Some st) spec \<or> task_start_was_rejected (Some st) spec"
        using same_identity [OF id] by (auto simp: cleanup_over_def)
      moreover have "st \<in> heard_since (on_task_state st m) n" using n assms by (auto simp: memory_ok_def intro: newest_heard)
      ultimately show ?thesis by (auto simp: start_settled_def)
    next
      case False
      with e show ?thesis by (force simp: start_settled_def pending_after_state)
    qed
  next
    case False
    with s since [of n] show ?thesis by (auto simp: start_settled_def subset_eq)
  qed
  with since show ?thesis by (simp add: more_heard_def)
qed

lemma offer_ok:
  assumes ok: "controller_ok cf m" and new: "g \<notin> cn_known m"
  shows "controller_ok cf (motion_goal_offer g goal subscribed m)"
proof (rule quiet_step_ok [OF ok])
  define m' where "m' = motion_goal_offer g goal subscribed m"
  have f: "cn_exec m' = cn_exec m" "cn_end m' = cn_end m" "cn_result m' = cn_result m" "cn_started m' = cn_started m"
    "cn_cancel_requested m' = cn_cancel_requested m" "cn_log m' = cn_log m" "cn_heard m' = cn_heard m"
    "cn_pending m' = cn_pending m" "cn_sequence m' = cn_sequence m" "cn_latest m' = cn_latest m" "cn_occupied m' = cn_occupied m"
    "cn_known m' = insert g (cn_known m)" "cn_offers m' = cn_offers m \<or> cn_offers m' = (cn_offers m)(g \<mapsto> goal)"
    by (auto simp: m'_def motion_goal_offer_def Let_def split: sum.split)
  show "memory_ok m'" using ok f by (simp add: controller_ok_def memory_ok_def)
  show "more_heard m m'" using f by (simp add: more_heard_def start_settled_def heard_since_def)
  show "same_goal h m m'" for h using f by (simp add: same_goal_def)
  show "cn_occupied m' = cn_occupied m" by (rule f)
  show "cn_exec m h = None \<and> fresh_goal m h" if "h \<notin> cn_known m' \<or> cn_offers m' h \<noteq> None" for h
    using ok new that f by (auto simp: controller_ok_def split: if_splits)
  show "h \<in> cn_known m'" if "cn_offers m' h \<noteq> None" for h
    using ok that f by (auto simp: controller_ok_def split: if_splits)
qed

lemma frame_same:
  assumes "cn_exec m' = cn_exec m" "cn_end m' = cn_end m" "cn_result m' = cn_result m" "cn_started m' = cn_started m"
    "cn_cancel_requested m' = cn_cancel_requested m" "cn_log m' = cn_log m" "cn_heard m' = cn_heard m"
    "cn_pending m' = cn_pending m" "cn_sequence m' = cn_sequence m" "cn_latest m' = cn_latest m" "cn_occupied m' = cn_occupied m"
    "cn_known m' = cn_known m" "\<And>g. cn_offers m' g \<noteq> None \<Longrightarrow> cn_offers m g \<noteq> None" "controller_ok cf m"
  shows "controller_ok cf m'"
proof (rule quiet_step_ok [OF assms(14)])
  show "memory_ok m'" using assms by (simp add: controller_ok_def memory_ok_def)
  show "more_heard m m'" using assms by (simp add: more_heard_def start_settled_def heard_since_def)
  show "same_goal h m m'" for h using assms by (simp add: same_goal_def)
  show "cn_exec m h = None \<and> fresh_goal m h" if "h \<notin> cn_known m' \<or> cn_offers m' h \<noteq> None" for h
    using assms(12,13,14) that unfolding controller_ok_def by metis
  show "h \<in> cn_known m'" if "cn_offers m' h \<noteq> None" for h using assms(12,13,14) that unfolding controller_ok_def by metis
qed (rule assms)

lemma acquire_ok:
  assumes ok: "controller_ok cf m" and g: "cn_offers m g = Some goal"
  shows "controller_ok cf (motion_goal_acquire g goal m)"
proof (cases "cn_occupied m")
  case True
  then show ?thesis by (intro frame_same [OF _ _ _ _ _ _ _ _ _ _ _ _ _ ok])
      (auto simp: motion_goal_acquire_def try_acquire_def Let_def split: if_splits)
next
  case False
  define m' where "m' = motion_goal_acquire g goal m"
  have none: "cn_exec m h = None" for h using ok False by (auto simp: controller_ok_def)
  have gf: "fresh_goal m g" and gk: "g \<in> cn_known m" using ok g by (auto simp: controller_ok_def)
  have eq: "m' = set_job g M_begin (motion_job_init goal) (m\<lparr>cn_offers := (cn_offers m)(g := None), cn_occupied := True\<rparr>)"
    by (simp add: m'_def motion_goal_acquire_def try_acquire_def False Let_def)
  then have f: "cn_exec m' = (cn_exec m)(g \<mapsto> (M_begin, motion_job_init goal))" "cn_end m' = cn_end m" "cn_result m' = cn_result m"
    "cn_started m' = cn_started m" "cn_cancel_requested m' = cn_cancel_requested m" "cn_log m' = cn_log m"
    "cn_heard m' = cn_heard m" "cn_pending m' = cn_pending m" "cn_sequence m' = cn_sequence m" "cn_latest m' = cn_latest m"
    "cn_known m' = cn_known m" "cn_offers m' = (cn_offers m)(g := None)" "cn_occupied m'"
    by simp_all
  have same: "same_goal h m m'" if "h \<noteq> g" for h using f that by (simp add: same_goal_def)
  have more: "more_heard m m'" using f by (simp add: more_heard_def start_settled_def heard_since_def)
  show ?thesis unfolding m'_def [symmetric]
  proof (rule controller_okI)
    show "memory_ok m'" using ok f by (simp add: controller_ok_def memory_ok_def)
    show "goal_ok cf m' h" for h
    proof (cases "h = g")
      case True
      then show ?thesis using f gf
        by (auto simp: goal_ok_def fresh_goal_def goal_job_ok_def goal_defs commands_ok_def motion_job_init_def motion_result_init_def)
    next
      case False
      with ok same more show ?thesis by (auto simp: controller_ok_def intro: goal_ok_frame)
    qed
    show "cn_exec m' h = None \<and> fresh_goal m' h" if h: "h \<notin> cn_known m' \<or> cn_offers m' h \<noteq> None" for h
    proof -
      have hg: "h \<noteq> g" using h gk f by auto
      then have "cn_exec m h = None \<and> fresh_goal m h" using ok h f by (auto simp: controller_ok_def)
      with hg f fresh_frame [OF same [OF hg]] show ?thesis by simp
    qed
    show "h \<in> cn_known m'" if "cn_offers m' h \<noteq> None" for h using ok that f by (auto simp: controller_ok_def split: if_splits)
  qed (use f none in \<open>auto split: if_splits\<close>)
qed

lemma cancel_step_ok:
  assumes ok: "controller_ok cf m" and g: "cn_exec m g \<noteq> None" "cn_end m g = None"
  shows "controller_ok cf (m\<lparr>cn_cancel_requested := insert g (cn_cancel_requested m)\<rparr>)"
proof -
  define m' where "m' = m\<lparr>cn_cancel_requested := insert g (cn_cancel_requested m)\<rparr>"
  obtain p j where p: "cn_exec m g = Some (p, j)" using g by auto
  have "goal_ok cf m g" using ok by (simp add: controller_ok_def)
  with p g have jo: "goal_job_ok cf m g p j" "p \<noteq> M_return" by (auto simp: goal_ok_def goal_job_ok_def)
  have st: "start_settled m' = start_settled m" "lease_granted m' = lease_granted m"
    by (simp_all add: start_settled_def lease_granted_def heard_since_def m'_def fun_eq_iff)
  have eq: "has_lease m' = has_lease m" "unmoved m' = unmoved m" "has_moved m' = has_moved m" "tracking cf m' = tracking cf m"
    "settled_goal m' = settled_goal m" "commands_ok m' = commands_ok m"
    unfolding goal_defs commands_ok_def st by (simp_all add: goal_defs streak_def m'_def fun_eq_iff)
  have w: "release_ok cf m g j w \<Longrightarrow> release_ok cf m' g j w" for w using eq by (cases w) (auto simp: m'_def streak_def)
  have s: "stop_ok m g j w \<Longrightarrow> stop_ok m' g j w" for w by (cases w) (auto simp: m'_def)
  have "point_ok cf m' g j p" using jo w s eq unfolding job_ok_live [OF jo(2)] by (cases p) (auto simp: m'_def)
  moreover have "live_job m' g j" using jo unfolding job_ok_live [OF jo(2)] live_job_def eq by (simp add: m'_def)
  ultimately have jo': "goal_job_ok cf m' g p j" using jo(2) by (simp add: job_ok_live)
  have "section_frame g m m'" using ok unfolding section_frame_def st
    by (simp add: m'_def same_goal_def controller_ok_def memory_ok_def)
  then have "progress cf g m m'" using p jo' by (simp add: progress_def m'_def)
  then show ?thesis unfolding m'_def [symmetric] by (rule progress_ok [OF ok g(1)])
qed

lemma step_keeps_ok:
  assumes ok: "controller_ok cf m" and sam: "0 < cf_stable_samples cf" and st: "controller_step cf e m = Some m'"
  shows "controller_ok cf m'"
proof (cases e)
  case (C_offer g goal s)
  with st offer_ok [OF ok] show ?thesis by (auto split: if_splits)
next
  case (C_acquire g)
  with st acquire_ok [OF ok] show ?thesis by (auto split: option.splits)
next
  case (C_exec g i)
  with st obtain p j where p: "cn_exec m g = Some (p, j)" and x: "motion_exec cf g p i j m = Some m'"
    by (auto split: option.splits)
  have "goal_ok cf m g" "memory_ok m" using ok by (simp_all add: controller_ok_def)
  with p have "goal_job_ok cf m g p j" by (simp add: goal_ok_def)
  from exec_progress [OF this \<open>memory_ok m\<close> sam x] show ?thesis
    using progress_ok [OF ok] finally_ok [OF ok] p by auto
next
  case (C_cancel g)
  with st cancel_step_ok [OF ok] show ?thesis by (auto split: if_splits)
next
  case (C_state s)
  then have m': "m' = on_task_state s m" using st by simp
  have mem: "memory_ok m" using ok by (simp add: controller_ok_def)
  have c: "cn_cancel_requested (on_task_state s m) = cn_cancel_requested m" by (simp add: on_task_state_def Let_def)
  show ?thesis unfolding m'
    by (rule quiet_step_ok [OF ok state_memory [OF mem] state_more [OF mem]])
      (use ok in \<open>auto simp: same_goal_def controller_ok_def c\<close>)
next
  case (C_scene msg)
  then show ?thesis using st by (intro frame_same [OF _ _ _ _ _ _ _ _ _ _ _ _ _ ok]) (auto simp: on_scene_state_def)
next
  case (C_time t)
  then show ?thesis using st by (intro frame_same [OF _ _ _ _ _ _ _ _ _ _ _ _ _ ok]) (auto split: if_splits)
qed

lemma init_ok: "controller_ok cf (controller_init gate)"
  by (rule controller_okI) (auto simp: controller_init_def memory_ok_def goal_ok_def fresh_goal_def unmoved_def)

theorem reachable_ok:
  assumes "controller_reachable cf m" "0 < cf_stable_samples cf"
  shows "controller_ok cf m"
  using assms(1) by (induction rule: controller_reachable.induct) (auto intro: init_ok step_keeps_ok [OF _ assms(2)])

section \<open>How far a goal is\<close>

text \<open>
  The phases of the callback, in the order they are left; a phase with a loop has a deadline that is
  fixed while the phase lasts, and a round of the loop has a bounded number of sections.
\<close>

fun phase :: "motion_point \<Rightarrow> nat" where
  "phase M_begin = 19"
| "phase M_start = 18"
| "phase (M_publish_start s) = 17"
| "phase (M_lease s d) = 16"
| "phase (M_no_lease r c) = 15"
| "phase M_leased = 14"
| "phase M_commit = 13"
| "phase M_poll = 12"
| "phase (M_read ids obs) = 12"
| "phase (M_evaluate obs) = 12"
| "phase (M_stop why) = (case why of Stop_error r \<Rightarrow> 6 | _ \<Rightarrow> 11)"
| "phase (M_confirm p t d) = 10"
| "phase (M_confirm_read ids obs p t d) = 10"
| "phase (M_release why) = (case why of Rel_error r \<Rightarrow> 5 | _ \<Rightarrow> 9)"
| "phase (M_publish_release why s) = (case why of Rel_error r \<Rightarrow> 4 | _ \<Rightarrow> 8)"
| "phase (M_terminal why s d) = (case why of Rel_error r \<Rightarrow> 3 | _ \<Rightarrow> 7)"
| "phase (M_error r) = 2"
| "phase M_return = 1"

fun round_left :: "motion_point \<Rightarrow> nat" where
  "round_left (M_read ids obs) = length ids + 2"
| "round_left (M_evaluate obs) = 1"
| "round_left (M_confirm_read ids obs p t d) = length ids + 1"
| "round_left _ = 0"

fun phase_deadline :: "motion_job \<Rightarrow> motion_point \<Rightarrow> real" where
  "phase_deadline j (M_lease s d) = d"
| "phase_deadline j M_poll = mj_issued j + ms_execution_timeout_sec (the (mj_spec j))"
| "phase_deadline j (M_read ids obs) = mj_issued j + ms_execution_timeout_sec (the (mj_spec j))"
| "phase_deadline j (M_evaluate obs) = mj_issued j + ms_execution_timeout_sec (the (mj_spec j))"
| "phase_deadline j (M_confirm p t d) = d"
| "phase_deadline j (M_confirm_read ids obs p t d) = d"
| "phase_deadline j (M_terminal why s d) = d"
| "phase_deadline j _ = 0"

fun loops_at :: "motion_point \<Rightarrow> bool" where
  "loops_at (M_lease s d) = True"
| "loops_at M_poll = True"
| "loops_at (M_confirm p t d) = True"
| "loops_at (M_terminal why s d) = True"
| "loops_at _ = False"

definition nearer :: "real \<Rightarrow> motion_point \<times> motion_job \<Rightarrow> motion_point \<times> motion_job \<Rightarrow> bool" where
  "nearer now b a \<longleftrightarrow> phase (fst b) < phase (fst a)
     \<or> phase (fst b) = phase (fst a) \<and> phase_deadline (snd b) (fst b) = phase_deadline (snd a) (fst a)
       \<and> (round_left (fst b) < round_left (fst a) \<or> loops_at (fst a) \<and> now \<le> phase_deadline (snd a) (fst a))"

definition moves :: "goal_id \<Rightarrow> motion_point \<Rightarrow> motion_job \<Rightarrow> controller \<Rightarrow> controller \<Rightarrow> bool" where
  "moves g p j m m' \<longleftrightarrow> (\<exists>b. cn_exec m' g = Some b \<and> nearer (cn_now m) b (p, j))"

lemma moves_to: "nearer (cn_now m) (q, k) (p, j) \<Longrightarrow> moves g p j m (set_job g q k m1)"
  by (simp add: moves_def)

lemma down: "phase q < phase p \<Longrightarrow> moves g p j m (set_job g q k m1)"
  by (rule moves_to) (simp add: nearer_def)

lemma return_moves: "p \<noteq> M_return \<Longrightarrow> moves g p j m (motion_return g e j' s r rec m1)"
  unfolding motion_return_def by (rule down) (cases p; simp split: stop_why.split release_why.split)

lemma error_return_moves: "p \<noteq> M_return \<Longrightarrow> moves g p j m (error_return g r j' m1)"
  by (auto simp: error_return_def return_moves split: option.split)

lemma release_return_moves: "p \<noteq> M_return \<Longrightarrow> moves g p j m (release_return g why status spec j' m1)"
  by (cases why) (auto simp: return_defs return_moves error_return_moves Let_def)

lemma error_moves: "6 < phase p \<Longrightarrow> moves g p j m (motion_error g why j' m1)"
  by (auto simp: motion_error_def Let_def intro!: down)

lemma cancel_moves: "11 < phase p \<Longrightarrow> moves g p j m (motion_cancel g spec j' m1)"
  by (auto simp: motion_cancel_def intro!: down)

lemma early_moves:
  "moves g M_begin j m (motion_begin cf g j' m)"
  "moves g (M_publish_start s) j m (motion_publish_start cf g s' spec j' m)"
  "moves g (M_lease s d) j m (motion_lease g s d spec j' m)"
  "moves g (M_no_lease r c) j m (motion_no_lease g r c spec j' m)"
  "moves g M_leased j m (motion_leased g j' m)"
  by (auto simp: motion_begin_def motion_publish_start_def motion_lease_def motion_no_lease_def motion_leased_def Let_def
      return_moves error_moves nearer_def split: sum.split py_error.split intro!: moves_to)

lemma commit_moves: "moves g M_commit j m (motion_commit cf g i spec j' m)"
  by (auto simp: motion_commit_def Let_def split_def error_moves split: motion_input.split sum.split intro!: down)

lemma poll_moves:
  "mj_spec j = Some spec \<Longrightarrow> moves g M_poll j m (motion_poll cf g spec j m)"
  by (auto simp: motion_poll_def cancel_moves nearer_def intro!: moves_to)

lemma read_moves:
  "read_section g i ids obs j m = Some m' \<Longrightarrow> moves g (M_read ids obs) j m m'"
  by (auto simp: read_section_def on_go_def nearer_def split: list.splits if_splits option.splits sum.splits intro!: moves_to)

lemma evaluate_moves: "moves g (M_evaluate obs) j m (motion_evaluate g obs spec j m)"
  by (auto simp: motion_evaluate_def Let_def cancel_moves nearer_def split: prod.split option.split intro!: moves_to)

lemma stop_moves:
  "stop_section cf g i why spec j m = Some m' \<Longrightarrow> moves g (M_stop why) j m m'"
  by (cases why) (auto simp: stop_section_def Let_def error_moves split: motion_input.splits if_splits sum.splits intro!: down)

lemma confirm_moves:
  "moves g (M_confirm previous tr d) j m (motion_confirm g previous tr d spec j m)"
  "confirm_read_section cf g i ids obs previous tr d j m = Some m' \<Longrightarrow> moves g (M_confirm_read ids obs previous tr d) j m m'"
  by (auto simp: motion_confirm_def confirm_read_section_def motion_confirmed_def on_go_def nearer_def Let_def split_def
      split: list.splits if_splits option.splits sum.splits intro!: moves_to)

lemma release_moves:
  "moves g (M_release why) j m (motion_release g why spec j m)"
  "moves g (M_publish_release why s) j m (motion_publish_release cf g why s spec j m)"
  "moves g (M_terminal why s d) j m (motion_terminal g why s d spec j m)"
  by (auto simp: motion_release_def motion_publish_release_def motion_terminal_def release_return_moves nearer_def Let_def
      split: release_why.split intro!: moves_to)

lemma exception_moves:
  "motion_exception g why p j m = Some m' \<Longrightarrow> moves g p j m m'"
  by (cases "(g, why, p, j, m)" rule: motion_exception.cases) (auto intro!: down error_moves)

lemma section_moves:
  assumes st: "motion_exec cf g p i j m = Some m'" and p: "p \<noteq> M_return"
  shows "moves g p j m m'"
proof (cases "\<exists>why. i = MI_exception why")
  case True
  with st exception_moves show ?thesis by (auto simp: motion_exec_def)
next
  case False
  note early = early_moves and late = release_moves confirm_moves(1)
  show ?thesis
    by (cases p) (use st False p in \<open>auto simp: motion_exec_def spec_section_def on_go_def commit_section_def
        early late commit_moves poll_moves evaluate_moves read_moves stop_moves confirm_moves(2) error_return_moves
        split: motion_input.splits option.splits if_splits intro!: down\<close>)
qed

lemma spec_present:
  assumes "goal_job_ok cf m g p j" "p \<notin> {M_begin, M_return}" "\<nexists>r. p = M_error r"
  shows "mj_spec j \<noteq> None"
  using assms by (cases p) (auto simp: goal_job_ok_def has_lease_def)

lemma section_enabled:
  assumes ok: "goal_job_ok cf m g p j"
  shows "\<exists>i m'. motion_exec cf g p i j m = Some m'"
proof -
  define i where "i = (case p of M_stop w \<Rightarrow> MI_timeout | M_read (a # ids) obs \<Rightarrow> MI_timeout
     | M_confirm_read (a # ids) obs pr t d \<Rightarrow> MI_timeout | _ \<Rightarrow> MI_go)"
  have "\<exists>m'. motion_exec cf g p i j m = Some m'"
  proof (cases "p \<in> {M_begin, M_return} \<or> (\<exists>r. p = M_error r)")
    case True
    then show ?thesis by (auto simp: motion_exec_def i_def on_go_def)
  next
    case False
    with spec_present [OF ok] obtain spec where "mj_spec j = Some spec" by auto
    then show ?thesis
      by (cases p) (auto simp: i_def motion_exec_def spec_section_def on_go_def commit_section_def read_section_def
          confirm_read_section_def stop_section_def Let_def split: list.split)
  qed
  then show ?thesis by blast
qed

lemma others_leave_job:
  assumes ok: "controller_ok cf m" and sam: "0 < cf_stable_samples cf" and st: "controller_step cf e m = Some m'"
    and g: "cn_exec m g = Some b" and e: "\<nexists>i. e = C_exec g i"
  shows "cn_exec m' g = Some b"
proof -
  have g': "cn_exec m g \<noteq> None" using g by simp
  have occ: "cn_occupied m" using ok g' unfolding controller_ok_def by blast
  have one: "h = g" if "cn_exec m h \<noteq> None" for h using ok g' that unfolding controller_ok_def by blast
  show ?thesis
  proof (cases e)
    case (C_offer h goal s)
    then show ?thesis using st g
      by (auto simp: motion_goal_offer_def Let_def split: if_splits sum.splits)
  next
    case (C_acquire h)
    then show ?thesis using st g occ
      by (auto simp: motion_goal_acquire_def try_acquire_def Let_def split: option.splits)
  next
    case (C_exec h i)
    with st have "cn_exec m h \<noteq> None" by (auto split: option.splits)
    with one C_exec e show ?thesis by blast
  next
    case (C_scene msg)
    then show ?thesis using st g by (auto simp: on_scene_state_def)
  qed (use st g in \<open>auto split: if_splits\<close>)
qed

lemma ended_result:
  assumes ok: "controller_ok cf m" and r: "cn_result m g = Some r"
  shows "result_ok cf m g r" "cn_end m g \<noteq> None"
proof -
  have "goal_ok cf m g" using ok by (simp add: controller_ok_def)
  with r show "result_ok cf m g r" "cn_end m g \<noteq> None"
    by (auto simp: goal_ok_def goal_job_ok_def fresh_goal_def split: option.splits)
qed

lemma goal_commands_ok:
  assumes ok: "controller_ok cf m"
  shows "commands_ok m g"
proof -
  have "goal_ok cf m g" using ok by (simp add: controller_ok_def)
  then show ?thesis
    by (auto simp: goal_ok_def goal_job_ok_def fresh_goal_def result_ok_def unmoved_def commands_ok_def split: option.splits)
qed

fun controller_run :: "controller_config \<Rightarrow> motion_event list \<Rightarrow> controller \<Rightarrow> controller option" where
  "controller_run cf [] m = Some m"
| "controller_run cf (e # es) m = (case controller_step cf e m of None \<Rightarrow> None | Some m' \<Rightarrow> controller_run cf es m')"

lemma controller_run_reachable:
  "controller_run cf es m = Some m' \<Longrightarrow> controller_reachable cf m \<Longrightarrow> controller_reachable cf m'"
  by (induction es arbitrary: m) (auto split: option.splits intro: controller_reachable.step)

text \<open>A run for the examples: two actuators, two stable samples, no scene required.\<close>

definition demo_solve :: "real \<Rightarrow> real \<Rightarrow> real \<Rightarrow> string \<Rightarrow> int \<Rightarrow> solver_command list result" where
  "demo_solve roll pitch yaw side speed =
     (if side = ''left'' then Inr [\<lparr>sv_id = 12, sv_position = 1500, sv_duration_ms = speed\<rparr>, \<lparr>sv_id = 13, sv_position = 900, sv_duration_ms = speed\<rparr>]
      else Inl (ValueError ''unknown''))"

definition demo_cf :: controller_config where
  "demo_cf = controller_config_init demo_solve False 2 2 1 2 1"

definition ctl_gate :: scene_gate where
  "ctl_gate = \<lparr>sg_max_age = 2, sg_snapshot = None, sg_seen_order = [], sg_seen_ids = {}, sg_window = 8,
     sg_policy = \<lparr>gp_frame_id = ''f'', gp_min_confidence = 0, gp_max_extent = 1\<rparr>\<rparr>"

definition demo_state :: "bool \<Rightarrow> string \<Rightarrow> string \<Rightarrow> bool \<Rightarrow> string \<Rightarrow> task_state" where
  "demo_state active lease action accepted status =
     \<lparr>ts_active = active, ts_task_id = ''t'', ts_trace_id = ''tr'', ts_session_id = ''s'', ts_lease_id = lease,
      ts_last_action = action, ts_last_task_id = ''t'', ts_last_trace_id = ''tr'', ts_last_session_id = ''s'',
      ts_last_action_accepted = accepted, ts_status = status, ts_reason = ''''\<rparr>"

definition demo_read :: "int \<Rightarrow> motion_event" where
  "demo_read pos = C_exec 0 (MI_read \<lparr>rp_success = True, rp_position = pos, rp_status = ''ok'', rp_reason = '''', rp_recoverable = True\<rparr>)"

definition go :: motion_event where "go = C_exec 0 MI_go"

definition demo_begin :: "motion_event list" where
  "demo_begin = [C_state (demo_state False '''' '''' False ''idle''), C_offer 0 demo_goal True, C_acquire 0, go, go, go,
     C_state (demo_state True ''L1'' ''start'' True ''active''), go, go, go]"

definition demo_sample :: "motion_event list" where
  "demo_sample = [go, demo_read 1502, demo_read 897, go, go, C_time 1]"

definition demo_finish :: "motion_event list" where
  "demo_finish = [go, go, C_state (demo_state False '''' ''finish'' True ''finished''), go, go]"

definition ctl_run :: "motion_event list \<Rightarrow> controller" where
  "ctl_run es = the (controller_run demo_cf es (controller_init ctl_gate))"

definition ctl_runs :: "motion_event list \<Rightarrow> bool" where
  "ctl_runs es \<longleftrightarrow> \<not> Option.is_none (controller_run demo_cf es (controller_init ctl_gate))"

lemma demo_run_reachable: "ctl_runs es \<Longrightarrow> controller_reachable demo_cf (ctl_run es)"
  by (auto simp: ctl_runs_def ctl_run_def Option.is_none_def intro: controller_run_reachable controller_reachable.start)

lemma demo_samples: "0 < cf_stable_samples demo_cf" "cf_stable_samples demo_cf = 2"
  by (simp_all add: demo_cf_def controller_config_init_def)

lemma demo_success:
  "ctl_runs (demo_begin @ demo_sample @ demo_sample @ demo_finish)"
  "cn_end (ctl_run (demo_begin @ demo_sample @ demo_sample @ demo_finish)) 0 = Some End_succeeded"
  by code_simp+

section \<open>Properties\<close>

text \<open>
  The controller serves one goal at a time, whatever goal, cancel, state and execute callbacks
  interleave: the slot is occupied exactly while a goal executes, at most one does, and a goal that has
  ended as cancelled was asked to cancel.
\<close>

theorem motion_server_serves_one_goal:
  assumes "controller_reachable cf m" "0 < cf_stable_samples cf"
  shows "(cn_occupied m \<longleftrightarrow> (\<exists>g. cn_exec m g \<noteq> None))
    \<and> (\<forall>g h. cn_exec m g \<noteq> None \<and> cn_exec m h \<noteq> None \<longrightarrow> g = h)
    \<and> (\<forall>g. cn_result m g \<noteq> None \<and> cn_end m g = Some End_canceled \<longrightarrow> g \<in> cn_cancel_requested m)"
proof -
  have ok: "controller_ok cf m" by (rule reachable_ok [OF assms])
  have "cn_occupied m \<longleftrightarrow> (\<exists>g. cn_exec m g \<noteq> None)" using ok unfolding controller_ok_def by blast
  moreover have "\<forall>g h. cn_exec m g \<noteq> None \<and> cn_exec m h \<noteq> None \<longrightarrow> g = h" using ok unfolding controller_ok_def by blast
  ultimately show ?thesis using ended_result(1) [OF ok] by (auto simp: result_ok_def)
qed

theorem motion_server_serves_one_goal_witness:
  "cn_occupied (ctl_run demo_begin)"
proof -
  have r: "ctl_runs demo_begin" "\<not> Option.is_none (cn_exec (ctl_run demo_begin) 0)" by code_simp+
  show ?thesis
    using motion_server_serves_one_goal [OF demo_run_reachable [OF r(1)] demo_samples(1)] r(2)
    by (auto simp: Option.is_none_def)
qed






text \<open>A read times out in the first poll; the stop and the release fail too.\<close>

definition demo_failure :: "motion_event list" where
  "demo_failure = demo_begin @ [go, C_exec 0 MI_timeout, C_exec 0 MI_unready, go, go, C_time 5, go, go]"






definition admission_race_run :: "motion_event list" where
  "admission_race_run = demo_begin @ [C_offer 1 demo_goal True, go, C_exec 0 MI_timeout, C_exec 0 MI_unready, go, go, C_time 5, go, go,
     C_acquire 1]"

text \<open>
  A goal can be admitted while the cleanup of the previous one is pending: the goal callback looks
  for pending cleanups, gives the lock up and only then takes the slot; a goal that ends in between
  registers its cleanup and frees the slot, and the new goal is admitted although the callback refuses
  every goal while a cleanup is pending.
\<close>

theorem goal_admitted_during_cleanup:
  "controller_reachable demo_cf (ctl_run admission_race_run) \<and> cn_pending (ctl_run admission_race_run) \<noteq> []
    \<and> (\<exists>j. cn_exec (ctl_run admission_race_run) 1 = Some (M_begin, j))
    \<and> cn_offers (motion_goal_offer 2 demo_goal True (ctl_run admission_race_run)) 2 = None"
proof -
  have f: "ctl_runs admission_race_run" "cn_pending (ctl_run admission_race_run) \<noteq> []"
    "(case cn_exec (ctl_run admission_race_run) 1 of Some (M_begin, j) \<Rightarrow> True | _ \<Rightarrow> False)"
    "Option.is_none (cn_offers (motion_goal_offer 2 demo_goal True (ctl_run admission_race_run)) 2)" by code_simp+
  then show ?thesis
    by (auto simp: Option.is_none_def demo_run_reachable split: option.splits prod.splits motion_point.splits)
qed

end
