(* ===== verification/Motion_Handshake.thy ===== *)
theory Motion_Handshake
  imports Arbitrator Motion_Goal
begin

text \<open>
  The protocol between the motion controller and the execution manager: the controller sends task
  controls, the manager's arbiter decides, and the manager publishes a \<open>TaskExecutionState\<close> built from the
  arbiter's snapshot (\<open>_publish_state\<close> of \<open>execution_manager_node.py\<close>), which the controller reads with the
  predicates of \<open>Motion_Goal\<close>.
\<close>

section \<open>The published task state\<close>

definition task_state_msg :: "arb_snapshot \<Rightarrow> task_state" where
  "task_state_msg snap =
     (let st = snap_arbitrator snap
      in \<lparr>ts_active = snap_task_active snap, ts_task_id = arb_task_id st, ts_trace_id = arb_task_trace_id st,
          ts_session_id = arb_task_session_id st, ts_lease_id = arb_task_lease_id st,
          ts_last_action = last_task_control_action st, ts_last_task_id = last_task_control_task_id st,
          ts_last_trace_id = last_task_control_trace_id st, ts_last_session_id = last_task_control_session_id st,
          ts_last_action_accepted = last_task_control_accepted st, ts_status = snap_task_status snap,
          ts_reason = snap_task_state_reason snap\<rparr>)"

definition published_state :: "real \<Rightarrow> command_arbitrator \<Rightarrow> task_state" where
  "published_state now st = task_state_msg (fst (arb_snapshot_of now st))"

text \<open>What the manager does with a control of the controller: decide, then publish.\<close>

definition send_control :: "string \<Rightarrow> real \<Rightarrow> motion_spec \<Rightarrow> string \<Rightarrow> string \<Rightarrow> command_arbitrator \<Rightarrow> arbitration_result \<times> command_arbitrator" where
  "send_control action now spec lease fresh st =
     receive_task_control action now (ms_task_id spec) (ms_trace_id spec) (ms_session_id spec) lease fresh st"

lemma refresh_keeps_last:
  assumes "\<not> task_expired now st"
  shows "last_task_control_action (refresh_mode now st) = last_task_control_action st"
    "last_task_control_task_id (refresh_mode now st) = last_task_control_task_id st"
    "last_task_control_trace_id (refresh_mode now st) = last_task_control_trace_id st"
    "last_task_control_session_id (refresh_mode now st) = last_task_control_session_id st"
    "last_task_control_accepted (refresh_mode now st) = last_task_control_accepted st"
    "last_task_control_reason (refresh_mode now st) = last_task_control_reason st"
  using assms
  by (simp_all add: refresh_mode_def Let_def split_def clear_expired_task_control_eq clear_expired_teleop_control_eq clear_teleop_control_def)

definition control_recorded :: "string \<Rightarrow> motion_spec \<Rightarrow> bool \<Rightarrow> command_arbitrator \<Rightarrow> bool" where
  "control_recorded action spec accepted st \<longleftrightarrow> last_task_control_action st = action
     \<and> last_task_control_task_id st = ms_task_id spec \<and> last_task_control_trace_id st = ms_trace_id spec
     \<and> last_task_control_session_id st = ms_session_id spec \<and> last_task_control_accepted st = accepted"

text \<open>A control is recorded with its verdict, and the state it leaves does not expire at once.\<close>

lemma control_is_recorded:
  assumes ok: "arb_ok st" and sp: "spec_ok spec" and a: "norm_text action = action" and run: "send_control action now spec lease fresh st = (r, st1)"
  shows "\<not> task_expired now st1" "control_recorded action spec (ar_accepted r) st1"
proof -
  define s where "s = (refresh_mode now st)\<lparr>last_task_control_action := action, last_task_control_task_id := ms_task_id spec,
     last_task_control_trace_id := ms_trace_id spec, last_task_control_session_id := ms_session_id spec\<rparr>"
  define why where "why = task_control_rejection action now (ms_task_id spec) (ms_trace_id spec) (ms_session_id spec) (py_strip lease) s"
  have id: "py_strip (ms_task_id spec) = ms_task_id spec" "py_strip (ms_trace_id spec) = ms_trace_id spec"
    "py_strip (ms_session_id spec) = ms_session_id spec" using sp by (simp_all add: spec_ok_def)
  have to: "0 \<le> task_timeout_sec st" using ok by (simp add: arb_ok_def)
  have ns: "\<not> task_expired now s" by (simp add: s_def task_expired_def is_task_control_active_def)
  have eq: "(r, st1) = (if why \<noteq> '''' then reject_task_control_with action (ms_task_id spec) why s
     else accept_task_control action (ms_task_id spec) now
       (apply_task_control action now (ms_task_id spec) (ms_trace_id spec) (ms_session_id spec) fresh s))"
    using run [symmetric] unfolding send_control_def receive_task_control_def Let_def a id s_def why_def by (simp only:)
  have rec: "control_recorded action spec (last_task_control_accepted t) t"
    if "last_task_control_action t = action" "last_task_control_task_id t = ms_task_id spec"
      "last_task_control_trace_id t = ms_trace_id spec" "last_task_control_session_id t = ms_session_id spec" for t
    using that by (simp add: control_recorded_def)
  have "\<not> task_expired now st1 \<and> control_recorded action spec (ar_accepted r) st1"
  proof (cases "why = ''''")
    case False
    with eq ns show ?thesis
      by (auto simp: reject_task_control_with_def Let_def result_of_def control_recorded_def s_def task_expired_def
          is_task_control_active_def)
  next
    case True
    define t where "t = apply_task_control action now (ms_task_id spec) (ms_trace_id spec) (ms_session_id spec) fresh s"
    define u where "u = t\<lparr>task_control_accepted_count := Suc (task_control_accepted_count t), last_task_control_action := action,
        last_task_control_task_id := ms_task_id spec, last_task_control_accepted := True, last_task_control_reason := ''accepted''\<rparr>"
    have "\<not> task_expired now t" unfolding t_def by (rule not_expired_apply_task_control) (simp add: s_def to)
    then have nu: "\<not> task_expired now u" by (simp add: u_def task_expired_def is_task_control_active_def)
    have st1: "r = result_of True ''accepted'' (refresh_mode now u)" "st1 = refresh_mode now u"
      using eq True by (simp_all add: accept_task_control_def Let_def u_def t_def)
    have "last_task_control_trace_id t = ms_trace_id spec" "last_task_control_session_id t = ms_session_id spec"
      by (simp_all add: t_def apply_task_control_def start_task_def clear_teleop_control_def clear_task_control_def
          remember_task_identity_eq s_def)
    then show ?thesis using nu by (simp add: st1 control_recorded_def result_of_def refresh_keeps_last u_def)
  qed
  then show "\<not> task_expired now st1" "control_recorded action spec (ar_accepted r) st1" by simp_all
qed

lemma published_fields:
  assumes "\<not> task_expired now st"
  shows "ts_active (published_state now st) = is_task_control_active now st"
    "ts_task_id (published_state now st) = arb_task_id st" "ts_trace_id (published_state now st) = arb_task_trace_id st"
    "ts_session_id (published_state now st) = arb_task_session_id st" "ts_lease_id (published_state now st) = arb_task_lease_id st"
    "ts_last_action (published_state now st) = last_task_control_action st"
    "ts_last_task_id (published_state now st) = last_task_control_task_id st"
    "ts_last_trace_id (published_state now st) = last_task_control_trace_id st"
    "ts_last_session_id (published_state now st) = last_task_control_session_id st"
    "ts_last_action_accepted (published_state now st) = last_task_control_accepted st"
    "ts_status (published_state now st) = task_status now (refresh_mode now st)"
  using assms
  by (simp_all add: published_state_def task_state_msg_def arb_snapshot_of_def Let_def refresh_keeps_last)

lemma spec_identity_full: "spec_ok spec \<Longrightarrow> full_identity (ms_task_id spec, ms_trace_id spec, ms_session_id spec)"
  by (simp add: spec_ok_def full_identity_def)

lemma send_control_owner:
  assumes ok: "arb_ok st" and sp: "spec_ok spec" and a: "norm_text action = action" and run: "send_control action now spec lease fresh st = (r, st1)"
  shows "\<exists>replayed. let next = spec_task_control action (ms_task_id spec, ms_trace_id spec, ms_session_id spec) (py_strip lease) fresh replayed (owner_at now st)
    in (ar_accepted r \<longleftrightarrow> next \<noteq> None) \<and> owner_at now st1 = (case next of None \<Rightarrow> owner_at now st | Some ow \<Rightarrow> ow)"
proof -
  have id: "py_strip (ms_task_id spec) = ms_task_id spec" "py_strip (ms_trace_id spec) = ms_trace_id spec"
    "py_strip (ms_session_id spec) = ms_session_id spec" using sp by (simp_all add: spec_ok_def)
  show ?thesis
    using receive_task_control_owner [OF ok, of action now "ms_task_id spec" "ms_trace_id spec" "ms_session_id spec" lease fresh] run
    unfolding send_control_def task_control_target_def Let_def id a by auto
qed

lemma end_clears:
  assumes sp: "spec_ok spec" and a: "norm_text action = action" "action \<in> {''finish'', ''cancel''}"
    and run: "send_control action now spec lease fresh st = (r, st1)" and acc: "ar_accepted r"
  shows "arb_identity st1 = arb_identity st \<and> arb_task_lease_id st1 = ''''"
proof -
  have id: "py_strip (ms_task_id spec) = ms_task_id spec" "py_strip (ms_trace_id spec) = ms_trace_id spec"
    "py_strip (ms_session_id spec) = ms_session_id spec" using sp by (simp_all add: spec_ok_def)
  have "st1 = snd (send_control action now spec lease fresh st)" "ar_accepted (fst (send_control action now spec lease fresh st))"
    using run acc by simp_all
  then show ?thesis
    using a(2) unfolding send_control_def receive_task_control_def Let_def a(1) id
    by (auto simp: accept_task_control_def reject_task_control_with_def result_of_def apply_task_control_def clear_task_control_def
        remember_task_identity_eq arb_identity_def Let_def split: if_splits)
qed

section \<open>Properties\<close>

text \<open>
  C26: The start of a motion goal is answered as the controller expects: when the arbiter accepts it, the
  published task state is read as the grant of exactly the fresh lease, and task commands under that lease
  are accepted; when it refuses, the published state is read as the refusal of this start.
\<close>

theorem start_is_answered:
  assumes "arb_ok st" "spec_ok spec" "py_strip fresh = fresh" "fresh \<noteq> ''''"
    and "send_control ''start'' now spec '''' fresh st = (r, st1)"
  shows "(if ar_accepted r
     then task_start_was_accepted (Some (published_state now st1)) spec
        \<and> active_task_lease (Some (published_state now st1)) spec = fresh
        \<and> ar_accepted (fst (receive_command_from Src_task now (ms_task_id spec) fresh st1))
     else task_start_was_rejected (Some (published_state now st1)) spec)"
proof -
  have a: "norm_text ''start'' = ''start''" by code_simp
  note rec = control_is_recorded [OF assms(1,2) a assms(5)]
  have ok1: "arb_ok st1"
    using receive_task_control_ok [OF assms(1)] assms(5) by (metis send_control_def snd_conv)
  obtain replayed where own: "ar_accepted r \<longleftrightarrow> spec_task_control ''start'' (ms_task_id spec, ms_trace_id spec, ms_session_id spec) '''' fresh replayed (owner_at now st) \<noteq> None"
    "owner_at now st1 = (case spec_task_control ''start'' (ms_task_id spec, ms_trace_id spec, ms_session_id spec) '''' fresh replayed (owner_at now st)
       of None \<Rightarrow> owner_at now st | Some ow \<Rightarrow> ow)"
    using send_control_owner [OF assms(1,2) a assms(5)] by (auto simp: Let_def)
  show ?thesis
  proof (cases "ar_accepted r")
    case True
    with own have o: "owner_at now st1 = Owner_task (ms_task_id spec, ms_trace_id spec, ms_session_id spec) fresh"
      by (auto simp: spec_task_control_def split: if_splits owner.splits)
    then have f: "is_task_control_active now st1" "arb_task_id st1 = ms_task_id spec" "arb_task_trace_id st1 = ms_trace_id spec"
      "arb_task_session_id st1 = ms_session_id spec" "arb_task_lease_id st1 = fresh"
      by (auto simp: owner_at_def arb_identity_def split: if_splits)
    have "ar_accepted (fst (receive_command_from Src_task now (ms_task_id spec) fresh st1))"
      using receive_command_owner [OF ok1, of Src_task now "ms_task_id spec" fresh] o assms(2,3,4) by (simp add: spec_ok_def)
    with True rec f a assms(3,4) show ?thesis
      by (simp add: task_start_was_accepted_def active_task_lease_def task_state_has_identity_def last_is_start_of_def
          published_fields control_recorded_def)
  next
    case False
    with rec a show ?thesis
      by (simp add: task_start_was_rejected_def last_is_start_of_def published_fields control_recorded_def)
  qed
qed

definition idle_arbiter :: command_arbitrator where
  "idle_arbiter = arb_init 1 1 5 16"

definition started :: "arbitration_result \<times> command_arbitrator" where
  "started = send_control ''start'' 0 demo_spec '''' ''L1'' idle_arbiter"

lemma demo_handshake: "arb_ok idle_arbiter" "spec_ok demo_spec" "py_strip ''L1'' = ''L1''" "ar_accepted (fst started)"
  by (simp add: idle_arbiter_def arb_init_ok) (rule normalize_ok [OF demo_goal_spec], code_simp+)

theorem start_is_answered_witness:
  "task_start_was_accepted (Some (published_state 0 (snd started))) demo_spec"
proof -
  have "send_control ''start'' 0 demo_spec '''' ''L1'' idle_arbiter = (fst started, snd started)" by (simp add: started_def)
  from start_is_answered [OF demo_handshake(1,2,3) _ this] demo_handshake(4) show ?thesis by simp
qed

text \<open>
  The end of a task is answered as the controller expects: while its lease is live, a finish or a
  cancel under it is accepted, the published task state is read as the terminal state of this task with
  the status \<open>finished\<close> or \<open>cancelled\<close>, and the lease admits no further command.
\<close>

theorem end_is_answered:
  assumes "arb_ok st" "spec_ok spec" "py_strip lease = lease" "lease \<noteq> ''''"
    and "owner_at now st = Owner_task (ms_task_id spec, ms_trace_id spec, ms_session_id spec) lease"
    and "send_control (if done then ''finish'' else ''cancel'') now spec lease fresh st = (r, st1)"
  shows "ar_accepted r
    \<and> terminal_task_status (Some (published_state now st1)) spec = (if done then ''finished'' else ''cancelled'')
    \<and> \<not> ar_accepted (fst (receive_command_from Src_task now (ms_task_id spec) lease st1))"
proof -
  define action where "action = (if done then ''finish'' else ''cancel'')"
  have a: "norm_text action = action" "action \<in> {''finish'', ''cancel''}" by (cases "done"; simp add: action_def; code_simp)+
  have run: "send_control action now spec lease fresh st = (r, st1)" using assms(6) by (simp add: action_def)
  note rec = control_is_recorded [OF assms(1,2) a(1) run]
  have ok1: "arb_ok st1" using receive_task_control_ok [OF assms(1)] run by (metis send_control_def snd_conv)
  have acc: "ar_accepted r" and own: "owner_at now st1 = Owner_none"
    using send_control_owner [OF assms(1,2) a(1) run] assms(3,4,5) a(2) spec_identity_full [OF assms(2)]
    by (auto simp: Let_def spec_task_control_def TASK_CONTROL_ACTIONS_def split: if_splits)
  have nact: "\<not> is_task_control_active now st1" "\<not> estop_active st1" using own by (auto simp: owner_at_def split: if_splits)
  have lc: "arb_identity st1 = arb_identity st" "arb_task_lease_id st1 = ''''"
    using end_clears [OF assms(2) a run acc] by simp_all
  have idn: "arb_identity st = (ms_task_id spec, ms_trace_id spec, ms_session_id spec)"
    using assms(5) by (auto simp: owner_at_def split: if_splits)
  have no: "\<not> ar_accepted (fst (receive_command_from Src_task now (ms_task_id spec) lease st1))"
    using receive_command_owner [OF ok1, of Src_task now "ms_task_id spec" lease] own by simp
  have status: "task_status now (refresh_mode now st1) = (if done then ''finished'' else ''cancelled'')"
    using rec acc nact by (simp add: task_status_def refresh_keeps_last control_recorded_def action_def)
  have "norm_text ''finished'' = ''finished''" "norm_text ''cancelled'' = ''cancelled''" by code_simp+
  then have "terminal_task_status (Some (published_state now st1)) spec = (if done then ''finished'' else ''cancelled'')"
    using rec(1) nact lc idn status
    by (simp add: terminal_task_status_def task_state_has_identity_def published_fields terminal_task_statuses_def arb_identity_def Let_def)
  with acc no show ?thesis by blast
qed

lemma started_ok: "arb_ok (snd started)"
  using receive_task_control_ok [OF demo_handshake(1)] by (simp add: started_def send_control_def)

theorem end_is_answered_witness:
  "terminal_task_status (Some (published_state 1 (snd (send_control ''finish'' 1 demo_spec ''L1'' ''L2'' (snd started))))) demo_spec = ''finished''"
proof -
  have own: "owner_at 1 (snd started) = Owner_task (ms_task_id demo_spec, ms_trace_id demo_spec, ms_session_id demo_spec) ''L1''"
    by code_simp
  have run: "send_control (if True then ''finish'' else ''cancel'') 1 demo_spec ''L1'' ''L2'' (snd started)
      = (fst (send_control ''finish'' 1 demo_spec ''L1'' ''L2'' (snd started)), snd (send_control ''finish'' 1 demo_spec ''L1'' ''L2'' (snd started)))"
    by simp
  from end_is_answered [OF started_ok demo_handshake(2,3) _ own run] show ?thesis by simp
qed

end
