(* ===== verification/Parallel_Mechanism.thy ===== *)
theory Parallel_Mechanism
  imports Py_Float
begin

text \<open>
  The kinematics of the parallel ankle mechanism, \<open>parallel_3dof_controller/tdpm.py\<close>, over the reals:
  the rotation matrix and its derivatives, forward kinematics, the constraint equations with their
  Jacobian, the velocities, and the Newton iteration. A vector is a triple, a matrix the triple of its
  rows, and a 3x3 array of points the list of its three columns. A division by a rod of length zero and
  the root of a negative number are the float NaN, as in numpy. The solver of linear systems is a
  parameter of the Newton iteration; the variant built on \<open>scipy\<close> is left out. Rounding is not modelled.
\<close>

section \<open>Vectors and matrices\<close>

type_synonym vec3 = "real \<times> real \<times> real"
type_synonym mat3 = "vec3 \<times> vec3 \<times> vec3"

fun dot :: "vec3 \<Rightarrow> vec3 \<Rightarrow> real" where
  "dot (a, b, c) (x, y, z) = a * x + b * y + c * z"

fun vec_add :: "vec3 \<Rightarrow> vec3 \<Rightarrow> vec3" where
  "vec_add (a, b, c) (x, y, z) = (a + x, b + y, c + z)"

fun vec_sub :: "vec3 \<Rightarrow> vec3 \<Rightarrow> vec3" where
  "vec_sub (a, b, c) (x, y, z) = (a - x, b - y, c - z)"

fun vec_scale :: "real \<Rightarrow> vec3 \<Rightarrow> vec3" where
  "vec_scale k (x, y, z) = (k * x, k * y, k * z)"

definition vec_norm :: "vec3 \<Rightarrow> real" where
  "vec_norm v = sqrt (dot v v)"

fun mat_vec :: "mat3 \<Rightarrow> vec3 \<Rightarrow> vec3" where
  "mat_vec (r1, r2, r3) v = (dot r1 v, dot r2 v, dot r3 v)"

fun transpose3 :: "mat3 \<Rightarrow> mat3" where
  "transpose3 ((a, b, c), (d, e, f), (g, h, i)) = ((a, d, g), (b, e, h), (c, f, i))"

definition mat_mul :: "mat3 \<Rightarrow> mat3 \<Rightarrow> mat3" where
  "mat_mul M N = (let (c1, c2, c3) = transpose3 N in transpose3 (mat_vec M c1, mat_vec M c2, mat_vec M c3))"

fun mat_add :: "mat3 \<Rightarrow> mat3 \<Rightarrow> mat3" where
  "mat_add (a, b, c) (x, y, z) = (vec_add a x, vec_add b y, vec_add c z)"

fun mat_scale :: "real \<Rightarrow> mat3 \<Rightarrow> mat3" where
  "mat_scale k (a, b, c) = (vec_scale k a, vec_scale k b, vec_scale k c)"

definition mat_id :: mat3 where
  "mat_id = ((1, 0, 0), (0, 1, 0), (0, 0, 1))"

fun det3 :: "mat3 \<Rightarrow> real" where
  "det3 ((a, b, c), (d, e, f), (g, h, i)) = a * (e * i - f * h) - b * (d * i - f * g) + c * (d * h - e * g)"

section \<open>The mechanism\<close>

record mechanism =
  me_l0 :: real
  me_l1 :: real
  me_l2 :: real

definition platform_points :: "real \<Rightarrow> real \<Rightarrow> vec3 list" where
  "platform_points l0 z = [(0, - l0, z), (- (sqrt 3 / 2) * l0, l0 / 2, z), (sqrt 3 / 2 * l0, l0 / 2, z)]"

text \<open>\<open>Mu\<close> and \<open>Nu\<close>, the fixed and the moving platform.\<close>

definition fixed_points :: "mechanism \<Rightarrow> vec3 list" where
  "fixed_points me = platform_points (me_l0 me) (- me_l1 me)"

definition moving_points :: "mechanism \<Rightarrow> vec3 list" where
  "moving_points me = platform_points (me_l0 me) (me_l2 me)"

type_synonym pose = vec3   \<comment> \<open>roll, pitch, yaw\<close>

fun rotation_matrix :: "pose \<Rightarrow> mat3" where
  "rotation_matrix (r, p, y) =
     ((cos y * cos p, cos y * sin p * sin r - sin y * cos r, cos y * sin p * cos r + sin y * sin r),
      (sin y * cos p, sin y * sin p * sin r + cos y * cos r, sin y * sin p * cos r - cos y * sin r),
      (- sin p, cos p * sin r, cos p * cos r))"

fun rotation_dr :: "pose \<Rightarrow> mat3" where
  "rotation_dr (r, p, y) =
     ((0, cos y * sin p * cos r + sin y * sin r, - cos y * sin p * sin r + sin y * cos r),
      (0, sin y * sin p * cos r - cos y * sin r, - sin y * sin p * sin r - cos y * cos r),
      (0, cos p * cos r, - cos p * sin r))"

fun rotation_dp :: "pose \<Rightarrow> mat3" where
  "rotation_dp (r, p, y) =
     ((- cos y * sin p, cos y * cos p * sin r, cos y * cos p * cos r),
      (- sin y * sin p, sin y * cos p * sin r, sin y * cos p * cos r),
      (- cos p, - sin p * sin r, - sin p * cos r))"

fun rotation_dy :: "pose \<Rightarrow> mat3" where
  "rotation_dy (r, p, y) =
     ((- sin y * cos p, - sin y * sin p * sin r - cos y * cos r, - sin y * sin p * cos r + cos y * sin r),
      (cos y * cos p, cos y * sin p * sin r - sin y * cos r, cos y * sin p * cos r + sin y * sin r),
      (0, 0, 0))"

fun skew_symmetric :: "vec3 \<Rightarrow> mat3" where
  "skew_symmetric (a, b, c) = ((0, - c, b), (c, 0, - a), (- b, a, 0))"

section \<open>Forward kinematics\<close>

text \<open>The rotation of the moving platform, with the extra turn \<open>mu_z\<close> about its own normal.\<close>

definition platform_rotation :: "pose \<Rightarrow> real \<Rightarrow> mat3" where
  "platform_rotation mu mu_z =
     (let R = rotation_matrix mu
      in if mu_z = 0 then R
         else let K = skew_symmetric (mat_vec R (0, 0, 1));
                  turn = mat_add (mat_add mat_id (mat_scale (sin mu_z) K)) (mat_scale (1 - cos mu_z) (mat_mul K K))
              in mat_mul turn R)"

definition clip :: "real \<Rightarrow> real \<Rightarrow> real \<Rightarrow> real" where
  "clip lo hi x = min hi (max lo x)"

text \<open>The angle between a rod and a direction; its length is zero in a singular pose.\<close>

definition angle_to :: "vec3 \<Rightarrow> vec3 \<Rightarrow> py_float" where
  "angle_to rod axis =
     (if vec_norm rod = 0 then NaN else Fin (arccos (clip (-1) 1 (dot (vec_scale (1 / vec_norm rod) rod) axis))))"

definition angle_from_plane :: "vec3 \<Rightarrow> vec3 \<Rightarrow> py_float" where
  "angle_from_plane rod normal = (case angle_to rod normal of Fin a \<Rightarrow> Fin (pi / 2 - a) | x \<Rightarrow> x)"

record kinematics =
  ki_points :: "vec3 list"
  ki_rod_lengths :: "real list"
  ki_n_beta :: vec3
  ki_ol2 :: vec3
  ki_phi :: "py_float list"
  ki_theta :: "py_float list"

definition rods :: "mechanism \<Rightarrow> pose \<Rightarrow> real \<Rightarrow> vec3 list" where
  "rods me mu mu_z =
     map (\<lambda>(eta, gamma). vec_sub (mat_vec (platform_rotation mu mu_z) eta) gamma) (zip (moving_points me) (fixed_points me))"

definition forward_kinematics :: "mechanism \<Rightarrow> pose \<Rightarrow> real \<Rightarrow> kinematics" where
  "forward_kinematics me mu mu_z =
     (let n_beta = mat_vec (rotation_matrix mu) (0, 0, 1); rs = rods me mu mu_z
      in \<lparr>ki_points = map (mat_vec (platform_rotation mu mu_z)) (moving_points me),
          ki_rod_lengths = map vec_norm rs, ki_n_beta = n_beta, ki_ol2 = vec_scale (me_l2 me) n_beta,
          ki_phi = map (\<lambda>rod. angle_to rod (0, 0, 1)) rs, ki_theta = map (\<lambda>rod. angle_from_plane rod n_beta) rs\<rparr>)"

section \<open>Constraints, Jacobian and velocities\<close>

definition constraint_equations :: "mechanism \<Rightarrow> pose \<Rightarrow> real list" where
  "constraint_equations me mu =
     map (\<lambda>(eta, gamma). dot (vec_sub (mat_vec (rotation_matrix mu) eta) gamma) gamma)
       (zip (moving_points me) (fixed_points me))"

text \<open>A row of the Jacobian holds \<open>eta.T @ dR.T @ gamma\<close> for the three angles.\<close>

definition compute_jacobian :: "mechanism \<Rightarrow> pose \<Rightarrow> vec3 list" where
  "compute_jacobian me mu =
     map (\<lambda>(eta, gamma). (dot eta (mat_vec (transpose3 (rotation_dr mu)) gamma),
                          dot eta (mat_vec (transpose3 (rotation_dp mu)) gamma),
                          dot eta (mat_vec (transpose3 (rotation_dy mu)) gamma)))
       (zip (moving_points me) (fixed_points me))"

fun velocity_kinematics :: "mechanism \<Rightarrow> pose \<Rightarrow> vec3 \<Rightarrow> real list \<times> vec3 list" where
  "velocity_kinematics me mu (dr, dp, dy) =
     (let R_dot = mat_add (mat_add (mat_scale dr (rotation_dr mu)) (mat_scale dp (rotation_dp mu))) (mat_scale dy (rotation_dy mu))
      in (map (\<lambda>row. dot row (dr, dp, dy)) (compute_jacobian me mu), map (mat_vec R_dot) (moving_points me)))"

definition list_norm :: "real list \<Rightarrow> real" where
  "list_norm xs = sqrt (sum_list (map (\<lambda>x. x\<^sup>2) xs))"

text \<open>\<open>verify_constraints\<close>: satisfied, the norm, and each rod by itself.\<close>

definition verify_constraints :: "mechanism \<Rightarrow> pose \<Rightarrow> real \<Rightarrow> bool \<times> real \<times> bool list" where
  "verify_constraints me mu tol =
     (let F = constraint_equations me mu in (list_norm F < tol, list_norm F, map (\<lambda>f. \<bar>f\<bar> < tol) F))"

definition theoretical_rod_length :: "mechanism \<Rightarrow> py_float" where
  "theoretical_rod_length me =
     (let d = (me_l2 me)\<^sup>2 - (me_l1 me)\<^sup>2 in if d < 0 then NaN else Fin (sqrt d))"

definition verify_rod_lengths :: "mechanism \<Rightarrow> pose \<Rightarrow> real \<Rightarrow> bool" where
  "verify_rod_lengths me mu tol =
     (case theoretical_rod_length me of
        Fin s \<Rightarrow> list_all (\<lambda>l. \<bar>l - s\<bar> < tol) (ki_rod_lengths (forward_kinematics me mu 0))
      | _ \<Rightarrow> False)"

section \<open>The Newton iteration\<close>

fun clip_pose :: "pose \<Rightarrow> pose" where
  "clip_pose (r, p, y) = (clip (- pi / 6) (pi / 6) r, clip (- pi / 6) (pi / 6) p, clip (- pi / 6) (pi / 6) y)"

text \<open>
  \<open>solve J b\<close> is \<open>np.linalg.solve\<close> or, when the matrix is singular, the pseudo-inverse applied to \<open>b\<close>. The
  result is the pose, the number of iterations and whether it converged.
\<close>

fun newton_loop :: "(vec3 list \<Rightarrow> real list \<Rightarrow> vec3) \<Rightarrow> mechanism \<Rightarrow> real \<Rightarrow> nat \<Rightarrow> nat \<Rightarrow> pose \<Rightarrow> pose \<times> nat \<times> bool" where
  "newton_loop solve me tol iteration 0 mu = (mu, iteration, False)"
| "newton_loop solve me tol iteration (Suc left) mu =
     (let F = constraint_equations me mu
      in if list_norm F < tol then (mu, iteration, True)
         else newton_loop solve me tol (Suc iteration) left
                (clip_pose (vec_add mu (solve (compute_jacobian me mu) (map uminus F)))))"

definition inverse_kinematics_newton ::
    "(vec3 list \<Rightarrow> real list \<Rightarrow> vec3) \<Rightarrow> mechanism \<Rightarrow> pose \<Rightarrow> nat \<Rightarrow> real \<Rightarrow> kinematics \<times> pose \<times> nat \<times> bool" where
  "inverse_kinematics_newton solve me mu_init max_iter tol =
     (let r = newton_loop solve me tol 0 max_iter mu_init in (forward_kinematics me (fst r) 0, r))"

section \<open>Rotations\<close>

lemma sin_cos_1: "cos x * cos x = 1 - sin x * sin (x :: real)"
  using sin_cos_squared_add [of x] by (simp add: power2_eq_square)

text \<open>The polynomial identities of a rotation hold for any cosines and sines.\<close>

lemma orthogonal_poly:
  fixes a b c d e f cr sr cp sp cy sy :: real
  assumes "cr * cr + sr * sr = 1" "cp * cp + sp * sp = 1" "cy * cy + sy * sy = 1"
  shows "(cy * cp * a + (cy * sp * sr - sy * cr) * b + (cy * sp * cr + sy * sr) * c)
       * (cy * cp * d + (cy * sp * sr - sy * cr) * e + (cy * sp * cr + sy * sr) * f)
     + (sy * cp * a + (sy * sp * sr + cy * cr) * b + (sy * sp * cr - cy * sr) * c)
       * (sy * cp * d + (sy * sp * sr + cy * cr) * e + (sy * sp * cr - cy * sr) * f)
     + (- sp * a + cp * sr * b + cp * cr * c) * (- sp * d + cp * sr * e + cp * cr * f) = a * d + b * e + c * f"
  using assms by algebra

lemma det_poly:
  fixes cr sr cp sp cy sy :: real
  assumes "cr * cr + sr * sr = 1" "cp * cp + sp * sp = 1" "cy * cy + sy * sy = 1"
  shows "det3 ((cy * cp, cy * sp * sr - sy * cr, cy * sp * cr + sy * sr),
      (sy * cp, sy * sp * sr + cy * cr, sy * sp * cr - cy * sr), (- sp, cp * sr, cp * cr)) = 1"
  unfolding det3.simps using assms by algebra

lemma rotation_orthogonal: "dot (mat_vec (rotation_matrix mu) u) (mat_vec (rotation_matrix mu) v) = dot u v"
proof -
  obtain r p y a b c d e f where eq: "mu = (r, p, y)" "u = (a, b, c)" "v = (d, e, f)" by (cases mu; cases u; cases v)
  show ?thesis unfolding eq rotation_matrix.simps mat_vec.simps dot.simps
    by (rule orthogonal_poly) (simp_all add: sin_cos_1)
qed

lemma rotation_det: "det3 (rotation_matrix mu) = 1"
proof -
  obtain r p y where eq: "mu = (r, p, y)" by (cases mu)
  show ?thesis unfolding eq rotation_matrix.simps by (rule det_poly) (simp_all add: sin_cos_1)
qed

lemma dot_commute: "dot u v = dot v u"
  by (cases u; cases v) simp

lemma dot_transpose: "dot u (mat_vec (transpose3 M) v) = dot (mat_vec M u) v"
  by (cases M; cases u; cases v) (auto simp: algebra_simps)

lemma dot_sub_left: "dot (vec_sub a b) c = dot a c - dot b c"
  by (cases a; cases b; cases c) (simp add: algebra_simps)

lemma dot_sub_right: "dot c (vec_sub a b) = dot c a - dot c b"
  by (cases a; cases b; cases c) (simp add: algebra_simps)

lemma points_norm: "\<And>v. v \<in> set (platform_points l0 z) \<Longrightarrow> dot v v = l0\<^sup>2 + z\<^sup>2"
  by (auto simp: platform_points_def power2_eq_square field_simps)

section \<open>Derivatives\<close>

fun mat_has_derivative :: "(real \<Rightarrow> mat3) \<Rightarrow> mat3 \<Rightarrow> real \<Rightarrow> bool" where
  "mat_has_derivative R D x = (\<forall>u v. ((\<lambda>t. dot (mat_vec (R t) u) v) has_real_derivative dot (mat_vec D u) v) (at x))"

lemma rotation_derivatives:
  "mat_has_derivative (\<lambda>r. rotation_matrix (r, p, y)) (rotation_dr (r, p, y)) r"
  "mat_has_derivative (\<lambda>p. rotation_matrix (r, p, y)) (rotation_dp (r, p, y)) p"
  "mat_has_derivative (\<lambda>y. rotation_matrix (r, p, y)) (rotation_dy (r, p, y)) y"
  by (auto intro!: derivative_eq_intros simp: algebra_simps)

text \<open>Along a path of poses, all three angles moving.\<close>

lemma rotation_path:
  assumes [derivative_intros]: "(r has_real_derivative dr) (at t)" "(p has_real_derivative dp) (at t)" "(y has_real_derivative dy) (at t)"
  shows "((\<lambda>t. dot (mat_vec (rotation_matrix (r t, p t, y t)) u) v) has_real_derivative
     dot (mat_vec (mat_add (mat_add (mat_scale dr (rotation_dr (r t, p t, y t))) (mat_scale dp (rotation_dp (r t, p t, y t))))
       (mat_scale dy (rotation_dy (r t, p t, y t)))) u) v) (at t)"
proof -
  obtain a b c d e f where eq: "u = (a, b, c)" "v = (d, e, f)" by (cases u; cases v)
  show ?thesis unfolding eq
    by (auto intro!: derivative_eq_intros assms simp: algebra_simps)
qed

declare rotation_matrix.simps [simp del] rotation_dr.simps [simp del] rotation_dp.simps [simp del] rotation_dy.simps [simp del]

lemma mat_vec_combination:
  "dot (mat_vec (mat_add (mat_add (mat_scale a A) (mat_scale b B)) (mat_scale c C)) u) v
     = a * dot (mat_vec A u) v + b * dot (mat_vec B u) v + c * dot (mat_vec C u) v"
  by (cases A; cases B; cases C; cases u; cases v) (auto simp: algebra_simps)

lemma platform_length [simp]: "length (platform_points l0 z) = 3"
  by (simp add: platform_points_def)

lemma points_length [simp]: "length (moving_points me) = 3" "length (fixed_points me) = 3"
  by (simp_all add: moving_points_def fixed_points_def)

lemma constraint_nth:
  "i < 3 \<Longrightarrow> constraint_equations me mu ! i =
     dot (mat_vec (rotation_matrix mu) (moving_points me ! i)) (fixed_points me ! i) - dot (fixed_points me ! i) (fixed_points me ! i)"
  by (simp add: constraint_equations_def dot_sub_left)

lemma jacobian_row:
  "i < 3 \<Longrightarrow> dot (compute_jacobian me mu ! i) (dr, dp, dy) =
     dr * dot (mat_vec (rotation_dr mu) (moving_points me ! i)) (fixed_points me ! i)
     + dp * dot (mat_vec (rotation_dp mu) (moving_points me ! i)) (fixed_points me ! i)
     + dy * dot (mat_vec (rotation_dy mu) (moving_points me ! i)) (fixed_points me ! i)"
  by (simp add: compute_jacobian_def dot_transpose mult.commute)

section \<open>Rods\<close>

lemma rods_length [simp]: "length (rods me mu z) = 3" "length (constraint_equations me mu) = 3"
  by (simp_all add: rods_def constraint_equations_def)

lemma dot_self: "0 \<le> dot v v"
  by (cases v) (simp add: add_nonneg_nonneg)

lemma vec_norm_square: "(vec_norm v)\<^sup>2 = dot v v"
  by (simp add: vec_norm_def dot_self)

lemma rods_nth: "i < 3 \<Longrightarrow> rods me mu 0 ! i = vec_sub (mat_vec (rotation_matrix mu) (moving_points me ! i)) (fixed_points me ! i)"
  by (simp add: rods_def platform_rotation_def Let_def)

lemma moving_norm: "i < 3 \<Longrightarrow> dot (moving_points me ! i) (moving_points me ! i) = (me_l0 me)\<^sup>2 + (me_l2 me)\<^sup>2"
  by (rule points_norm [of _ _ "me_l2 me"]) (metis moving_points_def nth_mem points_length(1))

lemma fixed_norm: "i < 3 \<Longrightarrow> dot (fixed_points me ! i) (fixed_points me ! i) = (me_l0 me)\<^sup>2 + (me_l1 me)\<^sup>2"
  using points_norm [of "fixed_points me ! i" "me_l0 me" "- me_l1 me"] nth_mem [of i "fixed_points me"] by (simp add: fixed_points_def)

lemma rod_square:
  assumes "i < 3"
  shows "dot (rods me mu 0 ! i) (rods me mu 0 ! i) = (me_l2 me)\<^sup>2 - (me_l1 me)\<^sup>2 - 2 * constraint_equations me mu ! i"
  using assms
  by (simp add: rods_nth constraint_nth dot_sub_left dot_sub_right rotation_orthogonal moving_norm fixed_norm
      dot_commute [of "fixed_points me ! i" "mat_vec _ _"])

definition default_mechanism :: mechanism where
  "default_mechanism = \<lparr>me_l0 = 1 / 50, me_l1 = 1 / 50, me_l2 = 1 / 50\<rparr>"

lemma norm_bounds:
  assumes "list_norm xs < tol" "x \<in> set xs"
  shows "\<bar>x\<bar> < tol"
proof -
  have "x\<^sup>2 \<le> sum_list (map (\<lambda>x. x\<^sup>2) xs)" using assms(2)
    by (intro member_le_sum_list) auto
  then have "sqrt (x\<^sup>2) \<le> list_norm xs" unfolding list_norm_def by (rule real_sqrt_le_mono)
  with assms(1) show ?thesis by simp
qed

lemma clip_pose_idem [simp]: "clip_pose (clip_pose q) = clip_pose q"
  by (cases q) (auto simp: clip_def)

lemma clip_bounds: "lo \<le> hi \<Longrightarrow> lo \<le> clip lo hi x \<and> clip lo hi x \<le> hi"
  by (auto simp: clip_def)

lemma clip_pose_bounds: "clip_pose mu = (r, p, y) \<Longrightarrow> \<bar>r\<bar> \<le> pi / 6 \<and> \<bar>p\<bar> \<le> pi / 6 \<and> \<bar>y\<bar> \<le> pi / 6"
proof -
  have "\<bar>clip (- pi / 6) (pi / 6) x\<bar> \<le> pi / 6" for x
    using clip_bounds [of "- pi / 6" "pi / 6" x] pi_gt_zero by linarith
  then show "clip_pose mu = (r, p, y) \<Longrightarrow> \<bar>r\<bar> \<le> pi / 6 \<and> \<bar>p\<bar> \<le> pi / 6 \<and> \<bar>y\<bar> \<le> pi / 6"
    by (cases mu) auto
qed

lemma newton_loop_sound:
  "newton_loop solve me tol n left mu = (mu', n', ok) \<Longrightarrow>
     n \<le> n' \<and> n' \<le> n + left \<and> (ok \<longrightarrow> list_norm (constraint_equations me mu') < tol) \<and> (\<not> ok \<longrightarrow> n' = n + left)
     \<and> (n' = n \<longrightarrow> mu' = mu) \<and> (n < n' \<longrightarrow> clip_pose mu' = mu')"
proof (induction solve me tol n left mu rule: newton_loop.induct)
  case (2 solve me tol n left mu)
  show ?case
  proof (cases "list_norm (constraint_equations me mu) < tol")
    case False
    define nu where "nu = clip_pose (vec_add mu (solve (compute_jacobian me mu) (map uminus (constraint_equations me mu))))"
    have run: "newton_loop solve me tol (Suc n) left nu = (mu', n', ok)" using 2(2) False by (simp add: nu_def Let_def)
    from 2(1) [OF refl False run [unfolded nu_def]]
    have ih: "Suc n \<le> n' \<and> n' \<le> Suc n + left \<and> (ok \<longrightarrow> list_norm (constraint_equations me mu') < tol) \<and> (\<not> ok \<longrightarrow> n' = Suc n + left)
      \<and> (n' = Suc n \<longrightarrow> mu' = nu) \<and> (Suc n < n' \<longrightarrow> clip_pose mu' = mu')"
      by (simp add: nu_def)
    have "clip_pose nu = nu" by (simp add: nu_def)
    with ih show ?thesis by (cases "n' = Suc n") auto
  qed (use 2 in \<open>auto simp: Let_def\<close>)
qed auto

section \<open>Properties\<close>

text \<open>
  The rotation matrix is a rotation: it keeps every scalar product and has determinant 1, so the
  moving platform keeps its shape in every pose.
\<close>

theorem rotation_is_rigid:
  "dot (mat_vec (rotation_matrix mu) u) (mat_vec (rotation_matrix mu) v) = dot u v \<and> det3 (rotation_matrix mu) = 1"
  by (simp add: rotation_orthogonal rotation_det)

text \<open>
  C32: The velocities are the derivatives: along any differentiable path of the three angles, the
  constraint values change at the rate \<open>F_dot\<close> that the Jacobian gives, and the platform points move with
  the velocities computed from the three derivative matrices.
\<close>

theorem velocities_are_derivatives:
  assumes "(r has_real_derivative dr) (at t)" "(p has_real_derivative dp) (at t)" "(y has_real_derivative dy) (at t)" "i < 3"
  shows "((\<lambda>t. constraint_equations me (r t, p t, y t) ! i) has_real_derivative
        fst (velocity_kinematics me (r t, p t, y t) (dr, dp, dy)) ! i) (at t)
    \<and> ((\<lambda>t. dot (ki_points (forward_kinematics me (r t, p t, y t) 0) ! i) v) has_real_derivative
        dot (snd (velocity_kinematics me (r t, p t, y t) (dr, dp, dy)) ! i) v) (at t)"
proof
  note path = rotation_path [OF assms(1,2,3), of "moving_points me ! i"]
  have len: "length (compute_jacobian me mu) = 3" for mu by (simp add: compute_jacobian_def)
  have "((\<lambda>t. dot (mat_vec (rotation_matrix (r t, p t, y t)) (moving_points me ! i)) (fixed_points me ! i)
        - dot (fixed_points me ! i) (fixed_points me ! i)) has_real_derivative
        dot (compute_jacobian me (r t, p t, y t) ! i) (dr, dp, dy) - 0) (at t)"
    by (intro DERIV_diff DERIV_const) (use path [of "fixed_points me ! i"] assms(4) in \<open>simp add: mat_vec_combination jacobian_row\<close>)
  then show "((\<lambda>t. constraint_equations me (r t, p t, y t) ! i) has_real_derivative
      fst (velocity_kinematics me (r t, p t, y t) (dr, dp, dy)) ! i) (at t)"
    using assms(4) by (simp add: constraint_nth len Let_def)
  show "((\<lambda>t. dot (ki_points (forward_kinematics me (r t, p t, y t) 0) ! i) v) has_real_derivative
      dot (snd (velocity_kinematics me (r t, p t, y t) (dr, dp, dy)) ! i) v) (at t)"
    using path [of v] assms(4) by (simp add: forward_kinematics_def platform_rotation_def Let_def)
qed

theorem velocities_are_derivatives_witness:
  "((\<lambda>t. constraint_equations default_mechanism (t, 2 * t, 0) ! 1) has_real_derivative
     fst (velocity_kinematics default_mechanism (0, 0, 0) (1, 2, 0)) ! 1) (at 0)"
  using velocities_are_derivatives [of "\<lambda>t. t" 1 0 "\<lambda>t. 2 * t" 2 "\<lambda>t. 0" 0 1 default_mechanism "(0, 0, 0)"]
  by (auto intro!: derivative_eq_intros)

text \<open>
  The length of a rod and its constraint are tied: in every pose the square of the length of rod \<open>i\<close>
  is \<open>l2\<^sup>2 - l1\<^sup>2 - 2 F\<^sub>i\<close>; a pose that meets the constraints has exactly the theoretical length.
\<close>

theorem rod_length_follows_constraint:
  "map (\<lambda>l. l\<^sup>2) (ki_rod_lengths (forward_kinematics me mu 0)) =
     map (\<lambda>F. (me_l2 me)\<^sup>2 - (me_l1 me)\<^sup>2 - 2 * F) (constraint_equations me mu)"
  by (rule nth_equalityI) (simp_all add: forward_kinematics_def Let_def vec_norm_square rod_square)

text \<open>
  With the default geometry the constraints hold nowhere: for \<open>l0 = l1 = l2 = 0.02\<close>, the defaults of the
  controller, no pose of the whole workspace passes \<open>verify_constraints\<close> at its tolerance of \<open>1e-6\<close>, so the
  solver warns on every conversion and the angles it returns belong to rods that do not fit.
\<close>

theorem default_geometry_never_fits:
  "\<not> fst (verify_constraints default_mechanism (clip_pose mu) (1 / 10 ^ 6))"
proof
  assume sat: "fst (verify_constraints default_mechanism (clip_pose mu) (1 / 10 ^ 6))"
  obtain r p y where mu: "clip_pose mu = (r, p, y)" by (cases "clip_pose mu")
  from clip_pose_bounds [OF mu] have b: "- (pi / 2) \<le> r" "r \<le> pi / 2" "- (pi / 2) \<le> p" "p \<le> pi / 2"
    using pi_gt_zero by linarith+
  then have "0 \<le> cos r" "0 \<le> cos p" by (simp_all add: cos_ge_zero)
  then have c: "0 \<le> cos p * cos r" by simp
  have small: "\<bar>constraint_equations default_mechanism (r, p, y) ! i\<bar> < 1 / 10 ^ 6" if "i < 3" for i
    using sat that norm_bounds [of "constraint_equations default_mechanism (r, p, y)" "1 / 10 ^ 6"
        "constraint_equations default_mechanism (r, p, y) ! i"]
    by (simp add: verify_constraints_def Let_def mu)
  have short: "snd (snd (rods default_mechanism (r, p, y) 0 ! i)) < 1 / 100" if "i < 3" for i
  proof (rule ccontr)
    assume z: "\<not> snd (snd (rods default_mechanism (r, p, y) 0 ! i)) < 1 / 100"
    obtain u v w where rod: "rods default_mechanism (r, p, y) 0 ! i = (u, v, w)" by (cases "rods default_mechanism (r, p, y) 0 ! i")
    with z have "(1 / 100)\<^sup>2 \<le> w\<^sup>2" by (intro power_mono) auto
    moreover have "w\<^sup>2 \<le> dot (u, v, w) (u, v, w)" by (simp add: power2_eq_square)
    moreover have "dot (u, v, w) (u, v, w) = - 2 * constraint_equations default_mechanism (r, p, y) ! i"
      using rod_square [OF that, of default_mechanism "(r, p, y)"] unfolding rod
      by (simp only: default_mechanism_def mechanism.simps)
    moreover have "- constraint_equations default_mechanism (r, p, y) ! i < 1 / 1000000"
      using small [OF that] unfolding abs_less_iff by simp
    moreover have "(1 / 100)\<^sup>2 = (1 / 10000 :: real)" by (simp add: power2_eq_square)
    ultimately show False by linarith
  qed
  have "snd (snd (rods default_mechanism (r, p, y) 0 ! 0)) + snd (snd (rods default_mechanism (r, p, y) 0 ! 1))
      + snd (snd (rods default_mechanism (r, p, y) 0 ! 2)) = 3 * (cos p * cos r / 50 + 1 / 50)"
    by (simp add: rods_nth moving_points_def fixed_points_def platform_points_def default_mechanism_def rotation_matrix.simps algebra_simps numeral_2_eq_2)
  with short [of 0] short [of 1] short [of 2] c show False by simp
qed

text \<open>
  The Newton iteration ends after at most \<open>max_iter\<close> rounds whatever the linear solver returns; it
  reports convergence only for a pose that passes the constraint check at its tolerance, otherwise it used
  all its rounds, and every pose it has moved to lies in the workspace.
\<close>

theorem newton_is_sound:
  assumes "inverse_kinematics_newton solve me mu_init max_iter tol = (k, mu, n, converged)"
  shows "n \<le> max_iter \<and> (converged \<longrightarrow> fst (verify_constraints me mu tol)) \<and> (\<not> converged \<longrightarrow> n = max_iter)
    \<and> (n = 0 \<longrightarrow> mu = mu_init) \<and> (0 < n \<longrightarrow> clip_pose mu = mu)"
proof -
  have "newton_loop solve me tol 0 max_iter mu_init = (mu, n, converged)"
    using assms by (simp add: inverse_kinematics_newton_def Let_def)
  from newton_loop_sound [OF this] show ?thesis by (simp add: verify_constraints_def Let_def)
qed

theorem newton_is_sound_witness:
  "snd (snd (snd (inverse_kinematics_newton (\<lambda>J b. (0, 0, 0)) default_mechanism (0, 0, 0) 0 1))) = False
    \<and> 0 \<le> (0::nat)"
proof -
  have "inverse_kinematics_newton (\<lambda>J b. (0, 0, 0)) default_mechanism (0, 0, 0) 0 1
    = (forward_kinematics default_mechanism (0, 0, 0) 0, (0, 0, 0), 0, False)"
    by (simp add: inverse_kinematics_newton_def)
  from newton_is_sound [OF this] this show ?thesis by simp
qed

end
