(* ===== verification/Kinematics_Solver.thy ===== *)
theory Kinematics_Solver
  imports Parallel_Mechanism Motion_Controller
begin

text \<open>
  From a pose to servo commands, \<open>parallel_3dof_controller/kinematics_solver.py\<close>: the workspace limits,
  the angles of the rods, the servo groups and the mapping of an angle to a pulse width. The dictionary of
  the configuration is the record \<open>servo_table\<close>; its printed reports are left out. \<open>solve_degrees\<close> is what
  the controller calls, the conversion of its angles to radians included.
\<close>

section \<open>Configuration\<close>

record servo_channel =
  ch_id :: int
  ch_offset :: real
  ch_direction :: int

type_synonym servo_group = "servo_channel \<times> servo_channel \<times> servo_channel"

record servo_table =
  tbl_groups :: "(string \<times> servo_group) list"
  tbl_min_us :: int
  tbl_max_us :: int

record kinematics_solver =
  ks_mechanism :: mechanism
  ks_table :: servo_table

definition plain_channel :: "int \<Rightarrow> servo_channel" where
  "plain_channel i = \<lparr>ch_id = i, ch_offset = 0, ch_direction = 1\<rparr>"

definition default_servo_config :: servo_table where
  "default_servo_config =
     \<lparr>tbl_groups = [(''right_ankle'', (plain_channel 9, plain_channel 10, plain_channel 11)),
                    (''left_ankle'', (plain_channel 12, plain_channel 13, plain_channel 14))],
      tbl_min_us = 500, tbl_max_us = 2500\<rparr>"

text \<open>
  The controller's parameters \<open>servo_ids\<close>, \<open>servo_offsets\<close> and \<open>servo_directions\<close>; without ids the default
  table is used.
\<close>

fun three_channels :: "int list \<Rightarrow> real list \<Rightarrow> int list \<Rightarrow> servo_group result" where
  "three_channels [i1, i2, i3] [o1, o2, o3] [d1, d2, d3] =
     Inr (\<lparr>ch_id = i1, ch_offset = o1, ch_direction = d1\<rparr>, \<lparr>ch_id = i2, ch_offset = o2, ch_direction = d2\<rparr>,
          \<lparr>ch_id = i3, ch_offset = o3, ch_direction = d3\<rparr>)"
| "three_channels ids offsets directions =
     Inl (ValueError (if length ids \<noteq> 3 then ''servo_ids must contain exactly 3 elements''
                      else if length offsets \<noteq> 3 then ''servo_offsets must contain exactly 3 elements''
                      else ''servo_directions must contain exactly 3 elements''))"

definition configured_servos :: "int list \<Rightarrow> real list \<Rightarrow> int list \<Rightarrow> servo_table result" where
  "configured_servos ids offsets directions =
     (if ids = [] then Inr default_servo_config
      else case three_channels ids (if offsets = [] then [0, 0, 0] else offsets) (if directions = [] then [1, 1, 1] else directions) of
             Inl e \<Rightarrow> Inl e
           | Inr grp \<Rightarrow> Inr (default_servo_config\<lparr>tbl_groups := [(''custom'', grp)]\<rparr>))"

section \<open>Conversion\<close>

definition clip_rpy :: "pose \<Rightarrow> pose" where
  "clip_rpy = clip_pose"

definition rpy_to_theta_angles :: "kinematics_solver \<Rightarrow> pose \<Rightarrow> bool \<Rightarrow> py_float list" where
  "rpy_to_theta_angles s mu clip_workspace =
     ki_theta (forward_kinematics (ks_mechanism s) (if clip_workspace then clip_rpy mu else mu) 0)"

definition theta_to_servo_position :: "servo_table \<Rightarrow> servo_channel \<Rightarrow> py_float \<Rightarrow> int result" where
  "theta_to_servo_position tbl ch theta =
     (case theta of
        Fin t \<Rightarrow>
          let adjusted = t * of_int (ch_direction ch) + ch_offset ch;
              position = of_int (tbl_min_us tbl) + (adjusted / (pi / 2)) * of_int (tbl_max_us tbl - tbl_min_us tbl)
          in Inr (py_trunc (clip (of_int (tbl_min_us tbl)) (of_int (tbl_max_us tbl)) position))
      | _ \<Rightarrow> Inl (ValueError ''cannot convert float NaN to integer''))"

definition select_group :: "servo_table \<Rightarrow> string \<Rightarrow> servo_group result" where
  "select_group tbl side =
     (case map_of (tbl_groups tbl) (side @ ''_ankle'') of
        Some grp \<Rightarrow> Inr grp
      | None \<Rightarrow> (case map_of (tbl_groups tbl) side of
                   Some grp \<Rightarrow> Inr grp
                 | None \<Rightarrow> if side = ''position_mapping'' then Inl (KeyError ''servo_1'')
                           else Inl (ValueError ''unknown servo group'')))"

fun build_commands :: "servo_table \<Rightarrow> int \<Rightarrow> (py_float \<times> servo_channel) list \<Rightarrow> solver_command list result" where
  "build_commands tbl duration [] = Inr []"
| "build_commands tbl duration ((theta, ch) # rest) =
     (case theta_to_servo_position tbl ch theta of
        Inl e \<Rightarrow> Inl e
      | Inr pos \<Rightarrow>
          (case build_commands tbl duration rest of
             Inl e \<Rightarrow> Inl e
           | Inr cs \<Rightarrow> Inr (\<lparr>sv_id = ch_id ch, sv_position = pos, sv_duration_ms = duration\<rparr> # cs)))"

definition rpy_to_servo_commands :: "kinematics_solver \<Rightarrow> pose \<Rightarrow> string \<Rightarrow> int \<Rightarrow> solver_command list result" where
  "rpy_to_servo_commands s mu side speed =
     (let thetas = rpy_to_theta_angles s mu True
      in case select_group (ks_table s) side of
           Inl e \<Rightarrow> Inl e
         | Inr (c1, c2, c3) \<Rightarrow> build_commands (ks_table s) speed (zip thetas [c1, c2, c3]))"

definition radians :: "real \<Rightarrow> real" where
  "radians x = x * (pi / 180)"

definition solve_degrees :: "kinematics_solver \<Rightarrow> real \<Rightarrow> real \<Rightarrow> real \<Rightarrow> string \<Rightarrow> int \<Rightarrow> solver_command list result" where
  "solve_degrees s x y z side speed = rpy_to_servo_commands s (radians x, radians y, radians z) side speed"

section \<open>Lemmas\<close>

lemma position_bounds:
  assumes "theta_to_servo_position tbl ch theta = Inr pos" "tbl_min_us tbl \<le> tbl_max_us tbl"
  shows "tbl_min_us tbl \<le> pos \<and> pos \<le> tbl_max_us tbl"
proof -
  obtain x where "pos = py_trunc (clip (of_int (tbl_min_us tbl)) (of_int (tbl_max_us tbl)) x)"
    using assms(1) by (auto simp: theta_to_servo_position_def Let_def split: py_float.splits)
  moreover have "of_int (tbl_min_us tbl) \<le> clip (of_int (tbl_min_us tbl)) (of_int (tbl_max_us tbl)) x
      \<and> clip (of_int (tbl_min_us tbl)) (of_int (tbl_max_us tbl)) x \<le> of_int (tbl_max_us tbl)"
    by (rule clip_bounds) (use assms(2) in simp)
  ultimately show ?thesis using trunc_bounds by blast
qed

lemma build_commands_sound:
  "build_commands tbl duration ts = Inr cs \<Longrightarrow> tbl_min_us tbl \<le> tbl_max_us tbl \<Longrightarrow>
     map sv_id cs = map (ch_id \<circ> snd) ts \<and>
     list_all (\<lambda>c. tbl_min_us tbl \<le> sv_position c \<and> sv_position c \<le> tbl_max_us tbl \<and> sv_duration_ms c = duration) cs"
  by (induction tbl duration ts arbitrary: cs rule: build_commands.induct)
    (auto split: sum.splits dest: position_bounds)

lemma theta_length [simp]: "length (rpy_to_theta_angles s mu c) = 3"
  by (simp add: rpy_to_theta_angles_def forward_kinematics_def Let_def)

definition default_solver :: kinematics_solver where
  "default_solver = \<lparr>ks_mechanism = default_mechanism, ks_table = default_servo_config\<rparr>"

lemma zero_theta: "rpy_to_theta_angles default_solver (0, 0, 0) True = [Fin (pi / 2), Fin (pi / 2), Fin (pi / 2)]"
proof -
  have "clip_pose (0, 0, 0) = (0, 0, 0)" using pi_gt_zero by (simp add: clip_def)
  moreover have "rods default_mechanism (0, 0, 0) 0 = [(0, 0, 1 / 25), (0, 0, 1 / 25), (0, 0, 1 / 25)]"
    by (simp add: rods_def platform_rotation_def rotation_matrix.simps Let_def moving_points_def fixed_points_def
        platform_points_def default_mechanism_def)
  moreover have "vec_norm (0, 0, 1 / 25) = 1 / 25" by (simp add: vec_norm_def power2_eq_square [symmetric])
  ultimately show ?thesis
    by (simp add: rpy_to_theta_angles_def default_solver_def clip_rpy_def forward_kinematics_def angle_from_plane_def
        angle_to_def clip_def rotation_matrix.simps Let_def)
qed

section \<open>Properties\<close>

text \<open>
  C31: Whatever pose is asked for, the three servo commands carry the ids of the selected group in order,
  the requested duration, and a pulse width within the limits of the table.
\<close>

theorem servo_commands_in_range:
  assumes "rpy_to_servo_commands s mu side speed = Inr cs" "tbl_min_us (ks_table s) \<le> tbl_max_us (ks_table s)"
  shows "(\<exists>c1 c2 c3. select_group (ks_table s) side = Inr (c1, c2, c3) \<and> map sv_id cs = [ch_id c1, ch_id c2, ch_id c3])
    \<and> list_all (\<lambda>c. tbl_min_us (ks_table s) \<le> sv_position c \<and> sv_position c \<le> tbl_max_us (ks_table s) \<and> sv_duration_ms c = speed) cs"
proof -
  obtain c1 c2 c3 where g: "select_group (ks_table s) side = Inr (c1, c2, c3)"
    and b: "build_commands (ks_table s) speed (zip (rpy_to_theta_angles s mu True) [c1, c2, c3]) = Inr cs"
    using assms(1) by (auto simp: rpy_to_servo_commands_def Let_def split: sum.splits)
  have "map snd (zip (rpy_to_theta_angles s mu True) [c1, c2, c3]) = [c1, c2, c3]" by (rule map_snd_zip) simp
  then have "map (ch_id \<circ> snd) (zip (rpy_to_theta_angles s mu True) [c1, c2, c3]) = [ch_id c1, ch_id c2, ch_id c3]"
    by (metis list.map_comp list.simps(8,9))
  with g build_commands_sound [OF b assms(2)] show ?thesis by auto
qed

text \<open>
  The neutral pose drives the servos to the end of their range: with the default geometry and table
  the rods stand upright on the platform at roll, pitch and yaw zero, the angle is 90 degrees, and the
  mapping spreads 0 to 90 degrees over the whole pulse range, so all three commands ask for 2500 us.
\<close>

theorem neutral_pose_is_full_scale:
  "rpy_to_servo_commands default_solver (0, 0, 0) ''left'' speed =
     Inr [\<lparr>sv_id = 12, sv_position = 2500, sv_duration_ms = speed\<rparr>, \<lparr>sv_id = 13, sv_position = 2500, sv_duration_ms = speed\<rparr>,
          \<lparr>sv_id = 14, sv_position = 2500, sv_duration_ms = speed\<rparr>]"
  by (simp add: rpy_to_servo_commands_def zero_theta)
    (simp add: default_solver_def default_servo_config_def select_group_def theta_to_servo_position_def plain_channel_def
      clip_def py_trunc_def Let_def)

lemma neutral_commands: "\<exists>cs. rpy_to_servo_commands default_solver (0, 0, 0) ''left'' 200 = Inr cs \<and> length cs = 3"
  by (simp add: rpy_to_servo_commands_def zero_theta)
    (simp add: default_solver_def default_servo_config_def select_group_def theta_to_servo_position_def plain_channel_def
      clip_def py_trunc_def Let_def)

theorem servo_commands_in_range_witness:
  "\<exists>cs. rpy_to_servo_commands default_solver (0, 0, 0) ''left'' 200 = Inr cs \<and> map sv_id cs = [12, 13, 14]"
proof -
  obtain cs where cs: "rpy_to_servo_commands default_solver (0, 0, 0) ''left'' 200 = Inr cs" using neutral_commands by blast
  have "tbl_min_us (ks_table default_solver) \<le> tbl_max_us (ks_table default_solver)"
    by (simp add: default_solver_def default_servo_config_def)
  from servo_commands_in_range [OF cs this] cs show ?thesis
    by (auto simp: default_solver_def default_servo_config_def select_group_def plain_channel_def)
qed

text \<open>
  Configuring custom servos disables the motion action: with \<open>servo_ids\<close> set, the table holds only the
  group \<open>custom\<close>, but a motion goal always asks for the side of its target group, so every valid goal is
  rejected as soon as it executes, whatever the state of the node.
\<close>

theorem custom_servos_reject_every_goal:
  assumes "configured_servos ids offsets directions = Inr tbl" "ids \<noteq> []" "normalize_motion_goal goal = Inr spec"
    and "cf_solve cf = solve_degrees \<lparr>ks_mechanism = me, ks_table = tbl\<rparr>"
  shows "cn_end (motion_begin cf g (motion_job_init goal) m) g = Some End_aborted
    \<and> (\<exists>j. cn_exec (motion_begin cf g (motion_job_init goal) m) g = Some (M_return, j) \<and> mr_status (mj_result j) = ''rejected'')"
proof -
  obtain grp where tbl: "tbl_groups tbl = [(''custom'', grp)]"
    using assms(1,2) by (auto simp: configured_servos_def split: sum.splits if_splits)
  have side: "ms_target_group spec = ''left_ankle'' \<or> ms_target_group spec = ''right_ankle''"
    using normalize_ok [OF assms(3)] by (auto simp: spec_ok_def supported_target_groups_def)
  have "ankle_side_of (ms_target_group spec) = ''left'' \<or> ankle_side_of (ms_target_group spec) = ''right''"
    using side by (auto simp: ankle_side_of_def)
  then have "cf_solve cf x y z (ankle_side_of (ms_target_group spec)) d = Inl (ValueError ''unknown servo group'')" for x y z d
    by (auto simp: assms(4) solve_degrees_def rpy_to_servo_commands_def select_group_def tbl)
  then show ?thesis using assms(3)
    by (auto simp: motion_begin_def motion_job_init_def motion_return_def set_job_def Let_def)
qed

theorem custom_servos_reject_every_goal_witness:
  "\<exists>tbl. configured_servos [1, 2, 3] [] [] = Inr tbl
    \<and> (\<forall>m. cn_end (motion_begin (controller_config_init (solve_degrees \<lparr>ks_mechanism = default_mechanism, ks_table = tbl\<rparr>) False 2 2 1 3 1)
         0 (motion_job_init demo_goal) m) 0 = Some End_aborted)"
proof -
  define tbl where "tbl = default_servo_config\<lparr>tbl_groups := [(''custom'', (plain_channel 1, plain_channel 2, plain_channel 3))]\<rparr>"
  have c: "configured_servos [1, 2, 3] [] [] = Inr tbl"
    by (simp add: configured_servos_def tbl_def plain_channel_def)
  have "cn_end (motion_begin (controller_config_init (solve_degrees \<lparr>ks_mechanism = default_mechanism, ks_table = tbl\<rparr>) False 2 2 1 3 1)
         0 (motion_job_init demo_goal) m) 0 = Some End_aborted" for m
    by (rule conjunct1 [OF custom_servos_reject_every_goal [OF c _ demo_goal_spec]]) (simp_all add: controller_config_init_def)
  with c show ?thesis by blast
qed

end
