(* ===== verification/Py_Result.thy ===== *)
theory Py_Result
  imports Prelude
begin

text \<open>Statements in sequence, each of which may raise, and \<open>except (ValueError, TypeError): return None\<close>.\<close>

fun bind_result :: "'a result \<Rightarrow> ('a \<Rightarrow> 'b result) \<Rightarrow> 'b result" where
  "bind_result (Inl e) f = Inl e"
| "bind_result (Inr x) f = f x"

lemma bind_result_Inr [simp]: "bind_result r f = Inr y \<longleftrightarrow> (\<exists>x. r = Inr x \<and> f x = Inr y)"
  by (cases r) auto

lemma bind_result_Inl: "bind_result r f = Inl e \<longleftrightarrow> r = Inl e \<or> (\<exists>x. r = Inr x \<and> f x = Inl e)"
  by (cases r) auto

fun is_value_error :: "py_error \<Rightarrow> bool" where
  "is_value_error (ValueError m) = True"
| "is_value_error (TypeError m) = True"
| "is_value_error e = False"

definition or_none :: "'a option result \<Rightarrow> 'a option result" where
  "or_none r = (case r of Inl e \<Rightarrow> if is_value_error e then Inr None else Inl e | Inr x \<Rightarrow> Inr x)"

lemma or_none_Some [simp]: "or_none r = Inr (Some x) \<longleftrightarrow> r = Inr (Some x)"
  by (auto simp: or_none_def split: sum.splits)

lemma or_none_raises: "or_none r = Inl e \<Longrightarrow> r = Inl e \<and> \<not> is_value_error e"
  by (auto simp: or_none_def split: sum.splits if_splits)

end
