(* ===== verification/Web_Commands.thy ===== *)
theory Web_Commands
  imports Json_Values Py_Result "HOL-Library.AList"
begin

text \<open>
  \<open>message_handler.py\<close> of the teleoperation bridge: what kind of message a JSON value is, and the
  servo command in it, in any of the formats that clients use (\<open>web_servo\<close>, \<open>{b, c, p}\<close> and the
  long one). \<open>ValueError\<close> and \<open>TypeError\<close> make a message invalid; an infinite number raises
  \<open>OverflowError\<close>, which nothing here catches. Bus positions become pulse widths in microseconds.
\<close>

section \<open>Kinds of message\<close>

datatype message_type =
    M_heartbeat
  | M_servo_control
  | M_teleop_claim
  | M_teleop_release
  | M_broadcast
  | M_private
  | M_register
  | M_register_ack
  | M_status_query
  | M_unknown

definition MESSAGE_TYPES :: "(string \<times> message_type) list" where
  "MESSAGE_TYPES =
     [(''heartbeat'', M_heartbeat), (''servo_control'', M_servo_control), (''teleop_claim'', M_teleop_claim),
      (''teleop_release'', M_teleop_release), (''broadcast'', M_broadcast), (''private'', M_private),
      (''register'', M_register), (''register_ack'', M_register_ack), (''status_query'', M_status_query),
      (''unknown'', M_unknown)]"

text \<open>\<open>MessageType(name)\<close>, \<open>None\<close> for its \<open>ValueError\<close>.\<close>

definition message_type_of :: "string \<Rightarrow> message_type option" where
  "message_type_of name = map_of MESSAGE_TYPES name"

definition get_null :: "string \<Rightarrow> json_object \<Rightarrow> json" where
  "get_null k kvs = jget_or k J_null kvs"

definition has_any :: "string list \<Rightarrow> json_object \<Rightarrow> bool" where
  "has_any ks kvs \<longleftrightarrow> list_ex (\<lambda>k. has_key k kvs) ks"

definition is_servo_control :: "json_object \<Rightarrow> bool" where
  "is_servo_control data =
     (case jget ''web_servo'' data of
        Some (J_object web) \<Rightarrow> has_any [''is_bus_servo'', ''servo_id'', ''channel'', ''position'', ''speed''] web
      | Some v \<Rightarrow> True
      | None \<Rightarrow> has_any [''b'', ''c'', ''p'', ''id'', ''servo_id'', ''channel'', ''angle'', ''position'', ''speed'',
                  ''is_bus_servo''] data)"

text \<open>The type field under one of its three names; \<open>.lower()\<close> raises unless it is a text.\<close>

definition type_field :: "json_object \<Rightarrow> string result" where
  "type_field data =
     (case json_or (get_null ''type'' data) (json_or (get_null ''Type'' data) (json_or (get_null ''TYPE'' data) (J_string ''''))) of
        J_string s \<Rightarrow> Inr (py_strip (py_lower s))
      | _ \<Rightarrow> Inl (AttributeError ''lower''))"

definition inferred_type :: "json_object \<Rightarrow> message_type" where
  "inferred_type data =
     (if is_servo_control data then M_servo_control
      else if has_key ''timestamp'' data \<and> has_key ''status'' data then M_heartbeat
      else M_unknown)"

definition get_message_type :: "json \<Rightarrow> message_type result" where
  "get_message_type v =
     (case v of
        J_object data \<Rightarrow>
          bind_result (type_field data) (\<lambda>name.
            Inr (case message_type_of name of
                   Some t \<Rightarrow> if name = '''' then inferred_type data else t
                 | None \<Rightarrow> inferred_type data))
      | _ \<Rightarrow> Inr M_unknown)"

section \<open>Positions\<close>

definition BUS_MIN_US :: int where "BUS_MIN_US = 500"
definition BUS_MAX_US :: int where "BUS_MAX_US = 2500"

text \<open>\<open>500 + (angle + 90) * (2000 / 180)\<close>, rounded; the quotient is a ninth and never a tie.\<close>

definition centered_angle_to_us :: "int \<Rightarrow> int" where
  "centered_angle_to_us angle = round_half_even (4500 + (clamp (- 90) 90 angle + 90) * 100) 9"

text \<open>
  \<open>int(500 + (angle / 180) * 2000)\<close>, cut off. It is only called for angles from 0 to 180, where the
  quotient in floating point is cut to the same integer as the exact one.
\<close>

definition angle_to_us :: "int \<Rightarrow> int" where
  "angle_to_us angle = clamp BUS_MIN_US BUS_MAX_US (BUS_MIN_US + angle * (BUS_MAX_US - BUS_MIN_US) div 180)"

text \<open>\<open>str(value or '').strip().lower()\<close>, \<open>None\<close> for a text that is no name.\<close>

definition normalize_value_encoding :: "json \<Rightarrow> string option" where
  "normalize_value_encoding v = (if json_truthy v then json_name v else Some '''')"

definition normalize_bus_position :: "json \<Rightarrow> json \<Rightarrow> bool \<Rightarrow> int result" where
  "normalize_bus_position position value_encoding treat_as_raw =
     bind_result (json_int position) (\<lambda>raw.
       if normalize_value_encoding value_encoding = Some ''bus_pulse_us''
       then if BUS_MIN_US \<le> raw \<and> raw \<le> BUS_MAX_US then Inr raw else Inl (ValueError ''bus pulse_us'')
       else if treat_as_raw then Inr (clamp BUS_MIN_US BUS_MAX_US raw)
       else if BUS_MIN_US \<le> raw \<and> raw \<le> BUS_MAX_US then Inr raw
       else if 0 \<le> raw \<and> raw \<le> 180 then Inr (angle_to_us raw)
       else if - 90 \<le> raw \<and> raw < 0 then Inr (centered_angle_to_us raw)
       else Inl (ValueError ''bus position''))"

text \<open>The first candidate that \<open>int\<close> takes and that is positive.\<close>

fun resolve_duration :: "json list \<Rightarrow> int result" where
  "resolve_duration [] = Inr 100"
| "resolve_duration (v # vs) =
     (case json_int v of
        Inl e \<Rightarrow> if is_value_error e then resolve_duration vs else Inl e
      | Inr i \<Rightarrow> if 0 < i then Inr i else resolve_duration vs)"

section \<open>Servo commands\<close>

record web_command =
  wc_servo_type :: string
  wc_servo_id :: int
  wc_position :: int
  wc_value_encoding :: string
  wc_duration_ms :: int
  wc_speed :: int
  wc_port :: int

definition bus_command :: "int \<Rightarrow> int \<Rightarrow> int \<Rightarrow> int \<Rightarrow> web_command" where
  "bus_command sid position duration port =
     \<lparr>wc_servo_type = ''bus'', wc_servo_id = sid, wc_position = position, wc_value_encoding = ''bus_pulse_us'',
      wc_duration_ms = duration, wc_speed = duration, wc_port = port\<rparr>"

definition pca_command :: "int \<Rightarrow> int \<Rightarrow> int \<Rightarrow> int \<Rightarrow> web_command" where
  "pca_command sid position duration port =
     \<lparr>wc_servo_type = ''pca'', wc_servo_id = sid, wc_position = position, wc_value_encoding = ''pca_tick'',
      wc_duration_ms = duration, wc_speed = duration, wc_port = port\<rparr>"

definition parse_bcp_protocol :: "json_object \<Rightarrow> web_command option result" where
  "parse_bcp_protocol data =
     or_none
       (bind_result (json_int (jget_or ''b'' (J_int 0) data)) (\<lambda>b.
        bind_result (json_int (jget_or ''c'' (J_int 0) data)) (\<lambda>c.
        bind_result (json_int (jget_or ''p'' (J_int 0) data)) (\<lambda>p.
        bind_result (json_int (jget_or ''port'' (J_int 0) data)) (\<lambda>port.
        bind_result (resolve_duration [get_null ''duration_ms'' data, get_null ''s'' data]) (\<lambda>duration.
          Inr (if b = - 1 then Some (bus_command c (clamp BUS_MIN_US BUS_MAX_US p) duration port)
               else if b = 0 then Some (pca_command c p duration 0)
               else None)))))))"

definition servo_type_flag :: "json \<Rightarrow> bool option" where
  "servo_type_flag v =
     (if json_name v \<in> {Some ''bus'', Some ''bus_servo''} then Some True
      else if json_name v \<in> {Some ''pca'', Some ''pca_servo'', Some ''pwm''} then Some False
      else None)"

text \<open>\<open>is_bus_servo\<close> as a bool, a number or a text; \<open>None\<close> where it says nothing.\<close>

definition bus_flag :: "json \<Rightarrow> bool option result" where
  "bus_flag v =
     (case v of
        J_bool b \<Rightarrow> Inr (Some b)
      | J_int i \<Rightarrow> Inr (Some (i \<noteq> 0))
      | J_float f \<Rightarrow> bind_result (json_int v) (\<lambda>i. Inr (Some (i \<noteq> 0)))
      | J_string s \<Rightarrow>
          Inr (if norm_text s \<in> {''true'', ''1'', ''yes'', ''y'', ''bus''} then Some True
               else if norm_text s \<in> {''false'', ''0'', ''no'', ''n'', ''pca'', ''pwm''} then Some False
               else None)
      | _ \<Rightarrow> Inr None)"

definition outer_get :: "string \<Rightarrow> json_object option \<Rightarrow> json" where
  "outer_get k outer = (case outer of None \<Rightarrow> J_null | Some kvs \<Rightarrow> get_null k kvs)"

definition web_servo_is_bus :: "json_object \<Rightarrow> json_object option \<Rightarrow> bool option result" where
  "web_servo_is_bus web outer =
     bind_result (bus_flag (get_null ''is_bus_servo'' web)) (\<lambda>flag.
       Inr (case flag of
              Some b \<Rightarrow> Some b
            | None \<Rightarrow> servo_type_flag (if get_null ''servo_type'' web = J_null then outer_get ''servo_type'' outer
                                       else get_null ''servo_type'' web)))"

definition web_servo_command :: "bool \<Rightarrow> json \<Rightarrow> json \<Rightarrow> json_object \<Rightarrow> json_object option \<Rightarrow> web_command option result" where
  "web_servo_command is_bus servo_id position web outer =
     bind_result (resolve_duration [get_null ''duration_ms'' web, jget_or ''speed'' (outer_get ''speed'' outer) web]) (\<lambda>duration.
     bind_result (if is_bus
                  then normalize_bus_position position (json_or (get_null ''value_encoding'' web) (outer_get ''value_encoding'' outer)) False
                  else json_int position) (\<lambda>pos.
     bind_result (json_int servo_id) (\<lambda>sid.
     bind_result (json_int (jget_or ''port'' (J_int 0) web)) (\<lambda>port.
       Inr (Some (if is_bus then bus_command sid pos duration port else pca_command sid pos duration port))))))"

definition parse_web_servo_payload :: "json \<Rightarrow> json_object option \<Rightarrow> web_command option result" where
  "parse_web_servo_payload v outer =
     (case v of
        J_object web \<Rightarrow>
          or_none
            (bind_result (web_servo_is_bus web outer) (\<lambda>flag.
               let servo_id = jget_or ''servo_id'' (get_null ''channel'' web) web;
                   position = jget_or ''position'' (get_null ''angle'' web) web
               in case flag of
                    None \<Rightarrow> Inr None
                  | Some is_bus \<Rightarrow>
                      if servo_id = J_null \<or> position = J_null then Inr None
                      else web_servo_command is_bus servo_id position web outer))
      | _ \<Rightarrow> Inr None)"

text \<open>The first of some keys that is present.\<close>

definition first_key :: "string list \<Rightarrow> json_object \<Rightarrow> (string \<times> json) option" where
  "first_key ks kvs = map_option (\<lambda>k. (k, get_null k kvs)) (find (\<lambda>k. has_key k kvs) ks)"

definition full_format_is_bus :: "json_object \<Rightarrow> bool result" where
  "full_format_is_bus data =
     (let named = (case servo_type_flag (get_null ''servo_type'' data) of Some b \<Rightarrow> b | None \<Rightarrow> True)
      in case jget ''b'' data of
           Some b \<Rightarrow> bind_result (json_int b) (\<lambda>i. Inr (i = - 1))
         | None \<Rightarrow> Inr (if has_any [''servo_id'', ''id'', ''bus_servo''] data then True
                        else if has_any [''channel'', ''c''] data then False
                        else named))"

definition taken_as_raw :: "string \<Rightarrow> json_object \<Rightarrow> bool" where
  "taken_as_raw key data \<longleftrightarrow>
     normalize_value_encoding (get_null ''value_encoding'' data) = Some ''bus_pulse_us''
     \<or> key = ''pulse'' \<or> (key = ''p'' \<and> has_key ''b'' data \<and> json_int (get_null ''b'' data) = Inr (- 1))"

definition full_format_command :: "bool \<Rightarrow> int \<Rightarrow> string \<Rightarrow> int \<Rightarrow> json_object \<Rightarrow> web_command option result" where
  "full_format_command is_bus sid key position data =
     bind_result (resolve_duration [get_null ''duration_ms'' data, get_null ''speed'' data]) (\<lambda>duration.
     bind_result (if is_bus
                  then normalize_bus_position (J_int position) (get_null ''value_encoding'' data) (taken_as_raw key data)
                  else Inr position) (\<lambda>pos.
     bind_result (json_int (jget_or ''port'' (J_int 0) data)) (\<lambda>port.
       Inr (Some (if is_bus then bus_command sid pos duration port else pca_command sid pos duration port)))))"

definition parse_full_format :: "json_object \<Rightarrow> web_command option result" where
  "parse_full_format data =
     or_none
       (bind_result (full_format_is_bus data) (\<lambda>is_bus.
          case first_key [''id'', ''servo_id'', ''c'', ''channel''] data of
            None \<Rightarrow> Inr None
          | Some (_, idv) \<Rightarrow>
              bind_result (json_int idv) (\<lambda>sid.
                case first_key [''position'', ''angle'', ''p'', ''pulse''] data of
                  None \<Rightarrow> Inr None
                | Some (key, pv) \<Rightarrow>
                    bind_result (json_int pv) (\<lambda>position. full_format_command is_bus sid key position data))))"

definition parse_unwrapped :: "json_object \<Rightarrow> web_command option result" where
  "parse_unwrapped data =
     (if has_key ''b'' data \<and> has_key ''c'' data \<and> has_key ''p'' data then parse_bcp_protocol data
      else parse_full_format data)"

definition parse_servo_control :: "json \<Rightarrow> web_command option result" where
  "parse_servo_control v =
     (case v of
        J_object data \<Rightarrow>
          if has_key ''web_servo'' data then parse_web_servo_payload (get_null ''web_servo'' data) (Some data)
          else if has_any [''is_bus_servo'', ''servo_id'', ''position''] data
            then bind_result (parse_web_servo_payload v None) (\<lambda>parsed.
                   case parsed of Some c \<Rightarrow> Inr (Some c) | None \<Rightarrow> parse_unwrapped data)
          else parse_unwrapped data
      | _ \<Rightarrow> Inr None)"

section \<open>Registered handlers\<close>

text \<open>
  The table of callbacks: \<open>register_handler\<close> files them under a text, \<open>process_message\<close> looks under a
  member of the enumeration, which no text equals. A response is the value it prints.
\<close>

datatype handler_key = Key_text string | Key_type message_type

type_synonym web_handler = "json \<Rightarrow> json option"

definition register_handler :: "string \<Rightarrow> web_handler \<Rightarrow> (handler_key \<times> web_handler list) list \<Rightarrow> (handler_key \<times> web_handler list) list" where
  "register_handler name callback table =
     AList.update (Key_text name) ((case map_of table (Key_text name) of None \<Rightarrow> [] | Some cs \<Rightarrow> cs) @ [callback]) table"

fun first_response :: "web_handler list \<Rightarrow> json \<Rightarrow> json option" where
  "first_response [] data = None"
| "first_response (c # cs) data = (case c data of Some r \<Rightarrow> Some r | None \<Rightarrow> first_response cs data)"

definition heartbeat_response :: "string \<Rightarrow> int \<Rightarrow> json" where
  "heartbeat_response device now =
     J_object [(''type'', J_string ''heartbeat''), (''status'', J_string ''online''), (''device_id'', J_string device),
       (''timestamp'', J_int now)]"

definition status_response :: "int \<Rightarrow> json" where
  "status_response now =
     J_object [(''type'', J_string ''status''), (''character_name'', J_string ''robot''),
       (''current_status'', J_object [(''movement_active'', J_bool False), (''listening'', J_bool False),
          (''action'', J_string ''idle''), (''led_state'', J_string ''off'')]),
       (''timestamp'', J_int now), (''result_code'', J_int 200)]"

definition default_handler :: "message_type \<Rightarrow> int \<Rightarrow> json option" where
  "default_handler t now =
     (if t = M_heartbeat then Some (heartbeat_response ''default'' now)
      else if t = M_status_query then Some (status_response now)
      else None)"

definition process_message :: "(handler_key \<times> web_handler list) list \<Rightarrow> json \<Rightarrow> int \<Rightarrow> json option result" where
  "process_message table data now =
     bind_result (get_message_type data) (\<lambda>t.
       case map_of table (Key_type t) of
         Some cs \<Rightarrow> (case first_response cs data of Some r \<Rightarrow> Inr (Some r) | None \<Rightarrow> Inr (default_handler t now))
       | None \<Rightarrow> Inr (default_handler t now))"

section \<open>Facts\<close>

lemma resolve_duration_pos: "resolve_duration vs = Inr d \<Longrightarrow> 0 < d"
  by (induction vs rule: resolve_duration.induct) (auto split: sum.splits if_splits)

declare resolve_duration.simps(2) [simp del]

lemma clamp_bus: "BUS_MIN_US \<le> clamp BUS_MIN_US BUS_MAX_US p" "clamp BUS_MIN_US BUS_MAX_US p \<le> BUS_MAX_US"
  using clamp_bounds [of BUS_MIN_US BUS_MAX_US p] by (simp_all add: BUS_MIN_US_def BUS_MAX_US_def)

lemma centered_angle_range: "BUS_MIN_US \<le> centered_angle_to_us a \<and> centered_angle_to_us a \<le> BUS_MAX_US"
proof -
  have c: "- 90 \<le> clamp (- 90) 90 a" "clamp (- 90) 90 a \<le> 90" using clamp_bounds [of "- 90" 90 a] by simp_all
  have "round_half_even 4500 9 \<le> centered_angle_to_us a" "centered_angle_to_us a \<le> round_half_even 22500 9"
    unfolding centered_angle_to_us_def by (rule round_half_even_mono; use c in simp)+
  then show ?thesis by (simp add: round_half_even_def BUS_MIN_US_def BUS_MAX_US_def)
qed

lemma normalize_bus_position_range:
  "normalize_bus_position position encoding raw = Inr p \<Longrightarrow> BUS_MIN_US \<le> p \<and> p \<le> BUS_MAX_US"
  using clamp_bus centered_angle_range
  by (auto simp: normalize_bus_position_def angle_to_us_def split: if_splits)

definition web_command_ok :: "web_command \<Rightarrow> bool" where
  "web_command_ok c \<longleftrightarrow> 0 < wc_duration_ms c \<and> wc_speed c = wc_duration_ms c
     \<and> (wc_servo_type c = ''bus'' \<and> wc_value_encoding c = ''bus_pulse_us''
          \<and> BUS_MIN_US \<le> wc_position c \<and> wc_position c \<le> BUS_MAX_US
        \<or> wc_servo_type c = ''pca'' \<and> wc_value_encoding c = ''pca_tick'')"

lemma bus_command_ok [simp]:
  "web_command_ok (bus_command sid p d port) \<longleftrightarrow> 0 < d \<and> BUS_MIN_US \<le> p \<and> p \<le> BUS_MAX_US"
  "web_command_ok (pca_command sid p d port) \<longleftrightarrow> 0 < d"
  by (auto simp: web_command_ok_def bus_command_def pca_command_def)

lemma parse_bcp_ok: "parse_bcp_protocol data = Inr (Some c) \<Longrightarrow> web_command_ok c"
  by (auto simp: parse_bcp_protocol_def clamp_bus dest: resolve_duration_pos split: if_splits)

lemma web_servo_command_ok: "web_servo_command is_bus sid p web outer = Inr (Some c) \<Longrightarrow> web_command_ok c"
  by (cases is_bus) (auto simp: web_servo_command_def dest: resolve_duration_pos normalize_bus_position_range)

lemma parse_web_ok: "parse_web_servo_payload v outer = Inr (Some c) \<Longrightarrow> web_command_ok c"
  by (auto simp: parse_web_servo_payload_def Let_def intro: web_servo_command_ok split: json.splits option.splits if_splits)

lemma full_format_command_ok: "full_format_command is_bus sid key p data = Inr (Some c) \<Longrightarrow> web_command_ok c"
  by (cases is_bus) (auto simp: full_format_command_def dest: resolve_duration_pos normalize_bus_position_range)

lemma parse_full_ok: "parse_full_format data = Inr (Some c) \<Longrightarrow> web_command_ok c"
  by (auto simp: parse_full_format_def intro: full_format_command_ok split: option.splits)

lemma parse_unwrapped_ok: "parse_unwrapped data = Inr (Some c) \<Longrightarrow> web_command_ok c"
  by (auto simp: parse_unwrapped_def parse_bcp_ok parse_full_ok split: if_splits)

lemma parsed_web_ok: "parse_servo_control v = Inr (Some c) \<Longrightarrow> web_command_ok c"
  using parse_web_ok parse_unwrapped_ok
  by (auto simp: parse_servo_control_def split: json.splits if_splits option.splits)

section \<open>Properties\<close>

text \<open>
  C18: Whatever JSON a client sends, in whichever format, a servo command read from it is well formed: it
  is for a bus servo, encoded as a pulse width within 500 to 2500 microseconds, or for a PCA channel,
  encoded in ticks, and its duration is positive.
\<close>

theorem parsed_command_is_well_formed:
  assumes "parse_servo_control v = Inr (Some c)"
  shows "web_command_ok c"
  using assms by (rule parsed_web_ok)

definition demo_web_message :: json where
  "demo_web_message = J_object [(''web_servo'', J_object [(''is_bus_servo'', J_bool True), (''servo_id'', J_string ''7''),
     (''position'', J_int 90), (''speed'', J_int 0)])]"

theorem parsed_command_is_well_formed_witness: "web_command_ok (bus_command 7 1500 100 0)"
proof -
  have "parse_servo_control demo_web_message = Inr (Some (bus_command 7 1500 100 0))" by code_simp
  then show ?thesis by (rule parsed_command_is_well_formed)
qed

text \<open>
  The short format: the help text of the server offers \<open>{b: -1, c: servo_id, p: angle_-90_90}\<close>, but \<open>p\<close>
  is taken as a pulse width, so every such angle means the end of the range.
\<close>

theorem short_format_takes_no_angles:
  assumes "json_int (jget_or ''p'' (J_int 0) data) = Inr p" "p \<le> 90"
    and "parse_bcp_protocol data = Inr (Some c)" "wc_servo_type c = ''bus''"
  shows "wc_position c = 500"
  using assms
  by (auto simp: parse_bcp_protocol_def clamp_def BUS_MIN_US_def BUS_MAX_US_def bus_command_def pca_command_def split: if_splits)

theorem short_format_takes_no_angles_witness:
  "wc_position (bus_command 3 500 100 0) = 500"
proof -
  let ?d = "[(''b'', J_int (- 1)), (''c'', J_int 3), (''p'', J_int 45)]"
  have "json_int (jget_or ''p'' (J_int 0) ?d) = Inr 45" "parse_bcp_protocol ?d = Inr (Some (bus_command 3 500 100 0))"
    by code_simp+
  from short_format_takes_no_angles [OF this(1) _ this(2)] show ?thesis by (simp add: bus_command_def)
qed

text \<open>
  Handlers registered with \<open>register_handler\<close> are never called: \<open>process_message\<close> answers every message
  with its built-in answer, whatever has been registered under whichever name.
\<close>

definition registered :: "(string \<times> web_handler) list \<Rightarrow> (handler_key \<times> web_handler list) list" where
  "registered rs = fold (\<lambda>(name, c). register_handler name c) rs []"

lemma registered_texts: "map_of (registered rs) (Key_type t) = None"
proof -
  have "map_of (fold (\<lambda>(name, c). register_handler name c) rs table) (Key_type t) = map_of table (Key_type t)" for table
    by (induction rs arbitrary: table) (auto simp: register_handler_def update_conv')
  then show ?thesis by (simp add: registered_def)
qed

theorem registered_handlers_are_dead:
  "process_message (registered rs) data now = process_message [] data now"
  by (simp add: process_message_def registered_texts)

end
