(* ===== verification/Web_Responses.thy ===== *)
theory Web_Responses
  imports Web_Commands
begin

text \<open>
  \<open>error_codes.py\<close> and \<open>stream_schemas.py\<close> of the teleoperation bridge: the error codes and their
  classes, the shape of error and success responses, and the builder of the short command format.
  A response is the JSON value it prints, without the free-text \<open>message\<close> and exception fields.
\<close>

section \<open>Error codes\<close>

datatype error_code =
    SUCCESS
  | ACCEPTED
  | BAD_REQUEST
  | INVALID_MESSAGE_FORMAT
  | INVALID_SERVO_COMMAND
  | MISSING_REQUIRED_FIELD
  | INVALID_PARAMETER_VALUE
  | UNSUPPORTED_MESSAGE_TYPE
  | TELEOP_CONTROL_REJECTED
  | INTERNAL_ERROR
  | SERVO_COMMAND_FAILED
  | ROS_CALLBACK_FAILED
  | STATUS_QUERY_FAILED
  | HEARTBEAT_FAILED
  | CONNECTION_TIMEOUT
  | CONNECTION_CLOSED
  | AUTHENTICATION_FAILED

fun error_number :: "error_code \<Rightarrow> int" where
  "error_number SUCCESS = 200"
| "error_number ACCEPTED = 202"
| "error_number BAD_REQUEST = 400"
| "error_number INVALID_MESSAGE_FORMAT = 4001"
| "error_number INVALID_SERVO_COMMAND = 4002"
| "error_number MISSING_REQUIRED_FIELD = 4003"
| "error_number INVALID_PARAMETER_VALUE = 4004"
| "error_number UNSUPPORTED_MESSAGE_TYPE = 4005"
| "error_number TELEOP_CONTROL_REJECTED = 4006"
| "error_number INTERNAL_ERROR = 500"
| "error_number SERVO_COMMAND_FAILED = 5001"
| "error_number ROS_CALLBACK_FAILED = 5002"
| "error_number STATUS_QUERY_FAILED = 5003"
| "error_number HEARTBEAT_FAILED = 5004"
| "error_number CONNECTION_TIMEOUT = 6001"
| "error_number CONNECTION_CLOSED = 6002"
| "error_number AUTHENTICATION_FAILED = 6003"

fun error_name :: "error_code \<Rightarrow> string" where
  "error_name SUCCESS = ''SUCCESS''"
| "error_name ACCEPTED = ''ACCEPTED''"
| "error_name BAD_REQUEST = ''BAD_REQUEST''"
| "error_name INVALID_MESSAGE_FORMAT = ''INVALID_MESSAGE_FORMAT''"
| "error_name INVALID_SERVO_COMMAND = ''INVALID_SERVO_COMMAND''"
| "error_name MISSING_REQUIRED_FIELD = ''MISSING_REQUIRED_FIELD''"
| "error_name INVALID_PARAMETER_VALUE = ''INVALID_PARAMETER_VALUE''"
| "error_name UNSUPPORTED_MESSAGE_TYPE = ''UNSUPPORTED_MESSAGE_TYPE''"
| "error_name TELEOP_CONTROL_REJECTED = ''TELEOP_CONTROL_REJECTED''"
| "error_name INTERNAL_ERROR = ''INTERNAL_ERROR''"
| "error_name SERVO_COMMAND_FAILED = ''SERVO_COMMAND_FAILED''"
| "error_name ROS_CALLBACK_FAILED = ''ROS_CALLBACK_FAILED''"
| "error_name STATUS_QUERY_FAILED = ''STATUS_QUERY_FAILED''"
| "error_name HEARTBEAT_FAILED = ''HEARTBEAT_FAILED''"
| "error_name CONNECTION_TIMEOUT = ''CONNECTION_TIMEOUT''"
| "error_name CONNECTION_CLOSED = ''CONNECTION_CLOSED''"
| "error_name AUTHENTICATION_FAILED = ''AUTHENTICATION_FAILED''"

definition is_client_error :: "error_code \<Rightarrow> bool" where
  "is_client_error c \<longleftrightarrow> 4000 \<le> error_number c \<and> error_number c < 5000"

definition is_server_error :: "error_code \<Rightarrow> bool" where
  "is_server_error c \<longleftrightarrow> 5000 \<le> error_number c \<and> error_number c < 6000"

definition is_connection_error :: "error_code \<Rightarrow> bool" where
  "is_connection_error c \<longleftrightarrow> 6000 \<le> error_number c \<and> error_number c < 7000"

text \<open>\<open>d.update(e)\<close>: keys of \<open>d\<close> keep their place, new keys come last.\<close>

definition json_update :: "json_object \<Rightarrow> json_object \<Rightarrow> json_object" where
  "json_update kvs upd = fold (\<lambda>(k, v). AList.update k v) upd kvs"

definition error_response :: "error_code \<Rightarrow> json_object \<Rightarrow> string \<Rightarrow> int \<Rightarrow> json_object" where
  "error_response code details device now =
     [(''type'', J_string ''error''), (''status'', J_string ''error''), (''device_id'', J_string device),
      (''error_code'', J_int (error_number code)), (''error_name'', J_string (error_name code)),
      (''timestamp'', J_int now)]
     @ (if details \<noteq> [] then [(''details'', J_object details)] else [])"

definition success_response :: "string \<Rightarrow> json_object \<Rightarrow> string \<Rightarrow> int \<Rightarrow> json_object" where
  "success_response response_type data device now =
     json_update
       [(''type'', J_string response_type), (''status'', J_string ''success''), (''device_id'', J_string device),
        (''timestamp'', J_int now)] data"

text \<open>An exception of a callback: one with an error code and details, or any other.\<close>

datatype web_error = Web_exception error_code json_object | Other_exception

section \<open>Streams\<close>

definition validate_web_command :: "json \<Rightarrow> bool" where
  "validate_web_command v =
     (case v of
        J_object data \<Rightarrow>
          has_key ''web_servo'' data
          \<or> has_key ''b'' data \<and> has_key ''c'' data \<and> has_key ''p'' data
          \<or> has_any [''id'', ''servo_id'', ''channel'', ''c'', ''angle'', ''position'', ''p''] data
      | _ \<Rightarrow> False)"

definition validate_jiyuan_response :: "json \<Rightarrow> bool" where
  "validate_jiyuan_response v =
     (case v of J_object data \<Rightarrow> list_all (\<lambda>k. has_key k data) [''character_name'', ''current_status''] | _ \<Rightarrow> False)"

definition create_servo_command :: "string \<Rightarrow> int \<Rightarrow> int \<Rightarrow> int \<Rightarrow> int \<Rightarrow> json_object" where
  "create_servo_command servo_type servo_id position speed port =
     [(''b'', J_int (if servo_type = ''bus'' then - 1 else 0)), (''c'', J_int servo_id), (''p'', J_int position),
      (''s'', J_int speed), (''port'', J_int port)]"

definition create_jiyuan_response :: "int \<Rightarrow> json_object \<Rightarrow> json_object \<Rightarrow> string \<Rightarrow> json_object" where
  "create_jiyuan_response status_code servo_states system_info time =
     json_update
       [(''character_name'', J_string ''robot''),
        (''bus_servos'', jget_or ''bus_servos'' (J_object []) servo_states),
        (''pwm_servos'', jget_or ''pwm_servos'' (J_object []) servo_states),
        (''time'', J_string time),
        (''current_status'', J_object [(''movement_active'', J_bool False), (''listening'', J_bool False),
           (''action'', J_string ''idle''), (''led_state'', J_string ''off'')]),
        (''result_code'', J_int status_code)] system_info"

section \<open>Facts\<close>

lemma json_update_get: "jget k (json_update kvs upd) = (case jget k (rev upd) of Some v \<Rightarrow> Some v | None \<Rightarrow> jget k kvs)"
proof (induction upd arbitrary: kvs)
  case (Cons p upd)
  obtain k' v' where p: "p = (k', v')" by (cases p)
  show ?case using Cons [of "AList.update k' v' kvs"]
    by (simp add: json_update_def p jget_def map_add_def update_conv' split: option.splits)
qed (simp add: json_update_def jget_def)

lemma jget_simps [simp]:
  "jget k [] = None" "jget k ((k', v) # kvs) = (if k = k' then Some v else jget k kvs)"
  by (simp_all add: jget_def)

lemma jget_append: "jget k (xs @ ys) = (case jget k xs of Some v \<Rightarrow> Some v | None \<Rightarrow> jget k ys)"
  by (simp add: jget_def map_add_def split: option.splits)

lemma error_fields [simp]:
  "jget ''type'' (error_response c d dev now) = Some (J_string ''error'')"
  "jget ''error_name'' (error_response c d dev now) = Some (J_string (error_name c))"
  "jget ''teleop_lease_id'' (error_response c d dev now) = None"
  by (simp_all add: error_response_def)

section \<open>Properties\<close>

text \<open>
  The classes of error codes do not overlap, and each of the four-digit codes has one. The codes 400
  and 500, which the enumeration lists under client and server errors, have none.
\<close>

theorem error_classes_partition:
  "(1000 \<le> error_number c \<longleftrightarrow> is_client_error c \<or> is_server_error c \<or> is_connection_error c)
    \<and> \<not> (is_client_error c \<and> is_server_error c) \<and> \<not> (is_client_error c \<and> is_connection_error c)
    \<and> \<not> (is_server_error c \<and> is_connection_error c)
    \<and> \<not> is_client_error BAD_REQUEST \<and> \<not> is_server_error INTERNAL_ERROR"
  by (cases c) (simp_all add: is_client_error_def is_server_error_def is_connection_error_def)

text \<open>
  The commands that the bridge's own builder makes are read back: a bus command with its pulse width
  clamped to the range, a PCA command with its ticks and without the port, and a duration that is not
  positive becomes the default of 100 ms.
\<close>

theorem created_command_round_trip:
  "parse_servo_control (J_object (create_servo_command servo_type sid position speed port)) =
     Inr (Some (if servo_type = ''bus''
                then bus_command sid (clamp BUS_MIN_US BUS_MAX_US position) (if 0 < speed then speed else 100) port
                else pca_command sid position (if 0 < speed then speed else 100) 0))"
proof -
  have d: "resolve_duration [J_null, J_int speed] = Inr (if 0 < speed then speed else 100)"
    by (simp add: resolve_duration.simps)
  show ?thesis
    by (simp add: create_servo_command_def parse_servo_control_def has_any_def has_key_def parse_unwrapped_def
        parse_bcp_protocol_def get_null_def jget_or_def d or_none_def)
qed

end
