(* ===== verification/Teleop_Bridge.thy ===== *)
theory Teleop_Bridge
  imports Web_Responses Execution_Adapters
begin

text \<open>
  The teleoperation bridge: \<open>ws_server.py\<close>, \<open>websocket_handler.py\<close> and \<open>bridge_node.py\<close>. A connected
  client has an identity (a fresh UUID) and the teleop lease the server last saw it hold; its servo
  commands go to the execution manager under both. The record \<open>teleop_bridge\<close> joins the state of the
  three classes. The event loop runs a callback up to its first suspension, which in all handlers is
  the sending of an answer, so a message is one step. The thread of the ROS node replaces its own copy of
  the execution state (\<open>wb_latest\<close>) before the one of the server (\<open>wb_exec\<close>); a state callback is two
  steps. Broadcasts are scheduled and run later in order.
\<close>

section \<open>Messages of ROS\<close>

record execution_state_msg =
  es_mode :: string
  es_active_source :: string
  es_teleop_holder_id :: string
  es_teleop_lease_id :: string
  es_estop_active :: bool
  es_teleop_active :: bool
  es_motion_active :: bool
  es_teleop_timeout_sec :: real
  es_motion_timeout_sec :: real
  es_teleop_remaining_sec :: real
  es_last_action :: string
  es_last_accepted :: bool
  es_last_reason :: string
  es_control_accepted_count :: nat
  es_control_rejected_count :: nat
  es_teleop_accepted_count :: nat
  es_motion_accepted_count :: nat
  es_teleop_rejected_count :: nat
  es_motion_rejected_count :: nat
  es_last_rejection_reason :: string
  es_stamp :: real

definition J_nat :: "nat \<Rightarrow> json" where "J_nat n = J_int (int n)"
definition J_real :: "real \<Rightarrow> json" where "J_real x = J_float (Fin x)"

definition execution_state_dict :: "execution_state_msg \<Rightarrow> json_object" where
  "execution_state_dict msg =
     [(''mode'', J_string (es_mode msg)),
      (''active_source'', if es_active_source msg = '''' then J_null else J_string (es_active_source msg)),
      (''teleop_holder_id'', J_string (es_teleop_holder_id msg)),
      (''teleop_lease_id'', J_string (es_teleop_lease_id msg)),
      (''estop_active'', J_bool (es_estop_active msg)),
      (''teleop_active'', J_bool (es_teleop_active msg)),
      (''motion_active'', J_bool (es_motion_active msg)),
      (''task_active'', J_bool (es_mode msg = ''task_active'' \<or> es_active_source msg = ''task'')),
      (''teleop_timeout_sec'', J_real (es_teleop_timeout_sec msg)),
      (''motion_timeout_sec'', J_real (es_motion_timeout_sec msg)),
      (''teleop_control_remaining_sec'', J_real (es_teleop_remaining_sec msg)),
      (''last_teleop_control_action'', J_string (es_last_action msg)),
      (''last_teleop_control_accepted'', J_bool (es_last_accepted msg)),
      (''last_teleop_control_reason'', J_string (es_last_reason msg)),
      (''teleop_control_accepted_count'', J_nat (es_control_accepted_count msg)),
      (''teleop_control_rejected_count'', J_nat (es_control_rejected_count msg)),
      (''accepted_counts'', J_object [(''teleop'', J_nat (es_teleop_accepted_count msg)), (''motion'', J_nat (es_motion_accepted_count msg))]),
      (''rejected_counts'', J_object [(''teleop'', J_nat (es_teleop_rejected_count msg)), (''motion'', J_nat (es_motion_rejected_count msg))]),
      (''last_rejection_reason'', J_string (es_last_rejection_reason msg)),
      (''stamp'', J_real (es_stamp msg))]"

text \<open>
  \<open>str(state.get(k) or '')\<close> and \<open>bool(state.get(k))\<close>; the entries read this way are texts, \<open>None\<close>, or
  missing as long as no state has arrived.
\<close>

definition state_text :: "string \<Rightarrow> json_object \<Rightarrow> string" where
  "state_text k st = (case jget k st of Some (J_string s) \<Rightarrow> s | _ \<Rightarrow> '''')"

definition state_flag :: "string \<Rightarrow> json_object \<Rightarrow> bool" where
  "state_flag k st \<longleftrightarrow> json_truthy (get_null k st)"

section \<open>State\<close>

record web_client =
  wl_id :: string
  wl_name :: json
  wl_lease :: string

datatype web_response = R_json json_object | R_text string

datatype web_output =
    Web_move motion_command
  | Web_control string string string       \<comment> \<open>\<open>TeleopControl\<close>: action, requester, lease\<close>
  | Web_sent nat web_response

record teleop_bridge =
  wb_latest :: json_object                  \<comment> \<open>\<open>latest_execution_state\<close> of the node\<close>
  wb_exec :: json_object                    \<comment> \<open>\<open>execution_state\<close> of the handler\<close>
  wb_servos :: "(string \<times> json_object) list"
  wb_clients :: "nat list"
  wb_info :: "(nat \<times> web_client) list"
  wb_callback :: "(json_object \<times> bool) option"  \<comment> \<open>a state callback between its two halves\<close>
  wb_broadcasts :: "json_object list"
  wb_user_lists :: nat
  wb_out :: "web_output list"

definition bridge_start :: teleop_bridge where
  "bridge_start = \<lparr>wb_latest = [], wb_exec = [], wb_servos = [], wb_clients = [], wb_info = [], wb_callback = None,
     wb_broadcasts = [], wb_user_lists = 0, wb_out = []\<rparr>"

text \<open>What a run takes from outside: the JSON parser, the name of the device, the nodes and extensions.\<close>

record web_env =
  we_loads :: "string \<Rightarrow> json option"
  we_device :: string
  we_nodes :: "string list"
  we_extensions :: "string list"

record web_clock =
  wk_seconds :: int
  wk_stamp :: real
  wk_text :: string

definition web_emit :: "web_output \<Rightarrow> teleop_bridge \<Rightarrow> teleop_bridge" where
  "web_emit out m = m\<lparr>wb_out := out # wb_out m\<rparr>"

record web_context =
  wx_requester_id :: string
  wx_client_name :: json
  wx_lease_id :: string

definition extract_requester_id :: "web_context option \<Rightarrow> string" where
  "extract_requester_id ctx = (case ctx of None \<Rightarrow> '''' | Some c \<Rightarrow> py_strip (wx_requester_id c))"

definition extract_lease_id :: "web_context option \<Rightarrow> string" where
  "extract_lease_id ctx = (case ctx of None \<Rightarrow> '''' | Some c \<Rightarrow> py_strip (wx_lease_id c))"

section \<open>The node\<close>

definition publish_teleop_control :: "string \<Rightarrow> string \<Rightarrow> string \<Rightarrow> teleop_bridge \<Rightarrow> teleop_bridge" where
  "publish_teleop_control action requester lease m = web_emit (Web_control (norm_text action) (py_strip requester) (py_strip lease)) m"

definition teleop_control_is_active :: "json_object \<Rightarrow> bool" where
  "teleop_control_is_active latest \<longleftrightarrow> state_flag ''teleop_active'' latest \<and> state_text ''active_source'' latest = ''teleop''"

text \<open>The reason for which \<open>_ensure_teleop_command_allowed\<close> raises, empty if it does not.\<close>

definition teleop_rejection :: "string \<Rightarrow> string \<Rightarrow> json_object \<Rightarrow> string" where
  "teleop_rejection requester lease latest =
     (let current = state_text ''teleop_lease_id'' latest
      in if \<not> state_flag ''teleop_active'' latest \<or> state_text ''active_source'' latest \<noteq> ''teleop'' then ''teleop_control_not_granted''
         else if requester = '''' then ''teleop_requester_id_required''
         else if state_text ''teleop_holder_id'' latest \<noteq> requester then ''teleop_control_not_holder''
         else if current \<noteq> '''' \<and> lease = '''' then ''teleop_control_lease_required''
         else if current \<noteq> '''' \<and> current \<noteq> lease then ''teleop_control_lease_mismatch''
         else '''')"

definition rejection_details :: "string \<Rightarrow> string \<Rightarrow> string \<Rightarrow> json_object \<Rightarrow> json_object" where
  "rejection_details reason requester lease latest =
     [(''reason'', J_string reason), (''requester_id'', J_string requester), (''lease_id'', J_string lease),
      (''teleop_holder_id'', J_string (state_text ''teleop_holder_id'' latest)),
      (''teleop_lease_id'', J_string (state_text ''teleop_lease_id'' latest)),
      (''teleop_active'', J_bool (state_flag ''teleop_active'' latest)),
      (''active_source'', J_string (state_text ''active_source'' latest))]"

text \<open>\<open>500 + angle * (2000 / 180)\<close>, rounded, for angles within 0 to 180.\<close>

definition map_angle_to_pulse :: "int \<Rightarrow> int" where
  "map_angle_to_pulse angle = round_half_even (4500 + clamp 0 180 angle * 100) 9"

definition coerce_uint16 :: "int \<Rightarrow> int result" where
  "coerce_uint16 i = bind_result (int_float i) (\<lambda>_. Inr (clamp 0 65535 i))"

definition normalize_motion_position :: "string \<Rightarrow> int \<Rightarrow> string \<Rightarrow> int result" where
  "normalize_motion_position servo_type raw encoding =
     bind_result (int_float raw) (\<lambda>_.
       let t = norm_text servo_type; e = norm_text encoding
       in if t = ''bus'' then
            (if e = ''bus_pulse_us''
             then if BUS_MIN_US \<le> raw \<and> raw \<le> BUS_MAX_US then Inr raw else Inl (ValueError ''bus_pulse_us'')
             else if e \<noteq> '''' then Inl (ValueError ''value_encoding'')
             else if BUS_MIN_US \<le> raw \<and> raw \<le> BUS_MAX_US then Inr raw
             else if 0 \<le> raw \<and> raw \<le> 180 then Inr (map_angle_to_pulse raw)
             else Inl (ValueError ''bus position''))
          else if t = ''pca'' then
            (if e \<notin> {'''', ''pca_tick''} then Inl (ValueError ''value_encoding'') else coerce_uint16 raw)
          else Inl (ValueError ''servo_type''))"

definition motion_duration_ms :: "int \<Rightarrow> int \<Rightarrow> int result" where
  "motion_duration_ms value fallback =
     bind_result (coerce_uint16 value) (\<lambda>primary.
       if 0 < primary then Inr primary
       else bind_result (coerce_uint16 fallback) (\<lambda>secondary. Inr (if 0 < secondary then secondary else 100)))"

definition encoding_for_servo_type :: "string \<Rightarrow> string" where
  "encoding_for_servo_type servo_type =
     (if norm_text servo_type = ''bus'' then ''bus_pulse_us'' else if norm_text servo_type = ''pca'' then ''pca_tick'' else '''')"

text \<open>The message; its field \<open>servo_id\<close> is a \<open>uint16\<close>, whose setter asserts the range.\<close>

definition build_motion_command :: "string \<Rightarrow> int \<Rightarrow> int \<Rightarrow> string \<Rightarrow> int \<Rightarrow> string \<Rightarrow> string \<Rightarrow> motion_command result" where
  "build_motion_command servo_type servo_id position encoding duration requester lease =
     (if servo_id < 0 \<or> 65535 < servo_id then Inl (AssertionError ''servo_id'')
      else Inr \<lparr>mc_servo_type = servo_type, mc_servo_id = servo_id, mc_position = position,
             mc_value_encoding = (if norm_text encoding \<noteq> '''' then norm_text encoding else encoding_for_servo_type servo_type),
             mc_duration_ms = duration, mc_requester_id = requester, mc_lease_id = lease\<rparr>)"

definition handle_servo_command :: "web_command \<Rightarrow> web_context option \<Rightarrow> teleop_bridge \<Rightarrow> web_error option \<times> teleop_bridge" where
  "handle_servo_command cmd ctx m =
     (let encoding = norm_text (wc_value_encoding cmd);
          requester = extract_requester_id ctx; lease = extract_lease_id ctx;
          reason = teleop_rejection requester lease (wb_latest m)
      in case bind_result (normalize_motion_position (wc_servo_type cmd) (wc_position cmd) encoding) (\<lambda>position.
              bind_result (motion_duration_ms (wc_duration_ms cmd) (wc_speed cmd)) (\<lambda>duration. Inr (position, duration))) of
           Inl e \<Rightarrow> (Some Other_exception, m)
         | Inr (position, duration) \<Rightarrow>
             if reason \<noteq> ''''
             then (Some (Web_exception TELEOP_CONTROL_REJECTED (rejection_details reason requester lease (wb_latest m))), m)
             else case build_motion_command (wc_servo_type cmd) (wc_servo_id cmd) position
                         (if encoding \<noteq> '''' then encoding else encoding_for_servo_type (wc_servo_type cmd)) duration requester lease of
                    Inl e \<Rightarrow> (Some Other_exception, m)
                  | Inr msg \<Rightarrow> (None, web_emit (Web_move msg) m))"

definition node_heartbeat :: "web_context option \<Rightarrow> teleop_bridge \<Rightarrow> teleop_bridge" where
  "node_heartbeat ctx m =
     (if teleop_control_is_active (wb_latest m)
      then publish_teleop_control ''keepalive'' (extract_requester_id ctx) (extract_lease_id ctx) m else m)"

definition teleop_ack_payload :: "string \<Rightarrow> string \<Rightarrow> json_object \<Rightarrow> json_object" where
  "teleop_ack_payload requester lease latest =
     (let current = state_text ''teleop_lease_id'' latest
      in [(''status'', J_string ''requested''), (''requester_id'', J_string requester), (''teleop_lease_id'', J_string current),
          (''execution_state'', J_object latest),
          (''known_holder_matches'', J_bool (requester \<noteq> '''' \<and> state_text ''teleop_holder_id'' latest = requester)),
          (''known_lease_matches'', J_bool (lease \<noteq> '''' \<and> current = lease)),
          (''known_teleop_active'', J_bool (state_flag ''teleop_active'' latest))])"

text \<open>\<open>handle_teleop_claim\<close> and \<open>handle_teleop_release\<close>\<close>

definition node_teleop_control :: "string \<Rightarrow> web_context option \<Rightarrow> teleop_bridge \<Rightarrow> json_object \<times> teleop_bridge" where
  "node_teleop_control action ctx m =
     (teleop_ack_payload (extract_requester_id ctx) (extract_lease_id ctx) (wb_latest m),
      publish_teleop_control action (extract_requester_id ctx) (extract_lease_id ctx) m)"

section \<open>The handler\<close>

definition requester_teleop_status :: "web_context option \<Rightarrow> json_object \<Rightarrow> json_object" where
  "requester_teleop_status ctx st =
     (let requester = extract_requester_id ctx; lease = extract_lease_id ctx;
          current = state_text ''teleop_lease_id'' st; active = state_flag ''teleop_active'' st;
          holder_matches = (requester \<noteq> '''' \<and> state_text ''teleop_holder_id'' st = requester);
          lease_matches = (lease \<noteq> '''' \<and> current = lease)
      in [(''requester_id'', J_string requester), (''teleop_lease_id'', J_string current),
          (''known_holder_matches'', J_bool holder_matches), (''known_lease_matches'', J_bool lease_matches),
          (''known_teleop_active'', J_bool active),
          (''control_confirmed'', J_bool (holder_matches \<and> active \<and> state_text ''active_source'' st = ''teleop''
             \<and> (lease = '''' \<or> lease_matches))),
          (''confirmation_source'', J_string ''execution_state'')])"

definition build_current_status :: "json_object \<Rightarrow> json_object" where
  "build_current_status st =
     (let moving = (state_flag ''teleop_active'' st \<or> state_flag ''motion_active'' st \<or> state_flag ''task_active'' st);
          mode = state_text ''mode'' st
      in [(''movement_active'', J_bool moving), (''listening'', J_bool (state_text ''active_source'' st = ''teleop'')),
          (''action'', J_string (if mode = '''' then ''idle'' else mode)),
          (''led_state'', J_string (if state_flag ''estop_active'' st then ''red'' else if moving then ''green'' else ''off''))])"

definition servo_dict :: "string \<Rightarrow> teleop_bridge \<Rightarrow> json" where
  "servo_dict k m = J_object (case map_of (wb_servos m) k of None \<Rightarrow> [] | Some d \<Rightarrow> d)"

definition status_snapshot :: "web_context option \<Rightarrow> web_clock \<Rightarrow> teleop_bridge \<Rightarrow> json_object" where
  "status_snapshot ctx clk m =
     json_update
       [(''character_name'', J_string ''robot''), (''bus_servos'', servo_dict ''bus_servos'' m),
        (''pwm_servos'', servo_dict ''pwm_servos'' m), (''time'', J_string (wk_text clk)),
        (''current_status'', J_object (build_current_status (wb_exec m))), (''execution_state'', J_object (wb_exec m)),
        (''result_code'', J_int 200), (''timestamp'', J_int (wk_seconds clk))]
       (requester_teleop_status ctx (wb_exec m))"

text \<open>\<open>handle_status_query\<close> of the node: the snapshot is taken without a context.\<close>

definition node_status_query :: "web_env \<Rightarrow> web_clock \<Rightarrow> teleop_bridge \<Rightarrow> json_object" where
  "node_status_query env clk m =
     json_update (status_snapshot None clk m)
       [(''type'', J_string ''status_response''), (''device_id'', J_string (we_device env)), (''status'', J_string ''online''),
        (''ros_nodes'', J_list (map J_string (we_nodes env))), (''timestamp'', J_real (wk_stamp clk))]"

definition web_command_json :: "web_command \<Rightarrow> json_object" where
  "web_command_json c =
     [(''servo_type'', J_string (wc_servo_type c)), (''servo_id'', J_int (wc_servo_id c)), (''position'', J_int (wc_position c)),
      (''value_encoding'', J_string (wc_value_encoding c)), (''duration_ms'', J_int (wc_duration_ms c)),
      (''speed'', J_int (wc_speed c)), (''port'', J_int (wc_port c))]"

definition command_error_response :: "web_error \<Rightarrow> web_command \<Rightarrow> string \<Rightarrow> int \<Rightarrow> json_object" where
  "command_error_response e cmd device now =
     (case e of
        Web_exception code details \<Rightarrow> error_response code details device now
      | Other_exception \<Rightarrow> error_response SERVO_COMMAND_FAILED [(''command'', J_object (web_command_json cmd))] device now)"

definition reply_heartbeat :: "web_env \<Rightarrow> web_clock \<Rightarrow> web_context option \<Rightarrow> teleop_bridge \<Rightarrow> web_response option \<times> teleop_bridge" where
  "reply_heartbeat env clk ctx m =
     (case heartbeat_response (we_device env) (wk_seconds clk) of
        J_object r \<Rightarrow> (Some (R_json r), node_heartbeat ctx m)
      | _ \<Rightarrow> (None, m))"

definition default_teleop_ack_payload :: "web_context option \<Rightarrow> json_object" where
  "default_teleop_ack_payload ctx =
     [(''status'', J_string ''requested''), (''requester_id'', J_string (extract_requester_id ctx)), (''teleop_lease_id'', J_string ''''),
      (''execution_state'', J_object []), (''known_holder_matches'', J_bool False), (''known_lease_matches'', J_bool False),
      (''known_teleop_active'', J_bool False)]"

definition reply_teleop_control :: "string \<Rightarrow> web_env \<Rightarrow> web_clock \<Rightarrow> web_context option \<Rightarrow> teleop_bridge \<Rightarrow> web_response option \<times> teleop_bridge" where
  "reply_teleop_control action env clk ctx m =
     (let (payload, m1) = node_teleop_control action ctx m
      in (Some (R_json (success_response (''teleop_'' @ action @ ''_ack'') (json_update (default_teleop_ack_payload ctx) payload)
            (we_device env) (wk_seconds clk))), m1))"

definition invalid_command_response :: "json \<Rightarrow> web_env \<Rightarrow> web_clock \<Rightarrow> json_object" where
  "invalid_command_response received env clk =
     error_response INVALID_SERVO_COMMAND [(''received_data'', received)] (we_device env) (wk_seconds clk)"

definition reply_servo_control :: "json \<Rightarrow> web_env \<Rightarrow> web_clock \<Rightarrow> web_context option \<Rightarrow> teleop_bridge \<Rightarrow> (web_response option \<times> teleop_bridge) result" where
  "reply_servo_control data env clk ctx m =
     bind_result (parse_servo_control data) (\<lambda>parsed.
       Inr (case parsed of
              None \<Rightarrow> (Some (R_json (invalid_command_response data env clk)), m)
            | Some cmd \<Rightarrow>
                (case handle_servo_command cmd ctx m of
                   (Some e, m1) \<Rightarrow> (Some (R_json (command_error_response e cmd (we_device env) (wk_seconds clk))), m1)
                 | (None, m1) \<Rightarrow>
                     (Some (R_json (success_response ''servo_control_ack''
                        [(''status'', J_string ''accepted''), (''command'', J_object (web_command_json cmd))]
                        (we_device env) (wk_seconds clk))), m1))))"

text \<open>What the handler of an extension does.\<close>

datatype extension_answer =
    Ext_raises web_error
  | Ext_text string
  | Ext_dict json_object
  | Ext_other

definition explicit_message_type :: "json_object \<Rightarrow> string" where
  "explicit_message_type data =
     (case List.map_filter (\<lambda>k. case jget k data of
              Some (J_string s) \<Rightarrow> if py_strip s \<noteq> '''' then Some (norm_text s) else None
            | _ \<Rightarrow> None) [''type'', ''Type'', ''TYPE''] of
        [] \<Rightarrow> '''' | t # ts \<Rightarrow> t)"

definition is_builtin_message_type :: "string \<Rightarrow> bool" where
  "is_builtin_message_type name \<longleftrightarrow> (case message_type_of name of None \<Rightarrow> False | Some t \<Rightarrow> t \<noteq> M_unknown)"

text \<open>\<open>register_message_handler\<close>: \<open>None\<close> where it raises \<open>ValueError\<close>.\<close>

definition register_extension :: "string \<Rightarrow> string list \<Rightarrow> string list option" where
  "register_extension name names =
     (let n = norm_text name
      in if n = '''' \<or> is_builtin_message_type n \<or> n \<in> set names then None else Some (names @ [n]))"

definition reply_registered :: "json_object \<Rightarrow> extension_answer \<Rightarrow> web_env \<Rightarrow> web_clock \<Rightarrow> web_response option" where
  "reply_registered data ext env clk =
     (let t = explicit_message_type data
      in if t \<notin> set (we_extensions env) then None
         else Some (case ext of
                Ext_raises (Web_exception code details) \<Rightarrow> R_json (error_response code details (we_device env) (wk_seconds clk))
              | Ext_raises Other_exception \<Rightarrow>
                  R_json (error_response ROS_CALLBACK_FAILED [(''received_data'', J_object data)] (we_device env) (wk_seconds clk))
              | Ext_text s \<Rightarrow> R_text s
              | Ext_dict d \<Rightarrow> R_json (success_response (t @ ''_ack'') (json_update [(''status'', J_string ''accepted'')] d)
                                 (we_device env) (wk_seconds clk))
              | Ext_other \<Rightarrow> R_json (success_response (t @ ''_ack'') [(''status'', J_string ''accepted'')] (we_device env) (wk_seconds clk))))"

definition reply_register :: "json_object \<Rightarrow> json \<Rightarrow> web_env \<Rightarrow> web_clock \<Rightarrow> web_response" where
  "reply_register data commands env clk =
     R_json [(''type'', J_string ''register_ack''), (''status'', J_string ''success''), (''device_id'', J_string (we_device env)),
       (''device_name'', jget_or ''name'' (J_string (we_device env)) data), (''supported_commands'', commands),
       (''timestamp'', J_int (wk_seconds clk))]"

text \<open>A broadcast is executed and never answered; a private message is answered if it holds a command.\<close>

definition reply_broadcast :: "json_object \<Rightarrow> web_context option \<Rightarrow> teleop_bridge \<Rightarrow> (web_response option \<times> teleop_bridge) result" where
  "reply_broadcast data ctx m =
     bind_result (parse_servo_control (jget_or ''content'' (J_object []) data)) (\<lambda>parsed.
       Inr (None, case parsed of None \<Rightarrow> m | Some cmd \<Rightarrow> snd (handle_servo_command cmd ctx m)))"

definition private_ack :: "web_env \<Rightarrow> web_clock \<Rightarrow> json_object" where
  "private_ack env clk =
     [(''type'', J_string ''private_ack''), (''status'', J_string ''processed''), (''device_id'', J_string (we_device env)),
      (''timestamp'', J_int (wk_seconds clk))]"

definition reply_private :: "json_object \<Rightarrow> web_env \<Rightarrow> web_clock \<Rightarrow> web_context option \<Rightarrow> teleop_bridge \<Rightarrow> (web_response option \<times> teleop_bridge) result" where
  "reply_private data env clk ctx m =
     bind_result (parse_servo_control (jget_or ''content'' (J_object data) data)) (\<lambda>parsed.
       Inr (case parsed of
              None \<Rightarrow> (None, m)
            | Some cmd \<Rightarrow> (Some (R_json (private_ack env clk)), snd (handle_servo_command cmd ctx m))))"

definition supported_commands :: json where
  "supported_commands =
     J_object [(''servo_control'', J_list (map J_string
         [''{b: -1, c: servo_id, p: angle_-90_90, s: speed}'', ''{b: 0, c: channel_0_15, p: pwm_value}'',
          ''{servo_type: 'bus', servo_id: 1, position: 90, speed: 100}'', ''{servo_type: 'pca', servo_id: 0, position: 90}'',
          ''{character_name: 'robot', web_servo: {is_bus_servo: true, servo_id: 1, position: 90, speed: 100}}''])),
       (''teleop_claim'', J_list [J_string ''request teleop control lease'']),
       (''teleop_release'', J_list [J_string ''release teleop control lease'']),
       (''heartbeat'', J_list [J_string ''keep connection alive'']), (''status_query'', J_list [J_string ''request device status''])]"

definition dispatch_message :: "message_type \<Rightarrow> json_object \<Rightarrow> extension_answer \<Rightarrow> web_env \<Rightarrow> web_clock \<Rightarrow> web_context option \<Rightarrow> teleop_bridge \<Rightarrow> (web_response option \<times> teleop_bridge) result" where
  "dispatch_message t data ext env clk ctx m =
     (case t of
        M_heartbeat \<Rightarrow> Inr (reply_heartbeat env clk ctx m)
      | M_servo_control \<Rightarrow> reply_servo_control (J_object data) env clk ctx m
      | M_teleop_claim \<Rightarrow> Inr (reply_teleop_control ''claim'' env clk ctx m)
      | M_teleop_release \<Rightarrow> Inr (reply_teleop_control ''release'' env clk ctx m)
      | M_status_query \<Rightarrow> Inr (Some (R_json (json_update (node_status_query env clk m) (requester_teleop_status ctx (wb_exec m)))), m)
      | M_register \<Rightarrow> Inr (Some (reply_register data supported_commands env clk), m)
      | M_broadcast \<Rightarrow> reply_broadcast data ctx m
      | M_private \<Rightarrow> reply_private data env clk ctx m
      | _ \<Rightarrow> Inr (reply_registered data ext env clk, m))"

definition handle_message :: "json_object \<Rightarrow> extension_answer \<Rightarrow> web_env \<Rightarrow> web_clock \<Rightarrow> web_context option \<Rightarrow> teleop_bridge \<Rightarrow> (web_response option \<times> teleop_bridge) result" where
  "handle_message data ext env clk ctx m =
     (let t = explicit_message_type data
      in if t \<noteq> '''' \<and> t \<in> set (we_extensions env) \<and> \<not> is_builtin_message_type t
         then Inr (reply_registered data ext env clk, m)
         else bind_result (get_message_type (J_object data)) (\<lambda>mt. dispatch_message mt data ext env clk ctx m))"

end
