(* ===== verification/Imu_Values.thy ===== *)
theory Imu_Values
  imports Py_Float "HOL-Library.Word"
begin

text \<open>
  What the two IMU drivers share: the little-endian values of \<open>struct.unpack\<close> (\<open>h\<close> and \<open>f\<close>, the
  16-bit integer and the IEEE single), the scale factors, and the fields of a reading in the order in
  which \<open>timer_callback\<close> copies them.
\<close>

type_synonym byte = "8 word"

section \<open>Unpacking\<close>

fun little_endian :: "byte list \<Rightarrow> int" where
  "little_endian [] = 0"
| "little_endian (b # bs) = uint b + 256 * little_endian bs"

definition unpack_h :: "byte list \<Rightarrow> real" where
  "unpack_h bs = (let w = little_endian bs in of_int (if w < 32768 then w else w - 65536))"

text \<open>Sign, eight bits of exponent, 23 bits of fraction.\<close>

definition single_value :: "int \<Rightarrow> int \<Rightarrow> int \<Rightarrow> py_float" where
  "single_value s e m =
     (if e = 255 then if m \<noteq> 0 then NaN else if s = 0 then Pos_inf else Neg_inf
      else let a = if e = 0 then of_int m / 2 ^ 149 else of_int (2 ^ 23 + m) * 2 ^ nat e / 2 ^ 150
           in Fin (if s = 0 then a else - a))"

definition unpack_f :: "byte list \<Rightarrow> py_float" where
  "unpack_f bs = (let w = little_endian bs in single_value (w div 2 ^ 31) (w div 2 ^ 23 mod 256) (w mod 2 ^ 23))"

text \<open>\<open>data[i:i + n]\<close>\<close>

definition bytes_at :: "nat \<Rightarrow> nat \<Rightarrow> byte list \<Rightarrow> byte list" where
  "bytes_at i n data = take n (drop i data)"

section \<open>Scales\<close>

definition accel_ratio :: real where "accel_ratio = 16 / 32767"
definition gyro_ratio :: real where "gyro_ratio = 2000 / 32767 * (pi / 180)"
definition mag_ratio :: real where "mag_ratio = 800 / 32767"

text \<open>A product with a positive factor.\<close>

fun scaled :: "py_float \<Rightarrow> real \<Rightarrow> py_float" where
  "scaled (Fin x) c = Fin (x * c)"
| "scaled f c = f"

definition degrees :: "py_float \<Rightarrow> py_float" where
  "degrees f = scaled f (180 / pi)"

section \<open>Readings\<close>

datatype imu_field =
    Accel_x | Accel_y | Accel_z | Gyro_x | Gyro_y | Gyro_z | Mag_x | Mag_y | Mag_z
  | Quat_w | Quat_x | Quat_y | Quat_z | Roll | Pitch | Yaw | Baro_height | Baro_temp | Baro_pressure

type_synonym imu_values = "(imu_field \<times> py_float) list"

definition imu_fields :: "imu_field list" where
  "imu_fields = [Accel_x, Accel_y, Accel_z, Gyro_x, Gyro_y, Gyro_z, Mag_x, Mag_y, Mag_z,
     Quat_w, Quat_x, Quat_y, Quat_z, Roll, Pitch, Yaw, Baro_height, Baro_temp, Baro_pressure]"

text \<open>The message \<open>ImuData\<close>; its fields are zero unless they are set.\<close>

record imu_message =
  iu_sensor_type :: string
  iu_sensor_id :: int
  iu_values :: "imu_field \<Rightarrow> py_float"
  iu_error_code :: int

definition accel_values :: "byte list \<Rightarrow> imu_values" where
  "accel_values bs = [(Accel_x, Fin (unpack_h (bytes_at 0 2 bs) * accel_ratio)), (Accel_y, Fin (unpack_h (bytes_at 2 2 bs) * accel_ratio)),
     (Accel_z, Fin (unpack_h (bytes_at 4 2 bs) * accel_ratio))]"

definition gyro_values :: "byte list \<Rightarrow> imu_values" where
  "gyro_values bs = [(Gyro_x, Fin (unpack_h (bytes_at 0 2 bs) * gyro_ratio)), (Gyro_y, Fin (unpack_h (bytes_at 2 2 bs) * gyro_ratio)),
     (Gyro_z, Fin (unpack_h (bytes_at 4 2 bs) * gyro_ratio))]"

definition mag_values :: "byte list \<Rightarrow> imu_values" where
  "mag_values bs = [(Mag_x, Fin (unpack_h (bytes_at 0 2 bs) * mag_ratio)), (Mag_y, Fin (unpack_h (bytes_at 2 2 bs) * mag_ratio)),
     (Mag_z, Fin (unpack_h (bytes_at 4 2 bs) * mag_ratio))]"

definition quaternion_values :: "byte list \<Rightarrow> imu_values" where
  "quaternion_values bs = [(Quat_w, unpack_f (bytes_at 0 4 bs)), (Quat_x, unpack_f (bytes_at 4 4 bs)),
     (Quat_y, unpack_f (bytes_at 8 4 bs)), (Quat_z, unpack_f (bytes_at 12 4 bs))]"

definition euler_values :: "byte list \<Rightarrow> imu_values" where
  "euler_values bs = [(Roll, degrees (unpack_f (bytes_at 0 4 bs))), (Pitch, degrees (unpack_f (bytes_at 4 4 bs))),
     (Yaw, degrees (unpack_f (bytes_at 8 4 bs)))]"

definition baro_values :: "byte list \<Rightarrow> imu_values" where
  "baro_values bs = [(Baro_height, unpack_f (bytes_at 0 4 bs)), (Baro_temp, unpack_f (bytes_at 4 4 bs)),
     (Baro_pressure, unpack_f (bytes_at 8 4 bs))]"

section \<open>Facts\<close>

lemma byte_range: "0 \<le> uint (b :: byte)" "uint (b :: byte) < 256"
  using uint_lt2p [of b] by simp_all

lemma little_endian_range: "0 \<le> little_endian bs" "little_endian bs < 256 ^ length bs"
proof (induction bs)
  case (Cons b bs)
  { case 1 show ?case using Cons(1) byte_range(1) [of b] by simp }
  { case 2
    have "little_endian bs \<le> 256 ^ length bs - 1" using Cons(2) by simp
    then have "256 * little_endian bs \<le> 256 * 256 ^ length bs - 256" by simp
    then show ?case using byte_range(2) [of b] by simp }
qed simp_all

lemma unpack_h_range: "length bs = 2 \<Longrightarrow> - 32768 \<le> unpack_h bs \<and> unpack_h bs \<le> 32767"
  using little_endian_range [of bs] by (auto simp: unpack_h_def Let_def)

lemma single_value_abs:
  "single_value s e m = Fin x \<Longrightarrow>
     \<bar>x\<bar> = \<bar>if e = 0 then of_int m / 2 ^ 149 else of_int (2 ^ 23 + m) * 2 ^ nat e / 2 ^ 150\<bar>"
  by (auto simp: single_value_def Let_def split: if_splits)

text \<open>The finite values of an IEEE single.\<close>

lemma unpack_f_range:
  assumes "length bs = 4" "unpack_f bs = Fin x"
  shows "\<bar>x\<bar> \<le> 2 ^ 128 - 2 ^ 104"
proof -
  define w where "w = little_endian bs"
  define e where "e = w div 2 ^ 23 mod 256"
  define m where "m = w mod 2 ^ 23"
  have r: "0 \<le> e" "e < 256" "0 \<le> m" "m \<le> 2 ^ 23 - 1" by (simp_all add: e_def m_def zle_diff1_eq)
  have v: "single_value (w div 2 ^ 31) e m = Fin x" using assms(2) by (simp add: unpack_f_def w_def e_def m_def Let_def)
  then have ne: "e \<noteq> 255" by (auto simp: single_value_def split: if_splits)
  with r have e: "nat e \<le> 254" by simp
  have "real_of_int m \<le> real_of_int (2 ^ 23 - 1)" using r(4) by (simp only: of_int_le_iff)
  then have m: "real_of_int m \<le> 2 ^ 23 - 1" by simp
  have "\<bar>x\<bar> \<le> (2 ^ 24 - 1) * 2 ^ 254 / 2 ^ 150"
  proof (cases "e = 0")
    case True
    then have "\<bar>x\<bar> = of_int m / 2 ^ 149" using v r(3) by (auto simp: single_value_def Let_def split: if_splits)
    also have "\<dots> \<le> (2 ^ 24 - 1) * 2 ^ 254 / 2 ^ 150" using m by (simp add: divide_le_eq)
    finally show ?thesis .
  next
    case False
    have "0 \<le> of_int (2 ^ 23 + m) * 2 ^ nat e / (2 :: real) ^ 150" using r(3) by simp
    then have "\<bar>x\<bar> = of_int (2 ^ 23 + m) * 2 ^ nat e / 2 ^ 150"
      using single_value_abs [OF v] False by (simp only: if_False abs_of_nonneg)
    also have "\<dots> \<le> (2 ^ 24 - 1) * 2 ^ 254 / 2 ^ 150"
    proof (intro divide_right_mono mult_mono)
      show "real_of_int (2 ^ 23 + m) \<le> 2 ^ 24 - 1" using m by simp
      show "(2 :: real) ^ nat e \<le> 2 ^ 254" using e by (intro power_increasing) simp_all
    qed simp_all
    finally show ?thesis .
  qed
  also have "(2 ^ 24 - 1) * 2 ^ 254 / (2 :: real) ^ 150 = 2 ^ 128 - 2 ^ 104" by simp
  finally show ?thesis .
qed

end
