(* ===== verification/Teleop_Server.thy ===== *)
theory Teleop_Server
  imports Teleop_Bridge Imu_Values
begin

text \<open>
  \<open>ws_server.py\<close> and the subscriptions of \<open>bridge_node.py\<close>: the sessions of the clients, the messages
  the server answers itself, the lease it remembers for each client, broadcasts, and the steps of the
  bridge as a whole. Sending may fail when the connection is gone; nothing depends on it.
\<close>

section \<open>Sessions\<close>

definition get_client :: "nat \<Rightarrow> teleop_bridge \<Rightarrow> web_client option" where
  "get_client c m = map_of (wb_info m) c"

definition set_client :: "nat \<Rightarrow> web_client \<Rightarrow> teleop_bridge \<Rightarrow> teleop_bridge" where
  "set_client c i m = m\<lparr>wb_info := AList.update c i (wb_info m)\<rparr>"

text \<open>\<open>_get_or_create_client_info\<close> for a new connection; the UUID is an argument.\<close>

definition new_client :: "string \<Rightarrow> teleop_bridge \<Rightarrow> web_client" where
  "new_client uuid m = \<lparr>wl_id = uuid, wl_name = J_string (''client_'' @ int_string (int (length (wb_info m)) + 1)), wl_lease = ''''\<rparr>"

definition connect_client :: "nat \<Rightarrow> string \<Rightarrow> teleop_bridge \<Rightarrow> teleop_bridge" where
  "connect_client c uuid m = set_client c (new_client uuid m) (m\<lparr>wb_clients := c # wb_clients m\<rparr>)"

definition client_context :: "web_client \<Rightarrow> web_context" where
  "client_context i = \<lparr>wx_requester_id = wl_id i, wx_client_name = wl_name i, wx_lease_id = wl_lease i\<rparr>"

definition synced_lease :: "json_object \<Rightarrow> string" where
  "synced_lease payload =
     (let lease = py_strip (state_text ''teleop_lease_id'' payload)
      in if state_flag ''known_holder_matches'' payload \<and> state_flag ''known_teleop_active'' payload \<and> lease \<noteq> '''' then lease else '''')"

definition sync_client_teleop_lease :: "nat \<Rightarrow> json_object \<Rightarrow> teleop_bridge \<Rightarrow> teleop_bridge" where
  "sync_client_teleop_lease c payload m =
     (case get_client c m of None \<Rightarrow> m | Some i \<Rightarrow> set_client c (i\<lparr>wl_lease := synced_lease payload\<rparr>) m)"

text \<open>The response is parsed again; a JSON value prints as itself.\<close>

definition sync_from_response :: "web_env \<Rightarrow> nat \<Rightarrow> web_response \<Rightarrow> teleop_bridge \<Rightarrow> teleop_bridge" where
  "sync_from_response env c r m =
     (case r of
        R_json payload \<Rightarrow> sync_client_teleop_lease c payload m
      | R_text s \<Rightarrow> (case we_loads env s of Some (J_object payload) \<Rightarrow> sync_client_teleop_lease c payload m | _ \<Rightarrow> m))"

definition online_users :: "web_env \<Rightarrow> teleop_bridge \<Rightarrow> json" where
  "online_users env m =
     J_list (J_object [(''id'', J_string ''ros2-robot-device''), (''name'', J_string (we_device env))]
       # map (\<lambda>(c, i). J_object [(''id'', J_string (wl_id i)), (''name'', wl_name i)]) (wb_info m))"

section \<open>Messages\<close>

definition send_json :: "nat \<Rightarrow> json_object \<Rightarrow> teleop_bridge \<Rightarrow> teleop_bridge" where
  "send_json c r m = web_emit (Web_sent c (R_json r)) m"

definition server_register :: "web_env \<Rightarrow> web_clock \<Rightarrow> nat \<Rightarrow> web_client \<Rightarrow> json_object \<Rightarrow> teleop_bridge \<Rightarrow> teleop_bridge" where
  "server_register env clk c i data m =
     (let name = jget_or ''name'' (wl_name i) data;
          m1 = set_client c (i\<lparr>wl_name := name\<rparr>) m
      in send_json c [(''type'', J_string ''connected''), (''clientName'', name), (''clientId'', J_string (wl_id i)),
           (''requester_id'', J_string (wl_id i)), (''onlineClients'', online_users env m1), (''device_id'', J_string (we_device env)),
           (''timestamp'', J_int (wk_seconds clk))] (m1\<lparr>wb_user_lists := Suc (wb_user_lists m1)\<rparr>))"

text \<open>\<open>_handle_servo_control_direct\<close>: the error response, or none when the command was published.\<close>

definition servo_control_direct :: "json \<Rightarrow> web_env \<Rightarrow> web_clock \<Rightarrow> web_context \<Rightarrow> teleop_bridge \<Rightarrow> (json_object option \<times> teleop_bridge) result" where
  "servo_control_direct v env clk ctx m =
     bind_result (parse_servo_control v) (\<lambda>parsed.
       Inr (case parsed of
              None \<Rightarrow> (Some (invalid_command_response v env clk), m)
            | Some cmd \<Rightarrow>
                (case handle_servo_command cmd (Some ctx) m of
                   (Some e, m1) \<Rightarrow> (Some (command_error_response e cmd (we_device env) (wk_seconds clk)), m1)
                 | (None, m1) \<Rightarrow> (None, m1))))"

definition answer_direct :: "web_env \<Rightarrow> web_clock \<Rightarrow> nat \<Rightarrow> json_object option \<times> teleop_bridge \<Rightarrow> teleop_bridge" where
  "answer_direct env clk c r =
     (case r of (Some e, m) \<Rightarrow> send_json c e m | (None, m) \<Rightarrow> send_json c (private_ack env clk) m)"

text \<open>
  \<open>_handle_private_to_robot\<close>: the content is sliced for a log line before the \<open>try\<close> block, which
  raises for anything but a text or a list; in the block, exceptions only print a line.
\<close>

definition server_private :: "json_object \<Rightarrow> web_env \<Rightarrow> web_clock \<Rightarrow> nat \<Rightarrow> web_context \<Rightarrow> teleop_bridge \<Rightarrow> teleop_bridge result" where
  "server_private data env clk c ctx m =
     (let run = (\<lambda>v. case servo_control_direct v env clk ctx m of Inl e \<Rightarrow> Inr m | Inr r \<Rightarrow> Inr (answer_direct env clk c r))
      in case jget_or ''content'' (J_string '''') data of
           J_string s \<Rightarrow> (case we_loads env s of None \<Rightarrow> Inr m | Some v \<Rightarrow> run v)
         | J_list vs \<Rightarrow> run (J_list vs)
         | _ \<Rightarrow> Inl (TypeError ''content''))"

text \<open>An answer of the handler is first read for the lease it shows, then sent.\<close>

definition reply_client :: "web_env \<Rightarrow> nat \<Rightarrow> web_response option \<times> teleop_bridge \<Rightarrow> teleop_bridge" where
  "reply_client env c r =
     (case r of
        (None, m) \<Rightarrow> m
      | (Some a, m) \<Rightarrow> if a = R_text '''' then m else web_emit (Web_sent c a) (sync_from_response env c a m))"

definition server_dispatch :: "json_object \<Rightarrow> extension_answer \<Rightarrow> web_env \<Rightarrow> web_clock \<Rightarrow> nat \<Rightarrow> web_client \<Rightarrow> teleop_bridge \<Rightarrow> teleop_bridge result" where
  "server_dispatch data ext env clk c i m =
     (case jget_or ''type'' (J_string '''') data of
        J_string s \<Rightarrow>
          let t = py_lower s in
          if t = ''register'' then Inr (server_register env clk c i data m)
          else if t = ''private'' \<and> jget ''to'' data = Some (J_string ''ros2-robot-device'')
            then server_private data env clk c (client_context i) m
          else if t = ''servo_control''
            then bind_result (servo_control_direct (J_object data) env clk (client_context i) m) (\<lambda>r. Inr (answer_direct env clk c r))
          else bind_result (handle_message data ext env clk (Some (client_context i)) m) (\<lambda>r. Inr (reply_client env c r))
      | _ \<Rightarrow> Inl (AttributeError ''lower''))"

definition exception_response :: "web_env \<Rightarrow> web_clock \<Rightarrow> json_object" where
  "exception_response env clk =
     [(''type'', J_string ''error''), (''status'', J_string ''error''), (''device_id'', J_string (we_device env)),
      (''timestamp'', J_int (wk_seconds clk))]"

definition process_client_message :: "string \<Rightarrow> extension_answer \<Rightarrow> web_env \<Rightarrow> web_clock \<Rightarrow> nat \<Rightarrow> web_client \<Rightarrow> teleop_bridge \<Rightarrow> teleop_bridge" where
  "process_client_message raw ext env clk c i m =
     (case we_loads env raw of
        None \<Rightarrow> m
      | Some (J_object data) \<Rightarrow>
          (case server_dispatch data ext env clk c i m of
             Inl e \<Rightarrow> send_json c (exception_response env clk) m
           | Inr m1 \<Rightarrow> m1)
      | Some v \<Rightarrow> send_json c (exception_response env clk) m)"

text \<open>The \<open>finally\<close> block of \<open>handle_client\<close>: release the control of the client, then forget it.\<close>

definition disconnect_client :: "nat \<Rightarrow> web_client \<Rightarrow> teleop_bridge \<Rightarrow> teleop_bridge" where
  "disconnect_client c i m =
     (let m1 = snd (node_teleop_control ''release'' (Some (client_context i)) m)
      in m1\<lparr>wb_clients := remove1 c (wb_clients m1), wb_info := AList.delete c (wb_info m1), wb_user_lists := Suc (wb_user_lists m1)\<rparr>)"

section \<open>Broadcasts\<close>

definition build_broadcast_payload :: "nat \<Rightarrow> json_object \<Rightarrow> teleop_bridge \<Rightarrow> json_object \<times> teleop_bridge" where
  "build_broadcast_payload c status m =
     (if jget ''type'' status \<noteq> Some (J_string ''execution_state'') then (status, m)
      else case get_client c m of
             None \<Rightarrow> (status, m)
           | Some i \<Rightarrow>
               let payload = json_update status (requester_teleop_status (Some (client_context i)) (wb_exec m))
               in (payload, sync_client_teleop_lease c payload m))"

definition broadcast_one :: "web_env \<Rightarrow> web_clock \<Rightarrow> json_object \<Rightarrow> nat \<Rightarrow> teleop_bridge \<Rightarrow> teleop_bridge" where
  "broadcast_one env clk status c m =
     (let (payload, m1) = build_broadcast_payload c status m
      in send_json c [(''type'', J_string ''status_update''), (''device_id'', J_string (we_device env)), (''data'', J_object payload),
           (''timestamp'', J_int (wk_seconds clk))] m1)"

definition broadcast_status :: "web_env \<Rightarrow> web_clock \<Rightarrow> json_object \<Rightarrow> teleop_bridge \<Rightarrow> teleop_bridge" where
  "broadcast_status env clk status m = fold (broadcast_one env clk status) (wb_clients m) m"

definition send_all :: "json_object \<Rightarrow> teleop_bridge \<Rightarrow> teleop_bridge" where
  "send_all r m = fold (\<lambda>c. send_json c r) (wb_clients m) m"

text \<open>The text of the notice is left out.\<close>

definition broadcast_user_list :: "web_env \<Rightarrow> web_clock \<Rightarrow> teleop_bridge \<Rightarrow> teleop_bridge" where
  "broadcast_user_list env clk m =
     send_all [(''type'', J_string ''broadcast''), (''onlineUsers'', online_users env m), (''timestamp'', J_int (wk_seconds clk))] m"

text \<open>One round of \<open>heartbeat_loop\<close>.\<close>

definition server_heartbeat :: "web_env \<Rightarrow> web_clock \<Rightarrow> teleop_bridge \<Rightarrow> teleop_bridge" where
  "server_heartbeat env clk m =
     (case heartbeat_response (we_device env) (wk_seconds clk) of J_object r \<Rightarrow> send_all r m | _ \<Rightarrow> m)"

section \<open>Subscriptions\<close>

text \<open>\<open>execution_state_callback\<close>, up to and from the point where the server learns the state.\<close>

definition state_arrives :: "execution_state_msg \<Rightarrow> teleop_bridge \<Rightarrow> teleop_bridge" where
  "state_arrives msg m =
     (let st = execution_state_dict msg
      in m\<lparr>wb_latest := st, wb_callback := Some (st, st \<noteq> wb_latest m)\<rparr>)"

definition state_reaches_server :: "bool \<Rightarrow> json_object \<Rightarrow> bool \<Rightarrow> teleop_bridge \<Rightarrow> teleop_bridge" where
  "state_reaches_server loop_runs st changed m =
     m\<lparr>wb_exec := st, wb_callback := None,
       wb_broadcasts := wb_broadcasts m @
         (if changed \<and> loop_runs then [[(''type'', J_string ''execution_state''), (''execution_state'', J_object st)]] else [])\<rparr>"

definition map_pulse_to_centered_angle :: "int \<Rightarrow> real" where
  "map_pulse_to_centered_angle pulse = of_int (clamp BUS_MIN_US BUS_MAX_US pulse - BUS_MIN_US) * (180 / 2000) - 90"

definition actuator_payload :: "actuator_feedback \<Rightarrow> real \<Rightarrow> json_object" where
  "actuator_payload msg stamp =
     (let bus = (af_value_encoding msg = ''bus_pulse_us'');
          angle = J_real (map_pulse_to_centered_angle (af_position_raw msg))
      in [(''servo_type'', J_string (af_actuator_type msg)), (''servo_id'', J_int (af_actuator_id msg)),
          (''position'', if bus then angle else J_int (af_position_raw msg)), (''angle'', if bus then angle else J_null),
          (''pulse'', if bus then J_int (af_position_raw msg) else J_null), (''load'', J_int (af_load msg)),
          (''temperature'', J_int (af_temperature msg)), (''error_code'', J_int (af_driver_error_code msg)),
          (''timestamp'', J_real stamp)])"

definition update_servo_state :: "int \<Rightarrow> string \<Rightarrow> json \<Rightarrow> (string \<times> json_object) list \<Rightarrow> (string \<times> json_object) list" where
  "update_servo_state sid servo_type position servos =
     (let file = (\<lambda>k. AList.update k (AList.update (''id_'' @ int_string sid) position
                    (case map_of servos k of None \<Rightarrow> [] | Some d \<Rightarrow> d)) servos)
      in if servo_type = ''bus'' then file ''bus_servos'' else if servo_type = ''pca'' then file ''pwm_servos'' else servos)"

definition actuator_arrives :: "bool \<Rightarrow> actuator_feedback \<Rightarrow> real \<Rightarrow> teleop_bridge \<Rightarrow> teleop_bridge" where
  "actuator_arrives loop_runs msg stamp m =
     (let payload = actuator_payload msg stamp
      in m\<lparr>wb_servos := update_servo_state (af_actuator_id msg) (af_actuator_type msg) (get_null ''position'' payload) (wb_servos m),
           wb_broadcasts := wb_broadcasts m @ (if loop_runs then [payload] else [])\<rparr>)"

text \<open>\<open>imu_data_callback\<close>; the values are broadcast as they are, NaN included.\<close>

definition imu_payload :: "imu_message \<Rightarrow> real \<Rightarrow> json_object" where
  "imu_payload msg stamp =
     (let v = (\<lambda>f. J_float (iu_values msg f))
      in [(''type'', J_string ''sensor_data''), (''sensor_type'', J_string (iu_sensor_type msg)), (''sensor_id'', J_int (iu_sensor_id msg)),
          (''data'', J_object
            [(''accel'', J_object [(''x'', v Accel_x), (''y'', v Accel_y), (''z'', v Accel_z), (''unit'', J_string ''g'')]),
             (''gyro'', J_object [(''x'', v Gyro_x), (''y'', v Gyro_y), (''z'', v Gyro_z), (''unit'', J_string ''rad/s'')]),
             (''mag'', J_object [(''x'', v Mag_x), (''y'', v Mag_y), (''z'', v Mag_z), (''unit'', J_string ''uT'')]),
             (''quaternion'', J_object [(''w'', v Quat_w), (''x'', v Quat_x), (''y'', v Quat_y), (''z'', v Quat_z)]),
             (''euler'', J_object [(''roll'', v Roll), (''pitch'', v Pitch), (''yaw'', v Yaw), (''unit'', J_string ''deg'')]),
             (''baro'', J_object [(''height'', v Baro_height), (''temperature'', v Baro_temp), (''pressure'', v Baro_pressure)])]),
          (''error_code'', J_int (iu_error_code msg)), (''timestamp'', J_real stamp)])"

definition imu_arrives :: "bool \<Rightarrow> imu_message \<Rightarrow> real \<Rightarrow> teleop_bridge \<Rightarrow> teleop_bridge" where
  "imu_arrives loop_runs msg stamp m = m\<lparr>wb_broadcasts := wb_broadcasts m @ (if loop_runs then [imu_payload msg stamp] else [])\<rparr>"

section \<open>Steps\<close>

text \<open>
  The node's callbacks share a mutually exclusive group: no other starts while a state callback is
  between its halves. UUIDs are fresh and not blank.
\<close>

datatype web_event =
    W_connect nat string
  | W_message nat string extension_answer web_clock
  | W_disconnect nat
  | W_state execution_state_msg
  | W_state_server bool
  | W_actuator bool actuator_feedback real
  | W_imu bool imu_message real
  | W_broadcast web_clock
  | W_user_list web_clock
  | W_heartbeat web_clock

fun web_step :: "web_env \<Rightarrow> web_event \<Rightarrow> teleop_bridge \<Rightarrow> teleop_bridge option" where
  "web_step env (W_connect c uuid) m =
     (if get_client c m \<noteq> None \<or> py_strip uuid = '''' \<or> py_strip uuid \<noteq> uuid \<or> uuid \<in> wl_id ` snd ` set (wb_info m) then None
      else Some (connect_client c uuid m))"
| "web_step env (W_message c raw ext clk) m =
     (case get_client c m of None \<Rightarrow> None | Some i \<Rightarrow> Some (process_client_message raw ext env clk c i m))"
| "web_step env (W_disconnect c) m =
     (case get_client c m of None \<Rightarrow> None | Some i \<Rightarrow> Some (disconnect_client c i m))"
| "web_step env (W_state msg) m = (if wb_callback m \<noteq> None then None else Some (state_arrives msg m))"
| "web_step env (W_state_server loop_runs) m =
     (case wb_callback m of None \<Rightarrow> None | Some (st, changed) \<Rightarrow> Some (state_reaches_server loop_runs st changed m))"
| "web_step env (W_actuator loop_runs msg stamp) m =
     (if wb_callback m \<noteq> None then None else Some (actuator_arrives loop_runs msg stamp m))"
| "web_step env (W_imu loop_runs msg stamp) m =
     (if wb_callback m \<noteq> None then None else Some (imu_arrives loop_runs msg stamp m))"
| "web_step env (W_broadcast clk) m =
     (case wb_broadcasts m of [] \<Rightarrow> None | b # bs \<Rightarrow> Some (broadcast_status env clk b (m\<lparr>wb_broadcasts := bs\<rparr>)))"
| "web_step env (W_user_list clk) m =
     (case wb_user_lists m of 0 \<Rightarrow> None | Suc n \<Rightarrow> Some (broadcast_user_list env clk (m\<lparr>wb_user_lists := n\<rparr>)))"
| "web_step env (W_heartbeat clk) m = Some (server_heartbeat env clk m)"

inductive web_reachable :: "web_env \<Rightarrow> teleop_bridge \<Rightarrow> bool" for env where
  start: "web_reachable env bridge_start"
| step: "web_reachable env m \<Longrightarrow> web_step env e m = Some m' \<Longrightarrow> web_reachable env m'"

end
