(* ===== verification/Teleop_Safety.thy ===== *)
theory Teleop_Safety
  imports Teleop_Server
begin

text \<open>
  What the teleoperation bridge guarantees: the invariant \<open>web_ok\<close> of its sessions, and for every step
  what it may publish (\<open>speaks_for\<close>): commands only for the client whose message it handles, under
  its identity, in range, and only while the execution state names it as the holder of control.
\<close>

section \<open>Sessions\<close>

definition client_fine :: "web_client \<Rightarrow> bool" where
  "client_fine i \<longleftrightarrow> wl_id i \<noteq> '''' \<and> py_strip (wl_id i) = wl_id i \<and> py_strip (wl_lease i) = wl_lease i"

definition web_ok :: "teleop_bridge \<Rightarrow> bool" where
  "web_ok m \<longleftrightarrow> distinct (map fst (wb_info m)) \<and> distinct (wb_clients m) \<and> set (wb_clients m) = fst ` set (wb_info m)
     \<and> distinct (map (wl_id \<circ> snd) (wb_info m))
     \<and> (\<forall>i \<in> snd ` set (wb_info m). client_fine i)"

text \<open>Replacing an entry by one with the same identity keeps the table of identities.\<close>

lemma update_ids:
  "map_of xs c = Some i \<Longrightarrow> wl_id j = wl_id i \<Longrightarrow>
     map fst (AList.update c j xs) = map fst xs \<and> map (wl_id \<circ> snd) (AList.update c j xs) = map (wl_id \<circ> snd) xs"
  by (induction xs) (auto split: if_splits)

lemma update_members: "snd ` set (AList.update c j xs) \<subseteq> insert j (snd ` set xs)"
  by (induction xs) auto

lemma get_set_client [simp]: "get_client d (set_client c i m) = (if d = c then Some i else get_client d m)"
  by (simp add: get_client_def set_client_def update_conv')

lemma set_client_fields [simp]:
  "wb_out (set_client c i m) = wb_out m" "wb_latest (set_client c i m) = wb_latest m" "wb_exec (set_client c i m) = wb_exec m"
  "wb_clients (set_client c i m) = wb_clients m"
  by (simp_all add: set_client_def)

lemma client_ok: "web_ok m \<Longrightarrow> get_client c m = Some i \<Longrightarrow> client_fine i"
  unfolding web_ok_def get_client_def by (force dest: map_of_SomeD)

lemma ok_set_client:
  assumes ok: "web_ok m" and c: "get_client c m = Some i" and j: "wl_id j = wl_id i" "py_strip (wl_lease j) = wl_lease j"
  shows "web_ok (set_client c j m)"
proof -
  have f: "client_fine j" using client_ok [OF ok c] j unfolding client_fine_def by presburger
  note ids = update_ids [OF c [unfolded get_client_def] j(1)]
  then have "fst ` set (AList.update c j (wb_info m)) = fst ` set (wb_info m)" by (metis list.set_map)
  moreover have "client_fine i'" if "i' \<in> snd ` set (AList.update c j (wb_info m))" for i'
  proof -
    from subsetD [OF update_members that] have "i' = j \<or> i' \<in> snd ` set (wb_info m)" by (simp only: insert_iff)
    then show ?thesis using f ok unfolding web_ok_def by blast
  qed
  ultimately show ?thesis using ok ids unfolding web_ok_def set_client_def by simp
qed

text \<open>Changes that leave the sessions alone.\<close>

lemma ok_same: "web_ok m \<Longrightarrow> wb_info m' = wb_info m \<Longrightarrow> wb_clients m' = wb_clients m \<Longrightarrow> web_ok m'"
  by (simp add: web_ok_def)

lemma emit_fields [simp]:
  "wb_info (web_emit x m) = wb_info m" "wb_clients (web_emit x m) = wb_clients m" "wb_latest (web_emit x m) = wb_latest m"
  "wb_exec (web_emit x m) = wb_exec m" "wb_out (web_emit x m) = x # wb_out m"
  "get_client c (web_emit x m) = get_client c m"
  by (simp_all add: web_emit_def get_client_def)

lemma ok_emit [simp]: "web_ok (web_emit x m) = web_ok m"
  by (simp add: web_ok_def)

lemma strip_synced [simp]: "py_strip (synced_lease p) = synced_lease p"
  by (simp add: synced_lease_def Let_def)

lemma ok_sync: "web_ok m \<Longrightarrow> web_ok (sync_client_teleop_lease c p m)"
  by (auto simp: sync_client_teleop_lease_def intro: ok_set_client split: option.splits)

lemma sync_fields [simp]:
  "wb_out (sync_client_teleop_lease c p m) = wb_out m" "wb_latest (sync_client_teleop_lease c p m) = wb_latest m"
  "wb_exec (sync_client_teleop_lease c p m) = wb_exec m" "wb_clients (sync_client_teleop_lease c p m) = wb_clients m"
  "get_client d (sync_client_teleop_lease c p m) =
     (if d = c then map_option (\<lambda>i. i\<lparr>wl_lease := synced_lease p\<rparr>) (get_client c m) else get_client d m)"
  by (auto simp: sync_client_teleop_lease_def split: option.splits)

section \<open>What a step publishes\<close>

definition command_in_range :: "motion_command \<Rightarrow> bool" where
  "command_in_range c \<longleftrightarrow> 0 \<le> mc_servo_id c \<and> mc_servo_id c \<le> 65535 \<and> 0 < mc_duration_ms c \<and> mc_duration_ms c \<le> 65535
     \<and> (mc_servo_type c = ''bus'' \<and> mc_value_encoding c = ''bus_pulse_us'' \<and> BUS_MIN_US \<le> mc_position c \<and> mc_position c \<le> BUS_MAX_US
        \<or> mc_servo_type c = ''pca'' \<and> mc_value_encoding c = ''pca_tick'' \<and> 0 \<le> mc_position c \<and> mc_position c \<le> 65535)"

definition authorised :: "string \<Rightarrow> string \<Rightarrow> json_object \<Rightarrow> motion_command \<Rightarrow> bool" where
  "authorised requester lease latest c \<longleftrightarrow> mc_requester_id c = requester \<and> mc_lease_id c = lease
     \<and> teleop_rejection requester lease latest = '''' \<and> command_in_range c"

fun output_ok :: "string \<Rightarrow> string \<Rightarrow> json_object \<Rightarrow> web_output \<Rightarrow> bool" where
  "output_ok requester lease latest (Web_move c) = authorised requester lease latest c"
| "output_ok requester lease latest (Web_control a r l) = (r = requester \<and> l = lease)"
| "output_ok requester lease latest (Web_sent c r) = True"

fun is_command_output :: "web_output \<Rightarrow> bool" where
  "is_command_output (Web_move c) = True"
| "is_command_output _ = False"

text \<open>From \<open>m\<close> to \<open>m'\<close> the sessions stay, and what is published is published for this client.\<close>

definition speaks_for :: "string \<Rightarrow> string \<Rightarrow> teleop_bridge \<Rightarrow> teleop_bridge \<Rightarrow> bool" where
  "speaks_for requester lease m m' \<longleftrightarrow> wb_info m' = wb_info m \<and> wb_clients m' = wb_clients m \<and> wb_latest m' = wb_latest m
     \<and> (\<exists>outs. wb_out m' = outs @ wb_out m \<and> list_all (output_ok requester lease (wb_latest m)) outs
          \<and> length (filter is_command_output outs) \<le> 1)"

lemma speaks_refl [simp]: "speaks_for r l m m"
  by (simp add: speaks_for_def)

lemma speaks_emit:
  "output_ok r l (wb_latest m) out \<Longrightarrow> speaks_for r l m (web_emit out m)"
  unfolding speaks_for_def by (auto intro!: exI [of _ "[out]"])

lemma speaks_send:
  assumes "speaks_for r l m m'"
  shows "speaks_for r l m (web_emit (Web_sent c a) m')"
proof -
  from assms obtain outs where "wb_out m' = outs @ wb_out m" "list_all (output_ok r l (wb_latest m)) outs"
    "length (filter is_command_output outs) \<le> 1" by (auto simp: speaks_for_def)
  then show ?thesis using assms unfolding speaks_for_def by (auto intro!: exI [of _ "Web_sent c a # outs"])
qed

lemma extract_context [simp]:
  "extract_requester_id (Some (client_context i)) = py_strip (wl_id i)"
  "extract_lease_id (Some (client_context i)) = py_strip (wl_lease i)"
  by (simp_all add: extract_requester_id_def extract_lease_id_def client_context_def)

lemma uint16_range: "coerce_uint16 i = Inr n \<Longrightarrow> 0 \<le> n \<and> n \<le> 65535"
  using clamp_bounds [of 0 65535 i] by (auto simp: coerce_uint16_def)

lemma motion_duration_range: "motion_duration_ms v f = Inr d \<Longrightarrow> 0 < d \<and> d \<le> 65535"
  by (auto simp: motion_duration_ms_def dest: uint16_range split: if_splits)

text \<open>A well-formed command of a client is published in range, or not at all.\<close>

lemma published_in_range:
  assumes ok: "web_command_ok cmd"
    and p: "normalize_motion_position (wc_servo_type cmd) (wc_position cmd) (norm_text (wc_value_encoding cmd)) = Inr p"
    and d: "motion_duration_ms (wc_duration_ms cmd) (wc_speed cmd) = Inr d"
    and b: "build_motion_command (wc_servo_type cmd) (wc_servo_id cmd) p (norm_text (wc_value_encoding cmd)) d r l = Inr msg"
  shows "command_in_range msg" "mc_requester_id msg = r" "mc_lease_id msg = l"
proof -
  have names: "norm_text ''bus'' = ''bus''" "norm_text ''pca'' = ''pca''" "norm_text ''bus_pulse_us'' = ''bus_pulse_us''"
    "norm_text ''pca_tick'' = ''pca_tick''" by code_simp+
  show "mc_requester_id msg = r" "mc_lease_id msg = l" using b by (auto simp: build_motion_command_def split: if_splits)
  from ok [unfolded web_command_ok_def] show "command_in_range msg"
  proof (elim conjE disjE)
    assume "wc_servo_type cmd = ''bus''" "wc_value_encoding cmd = ''bus_pulse_us''"
    then show ?thesis using p b motion_duration_range [OF d]
      by (auto simp: normalize_motion_position_def build_motion_command_def command_in_range_def names split: if_splits)
  next
    assume "wc_servo_type cmd = ''pca''" "wc_value_encoding cmd = ''pca_tick''"
    then show ?thesis using p b motion_duration_range [OF d]
      by (auto simp: normalize_motion_position_def build_motion_command_def command_in_range_def names dest: uint16_range split: if_splits)
  qed
qed

lemma encoding_named: "web_command_ok cmd \<Longrightarrow> norm_text (wc_value_encoding cmd) \<noteq> ''''"
proof -
  have "norm_text ''bus_pulse_us'' \<noteq> ''''" "norm_text ''pca_tick'' \<noteq> ''''" by code_simp+
  then show "web_command_ok cmd \<Longrightarrow> norm_text (wc_value_encoding cmd) \<noteq> ''''" by (auto simp: web_command_ok_def)
qed

lemma handle_servo_speaks:
  assumes "web_command_ok cmd"
  shows "speaks_for (extract_requester_id ctx) (extract_lease_id ctx) m (snd (handle_servo_command cmd ctx m))"
  using encoding_named [OF assms] published_in_range [OF assms]
  by (auto simp: handle_servo_command_def Let_def authorised_def intro!: speaks_emit split: sum.splits)

lemma control_speaks:
  "norm_text action \<noteq> '''' \<Longrightarrow> speaks_for (extract_requester_id ctx) (extract_lease_id ctx) m
     (publish_teleop_control action (extract_requester_id ctx) (extract_lease_id ctx) m)"
  by (auto simp: publish_teleop_control_def extract_requester_id_def extract_lease_id_def intro!: speaks_emit split: option.splits)

lemma parsed_speaks:
  "parse_servo_control v = Inr (Some cmd) \<Longrightarrow> handle_servo_command cmd ctx m = (e, m') \<Longrightarrow>
     speaks_for (extract_requester_id ctx) (extract_lease_id ctx) m m'"
  using handle_servo_speaks [of cmd ctx m] parsed_web_ok by fastforce

lemma reply_servo_speaks:
  assumes "reply_servo_control data env clk ctx m = Inr (a, m')"
  shows "speaks_for (extract_requester_id ctx) (extract_lease_id ctx) m m'"
proof -
  from assms obtain parsed where p: "parse_servo_control data = Inr parsed" by (auto simp: reply_servo_control_def)
  show ?thesis
  proof (cases parsed)
    case (Some cmd)
    obtain e m1 where h: "handle_servo_command cmd ctx m = (e, m1)" by (cases "handle_servo_command cmd ctx m")
    have "m' = m1" using assms p Some h by (cases e) (auto simp: reply_servo_control_def)
    then show ?thesis using parsed_speaks p Some h by auto
  qed (use assms p in \<open>auto simp: reply_servo_control_def\<close>)
qed

lemma broadcast_speaks:
  "reply_broadcast data ctx m = Inr (a, m') \<Longrightarrow> speaks_for (extract_requester_id ctx) (extract_lease_id ctx) m m'"
  by (auto simp: reply_broadcast_def split: option.splits intro: handle_servo_speaks parsed_web_ok)

lemma private_speaks:
  "reply_private data env clk ctx m = Inr (a, m') \<Longrightarrow> speaks_for (extract_requester_id ctx) (extract_lease_id ctx) m m'"
  by (auto simp: reply_private_def split: option.splits intro: handle_servo_speaks parsed_web_ok)

lemma heartbeat_speaks:
  "speaks_for (extract_requester_id ctx) (extract_lease_id ctx) m (snd (reply_heartbeat env clk ctx m))"
proof -
  have "norm_text ''keepalive'' \<noteq> ''''" by code_simp
  then show ?thesis by (auto simp: reply_heartbeat_def heartbeat_response_def node_heartbeat_def intro: control_speaks)
qed

lemma teleop_control_speaks:
  "norm_text action \<noteq> '''' \<Longrightarrow> speaks_for (extract_requester_id ctx) (extract_lease_id ctx) m (snd (reply_teleop_control action env clk ctx m))"
  by (auto simp: reply_teleop_control_def node_teleop_control_def intro: control_speaks)

lemma dispatch_speaks:
  assumes "dispatch_message t data ext env clk ctx m = Inr (a, m')"
  shows "speaks_for (extract_requester_id ctx) (extract_lease_id ctx) m m'"
proof -
  have n: "norm_text ''claim'' \<noteq> ''''" "norm_text ''release'' \<noteq> ''''" by code_simp+
  show ?thesis
    using assms heartbeat_speaks [of ctx m env clk] teleop_control_speaks [OF n(1), of ctx m env clk]
      teleop_control_speaks [OF n(2), of ctx m env clk]
    by (cases t) (auto simp: dispatch_message_def reply_servo_speaks broadcast_speaks private_speaks)
qed

lemma handle_message_speaks:
  "handle_message data ext env clk ctx m = Inr (a, m') \<Longrightarrow> speaks_for (extract_requester_id ctx) (extract_lease_id ctx) m m'"
  by (auto simp: handle_message_def Let_def dispatch_speaks split: if_splits)

lemma direct_speaks:
  assumes "servo_control_direct v env clk ctx m = Inr r"
  shows "speaks_for (py_strip (wx_requester_id ctx)) (py_strip (wx_lease_id ctx)) m (answer_direct env clk c r)"
proof -
  from assms obtain parsed where p: "parse_servo_control v = Inr parsed" by (auto simp: servo_control_direct_def)
  have "speaks_for (py_strip (wx_requester_id ctx)) (py_strip (wx_lease_id ctx)) m (snd r)"
  proof (cases parsed)
    case (Some cmd)
    obtain e m1 where h: "handle_servo_command cmd (Some ctx) m = (e, m1)" by (cases "handle_servo_command cmd (Some ctx) m")
    have "snd r = m1" using assms p Some h by (cases e) (auto simp: servo_control_direct_def)
    then show ?thesis using parsed_speaks [of v cmd "Some ctx" m e m1] p Some h
      by (simp add: extract_requester_id_def extract_lease_id_def)
  qed (use assms p in \<open>auto simp: servo_control_direct_def\<close>)
  then show ?thesis by (cases r; cases "fst r") (auto simp: answer_direct_def send_json_def intro: speaks_send)
qed

text \<open>
  A message of a client is handled for that client: the identity and the lease are the ones the server
  has on record for it. The answer may change its lease or its name, but no other session.
\<close>

definition session_kept :: "nat \<Rightarrow> teleop_bridge \<Rightarrow> teleop_bridge \<Rightarrow> bool" where
  "session_kept c m m' \<longleftrightarrow> wb_clients m' = wb_clients m \<and> (\<forall>d. d \<noteq> c \<longrightarrow> get_client d m' = get_client d m)
     \<and> map_option wl_id (get_client c m') = map_option wl_id (get_client c m)"

definition publishes :: "string \<Rightarrow> string \<Rightarrow> teleop_bridge \<Rightarrow> teleop_bridge \<Rightarrow> bool" where
  "publishes requester lease m m' \<longleftrightarrow> wb_latest m' = wb_latest m
     \<and> (\<exists>outs. wb_out m' = outs @ wb_out m \<and> list_all (output_ok requester lease (wb_latest m)) outs
          \<and> length (filter is_command_output outs) \<le> 1)"

lemma speaks_publishes: "speaks_for r l m m' \<Longrightarrow> publishes r l m m' \<and> session_kept c m m'"
  by (simp add: speaks_for_def publishes_def session_kept_def get_client_def)

lemma publishes_send: "publishes r l m m' \<Longrightarrow> publishes r l m (web_emit (Web_sent c a) m')"
  unfolding publishes_def by (elim conjE exE, intro conjI, simp, rule_tac x = "Web_sent c a # outs" in exI, simp)

lemma publishes_upto:
  "publishes r l m m' \<Longrightarrow> wb_latest m'' = wb_latest m' \<Longrightarrow> wb_out m'' = wb_out m' \<Longrightarrow> publishes r l m m''"
  by (simp add: publishes_def)

lemma sync_from_fields [simp]:
  "wb_out (sync_from_response env c a m) = wb_out m" "wb_latest (sync_from_response env c a m) = wb_latest m"
  by (auto simp: sync_from_response_def split: web_response.splits option.splits json.splits)

lemma ok_sync_from: "web_ok m \<Longrightarrow> web_ok (sync_from_response env c a m)"
  by (auto simp: sync_from_response_def ok_sync split: web_response.splits option.splits json.splits)

lemma session_sync: "session_kept c m m' \<Longrightarrow> session_kept c m (sync_client_teleop_lease c p m')"
  by (auto simp: session_kept_def option.map_comp comp_def)

lemma session_sync_from: "session_kept c m m' \<Longrightarrow> session_kept c m (sync_from_response env c a m')"
  by (auto simp: sync_from_response_def session_sync split: web_response.splits option.splits json.splits)

lemma session_send: "session_kept c m m' \<Longrightarrow> session_kept c m (web_emit (Web_sent d a) m')"
  by (simp add: session_kept_def)


section \<open>Steps\<close>

definition handled_for :: "nat \<Rightarrow> web_client \<Rightarrow> teleop_bridge \<Rightarrow> teleop_bridge \<Rightarrow> bool" where
  "handled_for c i m m' \<longleftrightarrow> publishes (wl_id i) (wl_lease i) m m' \<and> session_kept c m m' \<and> web_ok m'"

lemma handledI: "publishes (wl_id i) (wl_lease i) m m' \<Longrightarrow> session_kept c m m' \<Longrightarrow> web_ok m' \<Longrightarrow> handled_for c i m m'"
  by (simp add: handled_for_def)

lemma speaks_handled: "web_ok m \<Longrightarrow> speaks_for (wl_id i) (wl_lease i) m m' \<Longrightarrow> handled_for c i m m'"
  by (auto simp: handled_for_def dest: speaks_publishes [where c = c]) (auto simp: speaks_for_def intro: ok_same)

lemma handled_refl: "web_ok m \<Longrightarrow> handled_for c i m m"
  by (rule speaks_handled) simp_all

lemma handled_send: "handled_for c i m m' \<Longrightarrow> handled_for c i m (web_emit (Web_sent d a) m')"
  by (auto simp: handled_for_def intro: publishes_send session_send ok_same)

lemma handled_sync: "handled_for c i m m' \<Longrightarrow> handled_for c i m (sync_from_response env c a m')"
  by (auto simp: handled_for_def intro: publishes_upto session_sync_from ok_sync_from)

lemma context_ids: "web_ok m \<Longrightarrow> get_client c m = Some i \<Longrightarrow> py_strip (wl_id i) = wl_id i \<and> py_strip (wl_lease i) = wl_lease i"
  using client_ok by (simp add: client_fine_def)

lemma direct_handled:
  assumes "web_ok m" "get_client c m = Some i" "servo_control_direct v env clk (client_context i) m = Inr r"
  shows "handled_for c i m (answer_direct env clk c r)"
  using direct_speaks [OF assms(3), of c] context_ids [OF assms(1,2)]
  by (intro speaks_handled [OF assms(1)]) (simp add: client_context_def)

lemma register_handled:
  assumes ok: "web_ok m" and client: "get_client c m = Some i"
  shows "handled_for c i m (server_register env clk c i data m)"
proof (rule handledI)
  have k: "web_ok (set_client c (i\<lparr>wl_name := n\<rparr>) m)" for n
    by (rule ok_set_client [OF ok client]) (use context_ids [OF ok client] in simp_all)
  show "web_ok (server_register env clk c i data m)"
    unfolding server_register_def Let_def send_json_def by (rule ok_same [OF k]) simp_all
  show "session_kept c m (server_register env clk c i data m)"
    using client by (simp add: server_register_def Let_def send_json_def session_kept_def get_client_def set_client_def update_conv')
  show "publishes (wl_id i) (wl_lease i) m (server_register env clk c i data m)"
    unfolding publishes_def by (simp add: server_register_def Let_def send_json_def)
qed

lemma private_handled:
  assumes ok: "web_ok m" and client: "get_client c m = Some i"
    and run: "server_private data env clk c (client_context i) m = Inr m'"
  shows "handled_for c i m m'"
proof -
  define run where "run v = (case servo_control_direct v env clk (client_context i) m of Inl e \<Rightarrow> (Inr m :: teleop_bridge result) | Inr r \<Rightarrow> Inr (answer_direct env clk c r))"
    for v :: json
  have r: "handled_for c i m x" if "run v = Inr x" for v x
    using that direct_handled [OF ok client] handled_refl [OF ok] by (auto simp: run_def split: sum.splits)
  from run r handled_refl [OF ok] show ?thesis
    unfolding server_private_def Let_def run_def [symmetric] by (auto split: json.splits option.splits)
qed

lemma message_handled:
  assumes "web_ok m" "get_client c m = Some i" "handle_message data ext env clk (Some (client_context i)) m = Inr (a, m')"
  shows "handled_for c i m m'"
  using handle_message_speaks [OF assms(3)] context_ids [OF assms(1,2)] by (intro speaks_handled [OF assms(1)]) simp

lemma dispatch_handled:
  assumes ok: "web_ok m" and client: "get_client c m = Some i" and run: "server_dispatch data ext env clk c i m = Inr m'"
  shows "handled_for c i m m'"
proof -
  obtain s where s: "jget_or ''type'' (J_string '''') data = J_string s"
    using run by (auto simp: server_dispatch_def split: json.splits)
  consider "py_lower s = ''register''" | "py_lower s = ''private''" "jget ''to'' data = Some (J_string ''ros2-robot-device'')"
    | "py_lower s = ''servo_control''"
    | a m1 where "handle_message data ext env clk (Some (client_context i)) m = Inr (a, m1)" "m' = reply_client env c (a, m1)"
    using run s by (auto simp: server_dispatch_def Let_def split: if_splits)
  then show ?thesis
  proof cases
    case 1
    then show ?thesis using run s register_handled [OF ok client] by (auto simp: server_dispatch_def)
  next
    case 2
    then show ?thesis using run s private_handled [OF ok client] by (auto simp: server_dispatch_def)
  next
    case 3
    then show ?thesis using run s direct_handled [OF ok client] by (auto simp: server_dispatch_def)
  next
    case (4 a m1)
    from message_handled [OF ok client 4(1)] 4(2) show ?thesis
      by (auto simp: reply_client_def intro: handled_send handled_sync split: option.splits)
  qed
qed

lemma client_message_handled:
  assumes ok: "web_ok m" and client: "get_client c m = Some i"
  shows "handled_for c i m (process_client_message raw ext env clk c i m)"
proof -
  have "handled_for c i m (send_json c r m)" for r
    unfolding send_json_def by (rule handled_send [OF handled_refl [OF ok]])
  then show ?thesis
    using handled_refl [OF ok] dispatch_handled [OF ok client]
    by (auto simp: process_client_message_def split: option.splits json.splits sum.splits)
qed


section \<open>The invariant\<close>

lemma update_new: "map_of xs c = None \<Longrightarrow> AList.update c j xs = xs @ [(c, j)]"
  by (induction xs) (auto split: if_splits)

lemma connect_ok:
  assumes ok: "web_ok m" and "get_client c m = None" "py_strip uuid \<noteq> ''''" "py_strip uuid = uuid" "uuid \<notin> wl_id ` snd ` set (wb_info m)"
  shows "web_ok (connect_client c uuid m)"
proof -
  have new: "c \<notin> fst ` set (wb_info m)" using assms(2) by (simp add: get_client_def map_of_eq_None_iff)
  have f: "client_fine (new_client uuid m)" using assms(3,4) by (auto simp: client_fine_def new_client_def)
  have "wb_info (connect_client c uuid m) = wb_info m @ [(c, new_client uuid m)]"
    using assms(2) by (simp add: connect_client_def set_client_def get_client_def update_new new_client_def)
  moreover have "wb_clients (connect_client c uuid m) = c # wb_clients m" by (simp add: connect_client_def)
  ultimately show ?thesis using ok new assms(5) f unfolding web_ok_def by (auto simp: new_client_def image_comp comp_def)
qed

lemma disconnect_fields:
  "wb_info (disconnect_client c i m) = AList.delete c (wb_info m)" "wb_clients (disconnect_client c i m) = remove1 c (wb_clients m)"
  "wb_latest (disconnect_client c i m) = wb_latest m"
  "wb_out (disconnect_client c i m) = Web_control ''release'' (py_strip (wl_id i)) (py_strip (wl_lease i)) # wb_out m"
proof -
  have "norm_text ''release'' = ''release''" by code_simp
  then show "wb_info (disconnect_client c i m) = AList.delete c (wb_info m)" "wb_clients (disconnect_client c i m) = remove1 c (wb_clients m)"
    "wb_latest (disconnect_client c i m) = wb_latest m"
    "wb_out (disconnect_client c i m) = Web_control ''release'' (py_strip (wl_id i)) (py_strip (wl_lease i)) # wb_out m"
    by (simp_all add: disconnect_client_def Let_def node_teleop_control_def publish_teleop_control_def)
qed

lemma disconnect_ok: "web_ok m \<Longrightarrow> web_ok (disconnect_client c i m)"
  unfolding web_ok_def disconnect_fields
  by (auto simp: AList.delete_eq distinct_map_filter set_remove1_eq)

text \<open>Broadcasts only send, and bring the leases of the clients up to date.\<close>

lemma send_all_fields [simp]:
  "wb_info (send_all r m) = wb_info m" "wb_clients (send_all r m) = wb_clients m" "wb_latest (send_all r m) = wb_latest m"
  "\<exists>outs. wb_out (send_all r m) = outs @ wb_out m \<and> list_all (\<lambda>out. \<not> is_command_output out) outs"
proof -
  have "wb_info (fold (\<lambda>c. send_json c r) cs m) = wb_info m \<and> wb_clients (fold (\<lambda>c. send_json c r) cs m) = wb_clients m
    \<and> wb_latest (fold (\<lambda>c. send_json c r) cs m) = wb_latest m
    \<and> (\<exists>outs. wb_out (fold (\<lambda>c. send_json c r) cs m) = outs @ wb_out m \<and> list_all (\<lambda>out. \<not> is_command_output out) outs)" for cs
  proof (induction cs arbitrary: m)
    case (Cons c cs)
    from Cons [of "send_json c r m"] show ?case by (fastforce simp: send_json_def)
  qed simp
  then show "wb_info (send_all r m) = wb_info m" "wb_clients (send_all r m) = wb_clients m" "wb_latest (send_all r m) = wb_latest m"
    "\<exists>outs. wb_out (send_all r m) = outs @ wb_out m \<and> list_all (\<lambda>out. \<not> is_command_output out) outs"
    unfolding send_all_def by blast+
qed

definition web_quiet :: "teleop_bridge \<Rightarrow> teleop_bridge \<Rightarrow> bool" where
  "web_quiet m m' \<longleftrightarrow> web_ok m' \<and> (\<exists>outs. wb_out m' = outs @ wb_out m \<and> list_all (\<lambda>out. \<not> is_command_output out) outs)"

lemma quietI: "web_ok m' \<Longrightarrow> wb_out m' = wb_out m \<Longrightarrow> web_quiet m m'"
  by (simp add: web_quiet_def)

lemma web_quiet_same:
  "web_ok m \<Longrightarrow> wb_info m' = wb_info m \<Longrightarrow> wb_clients m' = wb_clients m \<Longrightarrow> wb_out m' = wb_out m \<Longrightarrow> web_quiet m m'"
  by (rule quietI [OF ok_same])

lemma web_quiet_trans: "web_quiet m m' \<Longrightarrow> web_quiet m' m'' \<Longrightarrow> web_quiet m m''"
  unfolding web_quiet_def by fastforce

lemma broadcast_one_fields:
  "web_ok m \<Longrightarrow> web_quiet m (broadcast_one env clk status c m)" "wb_clients (broadcast_one env clk status c m) = wb_clients m"
  "wb_exec (broadcast_one env clk status c m) = wb_exec m"
  "get_client d (broadcast_one env clk status c m) =
     (if d = c \<and> jget ''type'' status = Some (J_string ''execution_state'')
      then map_option (\<lambda>i. i\<lparr>wl_lease := synced_lease (json_update status (requester_teleop_status (Some (client_context i)) (wb_exec m)))\<rparr>) (get_client c m)
      else get_client d m)"
proof -
  assume ok: "web_ok m"
  show "web_quiet m (broadcast_one env clk status c m)"
    using ok ok_sync [OF ok]
    by (auto simp: broadcast_one_def build_broadcast_payload_def Let_def web_quiet_def send_json_def
        split: option.splits prod.splits if_splits)
qed (auto simp: broadcast_one_def build_broadcast_payload_def Let_def send_json_def split: option.splits prod.splits if_splits)

lemma fold_quiet:
  "(\<And>c m. web_ok m \<Longrightarrow> web_quiet m (f c m)) \<Longrightarrow> web_ok m \<Longrightarrow> web_quiet m (fold f cs m)"
proof (induction cs arbitrary: m)
  case (Cons c cs)
  have "web_quiet m (f c m)" by (rule Cons.prems(1) [OF Cons.prems(2)])
  moreover from this have "web_quiet (f c m) (fold f cs (f c m))" by (intro Cons.IH Cons.prems(1)) (auto simp: web_quiet_def)
  ultimately show ?case by (auto intro: web_quiet_trans)
qed (simp add: quietI)

lemma broadcast_quiet: "web_ok m \<Longrightarrow> web_quiet m (broadcast_status env clk status m)"
  unfolding broadcast_status_def by (rule fold_quiet) (simp_all add: broadcast_one_fields)

lemma send_all_quiet: "web_ok m \<Longrightarrow> web_quiet m (send_all r m)"
  using send_all_fields(4) [of r m] by (auto simp: web_quiet_def intro: ok_same)

text \<open>A step is the handling of a message, or publishes no command.\<close>

lemma step_cases:
  assumes ok: "web_ok m" and step: "web_step env e m = Some m'"
  obtains (message) c raw ext clk i where "e = W_message c raw ext clk" "get_client c m = Some i" "handled_for c i m m'"
  | (web_quiet) "web_quiet m m'" "\<forall>c raw ext clk. e \<noteq> W_message c raw ext clk"
proof (cases e)
  case (W_connect c uuid)
  then have "web_ok m'" "wb_out m' = wb_out m"
    using step connect_ok [OF ok, of c uuid] by (auto simp: connect_client_def split: if_splits)
  then show ?thesis using web_quiet W_connect by (simp add: quietI)
next
  case (W_message c raw ext clk)
  then obtain i where "get_client c m = Some i" "m' = process_client_message raw ext env clk c i m"
    using step by (auto split: option.splits)
  then show ?thesis using message W_message client_message_handled [OF ok] by simp
next
  case (W_disconnect c)
  then obtain i where "m' = disconnect_client c i m" using step by (auto split: option.splits)
  then show ?thesis using web_quiet W_disconnect disconnect_ok [OF ok] by (auto simp: web_quiet_def disconnect_fields)
next
  case (W_state msg)
  then have "web_quiet m m'" using step by (auto simp: state_arrives_def Let_def intro!: web_quiet_same [OF ok] split: if_splits)
  then show ?thesis using web_quiet W_state by simp
next
  case (W_state_server loop_runs)
  then have "web_quiet m m'" using step by (auto simp: state_reaches_server_def intro!: web_quiet_same [OF ok] split: option.splits)
  then show ?thesis using web_quiet W_state_server by simp
next
  case (W_actuator loop_runs msg stamp)
  then have "web_quiet m m'" using step by (auto simp: actuator_arrives_def Let_def intro!: web_quiet_same [OF ok] split: if_splits)
  then show ?thesis using web_quiet W_actuator by simp
next
  case (W_imu loop_runs msg stamp)
  then have "m' = imu_arrives loop_runs msg stamp m" using step by (auto split: if_splits)
  then have "web_quiet m m'" by (intro web_quiet_same [OF ok]) (simp_all add: imu_arrives_def)
  then show ?thesis using web_quiet W_imu by simp
next
  case (W_broadcast clk)
  then obtain b bs where m': "m' = broadcast_status env clk b (m\<lparr>wb_broadcasts := bs\<rparr>)" using step by (auto split: list.splits)
  have "web_ok (m\<lparr>wb_broadcasts := bs\<rparr>)" by (rule ok_same [OF ok]) simp_all
  from broadcast_quiet [OF this] show ?thesis using web_quiet W_broadcast m' by (simp add: web_quiet_def)
next
  case (W_user_list clk)
  then obtain n where m': "m' = broadcast_user_list env clk (m\<lparr>wb_user_lists := n\<rparr>)" using step by (auto split: nat.splits)
  have "web_ok (m\<lparr>wb_user_lists := n\<rparr>)" by (rule ok_same [OF ok]) simp_all
  from send_all_quiet [OF this] show ?thesis using web_quiet W_user_list m' by (simp add: web_quiet_def broadcast_user_list_def)
next
  case (W_heartbeat clk)
  then show ?thesis using web_quiet step send_all_quiet [OF ok] by (auto simp: server_heartbeat_def heartbeat_response_def)
qed

lemma web_reachable_ok: "web_reachable env m \<Longrightarrow> web_ok m"
proof (induction rule: web_reachable.induct)
  case start
  then show ?case by (simp add: web_ok_def bridge_start_def)
next
  case (step m e m')
  from step_cases [OF step.IH step.hyps(2)] show ?case by cases (simp_all add: handled_for_def web_quiet_def)
qed


section \<open>Properties\<close>

text \<open>What a step has published, newest first.\<close>

definition web_outputs_of :: "teleop_bridge \<Rightarrow> teleop_bridge \<Rightarrow> web_output list" where
  "web_outputs_of m m' = take (length (wb_out m') - length (wb_out m)) (wb_out m')"

lemma web_outputs_of_eq: "wb_out m' = outs @ wb_out m \<Longrightarrow> web_outputs_of m m' = outs"
  by (simp add: web_outputs_of_def)

lemma web_quiet_outputs: "web_quiet m m' \<Longrightarrow> filter is_command_output (web_outputs_of m m') = []"
  by (auto simp: web_quiet_def web_outputs_of_eq list_all_iff filter_empty_conv)

lemma handled_outputs:
  assumes "handled_for c i m m'"
  shows "list_all (output_ok (wl_id i) (wl_lease i) (wb_latest m)) (web_outputs_of m m')"
    "length (filter is_command_output (web_outputs_of m m')) \<le> 1"
  using assms by (auto simp: handled_for_def publishes_def web_outputs_of_eq)

lemma step_publishes:
  assumes "web_reachable env m" "web_step env e m = Some m'"
  shows "length (filter is_command_output (web_outputs_of m m')) \<le> 1
    \<and> (\<forall>cmd. Web_move cmd \<in> set (web_outputs_of m m') \<longrightarrow>
         (\<exists>c raw ext clk i. e = W_message c raw ext clk \<and> get_client c m = Some i
            \<and> authorised (wl_id i) (wl_lease i) (wb_latest m) cmd))"
proof (rule step_cases [OF web_reachable_ok [OF assms(1)] assms(2)])
  fix c raw ext clk i
  assume e: "e = W_message c raw ext clk" "get_client c m = Some i" "handled_for c i m m'"
  with handled_outputs [OF e(3)] show ?thesis by (fastforce simp: list_all_iff)
next
  assume "web_quiet m m'"
  from web_quiet_outputs [OF this] show ?thesis by (force simp: filter_empty_conv)
qed

text \<open>
  C14: Every motion command the bridge publishes belongs to the client whose message it is handling: it
  carries the identity and the lease that the server has on record for this client, the node's last
  execution state names this client as the holder of teleop control (with this lease, if it names one),
  and its fields are in range. A message publishes at most one command; no other event publishes any.
\<close>

theorem teleop_commands_are_authorised:
  assumes "web_reachable env m" "web_step env e m = Some m'"
  shows "length (filter is_command_output (web_outputs_of m m')) \<le> 1
    \<and> (\<forall>cmd. Web_move cmd \<in> set (web_outputs_of m m') \<longrightarrow>
         (\<exists>c raw ext clk i. e = W_message c raw ext clk \<and> get_client c m = Some i
            \<and> authorised (wl_id i) (wl_lease i) (wb_latest m) cmd))"
  using assms by (rule step_publishes)

text \<open>Runs of the bridge on concrete events.\<close>

definition web_run :: "web_env \<Rightarrow> web_event list \<Rightarrow> teleop_bridge option" where
  "web_run env es = fold (\<lambda>e r. case r of None \<Rightarrow> None | Some m \<Rightarrow> web_step env e m) es (Some bridge_start)"

lemma web_run_reachable: "web_run env es = Some m \<Longrightarrow> web_reachable env m"
proof (induction es arbitrary: m rule: rev_induct)
  case Nil
  then show ?case by (simp add: web_run_def web_reachable.start)
next
  case (snoc e es)
  then obtain m0 where "web_run env es = Some m0" "web_step env e m0 = Some m"
    by (auto simp: web_run_def split: option.splits)
  with snoc.IH show ?case by (auto intro: web_reachable.step)
qed

definition demo_texts :: "(string \<times> json) list" where
  "demo_texts =
     [(''servo'', J_object [(''type'', J_string ''servo_control''), (''web_servo'',
         J_object [(''is_bus_servo'', J_bool True), (''servo_id'', J_int 3), (''position'', J_int 1500)])]),
      (''beat'', J_object [(''type'', J_string ''heartbeat'')]),
      (''private'', J_object [(''type'', J_string ''private''), (''to'', J_string ''ros2-robot-device''),
         (''content'', J_object [(''is_bus_servo'', J_bool True), (''servo_id'', J_int 3), (''position'', J_int 1500)])])]"

definition demo_env :: web_env where
  "demo_env = \<lparr>we_loads = map_of demo_texts, we_device = ''robot'', we_nodes = [], we_extensions = []\<rparr>"

definition demo_web_state :: execution_state_msg where
  "demo_web_state = \<lparr>es_mode = ''teleop_active'', es_active_source = ''teleop'', es_teleop_holder_id = ''u'', es_teleop_lease_id = ''L'',
     es_estop_active = False, es_teleop_active = True, es_motion_active = False, es_teleop_timeout_sec = 1, es_motion_timeout_sec = 1,
     es_teleop_remaining_sec = 1, es_last_action = ''claim'', es_last_accepted = True, es_last_reason = ''accepted'',
     es_control_accepted_count = 1, es_control_rejected_count = 0, es_teleop_accepted_count = 0, es_motion_accepted_count = 0,
     es_teleop_rejected_count = 0, es_motion_rejected_count = 0, es_last_rejection_reason = '''', es_stamp = 0\<rparr>"

definition demo_wclock :: web_clock where
  "demo_wclock = \<lparr>wk_seconds = 0, wk_stamp = 0, wk_text = ''''\<rparr>"

definition demo_held :: "web_event list" where
  "demo_held = [W_connect 0 ''u'', W_state demo_web_state, W_state_server True, W_broadcast demo_wclock]"

definition demo_servo :: web_event where
  "demo_servo = W_message 0 ''servo'' Ext_other demo_wclock"

text \<open>The client \<open>u\<close> holds control under the lease \<open>L\<close>, which the server has on record, and sends a command.\<close>

lemma demo_held_run:
  "case web_run demo_env demo_held of
     None \<Rightarrow> False
   | Some m \<Rightarrow> get_client 0 m = Some \<lparr>wl_id = ''u'', wl_name = J_string ''client_1'', wl_lease = ''L''\<rparr>
       \<and> (case web_step demo_env demo_servo m of None \<Rightarrow> False | Some m' \<Rightarrow> list_ex is_command_output (web_outputs_of m m'))"
  by code_simp

theorem teleop_commands_are_authorised_witness:
  "\<exists>m m' cmd. web_run demo_env demo_held = Some m \<and> web_step demo_env demo_servo m = Some m'
     \<and> Web_move cmd \<in> set (web_outputs_of m m') \<and> mc_requester_id cmd = ''u'' \<and> mc_lease_id cmd = ''L''"
proof -
  from demo_held_run obtain m m' where r: "web_run demo_env demo_held = Some m" "web_step demo_env demo_servo m = Some m'"
    "get_client 0 m = Some \<lparr>wl_id = ''u'', wl_name = J_string ''client_1'', wl_lease = ''L''\<rparr>"
    "list_ex is_command_output (web_outputs_of m m')" by (auto split: option.splits)
  from r(4) obtain cmd where cmd: "Web_move cmd \<in> set (web_outputs_of m m')"
    by (auto simp: list_ex_iff elim: is_command_output.elims)
  with teleop_commands_are_authorised [OF web_run_reachable [OF r(1)] r(2)] r(3)
  have "authorised ''u'' ''L'' (wb_latest m) cmd" by (fastforce simp: demo_servo_def)
  with r(1,2) cmd show ?thesis unfolding authorised_def by blast
qed

text \<open>
  C17: The sessions exclude each other: connected clients have different identities, none of them blank, and
  no two of them are allowed to move the robot in the same execution state.
\<close>

theorem one_client_holds_control:
  assumes "web_reachable env m" "get_client c m = Some i" "get_client d m = Some j"
  shows "wl_id i \<noteq> '''' \<and> (wl_id i = wl_id j \<longrightarrow> c = d)
    \<and> (teleop_rejection (wl_id i) (wl_lease i) (wb_latest m) = '''' \<and> teleop_rejection (wl_id j) (wl_lease j) (wb_latest m) = '''' \<longrightarrow> c = d)"
proof -
  have ok: "web_ok m" by (rule web_reachable_ok [OF assms(1)])
  have "(c, i) \<in> set (wb_info m)" "(d, j) \<in> set (wb_info m)" using assms(2,3) by (auto simp: get_client_def dest: map_of_SomeD)
  moreover have "distinct (map (wl_id \<circ> snd) (wb_info m))" using ok by (simp add: web_ok_def)
  ultimately have same: "wl_id i = wl_id j \<Longrightarrow> c = d" by (fastforce simp: distinct_map inj_on_def)
  then show ?thesis using client_ok [OF ok assms(2)]
    by (auto simp: client_fine_def teleop_rejection_def Let_def split: if_splits)
qed

theorem one_client_holds_control_witness:
  "\<exists>m i j. web_run demo_env [W_connect 0 ''u'', W_connect 1 ''v''] = Some m \<and> get_client 0 m = Some i \<and> get_client 1 m = Some j
     \<and> wl_id i \<noteq> wl_id j"
proof -
  have "case web_run demo_env [W_connect 0 ''u'', W_connect 1 ''v''] of None \<Rightarrow> False
     | Some m \<Rightarrow> \<not> Option.is_none (get_client 0 m) \<and> \<not> Option.is_none (get_client 1 m)" by code_simp
  then obtain m i j where r: "web_run demo_env [W_connect 0 ''u'', W_connect 1 ''v''] = Some m" "get_client 0 m = Some i" "get_client 1 m = Some j"
    by (auto simp: Option.is_none_def split: option.splits)
  with one_client_holds_control [OF web_run_reachable [OF r(1)] r(2,3)] show ?thesis by auto
qed

lemma status_fields:
  "jget ''known_holder_matches'' (json_update st (requester_teleop_status (Some (client_context i)) ex)) =
     Some (J_bool (py_strip (wl_id i) \<noteq> '''' \<and> state_text ''teleop_holder_id'' ex = py_strip (wl_id i)))"
  "jget ''known_teleop_active'' (json_update st (requester_teleop_status (Some (client_context i)) ex)) =
     Some (J_bool (state_flag ''teleop_active'' ex))"
  "jget ''teleop_lease_id'' (json_update st (requester_teleop_status (Some (client_context i)) ex)) =
     Some (J_string (state_text ''teleop_lease_id'' ex))"
  by (simp_all add: json_update_get requester_teleop_status_def Let_def)

lemma synced_status:
  "synced_lease (json_update st (requester_teleop_status (Some (client_context i)) ex)) =
     (if py_strip (wl_id i) \<noteq> '''' \<and> state_text ''teleop_holder_id'' ex = py_strip (wl_id i) \<and> state_flag ''teleop_active'' ex
      then py_strip (state_text ''teleop_lease_id'' ex) else '''')"
  by (simp add: synced_lease_def state_text_def [of "''teleop_lease_id''" "json_update st s" for s]
      state_flag_def [of "''known_holder_matches''"] state_flag_def [of "''known_teleop_active''"] get_null_def jget_or_def status_fields Let_def)

lemma broadcast_clients:
  assumes "jget ''type'' status = Some (J_string ''execution_state'')"
  shows "distinct cs \<Longrightarrow> get_client d (fold (broadcast_one env clk status) cs m) =
     (if d \<in> set cs
      then map_option (\<lambda>i. i\<lparr>wl_lease := synced_lease (json_update status (requester_teleop_status (Some (client_context i)) (wb_exec m)))\<rparr>) (get_client d m)
      else get_client d m)"
  by (induction cs arbitrary: m) (auto simp: broadcast_one_fields(3,4) assms)

text \<open>
  A broadcast of the execution state brings every session up to date: afterwards the server has on
  record, for the client that the state names as active holder, exactly the lease in the state, and
  none for all other clients.
\<close>

theorem broadcast_refreshes_leases:
  assumes "web_reachable env m" "wb_broadcasts m = status # rest" "jget ''type'' status = Some (J_string ''execution_state'')"
    and "web_step env (W_broadcast clk) m = Some m'" "get_client c m' = Some i"
  shows "wl_lease i = (if state_flag ''teleop_active'' (wb_exec m) \<and> state_text ''teleop_holder_id'' (wb_exec m) = wl_id i
     then py_strip (state_text ''teleop_lease_id'' (wb_exec m)) else '''')"
proof -
  define n where "n = m\<lparr>wb_broadcasts := rest\<rparr>"
  have ok: "web_ok m" by (rule web_reachable_ok [OF assms(1)])
  then have n: "web_ok n" "distinct (wb_clients n)" "set (wb_clients n) = fst ` set (wb_info n)" "wb_exec n = wb_exec m"
    by (auto simp: n_def web_ok_def)
  have m': "m' = fold (broadcast_one env clk status) (wb_clients n) n" using assms(2,4) by (auto simp: broadcast_status_def n_def)
  have "get_client c n \<noteq> None \<longleftrightarrow> c \<in> set (wb_clients n)" using n(3) by (simp add: get_client_def map_of_eq_None_iff)
  then obtain i0 where "get_client c n = Some i0"
    "i = i0\<lparr>wl_lease := synced_lease (json_update status (requester_teleop_status (Some (client_context i0)) (wb_exec n)))\<rparr>"
    using assms(5) unfolding m' broadcast_clients [OF assms(3) n(2)] by (auto split: if_splits)
  moreover from client_ok [OF n(1) this(1)] have "client_fine i0" .
  ultimately show ?thesis using n(4) by (auto simp: synced_status client_fine_def)
qed

theorem broadcast_refreshes_leases_witness:
  "\<exists>m i. web_run demo_env demo_held = Some m \<and> get_client 0 m = Some i \<and> wl_lease i = ''L''"
proof -
  define before where "before = [W_connect 0 ''u'', W_state demo_web_state, W_state_server True]"
  have "case web_run demo_env before of None \<Rightarrow> False | Some m \<Rightarrow> length (wb_broadcasts m) = 1
     \<and> jget ''type'' (hd (wb_broadcasts m)) = Some (J_string ''execution_state'')
     \<and> state_flag ''teleop_active'' (wb_exec m) \<and> state_text ''teleop_holder_id'' (wb_exec m) = ''u''
     \<and> py_strip (state_text ''teleop_lease_id'' (wb_exec m)) = ''L''
     \<and> (case web_step demo_env (W_broadcast demo_wclock) m of None \<Rightarrow> False
         | Some m' \<Rightarrow> (case get_client 0 m' of None \<Rightarrow> False | Some i \<Rightarrow> wl_id i = ''u''))"
    unfolding before_def by code_simp
  then obtain m m' i where r: "web_run demo_env before = Some m" "length (wb_broadcasts m) = 1"
    "jget ''type'' (hd (wb_broadcasts m)) = Some (J_string ''execution_state'')"
    "state_flag ''teleop_active'' (wb_exec m)" "state_text ''teleop_holder_id'' (wb_exec m) = ''u''"
    "py_strip (state_text ''teleop_lease_id'' (wb_exec m)) = ''L''"
    "web_step demo_env (W_broadcast demo_wclock) m = Some m'" "get_client 0 m' = Some i" "wl_id i = ''u''"
    by (auto split: option.splits)
  then obtain b where b: "wb_broadcasts m = [b]" by (auto simp: length_Suc_conv)
  from broadcast_refreshes_leases [OF web_run_reachable [OF r(1)] b _ r(7,8)] b r(3-6,9) have "wl_lease i = ''L''" by simp
  moreover have "web_run demo_env demo_held = Some m'"
    using r(1,7) by (simp add: web_run_def demo_held_def before_def)
  ultimately show ?thesis using r(8) by blast
qed

text \<open>
  A heartbeat costs the client its lease: the answer to a heartbeat shows no lease, so the server forgets
  the one it had on record, and as long as the execution state asks for a lease no command of this client
  is published before the next broadcast of the state.
\<close>

definition beat_reply :: "web_env \<Rightarrow> web_clock \<Rightarrow> json_object" where
  "beat_reply env clk = [(''type'', J_string ''heartbeat''), (''status'', J_string ''online''), (''device_id'', J_string (we_device env)),
     (''timestamp'', J_int (wk_seconds clk))]"

lemma heartbeat_message:
  assumes "we_loads env raw = Some (J_object [(''type'', J_string ''heartbeat'')])"
  shows "process_client_message raw ext env clk c i m =
     web_emit (Web_sent c (R_json (beat_reply env clk)))
       (sync_client_teleop_lease c (beat_reply env clk) (node_heartbeat (Some (client_context i)) m))"
proof -
  have l: "py_lower ''heartbeat'' = ''heartbeat''" "py_strip ''heartbeat'' = ''heartbeat''" "norm_text ''heartbeat'' = ''heartbeat''"
    "is_builtin_message_type ''heartbeat''" "message_type_of ''heartbeat'' = Some M_heartbeat" by code_simp+
  then have "handle_message [(''type'', J_string ''heartbeat'')] ext env clk ctx m' = Inr (Some (R_json (beat_reply env clk)), node_heartbeat ctx m')" for ctx m'
    by (simp add: handle_message_def explicit_message_type_def Let_def get_message_type_def type_field_def get_null_def jget_or_def
        json_or_def dispatch_message_def List.map_filter_def reply_heartbeat_def heartbeat_response_def beat_reply_def)
  then show ?thesis
    by (simp add: process_client_message_def assms server_dispatch_def jget_or_def l reply_client_def sync_from_response_def Let_def)
qed

text \<open>
  A heartbeat costs the client its lease: the answer to a heartbeat shows no lease, so the server forgets
  the one it had on record, and while the execution state names a lease no command in the next message of
  this client is published, although the client holds control.
\<close>

theorem heartbeat_drops_lease:
  assumes "web_reachable env m" "get_client c m = Some i"
    and beat: "we_loads env raw = Some (J_object [(''type'', J_string ''heartbeat'')])"
    and "web_step env (W_message c raw ext clk) m = Some m'"
    and "state_text ''teleop_lease_id'' (wb_latest m) \<noteq> ''''"
    and "web_step env (W_message c raw2 ext2 clk2) m' = Some m''"
  shows "map_option wl_lease (get_client c m') = Some '''' \<and> Web_move cmd \<notin> set (web_outputs_of m' m'')"
proof -
  have m': "m' = process_client_message raw ext env clk c i m" using assms(2,4) by simp
  have n: "get_client c (node_heartbeat ctx m) = get_client c m" "wb_latest (node_heartbeat ctx m) = wb_latest m" for ctx
    by (simp_all add: node_heartbeat_def publish_teleop_control_def)
  have "synced_lease (beat_reply env clk) = ''''"
    by (simp add: synced_lease_def beat_reply_def state_flag_def get_null_def jget_or_def Let_def)
  then have c: "get_client c m' = Some (i\<lparr>wl_lease := ''''\<rparr>)" "wb_latest m' = wb_latest m"
    unfolding m' heartbeat_message [OF beat] using assms(2) by (simp_all add: n)
  have "teleop_rejection r '''' (wb_latest m') \<noteq> ''''" for r
    using assms(5) c(2) by (simp add: teleop_rejection_def Let_def)
  with step_publishes [OF web_reachable.step [OF assms(1,4)] assms(6)] c(1) have "Web_move cmd \<notin> set (web_outputs_of m' m'')"
    by (auto simp: authorised_def)
  with c(1) show ?thesis by simp
qed

text \<open>The run above, with a heartbeat before the command: the same command is refused.\<close>

theorem heartbeat_drops_lease_witness:
  "\<exists>m m' m''. web_run demo_env demo_held = Some m \<and> web_step demo_env (W_message 0 ''beat'' Ext_other demo_wclock) m = Some m'
     \<and> web_step demo_env demo_servo m' = Some m'' \<and> state_text ''teleop_holder_id'' (wb_latest m) = ''u''
     \<and> (\<forall>cmd. Web_move cmd \<notin> set (web_outputs_of m' m''))"
proof -
  have "case web_run demo_env demo_held of None \<Rightarrow> False
     | Some m \<Rightarrow> \<not> Option.is_none (get_client 0 m) \<and> state_text ''teleop_holder_id'' (wb_latest m) = ''u''
         \<and> state_text ''teleop_lease_id'' (wb_latest m) = ''L''
         \<and> (case web_step demo_env (W_message 0 ''beat'' Ext_other demo_wclock) m of None \<Rightarrow> False
            | Some m' \<Rightarrow> \<not> Option.is_none (web_step demo_env demo_servo m'))"
    by code_simp
  then obtain m i m' m'' where r: "web_run demo_env demo_held = Some m" "get_client 0 m = Some i" "state_text ''teleop_holder_id'' (wb_latest m) = ''u''"
    "state_text ''teleop_lease_id'' (wb_latest m) = ''L''" "web_step demo_env (W_message 0 ''beat'' Ext_other demo_wclock) m = Some m'"
    "web_step demo_env demo_servo m' = Some m''"
    by (auto simp: Option.is_none_def split: option.splits)
  have "we_loads demo_env ''beat'' = Some (J_object [(''type'', J_string ''heartbeat'')])" by code_simp
  from heartbeat_drops_lease [OF web_run_reachable [OF r(1)] r(2) this r(5) _ r(6) [unfolded demo_servo_def]] r(4)
  have "\<forall>cmd. Web_move cmd \<notin> set (web_outputs_of m' m'')" by auto
  with r(1,3,5,6) show ?thesis by blast
qed

text \<open>
  A private message to the robot with an object as its content, the form the handler itself offers,
  never does anything: the content is sliced for a log line before it is looked at, which raises, and
  the client is sent an error.
\<close>

theorem private_object_is_refused:
  assumes "get_client c m = Some i" "we_loads env raw = Some (J_object data)"
    and "jget ''type'' data = Some (J_string ''private'')" "jget ''to'' data = Some (J_string ''ros2-robot-device'')"
    and "jget ''content'' data = Some (J_object content)"
    and "web_step env (W_message c raw ext clk) m = Some m'"
  shows "m' = send_json c (exception_response env clk) m"
proof -
  have l: "py_lower ''private'' = ''private''" by code_simp
  show ?thesis using assms
    by (auto simp: process_client_message_def server_dispatch_def jget_or_def l server_private_def Let_def)
qed

theorem private_object_is_refused_witness:
  "\<exists>m m'. web_run demo_env demo_held = Some m \<and> web_step demo_env (W_message 0 ''private'' Ext_other demo_wclock) m = Some m'
     \<and> m' = send_json 0 (exception_response demo_env demo_wclock) m"
proof -
  have "case web_run demo_env demo_held of None \<Rightarrow> False
     | Some m \<Rightarrow> \<not> Option.is_none (get_client 0 m) \<and> \<not> Option.is_none (web_step demo_env (W_message 0 ''private'' Ext_other demo_wclock) m)"
    by code_simp
  then obtain m i m' where r: "web_run demo_env demo_held = Some m" "get_client 0 m = Some i"
    "web_step demo_env (W_message 0 ''private'' Ext_other demo_wclock) m = Some m'"
    by (auto simp: Option.is_none_def split: option.splits)
  have "we_loads demo_env ''private'' = Some (J_object [(''type'', J_string ''private''), (''to'', J_string ''ros2-robot-device''),
     (''content'', J_object [(''is_bus_servo'', J_bool True), (''servo_id'', J_int 3), (''position'', J_int 1500)])])"
    by (simp add: demo_env_def demo_texts_def)
  from private_object_is_refused [OF r(2) this _ _ _ r(3)] r show ?thesis by auto
qed

text \<open>
  Reported positions are not commands: the bridge reports the pulse width of a bus servo as an angle
  around its centre, from -90 to 90, but reads an angle from 0 to 180 as counted from the end. A client
  that sends back the position it was shown for a servo at or beyond its centre moves it by 1000
  microseconds, half its range.
\<close>

theorem reported_angle_is_no_command:
  assumes "1500 \<le> pulse" "pulse \<le> 2500"
  shows "\<exists>q. normalize_bus_position (J_real (map_pulse_to_centered_angle pulse)) J_null False = Inr q \<and> q \<le> pulse - 1000"
proof -
  define x :: real where "x = of_int (pulse - 500) * (180 / 2000) - 90"
  define a where "a = \<lfloor>x\<rfloor>"
  have x: "map_pulse_to_centered_angle pulse = x" "0 \<le> x" "x \<le> 90"
    using assms by (simp_all add: x_def map_pulse_to_centered_angle_def BUS_MIN_US_def BUS_MAX_US_def)
  have "of_int a \<le> x" by (simp add: a_def)
  then have "of_int (a * 100) \<le> (of_int ((pulse - 1500) * 9) :: real)" by (simp add: x_def field_simps)
  then have a100: "a * 100 \<le> (pulse - 1500) * 9" by (simp only: of_int_le_iff)
  have a: "0 \<le> a" "a \<le> 90" using x by (simp_all add: a_def le_floor_iff floor_le_iff)
  have "normalize_bus_position (J_real x) J_null False = Inr (angle_to_us a)"
    using a x(2) by (simp add: normalize_bus_position_def J_real_def py_trunc_def a_def [symmetric] normalize_value_encoding_def
        BUS_MIN_US_def BUS_MAX_US_def)
  moreover have "a * 2000 \<le> (pulse - 1500) * 180" using a100 by linarith
  from zdiv_mono1 [OF this, of 180] have "a * 2000 div 180 \<le> pulse - 1500" by simp
  moreover have "0 \<le> a * 2000 div 180" using a by simp
  ultimately show ?thesis using a assms by (auto simp: x(1) angle_to_us_def clamp_def BUS_MIN_US_def BUS_MAX_US_def)
qed

theorem reported_angle_is_no_command_witness:
  "\<exists>q. normalize_bus_position (J_real (map_pulse_to_centered_angle 1500)) J_null False = Inr q \<and> q \<le> 500"
  using reported_angle_is_no_command [of 1500] by simp

end
