(* ===== verification/Teleop_Handshake.thy ===== *)
theory Teleop_Handshake
  imports Teleop_Safety Arbitrator
begin

text \<open>
  The bridge and the execution manager: the manager publishes an \<open>ExecutionState\<close> built from the
  arbiter's snapshot (\<open>_publish_state\<close> of \<open>execution_manager_node.py\<close>), the bridge checks its clients'
  commands against the last one, and the arbiter checks them again when they arrive.
\<close>

fun mode_name :: "arb_mode \<Rightarrow> string" where
  "mode_name Mode_idle = ''idle''"
| "mode_name Mode_estop = ''estop''"
| "mode_name Mode_task_active = ''task_active''"
| "mode_name Mode_teleop_active = ''teleop_active''"
| "mode_name Mode_motion_active = ''motion_active''"

fun source_name :: "source option \<Rightarrow> string" where
  "source_name None = ''''"
| "source_name (Some Src_teleop) = ''teleop''"
| "source_name (Some Src_motion) = ''motion''"
| "source_name (Some Src_task) = ''task''"

text \<open>The message; the stamp is read from the clock when it is sent.\<close>

definition execution_state_of :: "arb_snapshot \<Rightarrow> real \<Rightarrow> execution_state_msg" where
  "execution_state_of snap stamp =
     (let st = snap_arbitrator snap
      in \<lparr>es_mode = mode_name (snap_mode snap), es_active_source = source_name (snap_active_source snap),
          es_teleop_holder_id = teleop_holder_id st, es_teleop_lease_id = teleop_lease_id st,
          es_estop_active = snap_estop_active snap, es_teleop_active = snap_teleop_active snap,
          es_motion_active = snap_motion_active snap, es_teleop_timeout_sec = teleop_timeout_sec st,
          es_motion_timeout_sec = motion_timeout_sec st, es_teleop_remaining_sec = snap_teleop_remaining snap,
          es_last_action = last_teleop_control_action st, es_last_accepted = last_teleop_control_accepted st,
          es_last_reason = last_teleop_control_reason st, es_control_accepted_count = teleop_control_accepted_count st,
          es_control_rejected_count = teleop_control_rejected_count st,
          es_teleop_accepted_count = accepted_counts st Src_teleop, es_motion_accepted_count = accepted_counts st Src_motion,
          es_teleop_rejected_count = rejected_counts st Src_teleop, es_motion_rejected_count = rejected_counts st Src_motion,
          es_last_rejection_reason = last_rejection_reason st, es_stamp = stamp\<rparr>)"

definition published_dict :: "real \<Rightarrow> real \<Rightarrow> command_arbitrator \<Rightarrow> json_object" where
  "published_dict now stamp st = execution_state_dict (execution_state_of (fst (arb_snapshot_of now st)) stamp)"

lemma published_entries:
  "state_flag ''teleop_active'' (published_dict now stamp st) \<longleftrightarrow> is_teleop_control_active now (refresh_mode now st)"
  "state_text ''active_source'' (published_dict now stamp st) = source_name (arb_active_source (refresh_mode now st))"
  "state_text ''teleop_holder_id'' (published_dict now stamp st) = teleop_holder_id (refresh_mode now st)"
  "state_text ''teleop_lease_id'' (published_dict now stamp st) = teleop_lease_id (refresh_mode now st)"
  by (simp_all add: published_dict_def execution_state_dict_def execution_state_of_def arb_snapshot_of_def Let_def
      state_flag_def state_text_def get_null_def jget_or_def is_teleop_control_active_def)

lemma active_not_expired: "is_teleop_control_active now st \<Longrightarrow> \<not> teleop_expired now st"
  by (auto simp: is_teleop_control_active_def is_source_active_def within_timeout_def teleop_expired_def)

section \<open>Properties\<close>

text \<open>
  C15: The bridge turns away exactly the commands the arbiter would: against the state the arbiter publishes,
  the check of the bridge passes if and only if the arbiter accepts a teleop command with the same
  identity and lease at that moment. Leases handed out are not blank.
\<close>

theorem bridge_check_is_arbiter_check:
  assumes "py_strip requester = requester" "py_strip lease = lease"
    and "is_teleop_control_active now st \<Longrightarrow> teleop_lease_id st \<noteq> ''''"
  shows "teleop_rejection requester lease (published_dict now stamp st) = ''''
     \<longleftrightarrow> ar_accepted (fst (receive_command_from Src_teleop now requester lease st))"
proof -
  define s where "s = refresh_mode now st"
  have src: "source_name (arb_active_source s) = ''teleop'' \<longleftrightarrow> \<not> estop_active s \<and> \<not> is_task_control_active now s \<and> is_teleop_control_active now s"
    by (auto simp: s_def refresh_mode_selects select_mode_def)
  have live: "\<not> teleop_expired now st" if "is_teleop_control_active now s"
    using that active_not_expired by (simp add: s_def)
  have lease: "teleop_lease_id s \<noteq> ''''" if "is_teleop_control_active now s"
    using that live [OF that] assms(3) by (simp add: s_def)
  have "ar_accepted (fst (receive_command_from Src_teleop now requester lease st)) \<longleftrightarrow> command_rejection Src_teleop now requester lease s = ''''"
    by (auto simp: receive_command_from_def Let_def assms(1,2) s_def arb_reject_def accept_command_def result_of_def)
  also have "\<dots> \<longleftrightarrow> teleop_rejection requester lease (published_dict now stamp st) = ''''"
    using lease by (auto simp: command_rejection_def teleop_rejection_def published_entries s_def [symmetric] src is_holder_def
        is_lease_holder_def assms(1,2) Let_def)
  finally show ?thesis by simp
qed

text \<open>A claim, and a command under the lease it got.\<close>

definition claimed :: command_arbitrator where
  "claimed = snd (receive_teleop_control ''claim'' 0 ''u'' '''' ''L'' (arb_init 1 1 1 8))"

theorem bridge_check_is_arbiter_check_witness:
  "teleop_rejection ''u'' ''L'' (published_dict 0 0 claimed) = '''' \<and> teleop_rejection ''v'' ''L'' (published_dict 0 0 claimed) \<noteq> ''''"
proof -
  have a: "ar_accepted (fst (receive_command_from Src_teleop 0 ''u'' ''L'' claimed))" by code_simp
  have b: "\<not> ar_accepted (fst (receive_command_from Src_teleop 0 ''v'' ''L'' claimed))" by code_simp
  have f: "py_strip ''u'' = ''u''" "py_strip ''v'' = ''v''" "py_strip ''L'' = ''L''" "teleop_lease_id claimed \<noteq> ''''" by code_simp+
  show ?thesis
    using bridge_check_is_arbiter_check [OF f(1,3), of 0 claimed 0] bridge_check_is_arbiter_check [OF f(2,3), of 0 claimed 0] a b f(4)
    by simp
qed

text \<open>
  C16: A client that disconnects gives up control: the server publishes the release of this client, and an
  arbiter at which it holds control, under the lease the server has on record or with none on record,
  accepts it; afterwards nobody holds teleop control.
\<close>

theorem disconnect_releases_control:
  assumes "web_reachable env m" "get_client c m = Some i" "web_step env (W_disconnect c) m = Some m'"
    and "is_teleop_control_active now st" "teleop_holder_id st = wl_id i" "wl_lease i \<in> {'''', teleop_lease_id st}"
  shows "web_outputs_of m m' = [Web_control ''release'' (wl_id i) (wl_lease i)] \<and> get_client c m' = None
    \<and> (case receive_teleop_control ''release'' now (wl_id i) (wl_lease i) fresh st of (r, st1) \<Rightarrow>
         ar_accepted r \<and> \<not> is_teleop_control_active now st1 \<and> teleop_holder_id st1 = '''')"
proof -
  have i: "py_strip (wl_id i) = wl_id i" "py_strip (wl_lease i) = wl_lease i"
    using context_ids [OF web_reachable_ok [OF assms(1)] assms(2)] by simp_all
  have m': "m' = disconnect_client c i m" using assms(2,3) by simp
  have out: "web_outputs_of m m' = [Web_control ''release'' (wl_id i) (wl_lease i)] \<and> get_client c m' = None"
    unfolding m' by (simp add: web_outputs_of_def disconnect_fields get_client_def i AList.delete_conv)
  have a: "norm_text ''release'' = ''release''" by code_simp
  define s where "s = refresh_mode now (st\<lparr>last_teleop_control_action := ''release''\<rparr>)"
  have act: "is_teleop_control_active now (st\<lparr>last_teleop_control_action := ''release''\<rparr>)"
    using assms(4) by (simp add: is_teleop_control_active_def is_source_active_def)
  then have live: "\<not> teleop_expired now (st\<lparr>last_teleop_control_action := ''release''\<rparr>)"
    by (rule active_not_expired)
  have "teleop_control_rejection ''release'' now (wl_id i) (wl_lease i) s = ''''"
    using assms(5,6) act live
    by (auto simp: teleop_control_rejection_def TELEOP_CONTROL_ACTIONS_def s_def is_holder_def is_lease_holder_def i)
  then have "receive_teleop_control ''release'' now (wl_id i) (wl_lease i) fresh st = accepted_teleop_control ''release'' now (wl_id i) fresh s"
    by (simp add: receive_teleop_control_def Let_def a i s_def)
  moreover have "case accepted_teleop_control ''release'' now (wl_id i) fresh s of (r, st1) \<Rightarrow>
      ar_accepted r \<and> \<not> is_teleop_control_active now st1 \<and> teleop_holder_id st1 = ''''"
    by (simp add: accepted_teleop_control_def accept_teleop_control_def Let_def result_of_def is_teleop_control_active_def
        is_source_active_def within_timeout_def)
  ultimately show ?thesis using out by simp
qed

theorem disconnect_releases_control_witness:
  "\<exists>m i m'. web_run demo_env [W_connect 0 ''u''] = Some m \<and> get_client 0 m = Some i \<and> web_step demo_env (W_disconnect 0) m = Some m'
     \<and> web_outputs_of m m' = [Web_control ''release'' (wl_id i) (wl_lease i)]
     \<and> ar_accepted (fst (receive_teleop_control ''release'' 0 (wl_id i) (wl_lease i) ''L2'' claimed))"
proof -
  have "case web_run demo_env [W_connect 0 ''u''] of None \<Rightarrow> False
     | Some m \<Rightarrow> (case get_client 0 m of None \<Rightarrow> False | Some i \<Rightarrow> wl_id i = ''u'' \<and> wl_lease i = ''''
         \<and> \<not> Option.is_none (web_step demo_env (W_disconnect 0) m))" by code_simp
  then obtain m i m' where r: "web_run demo_env [W_connect 0 ''u''] = Some m" "get_client 0 m = Some i" "wl_id i = ''u''" "wl_lease i = ''''"
    "web_step demo_env (W_disconnect 0) m = Some m'" by (auto simp: Option.is_none_def split: option.splits)
  have f: "is_teleop_control_active 0 claimed" "teleop_holder_id claimed = ''u''" by code_simp+
  from disconnect_releases_control [OF web_run_reachable [OF r(1)] r(2,5) f(1), of "''L2''"] f(2) r show ?thesis by (auto split: prod.splits)
qed

end
