(* ===== verification/Edge_Json.thy ===== *)
theory Edge_Json
  imports Json_Values Py_Result
begin

text \<open>
  The field checks that the two edges share, the speech interface and the vision node: both read one JSON
  document strictly and turn it into a record, or into a stable reason. Their exceptions are
  subclasses of \<open>ValueError\<close> that carry the reason; the reason is the payload of \<open>ValueError\<close> here.
\<close>

definition check :: "bool \<Rightarrow> string \<Rightarrow> unit result" where
  "check ok reason = (if ok then Inr () else Inl (ValueError reason))"

lemma check_Inr [simp]: "check ok reason = Inr u \<longleftrightarrow> ok"
  by (simp add: check_def)

definition MAX_TEXT_LENGTH :: nat where "MAX_TEXT_LENGTH = 256"

definition strict_text :: "json_object \<Rightarrow> string \<Rightarrow> string result" where
  "strict_text doc field =
     (case jget field doc of
        Some (J_string s) \<Rightarrow>
          if py_strip s = '''' then Inl (ValueError (field @ ''_required''))
          else if MAX_TEXT_LENGTH < length (py_strip s) then Inl (ValueError (field @ ''_too_long''))
          else Inr (py_strip s)
      | _ \<Rightarrow> Inl (ValueError (field @ ''_required'')))"

definition lenient_text :: "json_object \<Rightarrow> string \<Rightarrow> string" where
  "lenient_text doc field =
     (case jget field doc of
        Some (J_string s) \<Rightarrow> if MAX_TEXT_LENGTH < length (py_strip s) then '''' else py_strip s
      | _ \<Rightarrow> '''')"

text \<open>A number that is no bool and finite as a float; an integer beyond the floats is not.\<close>

definition strict_number :: "json_object \<Rightarrow> string \<Rightarrow> real result" where
  "strict_number doc field =
     (case jget field doc of
        Some (J_int i) \<Rightarrow> (case int_float i of Inl e \<Rightarrow> Inl (ValueError (field @ ''_not_finite'')) | Inr x \<Rightarrow> Inr x)
      | Some (J_float (Fin x)) \<Rightarrow> Inr x
      | Some (J_float f) \<Rightarrow> Inl (ValueError (field @ ''_not_finite''))
      | _ \<Rightarrow> Inl (ValueError (field @ ''_number_required'')))"

lemma strict_text_Inr:
  "strict_text doc field = Inr s \<Longrightarrow> s \<noteq> '''' \<and> py_strip s = s \<and> length s \<le> MAX_TEXT_LENGTH"
  by (auto simp: strict_text_def split: option.splits json.splits if_splits)

text \<open>A text as these checks leave it: stripped, not empty and not too long.\<close>

definition text_ok :: "string \<Rightarrow> bool" where
  "text_ok s \<longleftrightarrow> s \<noteq> '''' \<and> py_strip s = s \<and> length s \<le> MAX_TEXT_LENGTH"

lemma strict_text_ok: "strict_text doc field = Inr s \<Longrightarrow> text_ok s"
  using strict_text_Inr unfolding text_ok_def .

lemma text_ok_strip: "text_ok s \<Longrightarrow> py_strip s = s"
  by (simp add: text_ok_def)

lemma text_ok_nonempty: "text_ok s \<Longrightarrow> s \<noteq> ''''"
  by (simp add: text_ok_def)

text \<open>\<open>f(x)\<close> for each entry of a list, in order.\<close>

fun map_result :: "('a \<Rightarrow> 'b result) \<Rightarrow> 'a list \<Rightarrow> 'b list result" where
  "map_result f [] = Inr []"
| "map_result f (x # xs) = bind_result (f x) (\<lambda>y. bind_result (map_result f xs) (\<lambda>ys. Inr (y # ys)))"

lemma map_result_all: "map_result f xs = Inr ys \<Longrightarrow> list_all2 (\<lambda>x y. f x = Inr y) xs ys"
  by (induction xs arbitrary: ys) auto

end
