(* ===== verification/Intent_Contract.thy ===== *)
theory Intent_Contract
  imports Edge_Json Task_Contract
begin

text \<open>
  The speech interface: \<open>intent_contract.py\<close>, which reads a spoken request from JSON, and
  \<open>speech_interface_node.py\<close>, which reports on it and sends it on as a task. \<open>scan\<close> is the scanner of
  \<open>json.loads\<close>.
\<close>

section \<open>Reading an intent\<close>

definition STRING_FIELDS :: "string list" where
  "STRING_FIELDS = [''intent_id'', ''task_id'', ''trace_id'', ''session_id'', ''task_type'', ''target_group'']"

definition POSE_FIELDS :: "string list" where
  "POSE_FIELDS = [''roll'', ''pitch'', ''yaw'']"

definition REQUIRED_FIELDS :: "string list" where
  "REQUIRED_FIELDS = STRING_FIELDS @ POSE_FIELDS @ [''duration_ms'', ''position_tolerance''] @ [''execution_timeout_sec'', ''confidence'']"

record intent_context =
  ic_intent_id :: string
  ic_task_id :: string
  ic_trace_id :: string
  ic_session_id :: string
  ic_task_type :: string
  ic_target_group :: string

record intent_data = intent_context +
  id_roll :: real
  id_pitch :: real
  id_yaw :: real
  id_duration_ms :: int
  id_position_tolerance :: int
  id_execution_timeout_sec :: real
  id_confidence :: real

definition MAX_INTENT_CHARS :: nat where "MAX_INTENT_CHARS = 65536"

definition load_intent_object :: "(string \<Rightarrow> json_syntax \<times> bool) \<Rightarrow> string \<Rightarrow> json_object result" where
  "load_intent_object scan payload =
     (if MAX_INTENT_CHARS < length payload then Inl (ValueError ''payload_too_large'')
      else case strict_loads ''duplicate_field'' ''non_finite_json_number'' (scan payload) of
             Inl (Hook_error reason) \<Rightarrow> Inl (ValueError reason)
           | Inl Not_json \<Rightarrow> Inl (ValueError ''invalid_json'')
           | Inr (J_object doc) \<Rightarrow> Inr doc
           | Inr v \<Rightarrow> Inl (ValueError ''json_object_required''))"

definition required_string :: "json_object \<Rightarrow> string \<Rightarrow> string result" where
  "required_string doc field = strict_text doc field"

definition optional_string :: "json_object \<Rightarrow> string \<Rightarrow> string" where
  "optional_string doc field = lenient_text doc field"

definition required_number :: "json_object \<Rightarrow> string \<Rightarrow> real result" where
  "required_number doc field = strict_number doc field"

definition required_integer :: "json_object \<Rightarrow> string \<Rightarrow> int result" where
  "required_integer doc field =
     (case jget field doc of Some (J_int i) \<Rightarrow> Inr i | _ \<Rightarrow> Inl (ValueError (field @ ''_integer_required'')))"

definition extract_speech_context :: "(string \<Rightarrow> json_syntax \<times> bool) \<Rightarrow> string \<Rightarrow> intent_context option" where
  "extract_speech_context scan payload =
     (case load_intent_object scan payload of
        Inl e \<Rightarrow> None
      | Inr doc \<Rightarrow>
          Some \<lparr>ic_intent_id = optional_string doc ''intent_id'', ic_task_id = optional_string doc ''task_id'',
            ic_trace_id = optional_string doc ''trace_id'', ic_session_id = optional_string doc ''session_id'',
            ic_task_type = optional_string doc ''task_type'', ic_target_group = optional_string doc ''target_group''\<rparr>)"

definition known_fields :: "json_object \<Rightarrow> unit result" where
  "known_fields doc =
     bind_result (check (list_all (\<lambda>k. k \<in> set REQUIRED_FIELDS) (map fst doc)) ''unknown_field'') (\<lambda>_.
       case find (\<lambda>k. \<not> has_key k doc) REQUIRED_FIELDS of
         None \<Rightarrow> Inr ()
       | Some k \<Rightarrow> Inl (ValueError (k @ ''_required'')))"

definition intent_strings :: "json_object \<Rightarrow> intent_context result" where
  "intent_strings doc =
     bind_result (required_string doc ''intent_id'') (\<lambda>iid.
     bind_result (required_string doc ''task_id'') (\<lambda>tid.
     bind_result (required_string doc ''trace_id'') (\<lambda>trace.
     bind_result (required_string doc ''session_id'') (\<lambda>session.
     bind_result (required_string doc ''task_type'') (\<lambda>type.
     bind_result (required_string doc ''target_group'') (\<lambda>group.
     bind_result (check (type = ''ankle_pose'') ''unsupported_task_type'') (\<lambda>_.
     bind_result (check (group \<in> {''right_ankle'', ''left_ankle''}) ''unsupported_target_group'') (\<lambda>_.
       Inr \<lparr>ic_intent_id = iid, ic_task_id = tid, ic_trace_id = trace, ic_session_id = session, ic_task_type = type,
            ic_target_group = group\<rparr>))))))))"

definition intent_pose :: "json_object \<Rightarrow> (real \<times> real \<times> real) result" where
  "intent_pose doc =
     bind_result (required_number doc ''roll'') (\<lambda>roll.
     bind_result (required_number doc ''pitch'') (\<lambda>pitch.
     bind_result (required_number doc ''yaw'') (\<lambda>yaw.
     bind_result (check (\<bar>roll\<bar> \<le> 30) ''roll_out_of_range'') (\<lambda>_.
     bind_result (check (\<bar>pitch\<bar> \<le> 30) ''pitch_out_of_range'') (\<lambda>_.
     bind_result (check (\<bar>yaw\<bar> \<le> 30) ''yaw_out_of_range'') (\<lambda>_.
       Inr (roll, pitch, yaw)))))))"

definition intent_limits :: "json_object \<Rightarrow> real \<Rightarrow> (int \<times> int \<times> real \<times> real) result" where
  "intent_limits doc minimum_confidence =
     bind_result (required_integer doc ''duration_ms'') (\<lambda>duration.
     bind_result (check (1 \<le> duration \<and> duration \<le> 65535) ''duration_ms_out_of_range'') (\<lambda>_.
     bind_result (required_integer doc ''position_tolerance'') (\<lambda>tolerance.
     bind_result (check (1 \<le> tolerance \<and> tolerance \<le> 500) ''position_tolerance_out_of_range'') (\<lambda>_.
     bind_result (required_number doc ''execution_timeout_sec'') (\<lambda>timeout.
     bind_result (check (1 / 10 \<le> timeout \<and> timeout \<le> 120) ''execution_timeout_sec_out_of_range'') (\<lambda>_.
     bind_result (required_number doc ''confidence'') (\<lambda>confidence.
     bind_result (check (0 \<le> confidence \<and> confidence \<le> 1) ''confidence_out_of_range'') (\<lambda>_.
     bind_result (check (minimum_confidence \<le> confidence) ''confidence_below_minimum'') (\<lambda>_.
       Inr (duration, tolerance, timeout, confidence))))))))))"

definition parse_speech_intent :: "(string \<Rightarrow> json_syntax \<times> bool) \<Rightarrow> real \<Rightarrow> string \<Rightarrow> intent_data result" where
  "parse_speech_intent scan minimum_confidence payload =
     bind_result (check (0 \<le> minimum_confidence \<and> minimum_confidence \<le> 1) ''minimum_confidence must be finite and within [0, 1]'') (\<lambda>_.
     bind_result (load_intent_object scan payload) (\<lambda>doc.
     bind_result (known_fields doc) (\<lambda>_.
     bind_result (intent_strings doc) (\<lambda>ids.
     bind_result (intent_pose doc) (\<lambda>(roll, pitch, yaw).
     bind_result (intent_limits doc minimum_confidence) (\<lambda>(duration, tolerance, timeout, confidence).
       Inr (intent_context.extend ids
         \<lparr>id_roll = roll, id_pitch = pitch, id_yaw = yaw, id_duration_ms = duration, id_position_tolerance = tolerance,
          id_execution_timeout_sec = timeout, id_confidence = confidence\<rparr>)))))))"

definition map_intent_to_task_goal :: "intent_data \<Rightarrow> task_goal" where
  "map_intent_to_task_goal i =
     \<lparr>tg_task_id = ic_task_id i, tg_trace_id = ic_trace_id i, tg_session_id = ic_session_id i, tg_task_type = ic_task_type i,
      tg_target_group = ic_target_group i, tg_roll_deg = Fin (id_roll i), tg_pitch_deg = Fin (id_pitch i), tg_yaw_deg = Fin (id_yaw i),
      tg_duration_ms = id_duration_ms i, tg_position_tolerance = id_position_tolerance i,
      tg_execution_timeout_sec = Fin (id_execution_timeout_sec i)\<rparr>"

section \<open>The node\<close>

text \<open>Whom a status is about: nobody, the labels of a rejected request, or an intent.\<close>

datatype speech_subject = Subject_none | Subject_context intent_context | Subject_intent intent_data

datatype speech_output =
    Speech_status nat speech_subject string string bool
  | Speech_goal nat task_goal

record speech_node =
  sp_waiting :: "nat \<Rightarrow> intent_data option"   \<comment> \<open>in \<open>wait_for_server\<close>\<close>
  sp_sent :: "nat \<Rightarrow> intent_data option"      \<comment> \<open>until \<open>_goal_response_callback\<close>\<close>
  sp_running :: "nat \<Rightarrow> intent_data option"   \<comment> \<open>until \<open>_result_callback\<close>\<close>
  sp_known :: "nat set"
  sp_out :: "speech_output list"

definition speech_start :: speech_node where
  "speech_start = \<lparr>sp_waiting = (\<lambda>_. None), sp_sent = (\<lambda>_. None), sp_running = (\<lambda>_. None), sp_known = {}, sp_out = []\<rparr>"

text \<open>The constructor checks the parameter \<open>minimum_confidence\<close>.\<close>

definition speech_init :: "real \<Rightarrow> speech_node result" where
  "speech_init minimum =
     (if 0 \<le> minimum \<and> minimum \<le> 1 then Inr speech_start else Inl (ValueError ''minimum_confidence must be within [0, 1]''))"

definition publish_status :: "nat \<Rightarrow> speech_subject \<Rightarrow> string \<Rightarrow> string \<Rightarrow> bool \<Rightarrow> speech_node \<Rightarrow> speech_node" where
  "publish_status n subject status reason recoverable m = m\<lparr>sp_out := Speech_status n subject status reason recoverable # sp_out m\<rparr>"

text \<open>\<open>_request_callback\<close> up to its wait, and after it.\<close>

definition request_callback :: "(string \<Rightarrow> json_syntax \<times> bool) \<Rightarrow> real \<Rightarrow> nat \<Rightarrow> string \<Rightarrow> speech_node \<Rightarrow> speech_node" where
  "request_callback scan minimum n payload m =
     (let m1 = m\<lparr>sp_known := insert n (sp_known m)\<rparr>
      in case parse_speech_intent scan minimum payload of
           Inr intent \<Rightarrow>
             (publish_status n (Subject_intent intent) ''accepted'' ''intent_valid'' False m1)\<lparr>sp_waiting := (sp_waiting m1)(n \<mapsto> intent)\<rparr>
         | Inl e \<Rightarrow>
             publish_status n (case extract_speech_context scan payload of None \<Rightarrow> Subject_none | Some c \<Rightarrow> Subject_context c)
               ''rejected'' (case e of ValueError reason \<Rightarrow> reason | _ \<Rightarrow> '''') True m1)"

definition request_continues :: "nat \<Rightarrow> intent_data \<Rightarrow> bool \<Rightarrow> bool \<Rightarrow> speech_node \<Rightarrow> speech_node" where
  "request_continues n intent ready sending m =
     (let m1 = m\<lparr>sp_waiting := (sp_waiting m)(n := None)\<rparr>
      in if \<not> ready then publish_status n (Subject_intent intent) ''rejected'' ''task_action_unavailable'' True m1
         else if \<not> sending then publish_status n (Subject_intent intent) ''failed'' ''task_goal_send_failed'' True m1
         else m1\<lparr>sp_sent := (sp_sent m1)(n \<mapsto> intent), sp_out := Speech_goal n (map_intent_to_task_goal intent) # sp_out m1\<rparr>)"

text \<open>What a future yields: an exception, or its value.\<close>

definition goal_response_callback :: "nat \<Rightarrow> intent_data \<Rightarrow> bool option \<Rightarrow> speech_node \<Rightarrow> speech_node" where
  "goal_response_callback n intent accepted m =
     (let m1 = m\<lparr>sp_sent := (sp_sent m)(n := None)\<rparr>
      in case accepted of
           None \<Rightarrow> publish_status n (Subject_intent intent) ''failed'' ''task_goal_response_failed'' True m1
         | Some False \<Rightarrow> publish_status n (Subject_intent intent) ''rejected'' ''task_goal_rejected'' True m1
         | Some True \<Rightarrow>
             (publish_status n (Subject_intent intent) ''executing'' ''task_goal_accepted'' False m1)\<lparr>sp_running := (sp_running m1)(n \<mapsto> intent)\<rparr>)"

definition result_callback :: "nat \<Rightarrow> intent_data \<Rightarrow> task_result option \<Rightarrow> speech_node \<Rightarrow> speech_node" where
  "result_callback n intent result m =
     (let m1 = m\<lparr>sp_running := (sp_running m)(n := None)\<rparr>
      in case result of
           None \<Rightarrow> publish_status n (Subject_intent intent) ''failed'' ''task_result_unavailable'' True m1
         | Some r \<Rightarrow>
             publish_status n (Subject_intent intent)
               (or_default (py_strip (tk_status r)) (if tk_success r then ''succeeded'' else ''failed''))
               (or_default (py_strip (tk_reason r)) ''task_result_without_reason'') (tk_recoverable r) m1)"

datatype speech_event =
    S_request nat string
  | S_server nat bool bool
  | S_response nat "bool option"
  | S_result nat "task_result option"

fun speech_step :: "(string \<Rightarrow> json_syntax \<times> bool) \<Rightarrow> real \<Rightarrow> speech_event \<Rightarrow> speech_node \<Rightarrow> speech_node option" where
  "speech_step scan minimum (S_request n payload) m = (if n \<in> sp_known m then None else Some (request_callback scan minimum n payload m))"
| "speech_step scan minimum (S_server n ready sending) m = map_option (\<lambda>i. request_continues n i ready sending m) (sp_waiting m n)"
| "speech_step scan minimum (S_response n accepted) m = map_option (\<lambda>i. goal_response_callback n i accepted m) (sp_sent m n)"
| "speech_step scan minimum (S_result n result) m = map_option (\<lambda>i. result_callback n i result m) (sp_running m n)"

inductive speech_reachable :: "(string \<Rightarrow> json_syntax \<times> bool) \<Rightarrow> real \<Rightarrow> speech_node \<Rightarrow> bool" for scan minimum where
  start: "speech_init minimum = Inr m \<Longrightarrow> speech_reachable scan minimum m"
| step: "speech_reachable scan minimum m \<Longrightarrow> speech_step scan minimum e m = Some m' \<Longrightarrow> speech_reachable scan minimum m'"

section \<open>Facts\<close>

text \<open>What a parsed intent satisfies.\<close>

definition intent_ok :: "intent_data \<Rightarrow> bool" where
  "intent_ok i \<longleftrightarrow> list_all (\<lambda>s. s \<noteq> '''' \<and> py_strip s = s \<and> length s \<le> MAX_TEXT_LENGTH)
       [ic_intent_id i, ic_task_id i, ic_trace_id i, ic_session_id i]
     \<and> ic_task_type i = ''ankle_pose'' \<and> ic_target_group i \<in> {''right_ankle'', ''left_ankle''}
     \<and> \<bar>id_roll i\<bar> \<le> 30 \<and> \<bar>id_pitch i\<bar> \<le> 30 \<and> \<bar>id_yaw i\<bar> \<le> 30
     \<and> 1 \<le> id_duration_ms i \<and> id_duration_ms i \<le> 65535 \<and> 1 \<le> id_position_tolerance i \<and> id_position_tolerance i \<le> 500
     \<and> 1 / 10 \<le> id_execution_timeout_sec i \<and> id_execution_timeout_sec i \<le> 120
     \<and> 0 \<le> id_confidence i \<and> id_confidence i \<le> 1"

lemma intent_strings_ok:
  "intent_strings doc = Inr ids \<Longrightarrow>
     list_all (\<lambda>s. s \<noteq> '''' \<and> py_strip s = s \<and> length s \<le> MAX_TEXT_LENGTH) [ic_intent_id ids, ic_task_id ids, ic_trace_id ids, ic_session_id ids]
     \<and> ic_task_type ids = ''ankle_pose'' \<and> ic_target_group ids \<in> {''right_ankle'', ''left_ankle''}"
  by (auto simp: intent_strings_def required_string_def dest!: strict_text_Inr)

lemma intent_pose_ok: "intent_pose doc = Inr (r, p, y) \<Longrightarrow> \<bar>r\<bar> \<le> 30 \<and> \<bar>p\<bar> \<le> 30 \<and> \<bar>y\<bar> \<le> 30"
  by (auto simp: intent_pose_def)

lemma intent_limits_ok:
  "intent_limits doc minimum = Inr (d, t, timeout, confidence) \<Longrightarrow>
     1 \<le> d \<and> d \<le> 65535 \<and> 1 \<le> t \<and> t \<le> 500 \<and> 1 / 10 \<le> timeout \<and> timeout \<le> 120 \<and> 0 \<le> confidence \<and> confidence \<le> 1 \<and> minimum \<le> confidence"
  by (auto simp: intent_limits_def)

lemma parsed_intent:
  assumes "parse_speech_intent scan minimum payload = Inr i"
  obtains doc ids r p y d t timeout confidence where "load_intent_object scan payload = Inr doc" "known_fields doc = Inr ()"
    "intent_strings doc = Inr ids" "intent_pose doc = Inr (r, p, y)" "intent_limits doc minimum = Inr (d, t, timeout, confidence)"
    "i = intent_context.extend ids \<lparr>id_roll = r, id_pitch = p, id_yaw = y, id_duration_ms = d, id_position_tolerance = t,
        id_execution_timeout_sec = timeout, id_confidence = confidence\<rparr>"
  using assms by (auto simp: parse_speech_intent_def split: prod.splits)

lemma parsed_intent_ok:
  assumes "parse_speech_intent scan minimum payload = Inr i"
  shows "intent_ok i \<and> minimum \<le> id_confidence i"
  using assms
proof (rule parsed_intent)
  fix doc ids r p y d t timeout confidence
  assume "intent_strings doc = Inr ids" "intent_pose doc = Inr (r, p, y)" "intent_limits doc minimum = Inr (d, t, timeout, confidence)"
    "i = intent_context.extend ids \<lparr>id_roll = r, id_pitch = p, id_yaw = y, id_duration_ms = d, id_position_tolerance = t,
        id_execution_timeout_sec = timeout, id_confidence = confidence\<rparr>"
  with intent_strings_ok [of doc ids] intent_pose_ok [of doc r p y] intent_limits_ok [of doc minimum d t timeout confidence] show ?thesis
    by (simp add: intent_ok_def intent_context.defs)
qed

lemma intent_task_valid:
  assumes "intent_ok i"
  shows "fst (validate_task_goal (map_intent_to_task_goal i))"
proof -
  have "pose_failure ''roll_deg'' (Fin (id_roll i)) = None" "pose_failure ''pitch_deg'' (Fin (id_pitch i)) = None"
    "pose_failure ''yaw_deg'' (Fin (id_yaw i)) = None"
    using assms by (simp_all add: intent_ok_def)
  with assms show ?thesis by (auto simp: intent_ok_def validate_task_goal_def map_intent_to_task_goal_def simp del: pose_failure_None)
qed

text \<open>The document of an intent has each required field once, and no other.\<close>

lemma loaded_fields:
  assumes "load_intent_object scan payload = Inr doc" "known_fields doc = Inr ()"
  shows "distinct (map fst doc)" "fst ` set doc = set REQUIRED_FIELDS" "length payload \<le> MAX_INTENT_CHARS"
proof -
  from assms(1) have l: "strict_loads ''duplicate_field'' ''non_finite_json_number'' (scan payload) = Inr (J_object doc)"
    by (auto simp: load_intent_object_def split: if_splits sum.splits load_error.splits json.splits)
  from strict_loads_strict [OF l] show "distinct (map fst doc)" by simp
  show "length payload \<le> MAX_INTENT_CHARS" using assms(1) by (auto simp: load_intent_object_def split: if_splits)
  from assms(2) show "fst ` set doc = set REQUIRED_FIELDS"
    by (fastforce simp: known_fields_def list_all_iff find_None_iff has_key_def split: option.splits)
qed

section \<open>Properties\<close>

text \<open>
  A spoken request that is accepted is well formed, and the task it becomes is one that the task bridge
  accepts as valid: the document has every required field exactly once and nothing else, its texts are
  stripped and short, its numbers finite and within the limits, and its confidence reaches the minimum.
\<close>

theorem accepted_intent_is_valid_task:
  assumes "parse_speech_intent scan minimum payload = Inr i"
  shows "intent_ok i \<and> minimum \<le> id_confidence i \<and> fst (validate_task_goal (map_intent_to_task_goal i))
    \<and> (\<exists>doc. load_intent_object scan payload = Inr doc \<and> distinct (map fst doc) \<and> fst ` set doc = set REQUIRED_FIELDS)"
  using parsed_intent [OF assms] parsed_intent_ok [OF assms] intent_task_valid loaded_fields by metis

definition demo_scan :: "string \<Rightarrow> json_syntax \<times> bool" where
  "demo_scan text =
     (Syn_object [(''intent_id'', Syn_string ''i''), (''task_id'', Syn_string '' t ''), (''trace_id'', Syn_string ''r''),
        (''session_id'', Syn_string text), (''task_type'', Syn_string ''ankle_pose''), (''target_group'', Syn_string ''left_ankle''),
        (''roll'', Syn_int 3), (''pitch'', Syn_float (Fin (1 / 2))), (''yaw'', Syn_int 0), (''duration_ms'', Syn_int 500),
        (''position_tolerance'', Syn_int 5), (''execution_timeout_sec'', Syn_int 9), (''confidence'', Syn_float (Fin (3 / 4)))], False)"

definition demo_intent :: intent_data where
  "demo_intent = \<lparr>ic_intent_id = ''i'', ic_task_id = ''t'', ic_trace_id = ''r'', ic_session_id = ''s'', ic_task_type = ''ankle_pose'',
     ic_target_group = ''left_ankle'', id_roll = 3, id_pitch = 1 / 2, id_yaw = 0, id_duration_ms = 500, id_position_tolerance = 5,
     id_execution_timeout_sec = 9, id_confidence = 3 / 4\<rparr>"

definition demo_doc :: json_object where
  "demo_doc =
     [(''intent_id'', J_string ''i''), (''task_id'', J_string '' t ''), (''trace_id'', J_string ''r''), (''session_id'', J_string ''s''),
      (''task_type'', J_string ''ankle_pose''), (''target_group'', J_string ''left_ankle''), (''roll'', J_int 3),
      (''pitch'', J_float (Fin (1 / 2))), (''yaw'', J_int 0), (''duration_ms'', J_int 500), (''position_tolerance'', J_int 5),
      (''execution_timeout_sec'', J_int 9), (''confidence'', J_float (Fin (3 / 4)))]"

lemma demo_doc_loaded: "load_intent_object demo_scan ''s'' = Inr demo_doc"
  by (simp add: load_intent_object_def MAX_INTENT_CHARS_def strict_loads_def demo_scan_def demo_doc_def)

lemma demo_doc_known: "known_fields demo_doc = Inr ()"
  by code_simp

lemma demo_doc_strings:
  "intent_strings demo_doc = Inr \<lparr>ic_intent_id = ''i'', ic_task_id = ''t'', ic_trace_id = ''r'', ic_session_id = ''s'',
     ic_task_type = ''ankle_pose'', ic_target_group = ''left_ankle''\<rparr>"
  by code_simp

lemma demo_doc_numbers:
  "intent_pose demo_doc = Inr (3, 1 / 2, 0)" "intent_limits demo_doc (3 / 5) = Inr (500, 5, 9, 3 / 4)"
  by (simp_all add: intent_pose_def intent_limits_def required_number_def required_integer_def strict_number_def demo_doc_def
      jget_def int_float_small)

lemma demo_intent_parsed: "parse_speech_intent demo_scan (3 / 5) ''s'' = Inr demo_intent"
  by (simp add: parse_speech_intent_def demo_doc_loaded demo_doc_known demo_doc_strings demo_doc_numbers demo_intent_def
      intent_context.defs)

theorem accepted_intent_is_valid_task_witness:
  "fst (validate_task_goal (map_intent_to_task_goal demo_intent))"
  using accepted_intent_is_valid_task [OF demo_intent_parsed] by blast

text \<open>
  The invariant of the node: an intent in any of the three stages is well formed and was announced as
  accepted, a request is in one stage at a time, and what was sent stems from such an intent.
\<close>

definition announced :: "nat \<Rightarrow> intent_data \<Rightarrow> speech_output list \<Rightarrow> bool" where
  "announced n i out \<longleftrightarrow> intent_ok i \<and> Speech_status n (Subject_intent i) ''accepted'' ''intent_valid'' False \<in> set out"

fun goal_of :: "nat \<Rightarrow> speech_output \<Rightarrow> bool" where
  "goal_of n (Speech_goal k g) = (k = n)"
| "goal_of n (Speech_status k subject status reason recoverable) = False"

definition goals_sent :: "nat \<Rightarrow> speech_output list \<Rightarrow> nat" where
  "goals_sent n out = length (filter (goal_of n) out)"

definition speech_ok :: "speech_node \<Rightarrow> bool" where
  "speech_ok m \<longleftrightarrow>
     (\<forall>n i. sp_waiting m n = Some i \<longrightarrow> n \<in> sp_known m \<and> announced n i (sp_out m) \<and> goals_sent n (sp_out m) = 0)
     \<and> (\<forall>n. n \<notin> sp_known m \<longrightarrow> goals_sent n (sp_out m) = 0)
     \<and> (\<forall>n. goals_sent n (sp_out m) \<le> 1)
     \<and> (\<forall>n g. Speech_goal n g \<in> set (sp_out m) \<longrightarrow> (\<exists>i. announced n i (sp_out m) \<and> g = map_intent_to_task_goal i))"

lemma announced_mono: "announced n i out \<Longrightarrow> announced n i (x # out)"
  by (simp add: announced_def)

lemma goals_sent_simps [simp]:
  "goals_sent n [] = 0" "goals_sent n (Speech_goal k g # out) = goals_sent n out + of_bool (k = n)"
  "goals_sent n (Speech_status k subject status reason recoverable # out) = goals_sent n out"
  by (auto simp: goals_sent_def)

lemma speech_init_ok: "speech_init minimum = Inr m \<Longrightarrow> speech_ok m"
  by (auto simp: speech_init_def speech_ok_def speech_start_def split: if_splits)

lemma publish_status_ok: "speech_ok m \<Longrightarrow> speech_ok (publish_status n subject status reason recoverable m)"
  unfolding speech_ok_def publish_status_def by (simp add: announced_mono) (metis announced_mono)

lemma speech_ok_stages [simp]:
  "speech_ok (m\<lparr>sp_sent := f\<rparr>) = speech_ok m" "speech_ok (m\<lparr>sp_running := f\<rparr>) = speech_ok m"
  by (simp_all add: speech_ok_def)

lemma speech_ok_taken: "speech_ok m \<Longrightarrow> speech_ok (m\<lparr>sp_waiting := (sp_waiting m)(n := None)\<rparr>)"
  by (auto simp: speech_ok_def split: if_splits)

lemma request_callback_ok:
  assumes "speech_ok m" "n \<notin> sp_known m"
  shows "speech_ok (request_callback scan minimum n payload m)"
proof (cases "parse_speech_intent scan minimum payload")
  case (Inr i)
  have new: "announced n i (Speech_status n (Subject_intent i) ''accepted'' ''intent_valid'' False # sp_out m)"
    using parsed_intent_ok [OF Inr] by (simp add: announced_def)
  show ?thesis
    using assms new unfolding speech_ok_def request_callback_def publish_status_def Inr Let_def
    by (simp add: announced_mono) (metis announced_mono)
next
  case (Inl e)
  have "speech_ok (m\<lparr>sp_known := insert n (sp_known m)\<rparr>)" using assms(1) by (simp add: speech_ok_def)
  with Inl show ?thesis by (simp add: request_callback_def publish_status_ok)
qed

lemma request_continues_ok:
  assumes "speech_ok m" "sp_waiting m n = Some i"
  shows "speech_ok (request_continues n i ready sending m)"
proof (cases "ready \<and> sending")
  case True
  with assms show ?thesis
    by (simp add: request_continues_def speech_ok_def Let_def) (metis announced_mono le_refl zero_le_one)
next
  case False
  with speech_ok_taken [OF assms(1), of n] show ?thesis by (auto simp: request_continues_def Let_def publish_status_ok)
qed

lemma speech_step_ok:
  assumes "speech_ok m" "speech_step scan minimum e m = Some m'"
  shows "speech_ok m'"
proof (cases e)
  case (S_request n payload)
  with assms show ?thesis by (auto simp: request_callback_ok split: if_splits)
next
  case (S_server n ready sending)
  with assms show ?thesis by (auto simp: request_continues_ok)
next
  case (S_response n accepted)
  with assms show ?thesis by (auto simp: goal_response_callback_def Let_def publish_status_ok split: option.split bool.split)
next
  case (S_result n result)
  with assms show ?thesis by (auto simp: result_callback_def Let_def publish_status_ok split: option.split)
qed

lemma speech_reachable_ok: "speech_reachable scan minimum m \<Longrightarrow> speech_ok m"
  by (induction rule: speech_reachable.induct) (auto intro: speech_init_ok speech_step_ok)

text \<open>
  C19: The speech interface only sends tasks for requests it accepted: every goal it sends is the translation of
  a well-formed intent that was announced as accepted for the same request, the task bridge finds it valid,
  and no request sends a second goal, however requests and answers interleave.
\<close>

theorem spoken_tasks_are_valid:
  assumes "speech_reachable scan minimum m" "Speech_goal n g \<in> set (sp_out m)"
  shows "goals_sent n (sp_out m) = 1 \<and> fst (validate_task_goal g)
    \<and> (\<exists>i. intent_ok i \<and> g = map_intent_to_task_goal i
         \<and> Speech_status n (Subject_intent i) ''accepted'' ''intent_valid'' False \<in> set (sp_out m))"
proof -
  from assms(2) have "goals_sent n (sp_out m) \<noteq> 0" by (force simp: goals_sent_def filter_empty_conv)
  with speech_reachable_ok [OF assms(1)] assms(2) intent_task_valid show ?thesis
    unfolding speech_ok_def announced_def by (metis le_neq_implies_less less_one)
qed

theorem spoken_tasks_are_valid_witness:
  "\<exists>m. speech_reachable demo_scan (3 / 5) m \<and> goals_sent 7 (sp_out m) = 1"
proof -
  obtain m1 where m1: "speech_step demo_scan (3 / 5) (S_request 7 ''s'') speech_start = Some m1" "sp_waiting m1 7 = Some demo_intent"
    by (simp add: demo_intent_parsed request_callback_def publish_status_def speech_start_def)
  define m2 where "m2 = request_continues 7 demo_intent True True m1"
  have s2: "speech_step demo_scan (3 / 5) (S_server 7 True True) m1 = Some m2" using m1(2) by (simp add: m2_def)
  have "speech_init (3 / 5) = Inr speech_start" by (simp add: speech_init_def)
  then have r: "speech_reachable demo_scan (3 / 5) m2" using m1(1) s2 by (metis speech_reachable.intros)
  have "Speech_goal 7 (map_intent_to_task_goal demo_intent) \<in> set (sp_out m2)"
    by (simp add: m2_def request_continues_def Let_def)
  from spoken_tasks_are_valid [OF r this] r show ?thesis by blast
qed

end
