(* ===== verification/Scene_Parser.thy ===== *)
theory Scene_Parser
  imports Edge_Json Motion_Controller "HOL-Library.List_Lexorder" "HOL-Library.Char_ord"
begin

text \<open>
  The vision node: \<open>scene_parser.py\<close>, which reads a scene of detected objects from JSON, and
  \<open>vision_perception_node.py\<close>, which publishes it, or its rejection, as a \<open>SceneState\<close>. \<open>scan\<close> is the
  scanner of \<open>json.loads\<close>. The message has \<open>float32\<close> fields: \<open>single\<close> is the rounding of the
  middleware that carries it to the scene gate of the motion controller.
\<close>

section \<open>Parsing a scene\<close>

definition SCENE_FIELDS :: "string list" where
  "SCENE_FIELDS = [''observation_id'', ''session_id'', ''frame_id'', ''objects'']"

definition OBJECT_FIELDS :: "string list" where
  "OBJECT_FIELDS = [''object_id'', ''label'', ''confidence'', ''x'', ''y'', ''z'', ''size_x'', ''size_y'', ''size_z'']"

definition FLOAT32_MAX :: real where "FLOAT32_MAX = 2 ^ 128 - 2 ^ 104"

definition MAX_OBJECTS :: nat where "MAX_OBJECTS = 256"

definition MAX_SCENE_CHARS :: nat where "MAX_SCENE_CHARS = 1000000"

record parsed_object =
  po_object_id :: string
  po_label :: string
  po_confidence :: real
  po_x :: real
  po_y :: real
  po_z :: real
  po_size_x :: real
  po_size_y :: real
  po_size_z :: real

record scene_identity =
  vi_observation_id :: string
  vi_session_id :: string
  vi_frame_id :: string

record parsed_scene = scene_identity +
  ps_objects :: "parsed_object list"

datatype parse_result =
    Parse_accepted parsed_scene scene_identity
  | Parse_rejected "scene_identity option" string

definition scene_identity_of :: "json_object \<Rightarrow> scene_identity" where
  "scene_identity_of doc = \<lparr>vi_observation_id = lenient_text doc ''observation_id'', vi_session_id = lenient_text doc ''session_id'',
     vi_frame_id = lenient_text doc ''frame_id''\<rparr>"

text \<open>\<open>','.join(unknown)\<close>\<close>

fun join_comma :: "string list \<Rightarrow> string" where
  "join_comma [] = ''''"
| "join_comma [s] = s"
| "join_comma (s # ss) = s @ '','' @ join_comma ss"

definition reject_unknown_fields :: "json_object \<Rightarrow> string list \<Rightarrow> unit result" where
  "reject_unknown_fields doc allowed =
     (let unknown = sort (filter (\<lambda>k. k \<notin> set allowed) (remdups (map fst doc)))
      in check (unknown = []) (''unexpected_field:'' @ join_comma unknown))"

definition in_range :: "real \<Rightarrow> string \<Rightarrow> unit result" where
  "in_range a name = check (\<bar>a\<bar> \<le> FLOAT32_MAX) (name @ ''_out_of_range'')"

definition size_ok :: "real \<Rightarrow> string \<Rightarrow> unit result" where
  "size_ok a name = bind_result (check (0 \<le> a) (name @ ''_negative'')) (\<lambda>_. check (a \<le> FLOAT32_MAX) (name @ ''_out_of_range''))"

definition parse_object_fields :: "json_object \<Rightarrow> parsed_object result" where
  "parse_object_fields raw =
     bind_result (strict_text raw ''object_id'') (\<lambda>oid.
     bind_result (strict_text raw ''label'') (\<lambda>label.
     bind_result (strict_number raw ''confidence'') (\<lambda>confidence.
     bind_result (strict_number raw ''x'') (\<lambda>x.
     bind_result (strict_number raw ''y'') (\<lambda>y.
     bind_result (strict_number raw ''z'') (\<lambda>z.
     bind_result (strict_number raw ''size_x'') (\<lambda>sx.
     bind_result (strict_number raw ''size_y'') (\<lambda>sy.
     bind_result (strict_number raw ''size_z'') (\<lambda>sz.
       Inr \<lparr>po_object_id = oid, po_label = label, po_confidence = confidence, po_x = x, po_y = y, po_z = z,
            po_size_x = sx, po_size_y = sy, po_size_z = sz\<rparr>)))))))))"

definition parse_object :: "json \<Rightarrow> parsed_object result" where
  "parse_object v =
     (case v of
        J_object raw \<Rightarrow>
          bind_result (reject_unknown_fields raw OBJECT_FIELDS) (\<lambda>_.
          bind_result (parse_object_fields raw) (\<lambda>p.
          bind_result (check (0 \<le> po_confidence p \<and> po_confidence p \<le> 1) ''confidence_out_of_range'') (\<lambda>_.
          bind_result (in_range (po_x p) ''x'') (\<lambda>_.
          bind_result (in_range (po_y p) ''y'') (\<lambda>_.
          bind_result (in_range (po_z p) ''z'') (\<lambda>_.
          bind_result (size_ok (po_size_x p) ''size_x'') (\<lambda>_.
          bind_result (size_ok (po_size_y p) ''size_y'') (\<lambda>_.
          bind_result (size_ok (po_size_z p) ''size_z'') (\<lambda>_.
            Inr p)))))))))
      | w \<Rightarrow> Inl (ValueError ''object_not_object''))"

definition parse_root :: "json_object \<Rightarrow> parsed_scene result" where
  "parse_root doc =
     bind_result (reject_unknown_fields doc SCENE_FIELDS) (\<lambda>_.
     bind_result (strict_text doc ''observation_id'') (\<lambda>oid.
     bind_result (strict_text doc ''session_id'') (\<lambda>sid.
     bind_result (strict_text doc ''frame_id'') (\<lambda>frame.
       case jget ''objects'' doc of
         Some (J_list objects) \<Rightarrow>
           bind_result (check (length objects \<le> MAX_OBJECTS) ''objects_too_many'') (\<lambda>_.
           bind_result (map_result parse_object objects) (\<lambda>parsed.
           bind_result (check (distinct (map po_object_id parsed)) ''object_id_not_unique'') (\<lambda>_.
             Inr \<lparr>vi_observation_id = oid, vi_session_id = sid, vi_frame_id = frame, ps_objects = parsed\<rparr>)))
       | v \<Rightarrow> Inl (ValueError ''objects_list_required'')))))"

definition error_reason :: "py_error \<Rightarrow> string" where
  "error_reason e = (case e of ValueError why \<Rightarrow> why | _ \<Rightarrow> '''')"

definition parse_scene_json :: "(string \<Rightarrow> json_syntax \<times> bool) \<Rightarrow> string \<Rightarrow> parse_result" where
  "parse_scene_json scan payload =
     (if MAX_SCENE_CHARS < length payload then Parse_rejected None ''payload_too_large''
      else case strict_loads ''duplicate_key'' ''non_finite_number'' (scan payload) of
             Inl (Hook_error reason) \<Rightarrow> Parse_rejected None reason
           | Inl Not_json \<Rightarrow> Parse_rejected None ''invalid_json''
           | Inr (J_object doc) \<Rightarrow>
               (case parse_root doc of
                  Inl e \<Rightarrow> Parse_rejected (Some (scene_identity_of doc)) (error_reason e)
                | Inr scene \<Rightarrow> Parse_accepted scene (scene_identity_of doc))
           | Inr v \<Rightarrow> Parse_rejected None ''root_not_object'')"

section \<open>The node\<close>

definition to_detected_object :: "(real \<Rightarrow> real) \<Rightarrow> parsed_object \<Rightarrow> scene_object" where
  "to_detected_object single p =
     \<lparr>so_object_id = po_object_id p, so_label = po_label p, so_confidence = Fin (single (po_confidence p)),
      so_x = Fin (single (po_x p)), so_y = Fin (single (po_y p)), so_z = Fin (single (po_z p)),
      so_size_x = Fin (single (po_size_x p)), so_size_y = Fin (single (po_size_y p)), so_size_z = Fin (single (po_size_z p))\<rparr>"

definition to_scene_state :: "(real \<Rightarrow> real) \<Rightarrow> parse_result \<Rightarrow> scene_report" where
  "to_scene_state single result =
     (case result of
        Parse_rejected identity reason \<Rightarrow>
          (case identity of
             Some i \<Rightarrow> \<lparr>sm_observation_id = vi_observation_id i, sm_session_id = vi_session_id i, sm_frame_id = vi_frame_id i,
                        sm_objects = [], sm_status = ''rejected'', sm_reason = or_default reason ''scene_rejected''\<rparr>
           | None \<Rightarrow> \<lparr>sm_observation_id = '''', sm_session_id = '''', sm_frame_id = '''',
                      sm_objects = [], sm_status = ''rejected'', sm_reason = or_default reason ''scene_rejected''\<rparr>)
      | Parse_accepted scene i \<Rightarrow>
          \<lparr>sm_observation_id = vi_observation_id scene, sm_session_id = vi_session_id scene, sm_frame_id = vi_frame_id scene,
           sm_objects = map (to_detected_object single) (ps_objects scene), sm_status = ''ok'', sm_reason = ''''\<rparr>)"

definition on_json :: "(string \<Rightarrow> json_syntax \<times> bool) \<Rightarrow> (real \<Rightarrow> real) \<Rightarrow> string \<Rightarrow> scene_report" where
  "on_json scan single payload = to_scene_state single (parse_scene_json scan payload)"


section \<open>Facts\<close>

text \<open>What every accepted object satisfies.\<close>

definition parsed_ok :: "parsed_object \<Rightarrow> bool" where
  "parsed_ok p \<longleftrightarrow> text_ok (po_object_id p) \<and> text_ok (po_label p)
     \<and> 0 \<le> po_confidence p \<and> po_confidence p \<le> 1
     \<and> (\<forall>a \<in> {po_x p, po_y p, po_z p}. \<bar>a\<bar> \<le> FLOAT32_MAX)
     \<and> (\<forall>a \<in> {po_size_x p, po_size_y p, po_size_z p}. 0 \<le> a \<and> a \<le> FLOAT32_MAX)"

lemma parse_object_fields_texts:
  "parse_object_fields raw = Inr p \<Longrightarrow> text_ok (po_object_id p) \<and> text_ok (po_label p)"
  by (auto simp: parse_object_fields_def dest!: strict_text_ok)

lemma parse_object_ok:
  assumes "parse_object v = Inr p"
  shows "parsed_ok p"
proof -
  obtain raw where v: "v = J_object raw" using assms by (cases v) (auto simp: parse_object_def)
  from assms have f: "parse_object_fields raw = Inr p" and n: "0 \<le> po_confidence p" "po_confidence p \<le> 1"
    "\<forall>a \<in> {po_x p, po_y p, po_z p}. \<bar>a\<bar> \<le> FLOAT32_MAX" "\<forall>a \<in> {po_size_x p, po_size_y p, po_size_z p}. 0 \<le> a \<and> a \<le> FLOAT32_MAX"
    by (auto simp: v parse_object_def in_range_def size_ok_def)
  from parse_object_fields_texts [OF f] n show ?thesis unfolding parsed_ok_def by simp
qed

lemma parse_root_parts:
  assumes "parse_root doc = Inr scene"
  obtains objects where "strict_text doc ''observation_id'' = Inr (vi_observation_id scene)"
    "strict_text doc ''session_id'' = Inr (vi_session_id scene)" "strict_text doc ''frame_id'' = Inr (vi_frame_id scene)"
    "length objects \<le> MAX_OBJECTS" "map_result parse_object objects = Inr (ps_objects scene)"
    "distinct (map po_object_id (ps_objects scene))"
proof (cases "\<exists>objects. jget ''objects'' doc = Some (J_list objects)")
  case True
  then obtain objects where "jget ''objects'' doc = Some (J_list objects)" by blast
  with assms that show ?thesis by (auto simp: parse_root_def)
next
  case False
  have "parse_root doc \<noteq> Inr scene"
  proof (cases "jget ''objects'' doc")
    case (Some v)
    with False show ?thesis by (cases v) (simp_all add: parse_root_def)
  qed (simp add: parse_root_def)
  with assms show ?thesis by blast
qed

lemma parsed_objects_ok: "list_all2 (\<lambda>v p. parse_object v = Inr p) vs ps \<Longrightarrow> \<forall>p \<in> set ps. parsed_ok p"
  by (induction rule: list_all2_induct) (auto dest: parse_object_ok)

lemma parse_root_ok:
  assumes "parse_root doc = Inr scene"
  shows "text_ok (vi_observation_id scene) \<and> text_ok (vi_session_id scene) \<and> text_ok (vi_frame_id scene)
    \<and> distinct (map po_object_id (ps_objects scene)) \<and> (\<forall>p \<in> set (ps_objects scene). parsed_ok p)
    \<and> length (ps_objects scene) \<le> MAX_OBJECTS"
  using assms
proof (rule parse_root_parts)
  fix objects
  assume h: "strict_text doc ''observation_id'' = Inr (vi_observation_id scene)"
    "strict_text doc ''session_id'' = Inr (vi_session_id scene)" "strict_text doc ''frame_id'' = Inr (vi_frame_id scene)"
    "length objects \<le> MAX_OBJECTS" "map_result parse_object objects = Inr (ps_objects scene)"
    "distinct (map po_object_id (ps_objects scene))"
  from map_result_all [OF h(5)] have "length objects = length (ps_objects scene)" by (rule list_all2_lengthD)
  with h parsed_objects_ok [OF map_result_all [OF h(5)]] show ?thesis by (metis strict_text_ok)
qed

lemma accepted_scene:
  assumes "parse_scene_json scan payload = Parse_accepted scene i"
  obtains doc where "parse_root doc = Inr scene" "i = scene_identity_of doc"
  using assms by (auto simp: parse_scene_json_def split: if_splits sum.splits load_error.splits json.splits)

lemma lenient_strict: "strict_text doc field = Inr s \<Longrightarrow> lenient_text doc field = s"
  by (auto simp: strict_text_def lenient_text_def split: option.splits json.splits if_splits)

text \<open>The identity of an accepted scene is the scene's own.\<close>

lemma accepted_identity:
  assumes "parse_scene_json scan payload = Parse_accepted scene i"
  shows "i = scene_identity.truncate scene"
proof -
  obtain doc where d: "parse_root doc = Inr scene" "i = scene_identity_of doc" using accepted_scene [OF assms] .
  from d(1) show ?thesis
    by (rule parse_root_parts) (simp add: d(2) scene_identity_of_def scene_identity.defs lenient_strict)
qed

lemma strict_number_reason: "strict_number doc field = Inl e \<Longrightarrow> \<exists>s. e = ValueError (field @ s) \<and> s \<noteq> ''''"
  by (auto simp: strict_number_def split: option.splits json.splits py_float.splits sum.splits)

section \<open>Scenes at the gate\<close>

text \<open>What rounding to \<open>float32\<close> keeps: the order, zero and one.\<close>

definition rounding :: "(real \<Rightarrow> real) \<Rightarrow> bool" where
  "rounding single \<longleftrightarrow> mono single \<and> single 0 = 0 \<and> single 1 = 1"

lemma rounding_positive: "rounding single \<Longrightarrow> 0 \<le> a \<Longrightarrow> 0 \<le> single a"
  unfolding rounding_def using monoD [of single 0 a] by simp

lemma rounding_unit: "rounding single \<Longrightarrow> a \<le> 1 \<Longrightarrow> single a \<le> 1"
  unfolding rounding_def using monoD [of single a 1] by simp

lemma detected_object_is_finite: "parsed_ok p \<Longrightarrow> rounding single \<Longrightarrow> object_is_finite (to_detected_object single p)"
  by (simp add: parsed_ok_def object_is_finite_def to_detected_object_def rounding_unit rounding_positive)

lemma detected_ids [simp]: "so_object_id (to_detected_object single p) = po_object_id p"
  by (simp add: to_detected_object_def)

text \<open>The refusals that the scenes of this node never cause.\<close>

definition defensive_reasons :: "string set" where
  "defensive_reasons = {''scene_context_rejected'', ''scene_context_observation_required'', ''scene_context_session_required'',
     ''scene_context_frame_required'', ''scene_context_object_identity_required'', ''scene_context_object_identity_not_unique'',
     ''scene_context_object_geometry_invalid''}"

lemma geometry_reasons:
  assumes "sn_frame_id sn \<noteq> ''''" "distinct (map (\<lambda>t. py_strip (so_object_id t)) (sn_objects sn))"
    "\<forall>t \<in> set (sn_objects sn). py_strip (so_object_id t) \<noteq> '''' \<and> object_is_finite t"
  shows "snd (evaluate_geometry p sn target) \<notin> defensive_reasons"
proof -
  have "length (remdups (map f xs)) = length xs" if "distinct (map f xs)" for f :: "scene_object \<Rightarrow> string" and xs
    using that by (metis distinct_remdups_id length_map)
  with assms show ?thesis
    by (auto simp: evaluate_geometry_def defensive_reasons_def Let_def list_ex_iff)
qed


lemma accepted_report:
  assumes "parse_scene_json scan payload = Parse_accepted scene i" "rounding single"
  defines "r \<equiv> on_json scan single payload"
  shows "sm_status r = ''ok''" "text_ok (sm_observation_id r)" "text_ok (sm_session_id r)" "text_ok (sm_frame_id r)"
    "distinct (map (\<lambda>t. py_strip (so_object_id t)) (sm_objects r))"
    "\<forall>t \<in> set (sm_objects r). py_strip (so_object_id t) \<noteq> '''' \<and> object_is_finite t" "length (sm_objects r) \<le> MAX_OBJECTS"
proof -
  obtain doc where "parse_root doc = Inr scene" using accepted_scene [OF assms(1)] .
  note ok = parse_root_ok [OF this]
  have r: "sm_status r = ''ok''" "sm_observation_id r = vi_observation_id scene" "sm_session_id r = vi_session_id scene"
    "sm_frame_id r = vi_frame_id scene" "sm_objects r = map (to_detected_object single) (ps_objects scene)"
    by (simp_all add: r_def on_json_def assms(1) to_scene_state_def)
  have ids: "py_strip (po_object_id p) = po_object_id p \<and> po_object_id p \<noteq> ''''" if "p \<in> set (ps_objects scene)" for p
    using ok that by (metis parsed_ok_def text_ok_def)
  then have "map (\<lambda>t. py_strip (so_object_id t)) (sm_objects r) = map po_object_id (ps_objects scene)" by (simp add: r)
  with ok show "distinct (map (\<lambda>t. py_strip (so_object_id t)) (sm_objects r))" by simp
  show "\<forall>t \<in> set (sm_objects r). py_strip (so_object_id t) \<noteq> '''' \<and> object_is_finite t"
    using ok ids detected_object_is_finite [OF _ assms(2)] by (simp add: r)
  show "sm_status r = ''ok''" "text_ok (sm_observation_id r)" "text_ok (sm_session_id r)" "text_ok (sm_frame_id r)"
    "length (sm_objects r) \<le> MAX_OBJECTS" using ok by (simp_all add: r)
qed

lemma status_names: "norm_text ''ok'' = ''ok''" "norm_text ''rejected'' = ''rejected''"
  by code_simp+

text \<open>The gate with a scene that it took.\<close>

lemma taken_snapshot:
  assumes "fst (scene_update oid sid frame objects status reason now g)"
  shows "\<exists>t. now = Fin t \<and> sg_snapshot (snd (scene_update oid sid frame objects status reason now g)) =
    Some \<lparr>sn_observation_id = py_strip oid, sn_session_id = py_strip sid, sn_frame_id = py_strip frame, sn_objects = objects,
      sn_status = norm_text status, sn_reason = py_strip reason, sn_received = t\<rparr>"
  using assms by (cases now) (auto simp: scene_update_def Let_def split: if_splits)

lemma rejected_report:
  assumes "parse_scene_json scan payload = Parse_rejected i why"
  shows "sm_status (on_json scan single payload) = ''rejected''" "sm_objects (on_json scan single payload) = []"
  using assms by (simp_all add: on_json_def to_scene_state_def split: option.split)

section \<open>Properties\<close>


text \<open>
  A document that the vision node rejects withdraws the scene: when the gate takes the report - its
  observation is not one seen before -, a controller that requires a scene refuses every motion until
  another report comes; a report whose identity was seen before changes nothing at the gate.
\<close>

theorem rejected_scene_withdraws_admission:
  assumes "parse_scene_json scan payload = Parse_rejected i why" "r = on_json scan single payload" "cf_require_scene cf"
  shows "if py_strip (sm_observation_id r) \<noteq> '''' \<and> py_strip (sm_observation_id r) \<in> sg_seen_ids (cn_scene m)
    then cn_scene (on_scene_state r m) = cn_scene m
    else scene_rejection_reason cf spec (on_scene_state r m) = ''scene_context_rejected''
      \<and> snd (commit_if_accepted session target now commit (cn_scene (on_scene_state r m)) s) = s"
proof (cases "py_strip (sm_observation_id r) \<noteq> '''' \<and> py_strip (sm_observation_id r) \<in> sg_seen_ids (cn_scene m)")
  case True
  then show ?thesis by (simp add: on_scene_state_def scene_update_def Let_def)
next
  case False
  let ?u = "scene_update (sm_observation_id r) (sm_session_id r) (sm_frame_id r) (sm_objects r) (sm_status r) (sm_reason r) (Fin (cn_now m)) (cn_scene m)"
  have "fst ?u" using False by (auto simp: scene_update_def Let_def)
  from taken_snapshot [OF this] rejected_report(1) [OF assms(1), of single, folded assms(2)]
  have e: "evaluate_snapshot session' target' now' (snd ?u) = (False, ''scene_context_rejected'')" for session' target' now'
    by (auto simp: evaluate_snapshot_def status_names)
  show ?thesis unfolding if_not_P [OF False]
    using e assms(3) by (simp add: scene_rejection_reason_def on_scene_state_def commit_if_accepted_def Let_def)
qed


definition demo_detections :: "string \<Rightarrow> json_syntax \<times> bool" where
  "demo_detections label =
     (Syn_object [(''observation_id'', Syn_string '' o1 ''), (''session_id'', Syn_string ''s''), (''frame_id'', Syn_string ''camera_link''),
        (''objects'', Syn_list [Syn_object [(''object_id'', Syn_string ''a''), (''label'', Syn_string label), (''confidence'', Syn_float (Fin (3 / 4))),
          (''x'', Syn_int 1), (''y'', Syn_int 0), (''z'', Syn_int 0), (''size_x'', Syn_int 1), (''size_y'', Syn_int 1), (''size_z'', Syn_int 1)]])], False)"

lemma demo_object_parsed:
  "parse_object (J_object [(''object_id'', J_string ''a''), (''label'', J_string ''left_ankle''), (''confidence'', J_float (Fin (3 / 4))),
      (''x'', J_int 1), (''y'', J_int 0), (''z'', J_int 0), (''size_x'', J_int 1), (''size_y'', J_int 1), (''size_z'', J_int 1)]) =
   Inr \<lparr>po_object_id = ''a'', po_label = ''left_ankle'', po_confidence = 3 / 4, po_x = 1, po_y = 0, po_z = 0,
      po_size_x = 1, po_size_y = 1, po_size_z = 1\<rparr>"
proof -
  have t: "py_strip ''a'' = ''a''" "py_strip ''left_ankle'' = ''left_ankle''" by code_simp+
  show ?thesis
    by (simp add: parse_object_def reject_unknown_fields_def OBJECT_FIELDS_def parse_object_fields_def strict_text_def strict_number_def
        t MAX_TEXT_LENGTH_def jget_def int_float_small check_def in_range_def size_ok_def FLOAT32_MAX_def)
qed

lemma demo_scene_parsed:
  "\<exists>scene i. parse_scene_json demo_detections ''left_ankle'' = Parse_accepted scene i \<and> vi_observation_id scene = ''o1''"
proof -
  have t: "py_strip '' o1 '' = ''o1''" "py_strip ''s'' = ''s''" "py_strip ''camera_link'' = ''camera_link''" by code_simp+
  show ?thesis
    by (simp add: parse_scene_json_def MAX_SCENE_CHARS_def strict_loads_def demo_detections_def parse_root_def reject_unknown_fields_def
        SCENE_FIELDS_def strict_text_def t MAX_TEXT_LENGTH_def jget_def check_def MAX_OBJECTS_def demo_object_parsed)
qed


lemma demo_broken: "parse_scene_json (\<lambda>text. (Syn_bad, False)) ''x'' = Parse_rejected None ''invalid_json''"
  by (simp add: parse_scene_json_def MAX_SCENE_CHARS_def strict_loads_def)

theorem rejected_scene_withdraws_admission_witness:
  "snd (commit_if_accepted ''s'' ''left_ankle'' (Fin 1) Suc
     (cn_scene (on_scene_state (on_json (\<lambda>text. (Syn_bad, False)) (\<lambda>x. x) ''x'') (controller_init demo_gate))) 0) = 0"
proof -
  let ?r = "on_json (\<lambda>text. (Syn_bad, False)) (\<lambda>x. x) ''x''"
  have o: "sm_observation_id ?r = ''''" by (simp add: on_json_def demo_broken to_scene_state_def)
  have s: "py_strip '''' = ''''" by code_simp
  have c: "cf_require_scene (controller_config_init (\<lambda>_ _ _ _ _. Inl (ValueError '''')) True 1 1 1 1 1)" by (simp add: controller_config_init_def)
  show ?thesis
    using rejected_scene_withdraws_admission [OF demo_broken refl c, of "\<lambda>x. x" "controller_init demo_gate" undefined "''s''" "''left_ankle''" "Fin 1" Suc 0]
    by (simp add: o s)
qed

end
