(* ===== verification/Imu_Serial.thy ===== *)
theory Imu_Serial
  imports Imu_Values
begin

text \<open>
  \<open>imu_serial_driver.py\<close>: the frames of the serial IMU. The receive thread feeds bytes to a state machine
  and stores the values of a complete frame one attribute after the other; the timer copies the
  attributes into a message, one after the other. Nothing but the interpreter makes them exclude each
  other, so a single load or store is a step.
\<close>

section \<open>Frames\<close>

definition HEAD1 :: byte where "HEAD1 = 0x7E"
definition HEAD2 :: byte where "HEAD2 = 0x23"

definition FUNC_REPORT_IMU_RAW :: byte where "FUNC_REPORT_IMU_RAW = 0x04"
definition FUNC_REPORT_IMU_QUAT :: byte where "FUNC_REPORT_IMU_QUAT = 0x16"
definition FUNC_REPORT_IMU_EULER :: byte where "FUNC_REPORT_IMU_EULER = 0x26"
definition FUNC_REPORT_BARO :: byte where "FUNC_REPORT_BARO = 0x32"
definition FUNC_ALGO_TYPE :: byte where "FUNC_ALGO_TYPE = 0x61"
definition FUNC_CALIB_IMU :: byte where "FUNC_CALIB_IMU = 0x70"
definition FUNC_REQUEST_DATA :: byte where "FUNC_REQUEST_DATA = 0x80"

text \<open>\<open>sum(data) & 0xFF\<close>\<close>

definition imu_checksum :: "byte list \<Rightarrow> int" where
  "imu_checksum bs = sum_list (map uint bs) mod 256"

text \<open>The commands of the driver: the length counts the checksum, which is added last.\<close>

definition close_command :: "byte list \<Rightarrow> byte list" where
  "close_command cmd =
     (let cmd1 = cmd[2 := word_of_int (int (length cmd) + 1)]
      in cmd1 @ [word_of_int (imu_checksum cmd1)])"

definition send_command :: "int \<Rightarrow> int \<Rightarrow> byte list" where
  "send_command function param = close_command [HEAD1, HEAD2, 0, FUNC_REQUEST_DATA, word_of_int function, word_of_int param]"

definition set_algo_type :: "int \<Rightarrow> byte list option" where
  "set_algo_type algo =
     (if algo \<notin> {6, 9} then None else Some (close_command [HEAD1, HEAD2, 0, FUNC_ALGO_TYPE, word_of_int algo, 0x5F]))"

definition calibration_imu :: "byte list" where
  "calibration_imu = close_command [HEAD1, HEAD2, 0, FUNC_CALIB_IMU, 0x01, 0x5F]"

text \<open>What \<open>_init_imu\<close> writes.\<close>

definition init_imu :: "int \<Rightarrow> bool \<Rightarrow> byte list list" where
  "init_imu algo calibrate =
     (case set_algo_type algo of None \<Rightarrow> [] | Some cmd \<Rightarrow> [cmd]) @ (if calibrate then [calibration_imu] else [])"

section \<open>Receiving\<close>

definition parse_raw_imu_data :: "byte list \<Rightarrow> imu_values" where
  "parse_raw_imu_data data = accel_values data @ gyro_values (drop 6 data) @ mag_values (drop 12 data)"

definition decode_frame :: "byte \<Rightarrow> byte list \<Rightarrow> imu_values" where
  "decode_frame func data =
     (if func = FUNC_REPORT_IMU_RAW \<and> 18 \<le> length data then parse_raw_imu_data data
      else if func = FUNC_REPORT_IMU_QUAT \<and> 16 \<le> length data then quaternion_values data
      else if func = FUNC_REPORT_IMU_EULER \<and> 12 \<le> length data then euler_values data
      else if func = FUNC_REPORT_BARO \<and> 16 \<le> length data then baro_values data
      else [])"

definition parse_frame :: "byte \<Rightarrow> byte list \<Rightarrow> imu_values" where
  "parse_frame func rx =
     (if imu_checksum (butlast rx) \<noteq> uint (last rx) then [] else decode_frame func (drop 4 (butlast rx)))"

datatype rx_state = Wait_head1 | Wait_head2 | Wait_length | Wait_func | Wait_data

record receiver =
  rx_state :: rx_state
  rx_data :: "byte list"
  rx_len :: nat
  rx_func :: byte

definition receiver_init :: receiver where
  "receiver_init = \<lparr>rx_state = Wait_head1, rx_data = [], rx_len = 0, rx_func = 0\<rparr>"

text \<open>The values that the thread goes on to store.\<close>

fun receive_data :: "byte \<Rightarrow> receiver \<Rightarrow> imu_values \<times> receiver" where
  "receive_data b r =
     (case rx_state r of
        Wait_head1 \<Rightarrow> ([], if b = HEAD1 then r\<lparr>rx_state := Wait_head2, rx_data := [b]\<rparr> else r)
      | Wait_head2 \<Rightarrow> ([], if b = HEAD2 then r\<lparr>rx_state := Wait_length, rx_data := rx_data r @ [b]\<rparr> else r\<lparr>rx_state := Wait_head1\<rparr>)
      | Wait_length \<Rightarrow> ([], r\<lparr>rx_len := unat b, rx_data := rx_data r @ [b], rx_state := Wait_func\<rparr>)
      | Wait_func \<Rightarrow> ([], r\<lparr>rx_func := b, rx_data := rx_data r @ [b], rx_state := Wait_data\<rparr>)
      | Wait_data \<Rightarrow>
          let r1 = r\<lparr>rx_data := rx_data r @ [b]\<rparr>
          in if rx_len r1 \<le> length (rx_data r1) then (parse_frame (rx_func r1) (rx_data r1), r1\<lparr>rx_state := Wait_head1\<rparr>)
             else ([], r1))"

declare receive_data.simps [simp del]

text \<open>The values of a chunk of input.\<close>

fun receive_all :: "byte list \<Rightarrow> receiver \<Rightarrow> imu_values \<times> receiver" where
  "receive_all [] r = ([], r)"
| "receive_all (b # bs) r =
     (let (vs, r1) = receive_data b r; (ws, r2) = receive_all bs r1 in (vs @ ws, r2))"

section \<open>The node\<close>

definition imu_start :: "imu_field \<Rightarrow> py_float" where
  "imu_start f = (if f = Quat_w then Fin 1 else Fin 0)"

record imu_node =
  im_rx :: receiver
  im_pending :: imu_values            \<comment> \<open>decoded, not yet stored\<close>
  im_cache :: "imu_field \<Rightarrow> py_float"
  im_timer :: "imu_values option"     \<comment> \<open>what a timer callback has copied so far\<close>
  im_received :: imu_values           \<comment> \<open>everything decoded, for the statements\<close>
  im_out :: "imu_message list"

definition imu_node_init :: imu_node where
  "imu_node_init = \<lparr>im_rx = receiver_init, im_pending = [], im_cache = imu_start, im_timer = None, im_received = [], im_out = []\<rparr>"

definition store_value :: "imu_node \<Rightarrow> imu_node option" where
  "store_value m = (case im_pending m of [] \<Rightarrow> None | (f, v) # rest \<Rightarrow> Some (m\<lparr>im_cache := (im_cache m)(f := v), im_pending := rest\<rparr>))"

definition take_byte :: "byte \<Rightarrow> imu_node \<Rightarrow> imu_node option" where
  "take_byte b m =
     (if im_pending m \<noteq> [] then None
      else let (vs, r) = receive_data b (im_rx m)
           in Some (m\<lparr>im_rx := r, im_pending := vs, im_received := im_received m @ vs\<rparr>))"

definition imu_message_of :: "int \<Rightarrow> imu_values \<Rightarrow> imu_message" where
  "imu_message_of sensor vs =
     \<lparr>iu_sensor_type = ''imu'', iu_sensor_id = sensor, iu_values = (\<lambda>f. case map_of vs f of None \<Rightarrow> Fin 0 | Some v \<Rightarrow> v), iu_error_code = 0\<rparr>"

text \<open>\<open>timer_callback\<close>: the next load, or the publication after the last one.\<close>

definition timer_continues :: "int \<Rightarrow> imu_node \<Rightarrow> imu_node option" where
  "timer_continues sensor m =
     (case im_timer m of
        None \<Rightarrow> None
      | Some vs \<Rightarrow>
          Some (case drop (length vs) imu_fields of
                  [] \<Rightarrow> m\<lparr>im_timer := None, im_out := imu_message_of sensor vs # im_out m\<rparr>
                | f # fs \<Rightarrow> m\<lparr>im_timer := Some (vs @ [(f, im_cache m f)])\<rparr>))"

datatype imu_event = I_byte byte | I_store | I_timer | I_continue

fun imu_step :: "int \<Rightarrow> imu_event \<Rightarrow> imu_node \<Rightarrow> imu_node option" where
  "imu_step sensor (I_byte b) m = take_byte b m"
| "imu_step sensor I_store m = store_value m"
| "imu_step sensor I_timer m = (if im_timer m = None then Some (m\<lparr>im_timer := Some []\<rparr>) else None)"
| "imu_step sensor I_continue m = timer_continues sensor m"

inductive imu_reachable :: "int \<Rightarrow> imu_node \<Rightarrow> bool" for sensor where
  start: "imu_reachable sensor imu_node_init"
| step: "imu_reachable sensor m \<Longrightarrow> imu_step sensor e m = Some m' \<Longrightarrow> imu_reachable sensor m'"


section \<open>Facts about receiving\<close>

text \<open>A frame as the sensor sends it: the length counts all its bytes.\<close>

definition frame_of :: "byte \<Rightarrow> byte list \<Rightarrow> byte list" where
  "frame_of func data =
     (let front = [HEAD1, HEAD2, word_of_int (int (length data) + 5), func] @ data
      in front @ [word_of_int (imu_checksum front)])"

lemma uint_checksum [simp]: "uint (word_of_int (imu_checksum bs) :: byte) = imu_checksum bs"
  by (simp add: imu_checksum_def uint_word_of_int)

lemma receive_head:
  "rx_state r = Wait_head1 \<Longrightarrow>
     receive_all (HEAD1 # HEAD2 # n # func # rest) r =
       receive_all rest (r\<lparr>rx_state := Wait_data, rx_data := [HEAD1, HEAD2, n, func], rx_len := unat n, rx_func := func\<rparr>)"
  by (cases r) (simp add: receive_data.simps)

lemma receive_body:
  assumes "rx_state r = Wait_data" "length (rx_data r) + length data < rx_len r"
  shows "receive_all (data @ rest) r = receive_all rest (r\<lparr>rx_data := rx_data r @ data\<rparr>)"
  using assms
proof (induction data arbitrary: r)
  case (Cons b data)
  have "receive_data b r = ([], r\<lparr>rx_data := rx_data r @ [b]\<rparr>)" using Cons.prems by (simp add: receive_data.simps)
  then show ?case using Cons.IH [of "r\<lparr>rx_data := rx_data r @ [b]\<rparr>"] Cons.prems by simp
qed simp

text \<open>What the last byte of a frame of the announced length does.\<close>

lemma receive_frame:
  assumes "rx_state r = Wait_head1" "unat n = length data + 5"
  shows "\<exists>r1. rx_state r1 = Wait_head1 \<and>
    receive_all ([HEAD1, HEAD2, n, func] @ data @ b # rest) r =
      (let (vs, r2) = receive_all rest r1
       in (parse_frame func ([HEAD1, HEAD2, n, func] @ data @ [b]) @ vs, r2))"
proof -
  let ?r = "r\<lparr>rx_state := Wait_data, rx_data := [HEAD1, HEAD2, n, func], rx_len := unat n, rx_func := func\<rparr>"
  let ?r2 = "?r\<lparr>rx_data := [HEAD1, HEAD2, n, func] @ data\<rparr>"
  have "receive_all (data @ b # rest) ?r = receive_all (b # rest) ?r2"
    using receive_body [of ?r data "b # rest"] assms(2) by simp
  moreover have "receive_data b ?r2 = (parse_frame func ([HEAD1, HEAD2, n, func] @ data @ [b]),
      ?r2\<lparr>rx_data := [HEAD1, HEAD2, n, func] @ data @ [b], rx_state := Wait_head1\<rparr>)"
    using assms(2) by (simp add: receive_data.simps)
  ultimately show ?thesis
    using receive_head [OF assms(1)]
    by (intro exI [of _ "?r2\<lparr>rx_data := [HEAD1, HEAD2, n, func] @ data @ [b], rx_state := Wait_head1\<rparr>"]) (simp add: Let_def)
qed

lemma parse_frame_append: "parse_frame func ([HEAD1, HEAD2, n, func] @ data @ [b]) =
    (if imu_checksum ([HEAD1, HEAD2, n, func] @ data) \<noteq> uint b then [] else decode_frame func data)"
proof -
  have "butlast ([HEAD1, HEAD2, n, func] @ data @ [b]) = [HEAD1, HEAD2, n, func] @ data" by (simp add: butlast_append)
  then show ?thesis by (simp add: parse_frame_def)
qed

lemma frame_length: "length data \<le> 250 \<Longrightarrow> unat (word_of_int (int (length data) + 5) :: byte) = length data + 5"
  using unsigned_of_nat [where 'a = nat and 'b = 8, of "length data + 5"]
  by (simp add: take_bit_nat_eq_self of_nat_add)

lemma receive_valid_frame:
  assumes "rx_state r = Wait_head1" "length data \<le> 250"
  shows "\<exists>r1. rx_state r1 = Wait_head1 \<and>
    receive_all (frame_of func data @ rest) r = (let (vs, r2) = receive_all rest r1 in (decode_frame func data @ vs, r2))"
proof -
  let ?n = "word_of_int (int (length data) + 5) :: byte"
  let ?b = "word_of_int (imu_checksum ([HEAD1, HEAD2, ?n, func] @ data)) :: byte"
  have f: "frame_of func data @ rest = [HEAD1, HEAD2, ?n, func] @ data @ ?b # rest" by (simp add: frame_of_def Let_def)
  obtain r1 where r1: "rx_state r1 = Wait_head1" "receive_all ([HEAD1, HEAD2, ?n, func] @ data @ ?b # rest) r =
      (let (vs, r2) = receive_all rest r1 in (parse_frame func ([HEAD1, HEAD2, ?n, func] @ data @ [?b]) @ vs, r2))"
    using receive_frame [OF assms(1) frame_length [OF assms(2)]] by blast
  have p: "parse_frame func ([HEAD1, HEAD2, ?n, func] @ data @ [?b]) = decode_frame func data"
    unfolding parse_frame_append uint_checksum by simp
  show ?thesis using r1 unfolding f p by blast
qed

lemma decode_frames:
  assumes "rx_state r = Wait_head1" "list_all (\<lambda>(func, data). length data \<le> 250) fs"
  shows "fst (receive_all (concat (map (\<lambda>(func, data). frame_of func data) fs)) r) = concat (map (\<lambda>(func, data). decode_frame func data) fs)
    \<and> rx_state (snd (receive_all (concat (map (\<lambda>(func, data). frame_of func data) fs)) r)) = Wait_head1"
  using assms
proof (induction fs arbitrary: r)
  case (Cons p fs)
  obtain func data where p: "p = (func, data)" by (cases p)
  with Cons.prems(2) have n: "length data \<le> 250" and l: "list_all (\<lambda>(func, data). length data \<le> 250) fs" by simp_all
  obtain r1 where r1: "rx_state r1 = Wait_head1"
    "receive_all (frame_of func data @ concat (map (\<lambda>(func, data). frame_of func data) fs)) r =
       (let (vs, r2) = receive_all (concat (map (\<lambda>(func, data). frame_of func data) fs)) r1 in (decode_frame func data @ vs, r2))"
    using receive_valid_frame [OF Cons.prems(1) n] by blast
  show ?case using Cons.IH [OF r1(1) l] r1(2) by (simp add: p Let_def split: prod.splits)
qed simp

text \<open>Two bytes that differ change the sum of a list.\<close>

lemma checksum_change:
  assumes "b \<noteq> c"
  shows "imu_checksum (xs @ b # ys) \<noteq> imu_checksum (xs @ c # ys)"
proof
  assume "imu_checksum (xs @ b # ys) = imu_checksum (xs @ c # ys)"
  then have "(uint b - uint c) mod 256 = 0"
    by (simp add: imu_checksum_def mod_eq_dvd_iff)
  moreover have "\<bar>uint b - uint c\<bar> < 256" using byte_range [of b] byte_range [of c] by linarith
  ultimately have "uint b = uint c" by (metis abs_of_nonneg diff_ge_0_iff_ge dvd_imp_le_int eq_iff_diff_eq_0 mod_0_imp_dvd not_le abs_numeral)
  with assms show False by (simp add: word_uint_eq_iff)
qed

section \<open>Facts about the node\<close>

text \<open>Where the values of the node come from.\<close>

definition comes_from :: "imu_values \<Rightarrow> imu_field \<Rightarrow> py_float \<Rightarrow> bool" where
  "comes_from received f v \<longleftrightarrow> v = imu_start f \<or> (f, v) \<in> set received"

definition imu_ok :: "imu_node \<Rightarrow> bool" where
  "imu_ok m \<longleftrightarrow>
     (\<forall>p \<in> set (im_pending m). p \<in> set (im_received m))
     \<and> (\<forall>f. comes_from (im_received m) f (im_cache m f))
     \<and> (\<forall>vs. im_timer m = Some vs \<longrightarrow>
          map fst vs = take (length vs) imu_fields \<and> (\<forall>(f, v) \<in> set vs. comes_from (im_received m) f v))
     \<and> (\<forall>msg \<in> set (im_out m). \<forall>f. comes_from (im_received m) f (iu_values msg f))"

lemma comes_from_append: "comes_from received f v \<Longrightarrow> comes_from (received @ extra) f v"
  by (auto simp: comes_from_def)

lemma imu_fields_all: "f \<in> set imu_fields"
  by (cases f) (simp_all add: imu_fields_def)


lemma imu_ok_init: "imu_ok imu_node_init"
  by (simp add: imu_ok_def imu_node_init_def comes_from_def)

lemma timer_publishes:
  assumes "imu_ok m" "im_timer m = Some vs" "drop (length vs) imu_fields = []"
  shows "comes_from (im_received m) f (iu_values (imu_message_of sensor vs) f)"
proof -
  have k: "map fst vs = imu_fields" using assms by (simp add: imu_ok_def)
  then have "f \<in> fst ` set vs" using imu_fields_all [of f] by (metis list.set_map)
  then obtain v where v: "map_of vs f = Some v" by (metis map_of_eq_None_iff not_None_eq)
  with map_of_SomeD [OF v] assms(1,2) show ?thesis by (auto simp: imu_ok_def imu_message_of_def)
qed

lemma timer_loads:
  assumes "map fst vs = take (length vs) fs" "drop (length vs) fs = f # gs"
  shows "map fst (vs @ [(f, v)]) = take (length (vs @ [(f, v)])) fs"
proof -
  have "length vs < length fs" using assms(2) by (metis drop_eq_Nil list.distinct(1) not_le)
  moreover have "fs ! length vs = f" using assms(2) by (metis calculation nth_via_drop)
  ultimately show ?thesis using assms(1) by (simp add: take_Suc_conv_app_nth)
qed

lemma imu_step_ok:
  assumes "imu_ok m" "imu_step sensor e m = Some m'"
  shows "imu_ok m'"
proof (cases e)
  case (I_byte b)
  with assms show ?thesis
    by (auto simp: take_byte_def imu_ok_def comes_from_append Let_def split: if_splits prod.splits; force dest: comes_from_append)
next
  case I_store
  then obtain f v rest where p: "im_pending m = (f, v) # rest" "m' = m\<lparr>im_cache := (im_cache m)(f := v), im_pending := rest\<rparr>"
    using assms(2) by (auto simp: store_value_def split: list.splits)
  with assms(1) have "comes_from (im_received m) f v" by (simp add: imu_ok_def comes_from_def)
  with assms(1) p show ?thesis by (simp add: imu_ok_def)
next
  case I_timer
  with assms show ?thesis by (auto simp: imu_ok_def split: if_splits)
next
  case I_continue
  then obtain vs where t: "im_timer m = Some vs" using assms(2) by (auto simp: timer_continues_def split: option.splits)
  show ?thesis
  proof (cases "drop (length vs) imu_fields")
    case Nil
    then have "m' = m\<lparr>im_timer := None, im_out := imu_message_of sensor vs # im_out m\<rparr>"
      using assms(2) t I_continue by (simp add: timer_continues_def)
    with assms(1) timer_publishes [OF assms(1) t Nil] show ?thesis by (auto simp: imu_ok_def)
  next
    case (Cons f fs)
    then have m': "m' = m\<lparr>im_timer := Some (vs @ [(f, im_cache m f)])\<rparr>"
      using assms(2) t I_continue by (simp add: timer_continues_def)
    have "map fst vs = take (length vs) imu_fields" using assms(1) t by (simp add: imu_ok_def)
    from timer_loads [OF this Cons] assms(1) t show ?thesis by (auto simp: imu_ok_def m')
  qed
qed

lemma imu_reachable_ok: "imu_reachable sensor m \<Longrightarrow> imu_ok m"
  by (induction rule: imu_reachable.induct) (auto intro: imu_ok_init imu_step_ok)

section \<open>Properties\<close>



text \<open>
  A frame with one wrong byte - the kind, a byte of the data or the checksum - changes no value, and the
  receiver waits for the next frame.
\<close>

theorem corrupted_frame_is_dropped:
  assumes "rx_state r = Wait_head1" "length data \<le> 250" "frame_of func data = xs @ b # ys" "3 \<le> length xs" "c \<noteq> b"
  shows "fst (receive_all (xs @ c # ys) r) = [] \<and> rx_state (snd (receive_all (xs @ c # ys) r)) = Wait_head1"
proof -
  define n where "n = (word_of_int (int (length data) + 5) :: byte)"
  define k where "k = (word_of_int (imu_checksum ([HEAD1, HEAD2, n, func] @ data)) :: byte)"
  have f: "xs @ b # ys = [HEAD1, HEAD2, n] @ func # data @ [k]"
    using assms(3) by (simp add: frame_of_def n_def k_def Let_def)
  obtain x1 x2 x3 zs where "xs = x1 # x2 # x3 # zs" using assms(4) by (auto simp: numeral_3_eq_3 Suc_le_length_iff)
  with f have xs: "xs = [HEAD1, HEAD2, n] @ zs" by simp
  with f have z: "zs @ b # ys = func # data @ [k]" by simp
  then have "length (zs @ c # ys) = length (func # data @ [k])" by (metis length_append length_Cons)
  then obtain func' data' k' where z': "zs @ c # ys = func' # data' @ [k']" "length data' = length data"
    by (cases "zs @ c # ys"; cases "tl (zs @ c # ys)" rule: rev_cases; auto)
  have bad: "imu_checksum ([HEAD1, HEAD2, n] @ func' # data') \<noteq> uint k'"
  proof (cases ys rule: rev_cases)
    case Nil
    have "zs @ [b] = (func # data) @ [k]" "zs @ [c] = (func' # data') @ [k']" using z z'(1) Nil by simp_all
    then have e: "zs = func # data" "b = k" "zs = func' # data'" "c = k'" unfolding append1_eq_conv by blast+
    then have "func' # data' = func # data" by simp
    then have "imu_checksum ([HEAD1, HEAD2, n] @ func' # data') = uint k" unfolding k_def uint_checksum by simp
    with e assms(5) show ?thesis by (simp add: word_uint_eq_iff)
  next
    case (snoc ys' y)
    have "(zs @ b # ys') @ [y] = (func # data) @ [k]" "(zs @ c # ys') @ [y] = (func' # data') @ [k']" using z z'(1) snoc by simp_all
    then have e: "func # data = zs @ b # ys'" "k = y" "func' # data' = zs @ c # ys'" "k' = y" unfolding append1_eq_conv by simp_all
    have "imu_checksum (([HEAD1, HEAD2, n] @ zs) @ c # ys') \<noteq> imu_checksum (([HEAD1, HEAD2, n] @ zs) @ b # ys')"
      by (rule checksum_change) (fact assms(5))
    moreover have "uint y = imu_checksum ([HEAD1, HEAD2, n] @ func # data)" unfolding e(2) [symmetric] k_def uint_checksum by simp
    ultimately show ?thesis by (simp add: e)
  qed
  have n: "unat n = length data' + 5" using frame_length [OF assms(2)] by (simp add: n_def z'(2))
  obtain r1 where r1: "rx_state r1 = Wait_head1"
    "receive_all ([HEAD1, HEAD2, n, func'] @ data' @ k' # []) r =
      (let (vs, r2) = receive_all [] r1 in (parse_frame func' ([HEAD1, HEAD2, n, func'] @ data' @ [k']) @ vs, r2))"
    using receive_frame [OF assms(1) n] by blast
  have w: "xs @ c # ys = [HEAD1, HEAD2, n, func'] @ data' @ k' # []" using z'(1) xs by simp
  have "parse_frame func' ([HEAD1, HEAD2, n, func'] @ data' @ [k']) = []"
    unfolding parse_frame_append using bad by simp
  with r1 show ?thesis unfolding w by simp
qed


theorem corrupted_frame_is_dropped_witness:
  "fst (receive_all [HEAD1, HEAD2, 7, FUNC_REPORT_IMU_QUAT, 1, 3, 0xC1] receiver_init) = []"
proof -
  have a: "rx_state receiver_init = Wait_head1" "length [1 :: byte, 2] \<le> 250" by (simp_all add: receiver_init_def)
  have f: "frame_of FUNC_REPORT_IMU_QUAT [1, 2] = [HEAD1, HEAD2, 7, FUNC_REPORT_IMU_QUAT, 1] @ 2 # [0xC1]" by code_simp
  have n: "3 \<le> length [HEAD1, HEAD2, 7, FUNC_REPORT_IMU_QUAT, 1]" "(3 :: byte) \<noteq> 2" by simp_all
  have "fst (receive_all ([HEAD1, HEAD2, 7, FUNC_REPORT_IMU_QUAT, 1] @ 3 # [0xC1]) receiver_init) = []"
    using corrupted_frame_is_dropped [OF a f n] by simp
  then show ?thesis by simp
qed

text \<open>The bytes a run of the node receives.\<close>

fun imu_run :: "int \<Rightarrow> imu_event list \<Rightarrow> imu_node \<Rightarrow> imu_node option" where
  "imu_run sensor [] m = Some m"
| "imu_run sensor (e # es) m = Option.bind (imu_step sensor e m) (imu_run sensor es)"

fun input_bytes :: "imu_event list \<Rightarrow> byte list" where
  "input_bytes [] = []"
| "input_bytes (I_byte b # es) = b # input_bytes es"
| "input_bytes (e # es) = input_bytes es"

lemma imu_run_reachable: "imu_run sensor es m = Some m' \<Longrightarrow> imu_reachable sensor m \<Longrightarrow> imu_reachable sensor m'"
  by (induction es arbitrary: m) (auto simp: bind_eq_Some_conv intro: imu_reachable.step)

lemma imu_step_received:
  "imu_step sensor e m = Some m' \<Longrightarrow>
     (case receive_all (input_bytes [e]) (im_rx m) of (vs, r) \<Rightarrow> im_received m' = im_received m @ vs \<and> im_rx m' = r)"
  by (cases e) (auto simp: take_byte_def store_value_def timer_continues_def Let_def split: if_splits prod.splits list.splits option.splits)

lemma imu_run_received:
  "imu_run sensor es m = Some m' \<Longrightarrow>
     (case receive_all (input_bytes es) (im_rx m) of (vs, r) \<Rightarrow> im_received m' = im_received m @ vs \<and> im_rx m' = r)"
proof (induction es arbitrary: m)
  case (Cons e es)
  then obtain m1 where m1: "imu_step sensor e m = Some m1" "imu_run sensor es m1 = Some m'" by (auto simp: bind_eq_Some_conv)
  show ?case using imu_step_received [OF m1(1)] Cons.IH [OF m1(2)]
    by (cases e) (auto split: prod.splits)
qed simp

text \<open>
  Every value in every published message is the value its field starts with, or was decoded for this field
  from a frame with the right checksum in the input, however bytes, stores and the timer interleave. The
  parts of one message need not be of one frame.
\<close>

theorem published_values_were_received:
  assumes "imu_run sensor es imu_node_init = Some m" "msg \<in> set (im_out m)"
  shows "comes_from (fst (receive_all (input_bytes es) receiver_init)) f (iu_values msg f)"
proof -
  have "imu_ok m" using imu_run_reachable [OF assms(1) imu_reachable.start] by (rule imu_reachable_ok)
  moreover have "im_received m = fst (receive_all (input_bytes es) receiver_init)"
    using imu_run_received [OF assms(1)] by (simp add: imu_node_init_def split: prod.splits)
  ultimately show ?thesis using assms(2) by (simp add: imu_ok_def)
qed

section \<open>What can go wrong\<close>

definition unit_x :: "byte list" where
  "unit_x = frame_of FUNC_REPORT_IMU_QUAT [0, 0, 0, 0, 0, 0, 0x80, 0x3F, 0, 0, 0, 0, 0, 0, 0, 0]"

definition torn_run :: "imu_event list" where
  "torn_run = I_timer # replicate 10 I_continue @ map I_byte unit_x @ replicate 4 I_store @ replicate 10 I_continue"

lemma unit_x_bytes:
  "unit_x = [HEAD1, HEAD2, 21, FUNC_REPORT_IMU_QUAT, 0, 0, 0, 0, 0, 0, 0x80, 0x3F, 0, 0, 0, 0, 0, 0, 0, 0, 0x8B]"
  by code_simp

lemma unit_x_values: "fst (receive_all unit_x receiver_init) = [(Quat_w, Fin 0), (Quat_x, Fin 1), (Quat_y, Fin 0), (Quat_z, Fin 0)]"
proof -
  have "fst (receive_all unit_x receiver_init) =
      decode_frame FUNC_REPORT_IMU_QUAT [0, 0, 0, 0, 0, 0, 0x80, 0x3F, 0, 0, 0, 0, 0, 0, 0, 0]"
    using decode_frames [of receiver_init "[(FUNC_REPORT_IMU_QUAT, [0, 0, 0, 0, 0, 0, 0x80, 0x3F, 0, 0, 0, 0, 0, 0, 0, 0])]"]
    by (simp add: unit_x_def receiver_init_def)
  also have "\<dots> = quaternion_values [0, 0, 0, 0, 0, 0, 0x80, 0x3F, 0, 0, 0, 0, 0, 0, 0, 0]"
    by (simp add: decode_frame_def FUNC_REPORT_IMU_QUAT_def FUNC_REPORT_IMU_RAW_def)
  also have "\<dots> = [(Quat_w, Fin 0), (Quat_x, Fin 1), (Quat_y, Fin 0), (Quat_z, Fin 0)]"
    by (simp add: quaternion_values_def bytes_at_def unpack_f_def single_value_def)
  finally show ?thesis .
qed

text \<open>Loads by the timer and the stores of what is pending.\<close>

lemma timer_loads_all:
  assumes "im_timer m = Some vs" "drop (length vs) imu_fields = fs @ rest"
  shows "imu_run sensor (replicate (length fs) I_continue) m = Some (m\<lparr>im_timer := Some (vs @ map (\<lambda>f. (f, im_cache m f)) fs)\<rparr>)"
  using assms
proof (induction fs arbitrary: m vs)
  case (Cons f fs)
  have "drop (Suc (length vs)) imu_fields = fs @ rest" using Cons.prems(2) by (metis drop_Suc drop_tl list.sel(3) append_Cons)
  then show ?case
    using Cons.prems Cons.IH [of "m\<lparr>im_timer := Some (vs @ [(f, im_cache m f)])\<rparr>" "vs @ [(f, im_cache m f)]"]
    by (simp add: timer_continues_def)
qed simp

lemma stores_all:
  "im_pending m = vs \<Longrightarrow> imu_run sensor (replicate (length vs) I_store) m = Some (m\<lparr>im_pending := [], im_cache := fold (\<lambda>(f, v) c. c(f := v)) vs (im_cache m)\<rparr>)"
proof (induction vs arbitrary: m)
  case (Cons p vs)
  obtain f v where p: "p = (f, v)" by (cases p)
  show ?case using Cons.prems Cons.IH [of "m\<lparr>im_cache := (im_cache m)(f := v), im_pending := vs\<rparr>"] by (simp add: p store_value_def)
qed simp

lemma imu_run_append: "imu_run sensor (xs @ ys) m = Option.bind (imu_run sensor xs m) (imu_run sensor ys)"
  by (induction xs arbitrary: m) (auto split: bind_splits)

text \<open>Bytes that decode to nothing before the last one.\<close>

lemma bytes_taken:
  assumes "im_pending m = []" "receive_all bs (im_rx m) = ([], r)"
  shows "imu_run sensor (map I_byte bs) m = Some (m\<lparr>im_rx := r, im_pending := []\<rparr>)"
  using assms
proof (induction bs arbitrary: m)
  case (Cons b bs)
  obtain r1 where r1: "receive_data b (im_rx m) = ([], r1)" "receive_all bs r1 = ([], r)"
    using Cons.prems(2) by (auto split: prod.splits)
  show ?case using Cons.prems(1) Cons.IH [of "m\<lparr>im_rx := r1, im_pending := []\<rparr>"] r1 by (simp add: take_byte_def)
next
  case Nil
  then show ?case by (cases m) simp
qed

lemma unit_x_front: "\<exists>r. receive_all (butlast unit_x) receiver_init = ([], r)"
  by (simp add: unit_x_bytes receiver_init_def receive_data.simps)

lemma receive_all_append: "receive_all (xs @ ys) r = (let (vs, r1) = receive_all xs r; (ws, r2) = receive_all ys r1 in (vs @ ws, r2))"
  by (induction xs arbitrary: r) (auto simp: Let_def split: prod.splits)

text \<open>
  A message can hold a quaternion that the sensor never sent: the timer is overtaken by a frame after it
  copied \<open>quat_w\<close> of the identity, and publishes it with the other parts of the half turn about x; what
  is published is no rotation, its norm is the square root of two.
\<close>

theorem torn_quaternion_is_published:
  "\<exists>m msg. imu_run sensor torn_run imu_node_init = Some m \<and> im_out m = [msg]
     \<and> map (iu_values msg) [Quat_w, Quat_x, Quat_y, Quat_z] = [Fin 1, Fin 1, Fin 0, Fin 0] \<and> iu_error_code msg = 0"
proof -
  let ?first = "[Accel_x, Accel_y, Accel_z, Gyro_x, Gyro_y, Gyro_z, Mag_x, Mag_y, Mag_z, Quat_w]"
  let ?second = "[Quat_x, Quat_y, Quat_z, Roll, Pitch, Yaw, Baro_height, Baro_temp, Baro_pressure]"
  let ?vs = "[(Quat_w, Fin 0), (Quat_x, Fin 1), (Quat_y, Fin 0), (Quat_z, Fin 0)]"
  let ?c = "fold (\<lambda>(f, v) c. c(f := v)) ?vs imu_start"
  let ?got = "map (\<lambda>f. (f, imu_start f)) ?first"
  have fields: "imu_fields = ?first @ ?second" by (simp add: imu_fields_def)
  have len: "length ?first = 10" "length ?second = 9" "length ?vs = 4" by simp_all
  obtain r where r: "receive_all (butlast unit_x) receiver_init = ([], r)" using unit_x_front by blast
  have whole: "unit_x = butlast unit_x @ [0x8B]" by (simp add: unit_x_bytes)
  have "fst (receive_data 0x8B r) = ?vs"
    using unit_x_values r by (subst (asm) whole) (auto simp: receive_all_append Let_def split: prod.splits)
  then obtain r1 where r1: "receive_data 0x8B r = (?vs, r1)" by (metis prod.collapse)
  define m1 where "m1 = imu_node_init\<lparr>im_timer := Some ?got\<rparr>"
  have s1: "imu_run sensor (I_timer # replicate 10 I_continue) imu_node_init = Some m1"
    using timer_loads_all [of "imu_node_init\<lparr>im_timer := Some []\<rparr>" "[]" ?first ?second sensor] unfolding len
    by (simp add: m1_def fields imu_node_init_def)
  define m2 where "m2 = m1\<lparr>im_rx := r1, im_pending := ?vs, im_received := ?vs\<rparr>"
  have "imu_run sensor (map I_byte (butlast unit_x)) m1 = Some (m1\<lparr>im_rx := r, im_pending := []\<rparr>)"
    by (rule bytes_taken) (use r in \<open>simp_all add: m1_def imu_node_init_def\<close>)
  then have s2: "imu_run sensor (map I_byte unit_x) m1 = Some m2"
    by (subst whole) (simp add: imu_run_append take_byte_def r1 m2_def m1_def imu_node_init_def)
  define m3 where "m3 = m2\<lparr>im_pending := [], im_cache := ?c\<rparr>"
  have s3: "imu_run sensor (replicate 4 I_store) m2 = Some m3"
    using stores_all [of m2 ?vs sensor] unfolding len by (simp add: m3_def m2_def m1_def imu_node_init_def)
  define m4 where "m4 = m3\<lparr>im_timer := Some (?got @ map (\<lambda>f. (f, ?c f)) ?second)\<rparr>"
  have s4: "imu_run sensor (replicate 9 I_continue) m3 = Some m4"
    using timer_loads_all [of m3 ?got ?second "[]" sensor] unfolding len by (simp add: m4_def m3_def m2_def m1_def fields)
  define m5 where "m5 = m4\<lparr>im_timer := None, im_out := [imu_message_of sensor (?got @ map (\<lambda>f. (f, ?c f)) ?second)]\<rparr>"
  have s5: "imu_run sensor [I_continue] m4 = Some m5"
    by (simp add: timer_continues_def m5_def m4_def m3_def m2_def m1_def imu_node_init_def fields)
  have torn: "torn_run = (I_timer # replicate 10 I_continue) @ map I_byte unit_x @ replicate 4 I_store @ replicate 9 I_continue @ [I_continue]"
    by (simp add: torn_run_def numeral_eq_Suc)
  have "imu_run sensor torn_run imu_node_init = Some m5"
    unfolding torn imu_run_append s1 bind.simps s2 s3 s4 s5 by (rule refl)
  then show ?thesis
    by (intro exI [of _ m5] exI [of _ "imu_message_of sensor (?got @ map (\<lambda>f. (f, ?c f)) ?second)"])
       (simp add: m5_def imu_message_of_def imu_start_def)
qed

text \<open>
  A byte \<open>0x7E\<close> before a frame costs the frame: the receiver takes it for the head, and the head of the
  frame for a wrong second byte, which it drops instead of looking at it again.
\<close>

theorem stray_head_loses_frame:
  assumes "rx_state r = Wait_head1" "HEAD1 \<notin> set (tl (frame_of func data))"
  shows "fst (receive_all (HEAD1 # frame_of func data) r) = []"
proof -
  have idle: "rx_state r1 = Wait_head1 \<Longrightarrow> HEAD1 \<notin> set bs \<Longrightarrow> receive_all bs r1 = ([], r1)" for bs r1
    by (induction bs) (auto simp: receive_data.simps)
  obtain rest where f: "frame_of func data = HEAD1 # rest" by (simp add: frame_of_def Let_def)
  have "HEAD1 \<noteq> HEAD2" by (simp add: HEAD1_def HEAD2_def)
  then show ?thesis
    using assms idle [of _ rest] by (simp add: f receive_data.simps Let_def split: prod.splits)
qed

text \<open>
  The receiver never gets stuck: whatever a receiver that has been fed from its start holds, after at most
  254 more bytes it waits for a head again, and it never holds more than 255 bytes.
\<close>

definition receiver_ok :: "receiver \<Rightarrow> bool" where
  "receiver_ok r \<longleftrightarrow> rx_len r \<le> 255 \<and>
     (case rx_state r of
        Wait_head1 \<Rightarrow> length (rx_data r) \<le> 255 | Wait_head2 \<Rightarrow> length (rx_data r) = 1 | Wait_length \<Rightarrow> length (rx_data r) = 2
      | Wait_func \<Rightarrow> length (rx_data r) = 3 | Wait_data \<Rightarrow> 4 \<le> length (rx_data r) \<and> length (rx_data r) < max 5 (rx_len r))"

fun bytes_left :: "receiver \<Rightarrow> nat" where
  "bytes_left r =
     (case rx_state r of
        Wait_head1 \<Rightarrow> 0 | Wait_head2 \<Rightarrow> 254 | Wait_length \<Rightarrow> 253 | Wait_func \<Rightarrow> 252 | Wait_data \<Rightarrow> max 5 (rx_len r) - length (rx_data r))"

lemma receive_data_progress:
  assumes "receiver_ok r"
  shows "receiver_ok (snd (receive_data b r))"
    and "rx_state r \<noteq> Wait_head1 \<Longrightarrow> rx_state (snd (receive_data b r)) = Wait_head1 \<or> bytes_left (snd (receive_data b r)) < bytes_left r"
proof -
  have "unat b \<le> 255" using unsigned_less [where 'a = nat, of b] by simp
  with assms show "receiver_ok (snd (receive_data b r))"
    "rx_state r \<noteq> Wait_head1 \<Longrightarrow> rx_state (snd (receive_data b r)) = Wait_head1 \<or> bytes_left (snd (receive_data b r)) < bytes_left r"
    by (auto simp: receiver_ok_def receive_data.simps bytes_left.simps Let_def split: rx_state.splits)
qed

declare bytes_left.simps [simp del]

lemma receive_all_Cons: "snd (receive_all (b # bs) r) = snd (receive_all bs (snd (receive_data b r)))"
  by (simp add: Let_def split: prod.splits)

lemma receive_all_ok: "receiver_ok r \<Longrightarrow> receiver_ok (snd (receive_all bs r))"
proof (induction bs arbitrary: r)
  case (Cons b bs)
  show ?case using Cons.IH [OF receive_data_progress(1) [OF Cons.prems]] by (simp only: receive_all_Cons)
qed simp

theorem receiver_never_stuck:
  assumes "receiver_ok r" "bytes_left r \<le> length bs"
  shows "\<exists>k \<le> bytes_left r. rx_state (snd (receive_all (take k bs) r)) = Wait_head1 \<and> length (rx_data (snd (receive_all (take k bs) r))) \<le> 255"
  using assms
proof (induction "bytes_left r" arbitrary: r bs rule: less_induct)
  case less
  show ?case
  proof (cases "rx_state r = Wait_head1")
    case True
    with less.prems(1) show ?thesis by (intro exI [of _ 0]) (simp add: receiver_ok_def)
  next
    case False
    then have "0 < bytes_left r" using less.prems(1) by (auto simp: receiver_ok_def bytes_left.simps split: rx_state.splits)
    with less.prems(2) obtain b bs' where bs: "bs = b # bs'" by (cases bs) auto
    let ?r1 = "snd (receive_data b r)"
    have ok: "receiver_ok ?r1" by (rule receive_data_progress(1) [OF less.prems(1)])
    have step: "snd (receive_all (take (Suc k) bs) r) = snd (receive_all (take k bs') ?r1)" for k
      by (simp only: bs take_Suc_Cons receive_all_Cons)
    show ?thesis
    proof (cases "rx_state ?r1 = Wait_head1")
      case True
      with ok \<open>0 < bytes_left r\<close> show ?thesis using step [of 0] by (intro exI [of _ "Suc 0"]) (simp add: receiver_ok_def)
    next
      case other: False
      then have lt: "bytes_left ?r1 < bytes_left r" using receive_data_progress(2) [OF less.prems(1) False] by blast
      have "bytes_left ?r1 \<le> length bs'" using lt less.prems(2) bs by simp
      then obtain k where k: "k \<le> bytes_left ?r1" "rx_state (snd (receive_all (take k bs') ?r1)) = Wait_head1"
        "length (rx_data (snd (receive_all (take k bs') ?r1))) \<le> 255"
        using less.hyps [OF lt ok, of bs'] by blast
      then show ?thesis using lt step [of k] by (intro exI [of _ "Suc k"]) simp
    qed
  qed
qed

theorem published_values_were_received_witness:
  "\<exists>m msg. imu_run 0 torn_run imu_node_init = Some m \<and> msg \<in> set (im_out m)
     \<and> comes_from (fst (receive_all (input_bytes torn_run) receiver_init)) Quat_x (iu_values msg Quat_x)"
proof -
  obtain m msg where m: "imu_run 0 torn_run imu_node_init = Some m" "im_out m = [msg]"
    using torn_quaternion_is_published [of 0] by blast
  moreover have "msg \<in> set (im_out m)" using m(2) by simp
  ultimately show ?thesis using published_values_were_received [OF m(1), of msg Quat_x] by blast
qed

end
