(* ===== verification/Imu_Driver.thy ===== *)
theory Imu_Driver
  imports Imu_Values Decimal_Text
begin

text \<open>
  \<open>imu_driver.py\<close>, the IMU on the I2C bus. \<open>bus\<close> is what a block read of a register yields: the bytes, or
  \<open>None\<close> when the transfer raises. A reading is an option: \<open>None\<close> stands for the \<open>struct.error\<close> of a block
  that is too short.
\<close>

section \<open>Registers\<close>

definition FUNC_VERSION :: byte where "FUNC_VERSION = 0x01"
definition FUNC_RAW_ACCEL :: byte where "FUNC_RAW_ACCEL = 0x04"
definition FUNC_RAW_GYRO :: byte where "FUNC_RAW_GYRO = 0x0A"
definition FUNC_RAW_MAG :: byte where "FUNC_RAW_MAG = 0x10"
definition FUNC_QUAT :: byte where "FUNC_QUAT = 0x16"
definition FUNC_EULER :: byte where "FUNC_EULER = 0x26"
definition FUNC_BARO :: byte where "FUNC_BARO = 0x32"
definition REG_ALGO_TYPE :: byte where "REG_ALGO_TYPE = 0x61"
definition REG_CALIB_IMU :: byte where "REG_CALIB_IMU = 0x70"

type_synonym i2c_bus = "byte \<Rightarrow> nat \<Rightarrow> byte list option"

definition read_i2c :: "i2c_bus \<Rightarrow> byte \<Rightarrow> nat \<Rightarrow> byte list option" where
  "read_i2c bus reg n = bus reg (min n 32)"

text \<open>
  \<open>if not values: return default\<close>, and else what unpacking the blocks gives, if each slice has its
  width.
\<close>

definition read_block :: "i2c_bus \<Rightarrow> byte \<Rightarrow> nat \<Rightarrow> nat \<Rightarrow> imu_values \<Rightarrow> (byte list \<Rightarrow> imu_values) \<Rightarrow> imu_values option" where
  "read_block bus reg n used dflt unpack =
     (case read_i2c bus reg n of
        None \<Rightarrow> Some dflt
      | Some [] \<Rightarrow> Some dflt
      | Some bs \<Rightarrow> if length bs < used then None else Some (unpack bs))"

definition get_accelerometer_data :: "i2c_bus \<Rightarrow> imu_values option" where
  "get_accelerometer_data bus =
     read_block bus FUNC_RAW_ACCEL 6 6 [(Accel_x, Fin 0), (Accel_y, Fin 0), (Accel_z, Fin 0)] accel_values"

definition get_gyroscope_data :: "i2c_bus \<Rightarrow> imu_values option" where
  "get_gyroscope_data bus = read_block bus FUNC_RAW_GYRO 6 6 [(Gyro_x, Fin 0), (Gyro_y, Fin 0), (Gyro_z, Fin 0)] gyro_values"

definition get_magnetometer_data :: "i2c_bus \<Rightarrow> imu_values option" where
  "get_magnetometer_data bus = read_block bus FUNC_RAW_MAG 6 6 [(Mag_x, Fin 0), (Mag_y, Fin 0), (Mag_z, Fin 0)] mag_values"

definition get_quaternion_data :: "i2c_bus \<Rightarrow> imu_values option" where
  "get_quaternion_data bus =
     read_block bus FUNC_QUAT 16 16 [(Quat_w, Fin 1), (Quat_x, Fin 0), (Quat_y, Fin 0), (Quat_z, Fin 0)] quaternion_values"

definition get_euler_data :: "i2c_bus \<Rightarrow> imu_values option" where
  "get_euler_data bus = read_block bus FUNC_EULER 12 12 [(Roll, Fin 0), (Pitch, Fin 0), (Yaw, Fin 0)] euler_values"

definition get_baro_data :: "i2c_bus \<Rightarrow> imu_values option" where
  "get_baro_data bus = read_block bus FUNC_BARO 16 12 [(Baro_height, Fin 0), (Baro_temp, Fin 0), (Baro_pressure, Fin 0)] baro_values"

section \<open>The node\<close>

text \<open>\<open>values[0].values[1].values[2]\<close>; the outer \<open>None\<close> is the \<open>IndexError\<close> of a short block.\<close>

definition get_version :: "i2c_bus \<Rightarrow> string option option" where
  "get_version bus =
     (case read_i2c bus FUNC_VERSION 3 of
        None \<Rightarrow> Some None
      | Some [] \<Rightarrow> Some None
      | Some (a # b # c # bs) \<Rightarrow>
          Some (Some (int_string (uint a) @ ''.'' @ int_string (uint b) @ ''.'' @ int_string (uint c)))
      | Some bs \<Rightarrow> None)"

text \<open>The polls of the calibration, each with the block it reads: how many are made, and whether one saw the end.\<close>

fun calibration_polls :: "nat \<Rightarrow> byte list option list \<Rightarrow> nat \<times> bool" where
  "calibration_polls 0 reads = (0, False)"
| "calibration_polls (Suc n) [] = (0, False)"
| "calibration_polls (Suc n) (r # reads) =
     (if (case r of Some (b # bs) \<Rightarrow> b \<noteq> 0 | _ \<Rightarrow> False) then (1, True)
      else let (k, found) = calibration_polls n reads in (Suc k, found))"

text \<open>A register write, and whether it goes through; \<open>_write_i2c\<close> catches the exception and its result is not used.\<close>

definition write_i2c :: "bool \<Rightarrow> byte \<Rightarrow> byte \<Rightarrow> (byte \<times> byte) list" where
  "write_i2c works reg value = (if works then [(reg, value)] else [])"

definition set_algo_type_i2c :: "bool \<Rightarrow> int \<Rightarrow> (byte \<times> byte) list" where
  "set_algo_type_i2c works algo = (if algo \<notin> {6, 9} then [] else write_i2c works REG_ALGO_TYPE (word_of_int algo))"

definition calibrate_imu :: "bool \<Rightarrow> byte list option list \<Rightarrow> (byte \<times> byte) list \<times> nat \<times> bool" where
  "calibrate_imu works reads = (write_i2c works REG_CALIB_IMU 0x01, calibration_polls 70 reads)"

text \<open>
  \<open>_init_imu\<close>: whether it returns \<open>True\<close>, and the writes. Failures of the bus are not exceptions here;
  only a short version block is.
\<close>

definition init_imu_i2c :: "i2c_bus \<Rightarrow> bool \<Rightarrow> int \<Rightarrow> bool \<Rightarrow> byte list option list \<Rightarrow> bool \<times> (byte \<times> byte) list" where
  "init_imu_i2c bus works algo_type calibrate_on_start reads =
     (case get_version bus of
        None \<Rightarrow> (False, [])
      | Some version \<Rightarrow>
          (True, (if algo_type \<in> {6, 9} then set_algo_type_i2c works algo_type else [])
             @ (if calibrate_on_start then fst (calibrate_imu works reads) else [])))"

definition imu_message_with :: "int \<Rightarrow> int \<Rightarrow> imu_values \<Rightarrow> imu_message" where
  "imu_message_with sensor code vs =
     \<lparr>iu_sensor_type = ''imu'', iu_sensor_id = sensor, iu_values = (\<lambda>f. case map_of vs f of None \<Rightarrow> Fin 0 | Some v \<Rightarrow> v),
      iu_error_code = code\<rparr>"

text \<open>The readings in order; the first that raises ends the callback with the error message.\<close>

fun all_readings :: "imu_values option list \<Rightarrow> imu_values option" where
  "all_readings [] = Some []"
| "all_readings (None # rs) = None"
| "all_readings (Some vs # rs) = map_option (\<lambda>ws. vs @ ws) (all_readings rs)"

definition imu_timer_callback :: "int \<Rightarrow> i2c_bus \<Rightarrow> imu_message" where
  "imu_timer_callback sensor bus =
     (case all_readings [get_accelerometer_data bus, get_gyroscope_data bus, get_magnetometer_data bus, get_quaternion_data bus,
             get_euler_data bus, get_baro_data bus] of
        Some vs \<Rightarrow> imu_message_with sensor 0 vs
      | None \<Rightarrow> imu_message_with sensor 1 [])"

section \<open>Properties\<close>

text \<open>The registers and what a block must hold.\<close>

definition imu_blocks :: "(byte \<times> nat \<times> nat) list" where
  "imu_blocks = [(FUNC_RAW_ACCEL, 6, 6), (FUNC_RAW_GYRO, 6, 6), (FUNC_RAW_MAG, 6, 6), (FUNC_QUAT, 16, 16), (FUNC_EULER, 12, 12), (FUNC_BARO, 16, 12)]"

lemma all_readings_None: "all_readings rs = None \<longleftrightarrow> None \<in> set rs"
  by (induction rs rule: all_readings.induct) auto

lemma read_block_None: "read_block bus reg n used dflt unpack = None \<longleftrightarrow>
    (\<exists>bs. bus reg (min n 32) = Some bs \<and> bs \<noteq> [] \<and> length bs < used)"
  by (auto simp: read_block_def read_i2c_def split: option.splits list.splits)

text \<open>
  The error code of a message says that some block came back short, and nothing else; a block that could
  not be read at all is replaced by zeros (the quaternion by the identity) and reported as good data.
\<close>

theorem error_code_means_short_block:
  "iu_error_code (imu_timer_callback sensor bus) = 1 \<longleftrightarrow>
     (\<exists>(reg, n, used) \<in> set imu_blocks. \<exists>bs. bus reg n = Some bs \<and> bs \<noteq> [] \<and> length bs < used)"
proof -
  let ?rs = "[get_accelerometer_data bus, get_gyroscope_data bus, get_magnetometer_data bus, get_quaternion_data bus,
             get_euler_data bus, get_baro_data bus]"
  have "iu_error_code (imu_timer_callback sensor bus) = 1 \<longleftrightarrow> all_readings ?rs = None"
    by (simp add: imu_timer_callback_def imu_message_with_def split: option.splits)
  also have "\<dots> \<longleftrightarrow> (\<exists>r \<in> set ?rs. r = None)" unfolding all_readings_None by metis
  finally show ?thesis
    by (simp add: get_accelerometer_data_def get_gyroscope_data_def get_magnetometer_data_def get_quaternion_data_def get_euler_data_def
        get_baro_data_def read_block_None read_block_None [THEN trans [OF eq_commute]] imu_blocks_def)
qed

text \<open>
  A sensor that does not answer at all is published as healthy: every read fails, the error code is 0, the
  accelerations are zero and the attitude is the identity.
\<close>

theorem dead_sensor_is_published_as_healthy:
  assumes "\<And>reg n. bus reg n = None"
  shows "iu_error_code (imu_timer_callback sensor bus) = 0 \<and> fst (init_imu_i2c bus works algo calibrate reads)
    \<and> (\<forall>f. iu_values (imu_timer_callback sensor bus) f = (if f = Quat_w then Fin 1 else Fin 0))"
proof -
  have r: "read_block bus reg n used dflt unpack = Some dflt" for reg n used dflt unpack
    using assms by (simp add: read_block_def read_i2c_def)
  have "get_version bus = Some None" using assms by (simp add: get_version_def read_i2c_def)
  then have "fst (init_imu_i2c bus works algo calibrate reads)" by (simp add: init_imu_i2c_def)
  moreover have "iu_values (imu_timer_callback sensor bus) f = (if f = Quat_w then Fin 1 else Fin 0)" for f
    by (cases f) (simp_all add: imu_timer_callback_def get_accelerometer_data_def get_gyroscope_data_def get_magnetometer_data_def
        get_quaternion_data_def get_euler_data_def get_baro_data_def r imu_message_with_def)
  ultimately show ?thesis
    by (simp add: imu_timer_callback_def get_accelerometer_data_def get_gyroscope_data_def get_magnetometer_data_def get_quaternion_data_def
        get_euler_data_def get_baro_data_def r imu_message_with_def)
qed

text \<open>The calibration ends after at most 70 polls; it reports the end only if the last poll has read a byte other than zero.\<close>

lemma calibration_bounded: "fst (calibration_polls n reads) \<le> n"
  by (induction n reads rule: calibration_polls.induct) (auto split: prod.splits)

lemma calibration_end: "calibration_polls n reads = (k, True) \<Longrightarrow> \<exists>b bs. 0 < k \<and> k \<le> length reads \<and> reads ! (k - 1) = Some (b # bs) \<and> b \<noteq> 0"
proof (induction n reads arbitrary: k rule: calibration_polls.induct)
  case (3 n r reads)
  show ?case
  proof (cases "case r of Some (b # bs) \<Rightarrow> b \<noteq> 0 | _ \<Rightarrow> False")
    case True
    with "3.prems" show ?thesis by (auto split: option.splits list.splits)
  next
    case False
    then obtain j where "calibration_polls n reads = (j, True)" "k = Suc j" using "3.prems" by (auto split: prod.splits)
    with "3.IH" [OF False] show ?thesis by (auto simp: nth_Cons')
  qed
qed simp_all

theorem calibration_terminates:
  "fst (snd (calibrate_imu works reads)) \<le> 70
    \<and> (snd (snd (calibrate_imu works reads)) \<longrightarrow>
        (\<exists>k b bs. fst (snd (calibrate_imu works reads)) = Suc k \<and> k < length reads \<and> reads ! k = Some (b # bs) \<and> b \<noteq> 0))"
proof -
  obtain k f where c: "calibration_polls 70 reads = (k, f)" by fastforce
  then show ?thesis using calibration_bounded [of 70 reads] calibration_end [of 70 reads k] by (cases k) (auto simp: calibrate_imu_def)
qed

end
