(* ===== verification/Servo_Config.thy ===== *)
theory Servo_Config
  imports Json_Values Py_Result "HOL-Library.AList"
begin

text \<open>
  The offset and limit maps of the single-node servo drivers, \<open>bus_servo.py\<close> and \<open>pca_servo.py\<close>, which
  hold the same code: what a JSON file means, and how a limit is applied. The files are looked up and
  read outside the model. \<open>ValueError\<close> and \<open>TypeError\<close> skip an entry; any other exception leaves the
  constructor.
\<close>

section \<open>Floats of JSON values\<close>

text \<open>A decimal with its point, and an exponent: \<open>float(text)\<close> for finite numbers, names for the others.\<close>

definition split_at_first :: "char \<Rightarrow> string \<Rightarrow> string \<times> string option" where
  "split_at_first c s = (takeWhile (\<lambda>d. d \<noteq> c) s, case dropWhile (\<lambda>d. d \<noteq> c) s of [] \<Rightarrow> None | _ # r \<Rightarrow> Some r)"

text \<open>Digits on one side of the point, which may be missing there.\<close>

definition side_digits :: "string \<Rightarrow> string option" where
  "side_digits s = (if s = '''' then Some '''' else digit_groups s)"

definition mantissa_value :: "string \<Rightarrow> real option" where
  "mantissa_value s =
     (case split_at_first CHR ''.'' s of
        (i, None) \<Rightarrow> map_option (\<lambda>ds. real (parse_nat ds)) (digit_groups i)
      | (i, Some f) \<Rightarrow>
          if i = '''' \<and> f = '''' then None
          else Option.bind (side_digits i) (\<lambda>is. Option.bind (side_digits f) (\<lambda>fs.
                 Some (real (parse_nat (is @ fs)) / 10 ^ length fs))))"

definition exponent_value :: "string option \<Rightarrow> int option" where
  "exponent_value e =
     (case e of
        None \<Rightarrow> Some 0
      | Some (c # r) \<Rightarrow>
          if c = CHR ''-'' then map_option (\<lambda>ds. - int (parse_nat ds)) (digit_groups r)
          else if c = CHR ''+'' then map_option (\<lambda>ds. int (parse_nat ds)) (digit_groups r)
          else map_option (\<lambda>ds. int (parse_nat ds)) (digit_groups (c # r))
      | Some [] \<Rightarrow> None)"

definition unsigned_float :: "string \<Rightarrow> py_float option" where
  "unsigned_float s =
     (if s \<in> {''inf'', ''infinity''} then Some Pos_inf
      else if s = ''nan'' then Some NaN
      else let (m, e) = split_at_first CHR ''e'' s
           in Option.bind (mantissa_value m) (\<lambda>x. Option.bind (exponent_value e) (\<lambda>k.
                let y = (if 0 \<le> k then x * 10 ^ nat k else x / 10 ^ nat (- k))
                in Some (if 2 ^ 1024 - 2 ^ 970 \<le> y then Pos_inf else Fin y))))"

fun negated :: "py_float \<Rightarrow> py_float" where
  "negated (Fin x) = Fin (- x)"
| "negated Pos_inf = Neg_inf"
| "negated Neg_inf = Pos_inf"
| "negated NaN = NaN"

definition text_float :: "string \<Rightarrow> py_float option" where
  "text_float s =
     (case norm_text s of
        [] \<Rightarrow> None
      | c # r \<Rightarrow>
          if c = CHR ''-'' then map_option negated (unsigned_float r)
          else if c = CHR ''+'' then unsigned_float r
          else unsigned_float (c # r))"

text \<open>\<open>float(v)\<close>\<close>

definition json_float :: "json \<Rightarrow> py_float result" where
  "json_float v =
     (case v of
        J_bool b \<Rightarrow> Inr (Fin (of_bool b))
      | J_int i \<Rightarrow> bind_result (int_float i) (\<lambda>x. Inr (Fin x))
      | J_float f \<Rightarrow> Inr f
      | J_string s \<Rightarrow> (case text_float s of None \<Rightarrow> Inl (ValueError ''could not convert string to float'') | Some f \<Rightarrow> Inr f)
      | _ \<Rightarrow> Inl (TypeError ''float() argument''))"

text \<open>\<open>round(f)\<close>, to even.\<close>

definition round_even :: "real \<Rightarrow> int" where
  "round_even x = (let n = \<lfloor>x\<rfloor>; d = x - of_int n
     in if d < 1 / 2 then n else if 1 / 2 < d then n + 1 else if even n then n else n + 1)"

definition py_round :: "py_float \<Rightarrow> int result" where
  "py_round f =
     (case f of
        Fin x \<Rightarrow> Inr (round_even x)
      | NaN \<Rightarrow> Inl (ValueError ''cannot convert float NaN to integer'')
      | _ \<Rightarrow> Inl (OverflowError ''cannot convert float infinity to integer''))"

section \<open>Maps\<close>

text \<open>What iterating over a value yields, \<open>len\<close> and subscripts.\<close>

definition json_iter :: "json \<Rightarrow> json list result" where
  "json_iter v =
     (case v of
        J_list vs \<Rightarrow> Inr vs
      | J_string s \<Rightarrow> Inr (map (\<lambda>c. J_string [c]) s)
      | J_object kvs \<Rightarrow> Inr (map (\<lambda>(k, w). J_string k) kvs)
      | _ \<Rightarrow> Inl (TypeError ''object is not iterable''))"

text \<open>\<open>v[i] if i < len(v) else None\<close>\<close>

definition json_at :: "json \<Rightarrow> nat \<Rightarrow> json result" where
  "json_at v i =
     (case v of
        J_list vs \<Rightarrow> Inr (if i < length vs then vs ! i else J_null)
      | J_string s \<Rightarrow> Inr (if i < length s then J_string [s ! i] else J_null)
      | J_object kvs \<Rightarrow> if i < length kvs then Inl (KeyError '''') else Inr J_null
      | _ \<Rightarrow> Inl (TypeError ''object has no len()''))"

text \<open>\<open>map[int(key)] = float(value)\<close> for each pair; bad pairs are skipped.\<close>

fun offset_entries :: "(json \<times> json) list \<Rightarrow> (int \<times> py_float) list \<Rightarrow> (int \<times> py_float) list result" where
  "offset_entries [] acc = Inr acc"
| "offset_entries ((k, v) # kvs) acc =
     (case bind_result (json_float v) (\<lambda>f. bind_result (json_int k) (\<lambda>i. Inr (i, f))) of
        Inr (i, f) \<Rightarrow> offset_entries kvs (AList.update i f acc)
      | Inl e \<Rightarrow> if is_value_error e then offset_entries kvs acc else Inl e)"

definition object_pairs :: "json_object \<Rightarrow> (json \<times> json) list" where
  "object_pairs kvs = map (\<lambda>(k, v). (J_string k, v)) kvs"

definition load_offset_map :: "json \<Rightarrow> (int \<times> py_float) list result" where
  "load_offset_map data =
     (case data of
        J_object kvs \<Rightarrow>
          if has_key ''ids'' kvs \<and> has_key ''offsets'' kvs
          then bind_result (json_iter (jget_or ''ids'' (J_list []) kvs)) (\<lambda>ids.
               bind_result (json_iter (jget_or ''offsets'' (J_list []) kvs)) (\<lambda>offsets. offset_entries (zip ids offsets) []))
          else offset_entries (object_pairs kvs) []
      | _ \<Rightarrow> Inr [])"

type_synonym limit_map = "(int \<times> json \<times> json) list"

text \<open>The entries from the lists \<open>ids\<close>, \<open>mins\<close> and \<open>maxs\<close>, and those from an object of objects.\<close>

fun limit_columns :: "nat \<Rightarrow> json list \<Rightarrow> json \<Rightarrow> json \<Rightarrow> limit_map \<Rightarrow> limit_map result" where
  "limit_columns i [] mins maxs acc = Inr acc"
| "limit_columns i (sid # sids) mins maxs acc =
     (case json_int sid of
        Inl e \<Rightarrow> if is_value_error e then limit_columns (Suc i) sids mins maxs acc else Inl e
      | Inr k \<Rightarrow>
          bind_result (json_at mins i) (\<lambda>lo. bind_result (json_at maxs i) (\<lambda>hi.
            limit_columns (Suc i) sids mins maxs (AList.update k (lo, hi) acc))))"

fun limit_objects :: "json_object \<Rightarrow> limit_map \<Rightarrow> limit_map result" where
  "limit_objects [] acc = Inr acc"
| "limit_objects ((k, v) # kvs) acc =
     (case json_int (J_string k) of
        Inl e \<Rightarrow> if is_value_error e then limit_objects kvs acc else Inl e
      | Inr i \<Rightarrow>
          (case v of
             J_object w \<Rightarrow> limit_objects kvs (AList.update i (jget_or ''min'' J_null w, jget_or ''max'' J_null w) acc)
           | _ \<Rightarrow> limit_objects kvs acc))"

definition load_limit_map :: "json \<Rightarrow> limit_map result" where
  "load_limit_map data =
     (let inner = (case data of
                     J_object kvs \<Rightarrow> if has_key ''servo_limits'' kvs then json_or (jget_or ''servo_limits'' J_null kvs) (J_object []) else data
                   | _ \<Rightarrow> data)
      in case inner of
           J_object kvs \<Rightarrow>
             if has_key ''ids'' kvs
             then bind_result (json_iter (json_or (jget_or ''ids'' J_null kvs) (J_list []))) (\<lambda>ids.
                    limit_columns 0 ids (json_or (jget_or ''mins'' J_null kvs) (J_list [])) (json_or (jget_or ''maxs'' J_null kvs) (J_list [])) [])
             else limit_objects kvs []
         | _ \<Rightarrow> Inr [])"

text \<open>
  \<open>_apply_limits\<close>: the position after the bounds that could be read; a bound that cannot be read ends the
  clamping where it is.
\<close>

definition limit_bound :: "json \<Rightarrow> int result" where
  "limit_bound v = bind_result (json_float v) py_round"

definition apply_limits :: "limit_map \<Rightarrow> int \<Rightarrow> int \<Rightarrow> int result" where
  "apply_limits limits key position =
     (case map_of limits key of
        None \<Rightarrow> Inr position
      | Some (lo, hi) \<Rightarrow>
          let raised = (if lo = J_null then Inr position else bind_result (limit_bound lo) (\<lambda>b. Inr (max b position)))
          in case raised of
               Inl e \<Rightarrow> if is_value_error e then Inr position else Inl e
             | Inr p \<Rightarrow>
                 (if hi = J_null then Inr p
                  else case limit_bound hi of
                         Inr b \<Rightarrow> Inr (min b p)
                       | Inl e \<Rightarrow> if is_value_error e then Inr p else Inl e))"

section \<open>Facts\<close>

lemma round_even_mono: "x \<le> y \<Longrightarrow> round_even x \<le> round_even y"
proof -
  assume le: "x \<le> y"
  then have f: "\<lfloor>x\<rfloor> \<le> \<lfloor>y\<rfloor>" by (rule floor_mono)
  have b: "\<lfloor>z\<rfloor> \<le> round_even z" "round_even z \<le> \<lfloor>z\<rfloor> + 1" for z by (simp_all add: round_even_def Let_def)
  show ?thesis
  proof (cases "\<lfloor>x\<rfloor> = \<lfloor>y\<rfloor>")
    case True
    then show ?thesis using le by (simp add: round_even_def Let_def)
  next
    case False
    then have "\<lfloor>x\<rfloor> + 1 \<le> \<lfloor>y\<rfloor>" using f by simp
    with b [of x] b [of y] show ?thesis by linarith
  qed
qed

lemma round_even_int [simp]: "round_even (of_int i) = i"
  by (simp add: round_even_def)

text \<open>A readable pair of bounds clamps; the upper bound wins where they cross.\<close>

lemma apply_limits_clamps:
  assumes "map_of limits key = Some (lo, hi)" "lo \<noteq> J_null" "hi \<noteq> J_null" "limit_bound lo = Inr a" "limit_bound hi = Inr b"
  shows "apply_limits limits key position = Inr (min b (max a position))"
  using assms by (simp add: apply_limits_def Let_def)

end
