(* ===== verification/Bus_Servo.thy ===== *)
theory Bus_Servo
  imports Servo_Config Servo_Messages ZL_Protocol
begin

text \<open>
  \<open>bus_servo.py\<close>, the driver of one ZL bus that the port driver and the protocol router replace, and
  \<open>servo_router.py\<close> in front of it. A frame is a text; how opening and writing the port go is an
  argument. The receive loop only logs what it reads, apart from the buffer it keeps. The driver takes part in no safety
  protocol.
\<close>

section \<open>Frames\<close>

text \<open>\<open>{v:0wd}\<close>; the sign counts as a character of the field.\<close>

definition py_field :: "nat \<Rightarrow> int \<Rightarrow> string" where
  "py_field w v = (if v < 0 then ''-'' @ zero_pad (w - 1) (dec_string (nat (- v))) else fmt w v)"

definition format_frame :: "int \<Rightarrow> int \<Rightarrow> int \<Rightarrow> string" where
  "format_frame servo_id pulse speed =
     ''#'' @ py_field 3 (max 0 (min 999 servo_id)) @ ''P'' @ py_field 4 (max 0 (min 9999 pulse))
       @ ''T'' @ py_field 4 (max 0 (min 9999 speed)) @ ''!''"

section \<open>State\<close>

datatype bus_output = Bus_frame string | Bus_state servo_state

record bus_driver =
  bs_servo_ids :: "int set"
  bs_default_speed :: int
  bs_offsets :: "(int \<times> py_float) list"
  bs_limits :: limit_map
  bs_connected :: "int set"
  bs_out :: "bus_output list"

definition bus_start :: "int list \<Rightarrow> int \<Rightarrow> (int \<times> py_float) list \<Rightarrow> limit_map \<Rightarrow> bus_driver" where
  "bus_start ids speed offsets limits =
     \<lparr>bs_servo_ids = {i \<in> set ids. 0 < i}, bs_default_speed = speed, bs_offsets = offsets, bs_limits = limits, bs_connected = {}, bs_out = []\<rparr>"

definition filter_enabled :: "bus_driver \<Rightarrow> bool" where
  "filter_enabled m \<longleftrightarrow> bs_servo_ids m \<noteq> {}"

text \<open>The port for one frame: it cannot be opened, writing raises, or the frame goes out.\<close>

datatype serial_write = Port_closed | Write_fails | Write_ok

definition send_bus_frame :: "string \<Rightarrow> serial_write \<Rightarrow> bus_driver \<Rightarrow> bool \<times> bus_driver" where
  "send_bus_frame frame w m = (if w = Write_ok then (True, m\<lparr>bs_out := Bus_frame frame # bs_out m\<rparr>) else (False, m))"

section \<open>The commands of the protocol\<close>

definition bus_get_version :: "int \<Rightarrow> serial_write \<Rightarrow> bus_driver \<Rightarrow> bool \<times> bus_driver" where
  "bus_get_version servo_id = send_bus_frame (''#'' @ py_field 3 servo_id @ ''PVER!'')"

definition bus_read_id :: "int \<Rightarrow> serial_write \<Rightarrow> bus_driver \<Rightarrow> bool \<times> bus_driver" where
  "bus_read_id servo_id = send_bus_frame (''#'' @ py_field 3 servo_id @ ''PID!'')"

definition bus_set_id :: "int \<Rightarrow> int \<Rightarrow> serial_write \<Rightarrow> bus_driver \<Rightarrow> bool \<times> bus_driver" where
  "bus_set_id old_id new_id = send_bus_frame (''#'' @ py_field 3 old_id @ ''PID'' @ py_field 3 new_id @ ''!'')"

definition bus_release_torque :: "int \<Rightarrow> serial_write \<Rightarrow> bus_driver \<Rightarrow> bool \<times> bus_driver" where
  "bus_release_torque servo_id = send_bus_frame (''#'' @ py_field 3 servo_id @ ''PULK!'')"

definition bus_restore_torque :: "int \<Rightarrow> serial_write \<Rightarrow> bus_driver \<Rightarrow> bool \<times> bus_driver" where
  "bus_restore_torque servo_id = send_bus_frame (''#'' @ py_field 3 servo_id @ ''PULR!'')"

definition bus_read_mode :: "int \<Rightarrow> serial_write \<Rightarrow> bus_driver \<Rightarrow> bool \<times> bus_driver" where
  "bus_read_mode servo_id = send_bus_frame (''#'' @ py_field 3 servo_id @ ''PMOD!'')"

definition bus_set_mode :: "int \<Rightarrow> int \<Rightarrow> serial_write \<Rightarrow> bus_driver \<Rightarrow> bool \<times> bus_driver" where
  "bus_set_mode servo_id mode w m =
     (if \<not> (1 \<le> mode \<and> mode \<le> 8) then (False, m)
      else send_bus_frame (''#'' @ py_field 3 servo_id @ ''PMOD'' @ int_string mode @ ''!'') w m)"

definition bus_read_position :: "int \<Rightarrow> serial_write \<Rightarrow> bus_driver \<Rightarrow> bool \<times> bus_driver" where
  "bus_read_position servo_id = send_bus_frame (''#'' @ py_field 3 servo_id @ ''PRAD!'')"

definition bus_pause_motion :: "int \<Rightarrow> serial_write \<Rightarrow> bus_driver \<Rightarrow> bool \<times> bus_driver" where
  "bus_pause_motion servo_id = send_bus_frame (''#'' @ py_field 3 servo_id @ ''PDPT!'')"

definition bus_continue_motion :: "int \<Rightarrow> serial_write \<Rightarrow> bus_driver \<Rightarrow> bool \<times> bus_driver" where
  "bus_continue_motion servo_id = send_bus_frame (''#'' @ py_field 3 servo_id @ ''PDCT!'')"

definition bus_stop_motion :: "int \<Rightarrow> serial_write \<Rightarrow> bus_driver \<Rightarrow> bool \<times> bus_driver" where
  "bus_stop_motion servo_id = send_bus_frame (''#'' @ py_field 3 servo_id @ ''PDST!'')"

definition bus_set_baudrate :: "int \<Rightarrow> int \<Rightarrow> serial_write \<Rightarrow> bus_driver \<Rightarrow> bool \<times> bus_driver" where
  "bus_set_baudrate servo_id baudrate_code w m =
     (if \<not> (1 \<le> baudrate_code \<and> baudrate_code \<le> 8) then (False, m)
      else send_bus_frame (''#'' @ py_field 3 servo_id @ ''PBD'' @ int_string baudrate_code @ ''!'') w m)"

definition bus_calibrate_middle :: "int \<Rightarrow> serial_write \<Rightarrow> bus_driver \<Rightarrow> bool \<times> bus_driver" where
  "bus_calibrate_middle servo_id = send_bus_frame (''#'' @ py_field 3 servo_id @ ''PSCK!'')"

definition bus_set_startup_position :: "int \<Rightarrow> serial_write \<Rightarrow> bus_driver \<Rightarrow> bool \<times> bus_driver" where
  "bus_set_startup_position servo_id = send_bus_frame (''#'' @ py_field 3 servo_id @ ''PCSD!'')"

definition bus_disable_startup_position :: "int \<Rightarrow> serial_write \<Rightarrow> bus_driver \<Rightarrow> bool \<times> bus_driver" where
  "bus_disable_startup_position servo_id = send_bus_frame (''#'' @ py_field 3 servo_id @ ''PCSM!'')"

definition bus_restore_startup_position :: "int \<Rightarrow> serial_write \<Rightarrow> bus_driver \<Rightarrow> bool \<times> bus_driver" where
  "bus_restore_startup_position servo_id = send_bus_frame (''#'' @ py_field 3 servo_id @ ''PCSR!'')"

definition bus_set_min_position :: "int \<Rightarrow> serial_write \<Rightarrow> bus_driver \<Rightarrow> bool \<times> bus_driver" where
  "bus_set_min_position servo_id = send_bus_frame (''#'' @ py_field 3 servo_id @ ''PSMI!'')"

definition bus_set_max_position :: "int \<Rightarrow> serial_write \<Rightarrow> bus_driver \<Rightarrow> bool \<times> bus_driver" where
  "bus_set_max_position servo_id = send_bus_frame (''#'' @ py_field 3 servo_id @ ''PSMX!'')"

definition bus_factory_reset :: "int \<Rightarrow> serial_write \<Rightarrow> bus_driver \<Rightarrow> bool \<times> bus_driver" where
  "bus_factory_reset servo_id = send_bus_frame (''#'' @ py_field 3 servo_id @ ''PCLE!'')"

definition bus_read_temp_voltage :: "int \<Rightarrow> serial_write \<Rightarrow> bus_driver \<Rightarrow> bool \<times> bus_driver" where
  "bus_read_temp_voltage servo_id = send_bus_frame (''#'' @ py_field 3 servo_id @ ''PRTV!'')"

text \<open>The request a caller makes of the driver, with the method that carries it out.\<close>

datatype bus_request =
    Get_version | Read_id | Set_id int | Release_torque | Restore_torque | Read_mode | Set_mode int | Read_position
  | Pause_motion | Continue_motion | Stop_motion | Set_baudrate int | Calibrate_middle | Set_startup_position
  | Disable_startup_position | Restore_startup_position | Set_min_position | Set_max_position | Factory_reset | Read_temp_voltage

fun send_request :: "int \<Rightarrow> bus_request \<Rightarrow> serial_write \<Rightarrow> bus_driver \<Rightarrow> bool \<times> bus_driver" where
  "send_request i Get_version = bus_get_version i"
| "send_request i Read_id = bus_read_id i"
| "send_request i (Set_id new_id) = bus_set_id i new_id"
| "send_request i Release_torque = bus_release_torque i"
| "send_request i Restore_torque = bus_restore_torque i"
| "send_request i Read_mode = bus_read_mode i"
| "send_request i (Set_mode mode) = bus_set_mode i mode"
| "send_request i Read_position = bus_read_position i"
| "send_request i Pause_motion = bus_pause_motion i"
| "send_request i Continue_motion = bus_continue_motion i"
| "send_request i Stop_motion = bus_stop_motion i"
| "send_request i (Set_baudrate code) = bus_set_baudrate i code"
| "send_request i Calibrate_middle = bus_calibrate_middle i"
| "send_request i Set_startup_position = bus_set_startup_position i"
| "send_request i Disable_startup_position = bus_disable_startup_position i"
| "send_request i Restore_startup_position = bus_restore_startup_position i"
| "send_request i Set_min_position = bus_set_min_position i"
| "send_request i Set_max_position = bus_set_max_position i"
| "send_request i Factory_reset = bus_factory_reset i"
| "send_request i Read_temp_voltage = bus_read_temp_voltage i"

section \<open>Positions\<close>

text \<open>An angle becomes a pulse width, cut off; everything else is sent as it is.\<close>

definition position_pulse :: "int \<Rightarrow> int" where
  "position_pulse pos = (if 0 \<le> pos \<and> pos \<le> 180 then 500 + pos * 2000 div 180 else pos)"

definition pulse_with_offset :: "(int \<times> py_float) list \<Rightarrow> int \<Rightarrow> int \<Rightarrow> int" where
  "pulse_with_offset offsets sid pulse =
     (case map_of offsets sid of
        Some (Fin x) \<Rightarrow> if x = 0 then pulse else round_even (of_int pulse + x)
      | _ \<Rightarrow> pulse)"

definition send_position :: "int \<Rightarrow> int \<Rightarrow> int \<Rightarrow> serial_write \<Rightarrow> bus_driver \<Rightarrow> bool \<times> bus_driver" where
  "send_position sid pos speed w m =
     (case send_bus_frame (format_frame sid (pulse_with_offset (bs_offsets m) sid (position_pulse pos)) speed) w m of
        (True, m1) \<Rightarrow> (True, m1\<lparr>bs_connected := insert sid (bs_connected m1)\<rparr>)
      | (False, m1) \<Rightarrow> (False, m1))"

definition publish_bus_state :: "int \<Rightarrow> int \<Rightarrow> bool \<Rightarrow> bus_driver \<Rightarrow> bus_driver" where
  "publish_bus_state sid position success m =
     (if 0 \<le> position \<and> position \<le> 65535
      then m\<lparr>bs_out := Bus_state \<lparr>ss_servo_type = ''bus'', ss_servo_id = sid, ss_position = position, ss_load = - 1,
               ss_temperature = - 1, ss_error_code = (if success then 0 else 1)\<rparr> # bs_out m\<rparr>
      else m)"

definition bus_command_callback :: "servo_command \<Rightarrow> serial_write \<Rightarrow> bus_driver \<Rightarrow> bus_driver" where
  "bus_command_callback msg w m =
     (if sc_servo_type msg \<noteq> ''bus'' then m
      else case apply_limits (bs_limits m) (sc_servo_id msg) (sc_position msg) of
             Inl e \<Rightarrow> m
           | Inr position \<Rightarrow>
               if filter_enabled m \<and> sc_servo_id msg \<notin> bs_servo_ids m then m
               else (case send_position (sc_servo_id msg) position (if 0 < sc_speed msg then sc_speed msg else bs_default_speed m) w m of
                       (ok, m1) \<Rightarrow> publish_bus_state (sc_servo_id msg) position ok m1))"

text \<open>
  \<open>reset_servos\<close> when the node is closed: all servos used go to 1500 us. The order in which Python
  lists the set is an argument.
\<close>

definition reset_bus_servos :: "int list \<Rightarrow> (int \<Rightarrow> serial_write) \<Rightarrow> bus_driver \<Rightarrow> bus_driver" where
  "reset_bus_servos order w m =
     (if distinct order \<and> set order = bs_connected m
      then fold (\<lambda>sid m. snd (send_position sid 1500 (bs_default_speed m) (w sid) m)) order m
      else m)"

section \<open>The router in front\<close>

datatype routed = To_bus_driver servo_command | To_pca_driver servo_command | To_state_topic servo_state

definition route_command :: "servo_command \<Rightarrow> routed list" where
  "route_command msg =
     (if sc_servo_type msg = ''bus'' then [To_bus_driver msg]
      else if sc_servo_type msg = ''pca'' then [To_pca_driver msg]
      else [])"

definition route_state :: "servo_state \<Rightarrow> routed list" where
  "route_state msg = [To_state_topic msg]"

section \<open>Facts\<close>

lemma one_digit: "1 \<le> v \<Longrightarrow> v \<le> 8 \<Longrightarrow> int_string v = fmt 1 (clamp 1 8 v)"
  by (simp add: int_string_def fmt_def zero_pad_def clamp_def dec_string.simps)

section \<open>Properties\<close>

text \<open>The encoder of the ZL protocol for each command.\<close>

fun zl_request :: "int \<Rightarrow> bus_request \<Rightarrow> bytes" where
  "zl_request i Get_version = zl_encode_version_read i"
| "zl_request i Read_id = zl_encode_id_read i"
| "zl_request i (Set_id new_id) = zl_encode_id_write i new_id"
| "zl_request i Release_torque = zl_encode_torque_release i"
| "zl_request i Restore_torque = zl_encode_torque_restore i"
| "zl_request i Read_mode = zl_encode_mode_read i"
| "zl_request i (Set_mode mode) = zl_encode_mode_write i mode"
| "zl_request i Read_position = zl_encode_position_read i"
| "zl_request i Pause_motion = zl_encode_motion_pause i"
| "zl_request i Continue_motion = zl_encode_motion_continue i"
| "zl_request i Stop_motion = zl_encode_motion_stop i"
| "zl_request i (Set_baudrate code) = zl_encode_baudrate_write i code"
| "zl_request i Calibrate_middle = zl_encode_middle_calibrate i"
| "zl_request i Set_startup_position = zl_encode_startup_position_set i"
| "zl_request i Disable_startup_position = zl_encode_startup_position_disable i"
| "zl_request i Restore_startup_position = zl_encode_startup_position_restore i"
| "zl_request i Set_min_position = zl_encode_min_position_set i"
| "zl_request i Set_max_position = zl_encode_max_position_set i"
| "zl_request i Factory_reset = zl_encode_factory_reset i"
| "zl_request i Read_temp_voltage = zl_encode_temp_voltage_read i"

lemmas zl_encoders = zl_encode_version_read_def zl_encode_id_read_def zl_encode_id_write_def zl_encode_torque_release_def
  zl_encode_torque_restore_def zl_encode_mode_read_def zl_encode_mode_write_def zl_encode_position_read_def zl_encode_motion_pause_def
  zl_encode_motion_continue_def zl_encode_motion_stop_def zl_encode_baudrate_write_def zl_encode_middle_calibrate_def
  zl_encode_startup_position_set_def zl_encode_startup_position_disable_def zl_encode_startup_position_restore_def
  zl_encode_min_position_set_def zl_encode_max_position_set_def zl_encode_factory_reset_def zl_encode_temp_voltage_read_def

lemmas bus_requests = bus_get_version_def bus_read_id_def bus_set_id_def bus_release_torque_def bus_restore_torque_def bus_read_mode_def bus_set_mode_def
  bus_read_position_def bus_pause_motion_def bus_continue_motion_def bus_stop_motion_def bus_set_baudrate_def bus_calibrate_middle_def
  bus_set_startup_position_def bus_disable_startup_position_def bus_restore_startup_position_def bus_set_min_position_def bus_set_max_position_def bus_factory_reset_def bus_read_temp_voltage_def

text \<open>
  The legacy bus driver speaks the ZL protocol: for ids of three digits every request that succeeds writes one
  frame, byte for byte what the encoder of the ZL protocol produces; a request that fails writes nothing. The same
  holds of its move frame, for any position and speed.
\<close>

theorem legacy_frames_are_zl_frames:
  assumes "0 \<le> sid" "sid \<le> 999" "\<And>new_id. request = Set_id new_id \<Longrightarrow> 0 \<le> new_id \<and> new_id \<le> 999"
    "send_request sid request w m = (ok, m1)"
  shows "(if ok then \<exists>frame. ascii_bytes frame = zl_request sid request \<and> m1 = m\<lparr>bs_out := Bus_frame frame # bs_out m\<rparr> else m1 = m)
    \<and> ascii_bytes (format_frame sid pulse speed) = zl_encode_move_command sid pulse speed"
proof -
  have s: "zl_sid sid = sid" "py_field 3 sid = fmt 3 sid" using assms(1,2) by (simp_all add: zl_sid_def py_field_def)
  have n: "request = Set_id k \<Longrightarrow> zl_sid k = k \<and> py_field 3 k = fmt 3 k" for k using assms(3) by (simp add: zl_sid_def py_field_def)
  have "if ok then \<exists>frame. ascii_bytes frame = zl_request sid request \<and> m1 = m\<lparr>bs_out := Bus_frame frame # bs_out m\<rparr> else m1 = m"
    using assms(4) n
    by (cases request) (auto simp: bus_requests send_bus_frame_def zl_encoders format_command_def s one_digit split: if_splits)
  moreover have "ascii_bytes (format_frame sid pulse speed) = zl_encode_move_command sid pulse speed"
    using assms(1,2) by (simp add: format_frame_def zl_encode_move_command_def format_command_def s py_field_def clamp_def)
  ultimately show ?thesis by simp
qed

theorem legacy_frames_are_zl_frames_witness:
  "send_request 7 (Set_id 12) Write_ok (bus_start [] 100 [] []) = (True, (bus_start [] 100 [] [])\<lparr>bs_out := [Bus_frame ''#007PID012!'']\<rparr>)
     \<and> ascii_bytes ''#007PID012!'' = zl_encode_id_write 7 12 \<and> ascii_bytes ''#007P1500T0100!'' = zl_encode_move_command 7 1500 100"
proof -
  let ?m = "bus_start [] 100 [] []"
  have f: "format_frame 7 1500 100 = ''#007P1500T0100!''" by code_simp
  have "send_bus_frame (''#'' @ py_field 3 7 @ ''PID'' @ py_field 3 12 @ ''!'') Write_ok ?m = (True, ?m\<lparr>bs_out := [Bus_frame ''#007PID012!'']\<rparr>)"
  proof -
    have "''#'' @ py_field 3 7 @ ''PID'' @ py_field 3 12 @ ''!'' = ''#007PID012!''" by code_simp
    then show ?thesis by (simp add: send_bus_frame_def bus_start_def)
  qed
  then have s: "send_request 7 (Set_id 12) Write_ok ?m = (True, ?m\<lparr>bs_out := [Bus_frame ''#007PID012!'']\<rparr>)"
    by (simp add: bus_set_id_def)
  show ?thesis
    using legacy_frames_are_zl_frames [OF _ _ _ s, of 1500 100] s f by (auto simp: bus_start_def)
qed

text \<open>
  Closing the driver is a motion: every servo it has moved goes to 1500 us (and its offset), whatever the safety state of the robot.
\<close>

theorem closing_moves_servos:
  assumes "sid \<in> bs_connected m" "distinct order" "set order = bs_connected m" "\<And>i. w i = Write_ok"
  shows "Bus_frame (format_frame sid (pulse_with_offset (bs_offsets m) sid 1500) (bs_default_speed m)) \<in> set (bs_out (reset_bus_servos order w m))"
proof -
  let ?step = "\<lambda>sid m. snd (send_position sid 1500 (bs_default_speed m) (w sid) m)"
  let ?frame = "Bus_frame (format_frame sid (pulse_with_offset (bs_offsets m) sid 1500) (bs_default_speed m))"
  have keep: "x \<in> set (bs_out m1) \<Longrightarrow> x \<in> set (bs_out (fold ?step ids m1))" for x ids m1
    by (induction ids arbitrary: m1) (auto simp: send_position_def send_bus_frame_def assms(4))
  have "sid \<in> set ids \<Longrightarrow> bs_offsets m1 = bs_offsets m \<Longrightarrow> bs_default_speed m1 = bs_default_speed m \<Longrightarrow>
      ?frame \<in> set (bs_out (fold ?step ids m1))" for ids m1
  proof (induction ids arbitrary: m1)
    case (Cons i ids)
    have s: "bs_offsets (?step i m1) = bs_offsets m" "bs_default_speed (?step i m1) = bs_default_speed m"
      using Cons.prems by (simp_all add: send_position_def send_bus_frame_def assms(4))
    have "i = sid \<Longrightarrow> ?frame \<in> set (bs_out (?step i m1))"
      using Cons.prems by (simp add: send_position_def send_bus_frame_def assms(4) position_pulse_def)
    then show ?case using Cons.IH [of "?step i m1"] Cons.prems(1) s keep by auto
  qed simp
  from this [of order m] assms(1-3) show ?thesis by (simp add: reset_bus_servos_def)
qed

end
