(* ===== verification/Pca_Servo.thy ===== *)
theory Pca_Servo
  imports Servo_Config Servo_Messages
begin

text \<open>
  \<open>pca_servo.py\<close>, the driver of the PCA9685 board: a command becomes the pulse of one channel, written to
  four registers in one block or, if that fails, byte by byte. The outcome of the I2C transfers is an
  argument. The driver takes part in no safety protocol. Quotients that the code takes in floating
  point are exact here; for the default pulse range both are cut to the same ticks.
\<close>

section \<open>State\<close>

record pca_config =
  pc_frequency :: int
  pc_min_pwm :: int
  pc_max_pwm :: int

definition pca_defaults :: pca_config where
  "pca_defaults = \<lparr>pc_frequency = 50, pc_min_pwm = 110, pc_max_pwm = 520\<rparr>"

text \<open>Bytes written from a register on, and published states.\<close>

datatype pca_output = Pca_write int "int list" | Pca_state servo_state

record pca_driver =
  pv_config :: pca_config
  pv_ready :: bool                    \<comment> \<open>the bus was opened\<close>
  pv_offsets :: "(int \<times> py_float) list"
  pv_limits :: limit_map
  pv_channels :: "int set"            \<comment> \<open>channels written so far\<close>
  pv_out :: "pca_output list"

text \<open>How the transfers of one pulse go: in a block, byte by byte, or up to some byte.\<close>

datatype pca_transfer = Block_written | Bytes_written | Transfer_breaks nat

section \<open>Setting up the board\<close>

definition pca_prescale :: "int \<Rightarrow> int" where
  "pca_prescale freq = round_even (25000000 / 4096 / of_int freq - 1)"

text \<open>
  The register writes of \<open>_init_device\<close> when all transfers succeed: reset, frequency, push-pull outputs,
  auto increment. The modes are what the two reads of register 0 return. \<open>None\<close> is the division by a
  zero frequency.
\<close>

definition pca_init_writes :: "int \<Rightarrow> int \<Rightarrow> int \<Rightarrow> (int \<times> int) list option" where
  "pca_init_writes freq old_mode mode1 =
     (if freq = 0 then None
      else Some
        [(0, 0),
         (0, (old_mode mod 128) div 32 * 32 + old_mode mod 16 + 16), (0xFE, pca_prescale freq), (0, old_mode),
         (0, if old_mode div 128 mod 2 = 0 then old_mode + 128 else old_mode),
         (1, 4),
         (0, if mode1 div 32 mod 2 = 0 then mode1 + 32 else mode1)])"

section \<open>Pulses\<close>

definition us_to_ticks :: "pca_config \<Rightarrow> int \<Rightarrow> int" where
  "us_to_ticks cf us = clamp (pc_min_pwm cf) (pc_max_pwm cf) (round_half_even (us * pc_frequency cf * 4096) 1000000)"

definition angle_ticks :: "pca_config \<Rightarrow> int \<Rightarrow> int" where
  "angle_ticks cf angle = py_trunc (of_int (pc_min_pwm cf) + of_int angle / 180 * of_int (pc_max_pwm cf - pc_min_pwm cf))"

text \<open>\<open>[on & 0xFF, (on >> 8) & 0x0F, off & 0xFF, (off >> 8) & 0x0F]\<close> with \<open>on = 0\<close>; the second form does not mask the high byte.\<close>

definition pulse_block :: "int \<Rightarrow> int list" where
  "pulse_block off = [0, 0, off mod 256, off div 256 mod 16]"

definition pulse_bytes :: "int \<Rightarrow> int list" where
  "pulse_bytes off = [0, 0, off mod 256, off div 256]"

definition set_pwm :: "int \<Rightarrow> int \<Rightarrow> pca_transfer \<Rightarrow> pca_driver \<Rightarrow> bool \<times> pca_driver" where
  "set_pwm channel off transfer m =
     (if \<not> (0 \<le> channel \<and> channel \<le> 15) \<or> \<not> pv_ready m then (True, m)
      else let off1 = max (pc_min_pwm (pv_config m)) (min (pc_max_pwm (pv_config m)) off);
               base = 6 + 4 * channel;
               seen = m\<lparr>pv_channels := insert channel (pv_channels m)\<rparr>
           in case transfer of
                Block_written \<Rightarrow> (True, seen\<lparr>pv_out := Pca_write base (pulse_block off1) # pv_out seen\<rparr>)
              | Bytes_written \<Rightarrow> (True, seen\<lparr>pv_out := Pca_write base (pulse_bytes off1) # pv_out seen\<rparr>)
              | Transfer_breaks k \<Rightarrow> (False, m\<lparr>pv_out := Pca_write base (take (min k 3) (pulse_bytes off1)) # pv_out m\<rparr>))"

text \<open>\<open>set_angle\<close>, which no callback uses.\<close>

definition pca_set_angle :: "int \<Rightarrow> int \<Rightarrow> pca_transfer \<Rightarrow> pca_driver \<Rightarrow> bool \<times> pca_driver" where
  "pca_set_angle channel angle transfer m =
     (if \<not> (0 \<le> angle \<and> angle \<le> 180) then (True, m) else set_pwm channel (angle_ticks (pv_config m) angle) transfer m)"

section \<open>Commands\<close>

text \<open>The position as an angle, a pulse width or ticks; with the offset, which may raise.\<close>

definition position_ticks :: "pca_config \<Rightarrow> int \<Rightarrow> int" where
  "position_ticks cf position =
     (if 0 \<le> position \<and> position \<le> 180 then angle_ticks cf position
      else if 1000 < position then us_to_ticks cf position
      else position)"

definition with_offset :: "(int \<times> py_float) list \<Rightarrow> int \<Rightarrow> int \<Rightarrow> int result" where
  "with_offset offsets key ticks =
     (case map_of offsets key of
        None \<Rightarrow> Inr ticks
      | Some (Fin x) \<Rightarrow> if x = 0 then Inr ticks else Inr (round_even (of_int ticks + x))
      | Some f \<Rightarrow> py_round f)"

text \<open>A state whose position is no \<open>uint16\<close> cannot be built: the callback ends there.\<close>

definition publish_pca_state :: "int \<Rightarrow> int \<Rightarrow> bool \<Rightarrow> pca_driver \<Rightarrow> pca_driver" where
  "publish_pca_state channel position success m =
     (if 0 \<le> position \<and> position \<le> 65535
      then m\<lparr>pv_out := Pca_state \<lparr>ss_servo_type = ''pca'', ss_servo_id = channel, ss_position = position, ss_load = - 1,
               ss_temperature = - 1, ss_error_code = (if success then 0 else 1)\<rparr> # pv_out m\<rparr>
      else m)"

definition pca_command_callback :: "servo_command \<Rightarrow> pca_transfer \<Rightarrow> pca_driver \<Rightarrow> pca_driver" where
  "pca_command_callback msg transfer m =
     (if sc_servo_type msg \<noteq> ''pca'' then m
      else case apply_limits (pv_limits m) (sc_servo_id msg) (sc_position msg) of
             Inl e \<Rightarrow> m
           | Inr position \<Rightarrow>
               let channel = sc_servo_id msg
               in if \<not> (0 \<le> channel \<and> channel \<le> 15) then publish_pca_state channel position False m
                  else case with_offset (pv_offsets m) channel (position_ticks (pv_config m) position) of
                         Inl e \<Rightarrow> publish_pca_state channel position False m
                       | Inr ticks \<Rightarrow> (case set_pwm channel ticks transfer m of (ok, m1) \<Rightarrow> publish_pca_state channel position ok m1))"

text \<open>
  \<open>reset_servos\<close>, run when the node is destroyed: every channel used goes to the middle. The order in which
  Python iterates over the set is an argument.
\<close>

definition reset_pca_servos :: "int list \<Rightarrow> (int \<Rightarrow> pca_transfer) \<Rightarrow> pca_driver \<Rightarrow> pca_driver" where
  "reset_pca_servos order transfer m =
     (if distinct order \<and> set order = pv_channels m
      then fold (\<lambda>ch m. snd (set_pwm ch (angle_ticks (pv_config m) 90) (transfer ch) m)) order m
      else m)"

datatype pca_event = Pv_command servo_command pca_transfer | Pv_destroy "int list" "int \<Rightarrow> pca_transfer"

fun pca_step :: "pca_event \<Rightarrow> pca_driver \<Rightarrow> pca_driver" where
  "pca_step (Pv_command msg transfer) m = pca_command_callback msg transfer m"
| "pca_step (Pv_destroy order transfer) m = reset_pca_servos order transfer m"

definition pca_run :: "pca_event list \<Rightarrow> pca_driver \<Rightarrow> pca_driver" where
  "pca_run es m = fold pca_step es m"

definition pca_start :: "pca_config \<Rightarrow> (int \<times> py_float) list \<Rightarrow> limit_map \<Rightarrow> pca_driver" where
  "pca_start cf offsets limits =
     \<lparr>pv_config = cf, pv_ready = True, pv_offsets = offsets, pv_limits = limits, pv_channels = {}, pv_out = []\<rparr>"


section \<open>Facts\<close>

text \<open>What is written for a pulse: the registers of one channel, and bytes that make up a value in range.\<close>

definition pulse_ok :: "pca_config \<Rightarrow> pca_output \<Rightarrow> bool" where
  "pulse_ok cf out \<longleftrightarrow>
     (case out of
        Pca_state s \<Rightarrow> True
      | Pca_write base bytes \<Rightarrow>
          (\<exists>channel off. 0 \<le> channel \<and> channel \<le> 15 \<and> base = 6 + 4 * channel
             \<and> pc_min_pwm cf \<le> off \<and> off \<le> pc_max_pwm cf \<and> (\<exists>n. bytes = take n (pulse_bytes off))))"

definition config_ok :: "pca_config \<Rightarrow> bool" where
  "config_ok cf \<longleftrightarrow> 0 \<le> pc_min_pwm cf \<and> pc_min_pwm cf \<le> pc_max_pwm cf \<and> pc_max_pwm cf \<le> 4095"

definition pca_ok :: "pca_config \<Rightarrow> pca_driver \<Rightarrow> bool" where
  "pca_ok cf m \<longleftrightarrow> pv_config m = cf \<and> list_all (pulse_ok cf) (pv_out m) \<and> pv_channels m \<subseteq> {0..15}"

lemma pulse_block_bytes: "0 \<le> off \<Longrightarrow> off \<le> 4095 \<Longrightarrow> pulse_block off = pulse_bytes off"
  by (simp add: pulse_block_def pulse_bytes_def)

lemma set_pwm_ok:
  assumes "config_ok cf" "pca_ok cf m"
  shows "pca_ok cf (snd (set_pwm channel off transfer m))"
proof (cases "0 \<le> channel \<and> channel \<le> 15 \<and> pv_ready m")
  case True
  define off1 where "off1 = max (pc_min_pwm (pv_config m)) (min (pc_max_pwm (pv_config m)) off)"
  have o: "pc_min_pwm cf \<le> off1" "off1 \<le> pc_max_pwm cf" "0 \<le> off1" "off1 \<le> 4095" "pv_config m = cf"
    using assms by (auto simp: off1_def config_ok_def pca_ok_def)
  have p: "pulse_ok cf (Pca_write (6 + 4 * channel) (take n (pulse_bytes off1)))" for n
    using True o by (auto simp: pulse_ok_def)
  have q: "pulse_ok cf (Pca_write (6 + 4 * channel) (pulse_bytes off1))" using p [of 4] by (simp add: pulse_bytes_def)
  show ?thesis
    using True assms(2) o p q
    by (cases transfer) (auto simp: set_pwm_def off1_def [symmetric] pca_ok_def Let_def pulse_block_bytes)
next
  case False
  with assms(2) show ?thesis by (auto simp: set_pwm_def)
qed

lemma publish_pca_ok: "pca_ok cf m \<Longrightarrow> pca_ok cf (publish_pca_state channel position success m)"
  by (simp add: publish_pca_state_def pca_ok_def pulse_ok_def)

lemma pca_step_ok:
  assumes "config_ok cf" "pca_ok cf m"
  shows "pca_ok cf (pca_step e m)"
proof (cases e)
  case (Pv_command msg transfer)
  then show ?thesis
    using assms set_pwm_ok [OF assms, of "sc_servo_id msg"]
    by (auto simp: pca_command_callback_def Let_def publish_pca_ok split: sum.split prod.split) (metis snd_conv publish_pca_ok)
next
  case (Pv_destroy order transfer)
  have "pca_ok cf (fold (\<lambda>ch m. snd (set_pwm ch (angle_ticks (pv_config m) 90) (transfer ch) m)) chs m')" if "pca_ok cf m'" for chs m'
    using that by (induction chs arbitrary: m') (auto intro: set_pwm_ok [OF assms(1)])
  with assms(2) Pv_destroy show ?thesis by (simp add: reset_pca_servos_def)
qed

lemma pca_run_ok: "config_ok cf \<Longrightarrow> pca_ok cf m \<Longrightarrow> pca_ok cf (pca_run es m)"
  unfolding pca_run_def by (induction es arbitrary: m) (auto intro: pca_step_ok)

lemma pca_start_ok: "pca_ok cf (pca_start cf offsets limits)"
  by (simp add: pca_ok_def pca_start_def)

lemma default_angle_ticks: "angle_ticks pca_defaults p = (if 0 \<le> p then 110 + 41 * p div 18 else angle_ticks pca_defaults p)"
proof (cases "0 \<le> p")
  case True
  have e: "(of_int 110 :: real) + of_int p / 180 * of_int 410 = of_int 110 + of_int (41 * p) / of_int 18" by simp
  have "\<lfloor>(of_int 110 :: real) + of_int (41 * p) / of_int 18\<rfloor> = 110 + 41 * p div 18"
    using floor_divide_of_int_eq [of "41 * p" 18] by simp
  moreover have "(0 :: real) \<le> of_int 110 + of_int (41 * p) / of_int 18" using True by simp
  ultimately have "py_trunc (of_int 110 + of_int p / 180 * of_int 410) = 110 + 41 * p div 18"
    unfolding e py_trunc_def by simp
  with True show ?thesis by (simp add: angle_ticks_def pca_defaults_def)
qed simp

section \<open>Properties\<close>

text \<open>
  Whatever commands, configuration files and bus failures the PCA driver meets, and when it is shut down,
  it only writes pulses within its range, to the registers of one of the sixteen channels; a transfer that
  breaks leaves a prefix of such a pulse.
\<close>

theorem pca_pulses_in_range:
  assumes "config_ok cf" "Pca_write base bytes \<in> set (pv_out (pca_run es (pca_start cf offsets limits)))"
  shows "\<exists>channel off n. 0 \<le> channel \<and> channel \<le> 15 \<and> base = 6 + 4 * channel
    \<and> pc_min_pwm cf \<le> off \<and> off \<le> pc_max_pwm cf \<and> bytes = take n [0, 0, off mod 256, off div 256]"
  using pca_run_ok [OF assms(1) pca_start_ok, of es offsets limits] assms(2)
  by (fastforce simp: pca_ok_def list_all_iff pulse_ok_def pulse_bytes_def)

definition demo_pca_command :: servo_command where
  "demo_pca_command = \<lparr>sc_servo_type = ''pca'', sc_servo_id = 3, sc_position = 150, sc_speed = 0, sc_stamp = No_stamp\<rparr>"

lemma demo_pca_run: "pv_out (pca_run [Pv_command demo_pca_command Block_written] (pca_start pca_defaults [] [])) =
    [Pca_state \<lparr>ss_servo_type = ''pca'', ss_servo_id = 3, ss_position = 150, ss_load = - 1, ss_temperature = - 1, ss_error_code = 0\<rparr>,
     Pca_write 18 [0, 0, 195, 1]]"
proof -
  have t: "angle_ticks pca_defaults 150 = 451" by (subst default_angle_ticks) simp
  show ?thesis
    by (simp add: pca_run_def pca_command_callback_def demo_pca_command_def pca_start_def apply_limits_def with_offset_def
        position_ticks_def t set_pwm_def publish_pca_state_def pulse_block_def Let_def) (simp add: pca_defaults_def)
qed

theorem pca_pulses_in_range_witness:
  "\<exists>off n. 110 \<le> off \<and> off \<le> 520 \<and> [0, 0, 195, 1] = take n [0, 0, off mod 256, off div (256 :: int)]"
proof -
  have c: "config_ok pca_defaults" by (simp add: config_ok_def pca_defaults_def)
  have "Pca_write 18 [0, 0, 195, 1] \<in> set (pv_out (pca_run [Pv_command demo_pca_command Block_written] (pca_start pca_defaults [] [])))"
    by (simp add: demo_pca_run)
  from pca_pulses_in_range [OF c this] show ?thesis by (auto simp: pca_defaults_def)
qed

text \<open>
  Ticks up to 180 are taken as an angle: a command of 110 to 180 ticks, values the driver can produce
  itself, is written as 360 to 520 ticks, and asking for the lowest ticks drives the servo to the middle of
  its range and beyond.
\<close>

theorem low_ticks_are_read_as_angle:
  assumes "110 \<le> p" "p \<le> 180"
  shows "position_ticks pca_defaults p = 110 + 41 * p div 18 \<and> 360 \<le> position_ticks pca_defaults p"
proof -
  have "position_ticks pca_defaults p = 110 + 41 * p div 18"
    using assms default_angle_ticks [of p] by (simp add: position_ticks_def)
  with assms show ?thesis by auto
qed

text \<open>
  Limits are applied before the offset, so a channel moves beyond its limit: with the limit 90 degrees and an
  offset of 100 ticks it is driven to 415 ticks, which is 134 degrees.
\<close>

theorem offset_passes_limit:
  "\<exists>m. pca_run [Pv_command demo_pca_command Block_written] (pca_start pca_defaults [(3, Fin 100)] [(3, J_null, J_int 90)]) = m
     \<and> Pca_write 18 (pulse_bytes 415) \<in> set (pv_out m) \<and> angle_ticks pca_defaults 90 < 415"
proof -
  have t: "angle_ticks pca_defaults 90 = 315" by (subst default_angle_ticks) simp
  have l: "limit_bound (J_int 90) = Inr 90" using round_even_int [of 90] by (simp add: limit_bound_def json_float_def int_float_small py_round_def)
  have r: "round_even 415 = 415" using round_even_int [of 415] by simp
  show ?thesis
    by (simp add: pca_run_def pca_command_callback_def demo_pca_command_def pca_start_def apply_limits_def l with_offset_def
        position_ticks_def t r set_pwm_def publish_pca_state_def pulse_block_def pulse_bytes_def Let_def) (simp add: pca_defaults_def)
qed

text \<open>
  Shutting the driver down is a motion: every channel used so far is driven to the middle, whatever the safety
  state of the robot.
\<close>

theorem shutdown_moves_channels:
  assumes "channel \<in> pv_channels m" "distinct order" "set order = pv_channels m" "pca_ok cf m" "config_ok cf" "pv_ready m" "\<And>ch. transfer ch = Block_written"
  shows "\<exists>bytes. Pca_write (6 + 4 * channel) bytes \<in> set (pv_out (reset_pca_servos order transfer m))"
proof -
  let ?step = "\<lambda>ch m. snd (set_pwm ch (angle_ticks (pv_config m) 90) (transfer ch) m)"
  have keep: "x \<in> set (pv_out m1) \<Longrightarrow> x \<in> set (pv_out (fold ?step chs m1))" for x chs m1
    by (induction chs arbitrary: m1) (auto simp: set_pwm_def Let_def assms(7))
  have "pv_ready m1 \<Longrightarrow> channel \<in> set chs \<Longrightarrow> 0 \<le> channel \<Longrightarrow> channel \<le> 15 \<Longrightarrow>
      \<exists>bytes. Pca_write (6 + 4 * channel) bytes \<in> set (pv_out (fold ?step chs m1))" for chs m1
  proof (induction chs arbitrary: m1)
    case (Cons ch chs)
    show ?case
    proof (cases "ch = channel")
      case True
      with Cons.prems have "\<exists>bytes. Pca_write (6 + 4 * channel) bytes \<in> set (pv_out (?step ch m1))"
        by (auto simp: set_pwm_def Let_def assms(7))
      then show ?thesis using keep by auto
    next
      case False
      have "pv_ready (?step ch m1)" using Cons.prems(1) by (simp add: set_pwm_def Let_def assms(7))
      from Cons.IH [OF this] False Cons.prems show ?thesis by simp
    qed
  qed simp
  from this [of m order] assms(1-4,6) show ?thesis by (auto simp: reset_pca_servos_def pca_ok_def)
qed

end
