(* ===== verification/Sim_Bridge.thy ===== *)
theory Sim_Bridge
  imports Bus_Servo Pca_Servo Safety_Latch
begin

text \<open>
  The servo-level simulation bridge (\<open>sim_servo_bridge_utils.py\<close>, \<open>sim_servo_bridge_node.py\<close>): commands
  of the simulator go to the topic of the servo drivers, states of the drivers to the simulator. A
  message carries integers of the widths of \<open>servo_msgs\<close>, so reading its fields as integers cannot fail;
  the time of the clock is an argument of a callback. The bridge publishes on the
  drivers' topic itself; what it forwards passes no arbiter.
\<close>

definition BUS_MIN_PULSE :: int where "BUS_MIN_PULSE = 500"
definition BUS_MAX_PULSE :: int where "BUS_MAX_PULSE = 2500"
definition PCA_MIN_VALUE :: int where "PCA_MIN_VALUE = 0"
definition PCA_MAX_VALUE :: int where "PCA_MAX_VALUE = 4095"

definition normalize_servo_type :: "string \<Rightarrow> string option" where
  "normalize_servo_type servo_type =
     (if norm_text servo_type \<in> {''bus'', ''pca''} then Some (norm_text servo_type) else None)"

definition clamp_servo_position :: "string \<Rightarrow> int \<Rightarrow> bool \<Rightarrow> int option" where
  "clamp_servo_position servo_type position enforce_limits =
     (case normalize_servo_type servo_type of
        None \<Rightarrow> None
      | Some kind \<Rightarrow>
          if \<not> enforce_limits then Some position
          else if kind = ''bus'' then Some (max BUS_MIN_PULSE (min BUS_MAX_PULSE position))
          else Some (max PCA_MIN_VALUE (min PCA_MAX_VALUE position)))"

definition normalize_speed :: "int \<Rightarrow> int \<Rightarrow> int" where
  "normalize_speed speed default_speed =
     (let value = (if speed \<le> 0 then default_speed else speed) in max 0 (min 65535 value))"

record sim_bridge =
  sb_default_speed :: int
  sb_enforce_limits :: bool
  sb_commands :: "servo_command list"                \<comment> \<open>published to the drivers, newest first\<close>
  sb_states :: "(servo_state \<times> ros_stamp) list"      \<comment> \<open>published to the simulator, newest first\<close>
  sb_command_forward_count :: nat
  sb_state_forward_count :: nat

definition sim_bridge_init :: "int \<Rightarrow> bool \<Rightarrow> sim_bridge" where
  "sim_bridge_init speed enforce =
     \<lparr>sb_default_speed = speed, sb_enforce_limits = enforce, sb_commands = [], sb_states = [],
      sb_command_forward_count = 0, sb_state_forward_count = 0\<rparr>"

definition forward_stamp :: "ros_stamp \<Rightarrow> ros_stamp \<Rightarrow> ros_stamp" where
  "forward_stamp now stamp = (if stamp = Ros_time 0 0 then now else stamp)"

definition forwarded_command :: "sim_bridge \<Rightarrow> ros_stamp \<Rightarrow> servo_command \<Rightarrow> servo_command option" where
  "forwarded_command b now msg =
     (case normalize_servo_type (sc_servo_type msg) of
        None \<Rightarrow> None
      | Some servo_type \<Rightarrow>
          (case clamp_servo_position servo_type (sc_position msg) (sb_enforce_limits b) of
             None \<Rightarrow> None
           | Some position \<Rightarrow>
               Some \<lparr>sc_servo_type = servo_type, sc_servo_id = sc_servo_id msg, sc_position = position,
                     sc_speed = normalize_speed (sc_speed msg) (sb_default_speed b),
                     sc_stamp = forward_stamp now (sc_stamp msg)\<rparr>))"

definition sim_servo_command_callback :: "ros_stamp \<Rightarrow> servo_command \<Rightarrow> sim_bridge \<Rightarrow> sim_bridge" where
  "sim_servo_command_callback now msg b =
     (case forwarded_command b now msg of
        None \<Rightarrow> b
      | Some f \<Rightarrow> b\<lparr>sb_commands := f # sb_commands b, sb_command_forward_count := sb_command_forward_count b + 1\<rparr>)"

definition servo_state_callback :: "ros_stamp \<Rightarrow> servo_state \<Rightarrow> ros_stamp \<Rightarrow> sim_bridge \<Rightarrow> sim_bridge" where
  "servo_state_callback now msg stamp b =
     (case normalize_servo_type (ss_servo_type msg) of
        None \<Rightarrow> b
      | Some servo_type \<Rightarrow>
          (case clamp_servo_position servo_type (ss_position msg) (sb_enforce_limits b) of
             None \<Rightarrow> b
           | Some position \<Rightarrow>
               b\<lparr>sb_states := (msg\<lparr>ss_servo_type := servo_type, ss_position := position\<rparr>, forward_stamp now stamp) # sb_states b,
                 sb_state_forward_count := sb_state_forward_count b + 1\<rparr>))"

datatype sim_event = Sim_command ros_stamp servo_command | Sim_state ros_stamp servo_state ros_stamp

fun sim_step :: "sim_event \<Rightarrow> sim_bridge \<Rightarrow> sim_bridge" where
  "sim_step (Sim_command now msg) b = sim_servo_command_callback now msg b"
| "sim_step (Sim_state now msg stamp) b = servo_state_callback now msg stamp b"

definition sim_run :: "sim_event list \<Rightarrow> sim_bridge \<Rightarrow> sim_bridge" where
  "sim_run es b = fold sim_step es b"

section \<open>Facts\<close>

lemmas bridge_limits = BUS_MIN_PULSE_def BUS_MAX_PULSE_def PCA_MIN_VALUE_def PCA_MAX_VALUE_def

lemma norm_bus: "norm_text ''bus'' = ''bus''" and norm_pca: "norm_text ''pca'' = ''pca''"
  by code_simp+

lemma normalized_type: "normalize_servo_type s = Some t \<Longrightarrow> t \<in> {''bus'', ''pca''} \<and> normalize_servo_type t = Some t"
  by (auto simp: normalize_servo_type_def norm_bus norm_pca split: if_splits)

lemma normalize_speed_range: "0 \<le> normalize_speed s d \<and> normalize_speed s d \<le> 65535"
  by (simp add: normalize_speed_def Let_def)

lemma normalize_speed_positive: "0 < d \<Longrightarrow> 0 < normalize_speed s d"
  by (auto simp: normalize_speed_def Let_def)

lemma normalize_speed_idem: "0 < d \<Longrightarrow> normalize_speed (normalize_speed s d) d = normalize_speed s d"
  by (auto simp: normalize_speed_def Let_def)

text \<open>What a bridge with limits may have published.\<close>

definition sim_command_ok :: "servo_command \<Rightarrow> bool" where
  "sim_command_ok c \<longleftrightarrow>
     (sc_servo_type c = ''bus'' \<and> 500 \<le> sc_position c \<and> sc_position c \<le> 2500
      \<or> sc_servo_type c = ''pca'' \<and> 0 \<le> sc_position c \<and> sc_position c \<le> 4095)
     \<and> 0 < sc_speed c \<and> sc_speed c \<le> 65535"

definition sim_bridge_ok :: "sim_bridge \<Rightarrow> bool" where
  "sim_bridge_ok b \<longleftrightarrow> sb_enforce_limits b \<and> 0 < sb_default_speed b \<and> list_all sim_command_ok (sb_commands b)
     \<and> length (sb_commands b) = sb_command_forward_count b \<and> length (sb_states b) = sb_state_forward_count b"

lemma clamped_position:
  assumes "clamp_servo_position t p True = Some q" "t \<in> {''bus'', ''pca''}"
  shows "t = ''bus'' \<and> 500 \<le> q \<and> q \<le> 2500 \<or> t = ''pca'' \<and> 0 \<le> q \<and> q \<le> 4095"
proof -
  have "normalize_servo_type t = Some t" using assms(2) by (auto simp: normalize_servo_type_def norm_bus norm_pca)
  moreover have "t = ''bus'' \<or> t = ''pca''" using assms(2) by simp
  ultimately show ?thesis using assms(1) by (elim disjE) (simp_all add: clamp_servo_position_def bridge_limits, linarith+)
qed

lemma forwarded_command_ok:
  assumes "forwarded_command b now msg = Some f" "sb_enforce_limits b" "0 < sb_default_speed b"
  shows "sim_command_ok f"
proof -
  obtain t q where t: "normalize_servo_type (sc_servo_type msg) = Some t"
    and q: "clamp_servo_position t (sc_position msg) True = Some q"
    and f: "f = \<lparr>sc_servo_type = t, sc_servo_id = sc_servo_id msg, sc_position = q,
                 sc_speed = normalize_speed (sc_speed msg) (sb_default_speed b), sc_stamp = forward_stamp now (sc_stamp msg)\<rparr>"
    using assms(1,2) by (auto simp: forwarded_command_def split: option.splits)
  show ?thesis
    using clamped_position [OF q] normalized_type [OF t] normalize_speed_range normalize_speed_positive [OF assms(3)]
    by (simp add: sim_command_ok_def f)
qed

lemma sim_step_ok: "sim_bridge_ok b \<Longrightarrow> sim_bridge_ok (sim_step e b)"
  using forwarded_command_ok
  by (cases e)
     (auto simp: sim_bridge_ok_def sim_servo_command_callback_def servo_state_callback_def split: option.splits)

lemma sim_run_ok: "sim_bridge_ok b \<Longrightarrow> sim_bridge_ok (sim_run es b)"
  unfolding sim_run_def by (induction es arbitrary: b) (auto intro: sim_step_ok)

section \<open>Properties\<close>

text \<open>
  Whatever the simulator and the drivers send, every command the bridge has published is normal: a known servo
  type, a position in the range of this type, a positive 16-bit speed. A bus position that it lets through is a
  pulse width for the driver, never an angle.
\<close>

theorem simulator_commands_are_normal:
  assumes "0 < speed" "c \<in> set (sb_commands (sim_run es (sim_bridge_init speed True)))"
  shows "sim_command_ok c \<and> (sc_servo_type c = ''bus'' \<longrightarrow> position_pulse (sc_position c) = sc_position c)"
proof -
  have "sim_bridge_ok (sim_bridge_init speed True)" using assms(1) by (simp add: sim_bridge_ok_def sim_bridge_init_def)
  then have "sim_bridge_ok (sim_run es (sim_bridge_init speed True))" by (rule sim_run_ok)
  then have "sim_command_ok c" using assms(2) by (simp add: sim_bridge_ok_def list_all_iff)
  then show ?thesis by (auto simp: sim_command_ok_def position_pulse_def)
qed

definition sim_demo_command :: servo_command where
  "sim_demo_command = \<lparr>sc_servo_type = '' BUS '', sc_servo_id = 3, sc_position = 90, sc_speed = 0, sc_stamp = Ros_time 0 0\<rparr>"

definition sim_demo_forwarded :: servo_command where
  "sim_demo_forwarded = \<lparr>sc_servo_type = ''bus'', sc_servo_id = 3, sc_position = 500, sc_speed = 100, sc_stamp = Ros_time 7 0\<rparr>"

lemma sim_demo_run:
  "sb_commands (sim_run [Sim_command (Ros_time 7 0) sim_demo_command] (sim_bridge_init 100 True)) = [sim_demo_forwarded]"
  by code_simp

theorem simulator_commands_are_normal_witness:
  "sim_command_ok sim_demo_forwarded \<and> position_pulse 500 = 500"
  using simulator_commands_are_normal [of 100 sim_demo_forwarded "[Sim_command (Ros_time 7 0) sim_demo_command]"] sim_demo_run
  by (simp add: sim_demo_forwarded_def)

text \<open>Forwarding is idempotent: a second bridge behind the first changes nothing.\<close>

theorem forwarding_is_idempotent:
  assumes "forwarded_command b now msg = Some f" "sb_enforce_limits b" "0 < sb_default_speed b" "now \<noteq> Ros_time 0 0"
  shows "forwarded_command b later f = Some f"
proof -
  obtain t q where t: "normalize_servo_type (sc_servo_type msg) = Some t"
    and q: "clamp_servo_position t (sc_position msg) True = Some q"
    and f: "f = \<lparr>sc_servo_type = t, sc_servo_id = sc_servo_id msg, sc_position = q,
                 sc_speed = normalize_speed (sc_speed msg) (sb_default_speed b), sc_stamp = forward_stamp now (sc_stamp msg)\<rparr>"
    using assms(1,2) by (auto simp: forwarded_command_def split: option.splits)
  have "normalize_servo_type t = Some t" using normalized_type [OF t] by blast
  moreover from this have "clamp_servo_position t q True = Some q"
    using clamped_position [OF q] normalized_type [OF t] by (auto simp: clamp_servo_position_def bridge_limits)
  moreover have "forward_stamp later (forward_stamp now s) = forward_stamp now s" for s
    using assms(4) by (simp add: forward_stamp_def)
  ultimately show ?thesis using assms(2,3) by (simp add: forwarded_command_def f normalize_speed_idem)
qed

text \<open>
  Once stopped, a driver refuses a command without a time, because it may be from before the stop. Behind the bridge the same command has
  the time of its forwarding, and the driver takes it.
\<close>

theorem undated_command_is_refreshed:
  assumes "sc_stamp msg = Ros_time 0 0" "forwarded_command b (Ros_time s ns) msg = Some f"
    "\<not> latch_latched l" "0 < latch_fence_ns l" "latch_fence_ns l < ros_time_to_ns (Ros_time s ns)"
  shows "\<not> fst (latch_admit (ros_time_to_ns (sc_stamp msg)) False 0 l)
     \<and> fst (latch_admit (ros_time_to_ns (sc_stamp f)) False 0 l)"
proof -
  have "sc_stamp f = Ros_time s ns"
    using assms(1,2) by (auto simp: forwarded_command_def forward_stamp_def split: option.splits)
  then show ?thesis using assms by (simp add: latch_admit_def)
qed

end
