(* ===== verification/Bvh_Player.thy ===== *)
theory Bvh_Player
  imports Json_Values
begin

text \<open>
  The thread of a playback: \<open>play\<close>, \<open>stop\<close>, \<open>_stop_locked\<close>, \<open>_worker_entry\<close> and the loop of \<open>_run\<close> in
  \<open>bvh_player.py\<close>. Operations exclude each other by \<open>_operation_lock\<close>; one in progress is cut where it
  takes \<open>_state_lock\<close>, sets the event, joins or starts the thread. A worker is named by its generation
  and runs through a script of the actions that its frames amount to. The publish callback may call
  \<open>stop\<close> itself (the caller of an operation is then the worker).
\<close>

section \<open>Scripts\<close>

record bvh_command =
  bc_servo_type :: json
  bc_servo_id :: int
  bc_position :: int

text \<open>
  What the loop of \<open>_run\<close> does with one pass over the frames: look at the stop event, publish a command, wait
  after a command (\<open>Pause\<close>) or after a frame (\<open>Wait\<close>). A command whose fields cannot be read is \<open>None\<close>: its failure
  is logged, and with it the pause is left out.
\<close>

datatype script_item = Check | Publish bvh_command | Pause | Wait

definition command_script :: "bool \<Rightarrow> bvh_command option \<Rightarrow> script_item list" where
  "command_script delayed cmd =
     (case cmd of
        None \<Rightarrow> [Check]
      | Some c \<Rightarrow> if delayed then [Check, Publish c] else [Check, Publish c, Pause])"

definition frame_script :: "bool \<Rightarrow> bvh_command option list \<Rightarrow> script_item list" where
  "frame_script delayed frame =
     Check # concat (map (command_script delayed) frame) @ (if delayed then [Wait] else [])"

definition script_of :: "bool \<Rightarrow> bvh_command option list list \<Rightarrow> script_item list" where
  "script_of delayed frames = concat (map (frame_script delayed) frames)"

section \<open>State\<close>

datatype worker_point =
    Wp_new          \<comment> \<open>created\<close>
  | Wp_load         \<comment> \<open>in \<open>_run\<close>, before its loop\<close>
  | Wp_run "script_item list"
  | Wp_finally      \<comment> \<open>before the \<open>finally\<close> block of \<open>_worker_entry\<close>\<close>
  | Wp_leaving      \<comment> \<open>behind it, the thread still alive\<close>
  | Wp_dead

record worker =
  wk_point :: worker_point
  wk_stop :: bool                          \<comment> \<open>its stop event\<close>
  wk_script :: "script_item list"
  wk_loop :: bool

text \<open>\<open>play(None)\<close> only stops.\<close>

datatype player_call = Call_stop | Call_play_null | Call_play bool

datatype op_point = Op_read | Op_set nat | Op_join nat | Op_clear nat | Op_create | Op_start nat

record player_op =
  po_call :: player_call
  po_caller :: "nat option"                \<comment> \<open>the worker that calls, if one does\<close>
  po_point :: op_point

record player =
  bp_thread :: "nat option"                \<comment> \<open>\<open>_thread\<close> with its \<open>_stop_event\<close>\<close>
  bp_generation :: nat
  bp_workers :: "nat \<Rightarrow> worker option"
  bp_op :: "player_op option"
  bp_answer :: "bool option"               \<comment> \<open>of the last operation\<close>
  bp_out :: "(nat \<times> bvh_command) list"     \<comment> \<open>published, newest first\<close>

definition player_init :: player where
  "player_init = \<lparr>bp_thread = None, bp_generation = 0, bp_workers = (\<lambda>_. None), bp_op = None, bp_answer = None, bp_out = []\<rparr>"

definition set_worker :: "nat \<Rightarrow> worker \<Rightarrow> player \<Rightarrow> player" where
  "set_worker g w p = p\<lparr>bp_workers := (bp_workers p)(g \<mapsto> w)\<rparr>"

definition clear_thread :: "nat \<Rightarrow> player \<Rightarrow> player" where
  "clear_thread g p = (if bp_generation p = g \<and> bp_thread p = Some g then p\<lparr>bp_thread := None\<rparr> else p)"

section \<open>Operations\<close>

definition op_answers :: "bool \<Rightarrow> player \<Rightarrow> player" where
  "op_answers r p = p\<lparr>bp_op := None, bp_answer := Some r\<rparr>"

definition op_goes :: "player_op \<Rightarrow> op_point \<Rightarrow> player \<Rightarrow> player" where
  "op_goes q pt p = p\<lparr>bp_op := Some (q\<lparr>po_point := pt\<rparr>)\<rparr>"

text \<open>\<open>_stop_locked\<close> has returned \<open>stopped\<close>.\<close>

definition op_stopped :: "player_op \<Rightarrow> bool \<Rightarrow> player \<Rightarrow> player" where
  "op_stopped q stopped p =
     (case po_call q of
        Call_stop \<Rightarrow> op_answers stopped p
      | Call_play_null \<Rightarrow> op_answers False p
      | Call_play loop \<Rightarrow> if stopped then op_goes q Op_create p else op_answers False p)"

text \<open>The next section of an operation; \<open>late\<close> is the time-out of the join, or a thread that cannot be started.\<close>

definition op_step :: "bool \<Rightarrow> player \<Rightarrow> player option" where
  "op_step late p =
     (case bp_op p of
        None \<Rightarrow> None
      | Some q \<Rightarrow>
          (case po_point q of
             Op_read \<Rightarrow>
               Some (case bp_thread p of None \<Rightarrow> op_stopped q True p | Some g \<Rightarrow> op_goes q (Op_set g) p)
           | Op_set g \<Rightarrow>
               (case bp_workers p g of
                  None \<Rightarrow> None
                | Some w \<Rightarrow>
                    let p1 = set_worker g (w\<lparr>wk_stop := True\<rparr>) p
                    in Some (if po_caller q = Some g then op_stopped q False p1 else op_goes q (Op_join g) p1))
           | Op_join g \<Rightarrow>
               (case bp_workers p g of
                  None \<Rightarrow> None
                | Some w \<Rightarrow>
                    if wk_point w = Wp_dead then Some (op_goes q (Op_clear g) p)
                    else if late then Some (op_stopped q False p)
                    else None)
           | Op_clear g \<Rightarrow> Some (op_stopped q True (clear_thread g p))
           | Op_create \<Rightarrow>
               (let g = bp_generation p + 1;
                    w = \<lparr>wk_point = Wp_new, wk_stop = False, wk_script = [], wk_loop = (po_call q = Call_play True)\<rparr>
                in Some (op_goes q (Op_start g) (set_worker g w (p\<lparr>bp_generation := g, bp_thread := Some g\<rparr>))))
           | Op_start g \<Rightarrow>
               (case bp_workers p g of
                  None \<Rightarrow> None
                | Some w \<Rightarrow>
                    Some (if late then op_answers False (clear_thread g p)
                          else op_answers True (set_worker g (w\<lparr>wk_point := Wp_load\<rparr>) p)))))"

section \<open>Workers\<close>

text \<open>How a section of a worker goes: what loading yields, the outcome of a publication or a wait.\<close>

datatype worker_input =
    Wi_loaded bool "bvh_command option list list"     \<comment> \<open>delayed?, frames; none if nothing is played\<close>
  | Wi_go
  | Wi_fails                                          \<comment> \<open>the section raises\<close>
  | Wi_late                                           \<comment> \<open>no time left to wait\<close>

text \<open>The point after the rest of a pass; the pass starts again in a loop.\<close>

definition run_on :: "worker \<Rightarrow> script_item list \<Rightarrow> worker_point" where
  "run_on w rest = (if rest = [] then (if wk_loop w then Wp_run (wk_script w) else Wp_finally) else Wp_run rest)"

definition skip_pause :: "script_item list \<Rightarrow> script_item list" where
  "skip_pause rest = (case rest of Pause # r \<Rightarrow> r | _ \<Rightarrow> rest)"

definition worker_runs :: "nat \<Rightarrow> worker \<Rightarrow> script_item \<Rightarrow> script_item list \<Rightarrow> worker_input \<Rightarrow> player \<Rightarrow> player" where
  "worker_runs g w item rest i p =
     (case item of
        Check \<Rightarrow> set_worker g (w\<lparr>wk_point := (if wk_stop w then Wp_finally else run_on w rest)\<rparr>) p
      | Publish c \<Rightarrow>
          if i = Wi_fails then set_worker g (w\<lparr>wk_point := run_on w (skip_pause rest)\<rparr>) p
          else set_worker g (w\<lparr>wk_point := run_on w rest\<rparr>) (p\<lparr>bp_out := (g, c) # bp_out p\<rparr>)
      | Pause \<Rightarrow> set_worker g (w\<lparr>wk_point := (if wk_stop w then Wp_finally else run_on w rest)\<rparr>) p
      | Wait \<Rightarrow>
          set_worker g (w\<lparr>wk_point :=
            (if i = Wi_fails then Wp_finally
             else if i = Wi_late then run_on w rest
             else if wk_stop w then Wp_finally else run_on w rest)\<rparr>) p)"

definition is_caller :: "nat \<Rightarrow> player \<Rightarrow> bool" where
  "is_caller g p \<longleftrightarrow> (case bp_op p of None \<Rightarrow> False | Some q \<Rightarrow> po_caller q = Some g)"

definition worker_step :: "nat \<Rightarrow> worker_input \<Rightarrow> player \<Rightarrow> player option" where
  "worker_step g i p =
     (case bp_workers p g of
        None \<Rightarrow> None
      | Some w \<Rightarrow>
          if is_caller g p then None
          else (case wk_point w of
                  Wp_load \<Rightarrow>
                    (case i of
                       Wi_loaded delayed frames \<Rightarrow>
                         let s = script_of delayed frames
                         in Some (set_worker g (w\<lparr>wk_script := s, wk_point := (if frames = [] then Wp_finally else Wp_run s)\<rparr>) p)
                     | Wi_fails \<Rightarrow> Some (set_worker g (w\<lparr>wk_point := Wp_finally\<rparr>) p)
                     | _ \<Rightarrow> None)
                | Wp_run (item # rest) \<Rightarrow> Some (worker_runs g w item rest i p)
                | Wp_finally \<Rightarrow> Some (set_worker g (w\<lparr>wk_point := Wp_leaving\<rparr>) (clear_thread g p))
                | Wp_leaving \<Rightarrow> Some (set_worker g (w\<lparr>wk_point := Wp_dead\<rparr>) p)
                | _ \<Rightarrow> None))"

section \<open>Steps\<close>

datatype player_event =
    Pl_call player_call "nat option"
  | Pl_op bool
  | Pl_worker nat worker_input

text \<open>A worker calls from within its publish callback.\<close>

definition may_call :: "nat option \<Rightarrow> player \<Rightarrow> bool" where
  "may_call caller p \<longleftrightarrow>
     bp_op p = None \<and>
     (case caller of
        None \<Rightarrow> True
      | Some g \<Rightarrow>
          (case bp_workers p g of
             Some w \<Rightarrow> (case wk_point w of Wp_run (Publish c # rest) \<Rightarrow> True | _ \<Rightarrow> False)
           | None \<Rightarrow> False))"

definition player_calls :: "player_call \<Rightarrow> nat option \<Rightarrow> player \<Rightarrow> player" where
  "player_calls call caller p = p\<lparr>bp_op := Some \<lparr>po_call = call, po_caller = caller, po_point = Op_read\<rparr>, bp_answer := None\<rparr>"

fun player_step :: "player_event \<Rightarrow> player \<Rightarrow> player option" where
  "player_step (Pl_call call caller) p = (if may_call caller p then Some (player_calls call caller p) else None)"
| "player_step (Pl_op late) p = op_step late p"
| "player_step (Pl_worker g i) p = worker_step g i p"

inductive player_reachable :: "player \<Rightarrow> bool" where
  start: "player_reachable player_init"
| step: "player_reachable p \<Longrightarrow> player_step e p = Some p' \<Longrightarrow> player_reachable p'"

fun player_run :: "player_event list \<Rightarrow> player \<Rightarrow> player option" where
  "player_run [] p = Some p"
| "player_run (e # es) p = Option.bind (player_step e p) (player_run es)"

lemma player_run_append: "player_run (es @ fs) p = Option.bind (player_run es p) (player_run fs)"
  by (induction es arbitrary: p) (auto simp: bind_assoc split: bind_splits)

lemma player_run_reachable: "player_run es p = Some p' \<Longrightarrow> player_reachable p \<Longrightarrow> player_reachable p'"
  by (induction es arbitrary: p) (auto simp: bind_eq_Some_conv intro: player_reachable.step)

section \<open>Scripts are guarded\<close>

text \<open>Every publication comes right after a look at the event, and after a frame the next thing is such a look.\<close>

fun guarded :: "script_item list \<Rightarrow> bool" where
  "guarded [] = True"
| "guarded (Check # Publish c # rest) = guarded rest"
| "guarded (Publish c # rest) = False"
| "guarded (Wait # rest) = ((rest = [] \<or> hd rest = Check) \<and> guarded rest)"
| "guarded (item # rest) = guarded rest"

definition at_item :: "script_item list \<Rightarrow> bool" where
  "at_item rest \<longleftrightarrow> rest \<noteq> [] \<and> (guarded rest \<or> (case rest of Publish c # r \<Rightarrow> guarded r | _ \<Rightarrow> False))"

lemma guarded_Check: "guarded t \<Longrightarrow> guarded (Check # t)"
  by (cases t rule: guarded.cases) auto

lemma guarded_commands: "guarded t \<Longrightarrow> guarded (concat (map (command_script delayed) frame) @ t)"
  by (induction frame) (auto simp: command_script_def guarded_Check split: option.split)

lemma script_of_guarded:
  "guarded (script_of delayed frames) \<and> (frames \<noteq> [] \<longrightarrow> hd (script_of delayed frames) = Check \<and> script_of delayed frames \<noteq> [])"
proof (induction frames)
  case (Cons frame frames)
  define tl where "tl = (if delayed then [Wait] else []) @ script_of delayed frames"
  have "script_of delayed frames = [] \<or> hd (script_of delayed frames) = Check" using Cons by (cases frames) (auto simp: script_of_def)
  then have "guarded tl" using Cons by (auto simp: tl_def)
  moreover have "script_of delayed (frame # frames) = Check # concat (map (command_script delayed) frame) @ tl"
    by (simp add: script_of_def frame_script_def tl_def)
  ultimately show ?case using guarded_Check guarded_commands by simp
qed (simp add: script_of_def)

section \<open>Invariant\<close>

text \<open>
  Only the worker the player holds is between its start and its \<open>finally\<close> block. A worker behind it is held by no one,
  and one that was not started yet only while the operation that starts it is in progress.
\<close>

definition starting :: "player \<Rightarrow> nat option" where
  "starting p =
     (case bp_op p of None \<Rightarrow> None | Some q \<Rightarrow> (case po_point q of Op_start g \<Rightarrow> Some g | _ \<Rightarrow> None))"

definition worker_ok :: "nat \<Rightarrow> nat option \<Rightarrow> nat option \<Rightarrow> nat \<Rightarrow> worker \<Rightarrow> bool" where
  "worker_ok gen thread start g w \<longleftrightarrow>
     g \<le> gen \<and> guarded (wk_script w) \<and>
     (case wk_point w of
        Wp_new \<Rightarrow> thread = Some g \<longrightarrow> start = Some g
      | Wp_load \<Rightarrow> thread = Some g
      | Wp_run rest \<Rightarrow> thread = Some g \<and> at_item rest \<and> wk_script w \<noteq> [] \<and> hd (wk_script w) = Check
      | Wp_finally \<Rightarrow> thread = Some g
      | _ \<Rightarrow> thread \<noteq> Some g)"

definition op_ok :: "player \<Rightarrow> player_op \<Rightarrow> bool" where
  "op_ok p q \<longleftrightarrow>
     (case po_point q of
        Op_read \<Rightarrow> True
      | Op_set g \<Rightarrow> bp_workers p g \<noteq> None \<and> bp_thread p \<in> {None, Some g}
      | Op_join g \<Rightarrow> (\<exists>w. bp_workers p g = Some w \<and> wk_stop w) \<and> bp_thread p \<in> {None, Some g}
      | Op_clear g \<Rightarrow> (\<exists>w. bp_workers p g = Some w \<and> wk_point w = Wp_dead) \<and> bp_thread p = None
      | Op_create \<Rightarrow> bp_thread p = None \<and> (\<exists>loop. po_call q = Call_play loop)
      | Op_start g \<Rightarrow> bp_thread p = Some g \<and> map_option wk_point (bp_workers p g) = Some Wp_new \<and> (\<exists>loop. po_call q = Call_play loop))"

definition player_ok :: "player \<Rightarrow> bool" where
  "player_ok p \<longleftrightarrow>
     (\<forall>g w. bp_workers p g = Some w \<longrightarrow> worker_ok (bp_generation p) (bp_thread p) (starting p) g w)
     \<and> (\<forall>g. bp_thread p = Some g \<longrightarrow> g = bp_generation p \<and> bp_workers p g \<noteq> None)
     \<and> (\<forall>q. bp_op p = Some q \<longrightarrow> op_ok p q)"

lemmas player_ops = op_answers_def op_goes_def op_stopped_def clear_thread_def set_worker_def

lemma run_on_item: "guarded rest \<or> (\<exists>c r. rest = Publish c # r \<and> guarded r) \<Longrightarrow> guarded (wk_script w) \<Longrightarrow>
   wk_script w \<noteq> [] \<Longrightarrow> run_on w rest = Wp_finally \<or> (\<exists>r. run_on w rest = Wp_run r \<and> at_item r)"
  by (auto simp: run_on_def at_item_def)

lemma at_item_tail: "at_item (item # rest) \<Longrightarrow> guarded rest \<or> (\<exists>c r. rest = Publish c # r \<and> guarded r)"
  by (cases "item # rest" rule: guarded.cases) (auto simp: at_item_def)

lemma guarded_skip: "guarded rest \<Longrightarrow> guarded (skip_pause rest)"
  by (cases rest rule: guarded.cases) (auto simp: skip_pause_def)

lemma publish_tail: "at_item (Publish c # rest) \<Longrightarrow> guarded rest"
  by (auto simp: at_item_def)

lemma worker_ok_stop [simp]: "worker_ok gen thread start g (w\<lparr>wk_stop := b\<rparr>) = worker_ok gen thread start g w"
  by (simp add: worker_ok_def split: worker_point.split)

lemma starting_workers [simp]: "starting (p\<lparr>bp_workers := ws\<rparr>) = starting p" "starting (p\<lparr>bp_out := out\<rparr>) = starting p"
  by (simp_all add: starting_def)

lemma worker_ok_clear: "worker_ok gen thread start h w \<Longrightarrow> thread = Some g \<Longrightarrow> h \<noteq> g \<or> wk_point w \<in> {Wp_new, Wp_leaving, Wp_dead} \<Longrightarrow>
    worker_ok gen None start' h w"
  by (auto simp: worker_ok_def split: worker_point.splits)

lemma worker_ok_create: "worker_ok gen None start h w \<Longrightarrow> worker_ok (Suc gen) (Some (Suc gen)) start' h w"
  by (auto simp: worker_ok_def split: worker_point.splits)

lemma worker_ok_start: "worker_ok gen thread None h w \<Longrightarrow> worker_ok gen thread start' h w"
  by (auto simp: worker_ok_def split: worker_point.splits)

lemma worker_ok_started: "worker_ok gen thread (Some g) h w \<Longrightarrow> h \<noteq> g \<or> wk_point w \<noteq> Wp_new \<Longrightarrow> worker_ok gen thread None h w"
  by (auto simp: worker_ok_def split: worker_point.splits)

lemma player_okI:
  assumes "\<And>g w. bp_workers p g = Some w \<Longrightarrow> worker_ok (bp_generation p) (bp_thread p) (starting p) g w"
    "\<And>g. bp_thread p = Some g \<Longrightarrow> g = bp_generation p \<and> bp_workers p g \<noteq> None"
    "\<And>q. bp_op p = Some q \<Longrightarrow> op_ok p q"
  shows "player_ok p"
  using assms by (auto simp: player_ok_def)

lemma player_okD:
  assumes "player_ok p"
  shows "bp_workers p g = Some w \<Longrightarrow> worker_ok (bp_generation p) (bp_thread p) (starting p) g w"
    "bp_thread p = Some g \<Longrightarrow> g = bp_generation p \<and> bp_workers p g \<noteq> None"
    "bp_op p = Some q \<Longrightarrow> op_ok p q"
  using assms by (auto simp: player_ok_def)

text \<open>An operation that ends, or goes on without touching workers and the thread.\<close>

lemma op_stopped_ok:
  assumes "player_ok p" "bp_op p = Some q" "starting p = None" "stopped \<Longrightarrow> bp_thread p = None"
  shows "player_ok (op_stopped q stopped p)"
  using player_okD [OF assms(1)] assms(3,4)
  by (intro player_okI) (auto simp: op_stopped_def op_answers_def op_goes_def starting_def op_ok_def split: player_call.splits if_splits)

lemma op_goes_ok:
  assumes "player_ok p" "starting p = None" "op_ok (op_goes q pt p) (q\<lparr>po_point := pt\<rparr>)" "\<And>g. pt \<noteq> Op_start g"
  shows "player_ok (op_goes q pt p)"
  using player_okD [OF assms(1)] assms(2-4)
  by (intro player_okI) (auto simp: op_goes_def starting_def split: op_point.splits)

lemma set_stop_ok:
  assumes "player_ok p" "bp_workers p g = Some w"
  shows "player_ok (set_worker g (w\<lparr>wk_stop := True\<rparr>) p)"
  using player_okD [OF assms(1)] assms(2)
  by (intro player_okI) (auto simp: set_worker_def op_ok_def split: op_point.splits if_splits)

lemma op_step_ok:
  assumes ok: "player_ok p" and st: "op_step late p = Some p'"
  shows "player_ok p'"
proof -
  obtain q where q: "bp_op p = Some q" using st by (auto simp: op_step_def split: option.splits)
  note D = player_okD [OF ok]
  have opq: "op_ok p q" using D(3) q .
  show ?thesis
  proof (cases "po_point q")
    case Op_read
    then have s: "starting p = None" by (simp add: starting_def q)
    show ?thesis
    proof (cases "bp_thread p")
      case None
      then have "p' = op_stopped q True p" using st q Op_read by (simp add: op_step_def)
      then show ?thesis using op_stopped_ok [OF ok q s] None by simp
    next
      case (Some g)
      have "op_ok (op_goes q (Op_set g) p) (q\<lparr>po_point := Op_set g\<rparr>)" using D(2) [OF Some] Some by (auto simp: op_ok_def op_goes_def)
      moreover have "p' = op_goes q (Op_set g) p" using st q Op_read Some by (simp add: op_step_def)
      ultimately show ?thesis using op_goes_ok [OF ok s, of q "Op_set g"] by simp
    qed
  next
    case (Op_set g)
    then obtain w where w: "bp_workers p g = Some w" using opq by (auto simp: op_ok_def)
    define p1 where "p1 = set_worker g (w\<lparr>wk_stop := True\<rparr>) p"
    have ok1: "player_ok p1" unfolding p1_def using ok w by (rule set_stop_ok)
    have q1: "bp_op p1 = Some q" and s1: "starting p1 = None" by (simp_all add: p1_def set_worker_def q starting_def Op_set)
    have "op_ok (op_goes q (Op_join g) p1) (q\<lparr>po_point := Op_join g\<rparr>)"
      using opq Op_set by (simp add: op_ok_def op_goes_def p1_def set_worker_def)
    then show ?thesis
      using st q w Op_set op_stopped_ok [OF ok1 q1 s1, of False] op_goes_ok [OF ok1 s1, of q "Op_join g"]
      by (auto simp: op_step_def p1_def Let_def split: if_splits)
  next
    case (Op_join g)
    then obtain w where w: "bp_workers p g = Some w" "bp_thread p \<in> {None, Some g}" using opq by (auto simp: op_ok_def)
    have s: "starting p = None" by (simp add: starting_def q Op_join)
    show ?thesis
    proof (cases "wk_point w = Wp_dead")
      case True
      then have "bp_thread p = None" using D(1) [OF w(1)] w(2) by (auto simp: worker_ok_def)
      then have "op_ok (op_goes q (Op_clear g) p) (q\<lparr>po_point := Op_clear g\<rparr>)" using w True by (simp add: op_ok_def op_goes_def)
      moreover have "p' = op_goes q (Op_clear g) p" using st q Op_join w True by (simp add: op_step_def)
      ultimately show ?thesis using op_goes_ok [OF ok s, of q "Op_clear g"] by simp
    next
      case False
      then show ?thesis using st q Op_join w op_stopped_ok [OF ok q s, of False] by (auto simp: op_step_def split: if_splits)
    qed
  next
    case (Op_clear g)
    then have "bp_thread p = None" using opq by (simp add: op_ok_def)
    then show ?thesis
      using st q Op_clear op_stopped_ok [OF ok q, of True] by (simp add: op_step_def clear_thread_def starting_def)
  next
    case Op_create
    then have n: "bp_thread p = None" and l: "\<exists>loop. po_call q = Call_play loop" using opq by (simp_all add: op_ok_def)
    define g where "g = Suc (bp_generation p)"
    have new: "bp_workers p g = None"
      using D(1) [of g] by (cases "bp_workers p g") (auto simp: worker_ok_def g_def)
    have old: "bp_workers p h = Some w \<Longrightarrow> worker_ok g (Some g) (Some g) h w" for h w
      using D(1) [of h w] n worker_ok_create [of "bp_generation p"] unfolding g_def by metis
    have "p' = op_goes q (Op_start g) (set_worker g \<lparr>wk_point = Wp_new, wk_stop = False, wk_script = [], wk_loop = (po_call q = Call_play True)\<rparr>
        (p\<lparr>bp_generation := g, bp_thread := Some g\<rparr>))"
      using st q Op_create by (simp add: op_step_def g_def)
    then show ?thesis
      using old l
      by (intro player_okI) (auto simp: op_goes_def set_worker_def starting_def op_ok_def worker_ok_def split: if_splits)
  next
    case (Op_start g)
    then obtain w where w: "bp_workers p g = Some w" "wk_point w = Wp_new" and t: "bp_thread p = Some g"
      using opq by (auto simp: op_ok_def)
    have s: "starting p = Some g" by (simp add: starting_def q Op_start)
    have gen: "g = bp_generation p" using D(2) [OF t] by simp
    show ?thesis
    proof (cases late)
      case True
      then have p': "p' = p\<lparr>bp_thread := None, bp_op := None, bp_answer := Some False\<rparr>"
        using st q Op_start w t gen by (simp add: op_step_def clear_thread_def op_answers_def)
      have "bp_workers p h = Some v \<Longrightarrow> worker_ok (bp_generation p) None None h v" for h v
        using worker_ok_clear [OF D(1) t, of h v] w by (cases "h = g") auto
      then show ?thesis unfolding p' by (intro player_okI) (auto simp: starting_def)
    next
      case False
      then have p': "p' = op_answers True (set_worker g (w\<lparr>wk_point := Wp_load\<rparr>) p)"
        using st q Op_start w by (simp add: op_step_def)
      have "bp_workers p h = Some v \<Longrightarrow> h \<noteq> g \<Longrightarrow> worker_ok (bp_generation p) (bp_thread p) None h v" for h v
        using worker_ok_started [of "bp_generation p" "bp_thread p" g h v] D(1) [of h v] s by simp
      moreover have "worker_ok (bp_generation p) (bp_thread p) None g (w\<lparr>wk_point := Wp_load\<rparr>)"
        using D(1) [OF w(1)] t by (simp add: worker_ok_def)
      ultimately show ?thesis
        unfolding p' using D(2) by (intro player_okI) (auto simp: starting_def op_answers_def set_worker_def split: if_splits)
    qed
  qed
qed

text \<open>A worker at its next point, still the one the player holds, or behind its \<open>finally\<close> block.\<close>

lemma worker_moves_ok:
  assumes ok: "player_ok p" and w: "bp_workers p g = Some w" "wk_point w \<noteq> Wp_new" "wk_point w \<noteq> Wp_dead"
    and v: "worker_ok (bp_generation p) (bp_thread p) (starting p) g v" "wk_stop v = wk_stop w"
  shows "player_ok (set_worker g v p)"
  using player_okD [OF ok] w v
  by (intro player_okI) (auto simp: set_worker_def op_ok_def split: op_point.splits if_splits)

lemma published_ok: "player_ok p \<Longrightarrow> player_ok (p\<lparr>bp_out := out\<rparr>)"
  unfolding player_ok_def op_ok_def by (auto split: op_point.splits)

lemma worker_runs_ok:
  assumes ok: "player_ok p" and w: "bp_workers p g = Some w" "wk_point w = Wp_run (item # rest)"
  shows "player_ok (worker_runs g w item rest i p)"
proof -
  have W: "worker_ok (bp_generation p) (bp_thread p) (starting p) g w" using player_okD(1) [OF ok w(1)] .
  have a: "at_item (item # rest)" "guarded (wk_script w)" "wk_script w \<noteq> []" using W w(2) by (simp_all add: worker_ok_def)
  have moves: "player_ok (set_worker g (w\<lparr>wk_point := pt\<rparr>) p1)"
    if "pt = Wp_finally \<or> (\<exists>r. pt = Wp_run r \<and> at_item r)" "p1 = p\<lparr>bp_out := out\<rparr>" for pt p1 out
    using that W w published_ok [OF ok]
    by (intro worker_moves_ok [of _ _ w]) (auto simp: worker_ok_def)
  have on: "guarded r \<or> (\<exists>c s. r = Publish c # s \<and> guarded s) \<Longrightarrow> run_on w r = Wp_finally \<or> (\<exists>s. run_on w r = Wp_run s \<and> at_item s)" for r
    using run_on_item [of r w] a(2,3) by blast
  have same: "p = p\<lparr>bp_out := bp_out p\<rparr>" by simp
  show ?thesis
  proof (cases item)
    case (Publish c)
    then have "guarded rest" "guarded (skip_pause rest)" using a(1) publish_tail guarded_skip by auto
    then have o: "run_on w rest = Wp_finally \<or> (\<exists>r. run_on w rest = Wp_run r \<and> at_item r)"
      "run_on w (skip_pause rest) = Wp_finally \<or> (\<exists>r. run_on w (skip_pause rest) = Wp_run r \<and> at_item r)"
      using on by blast+
    show ?thesis
    proof (cases "i = Wi_fails")
      case True
      then show ?thesis using Publish moves [OF o(2) same] by (simp add: worker_runs_def)
    next
      case False
      then show ?thesis using Publish moves [OF o(1), of _ "(g, c) # bp_out p"] by (simp add: worker_runs_def)
    qed
  qed (use moves [OF _ same] on [OF at_item_tail [OF a(1)]] in \<open>auto simp: worker_runs_def\<close>)
qed

lemma worker_step_ok:
  assumes ok: "player_ok p" and st: "worker_step g i p = Some p'"
  shows "player_ok p'"
proof -
  obtain w where w: "bp_workers p g = Some w" using st by (auto simp: worker_step_def split: option.splits)
  note W = player_okD(1) [OF ok w]
  note D = player_okD [OF ok]
  have nc: "\<not> is_caller g p" using st w by (simp add: worker_step_def split: if_splits)
  show ?thesis
  proof (cases "wk_point w")
    case Wp_load
    then have t: "bp_thread p = Some g" "g \<le> bp_generation p" using W by (simp_all add: worker_ok_def)
    consider (loaded) delayed frames where "i = Wi_loaded delayed frames" | (fails) "i = Wi_fails"
      using st w nc Wp_load by (auto simp: worker_step_def split: worker_input.splits)
    then show ?thesis
    proof cases
      case loaded
      note g = script_of_guarded [of delayed frames]
      have "at_item (script_of delayed frames)" if "frames \<noteq> []" using g that by (simp add: at_item_def)
      then have "worker_ok (bp_generation p) (bp_thread p) (starting p) g
          (w\<lparr>wk_script := script_of delayed frames, wk_point := (if frames = [] then Wp_finally else Wp_run (script_of delayed frames))\<rparr>)"
        using g t by (auto simp: worker_ok_def)
      moreover have "p' = set_worker g (w\<lparr>wk_script := script_of delayed frames, wk_point := (if frames = [] then Wp_finally else Wp_run (script_of delayed frames))\<rparr>) p"
        using st w nc Wp_load loaded by (simp add: worker_step_def Let_def)
      ultimately show ?thesis using worker_moves_ok [OF ok w, of "w\<lparr>wk_script := script_of delayed frames, wk_point := (if frames = [] then Wp_finally else Wp_run (script_of delayed frames))\<rparr>"] Wp_load by simp
    next
      case fails
      have "worker_ok (bp_generation p) (bp_thread p) (starting p) g (w\<lparr>wk_point := Wp_finally\<rparr>)"
        using W t by (simp add: worker_ok_def)
      moreover have "p' = set_worker g (w\<lparr>wk_point := Wp_finally\<rparr>) p" using st w nc Wp_load fails by (simp add: worker_step_def)
      ultimately show ?thesis using worker_moves_ok [OF ok w, of "w\<lparr>wk_point := Wp_finally\<rparr>"] Wp_load by simp
    qed
  next
    case (Wp_run items)
    then obtain item rest where "items = item # rest" using W by (cases items) (auto simp: worker_ok_def at_item_def)
    then have "p' = worker_runs g w item rest i p" using st w nc Wp_run by (simp add: worker_step_def)
    then show ?thesis using worker_runs_ok [OF ok w] Wp_run \<open>items = item # rest\<close> by simp
  next
    case Wp_finally
    then have t: "bp_thread p = Some g" using W by (simp add: worker_ok_def)
    have gen: "g = bp_generation p" using D(2) [OF t] by simp
    have p': "p' = set_worker g (w\<lparr>wk_point := Wp_leaving\<rparr>) (p\<lparr>bp_thread := None\<rparr>)"
      using st w nc Wp_finally t gen by (simp add: worker_step_def clear_thread_def)
    have ns: "starting p = None"
    proof (cases "bp_op p")
      case (Some q)
      show ?thesis
      proof (cases "po_point q")
        case (Op_start h)
        then have "bp_thread p = Some h" "map_option wk_point (bp_workers p h) = Some Wp_new" using D(3) [OF Some] by (simp_all add: op_ok_def)
        then show ?thesis using t w Wp_finally by simp
      qed (simp_all add: starting_def Some)
    qed (simp add: starting_def)
    have "bp_workers p h = Some v \<Longrightarrow> h \<noteq> g \<Longrightarrow> worker_ok (bp_generation p) None None h v" for h v
      using worker_ok_clear [OF D(1) t] by blast
    moreover have "worker_ok (bp_generation p) None None g (w\<lparr>wk_point := Wp_leaving\<rparr>)" using W by (simp add: worker_ok_def)
    moreover have "op_ok p' q" if "bp_op p = Some q" for q
      using D(3) [OF that] ns that w Wp_finally unfolding p'
      by (auto simp: op_ok_def set_worker_def starting_def split: op_point.splits)
    ultimately show ?thesis using ns D(2) unfolding p'
      by (intro player_okI) (auto simp: set_worker_def starting_def split: if_splits)
  next
    case Wp_leaving
    have "worker_ok (bp_generation p) (bp_thread p) (starting p) g (w\<lparr>wk_point := Wp_dead\<rparr>)" using W Wp_leaving by (simp add: worker_ok_def)
    moreover have "p' = set_worker g (w\<lparr>wk_point := Wp_dead\<rparr>) p" using st w nc Wp_leaving by (simp add: worker_step_def)
    ultimately show ?thesis using worker_moves_ok [OF ok w, of "w\<lparr>wk_point := Wp_dead\<rparr>"] Wp_leaving by simp
  qed (use st w nc in \<open>simp_all add: worker_step_def\<close>)
qed

lemma player_step_ok:
  assumes "player_ok p" "player_step e p = Some p'"
  shows "player_ok p'"
proof (cases e)
  case (Pl_call call caller)
  then have p': "p' = player_calls call caller p" and n: "bp_op p = None" using assms(2) by (auto simp: may_call_def split: if_splits)
  have "starting p = None" by (simp add: starting_def n)
  then show ?thesis
    using player_okD [OF assms(1)] unfolding p'
    by (intro player_okI) (auto simp: player_calls_def starting_def op_ok_def)
next
  case (Pl_op late)
  then show ?thesis using assms op_step_ok by simp
next
  case (Pl_worker g i)
  then show ?thesis using assms worker_step_ok by simp
qed

lemma player_reachable_ok: "player_reachable p \<Longrightarrow> player_ok p"
proof (induction rule: player_reachable.induct)
  case start
  show ?case by (simp add: player_ok_def player_init_def)
qed (rule player_step_ok)

lemma player_run_ok: "player_run es p = Some p' \<Longrightarrow> player_ok p \<Longrightarrow> player_ok p'"
  by (induction es arbitrary: p) (auto simp: bind_eq_Some_conv intro: player_step_ok)

section \<open>What a stop guarantees\<close>

text \<open>A worker that may still publish.\<close>

fun playing :: "worker_point \<Rightarrow> bool" where
  "playing Wp_load = True"
| "playing (Wp_run rest) = True"
| "playing _ = False"

text \<open>No worker is held and no operation is about to create one.\<close>

definition player_quiet :: "player \<Rightarrow> bool" where
  "player_quiet p \<longleftrightarrow> bp_thread p = None \<and> (case bp_op p of None \<Rightarrow> True | Some q \<Rightarrow> (\<forall>loop. po_call q \<noteq> Call_play loop))"

lemma playing_is_held: "player_ok p \<Longrightarrow> bp_workers p g = Some w \<Longrightarrow> playing (wk_point w) \<Longrightarrow> bp_thread p = Some g"
  using player_okD(1) [of p g w] by (cases "wk_point w") (auto simp: worker_ok_def)

lemma op_step_out: "op_step late p = Some p' \<Longrightarrow> bp_out p' = bp_out p"
  by (auto simp: op_step_def player_ops Let_def split: option.splits op_point.splits player_call.splits if_splits)

lemma worker_runs_out:
  "bp_out (worker_runs g w item rest i p) =
     (case item of Publish c \<Rightarrow> if i = Wi_fails then bp_out p else (g, c) # bp_out p | _ \<Rightarrow> bp_out p)"
  by (auto simp: worker_runs_def set_worker_def split: script_item.splits)

lemma worker_step_out:
  assumes "worker_step g i p = Some p'"
  shows "bp_out p' = bp_out p \<or>
    (\<exists>w c rest. bp_workers p g = Some w \<and> wk_point w = Wp_run (Publish c # rest) \<and> bp_out p' = (g, c) # bp_out p)"
  using assms
  by (auto simp: worker_step_def worker_runs_out set_worker_def clear_thread_def Let_def
      split: option.splits worker_point.splits worker_input.splits list.splits script_item.splits if_splits)

lemma worker_step_keeps:
  assumes "worker_step g i p = Some p'"
  shows "bp_op p' = bp_op p" "bp_thread p' = bp_thread p \<or> bp_thread p' = None"
  using assms
  by (auto simp: worker_step_def worker_runs_def set_worker_def clear_thread_def Let_def
      split: option.splits worker_point.splits worker_input.splits list.splits script_item.splits if_splits)

lemma worker_step_answer: "worker_step g i p = Some p' \<Longrightarrow> bp_answer p' = bp_answer p"
  by (auto simp: worker_step_def worker_runs_def set_worker_def clear_thread_def Let_def
      split: option.splits worker_point.splits worker_input.splits list.splits script_item.splits if_splits)

lemma quiet_step:
  assumes ok: "player_ok p" and qt: "player_quiet p" and st: "player_step e p = Some p'"
    and e: "\<And>loop caller. e \<noteq> Pl_call (Call_play loop) caller"
  shows "player_quiet p' \<and> bp_out p' = bp_out p"
proof (cases e)
  case (Pl_call call caller)
  then have "call \<noteq> Call_play loop" for loop using e by blast
  then show ?thesis using Pl_call st qt by (auto simp: player_calls_def player_quiet_def split: if_splits)
next
  case (Pl_op late)
  then have s: "op_step late p = Some p'" using st by simp
  then obtain q where q: "bp_op p = Some q" by (auto simp: op_step_def split: option.splits)
  have nq: "po_call q \<noteq> Call_play loop" for loop using qt q by (simp add: player_quiet_def)
  have "op_ok p q" using player_okD(3) [OF ok q] .
  then have "player_quiet p'"
    using s qt q nq
    by (auto simp: op_step_def player_quiet_def player_ops op_ok_def Let_def split: option.splits op_point.splits player_call.splits if_splits)
  then show ?thesis using op_step_out [OF s] by simp
next
  case (Pl_worker g i)
  then have s: "worker_step g i p = Some p'" using st by simp
  have "bp_out p' = bp_out p"
    using worker_step_out [OF s] playing_is_held [OF ok] qt unfolding player_quiet_def by (metis option.distinct(1) playing.simps(2))
  then show ?thesis using worker_step_keeps [OF s] qt by (auto simp: player_quiet_def)
qed

definition plays :: "player_event \<Rightarrow> bool" where
  "plays e \<longleftrightarrow> (case e of Pl_call (Call_play loop) caller \<Rightarrow> True | _ \<Rightarrow> False)"

lemma quiet_run:
  "player_run es p = Some p' \<Longrightarrow> player_ok p \<Longrightarrow> player_quiet p \<Longrightarrow> list_all (\<lambda>e. \<not> plays e) es \<Longrightarrow> bp_out p' = bp_out p"
proof (induction es arbitrary: p)
  case (Cons e es)
  then obtain p1 where p1: "player_step e p = Some p1" "player_run es p1 = Some p'" by (auto simp: bind_eq_Some_conv)
  have "\<And>loop caller. e \<noteq> Pl_call (Call_play loop) caller" using Cons.prems(4) by (auto simp: plays_def)
  from quiet_step [OF Cons.prems(2,3) p1(1) this] Cons.IH [OF p1(2) player_step_ok [OF Cons.prems(2) p1(1)]] Cons.prems(4)
  show ?case by simp
qed simp

lemma stop_answer_quiet:
  assumes ok: "player_ok p" and q: "bp_op p = Some q" "po_call q = Call_stop"
    and st: "op_step late p = Some p'" "bp_answer p' = Some True" "bp_op p' = None"
  shows "player_quiet p'"
proof -
  have "op_ok p q" using player_okD(3) [OF ok q(1)] .
  then show ?thesis
    using st q
    by (auto simp: op_step_def player_quiet_def player_ops op_ok_def Let_def split: option.splits op_point.splits player_call.splits if_splits)
qed

text \<open>
  C35: A confirmed stop is silent: once \<open>stop\<close> has returned \<open>True\<close>, no worker publishes a command any more, in whatever
  order threads and operations go on, until someone calls \<open>play\<close> with an action.
\<close>

theorem confirmed_stop_is_silent:
  assumes "player_reachable p" "map_option po_call (bp_op p) = Some Call_stop"
    and "player_step (Pl_op late) p = Some p1" "bp_op p1 = None" "bp_answer p1 = Some True"
    and "player_run es p1 = Some p2" "list_all (\<lambda>e. \<not> plays e) es"
  shows "bp_out p2 = bp_out p1"
proof -
  have ok: "player_ok p" using assms(1) by (rule player_reachable_ok)
  obtain q where q: "bp_op p = Some q" "po_call q = Call_stop" using assms(2) by auto
  have "player_quiet p1" using stop_answer_quiet [OF ok q] assms(3-5) by simp
  then show ?thesis using quiet_run [OF assms(6) player_step_ok [OF ok assms(3)]] assms(7) by blast
qed

section \<open>A stopped worker\<close>

definition published :: "nat \<Rightarrow> player \<Rightarrow> nat" where
  "published g p = length (filter (\<lambda>(h, c). h = g) (bp_out p))"

text \<open>What a worker may still publish when its event is set.\<close>

fun owed :: "worker_point \<Rightarrow> nat" where
  "owed (Wp_run (Publish c # rest)) = 1"
| "owed _ = 0"

definition stopped_worker :: "nat \<Rightarrow> player \<Rightarrow> worker \<Rightarrow> bool" where
  "stopped_worker g p w \<longleftrightarrow> bp_workers p g = Some w \<and> wk_stop w"

lemma owed_le: "owed pt \<le> 1"
  by (cases pt rule: owed.cases) auto

lemma owed_run_on: "guarded rest \<Longrightarrow> guarded (wk_script w) \<Longrightarrow> owed (run_on w rest) = 0"
  by (cases rest rule: guarded.cases; cases "wk_script w" rule: guarded.cases) (auto simp: run_on_def)

lemma other_worker_kept:
  assumes "worker_step h i p = Some p'" "h \<noteq> g"
  shows "bp_workers p' g = bp_workers p g"
  using assms
  by (auto simp: worker_step_def worker_runs_def set_worker_def clear_thread_def Let_def
      split: option.splits worker_point.splits worker_input.splits list.splits script_item.splits if_splits)

lemma stopped_worker_step:
  assumes ok: "player_ok p" and w: "stopped_worker g p w" and st: "worker_step g i p = Some p'"
  shows "\<exists>v. stopped_worker g p' v \<and> published g p' + owed (wk_point v) \<le> published g p + owed (wk_point w)"
proof -
  have w1: "bp_workers p g = Some w" "wk_stop w" using w by (simp_all add: stopped_worker_def)
  have W: "worker_ok (bp_generation p) (bp_thread p) (starting p) g w" using player_okD(1) [OF ok w1(1)] .
  have nc: "\<not> is_caller g p" using st w1 by (simp add: worker_step_def split: if_splits)
  show ?thesis
  proof (cases "wk_point w")
    case (Wp_run items)
    then obtain item rest where items: "items = item # rest" using W by (cases items) (auto simp: worker_ok_def at_item_def)
    have p': "p' = worker_runs g w item rest i p" using st w1 nc Wp_run items by (simp add: worker_step_def)
    have a: "at_item (item # rest)" "guarded (wk_script w)" using W Wp_run items by (simp_all add: worker_ok_def)
    show ?thesis
    proof (cases item)
      case (Publish c)
      then have "guarded rest" "guarded (skip_pause rest)" using a publish_tail guarded_skip by auto
      then have "owed (run_on w rest) = 0" "owed (run_on w (skip_pause rest)) = 0" using owed_run_on a(2) by blast+
      then show ?thesis
        using Wp_run items Publish w1 by (auto simp: p' worker_runs_def stopped_worker_def set_worker_def published_def)
    next
      case Wait
      then have "guarded rest" using a(1) by (auto simp: at_item_def)
      then have "owed (run_on w rest) = 0" using owed_run_on a(2) by blast
      then show ?thesis
        using Wp_run items Wait w1 by (auto simp: p' worker_runs_def stopped_worker_def set_worker_def published_def)
    qed (use Wp_run items w1 in \<open>auto simp: p' worker_runs_def stopped_worker_def set_worker_def published_def\<close>)
  next
    case Wp_load
    have "owed (if frames = [] then Wp_finally else Wp_run (script_of delayed frames)) = 0" for delayed frames
      using script_of_guarded [of delayed frames] by (cases "script_of delayed frames" rule: guarded.cases) auto
    then show ?thesis
      using st w1 nc Wp_load
      by (auto simp: worker_step_def stopped_worker_def set_worker_def published_def Let_def split: worker_input.splits)
  qed (use st w1 nc in \<open>auto simp: worker_step_def stopped_worker_def set_worker_def published_def clear_thread_def\<close>)
qed

lemma stopped_worker_other:
  assumes ok: "player_ok p" and w: "stopped_worker g p w" and st: "player_step e p = Some p'" and e: "\<And>i. e \<noteq> Pl_worker g i"
  shows "\<exists>v. stopped_worker g p' v \<and> owed (wk_point v) \<le> owed (wk_point w)" "published g p' = published g p"
proof -
  have w1: "bp_workers p g = Some w" "wk_stop w" using w by (simp_all add: stopped_worker_def)
  have "(\<exists>v. stopped_worker g p' v \<and> owed (wk_point v) \<le> owed (wk_point w)) \<and> published g p' = published g p"
  proof (cases e)
    case (Pl_call call caller)
    then show ?thesis using st w1 by (auto simp: player_calls_def stopped_worker_def published_def split: if_splits)
  next
    case (Pl_op late)
    then have s: "op_step late p = Some p'" using st by simp
    then obtain q where q: "bp_op p = Some q" by (auto simp: op_step_def split: option.splits)
    have opq: "op_ok p q" using player_okD(3) [OF ok q] .
    have new: "bp_workers p (Suc (bp_generation p)) = None"
      using player_okD(1) [OF ok, of "Suc (bp_generation p)"] by (cases "bp_workers p (Suc (bp_generation p))") (auto simp: worker_ok_def)
    have "\<exists>v. stopped_worker g p' v \<and> owed (wk_point v) \<le> owed (wk_point w)"
      using s q w1 opq new
      by (auto simp: op_step_def stopped_worker_def player_ops op_ok_def Let_def
          split: option.splits op_point.splits player_call.splits if_splits)
    then show ?thesis using op_step_out [OF s] by (simp add: published_def)
  next
    case (Pl_worker h i)
    then have h: "h \<noteq> g" "worker_step h i p = Some p'" using st e by auto
    have "stopped_worker g p' w" using other_worker_kept [OF h(2,1)] w by (simp add: stopped_worker_def)
    moreover have "published g p' = published g p" using worker_step_out [OF h(2)] h(1) by (auto simp: published_def)
    ultimately show ?thesis by auto
  qed
  then show "\<exists>v. stopped_worker g p' v \<and> owed (wk_point v) \<le> owed (wk_point w)" "published g p' = published g p" by simp_all
qed

lemma stopped_worker_run:
  "player_run es p = Some p' \<Longrightarrow> player_ok p \<Longrightarrow> stopped_worker g p w \<Longrightarrow> published g p' \<le> published g p + owed (wk_point w)"
proof (induction es arbitrary: p w)
  case (Cons e es)
  then obtain p1 where p1: "player_step e p = Some p1" "player_run es p1 = Some p'" by (auto simp: bind_eq_Some_conv)
  have ok1: "player_ok p1" using Cons.prems(2) p1(1) by (rule player_step_ok)
  obtain v where v: "stopped_worker g p1 v" "published g p1 + owed (wk_point v) \<le> published g p + owed (wk_point w)"
  proof (cases "\<exists>i. e = Pl_worker g i")
    case True
    then obtain i where "worker_step g i p = Some p1" using p1(1) by auto
    from stopped_worker_step [OF Cons.prems(2,3) this] that show thesis by blast
  next
    case False
    then show thesis using stopped_worker_other [OF Cons.prems(2,3) p1(1)] that by auto
  qed
  from Cons.IH [OF p1(2) ok1 v(1)] v(2) show ?case by simp
qed simp

text \<open>
  A stop that times out is not silent but bounded: a worker whose stop event is set publishes at most one
  more command - the one it had already decided to send -, however long it goes on.
\<close>

theorem stopped_worker_publishes_at_most_once:
  assumes "player_reachable p" "bp_workers p g = Some w" "wk_stop w" "player_run es p = Some p'"
  shows "published g p' \<le> published g p + 1"
proof -
  have "stopped_worker g p w" using assms(2,3) by (simp add: stopped_worker_def)
  from stopped_worker_run [OF assms(4) player_reachable_ok [OF assms(1)] this] owed_le [of "wk_point w"]
  show ?thesis by simp
qed

text \<open>Runs from the start, as evidence.\<close>

definition run_shows :: "player_event list \<Rightarrow> (player \<Rightarrow> bool) \<Rightarrow> bool" where
  "run_shows es Q \<longleftrightarrow> (case player_run es player_init of None \<Rightarrow> False | Some p \<Rightarrow> Q p)"

lemma run_showsE: "run_shows es Q \<Longrightarrow> \<exists>p. player_reachable p \<and> Q p"
  using player_run_reachable [OF _ player_reachable.start] by (auto simp: run_shows_def split: option.splits)

definition demo_bvh_command :: bvh_command where
  "demo_bvh_command = \<lparr>bc_servo_type = J_string ''bus'', bc_servo_id = 3, bc_position = 1500\<rparr>"

text \<open>A loop over one frame is playing; then a stop is asked for and its event is set.\<close>

definition playing_run :: "player_event list" where
  "playing_run = [Pl_call (Call_play True) None, Pl_op False, Pl_op False, Pl_op False,
     Pl_worker 1 (Wi_loaded True [[Some demo_bvh_command]]), Pl_worker 1 Wi_go, Pl_worker 1 Wi_go]"

definition stopping_run :: "player_event list" where
  "stopping_run = playing_run @ [Pl_call Call_stop None, Pl_op False, Pl_op False]"

text \<open>The command already decided on goes out, and then the worker ends.\<close>

definition last_words :: "player_event list" where
  "last_words = [Pl_worker 1 Wi_go, Pl_worker 1 Wi_go, Pl_worker 1 Wi_go, Pl_worker 1 Wi_go]"

theorem stopped_worker_publishes_at_most_once_witness:
  "\<exists>p p' w. bp_workers p 1 = Some w \<and> wk_stop w \<and> player_run last_words p = Some p' \<and> bp_out p = [] \<and> bp_out p' \<noteq> []
     \<and> published 1 p' \<le> published 1 p + 1"
proof -
  have "run_shows stopping_run (\<lambda>p. bp_out p = [] \<and> (case bp_workers p 1 of None \<Rightarrow> False | Some w \<Rightarrow> wk_stop w)
      \<and> (case player_run last_words p of None \<Rightarrow> False | Some p' \<Rightarrow> bp_out p' \<noteq> []))"
    by code_simp
  then obtain p w p' where p: "player_reachable p" "bp_workers p 1 = Some w" "wk_stop w" "player_run last_words p = Some p'"
      "bp_out p = []" "bp_out p' \<noteq> []"
    by (auto dest!: run_showsE split: option.splits)
  with stopped_worker_publishes_at_most_once [OF p(1-4)] show ?thesis by blast
qed

theorem confirmed_stop_is_silent_witness:
  "\<exists>p p1 p2. map_option po_call (bp_op p) = Some Call_stop \<and> player_step (Pl_op False) p = Some p1 \<and> bp_answer p1 = Some True
     \<and> player_run [Pl_call Call_stop None, Pl_op False] p1 = Some p2 \<and> bp_out p1 = [(1, demo_bvh_command)] \<and> bp_out p2 = bp_out p1"
proof -
  have "run_shows (stopping_run @ last_words @ [Pl_op False]) (\<lambda>p. map_option po_call (bp_op p) = Some Call_stop
      \<and> (case player_step (Pl_op False) p of None \<Rightarrow> False
         | Some p1 \<Rightarrow> bp_op p1 = None \<and> bp_answer p1 = Some True \<and> bp_out p1 = [(1, demo_bvh_command)]
             \<and> player_run [Pl_call Call_stop None, Pl_op False] p1 \<noteq> None))"
    by code_simp
  then obtain p p1 p2 where p: "player_reachable p" "map_option po_call (bp_op p) = Some Call_stop" "player_step (Pl_op False) p = Some p1"
      "bp_op p1 = None" "bp_answer p1 = Some True" "bp_out p1 = [(1, demo_bvh_command)]"
      "player_run [Pl_call Call_stop None, Pl_op False] p1 = Some p2"
    by (auto dest!: run_showsE split: option.splits)
  moreover have "list_all (\<lambda>e. \<not> plays e) [Pl_call Call_stop None, Pl_op False]" by (simp add: plays_def)
  ultimately show ?thesis using confirmed_stop_is_silent [OF p(1-5,7)] by blast
qed

section \<open>A stopped worker ends\<close>

text \<open>The sections it still has before it: the waits end at once or not at all, and at the next look it leaves.\<close>

fun sections_left :: "worker_point \<Rightarrow> nat" where
  "sections_left Wp_dead = 0"
| "sections_left Wp_leaving = 1"
| "sections_left Wp_finally = 2"
| "sections_left (Wp_run (Publish c # rest)) = 5"
| "sections_left (Wp_run (Wait # rest)) = 4"
| "sections_left (Wp_run rest) = 3"
| "sections_left Wp_load = 4"
| "sections_left Wp_new = 0"

lemma sections_Wait: "at_item (Wait # rest) \<Longrightarrow> wk_script w \<noteq> [] \<Longrightarrow> hd (wk_script w) = Check \<Longrightarrow> sections_left (run_on w rest) \<le> 3"
  by (cases rest; cases "wk_script w") (auto simp: run_on_def at_item_def)

lemma sections_run_on: "guarded rest \<Longrightarrow> wk_script w \<noteq> [] \<Longrightarrow> hd (wk_script w) = Check \<Longrightarrow> sections_left (run_on w rest) \<le> 4"
  by (cases rest rule: guarded.cases; cases "wk_script w") (auto simp: run_on_def)

text \<open>
  C36: A worker whose stop event is set ends: unless it is itself in a call of the player, it always can go on, and
  every section it takes brings it closer to its end, which is at most five sections away.
\<close>

theorem stopped_worker_ends:
  assumes "player_reachable p" "bp_workers p g = Some w" "wk_stop w"
  shows "sections_left (wk_point w) \<le> 5
    \<and> (\<not> is_caller g p \<and> wk_point w \<notin> {Wp_new, Wp_dead} \<longrightarrow> (\<exists>i. worker_step g i p \<noteq> None))
    \<and> (\<forall>i p'. worker_step g i p = Some p' \<longrightarrow>
         (\<exists>v. bp_workers p' g = Some v \<and> wk_stop v \<and> sections_left (wk_point v) < sections_left (wk_point w)))"
proof -
  have ok: "player_ok p" using assms(1) by (rule player_reachable_ok)
  have W: "worker_ok (bp_generation p) (bp_thread p) (starting p) g w" using player_okD(1) [OF ok assms(2)] .
  have "sections_left (wk_point w) \<le> 5" by (cases "wk_point w" rule: sections_left.cases) auto
  moreover have "\<exists>i. worker_step g i p \<noteq> None" if "\<not> is_caller g p" "wk_point w \<notin> {Wp_new, Wp_dead}"
  proof (cases "wk_point w")
    case Wp_load
    with that assms(2) show ?thesis by (intro exI [of _ Wi_fails]) (simp add: worker_step_def)
  next
    case (Wp_run items)
    then have "items \<noteq> []" using W by (auto simp: worker_ok_def at_item_def)
    with that assms(2) Wp_run show ?thesis by (cases items) (auto simp: worker_step_def)
  qed (use that assms(2) in \<open>auto simp: worker_step_def\<close>)
  moreover have "\<exists>v. bp_workers p' g = Some v \<and> wk_stop v \<and> sections_left (wk_point v) < sections_left (wk_point w)"
    if st: "worker_step g i p = Some p'" for i p'
  proof -
    have nc: "\<not> is_caller g p" using st assms(2) by (simp add: worker_step_def split: if_splits)
    show ?thesis
    proof (cases "wk_point w")
      case (Wp_run items)
      then obtain item rest where items: "items = item # rest" using W by (cases items) (auto simp: worker_ok_def at_item_def)
      have p': "p' = worker_runs g w item rest i p" using st assms(2) nc Wp_run items by (simp add: worker_step_def)
      have a: "at_item (item # rest)" "wk_script w \<noteq> []" "hd (wk_script w) = Check" using W Wp_run items by (simp_all add: worker_ok_def)
      show ?thesis
      proof (cases item)
        case (Publish c)
        then have "guarded rest" "guarded (skip_pause rest)" using a publish_tail guarded_skip by auto
        then have "sections_left (run_on w rest) \<le> 4" "sections_left (run_on w (skip_pause rest)) \<le> 4"
          using sections_run_on a(2,3) by blast+
        then show ?thesis using Wp_run items Publish assms(3) by (auto simp: p' worker_runs_def set_worker_def)
      next
        case Wait
        then have "sections_left (run_on w rest) \<le> 3" using sections_Wait a by blast
        then show ?thesis using Wp_run items Wait assms(3) by (auto simp: p' worker_runs_def set_worker_def)
      qed (use Wp_run items assms(3) in \<open>auto simp: p' worker_runs_def set_worker_def\<close>)
    next
      case Wp_load
      have "sections_left (if frames = [] then Wp_finally else Wp_run (script_of delayed frames)) \<le> 3" for delayed frames
        using script_of_guarded [of delayed frames] by (cases "script_of delayed frames") auto
      then have "sections_left (if frames = [] then Wp_finally else Wp_run (script_of delayed frames)) < 4" for delayed frames
        by (meson le_less_trans numeral_less_iff semiring_norm)
      then show ?thesis using st assms(2,3) nc Wp_load
        by (auto simp: worker_step_def set_worker_def Let_def split: worker_input.splits)
    qed (use st assms(2,3) nc in \<open>auto simp: worker_step_def set_worker_def clear_thread_def\<close>)
  qed
  ultimately show ?thesis by blast
qed

theorem stopped_worker_ends_witness:
  "\<exists>p w. bp_workers p 1 = Some w \<and> wk_stop w \<and> wk_point w \<noteq> Wp_dead \<and> sections_left (wk_point w) \<le> 5 \<and> (\<exists>i. worker_step 1 i p \<noteq> None)"
proof -
  have "run_shows stopping_run (\<lambda>p. \<not> is_caller 1 p \<and> (case bp_workers p 1 of None \<Rightarrow> False | Some w \<Rightarrow> wk_stop w \<and> wk_point w \<notin> {Wp_new, Wp_dead}))"
    by code_simp
  then obtain p w where p: "player_reachable p" "bp_workers p 1 = Some w" "wk_stop w" "\<not> is_caller 1 p" "wk_point w \<notin> {Wp_new, Wp_dead}"
    by (auto dest!: run_showsE split: option.splits)
  with stopped_worker_ends [OF p(1-3)] show ?thesis by blast
qed

section \<open>Between a stop and the end of its worker\<close>

text \<open>The worker held has its event set, and no operation is about to create another.\<close>

definition hushed :: "player \<Rightarrow> bool" where
  "hushed p \<longleftrightarrow>
     (case bp_op p of None \<Rightarrow> True | Some q \<Rightarrow> (\<forall>loop. po_call q \<noteq> Call_play loop))
     \<and> (\<forall>g w. bp_workers p g = Some w \<and> playing (wk_point w) \<longrightarrow> wk_stop w)"

definition owed_held :: "player \<Rightarrow> nat" where
  "owed_held p =
     (case bp_thread p of None \<Rightarrow> 0 | Some g \<Rightarrow> (case bp_workers p g of None \<Rightarrow> 0 | Some w \<Rightarrow> owed (wk_point w)))"

lemma owed_held_le: "owed_held p \<le> 1"
  using owed_le by (simp add: owed_held_def split: option.split)

lemma quiet_hushed: "player_ok p \<Longrightarrow> player_quiet p \<Longrightarrow> hushed p"
  using playing_is_held unfolding player_quiet_def hushed_def by (auto split: option.splits)

lemma op_step_call:
  assumes "op_step late p = Some p'" "bp_op p = Some q"
  shows "case bp_op p' of None \<Rightarrow> bp_answer p' \<noteq> None | Some q' \<Rightarrow> po_call q' = po_call q \<and> po_caller q' = po_caller q"
  using assms by (auto simp: op_step_def player_ops Let_def split: option.splits op_point.splits player_call.splits if_splits)

lemma op_step_workers:
  assumes ok: "player_ok p" and st: "op_step late p = Some p'" and q: "bp_op p = Some q" "\<And>loop. po_call q \<noteq> Call_play loop"
  shows "bp_workers p' g = bp_workers p g \<or> (\<exists>w. bp_workers p g = Some w \<and> bp_workers p' g = Some (w\<lparr>wk_stop := True\<rparr>))"
    "bp_thread p' = bp_thread p \<or> bp_thread p' = None"
proof -
  have opq: "op_ok p q" using player_okD(3) [OF ok q(1)] .
  show "bp_workers p' g = bp_workers p g \<or> (\<exists>w. bp_workers p g = Some w \<and> bp_workers p' g = Some (w\<lparr>wk_stop := True\<rparr>))"
    using st q opq
    by (auto simp: op_step_def player_ops op_ok_def Let_def split: option.splits op_point.splits player_call.splits if_splits)
  show "bp_thread p' = bp_thread p \<or> bp_thread p' = None"
    using st q opq
    by (auto simp: op_step_def player_ops op_ok_def Let_def split: option.splits op_point.splits player_call.splits if_splits)
qed

lemma hushed_op:
  assumes ok: "player_ok p" and h: "hushed p" and st: "op_step late p = Some p'"
  shows "hushed p' \<and> length (bp_out p') + owed_held p' \<le> length (bp_out p) + owed_held p"
proof -
  obtain q where q: "bp_op p = Some q" using st by (auto simp: op_step_def split: option.splits)
  have np: "po_call q \<noteq> Call_play loop" for loop using h q by (simp add: hushed_def)
  note W = op_step_workers [OF ok st q np]
  have "case bp_op p' of None \<Rightarrow> True | Some q' \<Rightarrow> \<forall>loop. po_call q' \<noteq> Call_play loop"
    using op_step_call [OF st q] np by (auto split: option.splits)
  moreover have "wk_stop w" if w: "bp_workers p' g = Some w" "playing (wk_point w)" for g w
    using W(1) [of g] h w by (auto simp: hushed_def)
  moreover have "owed_held p' \<le> owed_held p"
  proof (cases "bp_thread p'")
    case (Some g)
    then have "bp_thread p = Some g" using W(2) by auto
    with Some W(1) [of g] show ?thesis by (auto simp: owed_held_def)
  qed (simp add: owed_held_def)
  ultimately show ?thesis using op_step_out [OF st] by (auto simp: hushed_def)
qed

lemma hushed_worker:
  assumes ok: "player_ok p" and h: "hushed p" and st: "worker_step g i p = Some p'"
  shows "hushed p' \<and> length (bp_out p') + owed_held p' \<le> length (bp_out p) + owed_held p"
proof -
  have ok': "player_ok p'" using worker_step_ok [OF ok st] .
  obtain w where w: "bp_workers p g = Some w" using st by (auto simp: worker_step_def split: option.splits)
  obtain v where v: "bp_workers p' g = Some v" "wk_stop v = wk_stop w"
    using st w
    by (auto simp: worker_step_def worker_runs_def set_worker_def clear_thread_def Let_def
        split: worker_point.splits worker_input.splits list.splits script_item.splits if_splits)
  have op: "bp_op p' = bp_op p" using worker_step_keeps [OF st] by simp
  show ?thesis
  proof (cases "playing (wk_point w)")
    case False
    then have o: "bp_out p' = bp_out p" using worker_step_out [OF st] w by auto
    have "\<not> playing (wk_point v)"
      using st w v False
      by (auto simp: worker_step_def set_worker_def clear_thread_def split: worker_point.splits if_splits)
    then have "hushed p'" using h op v other_worker_kept [OF st] unfolding hushed_def by (metis option.inject)
    moreover have "owed_held p' \<le> owed_held p"
    proof (cases "bp_thread p'")
      case (Some k)
      then have k: "bp_thread p = Some k" using worker_step_keeps [OF st] by auto
      show ?thesis
      proof (cases "k = g")
        case True
        with Some v \<open>\<not> playing (wk_point v)\<close> show ?thesis by (cases "wk_point v") (auto simp: owed_held_def)
      next
        case False
        with Some k other_worker_kept [OF st] show ?thesis by (simp add: owed_held_def)
      qed
    qed (simp add: owed_held_def)
    ultimately show ?thesis using o by simp
  next
    case True
    then have t: "bp_thread p = Some g" using playing_is_held [OF ok w] by simp
    have "wk_stop w" using h w True unfolding hushed_def by blast
    then have s: "stopped_worker g p w" using w by (simp add: stopped_worker_def)
    from stopped_worker_step [OF ok s st] v(1)
    have le: "published g p' + owed (wk_point v) \<le> published g p + owed (wk_point w)" by (auto simp: stopped_worker_def)
    have "length (bp_out p') - length (bp_out p) = published g p' - published g p" "length (bp_out p) \<le> length (bp_out p')"
      using worker_step_out [OF st] by (auto simp: published_def)
    moreover have "published g p \<le> published g p'" using worker_step_out [OF st] by (auto simp: published_def)
    ultimately have "length (bp_out p') + owed (wk_point v) \<le> length (bp_out p) + owed (wk_point w)" using le by linarith
    moreover have "owed_held p' \<le> owed (wk_point v)"
      using worker_step_keeps(2) [OF st] t v(1) by (auto simp: owed_held_def)
    moreover have "owed_held p = owed (wk_point w)" using t w by (simp add: owed_held_def)
    moreover have "hushed p'"
      using h op v w \<open>wk_stop w\<close> other_worker_kept [OF st] unfolding hushed_def by (metis option.inject)
    ultimately show ?thesis by simp
  qed
qed

lemma stop_answer_hushed:
  assumes ok: "player_ok p" and q: "bp_op p = Some q" "po_call q = Call_stop" "po_caller q = None"
    and st: "op_step late p = Some p'" "bp_op p' = None"
  shows "hushed p'"
proof -
  have opq: "op_ok p q" using player_okD(3) [OF ok q(1)] .
  have ok': "player_ok p'" using op_step_ok [OF ok st(1)] .
  have "wk_stop w" if w: "bp_workers p' g = Some w" "playing (wk_point w)" for g w
  proof -
    have t: "bp_thread p' = Some g" using playing_is_held [OF ok' w] .
    show ?thesis
      using st q opq w t
      by (auto simp: op_step_def player_ops op_ok_def Let_def split: option.splits op_point.splits player_call.splits if_splits)
  qed
  then show ?thesis using st(2) by (auto simp: hushed_def)
qed

end
