(* ===== verification/Bvh_Extension.thy ===== *)
theory Bvh_Extension
  imports Bvh_Player Teleop_Bridge Execution_Adapters
begin

text \<open>
  The playback as an extension of the WebSocket bridge: \<open>bvh_request.py\<close>, \<open>bvh_runtime.py\<close>,
  \<open>bvh_websocket_adapter.py\<close> and \<open>bvh_websocket_extension.py\<close>. A request, an execution state and the closing of the
  extension exclude each other by the lock of the adapter, which is held while an operation of the
  player is in progress; the threads of the player go on in between. The player answers its operations and
  does not raise, its callback \<open>_publish_motion_command\<close> does not call it.
\<close>

section \<open>Requests\<close>

record play_request =
  pq_action :: json
  pq_loop :: bool
  pq_speed_ms :: json
  pq_playback_rate :: json
  pq_frame_ms :: json

definition normalize_bvh_play_request :: "json \<Rightarrow> play_request option" where
  "normalize_bvh_play_request payload =
     (case payload of
        J_object kvs \<Rightarrow>
          if json_name (json_or (jget_or ''type'' J_null kvs) (J_string '''')) \<noteq> Some ''bvh_play'' then None
          else if \<not> has_key ''action'' kvs then None
          else (case jget_or ''action'' J_null kvs of
                  J_null \<Rightarrow> Some \<lparr>pq_action = J_null, pq_loop = json_truthy (jget_or ''loop'' (J_bool False) kvs),
                    pq_speed_ms = jget_or ''speed_ms'' J_null kvs, pq_playback_rate = jget_or ''playback_rate'' J_null kvs,
                    pq_frame_ms = jget_or ''frame_ms'' J_null kvs\<rparr>
                | J_string s \<Rightarrow> Some \<lparr>pq_action = J_string s, pq_loop = json_truthy (jget_or ''loop'' (J_bool False) kvs),
                    pq_speed_ms = jget_or ''speed_ms'' J_null kvs, pq_playback_rate = jget_or ''playback_rate'' J_null kvs,
                    pq_frame_ms = jget_or ''frame_ms'' J_null kvs\<rparr>
                | _ \<Rightarrow> None)
      | _ \<Rightarrow> None)"

definition request_object :: "play_request \<Rightarrow> json_object" where
  "request_object rq =
     [(''action'', pq_action rq), (''loop'', J_bool (pq_loop rq)), (''speed_ms'', pq_speed_ms rq),
      (''playback_rate'', pq_playback_rate rq), (''frame_ms'', pq_frame_ms rq)]"

text \<open>\<open>action in (None, '', 'null')\<close>\<close>

definition stops :: "play_request \<Rightarrow> bool" where
  "stops rq \<longleftrightarrow> pq_action rq \<in> {J_null, J_string '''', J_string ''null''}"

section \<open>State\<close>

text \<open>The call that holds the lock while the player works on it; \<open>set_blocked(True)\<close> with whether it changed the state.\<close>

datatype bvh_call = Bvh_request json play_request | Bvh_block bool | Bvh_close

datatype bvh_reply =
    Bvh_ack json bool
  | Bvh_error web_error
  | Bvh_blocked bool            \<comment> \<open>\<open>set_blocked(True)\<close> returned\<close>
  | Bvh_block_failed            \<comment> \<open>it raised, which is logged\<close>
  | Bvh_unblocked bool
  | Bvh_closed
  | Bvh_close_failed

record bvh_node =
  bn_player :: player
  bn_blocked :: bool
  bn_stop_complete :: bool                 \<comment> \<open>\<open>_blocked_stop_complete\<close>\<close>
  bn_closed :: bool
  bn_close_complete :: bool
  bn_context :: "json_object option"       \<comment> \<open>\<open>_block_context\<close> of the adapter\<close>
  bn_call :: "bvh_call option"
  bn_replies :: "bvh_reply list"

definition bvh_node_init :: bvh_node where
  "bvh_node_init =
     \<lparr>bn_player = player_init, bn_blocked = False, bn_stop_complete = False, bn_closed = False, bn_close_complete = False,
      bn_context = None, bn_call = None, bn_replies = []\<rparr>"

definition answer_bvh :: "bvh_reply \<Rightarrow> bvh_node \<Rightarrow> bvh_node" where
  "answer_bvh r n = n\<lparr>bn_call := None, bn_replies := r # bn_replies n\<rparr>"

definition bvh_calls :: "bvh_call \<Rightarrow> player_call \<Rightarrow> bvh_node \<Rightarrow> bvh_node" where
  "bvh_calls call pc n = n\<lparr>bn_call := Some call, bn_player := player_calls pc None (bn_player n)\<rparr>"

section \<open>Requests of clients\<close>

definition operation_failed :: "json \<Rightarrow> string \<Rightarrow> web_error" where
  "operation_failed payload cause =
     Web_exception ROS_CALLBACK_FAILED [(''payload'', payload), (''exception'', J_string cause)]"

text \<open>Whether an execution state says that a task is in control.\<close>

definition task_in_control :: "json_object \<Rightarrow> bool" where
  "task_in_control s \<longleftrightarrow>
     state_flag ''task_active'' s \<or> state_text ''mode'' s = ''task_active'' \<or> state_text ''active_source'' s = ''task''"

definition execution_blocked :: "json_object option \<Rightarrow> web_error" where
  "execution_blocked context =
     (let s = (case context of None \<Rightarrow> [] | Some c \<Rightarrow> c);
          reason = (if task_in_control s then ''bvh_blocked_by_active_task'' else ''bvh_blocked_by_active_teleop'')
      in Web_exception TELEOP_CONTROL_REJECTED
           [(''reason'', J_string reason),
            (''teleop_holder_id'', J_string (state_text ''teleop_holder_id'' s)),
            (''teleop_lease_id'', J_string (state_text ''teleop_lease_id'' s)),
            (''teleop_active'', J_bool (state_flag ''teleop_active'' s)),
            (''task_active'', J_bool (task_in_control s)),
            (''active_source'', J_string (state_text ''active_source'' s))])"

definition apply_request :: "json \<Rightarrow> play_request \<Rightarrow> bvh_node \<Rightarrow> bvh_node" where
  "apply_request payload rq n =
     (if stops rq then bvh_calls (Bvh_request payload rq) Call_stop n
      else if bn_closed n then answer_bvh (Bvh_error (operation_failed payload ''BVH playback runtime is closed'')) n
      else if bn_blocked n then answer_bvh (Bvh_error (execution_blocked (bn_context n))) n
      else bvh_calls (Bvh_request payload rq) (Call_play (pq_loop rq)) n)"

definition handle_play_payload :: "json \<Rightarrow> bvh_node \<Rightarrow> bvh_node" where
  "handle_play_payload payload n =
     (case normalize_bvh_play_request payload of
        None \<Rightarrow> answer_bvh (Bvh_error (Web_exception INVALID_PARAMETER_VALUE [(''received_data'', payload)])) n
      | Some rq \<Rightarrow> apply_request payload rq n)"

text \<open>The rest of \<open>apply_request\<close>, after \<open>stop\<close> or \<open>play\<close> has returned.\<close>

definition request_returns :: "play_request \<Rightarrow> bool \<Rightarrow> bvh_node \<Rightarrow> bvh_node" where
  "request_returns rq ok n =
     (let ack = Bvh_ack (pq_action rq) (pq_loop rq)
      in if stops rq
         then if ok then answer_bvh ack (n\<lparr>bn_stop_complete := (bn_blocked n \<or> bn_stop_complete n),
                           bn_close_complete := (bn_closed n \<or> bn_close_complete n)\<rparr>)
              else answer_bvh (Bvh_error (operation_failed (J_object (request_object rq)) ''Failed to stop BVH playback'')) n
         else if ok then answer_bvh ack n
              else answer_bvh (Bvh_error (operation_failed (J_object (request_object rq)) ''Failed to start BVH playback'')) n)"

section \<open>The interlock\<close>

text \<open>The execution states that block a playback.\<close>

definition blocks_playback :: "json_object \<Rightarrow> bool" where
  "blocks_playback s \<longleftrightarrow> state_flag ''teleop_active'' s \<and> state_text ''active_source'' s = ''teleop'' \<or> task_in_control s"

text \<open>\<open>set_blocked(False)\<close> of the adapter and its runtime.\<close>

definition unblock :: "bvh_node \<Rightarrow> bvh_node" where
  "unblock n =
     (if bn_closed n then answer_bvh (Bvh_unblocked False) (if bn_blocked n then n else n\<lparr>bn_context := None\<rparr>)
      else if \<not> bn_blocked n then answer_bvh (Bvh_unblocked False) (n\<lparr>bn_context := None\<rparr>)
      else answer_bvh (Bvh_unblocked True) (n\<lparr>bn_blocked := False, bn_stop_complete := False, bn_context := None\<rparr>))"

text \<open>Entering the blocked state; a stop that is already complete for it is not repeated.\<close>

definition enter_blocked :: "bvh_node \<Rightarrow> bvh_node" where
  "enter_blocked n = (if bn_blocked n then n else n\<lparr>bn_blocked := True, bn_stop_complete := False\<rparr>)"

definition block :: "json_object \<Rightarrow> bvh_node \<Rightarrow> bvh_node" where
  "block s n =
     (let changed = (\<not> bn_blocked n); n1 = enter_blocked (n\<lparr>bn_context := Some s\<rparr>)
      in if bn_stop_complete n1 then answer_bvh (Bvh_blocked changed) n1 else bvh_calls (Bvh_block changed) Call_stop n1)"

definition on_execution_state :: "json_object \<Rightarrow> bvh_node \<Rightarrow> bvh_node" where
  "on_execution_state s n = (if blocks_playback s then block s n else unblock n)"

definition block_returns :: "bool \<Rightarrow> bool \<Rightarrow> bvh_node \<Rightarrow> bvh_node" where
  "block_returns changed ok n =
     (if ok then answer_bvh (Bvh_blocked changed) (n\<lparr>bn_stop_complete := True\<rparr>) else answer_bvh Bvh_block_failed n)"

definition bvh_close :: "bvh_node \<Rightarrow> bvh_node" where
  "bvh_close n =
     (if bn_close_complete n then answer_bvh Bvh_closed n
      else let n1 = enter_blocked (n\<lparr>bn_closed := True\<rparr>)
           in if bn_stop_complete n1 then answer_bvh Bvh_closed (n1\<lparr>bn_close_complete := True\<rparr>)
              else bvh_calls Bvh_close Call_stop n1)"

definition close_returns :: "bool \<Rightarrow> bvh_node \<Rightarrow> bvh_node" where
  "close_returns ok n =
     (if ok then answer_bvh Bvh_closed (n\<lparr>bn_stop_complete := True, bn_close_complete := True\<rparr>) else answer_bvh Bvh_close_failed n)"

section \<open>Steps\<close>

datatype bvh_event =
    Bvh_payload json
  | Bvh_state json_object
  | Bvh_shutdown
  | Bvh_returns                    \<comment> \<open>the operation of the player has its answer\<close>
  | Bvh_op bool
  | Bvh_worker nat worker_input

definition call_returns :: "bvh_call \<Rightarrow> bool \<Rightarrow> bvh_node \<Rightarrow> bvh_node" where
  "call_returns call ok n =
     (case call of
        Bvh_request payload rq \<Rightarrow> request_returns rq ok n
      | Bvh_block changed \<Rightarrow> block_returns changed ok n
      | Bvh_close \<Rightarrow> close_returns ok n)"

definition when_free :: "(bvh_node \<Rightarrow> bvh_node) \<Rightarrow> bvh_node \<Rightarrow> bvh_node option" where
  "when_free f n = (if bn_call n = None then Some (f n) else None)"

definition with_player :: "player option \<Rightarrow> bvh_node \<Rightarrow> bvh_node option" where
  "with_player r n = map_option (\<lambda>p. n\<lparr>bn_player := p\<rparr>) r"

fun bvh_step :: "bvh_event \<Rightarrow> bvh_node \<Rightarrow> bvh_node option" where
  "bvh_step (Bvh_payload payload) n = when_free (handle_play_payload payload) n"
| "bvh_step (Bvh_state s) n = when_free (on_execution_state s) n"
| "bvh_step Bvh_shutdown n = when_free bvh_close n"
| "bvh_step Bvh_returns n =
     (case bn_call n of
        None \<Rightarrow> None
      | Some call \<Rightarrow>
          if bp_op (bn_player n) \<noteq> None then None
          else map_option (\<lambda>ok. call_returns call ok n) (bp_answer (bn_player n)))"
| "bvh_step (Bvh_op late) n = with_player (player_step (Pl_op late) (bn_player n)) n"
| "bvh_step (Bvh_worker g i) n = with_player (player_step (Pl_worker g i) (bn_player n)) n"

inductive bvh_reachable :: "bvh_node \<Rightarrow> bool" where
  start: "bvh_reachable bvh_node_init"
| step: "bvh_reachable n \<Longrightarrow> bvh_step e n = Some n' \<Longrightarrow> bvh_reachable n'"

fun bvh_run :: "bvh_event list \<Rightarrow> bvh_node \<Rightarrow> bvh_node option" where
  "bvh_run [] n = Some n"
| "bvh_run (e # es) n = Option.bind (bvh_step e n) (bvh_run es)"

section \<open>Messages\<close>

text \<open>\<open>_value_encoding_for_servo_type\<close> and \<open>_publish_motion_command\<close>; \<open>str\<close> prints a value that is no text.\<close>

definition value_encoding_for :: "json \<Rightarrow> string" where
  "value_encoding_for servo_type =
     (if json_name servo_type = Some ''bus'' then ''bus_pulse_us''
      else if json_name servo_type = Some ''pca'' then ''pca_tick''
      else '''')"

definition bvh_motion_command :: "(json \<Rightarrow> string) \<Rightarrow> bvh_command \<Rightarrow> motion_command" where
  "bvh_motion_command str c =
     \<lparr>mc_servo_type = (case bc_servo_type c of J_string s \<Rightarrow> s | v \<Rightarrow> str v), mc_servo_id = bc_servo_id c,
      mc_position = bc_position c, mc_value_encoding = value_encoding_for (bc_servo_type c), mc_duration_ms = 100,
      mc_requester_id = '''', mc_lease_id = ''''\<rparr>"

end
