(* ===== verification/Bvh_Safety.thy ===== *)
theory Bvh_Safety
  imports Bvh_Extension Teleop_Handshake
begin

text \<open>
  What the interlock of the playback guarantees over all interleavings of requests, execution states, operations
  of the player and its threads; and what the states of the execution manager mean to it.
\<close>

section \<open>Invariant\<close>

fun call_kind :: "bvh_call \<Rightarrow> player_call" where
  "call_kind (Bvh_request payload rq) = (if stops rq then Call_stop else Call_play (pq_loop rq))"
| "call_kind call = Call_stop"

text \<open>How far the player is with the call.\<close>

definition call_ok :: "bvh_call \<Rightarrow> player \<Rightarrow> bool" where
  "call_ok call p \<longleftrightarrow>
     (case bp_op p of
        Some q \<Rightarrow> po_call q = call_kind call \<and> po_caller q = None
      | None \<Rightarrow> bp_answer p \<noteq> None \<and> (call_kind call = Call_stop \<longrightarrow> hushed p \<and> (bp_answer p = Some True \<longrightarrow> player_quiet p)))"

definition node_ok :: "bvh_node \<Rightarrow> bool" where
  "node_ok n \<longleftrightarrow>
     player_ok (bn_player n)
     \<and> (case bn_call n of None \<Rightarrow> bp_op (bn_player n) = None | Some call \<Rightarrow> call_ok call (bn_player n))
     \<and> (bn_closed n \<longrightarrow> bn_blocked n) \<and> (bn_close_complete n \<longrightarrow> bn_closed n \<and> bn_stop_complete n)
     \<and> (bn_blocked n \<and> bn_stop_complete n \<longrightarrow> player_quiet (bn_player n))
     \<and> (bn_blocked n \<longrightarrow> (\<forall>call. bn_call n = Some call \<longrightarrow> call_kind call = Call_stop))
     \<and> (\<forall>changed. bn_call n = Some (Bvh_block changed) \<longrightarrow> bn_blocked n) \<and> (bn_call n = Some Bvh_close \<longrightarrow> bn_closed n)"

lemmas bvh_ops = answer_bvh_def bvh_calls_def block_def unblock_def enter_blocked_def bvh_close_def apply_request_def
  on_execution_state_def handle_play_payload_def

lemma node_okD:
  assumes "node_ok n"
  shows "player_ok (bn_player n)" "bn_call n = None \<Longrightarrow> bp_op (bn_player n) = None" "bn_call n = Some call \<Longrightarrow> call_ok call (bn_player n)"
    "bn_blocked n \<Longrightarrow> bn_stop_complete n \<Longrightarrow> player_quiet (bn_player n)" "bn_blocked n \<Longrightarrow> bn_call n = Some call \<Longrightarrow> call_kind call = Call_stop"
    "bn_closed n \<Longrightarrow> bn_blocked n" "bn_close_complete n \<Longrightarrow> bn_closed n \<and> bn_stop_complete n"
  using assms by (auto simp: node_ok_def)

text \<open>The operation of the player goes on.\<close>

lemma call_ok_op:
  assumes ok: "player_ok p" and c: "call_ok call p" and st: "op_step late p = Some p'"
  shows "call_ok call p'"
proof -
  obtain q where q: "bp_op p = Some q" using st by (auto simp: op_step_def split: option.splits)
  have k: "po_call q = call_kind call" "po_caller q = None" using c q by (simp_all add: call_ok_def)
  show ?thesis
  proof (cases "bp_op p'")
    case (Some q')
    then show ?thesis using op_step_call [OF st q] k by (simp add: call_ok_def)
  next
    case None
    then obtain r where r: "bp_answer p' = Some r" using op_step_call [OF st q] by auto
    have "hushed p' \<and> (r \<longrightarrow> player_quiet p')" if "call_kind call = Call_stop"
      using stop_answer_hushed [OF ok q _ k(2) st None] stop_answer_quiet [OF ok q _ st _ None] k(1) that r by auto
    then show ?thesis using None r by (auto simp: call_ok_def)
  qed
qed

fun is_call :: "player_event \<Rightarrow> bool" where
  "is_call (Pl_call call caller) = True"
| "is_call e = False"

lemma hushed_quiet_player:
  assumes ok: "player_ok p" and st: "player_step e p = Some p'" and e: "\<not> is_call e"
  shows "player_quiet p \<Longrightarrow> player_quiet p'" "hushed p \<Longrightarrow> hushed p'"
proof -
  have "e \<noteq> Pl_call (Call_play loop) caller" for loop caller using e by auto
  then show "player_quiet p'" if "player_quiet p" using quiet_step [OF ok that st] by blast
  show "hushed p'" if "hushed p"
  proof (cases e)
    case (Pl_op late)
    then show ?thesis using hushed_op [OF ok that] st by simp
  next
    case (Pl_worker g i)
    then show ?thesis using hushed_worker [OF ok that] st by simp
  qed (use e in simp)
qed

lemma call_ok_worker:
  assumes ok: "player_ok p" and c: "call_ok call p" and st: "worker_step g i p = Some p'"
  shows "call_ok call p'"
proof -
  have e: "bp_op p' = bp_op p" "bp_answer p' = bp_answer p" using worker_step_keeps(1) [OF st] worker_step_answer [OF st] .
  have s: "player_step (Pl_worker g i) p = Some p'" using st by simp
  have "player_quiet p \<Longrightarrow> player_quiet p'" "hushed p \<Longrightarrow> hushed p'" using hushed_quiet_player [OF ok s] by simp_all
  then show ?thesis using c by (cases "bp_op p") (auto simp: call_ok_def e)
qed

lemma player_moves_ok:
  assumes ok: "node_ok n" and st: "player_step e (bn_player n) = Some p" and e: "\<not> is_call e"
  shows "node_ok (n\<lparr>bn_player := p\<rparr>)"
proof -
  note D = node_okD [OF ok]
  have c: "call_ok call p" if "bn_call n = Some call" for call
  proof (cases e)
    case (Pl_op late)
    then show ?thesis using call_ok_op [OF D(1) D(3) [OF that]] st by simp
  next
    case (Pl_worker g i)
    then show ?thesis using call_ok_worker [OF D(1) D(3) [OF that]] st by simp
  qed (use e in simp)
  have n: "bp_op p = None" if "bn_call n = None"
  proof (cases e)
    case (Pl_op late)
    then show ?thesis using D(2) [OF that] st by (simp add: op_step_def)
  next
    case (Pl_worker g i)
    then show ?thesis using D(2) [OF that] st worker_step_keeps(1) [of g i "bn_player n" p] by simp
  qed (use e in simp)
  have q: "player_quiet p" if "bn_blocked n" "bn_stop_complete n"
    using D(4) [OF that] hushed_quiet_player(1) [OF D(1) st e] by blast
  have "case bn_call n of None \<Rightarrow> bp_op p = None | Some call \<Rightarrow> call_ok call p" using c n by (cases "bn_call n") simp_all
  then show ?thesis using ok player_step_ok [OF D(1) st] q unfolding node_ok_def by (cases "bn_call n") simp_all
qed

lemma quiet_call: "player_quiet p \<Longrightarrow> player_quiet (player_calls Call_stop None p)"
  by (simp add: player_quiet_def player_calls_def)

lemma calls_ok: "player_ok p \<Longrightarrow> bp_op p = None \<Longrightarrow> player_ok (player_calls pc None p)"
  using player_step_ok [of p "Pl_call pc None"] by (simp add: may_call_def)

lemma calls_call_ok: "call_ok call (player_calls (call_kind call) None p)"
  by (simp add: call_ok_def player_calls_def)

lemma request_call_ok [simp]:
  "stops rq \<Longrightarrow> call_ok (Bvh_request payload rq) (player_calls Call_stop None p)"
  "\<not> stops rq \<Longrightarrow> call_ok (Bvh_request payload rq) (player_calls (Call_play (pq_loop rq)) None p)"
  by (simp_all add: call_ok_def player_calls_def)

lemma handle_play_ok:
  assumes ok: "node_ok n" and free: "bn_call n = None"
  shows "node_ok (handle_play_payload payload n)"
  using ok free node_okD(2) [OF ok free] calls_ok quiet_call
  by (auto simp: node_ok_def bvh_ops split: option.split)

lemma on_state_ok:
  assumes ok: "node_ok n" and free: "bn_call n = None"
  shows "node_ok (on_execution_state s n)"
  using ok free node_okD(2) [OF ok free] calls_ok calls_call_ok [of "Bvh_block ch" "bn_player n" for ch] quiet_call
  by (auto simp: node_ok_def bvh_ops Let_def)

lemma close_ok:
  assumes ok: "node_ok n" and free: "bn_call n = None"
  shows "node_ok (bvh_close n)"
  using ok free node_okD(2) [OF ok free] calls_ok calls_call_ok [of "Bvh_close" "bn_player n"] quiet_call
  by (auto simp: node_ok_def bvh_ops Let_def)

lemma returns_ok:
  assumes ok: "node_ok n" and call: "bn_call n = Some call" "bp_op (bn_player n) = None" "bp_answer (bn_player n) = Some r"
  shows "node_ok (call_returns call r n)"
  using ok call
  by (auto simp: node_ok_def call_returns_def request_returns_def block_returns_def close_returns_def answer_bvh_def call_ok_def Let_def
      split: bvh_call.splits)

lemma bvh_step_ok:
  assumes ok: "node_ok n" and st: "bvh_step e n = Some n'"
  shows "node_ok n'"
proof (cases e)
  case (Bvh_op late)
  then show ?thesis using st player_moves_ok [OF ok, of "Pl_op late"] by (auto simp: with_player_def)
next
  case (Bvh_worker g i)
  then show ?thesis using st player_moves_ok [OF ok, of "Pl_worker g i"] by (auto simp: with_player_def)
next
  case Bvh_returns
  then show ?thesis using st returns_ok [OF ok] by (auto split: option.splits if_splits)
qed (use st handle_play_ok [OF ok] on_state_ok [OF ok] close_ok [OF ok] in \<open>auto simp: when_free_def split: if_splits\<close>)

lemma bvh_reachable_ok: "bvh_reachable n \<Longrightarrow> node_ok n"
proof (induction rule: bvh_reachable.induct)
  case start
  have "player_ok player_init" using player_reachable_ok [OF player_reachable.start] .
  then show ?case by (simp add: node_ok_def bvh_node_init_def player_init_def)
qed (rule bvh_step_ok)

lemma bvh_run_ok: "bvh_run es n = Some n' \<Longrightarrow> node_ok n \<Longrightarrow> node_ok n'"
  by (induction es arbitrary: n) (auto simp: bind_eq_Some_conv intro: bvh_step_ok)

section \<open>A blocked playback\<close>

definition outputs :: "bvh_node \<Rightarrow> (nat \<times> bvh_command) list" where
  "outputs n = bp_out (bn_player n)"

text \<open>The events that may let a playback start again.\<close>

definition unblocks :: "bvh_event \<Rightarrow> bool" where
  "unblocks e \<longleftrightarrow> (case e of Bvh_state s \<Rightarrow> \<not> blocks_playback s | _ \<Rightarrow> False)"

text \<open>Blocked with a stop under way: what may still come out is what the worker held is about to publish.\<close>

definition muted :: "bvh_node \<Rightarrow> bool" where
  "muted n \<longleftrightarrow> bn_blocked n \<and> hushed (bn_player n)"

definition left_over :: "bvh_node \<Rightarrow> nat" where
  "left_over n = length (outputs n) + owed_held (bn_player n)"

lemma muted_calls: "muted n \<Longrightarrow> muted (bvh_calls call Call_stop n) \<and> left_over (bvh_calls call Call_stop n) = left_over n"
  by (simp add: muted_def left_over_def outputs_def bvh_calls_def player_calls_def hushed_def owed_held_def split: option.split) auto

lemma muted_reply [simp]: "muted (answer_bvh r n) = muted n" "left_over (answer_bvh r n) = left_over n"
  "outputs (answer_bvh r n) = outputs n" "bn_closed (answer_bvh r n) = bn_closed n"
  by (simp_all add: muted_def left_over_def outputs_def answer_bvh_def)

lemma muted_flags [simp]:
  "muted (n\<lparr>bn_context := c\<rparr>) = muted n" "left_over (n\<lparr>bn_context := c\<rparr>) = left_over n"
  "muted (n\<lparr>bn_closed := b\<rparr>) = muted n" "left_over (n\<lparr>bn_closed := b\<rparr>) = left_over n"
  "muted (n\<lparr>bn_stop_complete := b\<rparr>) = muted n" "left_over (n\<lparr>bn_stop_complete := b\<rparr>) = left_over n"
  "muted (n\<lparr>bn_close_complete := b\<rparr>) = muted n" "left_over (n\<lparr>bn_close_complete := b\<rparr>) = left_over n"
  by (simp_all add: muted_def left_over_def outputs_def)

lemma bvh_returnsE:
  assumes "bvh_step Bvh_returns n = Some n'"
  obtains call r where "bn_call n = Some call" "bp_op (bn_player n) = None" "bp_answer (bn_player n) = Some r" "n' = call_returns call r n"
  using assms by (auto split: option.splits if_splits)

lemmas return_ops = call_returns_def request_returns_def block_returns_def close_returns_def Let_def

lemma call_returns_keeps [simp]:
  "muted (call_returns call r n) = muted n" "left_over (call_returns call r n) = left_over n"
  "outputs (call_returns call r n) = outputs n" "bn_closed (call_returns call r n) = bn_closed n"
  by (cases call; auto simp: return_ops outputs_def answer_bvh_def muted_def left_over_def)+

lemma muted_step:
  assumes ok: "node_ok n" and mt: "muted n" and st: "bvh_step e n = Some n'" and e: "\<not> unblocks e \<or> bn_closed n"
  shows "muted n' \<and> left_over n' \<le> left_over n"
proof -
  note D = node_okD [OF ok]
  have b: "bn_blocked n" using mt by (simp add: muted_def)
  have player: "muted (n\<lparr>bn_player := p\<rparr>) \<and> left_over (n\<lparr>bn_player := p\<rparr>) \<le> left_over n"
    if "hushed p \<and> length (bp_out p) + owed_held p \<le> length (bp_out (bn_player n)) + owed_held (bn_player n)" for p
    using that b by (simp add: muted_def left_over_def outputs_def)
  have h: "hushed (bn_player n)" using mt by (simp add: muted_def)
  show ?thesis
  proof (cases e)
    case (Bvh_payload payload)
    then show ?thesis using st mt b muted_calls [OF mt]
      by (auto simp: when_free_def handle_play_payload_def apply_request_def split: if_splits option.splits)
  next
    case (Bvh_state s)
    then have "n' = on_execution_state s n" using st by (simp add: when_free_def split: if_splits)
    then show ?thesis using Bvh_state e mt b muted_calls [of "n\<lparr>bn_context := Some s\<rparr>"]
      by (auto simp: on_execution_state_def unblocks_def block_def unblock_def enter_blocked_def Let_def)
  next
    case Bvh_shutdown
    then have "n' = bvh_close n" using st by (simp add: when_free_def split: if_splits)
    then show ?thesis using mt b muted_calls [of "n\<lparr>bn_closed := True\<rparr>"]
      by (auto simp: bvh_close_def enter_blocked_def Let_def)
  next
    case Bvh_returns
    then obtain call r where "n' = call_returns call r n" using st bvh_returnsE by metis
    then show ?thesis using mt by simp
  next
    case (Bvh_op late)
    then obtain p where "op_step late (bn_player n) = Some p" "n' = n\<lparr>bn_player := p\<rparr>" using st by (auto simp: with_player_def)
    then show ?thesis using player hushed_op [OF D(1) h] by blast
  next
    case (Bvh_worker g i)
    then obtain p where "worker_step g i (bn_player n) = Some p" "n' = n\<lparr>bn_player := p\<rparr>" using st by (auto simp: with_player_def)
    then show ?thesis using player hushed_worker [OF D(1) h] by blast
  qed
qed

lemma closed_step:
  assumes st: "bvh_step e n = Some n'" and c: "bn_closed n"
  shows "bn_closed n'"
proof (cases e)
  case Bvh_returns
  then obtain call r where "n' = call_returns call r n" using st bvh_returnsE by metis
  then show ?thesis using c by simp
qed (use assms in \<open>auto simp: when_free_def with_player_def bvh_ops Let_def split: option.splits if_splits\<close>)

lemma muted_run:
  "bvh_run es n = Some n' \<Longrightarrow> node_ok n \<Longrightarrow> muted n \<Longrightarrow> list_all (\<lambda>e. \<not> unblocks e) es \<or> bn_closed n \<Longrightarrow> left_over n' \<le> left_over n"
proof (induction es arbitrary: n)
  case (Cons e es)
  then obtain n1 where n1: "bvh_step e n = Some n1" "bvh_run es n1 = Some n'" by (auto simp: bind_eq_Some_conv)
  have "\<not> unblocks e \<or> bn_closed n" using Cons.prems(4) by auto
  then have m: "muted n1" "left_over n1 \<le> left_over n" using muted_step [OF Cons.prems(2,3) n1(1)] by simp_all
  have "list_all (\<lambda>e. \<not> unblocks e) es \<or> bn_closed n1" using Cons.prems(4) closed_step [OF n1(1)] by auto
  from Cons.IH [OF n1(2) bvh_step_ok [OF Cons.prems(2) n1(1)] m(1) this] m(2) show ?case by simp
qed simp

lemma outputs_grow_step:
  assumes st: "bvh_step e n = Some n'"
  shows "\<exists>xs. outputs n' = xs @ outputs n"
proof (cases e)
  case (Bvh_op late)
  then show ?thesis using st op_step_out by (auto simp: with_player_def outputs_def)
next
  case (Bvh_worker g i)
  then show ?thesis using st worker_step_out [of g i "bn_player n"] by (auto simp: with_player_def outputs_def)
next
  case Bvh_returns
  then obtain call r where "n' = call_returns call r n" using st bvh_returnsE by metis
  then show ?thesis by simp
qed (use st in \<open>auto simp: when_free_def bvh_ops outputs_def player_calls_def Let_def split: option.splits if_splits\<close>)

lemma outputs_grow: "bvh_run es n = Some n' \<Longrightarrow> \<exists>xs. outputs n' = xs @ outputs n"
proof (induction es arbitrary: n)
  case (Cons e es)
  then obtain n1 where n1: "bvh_step e n = Some n1" "bvh_run es n1 = Some n'" by (auto simp: bind_eq_Some_conv)
  obtain xs ys where "outputs n1 = xs @ outputs n" "outputs n' = ys @ outputs n1" using outputs_grow_step [OF n1(1)] Cons.IH [OF n1(2)] by blast
  then show ?case by simp
qed simp

lemma silent_run:
  assumes "bvh_run es n = Some n'" "node_ok n" "bn_blocked n" "bn_stop_complete n" "list_all (\<lambda>e. \<not> unblocks e) es \<or> bn_closed n"
  shows "outputs n' = outputs n"
proof -
  have q: "player_quiet (bn_player n)" using node_okD(4) [OF assms(2-4)] .
  then have "muted n" using quiet_hushed [OF node_okD(1) [OF assms(2)]] assms(3) by (simp add: muted_def)
  from muted_run [OF assms(1,2) this assms(5)] have "left_over n' \<le> left_over n" .
  moreover have "owed_held (bn_player n) = 0" using q by (simp add: player_quiet_def owed_held_def)
  ultimately have "length (outputs n') \<le> length (outputs n)" by (simp add: left_over_def)
  then show ?thesis using outputs_grow [OF assms(1)] by auto
qed

text \<open>What a reply says of the state after it.\<close>

lemma blocked_reply:
  assumes "node_ok n" "bvh_step e n = Some n'" "bn_replies n' = Bvh_blocked changed # bn_replies n"
  shows "bn_blocked n' \<and> bn_stop_complete n'"
proof (cases e)
  case Bvh_returns
  then obtain call r where "bn_call n = Some call" "n' = call_returns call r n" using assms(2) bvh_returnsE by metis
  then show ?thesis using assms(1,3) by (cases call) (auto simp: node_ok_def return_ops answer_bvh_def split: if_splits)
qed (use assms(2,3) in \<open>auto simp: when_free_def with_player_def bvh_ops Let_def split: option.splits if_splits\<close>)

lemma closed_reply:
  assumes "node_ok n" "bvh_step e n = Some n'" "bn_replies n' = Bvh_closed # bn_replies n"
  shows "bn_closed n' \<and> bn_blocked n' \<and> bn_stop_complete n'"
proof (cases e)
  case Bvh_returns
  then obtain call r where "bn_call n = Some call" "n' = call_returns call r n" using assms(2) bvh_returnsE by metis
  then show ?thesis using assms(1,3) by (cases call) (auto simp: node_ok_def return_ops answer_bvh_def split: if_splits)
qed (use assms in \<open>auto simp: node_ok_def when_free_def with_player_def bvh_ops Let_def split: option.splits if_splits\<close>)

lemma block_failed_reply:
  assumes "node_ok n" "bvh_step e n = Some n'" "bn_replies n' = Bvh_block_failed # bn_replies n"
  shows "muted n'"
proof (cases e)
  case Bvh_returns
  then obtain call r where c: "bn_call n = Some call" "bp_op (bn_player n) = None" "n' = call_returns call r n"
    using assms(2) bvh_returnsE by metis
  then have "call_ok call (bn_player n)" using node_okD(3) [OF assms(1)] by blast
  then show ?thesis
    using assms(1,3) c by (cases call) (auto simp: node_ok_def return_ops answer_bvh_def call_ok_def muted_def split: if_splits)
qed (use assms(2,3) in \<open>auto simp: when_free_def with_player_def bvh_ops Let_def split: option.splits if_splits\<close>)

section \<open>Properties\<close>

text \<open>
  C33: The interlock holds: once the extension has taken an execution state with a task or a teleoperator in control
  without an error, no playback publishes a command, whatever clients request and however threads and operations
  interleave, until a state without either arrives.
\<close>

theorem interlock_is_silent:
  assumes "bvh_reachable n" "bvh_step e n = Some n1" "bn_replies n1 = Bvh_blocked changed # bn_replies n"
    and "bvh_run es n1 = Some n2" "list_all (\<lambda>e. \<not> unblocks e) es"
  shows "outputs n2 = outputs n1"
proof -
  have ok: "node_ok n" using assms(1) by (rule bvh_reachable_ok)
  show ?thesis
    using silent_run [OF assms(4) bvh_step_ok [OF ok assms(2)]] blocked_reply [OF ok assms(2,3)] assms(5) by blast
qed

text \<open>
  When the stop of the interlock times out, the extension answers that it failed and stays blocked, and at most one more command
  is published before a state without task and teleoperator arrives.
\<close>

theorem failed_interlock_is_bounded:
  assumes "bvh_reachable n" "bvh_step e n = Some n1" "bn_replies n1 = Bvh_block_failed # bn_replies n"
    and "bvh_run es n1 = Some n2" "list_all (\<lambda>e. \<not> unblocks e) es"
  shows "length (outputs n2) \<le> length (outputs n1) + 1"
proof -
  have ok: "node_ok n" using assms(1) by (rule bvh_reachable_ok)
  have "left_over n2 \<le> left_over n1"
    using muted_run [OF assms(4) bvh_step_ok [OF ok assms(2)] block_failed_reply [OF ok assms(2,3)]] assms(5) by blast
  then show ?thesis using owed_held_le [of "bn_player n1"] by (simp add: left_over_def)
qed

text \<open>
  Closing is final: once \<open>close\<close> has returned, nothing that happens makes the extension publish a command again.
\<close>

theorem closed_playback_is_silent:
  assumes "bvh_reachable n" "bvh_step e n = Some n1" "bn_replies n1 = Bvh_closed # bn_replies n" "bvh_run es n1 = Some n2"
  shows "outputs n2 = outputs n1"
proof -
  have ok: "node_ok n" using assms(1) by (rule bvh_reachable_ok)
  show ?thesis
    using silent_run [OF assms(4) bvh_step_ok [OF ok assms(2)]] closed_reply [OF ok assms(2,3)] by blast
qed

section \<open>Runs as evidence\<close>

definition node_shows :: "bvh_event list \<Rightarrow> (bvh_node \<Rightarrow> bool) \<Rightarrow> bool" where
  "node_shows es Q \<longleftrightarrow> (case bvh_run es bvh_node_init of None \<Rightarrow> False | Some n \<Rightarrow> Q n)"

lemma bvh_run_reachable: "bvh_run es n = Some n' \<Longrightarrow> bvh_reachable n \<Longrightarrow> bvh_reachable n'"
  by (induction es arbitrary: n) (auto simp: bind_eq_Some_conv intro: bvh_reachable.step)

lemma node_showsE: "node_shows es Q \<Longrightarrow> \<exists>n. bvh_reachable n \<and> Q n"
  using bvh_run_reachable [OF _ bvh_reachable.start] by (auto simp: node_shows_def split: option.splits)

definition walk_request :: json where
  "walk_request = J_object [(''type'', J_string ''bvh_play''), (''action'', J_string ''walking''), (''loop'', J_bool True)]"

definition demo_task_state :: json_object where
  "demo_task_state = [(''task_active'', J_bool True), (''active_source'', J_string ''task''), (''mode'', J_string ''task_active'')]"

text \<open>A client starts a loop, its worker is about to publish, a task takes control; the stop waits for the worker.\<close>

definition walking_run :: "bvh_event list" where
  "walking_run = [Bvh_payload walk_request, Bvh_op False, Bvh_op False, Bvh_op False, Bvh_returns,
     Bvh_worker 1 (Wi_loaded True [[Some demo_bvh_command]]), Bvh_worker 1 Wi_go, Bvh_worker 1 Wi_go]"

definition blocking_run :: "bvh_event list" where
  "blocking_run = walking_run @ [Bvh_state demo_task_state, Bvh_op False, Bvh_op False]"

definition worker_ends :: "bvh_event list" where
  "worker_ends = replicate 4 (Bvh_worker 1 Wi_go) @ [Bvh_op False, Bvh_op False]"

lemma blocking_events: "list_all (\<lambda>e. \<not> unblocks e) [Bvh_payload walk_request, Bvh_state demo_task_state, Bvh_shutdown]"
  "list_all (\<lambda>e. \<not> unblocks e) [Bvh_worker 1 Wi_go, Bvh_worker 1 Wi_go]"
  by code_simp+

theorem interlock_is_silent_witness:
  "\<exists>n n1 n2. bvh_step Bvh_returns n = Some n1 \<and> bvh_run [Bvh_payload walk_request, Bvh_state demo_task_state, Bvh_shutdown] n1 = Some n2
     \<and> outputs n1 \<noteq> [] \<and> outputs n2 = outputs n1"
proof -
  have "node_shows (blocking_run @ worker_ends) (\<lambda>n. bn_replies n = [Bvh_ack (J_string ''walking'') True]
      \<and> (case bvh_step Bvh_returns n of None \<Rightarrow> False
         | Some n1 \<Rightarrow> bn_replies n1 = [Bvh_blocked True, Bvh_ack (J_string ''walking'') True] \<and> outputs n1 \<noteq> []
             \<and> bvh_run [Bvh_payload walk_request, Bvh_state demo_task_state, Bvh_shutdown] n1 \<noteq> None))"
    by code_simp
  then obtain n n1 n2 where n: "bvh_reachable n" "bvh_step Bvh_returns n = Some n1" "bn_replies n1 = Bvh_blocked True # bn_replies n"
      "bvh_run [Bvh_payload walk_request, Bvh_state demo_task_state, Bvh_shutdown] n1 = Some n2" "outputs n1 \<noteq> []"
    by (auto dest!: node_showsE simp del: bvh_step.simps bvh_run.simps split: option.splits)
  show ?thesis using interlock_is_silent [OF n(1-4) blocking_events(1)] n by blast
qed

theorem failed_interlock_is_bounded_witness:
  "\<exists>n n1 n2. bvh_step Bvh_returns n = Some n1 \<and> bvh_run [Bvh_worker 1 Wi_go, Bvh_worker 1 Wi_go] n1 = Some n2
     \<and> outputs n1 = [] \<and> length (outputs n2) \<le> length (outputs n1) + 1"
proof -
  have "node_shows (blocking_run @ [Bvh_op True]) (\<lambda>n. bn_replies n = [Bvh_ack (J_string ''walking'') True]
      \<and> (case bvh_step Bvh_returns n of None \<Rightarrow> False
         | Some n1 \<Rightarrow> bn_replies n1 = [Bvh_block_failed, Bvh_ack (J_string ''walking'') True] \<and> outputs n1 = []
             \<and> bvh_run [Bvh_worker 1 Wi_go, Bvh_worker 1 Wi_go] n1 \<noteq> None))"
    by code_simp
  then obtain n n1 n2 where n: "bvh_reachable n" "bvh_step Bvh_returns n = Some n1" "bn_replies n1 = Bvh_block_failed # bn_replies n"
      "bvh_run [Bvh_worker 1 Wi_go, Bvh_worker 1 Wi_go] n1 = Some n2" "outputs n1 = []"
    by (auto dest!: node_showsE simp del: bvh_step.simps bvh_run.simps split: option.splits)
  show ?thesis using failed_interlock_is_bounded [OF n(1-4) blocking_events(2)] n by blast
qed

theorem closed_playback_is_silent_witness:
  "\<exists>n n1 n2. bvh_step Bvh_returns n = Some n1 \<and> bvh_run [Bvh_state [], Bvh_payload walk_request] n1 = Some n2
     \<and> outputs n1 \<noteq> [] \<and> outputs n2 = outputs n1"
proof -
  have "node_shows (walking_run @ [Bvh_shutdown, Bvh_op False, Bvh_op False] @ worker_ends) (\<lambda>n. bn_replies n = [Bvh_ack (J_string ''walking'') True]
      \<and> (case bvh_step Bvh_returns n of None \<Rightarrow> False
         | Some n1 \<Rightarrow> bn_replies n1 = [Bvh_closed, Bvh_ack (J_string ''walking'') True] \<and> outputs n1 \<noteq> []
             \<and> bvh_run [Bvh_state [], Bvh_payload walk_request] n1 \<noteq> None))"
    by code_simp
  then obtain n n1 n2 where n: "bvh_reachable n" "bvh_step Bvh_returns n = Some n1" "bn_replies n1 = Bvh_closed # bn_replies n"
      "bvh_run [Bvh_state [], Bvh_payload walk_request] n1 = Some n2" "outputs n1 \<noteq> []"
    by (auto dest!: node_showsE simp del: bvh_step.simps bvh_run.simps split: option.splits)
  show ?thesis using closed_playback_is_silent [OF n(1-4)] n by blast
qed

section \<open>The interlock and the arbiter\<close>

lemma published_blocks:
  "blocks_playback (published_dict now stamp st) \<longleftrightarrow>
     \<not> estop_active st \<and> (is_task_control_active now (refresh_mode now st) \<or> is_teleop_control_active now (refresh_mode now st))"
proof -
  have s: "estop_active (refresh_mode now st) = estop_active st" by simp
  have "state_text ''mode'' (published_dict now stamp st) = mode_name (arb_mode (refresh_mode now st))"
    "state_flag ''task_active'' (published_dict now stamp st) \<longleftrightarrow>
       mode_name (arb_mode (refresh_mode now st)) = ''task_active'' \<or> source_name (arb_active_source (refresh_mode now st)) = ''task''"
    by (simp_all add: published_dict_def execution_state_dict_def execution_state_of_def arb_snapshot_of_def Let_def
        state_flag_def state_text_def get_null_def jget_or_def jget_def)
  then show ?thesis
    by (auto simp: blocks_playback_def task_in_control_def published_entries refresh_mode_selects select_mode_def)
qed

lemma motion_admitted:
  "ar_accepted (fst (receive_command_from Src_motion now '''' '''' st)) \<longleftrightarrow>
     \<not> estop_active st \<and> \<not> is_task_control_active now (refresh_mode now st) \<and> \<not> is_teleop_control_active now (refresh_mode now st)"
  by (auto simp: receive_command_from_def Let_def command_rejection_def arb_reject_def accept_command_def result_of_def is_teleop_control_active_def)

text \<open>
  C34: The interlock agrees with the arbiter: without an emergency stop, a playback is blocked by the state the
  arbiter publishes if and only if the arbiter then refuses the motion commands of a playback.
\<close>

theorem interlock_is_arbiter_check:
  assumes "\<not> estop_active st"
  shows "blocks_playback (published_dict now stamp st)
     \<longleftrightarrow> \<not> ar_accepted (fst (receive_command_from Src_motion now '''' '''' st))"
  using assms by (simp add: published_blocks motion_admitted)

theorem interlock_is_arbiter_check_witness:
  "blocks_playback (published_dict 0 0 claimed) \<and> \<not> blocks_playback (published_dict 5 5 claimed)"
proof -
  have a: "\<not> ar_accepted (fst (receive_command_from Src_motion 0 '''' '''' claimed))"
    "ar_accepted (fst (receive_command_from Src_motion 5 '''' '''' claimed))" "\<not> estop_active claimed" by code_simp+
  show ?thesis using interlock_is_arbiter_check [OF a(3), of 0 0] interlock_is_arbiter_check [OF a(3), of 5 5] a by simp
qed

text \<open>
  An emergency stop does not end a playback: the states published while it is in force do not block, so the player
  goes on, its commands are refused one by one, and the first one after the release is accepted. The robot resumes the
  movement by itself.
\<close>

theorem playback_outlives_estop:
  assumes "\<not> bn_blocked n"
  shows "bn_player (on_execution_state (published_dict now stamp (apply_estop True t reason st)) n) = bn_player n
    \<and> ar_accepted (fst (receive_command_from Src_motion later '''' '''' (apply_estop False later '''' (apply_estop True t reason st))))"
proof -
  have e: "estop_active (apply_estop True t reason st)"
    by (simp add: apply_estop_def Let_def clear_teleop_control_def clear_task_control_def estop_terminates_task_def remember_task_identity_eq)
  have "\<not> blocks_playback (published_dict now stamp (apply_estop True t reason st))" using e by (simp add: published_blocks)
  then have "bn_player (on_execution_state (published_dict now stamp (apply_estop True t reason st)) n) = bn_player n"
    using assms by (simp add: on_execution_state_def unblock_def answer_bvh_def)
  moreover have e0: "\<not> estop_active (apply_estop False later '''' (apply_estop True t reason st))" by (simp add: apply_estop_def Let_def)
  moreover have c: "last_task_control_time (apply_estop True t reason st) = None" "last_teleop_control_time (apply_estop True t reason st) = None"
    by (simp_all add: apply_estop_def Let_def clear_task_control_def clear_teleop_control_def task_expired_def)
  have "\<not> is_task_control_active later (apply_estop False later '''' (apply_estop True t reason st))"
    "\<not> is_teleop_control_active later (apply_estop False later '''' (apply_estop True t reason st))"
    using c by (simp_all add: apply_estop_def [of False] Let_def clear_expired_task_control_eq activity_defs task_expired_def)
  then have "ar_accepted (fst (receive_command_from Src_motion later '''' '''' (apply_estop False later '''' (apply_estop True t reason st))))"
    using e0 by (simp add: motion_admitted)
  ultimately show ?thesis by blast
qed

end
