(* ===== verification/Bvh_Parser.thy ===== *)
theory Bvh_Parser
  imports Servo_Config
begin

text \<open>
  \<open>_parse_bvh_file\<close> of \<open>bvh_player.py\<close>, on the lines of the file: the hierarchy, with its stack of blocks, gives the
  order of the channels; the numbers of the motion part are cut into frames of as many values as there are channels.
  The names of \<open>'MOTION'\<close> are compared in lower case, which is the same on the characters of the model.
\<close>

section \<open>Words\<close>

text \<open>\<open>line.split()\<close>\<close>

function py_split :: "string \<Rightarrow> string list" where
  "py_split s =
     (let t = dropWhile py_space s
      in if t = [] then [] else takeWhile (\<lambda>c. \<not> py_space c) t # py_split (dropWhile (\<lambda>c. \<not> py_space c) t))"
  by auto
termination
proof (relation "measure length")
  show "wf (measure length)" by simp
  fix s t :: string
  assume t: "t = dropWhile py_space s" "t \<noteq> []"
  then have "\<not> py_space (hd t)" by (simp add: hd_dropWhile)
  then have "length (dropWhile (\<lambda>c. \<not> py_space c) t) < length t"
    using t(2) by (cases t) (auto simp: length_dropWhile_le less_Suc_eq_le)
  also have "length t \<le> length s" using t(1) by (simp add: length_dropWhile_le)
  finally show "(dropWhile (\<lambda>c. \<not> py_space c) t, s) \<in> measure length" by simp
qed

declare py_split.simps [simp del]

text \<open>\<open>xs[a:b]\<close> with \<open>a\<close> not negative; a negative \<open>b\<close> counts from the end.\<close>

definition py_slice :: "nat \<Rightarrow> int \<Rightarrow> 'a list \<Rightarrow> 'a list" where
  "py_slice a b xs = drop a (take (nat (if b < 0 then int (length xs) + b else b)) xs)"

section \<open>Hierarchy\<close>

datatype bvh_block = Joint_block | End_block

record bvh_hierarchy =
  hi_channels :: "(string \<times> string) list"
  hi_joint_channels :: "(string \<times> string list) list"
  hi_blocks :: "bvh_block list"            \<comment> \<open>top first\<close>
  hi_joints :: "string list"               \<comment> \<open>top first\<close>
  hi_current :: "string option"

definition hierarchy_start :: bvh_hierarchy where
  "hierarchy_start = \<lparr>hi_channels = [], hi_joint_channels = [], hi_blocks = [], hi_joints = [], hi_current = None\<rparr>"

text \<open>A line that starts with \<open>ROOT\<close> or \<open>JOINT\<close> and a space has a second word, because it is stripped.\<close>

definition open_joint :: "string \<Rightarrow> bvh_hierarchy \<Rightarrow> bvh_hierarchy" where
  "open_joint line h =
     (let name = py_split line ! 1
      in h\<lparr>hi_current := Some name, hi_joints := name # hi_joints h, hi_blocks := Joint_block # hi_blocks h\<rparr>)"

definition read_channels :: "string \<Rightarrow> bvh_hierarchy \<Rightarrow> bvh_hierarchy" where
  "read_channels line h =
     (let parts = py_split line
      in case hi_current h of
           None \<Rightarrow> h
         | Some joint \<Rightarrow>
             if length parts < 2 then h
             else (case py_int (parts ! 1) of
                     None \<Rightarrow> h
                   | Some count \<Rightarrow>
                       let names = py_slice 2 (2 + count) parts
                       in h\<lparr>hi_joint_channels := AList.update joint names (hi_joint_channels h),
                            hi_channels := hi_channels h @ map (Pair joint) names\<rparr>))"

definition close_block :: "bvh_hierarchy \<Rightarrow> bvh_hierarchy" where
  "close_block h =
     (case hi_blocks h of
        [] \<Rightarrow> h
      | closing # blocks \<Rightarrow>
          let h1 = h\<lparr>hi_blocks := blocks\<rparr>
          in if closing = Joint_block \<and> hi_joints h \<noteq> []
             then h1\<lparr>hi_joints := tl (hi_joints h), hi_current := (case tl (hi_joints h) of [] \<Rightarrow> None | j # js \<Rightarrow> Some j)\<rparr>
             else h1)"

definition hierarchy_line :: "string \<Rightarrow> bvh_hierarchy \<Rightarrow> bvh_hierarchy" where
  "hierarchy_line line h =
     (if py_startswith line ''ROOT '' \<or> py_startswith line ''JOINT '' then open_joint line h
      else if py_startswith line ''End Site'' then h\<lparr>hi_blocks := End_block # hi_blocks h\<rparr>
      else if py_startswith line ''CHANNELS'' then read_channels line h
      else if py_startswith line ''}'' then close_block h
      else h)"

definition is_motion :: "string \<Rightarrow> bool" where
  "is_motion line \<longleftrightarrow> py_lower line = ''motion''"

text \<open>The lines up to \<open>MOTION\<close>, and what follows it.\<close>

fun parse_hierarchy :: "string list \<Rightarrow> bvh_hierarchy \<Rightarrow> bvh_hierarchy \<times> string list" where
  "parse_hierarchy [] h = (h, [])"
| "parse_hierarchy (raw # lines) h =
     (let line = py_strip raw
      in if line = [] then parse_hierarchy lines h
         else if is_motion line then (h, lines)
         else parse_hierarchy lines (hierarchy_line line h))"

section \<open>Motion\<close>

record bvh_motion =
  mo_count :: "int option"
  mo_time :: "py_float option"
  mo_frames :: "py_float list list"
  mo_pending :: "py_float list"

definition motion_start :: bvh_motion where
  "motion_start = \<lparr>mo_count = None, mo_time = None, mo_frames = [], mo_pending = []\<rparr>"

definition frames_reached :: "int option \<Rightarrow> 'a list \<Rightarrow> bool" where
  "frames_reached count frames \<longleftrightarrow> (case count of None \<Rightarrow> False | Some c \<Rightarrow> c \<le> int (length frames))"

text \<open>The frames that are complete; it ends when the number of frames is reached.\<close>

function chop_frames :: "nat \<Rightarrow> int option \<Rightarrow> py_float list list \<Rightarrow> py_float list \<Rightarrow> py_float list list \<times> py_float list" where
  "chop_frames n count frames pending =
     (if 0 < n \<and> n \<le> length pending
      then let frames1 = frames @ [take n pending]; rest = drop n pending
           in if frames_reached count frames1 then (frames1, rest) else chop_frames n count frames1 rest
      else (frames, pending))"
  by auto
termination by (relation "measure (\<lambda>(n, count, frames, pending). length pending)") auto

declare chop_frames.simps [simp del]

text \<open>Words that are no numbers are passed over.\<close>

definition line_numbers :: "string \<Rightarrow> py_float list" where
  "line_numbers line = map the (filter (\<lambda>v. v \<noteq> None) (map text_float (py_split line)))"

definition motion_line :: "nat \<Rightarrow> string \<Rightarrow> bvh_motion \<Rightarrow> bvh_motion" where
  "motion_line n line m =
     (case chop_frames n (mo_count m) (mo_frames m) (mo_pending m @ line_numbers line) of
        (frames, pending) \<Rightarrow> m\<lparr>mo_frames := frames, mo_pending := pending\<rparr>)"

text \<open>What follows the first colon of a header line.\<close>

definition header_count :: "string \<Rightarrow> bvh_motion \<Rightarrow> bvh_motion" where
  "header_count line m =
     m\<lparr>mo_count := (case py_int (drop (length ''Frames:'') line) of None \<Rightarrow> mo_count m | Some c \<Rightarrow> Some c)\<rparr>"

definition header_time :: "string \<Rightarrow> bvh_motion \<Rightarrow> bvh_motion" where
  "header_time line m =
     m\<lparr>mo_time := (case text_float (drop (length ''Frame Time:'') line) of None \<Rightarrow> mo_time m | Some f \<Rightarrow> Some f)\<rparr>"

fun parse_motion :: "nat \<Rightarrow> string list \<Rightarrow> bvh_motion \<Rightarrow> bvh_motion" where
  "parse_motion n [] m = m"
| "parse_motion n (raw # lines) m =
     (let line = py_strip raw
      in if line = [] then parse_motion n lines m
         else if py_startswith line ''Frames:'' then parse_motion n lines (header_count line m)
         else if py_startswith line ''Frame Time:'' then parse_motion n lines (header_time line m)
         else let m1 = motion_line n line m
              in if frames_reached (mo_count m1) (mo_frames m1) then m1 else parse_motion n lines m1)"

record parsed_bvh =
  pb_channels :: "(string \<times> string) list"
  pb_frames :: "py_float list list"
  pb_frame_time :: "py_float option"
  pb_frame_count :: "int option"
  pb_joint_channels :: "(string \<times> string list) list"

definition parse_bvh_lines :: "string list \<Rightarrow> parsed_bvh option" where
  "parse_bvh_lines lines =
     (case parse_hierarchy lines hierarchy_start of
        (h, rest) \<Rightarrow>
          let m = parse_motion (length (hi_channels h)) rest motion_start
          in if mo_frames m = [] then None
             else Some \<lparr>pb_channels = hi_channels h, pb_frames = mo_frames m, pb_frame_time = mo_time m,
                        pb_frame_count = mo_count m, pb_joint_channels = hi_joint_channels h\<rparr>)"

section \<open>Frames\<close>

lemma chop_frames_cut:
  assumes "chop_frames n count frames pending = (frames', rest)"
  shows "concat frames' @ rest = concat frames @ pending"
    "list_all (\<lambda>f. length f = n) frames \<Longrightarrow> list_all (\<lambda>f. length f = n) frames'"
    "frames' = frames \<or> 0 < n"
  using assms
proof (induction n count frames pending arbitrary: frames' rest rule: chop_frames.induct)
  case (1 n count frames pending)
  { case 1 show ?case using "1.IH"(1) "1.prems"
      by (subst (asm) chop_frames.simps) (auto simp: Let_def split: if_splits) }
  { case 2 then show ?case using "1.IH"(2) 
      by (subst (asm) chop_frames.simps) (auto simp: Let_def split: if_splits) }
  { case 3 then show ?case by (subst (asm) chop_frames.simps) (auto split: if_splits) }
qed

text \<open>The numbers of the lines that are no headers.\<close>

fun motion_numbers :: "string list \<Rightarrow> py_float list" where
  "motion_numbers [] = []"
| "motion_numbers (raw # lines) =
     (let line = py_strip raw
      in (if line = [] \<or> py_startswith line ''Frames:'' \<or> py_startswith line ''Frame Time:'' then [] else line_numbers line)
         @ motion_numbers lines)"

lemma parse_motion_cut:
  assumes "list_all (\<lambda>f. length f = n) (mo_frames m)" "mo_frames m = [] \<or> 0 < n"
  shows "(\<exists>rest. concat (mo_frames (parse_motion n lines m)) @ rest = concat (mo_frames m) @ mo_pending m @ motion_numbers lines)
    \<and> list_all (\<lambda>f. length f = n) (mo_frames (parse_motion n lines m)) \<and> (mo_frames (parse_motion n lines m) = [] \<or> 0 < n)"
  using assms
proof (induction n lines m rule: parse_motion.induct)
  case (2 n raw lines m)
  define line where "line = py_strip raw"
  consider (header) "line = [] \<or> py_startswith line ''Frames:'' \<or> py_startswith line ''Frame Time:''"
    | (data) "line \<noteq> []" "\<not> py_startswith line ''Frames:''" "\<not> py_startswith line ''Frame Time:''" by blast
  then show ?case
  proof cases
    case header
    then show ?thesis
      using "2.IH"(1-3) "2.prems" unfolding line_def
      by (auto simp: Let_def header_count_def header_time_def)
  next
    case data
    obtain frames pending where c: "chop_frames n (mo_count m) (mo_frames m) (mo_pending m @ line_numbers line) = (frames, pending)" by fastforce
    have m1: "motion_line n line m = m\<lparr>mo_frames := frames, mo_pending := pending\<rparr>" by (simp add: motion_line_def c)
    note cut = chop_frames_cut [OF c]
    have l: "list_all (\<lambda>f. length f = n) frames" "frames = [] \<or> 0 < n" using cut(2,3) "2.prems" by auto
    show ?thesis
    proof (cases "frames_reached (mo_count m) frames")
      case True
      then have p: "parse_motion n (raw # lines) m = m\<lparr>mo_frames := frames, mo_pending := pending\<rparr>"
        using data by (simp add: Let_def line_def [symmetric] m1)
      have "motion_numbers (raw # lines) = line_numbers line @ motion_numbers lines"
        using data by (simp add: Let_def line_def [symmetric])
      then have "concat frames @ (pending @ motion_numbers lines) = concat (mo_frames m) @ mo_pending m @ motion_numbers (raw # lines)"
        using cut(1) by (metis append.assoc)
      then show ?thesis using l by (auto simp: p simp del: parse_motion.simps motion_numbers.simps)
    next
      case False
      have "(\<exists>rest. concat (mo_frames (parse_motion n lines (motion_line n line m))) @ rest = concat frames @ pending @ motion_numbers lines)
        \<and> list_all (\<lambda>f. length f = n) (mo_frames (parse_motion n lines (motion_line n line m)))
        \<and> (mo_frames (parse_motion n lines (motion_line n line m)) = [] \<or> 0 < n)"
        using "2.IH"(4) [OF line_def data refl] False l by (simp add: m1)
      then show ?thesis using data False cut(1) by (simp add: Let_def line_def [symmetric] m1) (metis append.assoc)
    qed
  qed
qed simp


definition demo_bvh :: "string list" where
  "demo_bvh = [''ROOT hip'', ''{'', ''  CHANNELS 2 Xrotation Yrotation'', ''}'', ''MOTION'', ''Frames: 2'', ''1 2 3'', ''4 5'']"

lemma demo_names:
  "norm_text ''1'' = ''1''" "norm_text ''2'' = ''2''" "norm_text ''3'' = ''3''" "norm_text ''4'' = ''4''" "norm_text ''5'' = ''5''"
  by code_simp+

lemma demo_float_texts:
  "text_float ''1'' = Some (Fin 1)" "text_float ''2'' = Some (Fin 2)" "text_float ''3'' = Some (Fin 3)"
  "text_float ''4'' = Some (Fin 4)" "text_float ''5'' = Some (Fin 5)"
  by (simp_all add: text_float_def demo_names unsigned_float_def split_at_first_def mantissa_value_def exponent_value_def
      parse_nat_def digit_val_def is_digit_def)

lemma demo_words: "py_split ''1 2 3'' = [''1'', ''2'', ''3'']" "py_split ''4 5'' = [''4'', ''5'']"
  by code_simp+

lemma demo_bvh_read:
  "parse_hierarchy demo_bvh hierarchy_start =
     (\<lparr>hi_channels = [(''hip'', ''Xrotation''), (''hip'', ''Yrotation'')], hi_joint_channels = [(''hip'', [''Xrotation'', ''Yrotation''])],
       hi_blocks = [], hi_joints = [], hi_current = None\<rparr>, [''Frames: 2'', ''1 2 3'', ''4 5''])"
  by code_simp

lemma demo_lines:
  "py_strip ''Frames: 2'' = ''Frames: 2''" "py_strip ''1 2 3'' = ''1 2 3''" "py_strip ''4 5'' = ''4 5''" "py_int '' 2'' = Some 2"
  "py_startswith ''Frames: 2'' ''Frames:''" "\<not> py_startswith ''1 2 3'' ''Frames:''" "\<not> py_startswith ''4 5'' ''Frames:''"
  "\<not> py_startswith ''1 2 3'' ''Frame Time:''" "\<not> py_startswith ''4 5'' ''Frame Time:''"
  by code_simp+

lemma demo_motion:
  "mo_frames (parse_motion 2 [''Frames: 2'', ''1 2 3'', ''4 5''] motion_start) = [[Fin 1, Fin 2], [Fin 3, Fin 4]]"
  by (simp add: demo_lines demo_words demo_float_texts motion_start_def header_count_def motion_line_def line_numbers_def Let_def
      chop_frames.simps frames_reached_def)


end
