(* ===== verification/Bvh_Action.thy ===== *)
theory Bvh_Action
  imports Bvh_Parser
begin

text \<open>
  Which action a request of \<open>bvh_player.py\<close> names, where its data lies and which frames it holds: the methods of
  \<open>BvhActionPlayer\<close> from \<open>_resolve_config_path\<close> to \<open>_resolve_bvh_path\<close>. A configuration is the dict its JSON file
  holds. The file system is an argument of the functions that look into it; paths are those of POSIX.
\<close>

section \<open>Values\<close>

text \<open>\<open>_coerce_float(v, d)\<close> and \<open>_coerce_int(v, d)\<close>: \<open>d\<close> if the conversion raises one of two errors.\<close>

definition coerce :: "(json \<Rightarrow> 'a result) \<Rightarrow> json \<Rightarrow> 'a \<Rightarrow> 'a result" where
  "coerce conv v d = (case conv v of Inl e \<Rightarrow> if is_value_error e then Inr d else Inl e | Inr x \<Rightarrow> Inr x)"

definition coerce_optional :: "(json \<Rightarrow> 'a result) \<Rightarrow> json \<Rightarrow> 'a option \<Rightarrow> 'a option result" where
  "coerce_optional conv v d = coerce (\<lambda>w. bind_result (conv w) (\<lambda>x. Inr (Some x))) v d"

text \<open>\<open>len(v)\<close>\<close>

definition json_len :: "json \<Rightarrow> nat result" where
  "json_len v =
     (case v of
        J_list vs \<Rightarrow> Inr (length vs)
      | J_string s \<Rightarrow> Inr (length s)
      | J_object kvs \<Rightarrow> Inr (length kvs)
      | _ \<Rightarrow> Inl (TypeError ''object has no len()''))"

text \<open>\<open>s.isdigit()\<close>, to which the superscripts among the code points belong, though \<open>int\<close> refuses them\<close>

definition py_isdigit :: "string \<Rightarrow> bool" where
  "py_isdigit s \<longleftrightarrow> s \<noteq> [] \<and> list_all (\<lambda>c. is_digit c \<or> c \<in> {CHR 0xB2, CHR 0xB3, CHR 0xB9}) s"

definition text_int :: "string \<Rightarrow> int result" where
  "text_int s = json_int (J_string s)"

text \<open>\<open>config.get(k) or d\<close>\<close>

definition get_truthy :: "string \<Rightarrow> json \<Rightarrow> json_object \<Rightarrow> json" where
  "get_truthy k d kvs = json_or (jget_or k J_null kvs) d"

definition py_endswith :: "string \<Rightarrow> string \<Rightarrow> bool" where
  "py_endswith s p \<longleftrightarrow> py_startswith (rev s) (rev p)"

section \<open>Paths\<close>

definition is_abs :: "string \<Rightarrow> bool" where
  "is_abs p \<longleftrightarrow> py_startswith p ''/''"

definition path_join :: "string \<Rightarrow> string \<Rightarrow> string" where
  "path_join a b = (if is_abs b then b else if a = '''' \<or> last a = CHR ''/'' then a @ b else a @ ''/'' @ b)"

definition path_dirname :: "string \<Rightarrow> string" where
  "path_dirname p =
     (let head = rev (dropWhile (\<lambda>c. c \<noteq> CHR ''/'') (rev p))
      in if list_all (\<lambda>c. c = CHR ''/'') head then head else rev (dropWhile (\<lambda>c. c = CHR ''/'') (rev head)))"

text \<open>\<open>Path(p).stem\<close> of a path that ends with \<open>.bvh\<close>\<close>

definition bvh_stem :: "string \<Rightarrow> string" where
  "bvh_stem p =
     (let name = rev (takeWhile (\<lambda>c. c \<noteq> CHR ''/'') (rev p))
      in if name = ''.bvh'' then name else take (length name - 4) name)"

record bvh_files =
  fs_exists :: "string \<Rightarrow> bool"
  fs_json :: "string \<Rightarrow> json option"             \<comment> \<open>\<open>None\<close>: not read, or no JSON\<close>
  fs_lines :: "string \<Rightarrow> string list option"

text \<open>\<open>packaged\<close>: the file in the share directory of the package, if that is known, and the two beside the sources.\<close>

definition resolve_config_path :: "bvh_files \<Rightarrow> string list \<Rightarrow> string \<Rightarrow> string" where
  "resolve_config_path fs packaged override =
     (if override \<noteq> '''' \<and> fs_exists fs override then override
      else case find (fs_exists fs) packaged of None \<Rightarrow> '''' | Some p \<Rightarrow> p)"

text \<open>Without a file, or with one that cannot be read, the configuration is empty.\<close>

definition load_config :: "bvh_files \<Rightarrow> string list \<Rightarrow> string \<Rightarrow> json \<times> string" where
  "load_config fs packaged override =
     (let path = resolve_config_path fs packaged override
      in if path = '''' then (J_object [], '''')
         else case fs_json fs path of None \<Rightarrow> (J_object [], path) | Some v \<Rightarrow> (v, path))"

definition base_dir :: "string \<Rightarrow> string" where
  "base_dir config_path = (if config_path = '''' then '''' else path_dirname config_path)"

definition resolve_action_data_dir :: "json_object \<Rightarrow> string \<Rightarrow> string" where
  "resolve_action_data_dir config config_path =
     (case get_truthy ''bvh_action_data_dir'' (get_truthy ''bvh_data_dir'' (get_truthy ''bvh_dir'' (J_string '''') config) config) config of
        J_string d \<Rightarrow>
          let dir = py_strip d
          in if dir = '''' then ''''
             else if is_abs dir then dir
             else if base_dir config_path \<noteq> '''' then path_join (base_dir config_path) dir
             else dir
      | _ \<Rightarrow> '''')"

section \<open>Names\<close>

definition append_name :: "json \<Rightarrow> string list \<Rightarrow> string list" where
  "append_name v names =
     (case v of
        J_string s \<Rightarrow>
          let n = py_strip s
          in if n = '''' \<or> py_lower n = ''null'' \<or> n \<in> set names then names else names @ [n]
      | _ \<Rightarrow> names)"

definition action_files :: "json_object \<Rightarrow> json" where
  "action_files config = get_truthy ''bvh_action_files'' (get_truthy ''bvh_action_file_map'' (J_object []) config) config"

definition file_entry_names :: "string \<times> json \<Rightarrow> string list \<Rightarrow> string list" where
  "file_entry_names e names =
     (let key = fst e;
          names1 = append_name (J_string (if py_endswith key ''.bvh'' then bvh_stem key else key)) names
      in case snd e of J_object w \<Rightarrow> append_name (jget_or ''action'' J_null w) names1 | _ \<Rightarrow> names1)"

definition list_action_names :: "json_object \<Rightarrow> string list result" where
  "list_action_names config =
     (let names1 = (case get_truthy ''bvh_data'' (J_object []) config of
                      J_object kvs \<Rightarrow> fold append_name (map (\<lambda>e. J_string (fst e)) kvs) []
                    | _ \<Rightarrow> []);
          names2 = (case action_files config of J_object kvs \<Rightarrow> fold file_entry_names kvs names1 | _ \<Rightarrow> names1)
      in bind_result (json_iter (get_truthy ''bvh_list'' (J_list []) config)) (\<lambda>vs. Inr (fold append_name vs names2)))"

text \<open>\<open>bvh_list[i]\<close>; \<open>None\<close> if there is no such entry, \<open>Some None\<close> if it is no text.\<close>

definition listed_name :: "json_object \<Rightarrow> int \<Rightarrow> string option option result" where
  "listed_name config i =
     (if i < 0 then Inr None
      else let names = get_truthy ''bvh_list'' (J_list []) config
           in bind_result (json_len names) (\<lambda>n.
                if i < int n then bind_result (json_at names (nat i)) (\<lambda>v. Inr (Some (json_text v))) else Inr None))"

definition object_of :: "json \<Rightarrow> json_object result" where
  "object_of v = (case v of J_object kvs \<Rightarrow> Inr kvs | _ \<Rightarrow> Inl (AttributeError ''get''))"

definition number_name :: "json \<Rightarrow> int result \<Rightarrow> string option option result" where
  "number_name config i = bind_result i (\<lambda>k. bind_result (object_of config) (\<lambda>c. listed_name c k))"

definition resolve_action_name :: "json \<Rightarrow> json \<Rightarrow> string option result" where
  "resolve_action_name action config =
     (case action of
        J_string s \<Rightarrow>
          let a = py_strip s
          in if a = '''' then Inr None
             else if py_isdigit a
             then bind_result (number_name config (text_int a)) (\<lambda>n. Inr (case n of None \<Rightarrow> Some a | Some m \<Rightarrow> m))
             else Inr (Some a)
      | J_null \<Rightarrow> Inr None
      | J_list vs \<Rightarrow> Inr None
      | J_object kvs \<Rightarrow> Inr None
      | v \<Rightarrow> bind_result (number_name config (json_int v)) (\<lambda>n. Inr (case n of None \<Rightarrow> None | Some m \<Rightarrow> m)))"

section \<open>Action data\<close>

definition text_value :: "json \<Rightarrow> string" where
  "text_value v = (case v of J_string s \<Rightarrow> py_strip s | _ \<Rightarrow> '''')"

definition first_text :: "string list \<Rightarrow> string" where
  "first_text ts = (case find (\<lambda>t. t \<noteq> '''') ts of None \<Rightarrow> '''' | Some t \<Rightarrow> t)"

definition extract_action_file_ref :: "json \<Rightarrow> string" where
  "extract_action_file_ref entry =
     (case entry of
        J_string s \<Rightarrow> py_strip s
      | J_object kvs \<Rightarrow>
          first_text (map (\<lambda>k. text_value (jget_or k J_null kvs)) [''json'', ''action_json'', ''action_file'', ''file'', ''path''])
      | _ \<Rightarrow> '''')"

definition resolve_ref :: "bvh_files \<Rightarrow> string \<Rightarrow> string \<Rightarrow> string \<Rightarrow> string" where
  "resolve_ref fs data_dir base path_ref =
     (if path_ref = '''' then ''''
      else if is_abs path_ref then path_ref
      else let places = (if data_dir = '''' then [] else [path_join data_dir path_ref])
                 @ (if base = '''' then [] else [path_join base path_ref]);
               candidates = (if places = [] then [path_ref] else places)
           in case find (fs_exists fs) candidates of None \<Rightarrow> hd candidates | Some c \<Rightarrow> c)"

definition resolve_action_file_path :: "bvh_files \<Rightarrow> string \<Rightarrow> json_object \<Rightarrow> string \<Rightarrow> string" where
  "resolve_action_file_path fs action_name config config_path =
     (let file_ref = (case action_files config of
                        J_object kvs \<Rightarrow>
                          first_text (map (\<lambda>k. extract_action_file_ref (jget_or k J_null kvs))
                            [action_name, action_name @ ''.bvh'', action_name @ ''.BVH''])
                      | _ \<Rightarrow> '''');
          base = base_dir config_path;
          data_dir = resolve_action_data_dir config config_path;
          places = (if data_dir = '''' then [] else [path_join data_dir (action_name @ ''.json'')])
            @ (if base = '''' then [] else [path_join base (action_name @ ''.json'')])
      in if file_ref \<noteq> '''' then resolve_ref fs data_dir base file_ref
         else case find (fs_exists fs) places of None \<Rightarrow> '''' | Some c \<Rightarrow> c)"

definition direct_keys :: "string list" where
  "direct_keys = [''frames'', ''ids'', ''positions'', ''bvh_file'', ''bvh_path'', ''file'', ''path'']"

definition is_direct_payload :: "json_object \<Rightarrow> bool" where
  "is_direct_payload payload \<longleftrightarrow> list_ex (\<lambda>k. has_key k payload) direct_keys"

definition json_dict :: "json \<Rightarrow> json_object option" where
  "json_dict v = (case v of J_object kvs \<Rightarrow> Some kvs | _ \<Rightarrow> None)"

definition payload_action :: "string \<Rightarrow> json \<Rightarrow> json_object option" where
  "payload_action action_name payload =
     (case payload of
        J_object kvs \<Rightarrow>
          if is_direct_payload kvs then Some kvs
          else (case jget_or action_name J_null kvs of
                  J_object w \<Rightarrow> Some w
                | _ \<Rightarrow>
                    (case get_truthy ''bvh_data'' (J_object []) kvs of
                       J_object nested \<Rightarrow> json_dict (jget_or action_name J_null nested)
                     | _ \<Rightarrow> None))
      | _ \<Rightarrow> None)"

text \<open>The two caches of a player, by the text \<open>name:path\<close>; the frames of BVH files with their time.\<close>

record 'f bvh_caches =
  ca_actions :: "(string \<times> json_object) list"
  ca_bvh :: "(string \<times> 'f) list"

definition cache_key :: "string \<Rightarrow> string \<Rightarrow> string" where
  "cache_key name path = name @ '':'' @ path"

definition load_action_data_file :: "bvh_files \<Rightarrow> string \<Rightarrow> string \<Rightarrow> 'f bvh_caches \<Rightarrow> json_object option \<times> 'f bvh_caches" where
  "load_action_data_file fs action_name path ca =
     (let key = cache_key action_name path
      in if path = '''' then (None, ca)
         else case map_of (ca_actions ca) key of
                Some (kv # kvs) \<Rightarrow> (Some (kv # kvs), ca)
              | _ \<Rightarrow>
                  (case Option.bind (fs_json fs path) (payload_action action_name) of
                     None \<Rightarrow> (None, ca)
                   | Some data \<Rightarrow> (Some data, ca\<lparr>ca_actions := AList.update key data (ca_actions ca)\<rparr>)))"

definition inline_action :: "string \<Rightarrow> json_object \<Rightarrow> json_object option" where
  "inline_action action_name config =
     (case get_truthy ''bvh_data'' (J_object []) config of
        J_object kvs \<Rightarrow> json_dict (jget_or action_name J_null kvs)
      | _ \<Rightarrow> None)"

definition resolve_action_data ::
  "bvh_files \<Rightarrow> string \<Rightarrow> json_object \<Rightarrow> string \<Rightarrow> 'f bvh_caches \<Rightarrow> (json_object option \<times> string) \<times> 'f bvh_caches" where
  "resolve_action_data fs action_name config config_path ca =
     (case inline_action action_name config of
        Some data \<Rightarrow> ((Some data, config_path), ca)
      | None \<Rightarrow>
          let path = resolve_action_file_path fs action_name config config_path
          in if path = '''' then ((None, ''''), ca)
             else case load_action_data_file fs action_name path ca of
                    (None, ca1) \<Rightarrow> ((None, path), ca1)
                  | (Some [], ca1) \<Rightarrow> ((None, path), ca1)
                  | (Some data, ca1) \<Rightarrow> ((Some data, path), ca1))"

section \<open>Frames of the configuration\<close>

type_synonym json_frame = "json_object list"

definition servo_entry :: "json \<Rightarrow> json \<Rightarrow> json \<Rightarrow> json" where
  "servo_entry sid position speed = J_object [(''id'', sid), (''position'', position), (''speed'', speed)]"

text \<open>One frame for each of the ids, as far as there are positions.\<close>

fun column_frames :: "nat \<Rightarrow> json list \<Rightarrow> json \<Rightarrow> json \<Rightarrow> int \<Rightarrow> json list result" where
  "column_frames i [] positions speeds default_speed = Inr []"
| "column_frames i (sid # sids) positions speeds default_speed =
     bind_result (json_len positions) (\<lambda>n.
       if n \<le> i then Inr []
       else bind_result (json_len speeds) (\<lambda>k.
            bind_result (if i < k then json_at speeds i else Inr (J_int default_speed)) (\<lambda>speed.
            bind_result (json_at positions i) (\<lambda>position.
            bind_result (column_frames (Suc i) sids positions speeds default_speed) (\<lambda>frames.
              Inr (J_list [servo_entry sid position speed] # frames))))))"

definition listed_frames :: "json_object \<Rightarrow> int \<Rightarrow> json result" where
  "listed_frames action_data default_speed =
     (if has_key ''frames'' action_data then Inr (get_truthy ''frames'' (J_list []) action_data)
      else if has_key ''ids'' action_data \<and> has_key ''positions'' action_data
      then bind_result (json_iter (get_truthy ''ids'' (J_list []) action_data)) (\<lambda>ids.
             bind_result (column_frames 0 ids (get_truthy ''positions'' (J_list []) action_data)
               (get_truthy ''speeds'' (J_list []) action_data) default_speed) (\<lambda>frames. Inr (J_list frames)))
      else Inr (J_list []))"

definition command_dict :: "json \<Rightarrow> json_object option" where
  "command_dict v =
     (case v of
        J_object kvs \<Rightarrow> if has_key ''id'' kvs \<and> has_key ''position'' kvs then Some kvs else None
      | _ \<Rightarrow> None)"

definition frame_commands :: "json \<Rightarrow> json_frame" where
  "frame_commands frame =
     (case frame of
        J_object kvs \<Rightarrow> List.map_filter command_dict [frame]
      | J_list vs \<Rightarrow> List.map_filter command_dict vs
      | _ \<Rightarrow> [])"

definition normalize_frames :: "json_object \<Rightarrow> int \<Rightarrow> json_frame list result" where
  "normalize_frames action_data default_speed =
     bind_result (listed_frames action_data default_speed) (\<lambda>v.
       if \<not> json_truthy v then Inr []
       else let frames = (case v of J_list (J_object kvs # vs) \<Rightarrow> J_list [v] | _ \<Rightarrow> v)
            in bind_result (json_iter frames) (\<lambda>fs. Inr (filter (\<lambda>f. f \<noteq> []) (map frame_commands fs))))"

text \<open>\<open>os.path\<close> accepts texts only.\<close>

definition path_of :: "json \<Rightarrow> string result" where
  "path_of v = (case v of J_string s \<Rightarrow> Inr s | _ \<Rightarrow> Inl (TypeError ''expected str, bytes or os.PathLike object''))"

definition resolve_bvh_path :: "json_object \<Rightarrow> json_object \<Rightarrow> string \<Rightarrow> string result" where
  "resolve_bvh_path action_data config config_path =
     (let file = get_truthy ''bvh_file'' (get_truthy ''bvh_path'' (get_truthy ''file'' (jget_or ''path'' J_null action_data) action_data) action_data) action_data;
          dir = get_truthy ''bvh_dir'' (get_truthy ''bvh_dir'' (J_string '''') config) action_data;
          base = base_dir config_path
      in if \<not> json_truthy file then Inr ''''
         else bind_result (path_of file) (\<lambda>f.
           if is_abs f then Inr f
           else if json_truthy dir
           then bind_result (path_of dir) (\<lambda>d. Inr (path_join (if is_abs d then d else path_join base d) f))
           else if base \<noteq> '''' then Inr (path_join base f)
           else Inr f))"

end
