(* ===== verification/Bvh_Frames.thy ===== *)
theory Bvh_Frames
  imports Bvh_Action Bvh_Player
begin

text \<open>
  The commands of an action: \<open>_build_bvh_frames\<close> of \<open>bvh_player.py\<close>, which turns the channels of a BVH file into
  servo positions, \<open>_load_bvh_frames\<close> with its cache, and what \<open>_run\<close> prepares before its loop. The worker of
  \<open>Bvh_Player\<close> then runs through the commands. Floats are multiplied and added exactly, up to the range of a double.
\<close>

section \<open>Arithmetic\<close>

definition float_value :: "real \<Rightarrow> py_float" where
  "float_value x = (if 2 ^ 1024 - 2 ^ 970 \<le> x then Pos_inf else if x \<le> 2 ^ 970 - 2 ^ 1024 then Neg_inf else Fin x)"

fun float_sign :: "py_float \<Rightarrow> real" where
  "float_sign (Fin x) = sgn x"
| "float_sign Pos_inf = 1"
| "float_sign Neg_inf = -1"
| "float_sign NaN = 0"

definition float_mult :: "py_float \<Rightarrow> py_float \<Rightarrow> py_float" where
  "float_mult a b =
     (if a = NaN \<or> b = NaN then NaN
      else if is_finite a \<and> is_finite b then float_value (fin a * fin b)
      else let s = float_sign a * float_sign b in if s = 0 then NaN else if 0 < s then Pos_inf else Neg_inf)"

definition float_add :: "py_float \<Rightarrow> py_float \<Rightarrow> py_float" where
  "float_add a b =
     (if a = NaN \<or> b = NaN then NaN
      else if is_finite a \<and> is_finite b then float_value (fin a + fin b)
      else if is_finite a then b
      else if is_finite b \<or> a = b then a
      else NaN)"

text \<open>\<open>max(a, b)\<close> and \<open>min(a, b)\<close>: the first unless the second is beyond it.\<close>

definition float_max :: "py_float \<Rightarrow> py_float \<Rightarrow> py_float" where
  "float_max a b = (if py_lt a b then b else a)"

definition float_min :: "py_float \<Rightarrow> py_float \<Rightarrow> py_float" where
  "float_min a b = (if py_lt b a then b else a)"

section \<open>Targets\<close>

record servo_target =
  tg_id :: int
  tg_channel :: nat
  tg_scale :: py_float
  tg_bias :: py_float
  tg_min :: "py_float option"
  tg_max :: "py_float option"
  tg_servo_type :: json
  tg_speed :: json
  tg_sign :: py_float

text \<open>What the targets of an action have in common.\<close>

record target_frame =
  tf_index :: "((string \<times> string) \<times> nat) list"
  tf_channel :: json
  tf_scale :: py_float
  tf_bias :: py_float
  tf_min :: "py_float option"
  tf_max :: "py_float option"
  tf_limits :: json
  tf_axes :: "(string \<times> string) list"
  tf_aliases :: "(string \<times> string) list"
  tf_servo_type :: json
  tf_speed :: int

text \<open>A later channel of the same name replaces an earlier one.\<close>

definition channel_index :: "(string \<times> string) list \<Rightarrow> ((string \<times> string) \<times> nat) list" where
  "channel_index channels = fold (\<lambda>(i, c). AList.update c i) (List.enumerate 0 channels) []"

definition axis_channels :: "json \<Rightarrow> (string \<times> string) list" where
  "axis_channels override =
     (let standard = [(''roll'', ''Xrotation''), (''pitch'', ''Yrotation''), (''yaw'', ''Zrotation'')]
      in case override of
           J_object kvs \<Rightarrow>
             fold (\<lambda>(axis, v) m. case v of J_string c \<Rightarrow> AList.update (norm_text axis) (py_strip c) m | _ \<Rightarrow> m) kvs standard
         | _ \<Rightarrow> standard)"

definition reverse_aliases :: "json \<Rightarrow> (string \<times> string) list" where
  "reverse_aliases aliases =
     (case aliases of
        J_object kvs \<Rightarrow>
          fold (\<lambda>(joint, v) m. case v of J_string a \<Rightarrow> if map_of m a = None then m @ [(a, joint)] else m | _ \<Rightarrow> m) kvs []
      | _ \<Rightarrow> [])"

definition aliased :: "(string \<times> string) list \<Rightarrow> string \<Rightarrow> string" where
  "aliased aliases joint = (case map_of aliases joint of None \<Rightarrow> joint | Some j \<Rightarrow> j)"

definition setting :: "string \<Rightarrow> json_object \<Rightarrow> json_object \<Rightarrow> json \<Rightarrow> json" where
  "setting k action_data config d = jget_or k (jget_or k d config) action_data"

definition truthy_setting :: "string \<Rightarrow> json_object \<Rightarrow> json_object \<Rightarrow> json \<Rightarrow> json" where
  "truthy_setting k action_data config d = get_truthy k (get_truthy k d config) action_data"

definition target_frame_of ::
  "parsed_bvh \<Rightarrow> json_object \<Rightarrow> json_object \<Rightarrow> int \<Rightarrow> json \<Rightarrow> target_frame result" where
  "target_frame_of parsed action_data config default_speed default_servo_type =
     bind_result (coerce json_float (setting ''default_scale'' action_data config (J_float (Fin 1))) (Fin 1)) (\<lambda>scale.
     bind_result (coerce json_float (setting ''default_bias'' action_data config (J_float (Fin 0))) (Fin 0)) (\<lambda>bias.
     bind_result (coerce_optional json_float (setting ''default_min'' action_data config J_null) None) (\<lambda>lo.
     bind_result (coerce_optional json_float (setting ''default_max'' action_data config J_null) None) (\<lambda>hi.
       Inr \<lparr>tf_index = channel_index (pb_channels parsed),
            tf_channel = truthy_setting ''default_channel'' action_data config (J_string ''Zrotation''),
            tf_scale = scale, tf_bias = bias, tf_min = lo, tf_max = hi,
            tf_limits = truthy_setting ''servo_limits'' action_data config (J_object []),
            tf_axes = axis_channels (get_truthy ''axis_channel_map'' (jget_or ''axis_channel_map'' J_null config) action_data),
            tf_aliases = reverse_aliases (truthy_setting ''joint_alias'' action_data config (J_object [])),
            tf_servo_type = default_servo_type, tf_speed = default_speed\<rparr>))))"

text \<open>\<open>servo_limits.get(str(servo_id))\<close>; the keys of a JSON object are texts.\<close>

definition limit_entry :: "json \<Rightarrow> int \<Rightarrow> json_object option" where
  "limit_entry limits servo_id =
     (case limits of J_object kvs \<Rightarrow> json_dict (jget_or (int_string servo_id) J_null kvs) | _ \<Rightarrow> None)"

definition lookup_limits :: "json \<Rightarrow> int \<Rightarrow> (py_float option \<times> py_float option) result" where
  "lookup_limits limits servo_id =
     (case limit_entry limits servo_id of
        None \<Rightarrow> Inr (None, None)
      | Some entry \<Rightarrow>
          bind_result (coerce_optional json_float (jget_or ''min'' J_null entry) None) (\<lambda>lo.
          bind_result (coerce_optional json_float (jget_or ''max'' J_null entry) None) (\<lambda>hi. Inr (lo, hi))))"

definition otherwise :: "'a option \<Rightarrow> 'a option \<Rightarrow> 'a option" where
  "otherwise x y = (case x of None \<Rightarrow> y | Some v \<Rightarrow> x)"

text \<open>A channel that is no text is never found; one that cannot be hashed raises.\<close>

definition channel_at :: "((string \<times> string) \<times> nat) list \<Rightarrow> string \<Rightarrow> json \<Rightarrow> nat option result" where
  "channel_at index joint channel =
     (case channel of
        J_string c \<Rightarrow> Inr (map_of index (joint, c))
      | J_list vs \<Rightarrow> Inl (TypeError ''unhashable type'')
      | J_object kvs \<Rightarrow> Inl (TypeError ''unhashable type'')
      | _ \<Rightarrow> Inr None)"

text \<open>The joints and channels of a mapping of the form \<open>{"3": "hip.roll"}\<close>.\<close>

fun axis_targets :: "target_frame \<Rightarrow> string \<Rightarrow> json_object \<Rightarrow> (string \<times> int \<times> string) list result" where
  "axis_targets f canonical [] = Inr []"
| "axis_targets f canonical ((key, v) # kvs) =
     (case v of
        J_string value \<Rightarrow>
          if py_isdigit key \<and> CHR ''.'' \<in> set value
          then let axis_part = rev (takeWhile (\<lambda>c. c \<noteq> CHR ''.'') (rev value));
                   joint_part = take (length value - length axis_part - 1) value
               in (case map_of (tf_axes f) (norm_text axis_part) of
                     None \<Rightarrow> axis_targets f canonical kvs
                   | Some channel \<Rightarrow>
                       if channel = '''' then axis_targets f canonical kvs
                       else bind_result (text_int key) (\<lambda>i. bind_result (axis_targets f canonical kvs) (\<lambda>ts.
                              Inr ((if py_strip joint_part = '''' then canonical else py_strip joint_part, i, channel) # ts))))
          else axis_targets f canonical kvs
      | _ \<Rightarrow> axis_targets f canonical kvs)"

fun axis_descs :: "target_frame \<Rightarrow> (string \<times> int \<times> string) list \<Rightarrow> servo_target list result" where
  "axis_descs f [] = Inr []"
| "axis_descs f ((joint, i, channel) # ts) =
     (case map_of (tf_index f) (aliased (tf_aliases f) joint, channel) of
        None \<Rightarrow> axis_descs f ts
      | Some idx \<Rightarrow>
          bind_result (lookup_limits (tf_limits f) i) (\<lambda>limits.
          bind_result (axis_descs f ts) (\<lambda>ds.
            Inr (\<lparr>tg_id = i, tg_channel = idx, tg_scale = tf_scale f, tg_bias = tf_bias f,
                  tg_min = otherwise (fst limits) (tf_min f), tg_max = otherwise (snd limits) (tf_max f),
                  tg_servo_type = tf_servo_type f, tg_speed = J_int (tf_speed f), tg_sign = Fin 1\<rparr> # ds))))"

text \<open>A target and whether it brings its own limits; the identifier, the channel and the sign are still as the file has them.\<close>

record raw_target =
  rt_id :: json
  rt_channel :: json
  rt_scale :: py_float
  rt_bias :: py_float
  rt_min :: "py_float option"
  rt_max :: "py_float option"
  rt_servo_type :: json
  rt_speed :: json
  rt_sign :: json
  rt_invert :: json
  rt_limited :: bool

definition optional_number :: "string \<Rightarrow> json_object \<Rightarrow> py_float option \<Rightarrow> py_float option result" where
  "optional_number k kvs d = (case jget k kvs of None \<Rightarrow> Inr d | Some v \<Rightarrow> coerce_optional json_float v d)"

definition number_or :: "string \<Rightarrow> json_object \<Rightarrow> py_float \<Rightarrow> py_float result" where
  "number_or k kvs d = (case jget k kvs of None \<Rightarrow> Inr d | Some v \<Rightarrow> coerce json_float v d)"

definition raw_target_of :: "target_frame \<Rightarrow> json \<Rightarrow> raw_target result" where
  "raw_target_of f target =
     (case target of
        J_object kvs \<Rightarrow>
          bind_result (number_or ''scale'' kvs (tf_scale f)) (\<lambda>scale.
          bind_result (number_or ''bias'' kvs (tf_bias f)) (\<lambda>bias.
          bind_result (optional_number ''min'' kvs (tf_min f)) (\<lambda>lo.
          bind_result (optional_number ''max'' kvs (tf_max f)) (\<lambda>hi.
            Inr \<lparr>rt_id = jget_or ''id'' J_null kvs, rt_channel = jget_or ''channel'' (tf_channel f) kvs,
                 rt_scale = scale, rt_bias = bias, rt_min = lo, rt_max = hi,
                 rt_servo_type = jget_or ''servo_type'' (tf_servo_type f) kvs,
                 rt_speed = jget_or ''speed_ms'' (J_int (tf_speed f)) kvs,
                 rt_sign = jget_or ''sign'' J_null kvs, rt_invert = jget_or ''invert'' (J_bool False) kvs,
                 rt_limited = (has_key ''min'' kvs \<or> has_key ''max'' kvs)\<rparr>))))
      | _ \<Rightarrow>
          Inr \<lparr>rt_id = target, rt_channel = tf_channel f, rt_scale = tf_scale f, rt_bias = tf_bias f,
               rt_min = tf_min f, rt_max = tf_max f, rt_servo_type = tf_servo_type f, rt_speed = J_int (tf_speed f),
               rt_sign = J_null, rt_invert = J_bool False, rt_limited = False\<rparr>)"

text \<open>\<open>str(invert).lower() in ('1', 'true', 'yes')\<close>\<close>

definition inverted :: "json \<Rightarrow> bool" where
  "inverted v =
     (case v of
        J_bool b \<Rightarrow> b
      | J_int i \<Rightarrow> i = 1
      | J_string s \<Rightarrow> py_lower s \<in> {''1'', ''true'', ''yes''}
      | _ \<Rightarrow> False)"

definition target_sign :: "json \<Rightarrow> json \<Rightarrow> py_float result" where
  "target_sign sign invert =
     (if sign = J_null then Inr (Fin (if inverted invert then -1 else 1)) else coerce json_float sign (Fin 1))"

definition target_id :: "json \<Rightarrow> int option result" where
  "target_id v =
     (case v of
        J_string s \<Rightarrow> if py_lower s = ''null'' then Inr None else coerce_optional json_int v None
      | _ \<Rightarrow> coerce_optional json_int v None)"

definition complete_target :: "target_frame \<Rightarrow> string \<Rightarrow> raw_target \<Rightarrow> servo_target option result" where
  "complete_target f joint t =
     bind_result (target_id (rt_id t)) (\<lambda>i.
       case i of
         None \<Rightarrow> Inr None
       | Some servo_id \<Rightarrow>
           bind_result (lookup_limits (tf_limits f) servo_id) (\<lambda>limits.
           bind_result (channel_at (tf_index f) joint (rt_channel t)) (\<lambda>channel.
             case channel of
               None \<Rightarrow> Inr None
             | Some idx \<Rightarrow>
                 bind_result (target_sign (rt_sign t) (rt_invert t)) (\<lambda>sign.
                   Inr (Some \<lparr>tg_id = servo_id, tg_channel = idx, tg_scale = rt_scale t, tg_bias = rt_bias t,
                     tg_min = (if rt_limited t then rt_min t else otherwise (fst limits) (rt_min t)),
                     tg_max = (if rt_limited t then rt_max t else otherwise (snd limits) (rt_max t)),
                     tg_servo_type = rt_servo_type t, tg_speed = rt_speed t, tg_sign = sign\<rparr>)))))"

fun plain_descs :: "target_frame \<Rightarrow> string \<Rightarrow> json list \<Rightarrow> servo_target list result" where
  "plain_descs f joint [] = Inr []"
| "plain_descs f joint (t # ts) =
     bind_result (raw_target_of f t) (\<lambda>r.
     bind_result (complete_target f joint r) (\<lambda>d.
     bind_result (plain_descs f joint ts) (\<lambda>ds. Inr (case d of None \<Rightarrow> ds | Some x \<Rightarrow> x # ds))))"

definition mapping_items :: "json \<Rightarrow> json list" where
  "mapping_items mapping = (case mapping of J_object kvs \<Rightarrow> map snd kvs | _ \<Rightarrow> [mapping])"

definition mapping_pairs :: "json \<Rightarrow> json_object" where
  "mapping_pairs mapping = (case mapping of J_object kvs \<Rightarrow> kvs | _ \<Rightarrow> [])"

text \<open>A joint without a channel under its own name is left out, whatever joints its targets name.\<close>

definition joint_descs :: "target_frame \<Rightarrow> string \<Rightarrow> json \<Rightarrow> servo_target list result" where
  "joint_descs f canonical mapping =
     (let joint = aliased (tf_aliases f) canonical
      in bind_result (channel_at (tf_index f) joint (tf_channel f)) (\<lambda>own.
           if own = None \<and> \<not> list_ex (\<lambda>c. map_of (tf_index f) (joint, c) \<noteq> None) [''Xrotation'', ''Yrotation'', ''Zrotation'']
           then Inr []
           else bind_result (axis_targets f canonical (mapping_pairs mapping)) (\<lambda>ts.
                  if ts \<noteq> [] then axis_descs f ts else plain_descs f joint (mapping_items mapping))))"

fun all_descs :: "target_frame \<Rightarrow> json_object \<Rightarrow> servo_target list result" where
  "all_descs f [] = Inr []"
| "all_descs f ((canonical, mapping) # kvs) =
     bind_result (joint_descs f canonical mapping) (\<lambda>ds. bind_result (all_descs f kvs) (\<lambda>es. Inr (ds @ es)))"

section \<open>Frames of a BVH file\<close>

definition target_position :: "servo_target \<Rightarrow> py_float \<Rightarrow> py_float" where
  "target_position t angle =
     (let p = float_add (tg_bias t) (float_mult (float_mult angle (tg_scale t)) (tg_sign t));
          p1 = (case tg_min t of None \<Rightarrow> p | Some lo \<Rightarrow> float_max lo p)
      in case tg_max t of None \<Rightarrow> p1 | Some hi \<Rightarrow> float_min hi p1)"

definition target_command :: "py_float list \<Rightarrow> servo_target \<Rightarrow> json_object result" where
  "target_command frame t =
     bind_result (py_round (target_position t (frame ! tg_channel t))) (\<lambda>position.
       Inr [(''id'', J_int (tg_id t)), (''position'', J_int position), (''speed'', tg_speed t), (''servo_type'', tg_servo_type t)])"

fun each_result :: "('a \<Rightarrow> 'b result) \<Rightarrow> 'a list \<Rightarrow> 'b list result" where
  "each_result f [] = Inr []"
| "each_result f (x # xs) = bind_result (f x) (\<lambda>y. bind_result (each_result f xs) (\<lambda>ys. Inr (y # ys)))"

type_synonym bvh_frames = "json_frame list \<times> py_float option"

definition build_bvh_frames ::
  "parsed_bvh \<Rightarrow> json_object \<Rightarrow> json_object \<Rightarrow> int \<Rightarrow> json \<Rightarrow> bvh_frames result" where
  "build_bvh_frames parsed action_data config default_speed default_servo_type =
     (if pb_frames parsed = [] \<or> pb_channels parsed = [] then Inr ([], None)
      else bind_result (target_frame_of parsed action_data config default_speed default_servo_type) (\<lambda>f.
           bind_result (all_descs f (mapping_pairs (truthy_setting ''joint_map'' action_data config (J_object [])))) (\<lambda>ds.
             if ds = [] then Inr ([], None)
             else bind_result (each_result (\<lambda>frame. each_result (target_command frame) ds) (pb_frames parsed)) (\<lambda>frames.
                    Inr (frames, map_option (\<lambda>t. float_mult t (Fin 1000)) (pb_frame_time parsed))))))"

definition load_bvh_frames ::
  "bvh_files \<Rightarrow> string \<Rightarrow> json_object \<Rightarrow> json_object \<Rightarrow> string \<Rightarrow> int \<Rightarrow> json \<Rightarrow> bvh_frames bvh_caches
    \<Rightarrow> bvh_frames result \<times> bvh_frames bvh_caches" where
  "load_bvh_frames fs action_name action_data config config_path default_speed default_servo_type ca =
     (case resolve_bvh_path action_data config config_path of
        Inl e \<Rightarrow> (Inl e, ca)
      | Inr path \<Rightarrow>
          if path = '''' \<or> \<not> fs_exists fs path then (Inr ([], None), ca)
          else let key = cache_key action_name path
               in case map_of (ca_bvh ca) key of
                    Some cached \<Rightarrow> (Inr cached, ca)
                  | None \<Rightarrow>
                      (case Option.bind (fs_lines fs path) parse_bvh_lines of
                         None \<Rightarrow> (Inr ([], None), ca)
                       | Some parsed \<Rightarrow>
                           (case build_bvh_frames parsed action_data config default_speed default_servo_type of
                              Inl e \<Rightarrow> (Inl e, ca)
                            | Inr (frames, time) \<Rightarrow>
                                if frames = [] then (Inr ([], time), ca)
                                else (Inr (frames, time), ca\<lparr>ca_bvh := AList.update key (frames, time) (ca_bvh ca)\<rparr>))))"

section \<open>The commands of a playback\<close>

text \<open>A command that has no readable number is left out of the signature of its frame.\<close>

definition command_signature :: "json_object \<Rightarrow> (int \<times> int) option result" where
  "command_signature cmd =
     (case bind_result (json_int (jget_or ''id'' J_null cmd)) (\<lambda>i.
             bind_result (json_int (jget_or ''position'' J_null cmd)) (\<lambda>p. Inr (i, p))) of
        Inl e \<Rightarrow> if is_value_error e then Inr None else Inl e
      | Inr s \<Rightarrow> Inr (Some s))"

definition frame_signature :: "json_frame \<Rightarrow> (int \<times> int) list result" where
  "frame_signature frame = bind_result (each_result command_signature frame) (\<lambda>ss. Inr (List.map_filter id ss))"

text \<open>How many frames at the end have the signature; the argument is the reversed list.\<close>

fun static_tail :: "(int \<times> int) list \<Rightarrow> json_frame list \<Rightarrow> nat result" where
  "static_tail sig [] = Inr 0"
| "static_tail sig (frame # frames) =
     bind_result (frame_signature frame) (\<lambda>s.
       if s = sig then bind_result (static_tail sig frames) (\<lambda>n. Inr (Suc n)) else Inr 0)"

definition trim_static_tail :: "json_frame list \<Rightarrow> json_frame list result" where
  "trim_static_tail frames =
     (if frames = [] then Inr frames
      else bind_result (frame_signature (last frames)) (\<lambda>sig.
           if sig = [] then Inr frames
           else bind_result (static_tail sig (rev frames)) (\<lambda>n.
             if n \<le> 1 then Inr frames
             else if length frames \<le> n then Inr [hd frames]
             else Inr (take (length frames - n) frames))))"

definition limit_position :: "json \<Rightarrow> int \<Rightarrow> int \<Rightarrow> int result" where
  "limit_position limits servo_id position =
     bind_result (lookup_limits limits servo_id) (\<lambda>(lo, hi).
     bind_result (case lo of None \<Rightarrow> Inr position | Some x \<Rightarrow> bind_result (py_round x) (\<lambda>b. Inr (max b position))) (\<lambda>p.
       case hi of None \<Rightarrow> Inr p | Some x \<Rightarrow> bind_result (py_round x) (\<lambda>b. Inr (min b p))))"

text \<open>What is published for a command; \<open>None\<close> if that raises.\<close>

definition playback_command :: "json \<Rightarrow> json \<Rightarrow> json_object \<Rightarrow> bvh_command option" where
  "playback_command limits default_servo_type cmd =
     (case bind_result (json_int (jget_or ''id'' J_null cmd)) (\<lambda>i.
           bind_result (json_int (jget_or ''position'' J_null cmd)) (\<lambda>p.
           bind_result (limit_position limits i p) (\<lambda>q. Inr (i, q)))) of
        Inl e \<Rightarrow> None
      | Inr (i, q) \<Rightarrow> Some \<lparr>bc_servo_type = jget_or ''servo_type'' default_servo_type cmd, bc_servo_id = i, bc_position = q\<rparr>)"

record playback =
  pk_delay :: "py_float option"
  pk_frames :: "bvh_command option list list"

definition fixed_speed :: int where "fixed_speed = 100"

definition frame_delay :: "json_object \<Rightarrow> py_float option result" where
  "frame_delay action_data =
     coerce_optional json_float (jget_or ''frame_delay_ms'' (jget_or ''frame_time_ms'' J_null action_data) action_data) None"

definition floored_delay :: "py_float option \<Rightarrow> py_float option" where
  "floored_delay delay = map_option (\<lambda>d. float_max d (Fin (of_int fixed_speed))) delay"

text \<open>The frames of an action with their delay: its own, or those of its BVH file.\<close>

definition action_frames ::
  "bvh_files \<Rightarrow> string \<Rightarrow> json_object \<Rightarrow> json_object \<Rightarrow> string \<Rightarrow> bvh_frames bvh_caches \<Rightarrow> bvh_frames result \<times> bvh_frames bvh_caches" where
  "action_frames fs action_name action_data config path ca =
     (case bind_result (json_int (setting ''default_speed_ms'' action_data config (J_int 33))) (\<lambda>speed.
             bind_result (frame_delay action_data) (\<lambda>delay.
             bind_result (normalize_frames action_data speed) (\<lambda>frames. Inr (speed, delay, frames)))) of
        Inl e \<Rightarrow> (Inl e, ca)
      | Inr (speed, delay, frames) \<Rightarrow>
          if frames \<noteq> [] then (Inr (frames, delay), ca)
          else (case load_bvh_frames fs action_name action_data config path speed
                       (setting ''default_servo_type'' action_data config (J_string ''bus'')) ca of
                  (Inl e, ca1) \<Rightarrow> (Inl e, ca1)
                | (Inr (fs', time), ca1) \<Rightarrow> (Inr (fs', otherwise delay time), ca1)))"

definition prepare_playback :: "json_object \<Rightarrow> json_object \<Rightarrow> bool \<Rightarrow> bvh_frames \<Rightarrow> playback option result" where
  "prepare_playback action_data config loop found =
     (if fst found = [] then Inr None
      else bind_result (if loop then trim_static_tail (fst found) else Inr (fst found)) (\<lambda>frames.
        Inr (Some \<lparr>pk_delay = floored_delay (snd found),
          pk_frames = map (map (playback_command (truthy_setting ''servo_limits'' action_data config (J_object []))
            (setting ''default_servo_type'' action_data config (J_string ''bus'')))) frames\<rparr>)))"

text \<open>\<open>_run\<close> up to its loop: \<open>None\<close> when nothing is to be played, an error when the worker fails.\<close>

definition run_action ::
  "bvh_files \<Rightarrow> string list \<Rightarrow> string \<Rightarrow> json \<Rightarrow> bool \<Rightarrow> bvh_frames bvh_caches \<Rightarrow> playback option result \<times> bvh_frames bvh_caches" where
  "run_action fs packaged override action loop ca =
     (case load_config fs packaged override of
        (conf, path) \<Rightarrow>
          if \<not> json_truthy conf then (Inr None, ca)
          else case bind_result (resolve_action_name action conf) (\<lambda>n.
                      case n of
                        None \<Rightarrow> Inr None
                      | Some name \<Rightarrow> if name = '''' then Inr None else bind_result (object_of conf) (\<lambda>config. Inr (Some (name, config)))) of
                 Inl e \<Rightarrow> (Inl e, ca)
               | Inr None \<Rightarrow> (Inr None, ca)
               | Inr (Some (name, config)) \<Rightarrow>
                   (case resolve_action_data fs name config path ca of
                      ((None, data_path), ca1) \<Rightarrow> (Inr None, ca1)
                    | ((Some action_data, data_path), ca1) \<Rightarrow>
                        if action_data = [] then (Inr None, ca1)
                        else (case action_frames fs name action_data config path ca1 of
                                (Inl e, ca2) \<Rightarrow> (Inl e, ca2)
                              | (Inr found, ca2) \<Rightarrow> (prepare_playback action_data config loop found, ca2))))"

text \<open>What the worker gets from it.\<close>

definition loaded_input :: "playback option result \<Rightarrow> worker_input" where
  "loaded_input r =
     (case r of
        Inl e \<Rightarrow> Wi_fails
      | Inr None \<Rightarrow> Wi_loaded False []
      | Inr (Some b) \<Rightarrow> Wi_loaded (pk_delay b \<noteq> None) (pk_frames b))"

end
