(* ===== verification/Bvh_Playback.thy ===== *)
theory Bvh_Playback
  imports Bvh_Frames
begin

text \<open>
  What holds of the commands that \<open>_run\<close> plays: the limits of the configuration, the floor of the delay, the frames
  that are left out of a loop, the cache of BVH files; and that a player publishes nothing but such commands.
\<close>

section \<open>Limits\<close>

lemma limit_position_bounds:
  assumes "lookup_limits limits i = Inr (Some (Fin lo), Some (Fin hi))" "lo \<le> hi" "limit_position limits i p = Inr q"
  shows "round_even lo \<le> q \<and> q \<le> round_even hi"
  using assms round_even_mono [OF assms(2)] by (auto simp: limit_position_def py_round_def)

lemma playback_command_bounds:
  assumes "playback_command limits st cmd = Some c" "lookup_limits limits (bc_servo_id c) = Inr (Some (Fin lo), Some (Fin hi))" "lo \<le> hi"
  shows "round_even lo \<le> bc_position c \<and> bc_position c \<le> round_even hi"
  using assms limit_position_bounds [OF _ assms(3)] by (auto simp: playback_command_def split: sum.splits)

lemma run_action_prepared:
  assumes "load_config fs packaged override = (J_object config, path)" "resolve_action_name action (J_object config) = Inr (Some name)"
    "resolve_action_data fs name config path ca = ((Some data, dp), ca1)"
    "fst (run_action fs packaged override action loop ca) = Inr (Some b)"
  obtains found ca2 where "action_frames fs name data config path ca1 = (Inr found, ca2)" "prepare_playback data config loop found = Inr (Some b)"
  using assms by (auto simp: run_action_def object_of_def split: if_splits sum.splits prod.splits)

text \<open>
  Whatever the frames of an action say, a command that is played for a servo with a lower and an upper limit
  stays between the two, rounded: the limits are those of the action, or of the configuration if it has none.
\<close>

lemma playback_within_limits:
  assumes "load_config fs packaged override = (J_object config, path)" "resolve_action_name action (J_object config) = Inr (Some name)"
    "resolve_action_data fs name config path ca = ((Some data, dp), ca1)"
    "fst (run_action fs packaged override action loop ca) = Inr (Some b)"
    "Some c \<in> set (concat (pk_frames b))"
    "lookup_limits (truthy_setting ''servo_limits'' data config (J_object [])) (bc_servo_id c) = Inr (Some (Fin lo), Some (Fin hi))"
    "lo \<le> hi"
  shows "round_even lo \<le> bc_position c \<and> bc_position c \<le> round_even hi"
proof -
  obtain found where "prepare_playback data config loop found = Inr (Some b)"
    using run_action_prepared [OF assms(1-4)] by blast
  then obtain frames where "pk_frames b = map (map (playback_command (truthy_setting ''servo_limits'' data config (J_object []))
      (setting ''default_servo_type'' data config (J_string ''bus'')))) frames"
    by (auto simp: prepare_playback_def split: if_splits)
  then show ?thesis using assms(5) playback_command_bounds [OF _ assms(6,7)] by auto
qed

section \<open>Delay\<close>

lemma floored_delay_floor:
  "floored_delay d = Some x \<Longrightarrow> x = NaN \<or> py_le (Fin 100) x"
  by (cases d; cases "the d") (auto simp: floored_delay_def float_max_def fixed_speed_def split: if_splits)

text \<open>A delay that is no number stays one: between the frames there is then no wait at all.\<close>

lemma nan_delay_unfloored: "floored_delay (Some NaN) = Some NaN"
  by (simp add: floored_delay_def float_max_def)

text \<open>An angle that is no number puts a servo at its lower limit.\<close>

lemma nan_angle_at_minimum:
  assumes "tg_min t = Some (Fin lo)" "tg_max t = None \<or> tg_max t = Some (Fin hi) \<and> lo \<le> hi"
  shows "target_position t NaN = Fin lo"
  using assms by (auto simp: target_position_def float_mult_def float_add_def float_max_def float_min_def Let_def)

section \<open>Cache\<close>

definition playable :: "json_frame list \<Rightarrow> bool" where
  "playable frames \<longleftrightarrow> list_all (\<lambda>f. f \<noteq> [] \<and> list_all (\<lambda>c. has_key ''id'' c \<and> has_key ''position'' c) f) frames"

definition caches_ok :: "bvh_frames bvh_caches \<Rightarrow> bool" where
  "caches_ok ca \<longleftrightarrow> (\<forall>key r. map_of (ca_bvh ca) key = Some r \<longrightarrow> fst r \<noteq> [] \<and> playable (fst r))"

lemma each_result_all:
  "each_result f xs = Inr ys \<Longrightarrow> list_all2 (\<lambda>x y. f x = Inr y) xs ys"
  by (induction xs arbitrary: ys) auto

lemma target_command_keys: "target_command frame t = Inr c \<Longrightarrow> has_key ''id'' c \<and> has_key ''position'' c"
  by (auto simp: target_command_def has_key_def)

lemma built_playable:
  assumes "build_bvh_frames parsed data config speed st = Inr (frames, time)"
  shows "playable frames"
proof (cases "frames = []")
  case False
  then obtain ds fr where ds: "ds \<noteq> []" and m: "each_result (\<lambda>frame. each_result (target_command frame) ds) fr = Inr frames"
    using assms by (auto simp: build_bvh_frames_def split: if_splits)
  have "f \<noteq> [] \<and> list_all (\<lambda>c. has_key ''id'' c \<and> has_key ''position'' c) f" if "f \<in> set frames" for f
  proof -
    from each_result_all [OF m] that obtain frame where "each_result (target_command frame) ds = Inr f"
      by (auto simp: list_all2_conv_all_nth in_set_conv_nth)
    then have a: "list_all2 (\<lambda>t c. target_command frame t = Inr c) ds f" by (rule each_result_all)
    then have "has_key ''id'' c \<and> has_key ''position'' c" if "c \<in> set f" for c
      using that target_command_keys by (fastforce simp: list_all2_conv_all_nth in_set_conv_nth)
    then show ?thesis using ds a by (auto simp: list_all_iff)
  qed
  then show ?thesis by (simp add: playable_def list_all_iff)
qed (simp add: playable_def)

lemma load_bvh_frames_cases:
  assumes "load_bvh_frames fs name data config path speed st ca = (r, ca')"
  obtains (error) e where "r = Inl e" "ca' = ca"
    | (none) t where "r = Inr ([], t)" "ca' = ca"
    | (cached) p x where "resolve_bvh_path data config path = Inr p" "p \<noteq> ''''" "fs_exists fs p"
        "map_of (ca_bvh ca) (cache_key name p) = Some x" "r = Inr x" "ca' = ca"
    | (built) p parsed frames time where "resolve_bvh_path data config path = Inr p" "p \<noteq> ''''" "fs_exists fs p"
        "build_bvh_frames parsed data config speed st = Inr (frames, time)" "frames \<noteq> []" "r = Inr (frames, time)"
        "ca' = ca\<lparr>ca_bvh := AList.update (cache_key name p) (frames, time) (ca_bvh ca)\<rparr>"
proof -
  note d = assms [unfolded load_bvh_frames_def Let_def]
  show thesis
  proof (cases "resolve_bvh_path data config path")
    case (Inl e)
    then show ?thesis using d by (intro error [of e]) auto
  next
    case p: (Inr p)
    show ?thesis
    proof (cases "p \<noteq> '''' \<and> fs_exists fs p")
      case False
      then show ?thesis using d p by (intro none [of None]) auto
    next
      case e: True
      show ?thesis
      proof (cases "map_of (ca_bvh ca) (cache_key name p)")
        case (Some x)
        then show ?thesis using d p e by (intro cached [of p x]) auto
      next
        case m: None
        show ?thesis
        proof (cases "Option.bind (fs_lines fs p) parse_bvh_lines")
          case None
          then show ?thesis using d p e m by (intro none [of None]) auto
        next
          case q: (Some parsed)
          show ?thesis
          proof (cases "build_bvh_frames parsed data config speed st")
            case (Inl x)
            then show ?thesis using d p e m q by (intro error [of x]) auto
          next
            case (Inr x)
            obtain frames time where x: "x = (frames, time)" by (cases x)
            show ?thesis
            proof (cases "frames = []")
              case True
              then show ?thesis using d p e m q Inr x by (intro none [of time]) auto
            next
              case False
              then show ?thesis using d p e m q Inr x by (intro built [of p parsed frames time]) auto
            qed
          qed
        qed
      qed
    qed
  qed
qed

lemma caches_ok_update:
  "caches_ok ca \<Longrightarrow> frames \<noteq> [] \<Longrightarrow> playable frames \<Longrightarrow> caches_ok (ca\<lparr>ca_bvh := AList.update key (frames, time) (ca_bvh ca)\<rparr>)"
  by (simp add: caches_ok_def AList.update_conv')

lemma load_bvh_frames_cached:
  assumes "caches_ok ca" "load_bvh_frames fs name data config path speed st ca = (r, ca')"
  shows "caches_ok ca'" "r = Inr (frames, time) \<Longrightarrow> playable frames"
    "r = Inr (frames, time) \<Longrightarrow> frames \<noteq> [] \<Longrightarrow>
       \<exists>p. resolve_bvh_path data config path = Inr p \<and> p \<noteq> '''' \<and> fs_exists fs p \<and> map_of (ca_bvh ca') (cache_key name p) = Some (frames, time)"
proof -
  show "caches_ok ca'"
    by (cases rule: load_bvh_frames_cases [OF assms(2)]) (use assms(1) in \<open>auto intro: caches_ok_update dest: built_playable\<close>)
  assume r: "r = Inr (frames, time)"
  show "playable frames"
    by (cases rule: load_bvh_frames_cases [OF assms(2)])
       (use assms(1) r in \<open>auto simp: playable_def [of "[]"] caches_ok_def dest: built_playable\<close>)
  assume ne: "frames \<noteq> []"
  show "\<exists>p. resolve_bvh_path data config path = Inr p \<and> p \<noteq> '''' \<and> fs_exists fs p \<and> map_of (ca_bvh ca') (cache_key name p) = Some (frames, time)"
    by (cases rule: load_bvh_frames_cases [OF assms(2)]) (use r ne in \<open>auto simp: AList.update_conv'\<close>)
qed

text \<open>
  Once the frames of a file are cached, they are played again whatever has become of the file and of the mapping of
  the joints.
\<close>

lemma cached_frames_stay:
  assumes "caches_ok ca" "load_bvh_frames fs name data config path speed st ca = (Inr (frames, time), ca')" "frames \<noteq> []"
    "resolve_bvh_path data' config' path' = resolve_bvh_path data config path"
    "fs_exists fs' = fs_exists fs"
  shows "load_bvh_frames fs' name data' config' path' speed' st' ca' = (Inr (frames, time), ca')"
  using load_bvh_frames_cached(3) [OF assms(1,2) refl assms(3)] assms(4,5) by (auto simp: load_bvh_frames_def)

section \<open>Loops\<close>

lemma static_tail_cut:
  assumes "static_tail sig frames = Inr n"
  shows "n \<le> length frames \<and> list_all (\<lambda>f. frame_signature f = Inr sig) (take n frames)
    \<and> (n < length frames \<longrightarrow> (\<exists>s. frame_signature (frames ! n) = Inr s \<and> s \<noteq> sig))"
  using assms by (induction frames arbitrary: n) (auto split: if_splits simp: nth_Cons')

text \<open>What a loop plays is the beginning of the frames.\<close>

lemma trim_static_tail_prefix:
  assumes "trim_static_tail frames = Inr trimmed"
  shows "\<exists>rest. frames = trimmed @ rest" "frames \<noteq> [] \<Longrightarrow> trimmed \<noteq> []"
proof -
  have "\<exists>k. trimmed = take k frames \<and> (frames \<noteq> [] \<longrightarrow> 0 < k)"
  proof (cases "frames = []")
    case False
    then obtain sig where sig: "frame_signature (last frames) = Inr sig"
      using assms by (cases "frame_signature (last frames)") (simp_all add: trim_static_tail_def)
    have "trimmed = frames \<or> trimmed = [hd frames] \<or> (\<exists>n. n < length frames \<and> trimmed = take (length frames - n) frames)"
    proof (cases "sig = []")
      case True
      then show ?thesis using assms False sig by (simp add: trim_static_tail_def)
    next
      case ne: False
      then obtain n where "static_tail sig (rev frames) = Inr n"
        using assms False sig by (cases "static_tail sig (rev frames)") (simp_all add: trim_static_tail_def)
      then show ?thesis using assms False sig ne by (simp add: trim_static_tail_def split: if_splits) (metis not_le)
    qed
    then consider "trimmed = frames" | "trimmed = [hd frames]" | n where "n < length frames" "trimmed = take (length frames - n) frames"
      by blast
    then show ?thesis
    proof cases
      case 1
      then show ?thesis using False by (intro exI [of _ "length frames"]) simp
    next
      case 2
      then show ?thesis using False by (intro exI [of _ 1]) (cases frames; simp)
    next
      case 3
      then show ?thesis by (intro exI [of _ "length frames - n"]) simp
    qed
  qed (use assms in \<open>simp add: trim_static_tail_def\<close>)
  then show "\<exists>rest. frames = trimmed @ rest" "frames \<noteq> [] \<Longrightarrow> trimmed \<noteq> []"
    by (auto intro: append_take_drop_id [symmetric])
qed

text \<open>
  A pose that is held at the end for two frames or more is left out of the loop with its first frame: the last pose
  that is played is another one. A pose that is held for one frame is played.
\<close>

lemma held_pose_dropped:
  assumes "frame_signature f = Inr s" "frame_signature g = Inr s" "s \<noteq> []"
    "trim_static_tail (frames @ [f, g]) = Inr trimmed" "2 \<le> length trimmed"
  shows "\<exists>t. frame_signature (last trimmed) = Inr t \<and> t \<noteq> s"
proof -
  let ?all = "frames @ [f, g]"
  obtain n where n: "static_tail s (rev ?all) = Inr n" and
    t: "trimmed = (if n \<le> 1 then ?all else if length ?all \<le> n then [hd ?all] else take (length ?all - n) ?all)"
    using assms(1-4) by (fastforce simp: trim_static_tail_def split: if_splits)
  have "2 \<le> n" using n assms(1,2) by auto
  then have l: "n < length ?all" and t': "trimmed = take (length ?all - n) ?all"
    using t assms(5) by (auto split: if_splits)
  have "last (take (length xs - n) xs) = rev xs ! n" if "n < length xs" for xs :: "json_frame list"
  proof -
    have "0 < n" using \<open>2 \<le> n\<close> by simp
    then show ?thesis using that by (subst last_conv_nth) (auto simp: rev_nth)
  qed
  then have "last trimmed = rev ?all ! n" using l t' by blast
  then show ?thesis using static_tail_cut [OF n] l by simp
qed

lemma single_pose_kept:
  assumes "frame_signature f = Inr s" "frame_signature g = Inr t" "t \<noteq> s"
  shows "trim_static_tail (frames @ [f, g]) = Inr (frames @ [f, g])"
  using assms by (auto simp: trim_static_tail_def)

section \<open>The player\<close>

definition loads :: "player_event list \<Rightarrow> bvh_command set" where
  "loads es = {c. \<exists>g d frames. Pl_worker g (Wi_loaded d frames) \<in> set es \<and> Some c \<in> set (concat frames)}"

definition script_commands :: "script_item list \<Rightarrow> bvh_command set" where
  "script_commands s = {c. Publish c \<in> set s}"

fun point_script :: "worker_point \<Rightarrow> script_item list" where
  "point_script (Wp_run s) = s"
| "point_script _ = []"

definition plays_within :: "bvh_command set \<Rightarrow> player \<Rightarrow> bool" where
  "plays_within cs p \<longleftrightarrow>
     (\<forall>g w. bp_workers p g = Some w \<longrightarrow> script_commands (wk_script w) \<union> script_commands (point_script (wk_point w)) \<subseteq> cs)
     \<and> snd ` set (bp_out p) \<subseteq> cs"

lemma script_commands_of: "script_commands (script_of d frames) \<subseteq> {c. Some c \<in> set (concat frames)}"
  by (auto simp: script_commands_def script_of_def frame_script_def command_script_def split: option.splits if_splits)

lemma script_commands_simps [simp]:
  "script_commands [] = {}" "script_commands (Publish c # s) = insert c (script_commands s)" "script_commands (Check # s) = script_commands s"
  "script_commands (Pause # s) = script_commands s" "script_commands (Wait # s) = script_commands s"
  by (auto simp: script_commands_def)

lemma commands_run_on: "script_commands (point_script (run_on w rest)) \<subseteq> script_commands (wk_script w) \<union> script_commands rest"
  by (auto simp: run_on_def)

lemma commands_skip_pause [simp]: "script_commands (skip_pause rest) = script_commands rest"
  by (auto simp: skip_pause_def script_commands_def split: list.splits script_item.splits)

definition worker_within :: "bvh_command set \<Rightarrow> worker \<Rightarrow> bool" where
  "worker_within cs w \<longleftrightarrow> script_commands (wk_script w) \<subseteq> cs \<and> script_commands (point_script (wk_point w)) \<subseteq> cs"

lemma plays_within_alt:
  "plays_within cs p \<longleftrightarrow> (\<forall>g w. bp_workers p g = Some w \<longrightarrow> worker_within cs w) \<and> snd ` set (bp_out p) \<subseteq> cs"
  by (simp add: plays_within_def worker_within_def)

lemma set_worker_within: "plays_within cs p \<Longrightarrow> worker_within cs w \<Longrightarrow> plays_within cs (set_worker g w p)"
  by (simp add: plays_within_alt set_worker_def)

lemma worker_at: "plays_within cs p \<Longrightarrow> bp_workers p g = Some w \<Longrightarrow> worker_within cs w"
  by (simp add: plays_within_alt)

lemma other_fields_within [simp]:
  "plays_within cs (op_answers r p) = plays_within cs p" "plays_within cs (op_goes q pt p) = plays_within cs p"
  "plays_within cs (clear_thread g p) = plays_within cs p" "plays_within cs (op_stopped q s p) = plays_within cs p"
  "plays_within cs (player_calls call caller p) = plays_within cs p"
  "plays_within cs (p\<lparr>bp_generation := n, bp_thread := t\<rparr>) = plays_within cs p"
  by (simp_all add: plays_within_def op_answers_def op_goes_def clear_thread_def op_stopped_def player_calls_def split: player_call.splits)

lemma worker_within_stop [simp]: "worker_within cs (w\<lparr>wk_stop := b\<rparr>) = worker_within cs w"
  by (simp add: worker_within_def)

lemma op_step_within:
  assumes "op_step late p = Some p'" "plays_within cs p"
  shows "plays_within cs p'"
proof -
  have w: "worker_within cs (w\<lparr>wk_point := Wp_load\<rparr>)" if "bp_workers p g = Some w" for g w
    using worker_at [OF assms(2) that] by (simp add: worker_within_def)
  have n: "worker_within cs \<lparr>wk_point = Wp_new, wk_stop = False, wk_script = [], wk_loop = l\<rparr>" for l
    by (simp add: worker_within_def)
  show ?thesis
    using assms w n worker_at [OF assms(2)]
    by (auto simp: op_step_def Let_def intro!: set_worker_within split: option.splits op_point.splits if_splits)
qed

lemma run_on_within:
  assumes "worker_within cs w" "wk_point w = Wp_run (item # rest)"
  shows "worker_within cs (w\<lparr>wk_point := run_on w rest\<rparr>)" "worker_within cs (w\<lparr>wk_point := run_on w (skip_pause rest)\<rparr>)"
    "worker_within cs (w\<lparr>wk_point := Wp_finally\<rparr>)"
proof -
  have "script_commands rest \<subseteq> cs" using assms by (cases item) (auto simp: worker_within_def)
  moreover have "script_commands (point_script (run_on w r)) \<subseteq> script_commands (wk_script w) \<union> script_commands r" for r by (rule commands_run_on)
  moreover have "script_commands (skip_pause rest) = script_commands rest" by simp
  ultimately show "worker_within cs (w\<lparr>wk_point := run_on w rest\<rparr>)" "worker_within cs (w\<lparr>wk_point := run_on w (skip_pause rest)\<rparr>)"
      "worker_within cs (w\<lparr>wk_point := Wp_finally\<rparr>)"
    using assms(1) unfolding worker_within_def by (auto simp del: commands_skip_pause) blast+
qed

lemma worker_runs_within:
  assumes "plays_within cs p" "bp_workers p g = Some w" "wk_point w = Wp_run (item # rest)"
  shows "plays_within cs (worker_runs g w item rest i p)"
proof -
  note w = worker_at [OF assms(1,2)]
  note on = run_on_within [OF w assms(3)]
  have out: "plays_within cs (p\<lparr>bp_out := (g, c) # bp_out p\<rparr>)" if "item = Publish c" for c
    using assms(1,3) w that by (simp add: plays_within_alt worker_within_def)
  show ?thesis
    using assms(1) on out by (cases item) (auto simp: worker_runs_def intro!: set_worker_within)
qed

lemma worker_step_within:
  assumes "worker_step g i p = Some p'" "plays_within cs p" "\<And>d frames. i = Wi_loaded d frames \<Longrightarrow> {c. Some c \<in> set (concat frames)} \<subseteq> cs"
  shows "plays_within cs p'"
proof -
  obtain w where w: "bp_workers p g = Some w" using assms(1) by (auto simp: worker_step_def split: option.splits)
  note within = worker_at [OF assms(2) w]
  have points: "worker_within cs (w\<lparr>wk_point := pt\<rparr>)" if "pt \<in> {Wp_finally, Wp_leaving, Wp_dead}" for pt
    using within that by (auto simp: worker_within_def)
  have loaded: "worker_within cs (w\<lparr>wk_script := script_of d frames, wk_point := (if frames = [] then Wp_finally else Wp_run (script_of d frames))\<rparr>)"
    if "i = Wi_loaded d frames" for d frames
    using assms(3) [OF that] script_commands_of [of d frames] by (auto simp: worker_within_def)
  show ?thesis
    using assms(1,2) w points loaded worker_runs_within [OF assms(2) w]
    by (auto simp: worker_step_def Let_def intro!: set_worker_within split: if_splits worker_point.splits list.splits worker_input.splits)
qed

text \<open>
  A player publishes only commands of the frames that its workers loaded: none is made up, whatever the calls,
  the threads and their time-outs.
\<close>

lemma published_were_loaded:
  assumes "player_run es player_init = Some p" "(g, c) \<in> set (bp_out p)"
  shows "c \<in> loads es"
proof -
  have "plays_within (loads es) p'" if "player_run fs q = Some p'" "plays_within (loads es) q" "set fs \<subseteq> set es" for fs q p'
    using that
  proof (induction fs arbitrary: q)
    case (Cons e fs)
    then obtain r where r: "player_step e q = Some r" "player_run fs r = Some p'" by (auto simp: bind_eq_Some_conv)
    have "plays_within (loads es) r"
    proof (cases e)
      case (Pl_call call caller)
      then show ?thesis using r(1) Cons.prems(2) by (auto split: if_splits)
    next
      case (Pl_op late)
      then show ?thesis using r(1) Cons.prems(2) op_step_within by simp
    next
      case (Pl_worker h i)
      have "{c. Some c \<in> set (concat frames)} \<subseteq> loads es" if "i = Wi_loaded d frames" for d frames
        using Cons.prems(3) Pl_worker that by (auto simp: loads_def)
      then show ?thesis using r(1) Cons.prems(2) Pl_worker worker_step_within by simp
    qed
    then show ?case using Cons.IH r(2) Cons.prems(3) by simp
  qed simp
  from this [OF assms(1)] have "plays_within (loads es) p" by (simp add: plays_within_def player_init_def)
  then show ?thesis using assms(2) by (force simp: plays_within_def)
qed

text \<open>The caches of a player: empty at first, then what its playbacks leave.\<close>

inductive cached_by :: "bvh_files \<Rightarrow> string list \<Rightarrow> string \<Rightarrow> bvh_frames bvh_caches \<Rightarrow> bool"
  for fs packaged override where
  start: "cached_by fs packaged override \<lparr>ca_actions = [], ca_bvh = []\<rparr>"
| step: "cached_by fs packaged override ca \<Longrightarrow> cached_by fs packaged override (snd (run_action fs packaged override action loop ca))"

definition loads_actions :: "bvh_files \<Rightarrow> string list \<Rightarrow> string \<Rightarrow> player_event list \<Rightarrow> bool" where
  "loads_actions fs packaged override es \<longleftrightarrow>
     (\<forall>g d frames. Pl_worker g (Wi_loaded d frames) \<in> set es \<longrightarrow>
        (\<exists>action loop ca. cached_by fs packaged override ca
           \<and> loaded_input (fst (run_action fs packaged override action loop ca)) = Wi_loaded d frames))"

text \<open>No action that can be found has limits of its own.\<close>

definition common_limits :: "bvh_files \<Rightarrow> string list \<Rightarrow> string \<Rightarrow> json_object \<Rightarrow> string \<Rightarrow> bool" where
  "common_limits fs packaged override config path \<longleftrightarrow>
     (\<forall>name ca data dp ca'. cached_by fs packaged override ca \<and> resolve_action_data fs name config path ca = ((Some data, dp), ca')
        \<longrightarrow> \<not> json_truthy (jget_or ''servo_limits'' J_null data))"

lemma run_action_found:
  assumes "load_config fs packaged override = (J_object config, path)" "fst (run_action fs packaged override action loop ca) = Inr (Some b)"
  obtains name data dp ca1 where "resolve_action_name action (J_object config) = Inr (Some name)"
    "resolve_action_data fs name config path ca = ((Some data, dp), ca1)"
  using assms by (auto simp: run_action_def object_of_def split: if_splits sum.splits prod.splits option.splits)

text \<open>
  C37: Every command that a player ever publishes for a servo with a lower and an upper limit stays between the two,
  rounded, whatever the actions, their files and their frames, the calls, the threads and their time-outs: as long
  as the actions bring no limits of their own, the limits are those of the configuration.
\<close>

theorem published_within_limits:
  assumes "player_run es player_init = Some p" "(g, c) \<in> set (bp_out p)"
    "loads_actions fs packaged override es" "load_config fs packaged override = (J_object config, path)"
    "common_limits fs packaged override config path"
    "lookup_limits (get_truthy ''servo_limits'' (J_object []) config) (bc_servo_id c) = Inr (Some (Fin lo), Some (Fin hi))" "lo \<le> hi"
  shows "round_even lo \<le> bc_position c \<and> bc_position c \<le> round_even hi"
proof -
  obtain h d frames where l: "Pl_worker h (Wi_loaded d frames) \<in> set es" "Some c \<in> set (concat frames)"
    using published_were_loaded [OF assms(1,2)] by (auto simp: loads_def)
  then obtain action loop ca where ca: "cached_by fs packaged override ca"
      and "loaded_input (fst (run_action fs packaged override action loop ca)) = Wi_loaded d frames"
    using assms(3) unfolding loads_actions_def by blast
  from l(2) this(2) obtain b where b: "fst (run_action fs packaged override action loop ca) = Inr (Some b)" "frames = pk_frames b"
    by (auto simp: loaded_input_def split: sum.splits option.splits)
  obtain name data dp ca1 where a: "resolve_action_name action (J_object config) = Inr (Some name)"
      "resolve_action_data fs name config path ca = ((Some data, dp), ca1)"
    by (rule run_action_found [OF assms(4) b(1)])
  have "\<not> json_truthy (jget_or ''servo_limits'' J_null data)"
    using assms(5) a(2) ca unfolding common_limits_def by blast
  then have t: "truthy_setting ''servo_limits'' data config (J_object []) = get_truthy ''servo_limits'' (J_object []) config"
    by (simp add: truthy_setting_def get_truthy_def json_or_def)
  show ?thesis
    using playback_within_limits [OF assms(4) a b(1) _ _ assms(7)] l(2) b(2) assms(6) t by simp
qed

definition demo_config :: json_object where
  "demo_config =
     [(''servo_limits'', J_object [(''3'', J_object [(''min'', J_int 500), (''max'', J_int 2500)])]),
      (''bvh_data'', J_object [(''wave'', J_object [(''frames'', J_list [J_list [J_object [(''id'', J_int 3), (''position'', J_int 9000)]]])])])]"

definition demo_files :: bvh_files where
  "demo_files = \<lparr>fs_exists = (\<lambda>p. p = ''/map.cfg''), fs_json = (\<lambda>p. if p = ''/map.cfg'' then Some (J_object demo_config) else None),
     fs_lines = (\<lambda>p. None)\<rparr>"

definition clamped_command :: bvh_command where
  "clamped_command = \<lparr>bc_servo_type = J_string ''bus'', bc_servo_id = 3, bc_position = 2500\<rparr>"

definition wave_run :: "player_event list" where
  "wave_run = [Pl_call (Call_play True) None, Pl_op False, Pl_op False, Pl_op False,
     Pl_worker 1 (Wi_loaded False [[Some clamped_command]]), Pl_worker 1 Wi_go, Pl_worker 1 Wi_go, Pl_worker 1 Wi_go]"

lemma demo_config_found:
  "load_config demo_files [] ''/map.cfg'' = (J_object demo_config, ''/map.cfg'')"
  "resolve_action_name (J_string ''wave'') (J_object demo_config) = Inr (Some ''wave'')"
  "inline_action ''wave'' demo_config = Some [(''frames'', J_list [J_list [J_object [(''id'', J_int 3), (''position'', J_int 9000)]]])]"
  "get_truthy ''servo_limits'' (J_object []) demo_config = J_object [(''3'', J_object [(''min'', J_int 500), (''max'', J_int 2500)])]"
  "int_string 3 = ''3''" "action_files demo_config = J_object []" "resolve_action_data_dir demo_config ''/map.cfg'' = ''''"
  "base_dir ''/map.cfg'' = ''/''" "demo_config \<noteq> []"
  by code_simp+

lemma demo_limits: "lookup_limits (get_truthy ''servo_limits'' (J_object []) demo_config) 3 = Inr (Some (Fin 500), Some (Fin 2500))"
  by (simp add: demo_config_found lookup_limits_def limit_entry_def json_dict_def jget_or_def jget_def coerce_optional_def coerce_def
      json_float_def int_float_def)

lemma demo_common_limits: "common_limits demo_files [] ''/map.cfg'' demo_config ''/map.cfg''"
proof -
  have "\<not> fs_exists demo_files (path_join ''/'' (name @ ''.json''))" for name
  proof -
    have "last (path_join ''/'' (name @ ''.json'')) = CHR ''n''" by (simp add: path_join_def)
    moreover have "last ''/map.cfg'' = CHR ''g''" by simp
    ultimately show ?thesis unfolding demo_files_def by (auto simp del: last.simps)
  qed
  then have "resolve_action_file_path demo_files name demo_config ''/map.cfg'' = ''''" for name
    by (simp add: resolve_action_file_path_def demo_config_found first_text_def jget_or_def jget_def extract_action_file_ref_def Let_def)
  then have "resolve_action_data demo_files name demo_config ''/map.cfg'' ca = ((Some data, dp), ca') \<Longrightarrow> inline_action name demo_config = Some data"
    for name data dp and ca ca' :: "bvh_frames bvh_caches"
    by (auto simp: resolve_action_data_def split: option.splits)
  moreover have "inline_action name demo_config = Some data \<Longrightarrow> data = [(''frames'', J_list [J_list [J_object [(''id'', J_int 3), (''position'', J_int 9000)]]])]"
    for name data
    by (auto simp: inline_action_def demo_config_def get_truthy_def json_or_def jget_or_def jget_def json_dict_def split: if_splits)
  ultimately show ?thesis unfolding common_limits_def by (fastforce simp: jget_or_def jget_def)
qed

lemma demo_wave_loaded:
  "loaded_input (fst (run_action demo_files [] ''/map.cfg'' (J_string ''wave'') True \<lparr>ca_actions = [], ca_bvh = []\<rparr>))
     = Wi_loaded False [[Some clamped_command]]"
proof -
  let ?data = "[(''frames'', J_list [J_list [J_object [(''id'', J_int 3), (''position'', J_int 9000)]]])]"
  have d: "setting ''default_speed_ms'' ?data demo_config (J_int 33) = J_int 33" "frame_delay ?data = Inr None"
    "setting ''default_servo_type'' ?data demo_config (J_string ''bus'') = J_string ''bus''"
    "truthy_setting ''servo_limits'' ?data demo_config (J_object []) = get_truthy ''servo_limits'' (J_object []) demo_config"
    by code_simp+
  have f: "normalize_frames ?data 33 = Inr [[[(''id'', J_int 3), (''position'', J_int 9000)]]]" by code_simp
  have t: "trim_static_tail [[[(''id'', J_int 3), (''position'', J_int 9000)]]] = Inr [[[(''id'', J_int 3), (''position'', J_int 9000)]]]"
    by code_simp
  have c: "playback_command (get_truthy ''servo_limits'' (J_object []) demo_config) (J_string ''bus'') [(''id'', J_int 3), (''position'', J_int 9000)]
      = Some clamped_command"
    using round_even_int [of 500] round_even_int [of 2500]
    by (simp add: playback_command_def limit_position_def demo_limits jget_or_def jget_def py_round_def clamped_command_def)
  have "run_action demo_files [] ''/map.cfg'' (J_string ''wave'') True \<lparr>ca_actions = [], ca_bvh = []\<rparr>
      = (Inr (Some \<lparr>pk_delay = None, pk_frames = [[Some clamped_command]]\<rparr>), \<lparr>ca_actions = [], ca_bvh = []\<rparr>)"
    by (simp add: run_action_def demo_config_found object_of_def resolve_action_data_def action_frames_def d f t c [unfolded demo_config_found(4)] prepare_playback_def
        floored_delay_def)
  then show ?thesis by (simp add: loaded_input_def)
qed

lemma wave_loads: "loads_actions demo_files [] ''/map.cfg'' wave_run"
proof -
  have w: "Pl_worker g (Wi_loaded d frames) \<in> set wave_run \<Longrightarrow> Wi_loaded d frames = Wi_loaded False [[Some clamped_command]]" for g d frames
    by (simp add: wave_run_def)
  show ?thesis unfolding loads_actions_def
  proof (intro allI impI)
    fix g d frames
    assume "Pl_worker g (Wi_loaded d frames) \<in> set wave_run"
    note e = w [OF this]
    show "\<exists>action loop ca. cached_by demo_files [] ''/map.cfg'' ca
        \<and> loaded_input (fst (run_action demo_files [] ''/map.cfg'' action loop ca)) = Wi_loaded d frames"
      unfolding e by (rule exI, rule exI, rule exI, rule conjI [OF cached_by.start demo_wave_loaded])
  qed
qed

lemma published_within_limits_witness:
  "\<exists>p. player_run wave_run player_init = Some p \<and> bp_out p = [(1, clamped_command)]
     \<and> round_even 500 \<le> bc_position clamped_command \<and> bc_position clamped_command \<le> round_even 2500"
proof -
  have "run_shows wave_run (\<lambda>p. bp_out p = [(1, clamped_command)])" by code_simp
  then obtain p where p: "player_run wave_run player_init = Some p" "bp_out p = [(1, clamped_command)]"
    by (auto simp: run_shows_def split: option.splits)
  have i: "bc_servo_id clamped_command = 3" by (simp add: clamped_command_def)
  have "round_even 500 \<le> bc_position clamped_command \<and> bc_position clamped_command \<le> round_even 2500"
    by (rule published_within_limits [OF p(1) _ wave_loads demo_config_found(1) demo_common_limits, of 1])
       (simp_all add: p(2) i demo_limits)
  then show ?thesis using p by blast
qed

end
