(* ===== verification/Bvh_Convert.thy ===== *)
theory Bvh_Convert
  imports Bvh_Playback
begin

text \<open>
  \<open>convert_bvh_config\<close> of \<open>bvh_static_convert.py\<close>: the frames of BVH files written into a configuration. The command
  line is outside the model; what is written is a list of paths with their values. A converted action is played the
  way it was before, as long as it had no delay of its own.
\<close>

section \<open>Paths\<close>

text \<open>\<open>os.path.abspath\<close> in the working directory \<open>cwd\<close>, which is absolute.\<close>

fun path_parts :: "string \<Rightarrow> string \<Rightarrow> string list" where
  "path_parts acc [] = [rev acc]"
| "path_parts acc (c # s) = (if c = CHR ''/'' then rev acc # path_parts [] s else path_parts (c # acc) s)"

definition normal_part :: "string \<Rightarrow> string list \<Rightarrow> string list" where
  "normal_part p ps = (if p = '''' \<or> p = ''.'' then ps else if p = ''..'' then butlast ps else ps @ [p])"

definition norm_abs :: "string \<Rightarrow> string" where
  "norm_abs p =
     (let slashes = (if py_startswith p ''//'' \<and> \<not> py_startswith p ''///'' then ''//'' else ''/'');
          parts = fold normal_part (path_parts '''' p) []
      in slashes @ concat (map (\<lambda>(i, q). if i = 0 then q else ''/'' @ q) (List.enumerate 0 parts)))"

definition abs_path :: "string \<Rightarrow> string \<Rightarrow> string" where
  "abs_path cwd p = norm_abs (path_join cwd p)"

section \<open>One action\<close>

definition frames_json :: "json_frame list \<Rightarrow> json" where
  "frames_json frames = J_list (map (\<lambda>f. J_list (map J_object f)) frames)"

definition file_keys :: "string list" where
  "file_keys = [''bvh_file'', ''bvh_path'', ''file'', ''path'']"

definition static_action :: "bool \<Rightarrow> bvh_frames \<Rightarrow> json_object \<Rightarrow> json_object" where
  "static_action drop_bvh_file r action_data =
     (let d1 = AList.update ''frames'' (frames_json (fst r)) action_data;
          d2 = (case snd r of None \<Rightarrow> d1 | Some t \<Rightarrow> AList.update ''frame_delay_ms'' (J_float t) d1)
      in if drop_bvh_file then filter (\<lambda>(k, v). k \<notin> set file_keys) d2 else d2)"

text \<open>An action that is skipped is \<open>None\<close>; a converted one comes with the path where its data lay.\<close>

definition convert_action ::
  "bvh_files \<Rightarrow> bool \<Rightarrow> bool \<Rightarrow> json_object \<Rightarrow> string \<Rightarrow> string \<Rightarrow> bvh_frames bvh_caches
    \<Rightarrow> (json_object \<times> string) option result \<times> bvh_frames bvh_caches" where
  "convert_action fs force drop_bvh_file config path name ca =
     (case resolve_action_data fs name config path ca of
        ((None, data_path), ca1) \<Rightarrow> (Inr None, ca1)
      | ((Some data, data_path), ca1) \<Rightarrow>
          if has_key ''frames'' data \<and> \<not> force then (Inr None, ca1)
          else case coerce json_int (setting ''default_speed_ms'' data config (J_int 33)) 33 of
                 Inl e \<Rightarrow> (Inl e, ca1)
               | Inr speed \<Rightarrow>
                   (case load_bvh_frames fs name data config path speed
                           (setting ''default_servo_type'' data config (J_string ''bus'')) ca1 of
                      (Inl e, ca2) \<Rightarrow> (Inl e, ca2)
                    | (Inr r, ca2) \<Rightarrow>
                        if fst r = [] then (Inr None, ca2)
                        else (Inr (Some (static_action drop_bvh_file r data, if data_path = '''' then path else data_path)), ca2)))"

section \<open>The file of an action\<close>

definition merge_action_payload :: "json \<Rightarrow> string \<Rightarrow> json_object \<Rightarrow> json" where
  "merge_action_payload payload name data =
     (case payload of
        J_object kvs \<Rightarrow>
          if is_direct_payload kvs then J_object data
          else if json_dict (jget_or name J_null kvs) \<noteq> None then J_object (AList.update name (J_object data) kvs)
          else (case jget_or ''bvh_data'' J_null kvs of
                  J_object nested \<Rightarrow> J_object (AList.update ''bvh_data'' (J_object (AList.update name (J_object data) nested)) kvs)
                | _ \<Rightarrow> J_object data)
      | _ \<Rightarrow> J_object data)"

datatype convert_error = Not_found | Not_read | Raised py_error

record conversion =
  cv_converted :: "string list"
  cv_skipped :: "string list"
  cv_data :: "(string \<times> json_object) list"
  cv_files :: "(string \<times> json) list"
  cv_caches :: "bvh_frames bvh_caches"

definition conversion_start :: conversion where
  "conversion_start = \<lparr>cv_converted = [], cv_skipped = [], cv_data = [], cv_files = [], cv_caches = \<lparr>ca_actions = [], ca_bvh = []\<rparr>\<rparr>"

record convert_options =
  co_in_place :: bool
  co_force :: bool
  co_drop :: bool
  co_cwd :: string

definition convert_one :: "bvh_files \<Rightarrow> convert_options \<Rightarrow> json_object \<Rightarrow> string \<Rightarrow> string \<Rightarrow> conversion \<Rightarrow> convert_error + conversion" where
  "convert_one fs opts config path name c =
     (case convert_action fs (co_force opts) (co_drop opts) config path name (cv_caches c) of
        (Inl e, ca) \<Rightarrow> Inl (Raised e)
      | (Inr None, ca) \<Rightarrow> Inr (c\<lparr>cv_skipped := cv_skipped c @ [name], cv_caches := ca\<rparr>)
      | (Inr (Some (data, action_path)), ca) \<Rightarrow>
          let c1 = c\<lparr>cv_data := AList.update name data (cv_data c), cv_converted := cv_converted c @ [name], cv_caches := ca\<rparr>
          in if co_in_place opts \<and> abs_path (co_cwd opts) action_path \<noteq> abs_path (co_cwd opts) path
             then (case (case map_of (cv_files c) action_path of None \<Rightarrow> fs_json fs action_path | Some payload \<Rightarrow> Some payload) of
                     None \<Rightarrow> Inl Not_read
                   | Some payload \<Rightarrow>
                       Inr (c1\<lparr>cv_files := AList.update action_path (merge_action_payload payload name data) (cv_files c)\<rparr>))
             else Inr c1)"

fun convert_all :: "bvh_files \<Rightarrow> convert_options \<Rightarrow> json_object \<Rightarrow> string \<Rightarrow> string list \<Rightarrow> conversion \<Rightarrow> convert_error + conversion" where
  "convert_all fs opts config path [] c = Inr c"
| "convert_all fs opts config path (name # names) c =
     (case convert_one fs opts config path name c of Inl e \<Rightarrow> Inl e | Inr c1 \<Rightarrow> convert_all fs opts config path names c1)"

section \<open>The configuration\<close>

definition update_all :: "(string \<times> json_object) list \<Rightarrow> json_object \<Rightarrow> json_object" where
  "update_all data kvs = fold (\<lambda>(name, d). AList.update name (J_object d)) data kvs"

text \<open>In place, the data go back to the configuration if the file that \<open>_resolve_action_file_path\<close> names is that one.\<close>

definition inline_updates :: "bvh_files \<Rightarrow> convert_options \<Rightarrow> json_object \<Rightarrow> string \<Rightarrow> (string \<times> json_object) list \<Rightarrow> (string \<times> json_object) list" where
  "inline_updates fs opts config path data =
     filter (\<lambda>(name, d).
       let p = resolve_action_file_path fs name config path
       in abs_path (co_cwd opts) (if p = '''' then path else p) = abs_path (co_cwd opts) path) data"

definition in_place_config :: "bvh_files \<Rightarrow> convert_options \<Rightarrow> json_object \<Rightarrow> string \<Rightarrow> (string \<times> json_object) list \<Rightarrow> json_object result" where
  "in_place_config fs opts config path data =
     (let updates = inline_updates fs opts config path data
      in if updates = [] then Inr config
         else case jget_or ''bvh_data'' J_null config of
                J_null \<Rightarrow> Inr (AList.update ''bvh_data'' (J_object (update_all updates [])) config)
              | J_object kvs \<Rightarrow> Inr (AList.update ''bvh_data'' (J_object (update_all updates kvs)) config)
              | _ \<Rightarrow> Inl (ValueError ''bvh_data must be a dict when writing in-place''))"

definition new_config :: "json_object \<Rightarrow> (string \<times> json_object) list \<Rightarrow> json_object" where
  "new_config config data =
     AList.update ''bvh_data'' (J_object (update_all data (case jget_or ''bvh_data'' J_null config of J_object kvs \<Rightarrow> kvs | _ \<Rightarrow> []))) config"

text \<open>\<open>with_name\<close>, leaving the directory as it is written.\<close>

definition default_output_path :: "string \<Rightarrow> string" where
  "default_output_path path =
     (let name = rev (takeWhile (\<lambda>c. c \<noteq> CHR ''/'') (rev path));
          dir = take (length path - length name) path;
          suffix = takeWhile (\<lambda>c. c \<noteq> CHR ''.'') (rev name);
          stem = (if length suffix = length name \<or> suffix = [] \<or> length suffix + 1 = length name then name
                  else take (length name - length suffix - 1) name)
      in dir @ stem @ ''.frames.json'')"

record converted_config =
  cc_writes :: "(string \<times> json) list"       \<comment> \<open>in the order they are written\<close>
  cc_output :: string
  cc_converted :: "string list"
  cc_skipped :: "string list"

definition convert_bvh_config ::
  "bvh_files \<Rightarrow> string list \<Rightarrow> string \<Rightarrow> string option \<Rightarrow> convert_options \<Rightarrow> string list \<Rightarrow> convert_error + converted_config" where
  "convert_bvh_config fs packaged config_path output opts only_actions =
     (let path = resolve_config_path fs packaged config_path
      in if path = '''' then Inl Not_found
         else case fs_json fs path of
                None \<Rightarrow> Inl Not_read
              | Some conf \<Rightarrow>
                  (case bind_result (object_of conf) (\<lambda>config. bind_result (list_action_names config) (\<lambda>names. Inr (config, names))) of
                     Inl e \<Rightarrow> Inl (Raised e)
                   | Inr (config, names) \<Rightarrow>
                       let chosen = (if only_actions = [] then names else filter (\<lambda>n. n \<in> set only_actions) names)
                       in case convert_all fs opts config path chosen conversion_start of
                            Inl e \<Rightarrow> Inl e
                          | Inr c \<Rightarrow>
                              if co_in_place opts
                              then (case in_place_config fs opts config path (cv_data c) of
                                      Inl e \<Rightarrow> Inl (Raised e)
                                    | Inr config1 \<Rightarrow>
                                        Inr \<lparr>cc_writes = (path, J_object config1) # cv_files c, cc_output = path,
                                             cc_converted = cv_converted c, cc_skipped = cv_skipped c\<rparr>)
                              else (let out = (case output of None \<Rightarrow> default_output_path path | Some p \<Rightarrow> p)
                                    in Inr \<lparr>cc_writes = [(out, J_object (new_config config (cv_data c)))], cc_output = out,
                                            cc_converted = cv_converted c, cc_skipped = cv_skipped c\<rparr>)))"

section \<open>Playback of a converted action\<close>

lemma jget_update: "jget k (AList.update k' v kvs) = (if k = k' then Some v else jget k kvs)"
  by (simp add: jget_def AList.update_conv')

lemma jget_filter: "P k \<Longrightarrow> jget k (filter (\<lambda>(k, v). P k) kvs) = jget k kvs"
  by (induction kvs) (auto simp: jget_def)

lemma jget_static:
  "k \<notin> set file_keys \<Longrightarrow> jget k (static_action dropped r data) =
     (if k = ''frames'' then Some (frames_json (fst r))
      else if k = ''frame_delay_ms'' \<and> snd r \<noteq> None then Some (J_float (the (snd r)))
      else jget k data)"
  by (auto simp: static_action_def Let_def jget_update jget_filter split: option.splits)

lemma frame_commands_json:
  "list_all (\<lambda>c. has_key ''id'' c \<and> has_key ''position'' c) f \<Longrightarrow> frame_commands (J_list (map J_object f)) = f"
  by (induction f) (auto simp: frame_commands_def command_dict_def map_filter_simps)

text \<open>Frames that were written are read back as they were.\<close>

lemma normalize_static:
  assumes "playable (fst r)" "fst r \<noteq> []"
  shows "normalize_frames (static_action dropped r data) speed = Inr (fst r)"
proof -
  have k: "jget ''frames'' (static_action dropped r data) = Some (frames_json (fst r))"
    by (simp add: jget_static file_keys_def)
  then have l: "listed_frames (static_action dropped r data) speed = Inr (frames_json (fst r))"
    using assms(2) by (simp add: listed_frames_def has_key_jget get_truthy_def jget_or_def json_or_def frames_json_def)
  have m: "map (\<lambda>f. frame_commands (J_list (map J_object f))) (fst r) = fst r"
    using assms(1) by (intro map_idI) (simp add: playable_def list_all_iff frame_commands_json)
  have n: "filter (\<lambda>f. f \<noteq> []) (fst r) = fst r"
    using assms(1) by (auto simp: playable_def list_all_iff filter_id_conv)
  show ?thesis using assms(2)
    by (cases "fst r") (use l m n in \<open>auto simp: normalize_frames_def frames_json_def json_iter_def comp_def\<close>)
qed

lemma jget_new_config: "k \<noteq> ''bvh_data'' \<Longrightarrow> jget k (new_config config cvs) = jget k config"
  by (simp add: new_config_def jget_update)

lemma settings_new_config:
  "k \<noteq> ''bvh_data'' \<Longrightarrow> setting k data (new_config config cvs) d = setting k data config d"
  "k \<noteq> ''bvh_data'' \<Longrightarrow> truthy_setting k data (new_config config cvs) d = truthy_setting k data config d"
  by (simp_all add: setting_def truthy_setting_def get_truthy_def jget_or_def jget_new_config)

lemma settings_static:
  "k \<notin> insert ''frames'' (insert ''frame_delay_ms'' (set file_keys)) \<Longrightarrow> setting k (static_action dropped r data) config d = setting k data config d"
  "k \<notin> insert ''frames'' (insert ''frame_delay_ms'' (set file_keys)) \<Longrightarrow> truthy_setting k (static_action dropped r data) config d = truthy_setting k data config d"
  by (simp_all add: setting_def truthy_setting_def get_truthy_def jget_or_def jget_static)

lemma jget_update_all:
  "distinct (map fst cvs) \<Longrightarrow> jget name (update_all cvs kvs) = (case map_of cvs name of None \<Rightarrow> jget name kvs | Some d \<Rightarrow> Some (J_object d))"
proof (induction cvs arbitrary: kvs)
  case (Cons c cvs)
  have "map_of cvs (fst c) = None" using Cons.prems by (auto simp: map_of_eq_None_iff)
  then show ?case using Cons by (cases c) (auto simp: update_all_def jget_update split: option.splits)
qed (simp add: update_all_def)

lemma inline_new_config:
  assumes "distinct (map fst cvs)" "map_of cvs name = Some d"
  shows "inline_action name (new_config config cvs) = Some d"
proof -
  define kvs where "kvs = update_all cvs (case jget_or ''bvh_data'' J_null config of J_object kvs \<Rightarrow> kvs | _ \<Rightarrow> [])"
  have j: "jget name kvs = Some (J_object d)" using jget_update_all [OF assms(1)] assms(2) by (simp add: kvs_def)
  then have "kvs \<noteq> []" by (auto simp: jget_def)
  moreover have "new_config config cvs = AList.update ''bvh_data'' (J_object kvs) config" by (simp add: new_config_def kvs_def)
  ultimately show ?thesis using j
    by (simp add: inline_action_def get_truthy_def jget_or_def jget_update json_or_def json_dict_def)
qed

lemma frame_delay_static:
  assumes "frame_delay data = Inr None"
  shows "frame_delay (static_action dropped r data) = Inr (snd r)"
  using assms
  by (cases "snd r") (simp_all add: frame_delay_def jget_or_def jget_static file_keys_def coerce_optional_def coerce_def json_float_def)

lemma resolve_name_new_config:
  "resolve_action_name (J_string s) (J_object (new_config config cvs)) = resolve_action_name (J_string s) (J_object config)"
proof -
  have "listed_name (new_config config cvs) = listed_name config"
    by (rule ext) (simp add: listed_name_def get_truthy_def jget_or_def jget_new_config)
  then have "number_name (J_object (new_config config cvs)) i = number_name (J_object config) i" for i
    by (simp add: number_name_def object_of_def)
  then show ?thesis by (simp add: resolve_action_name_def Let_def)
qed

lemma action_frames_static:
  assumes "json_int (setting ''default_speed_ms'' data config (J_int 33)) = Inr speed" "frame_delay data = Inr None"
    "playable (fst r)" "fst r \<noteq> []"
  shows "fst (action_frames fs name (static_action dropped r data) (new_config config cvs) path ca) = Inr r"
  using assms normalize_static [OF assms(3,4)] frame_delay_static [OF assms(2)]
  by (simp add: action_frames_def settings_new_config settings_static file_keys_def)

text \<open>
  C38: An action whose frames were converted is played from the new configuration as it was from its BVH file: the
  same commands in the same order, with the same limits and the same delay, or with the same failure, whether it
  loops or not and whatever else was converted with it. The action had no frames and no delay of its own.
\<close>

theorem converted_action_plays_alike:
  assumes "convert_action fs force dropped config path name ca = (Inr (Some (data', p)), ca1)" "caches_ok ca"
    "resolve_action_data fs name config path ca = ((Some data, dp), ca0)" "data \<noteq> []" "ca_bvh ca0 = ca_bvh ca"
    "json_int (setting ''default_speed_ms'' data config (J_int 33)) = Inr speed"
    "normalize_frames data speed = Inr []" "frame_delay data = Inr None"
    "distinct (map fst cvs)" "map_of cvs name = Some data'" "name \<noteq> ''''"
    "resolve_action_name (J_string name) (J_object config) = Inr (Some name)"
    "load_config fs packaged override = (J_object config, path)" "config \<noteq> []"
    "load_config fs' packaged' override' = (J_object (new_config config cvs), path')"
  shows "fst (run_action fs' packaged' override' (J_string name) loop ca') = fst (run_action fs packaged override (J_string name) loop ca)"
proof -
  let ?st = "setting ''default_servo_type'' data config (J_string ''bus'')"
  obtain r ca2 where l: "load_bvh_frames fs name data config path speed ?st ca0 = (Inr r, ca2)" "fst r \<noteq> []"
      and d: "data' = static_action dropped r data"
    using assms(1,3,6) by (auto simp: convert_action_def coerce_def split: if_splits sum.splits prod.splits)
  have ok: "caches_ok ca0" using assms(2,5) by (simp add: caches_ok_def)
  have pl: "playable (fst r)" using load_bvh_frames_cached(2) [OF ok l(1), of "fst r" "snd r"] by simp
  have n: "new_config config cvs \<noteq> []" by (simp add: new_config_def AList.update_nonempty)
  have d': "data' \<noteq> []"
    using jget_static [of "''frames''" dropped r data] by (auto simp: d file_keys_def jget_def)
  have orig: "fst (run_action fs packaged override (J_string name) loop ca) = prepare_playback data config loop r"
    using assms(3,4,6-8,11-14) l by (simp add: run_action_def object_of_def action_frames_def otherwise_def split: prod.splits)
  obtain ca3 where a: "action_frames fs' name data' (new_config config cvs) path' ca' = (Inr r, ca3)"
    using action_frames_static [OF assms(6,8) pl l(2), of fs' name dropped cvs path' ca'] d by (metis prod.collapse)
  have "fst (run_action fs' packaged' override' (J_string name) loop ca') = prepare_playback data' (new_config config cvs) loop r"
    using assms(11,12,15) n d' a
    by (simp add: run_action_def resolve_name_new_config object_of_def resolve_action_data_def inline_new_config [OF assms(9,10)])
  also have "\<dots> = prepare_playback data config loop r"
    by (simp add: prepare_playback_def d settings_new_config settings_static file_keys_def)
  finally show ?thesis using orig by simp
qed

text \<open>
  An action with a delay of its own loses it: the delay of the file replaces it, though the player would have kept
  to the one of the action.
\<close>

lemma own_delay_replaced:
  assumes "frame_delay data = Inr (Some own)" "snd r = Some t"
  shows "frame_delay (static_action dropped r data) = Inr (Some t)"
  using assms by (simp add: frame_delay_def jget_or_def jget_static file_keys_def coerce_optional_def coerce_def json_float_def)

text \<open>
  In place, the frames of an action whose data lie in the configuration are lost if a file for the action is found
  as well: the configuration is written as it was, though the action counts as converted.
\<close>

lemma inline_conversion_lost:
  assumes "inline_action name config = Some data"
    "convert_action fs (co_force opts) (co_drop opts) config path name (cv_caches c) = (Inr (Some (data', p)), ca1)"
    "path \<noteq> ''''" "co_in_place opts"
    "resolve_action_file_path fs name config path = q" "q \<noteq> ''''" "abs_path (co_cwd opts) q \<noteq> abs_path (co_cwd opts) path"
  shows "\<exists>c1. convert_one fs opts config path name c = Inr c1 \<and> name \<in> set (cv_converted c1) \<and> cv_files c1 = cv_files c
    \<and> in_place_config fs opts config path [(name, data')] = Inr config"
proof -
  have "resolve_action_data fs name config path (cv_caches c) = ((Some data, path), cv_caches c)"
    using assms(1) by (simp add: resolve_action_data_def)
  then have "p = path" using assms(2,3) by (auto simp: convert_action_def split: if_splits sum.splits prod.splits)
  then show ?thesis using assms(2,4-7) by (simp add: convert_one_def in_place_config_def inline_updates_def Let_def)
qed

section \<open>Evidence\<close>

definition bvh_config :: json_object where
  "bvh_config = [(''joint_map'', J_object [(''hip'', J_int 3)]), (''default_channel'', J_string ''Xrotation''),
     (''bvh_data'', J_object [(''wave'', J_object [(''bvh_file'', J_string ''/w.bvh'')])])]"

definition wave_files :: "json_object \<Rightarrow> bvh_files" where
  "wave_files config = \<lparr>fs_exists = (\<lambda>p. p \<in> {''/map.cfg'', ''/w.bvh''}),
     fs_json = (\<lambda>p. if p = ''/map.cfg'' then Some (J_object config) else None),
     fs_lines = (\<lambda>p. if p = ''/w.bvh'' then Some demo_bvh else None)\<rparr>"

definition wave_data :: json_object where
  "wave_data = [(''bvh_file'', J_string ''/w.bvh'')]"

definition wave_command :: "int \<Rightarrow> json_object" where
  "wave_command position = [(''id'', J_int 3), (''position'', J_int position), (''speed'', J_int 33), (''servo_type'', J_string ''bus'')]"

lemma wave_settings:
  "setting ''default_speed_ms'' wave_data bvh_config (J_int 33) = J_int 33"
  "setting ''default_servo_type'' wave_data bvh_config (J_string ''bus'') = J_string ''bus''"
  "setting ''default_scale'' wave_data bvh_config (J_float (Fin 1)) = J_float (Fin 1)"
  "setting ''default_bias'' wave_data bvh_config (J_float (Fin 0)) = J_float (Fin 0)"
  "setting ''default_min'' wave_data bvh_config J_null = J_null"
  "setting ''default_max'' wave_data bvh_config J_null = J_null"
  "truthy_setting ''default_channel'' wave_data bvh_config (J_string ''Zrotation'') = J_string ''Xrotation''"
  "truthy_setting ''servo_limits'' wave_data bvh_config (J_object []) = J_object []"
  "truthy_setting ''joint_alias'' wave_data bvh_config (J_object []) = J_object []"
  "truthy_setting ''joint_map'' wave_data bvh_config (J_object []) = J_object [(''hip'', J_int 3)]"
  by (simp_all add: setting_def truthy_setting_def get_truthy_def jget_or_def jget_def json_or_def wave_data_def bvh_config_def)

lemma wave_texts:
  "inline_action ''wave'' bvh_config = Some wave_data" "has_key ''frames'' wave_data = False" "wave_data \<noteq> []" "bvh_config \<noteq> []"
  "resolve_bvh_path wave_data bvh_config ''/map.cfg'' = Inr ''/w.bvh''"
  "frame_delay wave_data = Inr None" "normalize_frames wave_data 33 = Inr []"
  "channel_index [(''hip'', ''Xrotation''), (''hip'', ''Yrotation'')] = [((''hip'', ''Xrotation''), 0), ((''hip'', ''Yrotation''), 1)]"
  "resolve_action_name (J_string ''wave'') (J_object bvh_config) = Inr (Some ''wave'')" "reverse_aliases (J_object []) = []"
  "mapping_pairs (J_int 3) = []" "mapping_items (J_int 3) = [J_int 3]"
  by code_simp+

lemma wave_parsed:
  "\<exists>p. parse_bvh_lines demo_bvh = Some p \<and> pb_channels p = [(''hip'', ''Xrotation''), (''hip'', ''Yrotation'')]
     \<and> pb_frames p = [[Fin 1, Fin 2], [Fin 3, Fin 4]] \<and> pb_frame_time p = None"
  using demo_motion
  by (auto simp: parse_bvh_lines_def demo_bvh_read Let_def numeral_2_eq_2 demo_lines demo_words demo_float_texts motion_start_def
      header_count_def motion_line_def line_numbers_def chop_frames.simps frames_reached_def)

lemma wave_position: "target_command [Fin x, Fin y] \<lparr>tg_id = 3, tg_channel = 0, tg_scale = Fin 1, tg_bias = Fin 0, tg_min = None, tg_max = None,
    tg_servo_type = J_string ''bus'', tg_speed = J_int 33, tg_sign = Fin 1\<rparr> = Inr (wave_command (round_even x))"
  if "0 \<le> x" "x \<le> 100"
proof -
  have "float_value x = Fin x" using that by (simp add: float_value_def)
  then show ?thesis
    by (simp add: target_command_def target_position_def float_mult_def float_add_def py_round_def wave_command_def)
qed

lemma wave_loaded:
  "load_bvh_frames (wave_files config) ''wave'' wave_data bvh_config ''/map.cfg'' 33 (J_string ''bus'') \<lparr>ca_actions = [], ca_bvh = []\<rparr>
     = (Inr ([[wave_command 1], [wave_command 3]], None),
        \<lparr>ca_actions = [], ca_bvh = [(''wave:/w.bvh'', ([[wave_command 1], [wave_command 3]], None))]\<rparr>)"
proof -
  obtain p where p: "parse_bvh_lines demo_bvh = Some p" "pb_channels p = [(''hip'', ''Xrotation''), (''hip'', ''Yrotation'')]"
      "pb_frames p = [[Fin 1, Fin 2], [Fin 3, Fin 4]]" "pb_frame_time p = None"
    using wave_parsed by blast
  have r: "round_even 1 = 1" "round_even 3 = 3" using round_even_int [of 1] round_even_int [of 3] by simp_all
  define t where "t = \<lparr>tg_id = 3, tg_channel = 0, tg_scale = Fin 1, tg_bias = Fin 0, tg_min = None, tg_max = None,
    tg_servo_type = J_string ''bus'', tg_speed = J_int 33, tg_sign = Fin 1\<rparr>"
  have "\<exists>f. target_frame_of p wave_data bvh_config 33 (J_string ''bus'') = Inr f \<and> all_descs f [(''hip'', J_int 3)] = Inr [t]"
    by (simp add: target_frame_of_def wave_settings wave_texts p coerce_def coerce_optional_def json_float_def joint_descs_def aliased_def
        channel_at_def raw_target_of_def complete_target_def target_id_def lookup_limits_def limit_entry_def jget_or_def jget_def
        json_dict_def target_sign_def inverted_def otherwise_def Let_def t_def)
  then obtain f where f: "target_frame_of p wave_data bvh_config 33 (J_string ''bus'') = Inr f" "all_descs f [(''hip'', J_int 3)] = Inr [t]"
    by blast
  have c: "target_command [Fin 1, Fin 2] t = Inr (wave_command 1)" "target_command [Fin 3, Fin 4] t = Inr (wave_command 3)"
    using wave_position [of 1 2] wave_position [of 3 4] by (simp_all add: t_def r)
  have "build_bvh_frames p wave_data bvh_config 33 (J_string ''bus'') = Inr ([[wave_command 1], [wave_command 3]], None)"
    by (simp add: build_bvh_frames_def p wave_settings mapping_pairs_def f c del: all_descs.simps)
  then show ?thesis
    by (simp add: load_bvh_frames_def wave_texts wave_files_def p cache_key_def)
qed

definition static_wave :: json_object where
  "static_wave = static_action False ([[wave_command 1], [wave_command 3]], None) wave_data"

lemma wave_converted:
  "convert_action (wave_files bvh_config) False False bvh_config ''/map.cfg'' ''wave'' \<lparr>ca_actions = [], ca_bvh = []\<rparr>
     = (Inr (Some (static_wave, ''/map.cfg'')),
        \<lparr>ca_actions = [], ca_bvh = [(''wave:/w.bvh'', ([[wave_command 1], [wave_command 3]], None))]\<rparr>)"
  by (simp add: convert_action_def resolve_action_data_def wave_texts wave_settings wave_loaded coerce_def static_wave_def)

lemma wave_configs: "load_config (wave_files config) [] ''/map.cfg'' = (J_object config, ''/map.cfg'')"
  by (simp add: load_config_def resolve_config_path_def wave_files_def)

lemma wave_resolved:
  "resolve_action_data fs ''wave'' bvh_config path ca = ((Some wave_data, path), ca)"
  by (simp add: resolve_action_data_def wave_texts)

lemma converted_action_plays_alike_witness:
  "fst (run_action (wave_files (new_config bvh_config [(''wave'', static_wave)])) [] ''/map.cfg'' (J_string ''wave'') True \<lparr>ca_actions = [], ca_bvh = []\<rparr>)
     = fst (run_action (wave_files bvh_config) [] ''/map.cfg'' (J_string ''wave'') True \<lparr>ca_actions = [], ca_bvh = []\<rparr>)"
  by (rule converted_action_plays_alike [OF wave_converted _ wave_resolved wave_texts(3) _ _ wave_texts(7,6) _ _ _ wave_texts(9) wave_configs wave_texts(4) wave_configs])
     (simp_all add: caches_ok_def wave_settings)

end
