(* ===== verification/Bvh_Preprocess.thy ===== *)
theory Bvh_Preprocess
  imports Bvh_Frames
begin

text \<open>
  \<open>scripts/preprocess_bvh.py\<close>, which reads BVH files and joint maps on its own and writes the frames into the
  configuration ahead of time: its functions, and the loop of \<open>main\<close> over the actions. The command line and the
  files written are outside the model. Where the script and the player of \<open>Bvh_Frames\<close> agree is stated at the end.
\<close>

section \<open>Channels\<close>

definition py_upper_ascii :: "string \<Rightarrow> string" where
  "py_upper_ascii s = map (\<lambda>c. let n = of_char c :: nat in if 97 \<le> n \<and> n \<le> 122 then char_of (n - 32) else c) s"

text \<open>Names that are compared with \<open>'XROTATION'\<close> and its like in upper case are letters of ASCII.\<close>

definition normalize_channel :: "string \<Rightarrow> string" where
  "normalize_channel channel =
     (let ch = py_strip channel; upper = py_upper_ascii ch
      in if upper \<in> {''X'', ''Y'', ''Z''} then upper @ ''rotation''
         else if upper \<in> {''XROTATION'', ''YROTATION'', ''ZROTATION''} then take 1 upper @ ''rotation''
         else ch)"

text \<open>What is no text has no \<open>strip\<close>.\<close>

definition channel_value :: "json \<Rightarrow> string result" where
  "channel_value v =
     (if \<not> json_truthy v then Inr ''''
      else case v of J_string s \<Rightarrow> Inr (normalize_channel s) | _ \<Rightarrow> Inl (AttributeError ''strip''))"

section \<open>Files\<close>

record pre_header =
  ph_channels :: "(string option \<times> string) list"
  ph_joint :: "string option"
  ph_wanted :: "int option"
  ph_time :: py_float

definition pre_header_start :: pre_header where
  "pre_header_start = \<lparr>ph_channels = [], ph_joint = None, ph_wanted = None, ph_time = Fin 0\<rparr>"

definition word_at :: "nat \<Rightarrow> string list \<Rightarrow> string option" where
  "word_at i ws = (if i < length ws then Some (ws ! i) else None)"

definition pre_hierarchy_line :: "string \<Rightarrow> pre_header \<Rightarrow> pre_header" where
  "pre_hierarchy_line line h =
     (let parts = py_split line
      in if py_startswith line ''ROOT'' \<or> py_startswith line ''JOINT''
         then (case word_at 1 parts of None \<Rightarrow> h | Some joint \<Rightarrow> h\<lparr>ph_joint := Some joint\<rparr>)
         else if py_startswith line ''CHANNELS''
         then (let count = (case Option.bind (word_at 1 parts) py_int of None \<Rightarrow> 0 | Some c \<Rightarrow> c)
               in h\<lparr>ph_channels := ph_channels h @ map (Pair (ph_joint h)) (py_slice 2 (2 + count) parts)\<rparr>)
         else h)"

fun pre_hierarchy :: "string list \<Rightarrow> pre_header \<Rightarrow> pre_header \<times> string list" where
  "pre_hierarchy [] h = (h, [])"
| "pre_hierarchy (raw # lines) h =
     (let line = py_strip raw
      in if py_startswith line ''MOTION'' \<and> \<not> py_startswith line ''ROOT'' \<and> \<not> py_startswith line ''JOINT'' \<and> \<not> py_startswith line ''CHANNELS''
         then (h, lines) else pre_hierarchy lines (pre_hierarchy_line line h))"

fun pre_motion_header :: "string list \<Rightarrow> pre_header \<Rightarrow> pre_header \<times> string list" where
  "pre_motion_header [] h = (h, [])"
| "pre_motion_header (raw # lines) h =
     (let line = py_strip raw; parts = py_split line
      in if py_startswith line ''Frames:'' then pre_motion_header lines (h\<lparr>ph_wanted := Option.bind (word_at 1 parts) py_int\<rparr>)
         else if py_startswith line ''Frame Time:''
         then (h\<lparr>ph_time := (case text_float (last parts) of None \<Rightarrow> Fin 0 | Some t \<Rightarrow> t)\<rparr>, lines)
         else pre_motion_header lines h)"

text \<open>The numbers of a line up to the first word that is none, and whether there is such a word.\<close>

fun leading_numbers :: "string list \<Rightarrow> py_float list \<times> bool" where
  "leading_numbers [] = ([], False)"
| "leading_numbers (w # ws) =
     (case text_float w of None \<Rightarrow> ([], True) | Some x \<Rightarrow> (case leading_numbers ws of (xs, bad) \<Rightarrow> (x # xs, bad)))"

definition wanted_reached :: "int option \<Rightarrow> 'a list \<Rightarrow> bool" where
  "wanted_reached wanted frames \<longleftrightarrow> (case wanted of None \<Rightarrow> False | Some t \<Rightarrow> t \<noteq> 0 \<and> t \<le> int (length frames))"

text \<open>The frames that are complete, what is left, and whether that is all.\<close>

function pre_chop :: "nat \<Rightarrow> int option \<Rightarrow> py_float list list \<Rightarrow> py_float list \<Rightarrow> py_float list list \<times> py_float list \<times> bool" where
  "pre_chop n wanted frames buffer =
     (if 0 < n \<and> n \<le> length buffer
      then let frames1 = frames @ [take n buffer]; rest = drop n buffer
           in if wanted_reached wanted frames1 then (frames1, rest, True) else pre_chop n wanted frames1 rest
      else (frames, buffer, False))"
  by auto
termination by (relation "measure (\<lambda>(n, wanted, frames, buffer). length buffer)") auto

declare pre_chop.simps [simp del]

fun pre_frames :: "nat \<Rightarrow> int option \<Rightarrow> string list \<Rightarrow> py_float list list \<Rightarrow> py_float list \<Rightarrow> py_float list list" where
  "pre_frames n wanted [] frames buffer = frames"
| "pre_frames n wanted (raw # lines) frames buffer =
     (let line = py_strip raw
      in if line = [] then pre_frames n wanted lines frames buffer
         else case leading_numbers (py_split line) of
                (xs, bad) \<Rightarrow>
                  if bad then pre_frames n wanted lines frames (buffer @ xs)
                  else (case pre_chop n wanted frames (buffer @ xs) of
                          (frames1, rest, done) \<Rightarrow> if done then frames1 else pre_frames n wanted lines frames1 rest))"

record pre_bvh =
  pr_channels :: "(string option \<times> string) list"
  pr_frames :: "py_float list list"
  pr_time :: py_float

definition pre_parse_bvh :: "string list \<Rightarrow> pre_bvh" where
  "pre_parse_bvh lines =
     (case pre_hierarchy lines pre_header_start of
        (h, rest) \<Rightarrow>
          (case pre_motion_header rest h of
             (h1, motion) \<Rightarrow>
               let n = length (ph_channels h1)
               in \<lparr>pr_channels = ph_channels h1, pr_frames = (if n = 0 then [] else pre_frames n (ph_wanted h1) motion [] []),
                   pr_time = ph_time h1\<rparr>))"

section \<open>Joint maps\<close>

record pre_defaults =
  pd_channel :: string
  pd_scale :: py_float
  pd_bias :: py_float
  pd_min :: py_float
  pd_max :: py_float
  pd_servo_type :: json

record pre_entry =
  pe_joint :: string
  pe_servo :: int
  pe_channel :: string
  pe_scale :: py_float
  pe_bias :: py_float
  pe_min :: py_float
  pe_max :: py_float
  pe_servo_type :: json
  pe_sign :: py_float

definition parse_servo_id :: "json \<Rightarrow> int option result" where
  "parse_servo_id v =
     (case v of
        J_null \<Rightarrow> Inr None
      | J_string s \<Rightarrow> if norm_text s \<in> {''null'', ''none'', ''''} then Inr None else coerce_optional json_int v None
      | _ \<Rightarrow> coerce_optional json_int v None)"

definition pre_axes :: "json \<Rightarrow> (string \<times> string) list" where
  "pre_axes override =
     (let standard = [(''roll'', ''Xrotation''), (''pitch'', ''Yrotation''), (''yaw'', ''Zrotation'')]
      in case override of
           J_object kvs \<Rightarrow>
             fold (\<lambda>(axis, v) m. case v of J_string c \<Rightarrow> AList.update (norm_text axis) (normalize_channel c) m | _ \<Rightarrow> m) kvs standard
         | _ \<Rightarrow> standard)"

definition pre_inverted :: "json \<Rightarrow> bool" where
  "pre_inverted v = (case v of J_string s \<Rightarrow> norm_text s \<in> {''1'', ''true'', ''yes''} | _ \<Rightarrow> inverted v)"

definition pre_sign :: "json \<Rightarrow> json \<Rightarrow> py_float result" where
  "pre_sign sign invert =
     (if sign = J_null then Inr (Fin (if pre_inverted invert then -1 else 1)) else coerce json_float sign (Fin 1))"

record pre_context =
  pc_defaults :: pre_defaults
  pc_aliases :: "(string \<times> string) list"
  pc_axes :: "(string \<times> string) list"
  pc_limits :: json

text \<open>A target as it is written: a dict, or the identifier alone.\<close>

record pre_target =
  pt_id :: json
  pt_joint :: json
  pt_channel :: json
  pt_scale :: py_float
  pt_bias :: py_float
  pt_min :: py_float
  pt_max :: py_float
  pt_servo_type :: json
  pt_sign :: py_float
  pt_limited :: bool

definition pre_target_of :: "pre_defaults \<Rightarrow> string \<Rightarrow> json \<Rightarrow> pre_target result" where
  "pre_target_of d canonical target =
     (case target of
        J_object kvs \<Rightarrow>
          bind_result (coerce json_float (jget_or ''scale'' J_null kvs) (pd_scale d)) (\<lambda>scale.
          bind_result (coerce json_float (jget_or ''bias'' J_null kvs) (pd_bias d)) (\<lambda>bias.
          bind_result (coerce json_float (jget_or ''min'' J_null kvs) (pd_min d)) (\<lambda>lo.
          bind_result (coerce json_float (jget_or ''max'' J_null kvs) (pd_max d)) (\<lambda>hi.
          bind_result (pre_sign (jget_or ''sign'' J_null kvs) (jget_or ''invert'' (J_bool False) kvs)) (\<lambda>sign.
            Inr \<lparr>pt_id = (if has_key ''servo_id'' kvs then jget_or ''servo_id'' J_null kvs else jget_or ''id'' J_null kvs),
                 pt_joint = get_truthy ''bvh_joint'' (get_truthy ''joint'' (get_truthy ''name'' (J_string canonical) kvs) kvs) kvs,
                 pt_channel = get_truthy ''channel'' (jget_or ''axis'' J_null kvs) kvs,
                 pt_scale = scale, pt_bias = bias, pt_min = lo, pt_max = hi,
                 pt_servo_type = jget_or ''servo_type'' (pd_servo_type d) kvs, pt_sign = sign,
                 pt_limited = (has_key ''min'' kvs \<or> has_key ''max'' kvs)\<rparr>)))))
      | _ \<Rightarrow>
          Inr \<lparr>pt_id = target, pt_joint = J_string canonical, pt_channel = J_null, pt_scale = pd_scale d, pt_bias = pd_bias d,
               pt_min = pd_min d, pt_max = pd_max d, pt_servo_type = pd_servo_type d, pt_sign = Fin 1, pt_limited = False\<rparr>)"

definition or_float :: "py_float option \<Rightarrow> py_float \<Rightarrow> py_float" where
  "or_float x d = (case x of None \<Rightarrow> d | Some v \<Rightarrow> v)"

definition append_target :: "pre_context \<Rightarrow> string \<Rightarrow> json \<Rightarrow> pre_entry list result" where
  "append_target c canonical target =
     bind_result (pre_target_of (pc_defaults c) canonical target) (\<lambda>t.
     bind_result (parse_servo_id (pt_id t)) (\<lambda>i.
       case (i, pt_joint t) of
         (Some servo_id, J_string joint) \<Rightarrow>
           bind_result (if pt_limited t then Inr (None, None) else lookup_limits (pc_limits c) servo_id) (\<lambda>(lo, hi).
           bind_result (channel_value (json_or (pt_channel t) (J_string (pd_channel (pc_defaults c))))) (\<lambda>channel.
             Inr [\<lparr>pe_joint = aliased (pc_aliases c) joint, pe_servo = servo_id, pe_channel = channel,
                   pe_scale = pt_scale t, pe_bias = pt_bias t, pe_min = or_float lo (pt_min t), pe_max = or_float hi (pt_max t),
                   pe_servo_type = pt_servo_type t, pe_sign = pt_sign t\<rparr>]))
       | _ \<Rightarrow> Inr []))"

fun append_targets :: "pre_context \<Rightarrow> (string \<times> json) list \<Rightarrow> pre_entry list result" where
  "append_targets c [] = Inr []"
| "append_targets c ((canonical, target) # ts) =
     bind_result (append_target c canonical target) (\<lambda>es. bind_result (append_targets c ts) (\<lambda>fs. Inr (es @ fs)))"

fun pre_axis_targets :: "pre_context \<Rightarrow> string \<Rightarrow> json_object \<Rightarrow> json list" where
  "pre_axis_targets c canonical [] = []"
| "pre_axis_targets c canonical ((key, v) # kvs) =
     (case v of
        J_string value \<Rightarrow>
          if py_isdigit key \<and> CHR ''.'' \<in> set value
          then let axis_part = rev (takeWhile (\<lambda>ch. ch \<noteq> CHR ''.'') (rev value));
                   joint_part = py_strip (take (length value - length axis_part - 1) value);
                   channel = (case map_of (pc_axes c) (norm_text axis_part) of None \<Rightarrow> '''' | Some ch \<Rightarrow> ch)
               in if channel = '''' then pre_axis_targets c canonical kvs
                  else J_object [(''id'', J_string key), (''bvh_joint'', J_string (if joint_part = '''' then canonical else joint_part)),
                         (''channel'', J_string channel)] # pre_axis_targets c canonical kvs
          else pre_axis_targets c canonical kvs
      | _ \<Rightarrow> pre_axis_targets c canonical kvs)"

definition mapping_targets :: "pre_context \<Rightarrow> string \<Rightarrow> json \<Rightarrow> json list" where
  "mapping_targets c canonical mapping =
     (case mapping of
        J_null \<Rightarrow> []
      | J_object kvs \<Rightarrow>
          let axes = pre_axis_targets c canonical kvs
          in if axes \<noteq> [] then axes
             else if has_key ''id'' kvs \<or> has_key ''servo_id'' kvs then [mapping]
             else map snd kvs
      | J_list vs \<Rightarrow> vs
      | _ \<Rightarrow> [mapping])"

definition listed_target :: "json \<Rightarrow> (string \<times> json) list" where
  "listed_target item =
     (case item of
        J_object kvs \<Rightarrow>
          (case get_truthy ''bvh_joint'' (get_truthy ''joint'' (jget_or ''name'' J_null kvs) kvs) kvs of
             J_string canonical \<Rightarrow> [(canonical, item)]
           | _ \<Rightarrow> [])
      | _ \<Rightarrow> [])"

definition expand_joint_map :: "json \<Rightarrow> pre_defaults \<Rightarrow> json \<Rightarrow> json \<Rightarrow> json \<Rightarrow> pre_entry list result" where
  "expand_joint_map joint_map defaults joint_alias axis_channel_map servo_limits =
     (let c = \<lparr>pc_defaults = defaults, pc_aliases = reverse_aliases joint_alias, pc_axes = pre_axes axis_channel_map, pc_limits = servo_limits\<rparr>
      in case joint_map of
           J_list items \<Rightarrow> append_targets c (concat (map listed_target items))
         | J_object kvs \<Rightarrow> append_targets c (concat (map (\<lambda>(k, m). map (Pair k) (mapping_targets c k m)) kvs))
         | _ \<Rightarrow> Inr [])"

section \<open>Actions\<close>

definition pre_channel_index :: "(string option \<times> string) list \<Rightarrow> ((string option \<times> string) \<times> nat) list" where
  "pre_channel_index channels =
     fold (\<lambda>(i, (joint, ch)). AList.update (joint, normalize_channel ch) i) (List.enumerate 0 channels) []"

definition coerce_speed_ms :: "py_float \<Rightarrow> json_object \<Rightarrow> int option \<Rightarrow> int result" where
  "coerce_speed_ms frame_time config override =
     (case override of
        Some s \<Rightarrow> Inr (max 1 s)
      | None \<Rightarrow>
          bind_result (coerce_optional json_int (jget_or ''default_speed_ms'' J_null config) None) (\<lambda>s.
            case s of
              Some k \<Rightarrow> Inr (max 1 k)
            | None \<Rightarrow>
                if py_lt (Fin 0) frame_time
                then bind_result (py_round (float_mult frame_time (Fin 1000))) (\<lambda>k. Inr (max 1 k))
                else Inr 33))"

definition frame_rate :: "py_float \<Rightarrow> int result" where
  "frame_rate frame_time =
     (if py_lt (Fin 0) frame_time then py_round (case frame_time of Fin t \<Rightarrow> float_value (1 / t) | _ \<Rightarrow> Fin 0) else Inr 0)"

definition pre_position :: "pre_entry \<Rightarrow> py_float \<Rightarrow> py_float" where
  "pre_position e angle =
     (let p = float_add (pe_bias e) (float_mult (float_mult (pe_scale e) angle) (pe_sign e))
      in float_max (pe_min e) (float_min (pe_max e) p))"

definition pre_command :: "int \<Rightarrow> py_float list \<Rightarrow> pre_entry \<times> nat \<Rightarrow> json_object result" where
  "pre_command speed frame e =
     bind_result (py_round (pre_position (fst e) (frame ! snd e))) (\<lambda>position.
       Inr [(''id'', J_int (pe_servo (fst e))), (''position'', J_int position), (''speed'', J_int speed),
            (''servo_type'', pe_servo_type (fst e))])"

definition indexed_entries :: "pre_bvh \<Rightarrow> pre_entry list \<Rightarrow> (pre_entry \<times> nat) list" where
  "indexed_entries b entries =
     List.map_filter (\<lambda>e. map_option (Pair e) (map_of (pre_channel_index (pr_channels b)) (Some (pe_joint e), pe_channel e))) entries"

text \<open>What an action becomes; \<open>None\<close> if it is skipped.\<close>

definition preprocess_action :: "json_object \<Rightarrow> int option \<Rightarrow> pre_entry list \<Rightarrow> string \<Rightarrow> pre_bvh \<Rightarrow> json_object option result" where
  "preprocess_action config speed_override entries source b =
     (if pr_frames b = [] then Inr None
      else bind_result (coerce_speed_ms (pr_time b) config speed_override) (\<lambda>speed.
           bind_result (frame_rate (pr_time b)) (\<lambda>fps.
             let es = indexed_entries b entries
             in if es = [] then Inr None
                else bind_result (each_result (\<lambda>frame. each_result (pre_command speed frame) es) (pr_frames b)) (\<lambda>frames.
                       Inr (Some [(''fps'', J_int fps), (''frames'', J_list (map (\<lambda>f. J_list (map J_object f)) frames)),
                                  (''source'', J_string source)])))))"

definition pre_defaults_of :: "json_object \<Rightarrow> pre_defaults result" where
  "pre_defaults_of config =
     bind_result (channel_value (jget_or ''default_channel'' (J_string ''Zrotation'') config)) (\<lambda>channel.
     bind_result (json_float (jget_or ''default_scale'' (J_float (Fin 10)) config)) (\<lambda>scale.
     bind_result (json_float (jget_or ''default_bias'' (J_float (Fin 1500)) config)) (\<lambda>bias.
     bind_result (json_float (jget_or ''default_min'' (J_float (Fin 500)) config)) (\<lambda>lo.
     bind_result (json_float (jget_or ''default_max'' (J_float (Fin 2500)) config)) (\<lambda>hi.
       Inr \<lparr>pd_channel = channel, pd_scale = scale, pd_bias = bias, pd_min = lo, pd_max = hi,
            pd_servo_type = jget_or ''default_servo_type'' (J_string ''bus'') config\<rparr>)))))"

fun preprocess_actions ::
  "(string \<Rightarrow> string) \<Rightarrow> (string \<Rightarrow> string list option) \<Rightarrow> json_object \<Rightarrow> int option \<Rightarrow> pre_entry list \<Rightarrow> string list
    \<Rightarrow> json_object \<Rightarrow> json_object result" where
  "preprocess_actions source file config speed entries [] data = Inr data"
| "preprocess_actions source file config speed entries (name # names) data =
     (case file name of
        None \<Rightarrow> preprocess_actions source file config speed entries names data
      | Some lines \<Rightarrow>
          bind_result (preprocess_action config speed entries (source name) (pre_parse_bvh lines)) (\<lambda>r.
            preprocess_actions source file config speed entries names
              (case r of None \<Rightarrow> data | Some d \<Rightarrow> AList.update name (J_object d) data)))"

text \<open>
  The configuration that is written, or \<open>None\<close> where the script leaves with a message. \<open>all_names\<close>: those of the
  files in the directory, if \<open>--all\<close> is given.
\<close>

definition preprocess_config ::
  "(string \<Rightarrow> string) \<Rightarrow> (string \<Rightarrow> string list option) \<Rightarrow> string list option \<Rightarrow> int option \<Rightarrow> string option \<Rightarrow> json_object
    \<Rightarrow> json_object option result" where
  "preprocess_config source file all_names speed input_dir config =
     bind_result (case all_names of
                    Some names \<Rightarrow> Inr names
                  | None \<Rightarrow> bind_result (json_iter (get_truthy ''bvh_list'' (J_list []) config)) (\<lambda>vs.
                              Inr (filter (\<lambda>n. n \<noteq> '''') (List.map_filter json_text vs)))) (\<lambda>names.
       if names = [] then Inr None
       else bind_result (pre_defaults_of config) (\<lambda>defaults.
            bind_result (expand_joint_map (get_truthy ''joint_map'' (J_object []) config) defaults (jget_or ''joint_alias'' J_null config)
              (jget_or ''axis_channel_map'' J_null config) (jget_or ''servo_limits'' J_null config)) (\<lambda>entries.
              if entries = [] then Inr None
              else bind_result (preprocess_actions source file config speed entries names
                     (case jget_or ''bvh_data'' J_null config of J_object kvs \<Rightarrow> kvs | _ \<Rightarrow> [])) (\<lambda>data.
                     let config1 = AList.update ''bvh_data'' (J_object data) config
                     in Inr (Some (case input_dir of None \<Rightarrow> config1 | Some d \<Rightarrow> AList.update ''bvh_dir'' (J_string d) config1))))))"

section \<open>Agreement with the player\<close>

lemma float_mult_commute: "float_mult a b = float_mult b a"
  by (cases a; cases b) (simp_all add: float_mult_def mult.commute)

text \<open>The positions are those of the player where the limits are in order, unless the angle gives no number.\<close>

lemma positions_agree:
  assumes "tg_scale t = pe_scale e" "tg_bias t = pe_bias e" "tg_sign t = pe_sign e"
    "tg_min t = Some (pe_min e)" "tg_max t = Some (pe_max e)" "pe_min e = Fin lo" "pe_max e = Fin hi" "lo \<le> hi"
    "float_add (pe_bias e) (float_mult (float_mult (pe_scale e) angle) (pe_sign e)) \<noteq> NaN"
  shows "pre_position e angle = target_position t angle"
  using assms
  by (cases "float_add (pe_bias e) (float_mult (float_mult (pe_scale e) angle) (pe_sign e))")
     (auto simp: pre_position_def target_position_def float_mult_commute [of angle] float_max_def float_min_def)

text \<open>For an angle that is no number the script takes the upper limit, the player the lower one.\<close>

lemma nan_angle_at_maximum:
  assumes "pe_min e = Fin lo" "pe_max e = Fin hi" "lo \<le> hi"
  shows "pre_position e NaN = Fin hi"
  using assms by (auto simp: pre_position_def float_mult_def float_add_def float_max_def float_min_def)

definition positive :: "int option \<Rightarrow> bool" where
  "positive wanted \<longleftrightarrow> (case wanted of None \<Rightarrow> True | Some t \<Rightarrow> 0 < t)"

lemma wanted_is_reached: "positive wanted \<Longrightarrow> wanted_reached wanted = frames_reached wanted"
  by (rule ext) (auto simp: positive_def wanted_reached_def frames_reached_def split: option.splits)

lemma pre_chop_is_chop:
  assumes "positive wanted" "\<not> frames_reached wanted frames"
  shows "\<exists>frames1 rest. chop_frames n wanted frames buffer = (frames1, rest)
    \<and> pre_chop n wanted frames buffer = (frames1, rest, frames_reached wanted frames1)"
  using assms
proof (induction n wanted frames buffer rule: pre_chop.induct)
  case (1 n wanted frames buffer)
  note r = wanted_is_reached [OF 1(2)]
  show ?case
  proof (cases "0 < n \<and> n \<le> length buffer \<and> \<not> frames_reached wanted (frames @ [take n buffer])")
    case True
    have "\<exists>frames1 rest. chop_frames n wanted (frames @ [take n buffer]) (drop n buffer) = (frames1, rest)
        \<and> pre_chop n wanted (frames @ [take n buffer]) (drop n buffer) = (frames1, rest, frames_reached wanted frames1)"
      by (rule 1(1)) (use True 1(2) in \<open>auto simp: r\<close>)
    then show ?thesis
      using True chop_frames.simps [of n wanted frames buffer] pre_chop.simps [of n wanted frames buffer] by (simp add: Let_def r)
  next
    case False
    then show ?thesis
      using 1(3) chop_frames.simps [of n wanted frames buffer] pre_chop.simps [of n wanted frames buffer] by (auto simp: Let_def r)
  qed
qed

text \<open>A line of the motion part with nothing but numbers.\<close>

definition plain_line :: "string \<Rightarrow> bool" where
  "plain_line raw \<longleftrightarrow>
     (let line = py_strip raw
      in \<not> py_startswith line ''Frames:'' \<and> \<not> py_startswith line ''Frame Time:'' \<and> \<not> snd (leading_numbers (py_split line)))"

lemma leading_numbers_all: "leading_numbers ws = (xs, False) \<Longrightarrow> xs = map the (filter (\<lambda>v. v \<noteq> None) (map text_float ws))"
  by (induction ws arbitrary: xs) (auto split: option.splits prod.splits)

text \<open>
  C39: The script and the player cut the same frames out of a motion part whose lines hold nothing but numbers: for any
  number of channels, in any distribution of the values over the lines, with a positive number of frames announced or
  with none.
\<close>

theorem readers_cut_alike:
  assumes "list_all plain_line lines" "positive wanted" "\<not> frames_reached wanted frames"
  shows "pre_frames n wanted lines frames buffer
    = mo_frames (parse_motion n lines \<lparr>mo_count = wanted, mo_time = time, mo_frames = frames, mo_pending = buffer\<rparr>)"
  using assms
proof (induction lines arbitrary: frames buffer)
  case (Cons raw lines)
  define line where "line = py_strip raw"
  have plain: "\<not> py_startswith line ''Frames:''" "\<not> py_startswith line ''Frame Time:''"
    and "\<not> snd (leading_numbers (py_split line))"
    using Cons.prems(1) by (simp_all add: plain_line_def Let_def line_def)
  then obtain xs where xs: "leading_numbers (py_split line) = (xs, False)" by (metis prod.collapse)
  then have l: "line_numbers line = xs" using leading_numbers_all [OF xs] by (simp add: line_numbers_def)
  obtain frames1 rest where c: "chop_frames n wanted frames (buffer @ xs) = (frames1, rest)"
      "pre_chop n wanted frames (buffer @ xs) = (frames1, rest, frames_reached wanted frames1)"
    using pre_chop_is_chop [OF Cons.prems(2,3)] by blast
  show ?case
  proof (cases "line = []")
    case True
    then show ?thesis using Cons by (simp add: line_def [symmetric])
  next
    case ne: False
    show ?thesis
      using Cons.IH [of frames1 rest] Cons.prems ne plain
      by (simp add: Let_def line_def [symmetric] xs l c motion_line_def)
  qed
qed simp

lemma demo_plain: "list_all plain_line [''1 2 3'', ''4 5'']"
  by (simp add: plain_line_def demo_lines demo_words demo_float_texts Let_def)

lemma readers_cut_alike_witness:
  "pre_frames 2 (Some 2) [''1 2 3'', ''4 5''] [] [] = [[Fin 1, Fin 2], [Fin 3, Fin 4]]"
proof -
  have r: "positive (Some 2)" "\<not> frames_reached (Some 2) ([] :: py_float list list)" by (simp_all add: positive_def frames_reached_def)
  show ?thesis
    using readers_cut_alike [OF demo_plain r, of 2 "[]" None] demo_motion
    by (simp add: motion_start_def header_count_def demo_lines Let_def)
qed

section \<open>Disagreement with the player\<close>

text \<open>
  A mapping that is a single target, which the script takes as one: the player takes the values of its fields for
  identifiers and moves a servo for each number among them.
\<close>

lemma single_target_split:
  assumes "tf_channel f = J_string ch" "map_of (tf_index f) (joint, ch) = Some k" "tf_limits f = J_object []"
  shows "mapping_targets c canonical (J_object [(''id'', J_int 3), (''min'', J_int 500)]) = [J_object [(''id'', J_int 3), (''min'', J_int 500)]]"
    "\<exists>t u. plain_descs f joint (mapping_items (J_object [(''id'', J_int 3), (''min'', J_int 500)])) = Inr [t, u] \<and> tg_id t = 3 \<and> tg_id u = 500"
  using assms
  by (simp_all add: mapping_targets_def py_isdigit_def is_digit_def has_key_def mapping_items_def raw_target_of_def complete_target_def
      target_id_def coerce_optional_def coerce_def lookup_limits_def limit_entry_def jget_or_def jget_def json_dict_def channel_at_def
      target_sign_def inverted_def Let_def)

text \<open>The letter of an axis names its channel in the script; the player finds no channel of that name.\<close>

lemma axis_letter_ignored:
  assumes "map_of (tf_index f) (joint, ''Y'') = None" "rt_channel t = J_string ''Y''" "target_id (rt_id t) = Inr (Some i)"
    "tf_limits f = J_object []"
  shows "channel_value (J_string ''Y'') = Inr ''Yrotation''" "complete_target f joint t = Inr None"
proof -
  have "normalize_channel ''Y'' = ''Yrotation''" by code_simp
  then show "channel_value (J_string ''Y'') = Inr ''Yrotation''" by (simp add: channel_value_def)
  show "complete_target f joint t = Inr None"
    using assms by (simp add: complete_target_def lookup_limits_def limit_entry_def jget_or_def jget_def json_dict_def channel_at_def)
qed

end
