(* ===== verification/Spec2Isabelle.thy ===== *)
theory Spec2Isabelle
  imports Execution_Manager Servo_System Protocol_Registry Task_Bridge Motion_Safety Motion_Handshake Kinematics_Solver
    Teleop_Handshake Intent_Contract Scene_Parser Imu_Serial Imu_Driver Sim_Bridge
    Bvh_Safety Bvh_Convert Bvh_Preprocess
begin

text \<open>
  A verification library for the motion path of the robot runtime: the Python nodes that take a task,
  turn it into a motion goal, decide who may move the robot, stop it, and write servo frames to the
  serial buses; and the nodes at its edges, where speech, vision and web clients come in.

  The parts, in the order of a command:

  \<^item> \<open>Task_Contract\<close> models \<open>task_contract.py\<close> and \<open>context_adapter.py\<close> of the task bridge: the
    checks of a task goal, its translation to a motion goal and back. \<open>Task_Bridge\<close> models
    \<open>bridge_node.py\<close>: the callbacks of its action server, cut at awaits and at the lock, as a step
    relation \<open>bridge_step\<close>; \<open>Action_Server\<close> holds the states of a goal that the two servers share.
    Every goal is answered with one end, one result and a free slot; a cancellation can be lost.
  \<^item> \<open>Motion_Goal\<close> models \<open>motion_execution.py\<close>: validation of motion goals, the tracker of stable
    samples, the reading of the published task state. \<open>Scene_Admission\<close> models \<open>scene_admission.py\<close>,
    the gate of the perceived scene, over the finite and non-finite floats of \<open>Py_Float\<close>.
  \<^item> \<open>Motion_Controller\<close> models \<open>controller_node.py\<close>: a goal is a callback in progress at one
    \<open>motion_point\<close>, the step relation \<open>controller_step\<close> advances it by one section with a
    \<open>motion_input\<close>, the outcome of its await (an answer, a time-out, an exception). \<open>Motion_Safety\<close>
    has the invariant \<open>controller_ok\<close> over all interleavings and what follows from it: commands need
    a lease, success is confirmed, a commanded motion is reached or stopped, no lease stays behind.
  \<^item> \<open>Motion_Handshake\<close> joins this node with the arbiter: the task state that the execution manager
    publishes is read by the controller as the answer the arbiter gave.
  \<^item> \<open>Parallel_Mechanism\<close> models \<open>tdpm.py\<close> over the reals (rotations, inverse and forward kinematics,
    Jacobian, the Newton iteration) and \<open>Kinematics_Solver\<close> the conversion of poses to servo commands
    in \<open>kinematics_solver.py\<close>.
  \<^item> \<open>Arbitrator\<close> models \<open>execution_manager/arbitrator.py\<close>: who controls the robot (task lease,
    teleop lease, motion burst, emergency stop). The record \<open>command_arbitrator\<close> has the attributes of
    \<open>CommandArbitrator\<close>, one definition per method. The abstract specification \<open>owner\<close> says what each
    request does to control; the refinement lemmas show that the methods implement it.
  \<^item> \<open>Execution_Adapters\<close> models the three adapters beside it: message translation and stop summaries.
  \<^item> \<open>Execution_Manager\<close> models \<open>execution_manager_node.py\<close> as a step relation over callbacks in
    progress, cut where the code gives up its lock or awaits an answer. An invariant over all
    interleavings gives the order of commands and safety states, the permanence of stop faults and the
    progress of every callback.
  \<^item> \<open>Safety_Latch\<close> models \<open>servo_hardware/safety_latch.py\<close> and states the interface \<open>safety_gate\<close>;
    the latch, the port driver and the router are its interpretations.
  \<^item> \<open>LX_Protocol\<close> and \<open>ZL_Protocol\<close> model the two wire protocols byte for byte over the interface
    \<open>servo_protocol\<close> of \<open>Servo_Protocol\<close>; \<open>Decimal_Text\<close> and \<open>Json_Values\<close> hold the Python
    integer formatting and the JSON values they use; \<open>Servo_Messages\<close> the ROS messages.
  \<^item> \<open>Bus_Port_Driver\<close> models \<open>bus_port_driver.py\<close>: unit conversions, command tables, moves, the
    execute and read services.
  \<^item> \<open>Protocol_Registry\<close> and \<open>Bus_Router\<close> model \<open>bus_protocol_registry.py\<close> and
    \<open>bus_protocol_router.py\<close> over an interface of driver clients; \<open>Servo_System\<close> closes it with the
    modelled drivers, so that the safety of the fan-out spans both nodes.
  \<^item> \<open>Replay_Window\<close> is the bounded window of remembered keys, a locale that the arbiter's task
    tombstones interpret.
  \<^item> \<open>Web_Commands\<close> models \<open>message_handler.py\<close> of the teleoperation bridge, the formats of a servo
    command as JSON with the exceptions of \<open>Py_Result\<close>; \<open>Web_Responses\<close> models \<open>error_codes.py\<close> and
    \<open>stream_schemas.py\<close>. \<open>Teleop_Bridge\<close> models \<open>websocket_handler.py\<close> and the commands of
    \<open>bridge_node.py\<close>, \<open>Teleop_Server\<close> the sessions of \<open>ws_server.py\<close> and the subscriptions, as the step
    relation \<open>web_step\<close>: a message, a broadcast or one half of a state callback is a step.
    \<open>Teleop_Safety\<close> has its invariant \<open>web_ok\<close>: a command leaves only for the client whom the known
    state names as holder, and one client at a time is told that it holds control.
  \<^item> \<open>Teleop_Handshake\<close> joins the bridge with the arbiter: on a current state both decide alike, and the
    release of a client that disconnects is accepted.
  \<^item> \<open>Edge_Json\<close> has the field checks of the two JSON edges. \<open>Intent_Contract\<close> models
    \<open>intent_contract.py\<close> and \<open>speech_interface_node.py\<close> (\<open>speech_step\<close>, cut at its awaits): what is
    accepted becomes one valid task. \<open>Scene_Parser\<close> models \<open>scene_parser.py\<close> and
    \<open>vision_perception_node.py\<close>, joined with the scene gate: a published scene is never refused for its
    form, a rejected one withdraws admission.
  \<^item> \<open>Imu_Values\<close> decodes the registers and frames of the inertial sensor; \<open>Imu_Serial\<close> models
    \<open>imu_serial_driver.py\<close>, whose receive thread and timer are the steps of \<open>imu_step\<close>, and \<open>Imu_Driver\<close> the
    driver on the I2C bus.
  \<^item> \<open>Servo_Config\<close>, \<open>Bus_Servo\<close> and \<open>Pca_Servo\<close> model the single-node drivers \<open>bus_servo.py\<close>, \<open>pca_servo.py\<close> and
    \<open>servo_router.py\<close> with their offset and limit files; \<open>Sim_Bridge\<close> the node that forwards commands to a simulation.
  \<^item> The playback of motion capture (package \<open>record_load_action\<close>): \<open>Bvh_Player\<close> models the threads of
    \<open>bvh_player.py\<close>, its operations and workers cut at locks, events and joins, and shows that a stop that is confirmed is
    final and that a stopped worker ends. \<open>Bvh_Extension\<close> models the request, runtime, adapter and extension by
    which the bridge reaches it, \<open>Bvh_Safety\<close> the interlock with the execution state: a completed interlock is
    silent, and it lets pass what the arbiter admits. \<open>Bvh_Parser\<close>, \<open>Bvh_Action\<close> and \<open>Bvh_Frames\<close> model how an
    action, its files and their channels become commands, \<open>Bvh_Playback\<close> shows that no published command leaves the
    limits. \<open>Bvh_Convert\<close> models \<open>bvh_static_convert.py\<close>, with the equivalence of a converted action, and
    \<open>Bvh_Preprocess\<close> the script \<open>preprocess_bvh.py\<close>, with what it shares with the player.
  \<^item> This theory composes the chain: from a motion command to the frame on the wire, and from an
    active safety state to the commands it makes stale.

  Modelling choices. Python integers are \<open>int\<close>, bytes \<open>8 word\<close>, strings character lists over the
  code points 0 to 255. Times in seconds are reals: the code only adds, subtracts and compares them.
  Quotients that the code takes in floating point and rounds at once are taken exactly and rounded to
  even. Fresh leases, clock readings, serial input, service answers and the interleaving of callbacks
  are arguments. The default callback group runs one callback at a time, an asynchronous one until it
  returns; the service group is reentrant; the clock does not run backwards. The loops are structural
  recursions, except where fuel is taken from the length of the input, which each iteration shortens.
  The scanner of \<open>json.loads\<close> is a parameter; what the hooks of the code do with what it reads is modelled.
  Results that are JSON values print as themselves.

  Not modelled: ROS parameters, topic names, quality of service, log lines, free-text messages and the
  stamps of responses; of the teleoperation bridge the loading of extensions and the start
  and stop of its thread; threads below the granularity of the locks; the C++ hardware plugins; the
  rounding of the kinematics, its scipy variant and its printed reports; command lines and the writing of files;
  launch files, profiling scripts and the aggregation of debug output, which are start-up glue or offline tooling.
\<close>

section \<open>From the execution manager to the servo bus\<close>

text \<open>
  C12: A motion command that a client sends in pulses, angles or servo units reaches the LX bus as
  one valid move frame for that servo: once the execution manager has translated it, a driver that
  is not latched and whose fence is older than the manager's stamp writes exactly one frame, whose
  parameters are the normalized target and the requested duration, each clamped to the range of
  the protocol; a command without a duration takes the driver's default.
\<close>

theorem motion_command_reaches_the_wire:
  assumes "mc_servo_type msg = ''bus''" "\<not> latch_latched (pd_latch d)" "latch_fence_ns (pd_latch d) < t"
    "is_allowed_id ''lx'' (mc_servo_id msg) d" "sr_ready run"
  shows "\<exists>frame pl ph tl th.
    pd_frames (on_lx_command (to_servo_command (motion_command_to_setpoint msg) (ns_to_ros_time t)) run d)
      = pd_frames d @ [frame]
    \<and> iter_valid_packets frame = [(word_of_int (clamp 0 253 (mc_servo_id msg)), 1, [pl, ph, tl, th])]
    \<and> join_u16 (uint pl) (uint ph) = clamp 0 1000 (fst (normalize_move_target ''lx'' (mc_position msg)))
    \<and> join_u16 (uint tl) (uint th) =
        clamp 0 30000 (if 0 < mc_duration_ms msg then mc_duration_ms msg else pd_default_speed d)"
proof -
  let ?c = "to_servo_command (motion_command_to_setpoint msg) (ns_to_ros_time t)"
  let ?speed = "if 0 < mc_duration_ms msg then mc_duration_ms msg else pd_default_speed d"
  have f: "sc_servo_type ?c = ''bus''" "sc_servo_id ?c = mc_servo_id msg" "sc_position ?c = mc_position msg"
    "ros_time_to_ns (sc_stamp ?c) = t" "(if 0 < sc_speed ?c then sc_speed ?c else pd_default_speed d) = ?speed"
    using assms(1) by (simp_all add: to_servo_command_def motion_command_to_setpoint_def resolve_duration_ms_def)
  have bus: "is_bus_command ?c" unfolding is_bus_command_def f(1) by code_simp
  have admit: "latch_admit t False 0 (pd_latch d) = (True, pd_latch d)" using assms(2,3) by (simp add: latch_admit_def)
  obtain u p where n: "normalize_move_target ''lx'' (mc_position msg) = (u, p)" by fastforce
  obtain frame pl ph tl th where w: "encode_move_time_write (mc_servo_id msg) u (clamp 0 30000 ?speed) = Inr frame"
    "iter_valid_packets frame = [(word_of_int (clamp 0 253 (mc_servo_id msg)), 1, [pl, ph, tl, th])]"
    "join_u16 (uint pl) (uint ph) = clamp 0 1000 u" "join_u16 (uint tl) (uint th) = clamp 0 30000 (clamp 0 30000 ?speed)"
    using lx_move_frame by metis
  have enc: "protocol_encode_move ''lx'' (mc_servo_id msg) u (clamp 0 30000 ?speed) = Inr frame"
    using w(1) by (simp add: protocol_encode_move_def lx_encode_move_command_def)
  have "pd_frames (on_lx_command ?c run d) = pd_frames d @ [frame]"
    using assms(4,5) enc
    by (simp add: on_lx_command_def on_move_command_def bus admit f execute_move_def n write_frame_def Let_def)
  moreover have "clamp 0 30000 (clamp 0 30000 ?speed) = clamp 0 30000 ?speed"
    using clamp_bounds [of 0 30000 ?speed] by (intro clamp_id) simp_all
  ultimately show ?thesis using w(2-4) n by (intro exI [of _ frame] exI [of _ pl] exI [of _ ph] exI [of _ tl] exI [of _ th]) simp
qed

theorem motion_command_reaches_the_wire_witness:
  "length (pd_frames (on_lx_command (to_servo_command (motion_command_to_setpoint demo_command)
     (ns_to_ros_time 5)) demo_run (pd_init [] [1] 100))) = 1"
proof -
  have a: "mc_servo_type demo_command = ''bus''" "\<not> latch_latched (pd_latch (pd_init [] [1] 100))"
    "latch_fence_ns (pd_latch (pd_init [] [1] 100)) < 5" "is_allowed_id ''lx'' (mc_servo_id demo_command) (pd_init [] [1] 100)"
    "sr_ready demo_run" by code_simp+
  show ?thesis using motion_command_reaches_the_wire [OF a] by (auto simp: pd_init_def)
qed

text \<open>
  C1: Motion does not survive a stop in the middleware: whatever command the execution manager has
  sent before it publishes an active safety state, a driver that receives that state - by topic, and
  with whatever else before, between and after, later releases included - drops the command if it
  arrives only then.
\<close>

theorem commands_before_stop_are_dropped:
  assumes "em_reachable m" "em_log m = xs @ Out_safety True why st # ys" "Out_command c \<in> set ys"
    "Pe_safety_topic True (ns_to_ros_time st) now \<in> set es"
  shows "on_lx_command c run (pd_run es d) = pd_run es d \<and> on_zl_command c run (pd_run es d) = pd_run es d"
proof -
  have "0 < st \<and> ros_time_to_ns (sc_stamp c) \<le> st"
    using em_reachable_ok [OF assms(1)] covered_commands [of xs why st ys c] assms(2,3) by (simp add: em_ok_def)
  then show ?thesis using late_move_dropped [OF assms(4)] by simp
qed

theorem commands_before_stop_are_dropped_witness:
  "\<exists>c. Out_command c \<in> set (em_log race_end) \<and>
     on_lx_command c demo_run (pd_run [Pe_safety_topic True (ns_to_ros_time (sec_ns 5)) 6,
         Pe_safety_service False (ns_to_ros_time (sec_ns 6)) 7] (pd_init [] [1] 100))
     = pd_run [Pe_safety_topic True (ns_to_ros_time (sec_ns 5)) 6,
         Pe_safety_service False (ns_to_ros_time (sec_ns 6)) 7] (pd_init [] [1] 100)"
proof -
  obtain c where c: "Out_command c \<in> set (drop (Suc 4) (em_log race_end))" using race_command(2) by blast
  have "Pe_safety_topic True (ns_to_ros_time (sec_ns 5)) 6 \<in> set [Pe_safety_topic True (ns_to_ros_time (sec_ns 5)) 6,
      Pe_safety_service False (ns_to_ros_time (sec_ns 6)) 7]" by simp
  from commands_before_stop_are_dropped [OF demo_reachable(2) race_command(1) c this] in_set_dropD [OF c]
  show ?thesis by blast
qed

section \<open>A release that overtakes an emergency stop\<close>

text \<open>
  What a driver receives of an output of the execution manager, at time \<open>now\<close>: safety states by
  topic, releases and stops by service.
\<close>

fun driver_input :: "int \<Rightarrow> em_output \<Rightarrow> pd_event list" where
  "driver_input now (Out_safety active why st) = [Pe_safety_topic active (ns_to_ros_time st) now]"
| "driver_input now (Out_release_request st) = [Pe_safety_service False (ns_to_ros_time st) now]"
| "driver_input now (Out_stop sid protocol command) =
     [Pe_execute \<lparr>xq_servo_id = sid, xq_protocol = protocol, xq_command = command, xq_params = [],
        xq_stamp = No_stamp\<rparr> now demo_run]"
| "driver_input now _ = []"

definition driver_inputs :: "int \<Rightarrow> exec_manager \<Rightarrow> pd_event list" where
  "driver_inputs now m = concat (map (driver_input now) (rev (em_log m)))"

text \<open>
  C5: An emergency stop can leave the drivers released: \<open>_finish_stop_operation\<close> checks under the
  lock that no stop is in force, but takes the stamp of its release request only after giving the
  lock up. In the run \<open>race_end\<close> an emergency stop is handled in between, its stop command sent and
  answered; the release request then carries the later stamp, and a driver that received everything
  the node sent, in order, is not latched - although the emergency stop is active, no operation is
  pending and no fault is latched, so that nothing in the node is left to stop it again.
\<close>

theorem release_overtakes_estop:
  "\<exists>m now. em_reachable m \<and> estop_active (em_arb m) \<and> em_ops m = {} \<and> em_fault m = ''''
     \<and> (\<forall>s. em_jobs m s = None)
     \<and> \<not> latch_latched (pd_latch (pd_run (driver_inputs now m) (pd_init [] [1] 100)))"
proof -
  have f: "estop_active (em_arb race_end)" "em_ops race_end = {}" "em_fault race_end = []"
    "\<not> latch_latched (pd_latch (pd_run (driver_inputs (sec_ns 5) race_end) (pd_init [] [1] 100)))" by code_simp+
  show ?thesis using demo_reachable(2) f race_idle by blast
qed

end
